(* ===== verification/Pytext.thy ===== *)
theory Pytext
  imports Prelude
begin

text \<open>
  Python text. A \<open>str\<close> is modelled by its UTF-8 bytes (a \<open>char list\<close>, one \<open>char\<close> per
  byte); a lone surrogate, which Python strings may hold after \<open>json.loads\<close> of an escape, is
  kept in its three-byte form, so that \<open>encodable\<close> says when \<open>s.encode("utf-8")\<close> raises.
  On these bytes the lexicographic order is Python's code point order, \<open>length\<close> is
  \<open>len(s.encode())\<close> and \<open>py_len\<close> is \<open>len(s)\<close>.
\<close>

section \<open>UTF-8\<close>

definition is_cont :: "char \<Rightarrow> bool" where
  "is_cont c \<longleftrightarrow> 128 \<le> ord c \<and> ord c < 192"

text \<open>One code point off the front, in the shortest form only; surrogates are let through.\<close>

fun utf8_next :: "string \<Rightarrow> (nat \<times> string) option" where
  "utf8_next [] = None"
| "utf8_next (a # r) =
     (if ord a < 128 then Some (ord a, r)
      else if 194 \<le> ord a \<and> ord a < 224 then
        (case r of
           b # r' \<Rightarrow> if is_cont b then Some ((ord a - 192) * 64 + (ord b - 128), r') else None
         | _ \<Rightarrow> None)
      else if 224 \<le> ord a \<and> ord a < 240 then
        (case r of
           b # c # r' \<Rightarrow>
             (let cp = (ord a - 224) * 4096 + (ord b - 128) * 64 + (ord c - 128)
              in if is_cont b \<and> is_cont c \<and> 2048 \<le> cp then Some (cp, r') else None)
         | _ \<Rightarrow> None)
      else if 240 \<le> ord a \<and> ord a < 245 then
        (case r of
           b # c # d # r' \<Rightarrow>
             (let cp = (ord a - 240) * 262144 + (ord b - 128) * 4096
                       + (ord c - 128) * 64 + (ord d - 128)
              in if is_cont b \<and> is_cont c \<and> is_cont d \<and> 65536 \<le> cp \<and> cp < 1114112
                 then Some (cp, r') else None)
         | _ \<Rightarrow> None)
      else None)"

lemma utf8_next_shorter: "utf8_next s = Some (cp, r) \<Longrightarrow> length r < length s"
  by (induction s rule: utf8_next.induct)
    (auto simp: Let_def split: if_splits list.splits)

function utf8_decode :: "string \<Rightarrow> nat list option" where
  "utf8_decode s =
     (if s = [] then Some []
      else (case utf8_next s of
              None \<Rightarrow> None
            | Some (cp, r) \<Rightarrow> map_option (Cons cp) (utf8_decode r)))"
  by pat_completeness auto
termination
  by (relation "measure length") (auto dest: utf8_next_shorter)

declare utf8_decode.simps [simp del]

definition is_surrogate :: "nat \<Rightarrow> bool" where
  "is_surrogate cp \<longleftrightarrow> 55296 \<le> cp \<and> cp < 57344"

definition code_points :: "string \<Rightarrow> nat list" where
  "code_points s = (case utf8_decode s of Some cps \<Rightarrow> cps | None \<Rightarrow> map ord s)"

text \<open>\<open>raw.decode("utf-8")\<close> succeeds; \<open>s.encode("utf-8")\<close> succeeds.\<close>

definition utf8_valid :: "string \<Rightarrow> bool" where
  "utf8_valid s \<longleftrightarrow> (case utf8_decode s of None \<Rightarrow> False | Some cps \<Rightarrow> \<not> list_ex is_surrogate cps)"

definition encodable :: "string \<Rightarrow> bool" where
  "encodable s \<longleftrightarrow> \<not> list_ex is_surrogate (code_points s)"

definition py_len :: "string \<Rightarrow> nat" where
  "py_len s = length (code_points s)"

definition utf8_encode_cp :: "nat \<Rightarrow> string" where
  "utf8_encode_cp cp =
     (if cp < 128 then [char_of cp]
      else if cp < 2048 then [char_of (192 + cp div 64), char_of (128 + cp mod 64)]
      else if cp < 65536 then
        [char_of (224 + cp div 4096), char_of (128 + cp div 64 mod 64), char_of (128 + cp mod 64)]
      else
        [char_of (240 + cp div 262144), char_of (128 + cp div 4096 mod 64),
         char_of (128 + cp div 64 mod 64), char_of (128 + cp mod 64)])"

lemma utf8_decode_Nil [simp]: "utf8_decode [] = Some []"
  by (simp add: utf8_decode.simps)

lemma utf8_decode_ascii_Cons:
  "ord c < 128 \<Longrightarrow> utf8_decode (c # s) = map_option (Cons (ord c)) (utf8_decode s)"
  by (simp add: utf8_decode.simps [of "c # s"])

lemma utf8_decode_ascii: "is_ascii s \<Longrightarrow> utf8_decode s = Some (map ord s)"
  by (induction s) (simp_all add: is_ascii_def utf8_decode_ascii_Cons)

lemma code_points_ascii [text_simps]: "is_ascii s \<Longrightarrow> code_points s = map ord s"
  by (simp add: code_points_def utf8_decode_ascii)

lemma py_len_ascii [text_simps]: "is_ascii s \<Longrightarrow> py_len s = length s"
  by (simp add: py_len_def code_points_ascii)

lemma ascii_no_surrogate: "is_ascii s \<Longrightarrow> \<not> list_ex is_surrogate (map ord s)"
  by (induction s) (auto simp: is_ascii_def is_surrogate_def)

lemma encodable_ascii [text_simps]: "is_ascii s \<Longrightarrow> encodable s"
  by (simp add: encodable_def code_points_ascii ascii_no_surrogate)

lemma utf8_valid_ascii [text_simps]: "is_ascii s \<Longrightarrow> utf8_valid s"
  by (simp add: utf8_valid_def utf8_decode_ascii ascii_no_surrogate)

lemma is_ascii_Nil [simp]: "is_ascii []"
  by (simp add: is_ascii_def)

lemma is_ascii_Cons [simp]: "is_ascii (c # s) \<longleftrightarrow> ord c < 128 \<and> is_ascii s"
  by (simp add: is_ascii_def)

lemma is_ascii_append [simp]: "is_ascii (s @ t) \<longleftrightarrow> is_ascii s \<and> is_ascii t"
  by (simp add: is_ascii_def)

section \<open>Identifier patterns\<close>

text \<open>\<open>^[0-9a-f]{64}$\<close>\<close>

definition sha256_text :: "string \<Rightarrow> bool" where
  "sha256_text s \<longleftrightarrow> length s = 64 \<and> list_all is_lower_hex s"

text \<open>\<open>^[a-z0-9][a-z0-9._:-]{0,127}$\<close>\<close>

definition safe_token_char :: "char \<Rightarrow> bool" where
  "safe_token_char c \<longleftrightarrow> is_lower_alpha c \<or> is_digit c \<or> c \<in> {CHR ''.'', CHR ''_'', CHR '':'', CHR ''-''}"

fun safe_token :: "string \<Rightarrow> bool" where
  "safe_token [] = False"
| "safe_token (c # cs) =
     ((is_lower_alpha c \<or> is_digit c) \<and> list_all safe_token_char cs \<and> length cs \<le> 127)"

text \<open>\<open>[A-Za-z0-9][A-Za-z0-9_.:/-]{0,127}\<close>\<close>

definition label_char :: "char \<Rightarrow> bool" where
  "label_char c \<longleftrightarrow> is_lower_alpha c \<or> is_upper_alpha c \<or> is_digit c
     \<or> c \<in> {CHR ''_'', CHR ''.'', CHR '':'', CHR ''/'', CHR ''-''}"

fun label_text :: "string \<Rightarrow> bool" where
  "label_text [] = False"
| "label_text (c # cs) =
     ((is_lower_alpha c \<or> is_upper_alpha c \<or> is_digit c)
      \<and> list_all label_char cs \<and> length cs \<le> 127)"

lemma ord_punct [simp]:
  "ord CHR ''.'' = 46" "ord CHR ''_'' = 95" "ord CHR '':'' = 58" "ord CHR ''-'' = 45"
  "ord CHR ''/'' = 47" "ord CHR 0x22 = 34" "ord CHR 0x5C = 92" "ord CHR '','' = 44"
  "ord CHR ''{'' = 123" "ord CHR ''}'' = 125" "ord CHR ''['' = 91" "ord CHR '']'' = 93"
  by (simp_all add: ord_def)

lemma label_char_ascii: "label_char c \<Longrightarrow> ord c < 128"
  by (auto simp: label_char_def is_lower_alpha_def is_upper_alpha_def is_digit_def)

lemma label_text_ascii: "label_text s \<Longrightarrow> is_ascii s"
proof (cases s)
  case (Cons c cs)
  assume "label_text s"
  with Cons have "list_all label_char (c # cs)"
    by (auto simp: label_char_def)
  then show ?thesis
    using Cons label_char_ascii by (auto simp: is_ascii_def list_all_iff)
qed simp

lemma label_text_length: "label_text s \<Longrightarrow> 0 < length s \<and> length s \<le> 128"
  by (cases s) auto

lemma sha256_text_ascii: "sha256_text s \<Longrightarrow> is_ascii s"
  by (auto simp: sha256_text_def is_ascii_def is_lower_hex_def is_digit_def list_all_iff)

lemma safe_token_char_ascii: "safe_token_char c \<Longrightarrow> ord c < 128"
  by (auto simp: safe_token_char_def is_lower_alpha_def is_digit_def)

lemma safe_token_ascii: "safe_token s \<Longrightarrow> is_ascii s"
  by (cases s) (auto simp: is_ascii_def list_all_iff dest: safe_token_char_ascii,
      auto simp: is_lower_alpha_def is_digit_def)

lemma safe_token_length: "safe_token s \<Longrightarrow> 0 < length s \<and> length s \<le> 128"
  by (cases s) auto

definition zero_sha256 :: string where
  "zero_sha256 = replicate 64 (CHR ''0'')"

lemma zero_sha256_text [simp]: "sha256_text zero_sha256"
proof -
  have "is_lower_hex (CHR ''0'')"
    by (simp add: is_lower_hex_def is_digit_def ord_def)
  then show ?thesis
    by (simp add: sha256_text_def zero_sha256_def list_all_iff)
qed

end
