(* ===== verification/Json.thy ===== *)
theory Json
  imports Pytext
begin

text \<open>
  The JSON values the program exchanges, hashes and stores, with the two directions of the
  standard library that it uses: \<open>json.dumps\<close> with sorted keys and compact separators, and
  \<open>json.loads\<close> with the hooks \<open>object_pairs_hook\<close>, \<open>parse_constant\<close> and \<open>parse_int\<close>.
  The conversion between a double and its shortest decimal text is a parameter.
\<close>

section \<open>Values\<close>

text \<open>The zero with a sign is a double of its own; \<open>PyFin\<close> holds the other finite ones.\<close>

datatype pyfloat = PyFin rat | PyNegZero | PyInf bool | PyNaN

datatype json =
    JNull
  | JBool bool
  | JInt int
  | JFloat pyfloat
  | JStr string
  | JArr "json list"
  | JObj "(string \<times> json) list"

text \<open>A dictionary is an association list without duplicate keys, in insertion order.\<close>

definition obj_get :: "(string \<times> json) list \<Rightarrow> string \<Rightarrow> json option" where
  "obj_get kvs k = map_of kvs k"

definition obj_keys :: "(string \<times> json) list \<Rightarrow> string set" where
  "obj_keys kvs = fst ` set kvs"

section \<open>Rendering\<close>

definition hex_digit :: "nat \<Rightarrow> char" where
  "hex_digit d = (if d < 10 then char_of (48 + d) else char_of (87 + d))"

definition u_escape :: "nat \<Rightarrow> string" where
  "u_escape n =
     [CHR 0x5C, CHR ''u'', hex_digit (n div 4096 mod 16), hex_digit (n div 256 mod 16),
      hex_digit (n div 16 mod 16), hex_digit (n mod 16)]"

text \<open>The two-character escapes of \<open>json.encoder.ESCAPE_DCT\<close>.\<close>

definition short_escape :: "nat \<Rightarrow> char option" where
  "short_escape n =
     (if n = 34 then Some (CHR 0x22)
      else if n = 92 then Some (CHR 0x5C)
      else if n = 8 then Some (CHR ''b'')
      else if n = 9 then Some (CHR ''t'')
      else if n = 10 then Some (CHR ''n'')
      else if n = 12 then Some (CHR ''f'')
      else if n = 13 then Some (CHR ''r'')
      else None)"

text \<open>\<open>ensure_ascii=False\<close>: bytes above the control range stand for themselves.\<close>

definition esc_byte :: "char \<Rightarrow> string" where
  "esc_byte c =
     (case short_escape (ord c) of
        Some e \<Rightarrow> [CHR 0x5C, e]
      | None \<Rightarrow> if ord c < 32 then u_escape (ord c) else [c])"

text \<open>\<open>ensure_ascii=True\<close>: everything outside \<open>[ -~]\<close> is escaped, in surrogate pairs if needed.\<close>

definition esc_cp :: "nat \<Rightarrow> string" where
  "esc_cp n =
     (case short_escape n of
        Some e \<Rightarrow> [CHR 0x5C, e]
      | None \<Rightarrow>
          if 32 \<le> n \<and> n < 127 then [char_of n]
          else if n < 65536 then u_escape n
          else u_escape (55296 + (n - 65536) div 1024) @ u_escape (56320 + (n - 65536) mod 1024))"

definition render_str :: "bool \<Rightarrow> string \<Rightarrow> string" where
  "render_str asc s =
     [CHR 0x22] @ concat (if asc then map esc_cp (code_points s) else map esc_byte s) @ [CHR 0x22]"

fun render :: "(pyfloat \<Rightarrow> string) \<Rightarrow> bool \<Rightarrow> json \<Rightarrow> string" where
  "render fr asc JNull = ''null''"
| "render fr asc (JBool b) = (if b then ''true'' else ''false'')"
| "render fr asc (JInt i) = int_repr i"
| "render fr asc (JFloat x) = fr x"
| "render fr asc (JStr s) = render_str asc s"
| "render fr asc (JArr vs) = ''['' @ join '','' (map (render fr asc) vs) @ '']''"
| "render fr asc (JObj kvs) =
     ''{'' @ join '','' (map (\<lambda>(k, v). render_str asc k @ '':'' @ render fr asc v) kvs) @ ''}''"

text \<open>\<open>sort_keys=True\<close> at every level.\<close>

fun sort_keys :: "json \<Rightarrow> json" where
  "sort_keys (JArr vs) = JArr (map sort_keys vs)"
| "sort_keys (JObj kvs) = JObj (sort_key fst (map (\<lambda>(k, v). (k, sort_keys v)) kvs))"
| "sort_keys v = v"

definition dumps :: "(pyfloat \<Rightarrow> string) \<Rightarrow> bool \<Rightarrow> json \<Rightarrow> string" where
  "dumps fr asc v = render fr asc (sort_keys v)"

text \<open>\<open>.encode("utf-8")\<close> of the text fails when a string or a key holds a lone surrogate.\<close>

fun json_encodable :: "json \<Rightarrow> bool" where
  "json_encodable (JStr s) = encodable s"
| "json_encodable (JArr vs) = list_all json_encodable vs"
| "json_encodable (JObj kvs) = list_all (\<lambda>(k, v). encodable k \<and> json_encodable v) kvs"
| "json_encodable v = True"

text \<open>\<open>allow_nan=False\<close> raises on an infinity or a NaN.\<close>

fun json_finite :: "json \<Rightarrow> bool" where
  "json_finite (JFloat x) = (case x of PyFin _ \<Rightarrow> True | PyNegZero \<Rightarrow> True | _ \<Rightarrow> False)"
| "json_finite (JArr vs) = list_all json_finite vs"
| "json_finite (JObj kvs) = list_all (\<lambda>(k, v). json_finite v) kvs"
| "json_finite v = True"

section \<open>Parsing\<close>

record 'e hooks =
  h_pairs :: "(string \<times> json) list \<Rightarrow> 'e + json"
  h_const :: "string \<Rightarrow> 'e + json"
  h_int :: "string \<Rightarrow> 'e + json"
  h_float :: "string \<Rightarrow> 'e + json"
  h_syntax :: 'e

definition json_ws :: "char \<Rightarrow> bool" where
  "json_ws c \<longleftrightarrow> ord c = 32 \<or> ord c = 9 \<or> ord c = 10 \<or> ord c = 13"

definition skip_ws :: "string \<Rightarrow> string" where
  "skip_ws s = dropWhile json_ws s"

definition hex_value :: "char \<Rightarrow> nat option" where
  "hex_value c =
     (if is_digit c then Some (ord c - 48)
      else if 97 \<le> ord c \<and> ord c \<le> 102 then Some (ord c - 87)
      else if 65 \<le> ord c \<and> ord c \<le> 70 then Some (ord c - 55)
      else None)"

fun hex4 :: "string \<Rightarrow> (nat \<times> string) option" where
  "hex4 (a # b # c # d # r) =
     (case (hex_value a, hex_value b, hex_value c, hex_value d) of
        (Some w, Some x, Some y, Some z) \<Rightarrow> Some (w * 4096 + x * 256 + y * 16 + z, r)
      | _ \<Rightarrow> None)"
| "hex4 _ = None"

definition unescape_short :: "char \<Rightarrow> char option" where
  "unescape_short c =
     (if c = CHR 0x22 then Some (CHR 0x22)
      else if c = CHR 0x5C then Some (CHR 0x5C)
      else if c = CHR ''/'' then Some (CHR ''/'')
      else if c = CHR ''b'' then Some (char_of (8 :: nat))
      else if c = CHR ''f'' then Some (char_of (12 :: nat))
      else if c = CHR ''n'' then Some (char_of (10 :: nat))
      else if c = CHR ''r'' then Some (char_of (13 :: nat))
      else if c = CHR ''t'' then Some (char_of (9 :: nat))
      else None)"

text \<open>
  After \<open>\\u\<close>: four hex digits, and the low half of a surrogate pair when it follows.
\<close>

definition parse_u :: "string \<Rightarrow> (nat \<times> string) option" where
  "parse_u s =
     (case hex4 s of
        None \<Rightarrow> None
      | Some (hi, r) \<Rightarrow>
          if 55296 \<le> hi \<and> hi < 56320 \<and> starts_with r [CHR 0x5C, CHR ''u''] then
            (case hex4 (drop 2 r) of
               None \<Rightarrow> None
             | Some (lo, r') \<Rightarrow>
                 if 56320 \<le> lo \<and> lo < 57344
                 then Some (65536 + (hi - 55296) * 1024 + (lo - 56320), r')
                 else Some (hi, r))
          else Some (hi, r))"

lemma hex4_shorter: "hex4 s = Some (n, r) \<Longrightarrow> length r < length s"
  by (induction s rule: hex4.induct) (auto split: option.splits)

lemma parse_u_shorter: "parse_u s = Some (n, r) \<Longrightarrow> length r < length s"
  by (auto simp: parse_u_def split: option.splits if_splits dest!: hex4_shorter)

text \<open>The characters of a string literal after its opening quote, up to the closing one.\<close>

function parse_chars :: "string \<Rightarrow> (string \<times> string) option" where
  "parse_chars [] = None"
| "parse_chars (c # r) =
     (if c = CHR 0x22 then Some ([], r)
      else if c = CHR 0x5C then
        (case r of
           [] \<Rightarrow> None
         | e # r' \<Rightarrow>
             if e = CHR ''u'' then
               (case parse_u r' of
                  None \<Rightarrow> None
                | Some (cp, r'') \<Rightarrow>
                    map_option (\<lambda>(t, q). (utf8_encode_cp cp @ t, q)) (parse_chars r''))
             else (case unescape_short e of
                     None \<Rightarrow> None
                   | Some d \<Rightarrow> map_option (\<lambda>(t, q). (d # t, q)) (parse_chars r')))
      else if ord c < 32 then None
      else map_option (\<lambda>(t, q). (c # t, q)) (parse_chars r))"
  by pat_completeness auto
termination
  by (relation "measure length") (auto dest: parse_u_shorter)

text \<open>A number literal: its text, whether it is a float, and the rest.\<close>

definition digits_of :: "string \<Rightarrow> string \<times> string" where
  "digits_of s = (takeWhile is_digit s, dropWhile is_digit s)"

definition parse_frac :: "string \<Rightarrow> string \<times> string" where
  "parse_frac s =
     (case s of
        c # r \<Rightarrow>
          (let (ds, r') = digits_of r
           in if c = CHR ''.'' \<and> ds \<noteq> [] then (c # ds, r') else ([], s))
      | [] \<Rightarrow> ([], s))"

definition parse_exp :: "string \<Rightarrow> string \<times> string" where
  "parse_exp s =
     (case s of
        c # r \<Rightarrow>
          (let (sg, r1) = (case r of
                             d # q \<Rightarrow> if d = CHR ''+'' \<or> d = CHR ''-'' then ([d], q) else ([], r)
                           | [] \<Rightarrow> ([], r));
               (ds, r2) = digits_of r1
           in if (c = CHR ''e'' \<or> c = CHR ''E'') \<and> ds \<noteq> [] then (c # sg @ ds, r2) else ([], s))
      | [] \<Rightarrow> ([], s))"

definition parse_number :: "string \<Rightarrow> (string \<times> bool \<times> string) option" where
  "parse_number s =
     (let (sg, r) = (case s of
                       c # q \<Rightarrow> if c = CHR ''-'' then ([c], q) else ([], s)
                     | [] \<Rightarrow> ([], s));
          (ds, r1) = (case r of
                        c # q \<Rightarrow> if c = CHR ''0'' then ([c], q) else digits_of r
                      | [] \<Rightarrow> ([], r));
          (fs, r2) = parse_frac r1;
          (es, r3) = parse_exp r2
      in if ds = [] then None else Some (sg @ ds @ fs @ es, fs @ es \<noteq> [], r3))"

text \<open>
  The scanner. A call spends one unit of fuel and two nested calls shorten the text, so
  \<open>2 * length s + 1\<close> units always suffice (\<open>scan_value_fuel\<close> in \<open>Json_Roundtrip\<close>).
\<close>

fun scan_value :: "'e hooks \<Rightarrow> nat \<Rightarrow> string \<Rightarrow> 'e + (json \<times> string)"
and scan_items :: "'e hooks \<Rightarrow> nat \<Rightarrow> string \<Rightarrow> 'e + (json list \<times> string)"
and scan_members :: "'e hooks \<Rightarrow> nat \<Rightarrow> string \<Rightarrow> 'e + ((string \<times> json) list \<times> string)" where
  "scan_value h 0 s = Inl (h_syntax h)"
| "scan_value h (Suc n) s =
     (case s of
        [] \<Rightarrow> Inl (h_syntax h)
      | c # r \<Rightarrow>
          if c = CHR 0x22 then
            (case parse_chars r of
               None \<Rightarrow> Inl (h_syntax h)
             | Some (t, q) \<Rightarrow> Inr (JStr t, q))
          else if c = CHR ''{'' then
            (let r' = skip_ws r
             in if starts_with r' ''}'' then res_bind (h_pairs h []) (\<lambda>v. Inr (v, drop 1 r'))
                else res_bind (scan_members h n r')
                       (\<lambda>(kvs, q). res_bind (h_pairs h kvs) (\<lambda>v. Inr (v, q))))
          else if c = CHR ''['' then
            (let r' = skip_ws r
             in if starts_with r' '']'' then Inr (JArr [], drop 1 r')
                else res_bind (scan_items h n r') (\<lambda>(vs, q). Inr (JArr vs, q)))
          else if starts_with s ''null'' then Inr (JNull, drop 4 s)
          else if starts_with s ''true'' then Inr (JBool True, drop 4 s)
          else if starts_with s ''false'' then Inr (JBool False, drop 5 s)
          else (case parse_number s of
                  Some (t, isf, q) \<Rightarrow>
                    res_bind (if isf then h_float h t else h_int h t) (\<lambda>v. Inr (v, q))
                | None \<Rightarrow>
                    if starts_with s ''NaN'' then
                      res_bind (h_const h ''NaN'') (\<lambda>v. Inr (v, drop 3 s))
                    else if starts_with s ''Infinity'' then
                      res_bind (h_const h ''Infinity'') (\<lambda>v. Inr (v, drop 8 s))
                    else if starts_with s ''-Infinity'' then
                      res_bind (h_const h ''-Infinity'') (\<lambda>v. Inr (v, drop 9 s))
                    else Inl (h_syntax h)))"
| "scan_items h 0 s = Inl (h_syntax h)"
| "scan_items h (Suc n) s =
     res_bind (scan_value h n s)
       (\<lambda>(v, q). case skip_ws q of
                   [] \<Rightarrow> Inl (h_syntax h)
                 | d # q' \<Rightarrow>
                     if d = CHR '']'' then Inr ([v], q')
                     else if d = CHR '','' then
                       res_bind (scan_items h n (skip_ws q')) (\<lambda>(vs, q''). Inr (v # vs, q''))
                     else Inl (h_syntax h))"
| "scan_members h 0 s = Inl (h_syntax h)"
| "scan_members h (Suc n) s =
     (case s of
        [] \<Rightarrow> Inl (h_syntax h)
      | c # r \<Rightarrow>
          if c \<noteq> CHR 0x22 then Inl (h_syntax h)
          else (case parse_chars r of
                  None \<Rightarrow> Inl (h_syntax h)
                | Some (k, q) \<Rightarrow>
                    (case skip_ws q of
                       [] \<Rightarrow> Inl (h_syntax h)
                     | e # q1 \<Rightarrow>
                         if e \<noteq> CHR '':'' then Inl (h_syntax h)
                         else res_bind (scan_value h n (skip_ws q1))
                                (\<lambda>(v, q2). case skip_ws q2 of
                                   [] \<Rightarrow> Inl (h_syntax h)
                                 | d # q3 \<Rightarrow>
                                     if d = CHR ''}'' then Inr ([(k, v)], q3)
                                     else if d = CHR '','' then
                                       res_bind (scan_members h n (skip_ws q3))
                                         (\<lambda>(kvs, q4). Inr ((k, v) # kvs, q4))
                                     else Inl (h_syntax h)))))"

definition loads :: "'e hooks \<Rightarrow> string \<Rightarrow> 'e + json" where
  "loads h s =
     res_bind (scan_value h (2 * length s + 1) (skip_ws s))
       (\<lambda>(v, q). if skip_ws q = [] then Inr v else Inl (h_syntax h))"

end
