(* ===== verification/Json_Roundtrip.thy ===== *)
theory Json_Roundtrip
  imports Json
begin

text \<open>
  Facts about the JSON codec: the scanner always has enough fuel, parsing inverts rendering on
  float-free values, so that rendering is injective there and a digest of the rendered text
  determines the value up to key order.
\<close>

section \<open>The scanner consumes text and never runs out of fuel\<close>

lemma skip_ws_le: "length (skip_ws s) \<le> length s"
  by (simp add: skip_ws_def length_dropWhile_le)

lemma parse_chars_shorter: "parse_chars s = Some (t, q) \<Longrightarrow> length q < length s"
proof (induction "length s" arbitrary: s t q rule: less_induct)
  case less
  note IH = less.hyps
  show ?case
  proof (cases s)
    case Nil
    with less.prems show ?thesis by simp
  next
    case (Cons c r)
    have "q = r \<or> (\<exists>r' t'. parse_chars r' = Some (t', q) \<and> length r' \<le> length r)"
      using less.prems Cons
      by (auto split: if_splits option.splits list.splits dest!: parse_u_shorter)
    then show ?thesis
    proof
      assume "q = r"
      with Cons show ?thesis by simp
    next
      assume "\<exists>r' t'. parse_chars r' = Some (t', q) \<and> length r' \<le> length r"
      then obtain r' t' where r': "parse_chars r' = Some (t', q)" "length r' < length s"
        using Cons by auto
      from IH [OF r'(2,1)] r'(2) show ?thesis by simp
    qed
  qed
qed

lemma digits_of_length: "digits_of s = (ds, r) \<Longrightarrow> length ds + length r = length s"
  unfolding digits_of_def by (metis Pair_inject length_append takeWhile_dropWhile_id)

lemma parse_frac_le: "length (snd (parse_frac s)) \<le> length s"
  by (auto simp: parse_frac_def Let_def digits_of_def length_dropWhile_le le_SucI
      split: list.splits)

lemma parse_exp_le: "length (snd (parse_exp s)) \<le> length s"
proof (cases s)
  case (Cons c r)
  have "length (dropWhile is_digit q) \<le> Suc (length r)" if "length q \<le> length r" for q
    using that length_dropWhile_le [of is_digit q] by linarith
  with Cons show ?thesis
    by (auto simp: parse_exp_def Let_def digits_of_def split: list.splits)
qed (simp add: parse_exp_def)

lemma parse_number_shorter:
  assumes "parse_number s = Some (t, isf, q)"
  shows "length q < length s"
proof -
  define sr where "sr = (case s of c # q \<Rightarrow> if c = CHR ''-'' then ([c], q) else ([], s) | [] \<Rightarrow> ([], s))"
  define dr where "dr = (case snd sr of c # q \<Rightarrow> if c = CHR ''0'' then ([c], q) else digits_of (snd sr)
                          | [] \<Rightarrow> ([], snd sr))"
  have 1: "length (snd sr) \<le> length s"
    by (auto simp: sr_def split: list.splits)
  have 2: "length (fst dr) + length (snd dr) \<le> length (snd sr)"
    using digits_of_length [of "snd sr"]
    by (auto simp: dr_def split: list.splits prod.splits)
  have eq: "parse_number s =
      (if fst dr = [] then None
       else Some (fst sr @ fst dr @ fst (parse_frac (snd dr)) @ fst (parse_exp (snd (parse_frac (snd dr)))),
             fst (parse_frac (snd dr)) @ fst (parse_exp (snd (parse_frac (snd dr)))) \<noteq> [],
             snd (parse_exp (snd (parse_frac (snd dr))))))"
    unfolding parse_number_def sr_def [symmetric] Let_def
    by (simp add: case_prod_beta dr_def [symmetric])
  from assms eq have "fst dr \<noteq> []" and q: "q = snd (parse_exp (snd (parse_frac (snd dr))))"
    by (auto split: if_splits)
  then have "0 < length (fst dr)" by simp
  moreover have "length q \<le> length (snd dr)"
    unfolding q using parse_exp_le parse_frac_le le_trans by blast
  ultimately show ?thesis using 1 2 by linarith
qed

lemma scan_shorter_all:
  "(\<forall>s v q. scan_value h n s = Inr (v, q) \<longrightarrow> length q < length s) \<and>
   (\<forall>s vs q. scan_items h n s = Inr (vs, q) \<longrightarrow> length q < length s) \<and>
   (\<forall>s kvs q. scan_members h n s = Inr (kvs, q) \<longrightarrow> length q < length s)"
proof (induction n)
  case 0
  then show ?case by simp
next
  case (Suc n)
  then have IHv: "\<And>s v q. scan_value h n s = Inr (v, q) \<Longrightarrow> length q < length s"
    and IHi: "\<And>s vs q. scan_items h n s = Inr (vs, q) \<Longrightarrow> length q < length s"
    and IHm: "\<And>s kvs q. scan_members h n s = Inr (kvs, q) \<Longrightarrow> length q < length s"
    by blast+
  have ws: "length q < length s" if "skip_ws p = d # q" "length p \<le> length s" for p d q and s :: string
    using that skip_ws_le [of p] by simp
  have "length q < length s" if eq: "scan_value h (Suc n) s = Inr (v, q)" for s v q
  proof (cases s)
    case Nil
    with eq show ?thesis by simp
  next
    case (Cons c r)
    have "length q < length s" if "length q < length (skip_ws r)"
      using that skip_ws_le [of r] Cons by simp
    moreover have "length (drop k (skip_ws r)) < length s" for k
      using skip_ws_le [of r] Cons by simp
    ultimately show ?thesis
      using eq Cons
      by (auto simp: Let_def split: if_splits option.splits
          dest!: IHi IHm parse_chars_shorter parse_number_shorter)
  qed
  moreover have "length q < length s" if eq: "scan_items h (Suc n) s = Inr (vs, q)" for s vs q
  proof -
    from eq obtain v p where pv: "scan_value h n s = Inr (v, p)"
      and rest: "(case skip_ws p of [] \<Rightarrow> Inl (h_syntax h)
                   | d # q' \<Rightarrow> if d = CHR '']'' then Inr ([v], q')
                       else if d = CHR '','' then
                         res_bind (scan_items h n (skip_ws q')) (\<lambda>(vs, q''). Inr (v # vs, q''))
                       else Inl (h_syntax h)) = Inr (vs, q)"
      by (auto simp del: res_bind_Inr_iff simp: res_bind_def split: sum.splits)
    from rest obtain d p' where p': "skip_ws p = d # p'" by (cases "skip_ws p") auto
    with rest have tl: "p' = q \<or> (\<exists>ws. scan_items h n (skip_ws p') = Inr (ws, q))"
      by (auto split: if_splits)
    note p = pv p'
    have "length p \<le> length s" using IHv [OF p(1)] by linarith
    then have "length p' < length s" by (rule ws [OF p(2)])
    with tl show ?thesis
      using skip_ws_le [of p'] by (auto dest: IHi)
  qed
  moreover have "length q < length s" if eq: "scan_members h (Suc n) s = Inr (kvs, q)" for s kvs q
  proof -
    from eq obtain c r where s: "s = c # r" and c: "c = CHR 0x22"
      by (cases s) (auto split: if_splits)
    with eq obtain k p where k: "parse_chars r = Some (k, p)"
      by (cases "parse_chars r") auto
    with eq s c obtain e p1 where e: "skip_ws p = e # p1" and e': "e = CHR '':''"
      by (cases "skip_ws p") (auto split: if_splits)
    from eq s c k e e' obtain v p2 where v: "scan_value h n (skip_ws p1) = Inr (v, p2)"
      by (cases "scan_value h n (skip_ws p1)") auto
    with eq s c k e e' obtain d p3 where d: "skip_ws p2 = d # p3"
      by (cases "skip_ws p2") auto
    from eq s c k e e' v d have tl: "p3 = q \<or> (\<exists>ws. scan_members h n (skip_ws p3) = Inr (ws, q))"
      by (auto split: if_splits)
    note p = s k e v d
    have "length p < length s" using p parse_chars_shorter [OF p(2)] by simp
    then have "length p1 < length s" using ws [OF p(3)] by simp
    then have "length p2 < length s"
      using IHv [OF p(4)] skip_ws_le [of p1] by linarith
    then have "length p3 < length s" using ws [OF p(5)] by simp
    with tl show ?thesis
      using skip_ws_le [of p3] by (auto dest: IHm)
  qed
  ultimately show ?case by blast
qed

lemma scan_value_shorter: "scan_value h n s = Inr (v, q) \<Longrightarrow> length q < length s"
  and scan_items_shorter: "scan_items h n s = Inr (vs, q) \<Longrightarrow> length q < length s"
  and scan_members_shorter: "scan_members h n s = Inr (kvs, q) \<Longrightarrow> length q < length s"
  using scan_shorter_all by blast+

text \<open>
  Enough fuel is enough: above \<open>2 * length s\<close> the outcome no longer depends on it.
\<close>

lemma scan_fuel_all:
  "(\<forall>s m. 2 * length s < n \<longrightarrow> 2 * length s < m \<longrightarrow> scan_value h n s = scan_value h m s) \<and>
   (\<forall>s m. 2 * length s + 1 < n \<longrightarrow> 2 * length s + 1 < m \<longrightarrow> scan_items h n s = scan_items h m s) \<and>
   (\<forall>s m. 2 * length s + 1 < n \<longrightarrow> 2 * length s + 1 < m \<longrightarrow> scan_members h n s = scan_members h m s)"
proof (induction n)
  case 0
  then show ?case by simp
next
  case (Suc n)
  then have IHv: "\<And>s m. 2 * length s < n \<Longrightarrow> 2 * length s < m \<Longrightarrow> scan_value h n s = scan_value h m s"
    and IHi: "\<And>s m. 2 * length s + 1 < n \<Longrightarrow> 2 * length s + 1 < m \<Longrightarrow> scan_items h n s = scan_items h m s"
    and IHm: "\<And>s m. 2 * length s + 1 < n \<Longrightarrow> 2 * length s + 1 < m \<Longrightarrow> scan_members h n s = scan_members h m s"
    by blast+
  have "scan_value h (Suc n) s = scan_value h m s"
    if n: "2 * length s < Suc n" and m: "2 * length s < m" for s m
  proof (cases s)
    case Nil
    with m show ?thesis by (cases m) auto
  next
    case (Cons c r)
    obtain m' where m': "m = Suc m'" using m by (cases m) auto
    have "2 * length (skip_ws r) + 1 < n" "2 * length (skip_ws r) + 1 < m'"
      using n m skip_ws_le [of r] unfolding Cons m' by auto
    then have "scan_items h n (skip_ws r) = scan_items h m' (skip_ws r)"
      "scan_members h n (skip_ws r) = scan_members h m' (skip_ws r)"
      using IHi IHm by blast+
    then show ?thesis by (simp add: Cons m' Let_def)
  qed
  moreover have "scan_items h (Suc n) s = scan_items h m s"
    if n: "2 * length s + 1 < Suc n" and m: "2 * length s + 1 < m" for s m
  proof -
    obtain m' where m': "m = Suc m'" using m by (cases m) auto
    have "scan_value h n s = scan_value h m' s"
      using n m m' by (intro IHv) auto
    moreover have "scan_items h n (skip_ws p') = scan_items h m' (skip_ws p')"
      if "scan_value h m' s = Inr (v, p)" "skip_ws p = d # p'" for v p d p'
    proof -
      have "length p' < length s"
        using scan_value_shorter [OF that(1)] skip_ws_le [of p] that(2) by simp
      then have "length (skip_ws p') < length s" using skip_ws_le [of p'] by simp
      then show ?thesis using n m m' by (intro IHi) auto
    qed
    ultimately show ?thesis
      by (auto simp: m' intro!: res_bind_cong split: list.splits)
  qed
  moreover have "scan_members h (Suc n) s = scan_members h m s"
    if n: "2 * length s + 1 < Suc n" and m: "2 * length s + 1 < m" for s m
  proof -
    obtain m' where m': "m = Suc m'" using m by (cases m) auto
    have val: "scan_value h n (skip_ws p1) = scan_value h m' (skip_ws p1)"
      if "s = c # r" "parse_chars r = Some (k, p)" "skip_ws p = e # p1" for c r k p e p1
    proof -
      have "length (skip_ws p1) < length s"
        using parse_chars_shorter [OF that(2)] skip_ws_le [of p] skip_ws_le [of p1] that by simp
      then show ?thesis using n m m' by (intro IHv) auto
    qed
    have mem: "scan_members h n (skip_ws p3) = scan_members h m' (skip_ws p3)"
      if "s = c # r" "parse_chars r = Some (k, p)" "skip_ws p = e # p1"
        "scan_value h m' (skip_ws p1) = Inr (v, p2)" "skip_ws p2 = d # p3" for c r k p e p1 v p2 d p3
    proof -
      have "length (skip_ws p3) < length s"
        using parse_chars_shorter [OF that(2)] scan_value_shorter [OF that(4)] skip_ws_le [of p]
          skip_ws_le [of p1] skip_ws_le [of p2] skip_ws_le [of p3] that by simp
      then show ?thesis using n m m' by (intro IHm) auto
    qed
    show ?thesis
      by (auto simp: m' val mem intro!: res_bind_cong split: list.splits option.splits)
  qed
  ultimately show ?case by blast
qed

lemma scan_value_fuel:
  "2 * length s < n \<Longrightarrow> 2 * length s < m \<Longrightarrow> scan_value h n s = scan_value h m s"
  using scan_fuel_all by blast

section \<open>Strings\<close>

lemma hex_value_hex_digit: "d < 16 \<Longrightarrow> hex_value (hex_digit d) = Some d"
  by (auto simp: hex_value_def hex_digit_def is_digit_def)

lemma hex4_digits:
  assumes "n < 65536"
  shows "hex4 (hex_digit (n div 4096 mod 16) # hex_digit (n div 256 mod 16)
           # hex_digit (n div 16 mod 16) # hex_digit (n mod 16) # t) = Some (n, t)"
proof -
  define a where "a = n div 16"
  define b where "b = a div 16"
  define c where "c = b div 16"
  have "n div 256 = b" "n div 4096 = c"
    by (simp_all add: a_def b_def c_def div_mult2_eq [symmetric])
  moreover have "c < 16"
    using assms by (simp add: a_def b_def c_def div_mult2_eq [symmetric] less_mult_imp_div_less)
  moreover have "16 * a + n mod 16 = n" "16 * b + a mod 16 = a" "16 * c + b mod 16 = b"
    by (simp_all add: a_def b_def c_def)
  ultimately have "n div 4096 mod 16 * 4096 + n div 256 mod 16 * 256 + n div 16 mod 16 * 16 + n mod 16 = n"
    unfolding a_def [symmetric] by simp
  then show ?thesis
    by (simp only: hex4.simps hex_value_hex_digit [OF mod_less_divisor [of 16]] prod.case option.case)
qed

lemma parse_u_digits:
  "n < 55296 \<Longrightarrow> parse_u (drop 2 (u_escape n @ t)) = Some (n, t)"
  by (simp add: parse_u_def u_escape_def hex4_digits [unfolded One_nat_def] del: hex4.simps
      div_less mod_less mod_div_trivial)

lemma parse_chars_quote [simp]: "parse_chars (CHR 0x22 # t) = Some ([], t)"
  by simp

lemma parse_chars_backslash_u:
  "parse_chars (CHR 0x5C # CHR ''u'' # r) =
     (case parse_u r of None \<Rightarrow> None
      | Some (cp, q) \<Rightarrow> map_option (\<lambda>(u, y). (utf8_encode_cp cp @ u, y)) (parse_chars q))"
  by simp

lemma parse_chars_backslash:
  "e \<noteq> CHR ''u'' \<Longrightarrow> unescape_short e = Some d \<Longrightarrow>
   parse_chars (CHR 0x5C # e # r) = map_option (\<lambda>(u, y). (d # u, y)) (parse_chars r)"
  by simp

lemma parse_chars_plain:
  "c \<noteq> CHR 0x22 \<Longrightarrow> c \<noteq> CHR 0x5C \<Longrightarrow> \<not> ord c < 32 \<Longrightarrow>
   parse_chars (c # r) = map_option (\<lambda>(u, y). (c # u, y)) (parse_chars r)"
  by simp

declare parse_chars.simps(2) [simp del]

lemma parse_chars_u_escape:
  assumes "n < 55296"
  shows "parse_chars (u_escape n @ t)
       = map_option (\<lambda>(u, q). (utf8_encode_cp n @ u, q)) (parse_chars t)"
proof -
  have "u_escape n @ t = CHR 0x5C # CHR ''u'' # drop 2 (u_escape n @ t)"
    by (simp add: u_escape_def)
  then show ?thesis
    using parse_u_digits [OF assms, of t] parse_chars_backslash_u [of "drop 2 (u_escape n @ t)"]
    by simp
qed

lemma char_of_ord [simp]: "char_of (ord c) = c"
  by (simp add: ord_def)

lemma char_of_quotes: "char_of (34 :: nat) = CHR 0x22" "char_of (92 :: nat) = CHR 0x5C"
  using char_of_ord [of "CHR 0x22"] char_of_ord [of "CHR 0x5C"] by simp_all

lemma short_escape_inverse:
  assumes "short_escape n = Some e"
  shows "unescape_short e = Some (char_of n) \<and> e \<noteq> CHR ''u''"
proof -
  have "n \<in> {34, 92, 8, 9, 10, 12, 13}"
    using assms by (auto simp: short_escape_def split: if_splits)
  then show ?thesis
    using assms by (elim insertE emptyE) (auto simp: short_escape_def unescape_short_def char_of_quotes)
qed

lemma parse_chars_esc_byte:
  "parse_chars (esc_byte c @ t) = map_option (\<lambda>(u, q). (c # u, q)) (parse_chars t)"
proof (cases "short_escape (ord c)")
  case (Some e)
  with short_escape_inverse [OF Some] show ?thesis
    by (simp add: esc_byte_def parse_chars_backslash)
next
  case None
  then have ne: "c \<noteq> CHR 0x22" "c \<noteq> CHR 0x5C"
    by (auto simp: short_escape_def)
  show ?thesis
  proof (cases "ord c < 32")
    case True
    with None show ?thesis
      by (simp add: esc_byte_def parse_chars_u_escape utf8_encode_cp_def)
  next
    case False
    with None ne show ?thesis by (simp add: esc_byte_def parse_chars_plain)
  qed
qed

lemma char_of_neq: "n < 256 \<Longrightarrow> n \<noteq> ord c \<Longrightarrow> char_of n \<noteq> c"
proof
  assume "n < 256" "n \<noteq> ord c" "char_of n = c"
  then show False using ord_char_of [of n] by simp
qed

lemma parse_chars_esc_cp:
  assumes "n < 128"
  shows "parse_chars (esc_cp n @ t) = map_option (\<lambda>(u, q). (char_of n # u, q)) (parse_chars t)"
proof (cases "short_escape n")
  case (Some e)
  with short_escape_inverse [OF Some] show ?thesis
    by (simp add: esc_cp_def parse_chars_backslash)
next
  case None
  show ?thesis
  proof (cases "32 \<le> n \<and> n < 127")
    case True
    have "ord (char_of n :: char) = n" using True by simp
    moreover have "n \<noteq> 34" "n \<noteq> 92" using None by (auto simp: short_escape_def)
    then have "char_of n \<noteq> CHR 0x22" "char_of n \<noteq> CHR 0x5C"
      using True by (simp_all add: char_of_neq)
    ultimately show ?thesis using True None by (simp add: esc_cp_def parse_chars_plain)
  next
    case False
    with None assms have "esc_cp n = u_escape n" by (auto simp: esc_cp_def)
    with assms show ?thesis by (simp add: parse_chars_u_escape utf8_encode_cp_def)
  qed
qed

text \<open>The strings a renderer in mode \<open>asc\<close> is inverted on.\<close>

definition str_ok :: "bool \<Rightarrow> string \<Rightarrow> bool" where
  "str_ok asc s \<longleftrightarrow> \<not> asc \<or> is_ascii s"

lemma parse_render_str:
  assumes "str_ok asc s"
  shows "parse_chars (concat (if asc then map esc_cp (code_points s) else map esc_byte s)
            @ CHR 0x22 # t) = Some (s, t)"
proof (cases asc)
  case False
  then show ?thesis by (induction s) (simp_all add: parse_chars_esc_byte)
next
  case True
  with assms have a: "is_ascii s" by (simp add: str_ok_def)
  then have "parse_chars (concat (map esc_cp (map ord s)) @ CHR 0x22 # t) = Some (s, t)"
    by (induction s) (simp_all add: parse_chars_esc_cp)
  with True a show ?thesis by (simp add: code_points_ascii)
qed

section \<open>Values\<close>

text \<open>What may follow a value inside a document: nothing, a comma, a closing bracket or brace.\<close>

definition delim :: "string \<Rightarrow> bool" where
  "delim r \<longleftrightarrow> r = [] \<or> hd r \<in> {CHR '','', CHR '']'', CHR ''}''}"

lemma is_digit_punct [simp]:
  "\<not> is_digit (CHR '','')" "\<not> is_digit (CHR '']'')" "\<not> is_digit (CHR ''}'')"
  "\<not> is_digit (CHR ''-'')" "\<not> is_digit (CHR 0x22)" "\<not> is_digit (CHR ''{'')" "\<not> is_digit (CHR ''['')"
  by (simp_all add: is_digit_def)

lemma json_ws_punct [simp]:
  "\<not> json_ws (CHR '','')" "\<not> json_ws (CHR '']'')" "\<not> json_ws (CHR ''}'')"
  "\<not> json_ws (CHR ''-'')" "\<not> json_ws (CHR 0x22)" "\<not> json_ws (CHR ''{'')" "\<not> json_ws (CHR ''['')"
  "\<not> json_ws (CHR '':'')"
  by (simp_all add: json_ws_def)

lemma digits_of_append:
  "list_all is_digit ds \<Longrightarrow> delim r \<Longrightarrow> digits_of (ds @ r) = (ds, r)"
  by (cases r) (auto simp: digits_of_def delim_def list_all_iff takeWhile_append dropWhile_append)

lemma parse_frac_delim: "delim r \<Longrightarrow> parse_frac r = ([], r)"
  by (cases r) (auto simp: parse_frac_def delim_def Let_def split: prod.splits)

lemma parse_exp_delim: "delim r \<Longrightarrow> parse_exp r = ([], r)"
  by (cases r) (auto simp: parse_exp_def delim_def Let_def split: prod.splits)

lemma zero_digit: "digit_char 0 = CHR ''0''"
proof -
  have "ord (CHR ''0'') = 48" by (simp add: ord_def)
  then show ?thesis
    using char_of_ord [of "CHR ''0''"] by (simp add: digit_char_def del: char_of_ord)
qed

lemma parse_number_digits:
  assumes "delim r"
  shows "parse_number (nat_digits n @ r) = Some (nat_digits n, False, r)"
proof -
  obtain d ds where ds: "nat_digits n = d # ds"
    using nat_digits_nonempty by (metis neq_Nil_conv)
  have all: "list_all is_digit (d # ds)" using nat_digits_all_digits [of n] ds by simp
  then have "d \<noteq> CHR ''-''" by auto
  moreover have "ds = []" if "d = CHR ''0''"
  proof -
    have "n = 0" using nat_digits_hd_zero [of n] ds that by (simp add: zero_digit)
    with ds show ?thesis by (simp add: nat_digits_zero)
  qed
  moreover have "digits_of (d # ds @ r) = (d # ds, r)"
    using digits_of_append [OF all assms] by simp
  ultimately show ?thesis
    using assms by (simp add: parse_number_def ds Let_def parse_frac_delim parse_exp_delim)
qed

lemma parse_number_neg:
  assumes "delim r"
  shows "parse_number (CHR ''-'' # nat_digits n @ r) = Some (CHR ''-'' # nat_digits n, False, r)"
proof -
  obtain d ds where ds: "nat_digits n = d # ds"
    using nat_digits_nonempty by (metis neq_Nil_conv)
  have all: "list_all is_digit (d # ds)" using nat_digits_all_digits [of n] ds by simp
  moreover have "ds = []" if "d = CHR ''0''"
  proof -
    have "n = 0" using nat_digits_hd_zero [of n] ds that by (simp add: zero_digit)
    with ds show ?thesis by (simp add: nat_digits_zero)
  qed
  moreover have "digits_of (d # ds @ r) = (d # ds, r)"
    using digits_of_append [OF all assms] by simp
  ultimately show ?thesis
    using assms by (simp add: parse_number_def ds Let_def parse_frac_delim parse_exp_delim)
qed

lemma parse_number_int_repr:
  "delim r \<Longrightarrow> parse_number (int_repr i @ r) = Some (int_repr i, False, r)"
  by (simp add: int_repr_def parse_number_digits parse_number_neg)

text \<open>The float-free values a set of hooks accepts unchanged.\<close>

fun json_ok :: "'e hooks \<Rightarrow> bool \<Rightarrow> json \<Rightarrow> bool" where
  "json_ok h asc (JInt i) \<longleftrightarrow> h_int h (int_repr i) = Inr (JInt i)"
| "json_ok h asc (JFloat x) \<longleftrightarrow> False"
| "json_ok h asc (JStr s) \<longleftrightarrow> str_ok asc s"
| "json_ok h asc (JArr vs) \<longleftrightarrow> list_all (json_ok h asc) vs"
| "json_ok h asc (JObj kvs) \<longleftrightarrow>
     h_pairs h kvs = Inr (JObj kvs) \<and> list_all (\<lambda>(k, v). str_ok asc k \<and> json_ok h asc v) kvs"
| "json_ok h asc _ \<longleftrightarrow> True"

lemma int_repr_head: "\<exists>c t. int_repr i = c # t \<and> (is_digit c \<or> c = CHR ''-'')"
proof -
  obtain d ds where ds: "nat_digits (nat i) = d # ds"
    using nat_digits_nonempty by (metis neq_Nil_conv)
  then have "is_digit d" using nat_digits_all_digits [of "nat i"] by simp
  with ds show ?thesis by (simp add: int_repr_def)
qed

lemma digit_not_ws: "is_digit c \<Longrightarrow> \<not> json_ws c"
  by (auto simp: is_digit_def json_ws_def)

lemma render_head:
  assumes "json_ok h asc v"
  shows "\<exists>c t. render fr asc v = c # t \<and> \<not> json_ws c \<and> c \<noteq> CHR '']''"
proof (cases v)
  case (JInt i)
  then show ?thesis using int_repr_head [of i] digit_not_ws by fastforce
next
  case (JBool b)
  then show ?thesis by (cases b) (simp_all add: json_ws_def ord_def)
qed (use assms in \<open>auto simp: render_str_def json_ws_def ord_def\<close>)

lemma skip_ws_render: "json_ok h asc v \<Longrightarrow> skip_ws (render fr asc v @ r) = render fr asc v @ r"
  using render_head [of h asc v fr] by (auto simp: skip_ws_def)

lemma skip_ws_punct:
  "\<not> json_ws c \<Longrightarrow> skip_ws (c # r) = c # r"
  by (simp add: skip_ws_def)

lemma scan_int:
  assumes "delim r" "h_int h (int_repr i) = Inr (JInt i)"
  shows "scan_value h (Suc n) (int_repr i @ r) = Inr (JInt i, r)"
proof -
  obtain c t where c: "int_repr i = c # t" "is_digit c \<or> c = CHR ''-''"
    using int_repr_head by blast
  then have "c \<noteq> CHR 0x22" "c \<noteq> CHR ''{''" "c \<noteq> CHR ''[''" "c \<noteq> CHR ''n''" "c \<noteq> CHR ''t''" "c \<noteq> CHR ''f''"
    by (auto simp: is_digit_def ord_def)
  with c parse_number_int_repr [OF assms(1), of i] assms(2) show ?thesis
    by (simp add: Let_def)
qed


text \<open>Scanning the items of an array or the members of an object, given the values' round trips.\<close>

definition scans :: "'e hooks \<Rightarrow> (pyfloat \<Rightarrow> string) \<Rightarrow> bool \<Rightarrow> json \<Rightarrow> bool" where
  "scans h fr asc v \<longleftrightarrow>
     (\<forall>n r. delim r \<longrightarrow> 2 * length (render fr asc v @ r) < n
        \<longrightarrow> scan_value h n (render fr asc v @ r) = Inr (v, r))"

lemma scansD:
  "scans h fr asc v \<Longrightarrow> delim r \<Longrightarrow> 2 * length (render fr asc v @ r) < n \<Longrightarrow>
   scan_value h n (render fr asc v @ r) = Inr (v, r)"
  by (simp add: scans_def)

lemma scansI:
  assumes "\<And>n r. delim r \<Longrightarrow> scan_value h (Suc n) (render fr asc v @ r) = Inr (v, r)"
  shows "scans h fr asc v"
  unfolding scans_def
proof (intro allI impI)
  fix n r assume "delim r" "2 * length (render fr asc v @ r) < n"
  then show "scan_value h n (render fr asc v @ r) = Inr (v, r)"
    using assms by (cases n) auto
qed

lemma delim_simps [simp]: "delim []" "delim (CHR '','' # r)" "delim (CHR '']'' # r)" "delim (CHR ''}'' # r)"
  by (simp_all add: delim_def)

lemma scan_items_join:
  assumes "vs \<noteq> []" "\<forall>v \<in> set vs. scans h fr asc v \<and> json_ok h asc v"
    and "2 * length (join '','' (map (render fr asc) vs) @ CHR '']'' # r) + 1 < n"
  shows "scan_items h n (join '','' (map (render fr asc) vs) @ CHR '']'' # r) = Inr (vs, r)"
  using assms
proof (induction vs arbitrary: n)
  case Nil
  then show ?case by simp
next
  case (Cons v vs)
  obtain m where n: "n = Suc m" using Cons.prems(3) by (cases n) auto
  have v: "scans h fr asc v" "json_ok h asc v" using Cons.prems(2) by auto
  show ?case
  proof (cases vs)
    case Nil
    have "scan_value h m (render fr asc v @ CHR '']'' # r) = Inr (v, CHR '']'' # r)"
      using Cons.prems(3) n Nil by (intro scansD v) auto
    then show ?thesis by (simp add: Nil n skip_ws_punct)
  next
    case (Cons w ws)
    let ?rest = "join '','' (map (render fr asc) vs) @ CHR '']'' # r"
    have all: "join '','' (map (render fr asc) (v # vs)) @ CHR '']'' # r = render fr asc v @ CHR '','' # ?rest"
      using Cons by simp
    have "scan_value h m (render fr asc v @ CHR '','' # ?rest) = Inr (v, CHR '','' # ?rest)"
      using Cons.prems(3) n unfolding all by (intro scansD v) auto
    moreover have "skip_ws ?rest = ?rest"
      using Cons Cons.prems(2) skip_ws_render [of h asc w fr] by (cases ws) auto
    moreover have "scan_items h m ?rest = Inr (vs, r)"
      using Cons.prems n Cons unfolding all by (intro Cons.IH) auto
    ultimately show ?thesis unfolding all n by (simp add: skip_ws_punct)
  qed
qed

definition member_text :: "(pyfloat \<Rightarrow> string) \<Rightarrow> bool \<Rightarrow> string \<times> json \<Rightarrow> string" where
  "member_text fr asc kv = render_str asc (fst kv) @ '':'' @ render fr asc (snd kv)"

lemma render_obj:
  "render fr asc (JObj kvs) = ''{'' @ join '','' (map (member_text fr asc) kvs) @ ''}''"
  by (simp add: member_text_def [abs_def] case_prod_beta')

lemma scan_member_step:
  assumes "scans h fr asc v" "json_ok h asc v" "str_ok asc k" "delim r"
    and "2 * length (member_text fr asc (k, v) @ r) + 1 < Suc n"
  shows "scan_members h (Suc n) (member_text fr asc (k, v) @ r) =
     (case skip_ws r of
        [] \<Rightarrow> Inl (h_syntax h)
      | d # q3 \<Rightarrow>
          if d = CHR ''}'' then Inr ([(k, v)], q3)
          else if d = CHR '','' then
            res_bind (scan_members h n (skip_ws q3)) (\<lambda>(kvs, q4). Inr ((k, v) # kvs, q4))
          else Inl (h_syntax h))"
proof -
  have "scan_value h n (render fr asc v @ r) = Inr (v, r)"
    using assms(5) by (intro scansD assms) (auto simp: member_text_def)
  then show ?thesis
    using parse_render_str [OF assms(3), of "CHR '':'' # render fr asc v @ r"]
      skip_ws_render [OF assms(2), of fr r]
    by (simp add: member_text_def render_str_def skip_ws_punct)
qed

lemma scan_members_join:
  assumes "kvs \<noteq> []" "\<forall>(k, v) \<in> set kvs. scans h fr asc v \<and> json_ok h asc v \<and> str_ok asc k"
    and "2 * length (join '','' (map (member_text fr asc) kvs) @ CHR ''}'' # r) + 1 < n"
  shows "scan_members h n (join '','' (map (member_text fr asc) kvs) @ CHR ''}'' # r) = Inr (kvs, r)"
  using assms
proof (induction kvs arbitrary: n)
  case Nil
  then show ?case by simp
next
  case (Cons kv kvs)
  obtain k v where kv: "kv = (k, v)" by (cases kv)
  obtain m where n: "n = Suc m" using Cons.prems(3) by (cases n) auto
  have v: "scans h fr asc v" "json_ok h asc v" "str_ok asc k" using Cons.prems(2) kv by auto
  show ?case
  proof (cases kvs)
    case Nil
    then show ?thesis
      using Cons.prems(3) scan_member_step [OF v, of "CHR ''}'' # r" m]
      by (simp add: kv n skip_ws_punct del: scan_members.simps)
  next
    case (Cons w ws)
    let ?rest = "join '','' (map (member_text fr asc) kvs) @ CHR ''}'' # r"
    have all: "join '','' (map (member_text fr asc) (kv # kvs)) @ CHR ''}'' # r
        = member_text fr asc (k, v) @ CHR '','' # ?rest"
      using Cons kv by simp
    have "scan_members h m ?rest = Inr (kvs, r)"
      using Cons.prems n Cons unfolding all by (intro Cons.IH) auto
    moreover have "skip_ws ?rest = ?rest"
      using Cons by (cases ws) (auto simp: member_text_def render_str_def skip_ws_def)
    ultimately show ?thesis
      using Cons.prems(3) scan_member_step [OF v, of "CHR '','' # ?rest" m] unfolding all n
      by (simp add: kv skip_ws_punct del: scan_members.simps)
  qed
qed

lemma length_join_bound: "x \<in> set xs \<Longrightarrow> length x \<le> length (join sep xs)"
  by (induction sep xs rule: join.induct) auto

lemma scan_render: "json_ok h asc v \<Longrightarrow> scans h fr asc v"
proof (induction v)
  case (JArr vs)
  have ok: "\<forall>v \<in> set vs. scans h fr asc v \<and> json_ok h asc v"
    using JArr by (auto simp: list_all_iff)
  show ?case unfolding scans_def
  proof (intro allI impI)
    fix n r assume d: "delim r" and len: "2 * length (render fr asc (JArr vs) @ r) < n"
    then obtain m where n: "n = Suc m" by (cases n) auto
    show "scan_value h n (render fr asc (JArr vs) @ r) = Inr (JArr vs, r)"
    proof (cases vs)
      case Nil
      then show ?thesis by (simp add: n Let_def skip_ws_punct)
    next
      case (Cons w ws)
      let ?body = "join '','' (map (render fr asc) vs) @ CHR '']'' # r"
      obtain c t where c: "render fr asc w = c # t" "\<not> json_ws c" "c \<noteq> CHR '']''"
        using ok Cons render_head [of h asc w fr] by auto
      then have "skip_ws ?body = ?body" "\<not> starts_with ?body '']''"
        using c Cons by (cases ws; auto simp: skip_ws_def)+
      moreover have "scan_items h m ?body = Inr (vs, r)"
        using ok Cons len n by (intro scan_items_join) auto
      ultimately show ?thesis by (simp add: n Let_def)
    qed
  qed
next
  case (JObj kvs)
  have ok: "\<forall>(k, v) \<in> set kvs. scans h fr asc v \<and> json_ok h asc v \<and> str_ok asc k"
    and p: "h_pairs h kvs = Inr (JObj kvs)"
    using JObj by (fastforce simp: list_all_iff)+
  show ?case unfolding scans_def render_obj
  proof (intro allI impI)
    fix n r assume d: "delim r"
      and len: "2 * length ((''{'' @ join '','' (map (member_text fr asc) kvs) @ ''}'') @ r) < n"
    then obtain m where n: "n = Suc m" by (cases n) auto
    show "scan_value h n ((''{'' @ join '','' (map (member_text fr asc) kvs) @ ''}'') @ r) = Inr (JObj kvs, r)"
    proof (cases kvs)
      case Nil
      then show ?thesis using p by (simp add: n Let_def skip_ws_punct)
    next
      case (Cons w ws)
      let ?body = "join '','' (map (member_text fr asc) kvs) @ CHR ''}'' # r"
      have "skip_ws ?body = ?body" "\<not> starts_with ?body ''}''"
        using Cons by (cases ws; auto simp: skip_ws_def member_text_def render_str_def)+
      moreover have "scan_members h m ?body = Inr (kvs, r)"
        using ok Cons len n by (intro scan_members_join) auto
      ultimately show ?thesis using p by (simp add: n Let_def)
    qed
  qed
next
  case (JInt i)
  then show ?case by (intro scansI) (simp add: scan_int del: scan_value.simps)
next
  case (JStr s)
  then show ?case
    using parse_render_str [of asc s] by (intro scansI) (simp add: render_str_def)
next
  case (JBool b)
  show ?case by (intro scansI) (simp add: Let_def)
next
  case JNull
  show ?case by (intro scansI) (simp add: Let_def)
qed simp

theorem loads_render: "json_ok h asc v \<Longrightarrow> loads h (render fr asc v) = Inr v"
proof -
  assume ok: "json_ok h asc v"
  then have "scan_value h (2 * length (render fr asc v) + 1) (render fr asc v @ []) = Inr (v, [])"
    by (intro scansD scan_render) auto
  then show ?thesis
    using skip_ws_render [OF ok, of fr "[]"] by (simp add: loads_def skip_ws_def)
qed


text \<open>Rendering is injective on the values some set of hooks accepts.\<close>

definition plain_hooks :: "unit hooks" where
  "plain_hooks = \<lparr>h_pairs = (\<lambda>kvs. Inr (JObj kvs)), h_const = (\<lambda>_. Inl ()),
     h_int = (\<lambda>t. Inr (JInt (case t of
                                   c # ds \<Rightarrow> if c = CHR ''-'' then - int (nat_of_digits ds)
                                             else int (nat_of_digits t)
                                 | [] \<Rightarrow> 0))),
     h_float = (\<lambda>_. Inl ()), h_syntax = ()\<rparr>"

lemma int_of_repr:
  "(case int_repr i of c # ds \<Rightarrow> if c = CHR ''-'' then - int (nat_of_digits ds)
                                 else int (nat_of_digits (int_repr i)) | [] \<Rightarrow> 0) = i"
proof (cases "i < 0")
  case False
  obtain d ds where ds: "nat_digits (nat i) = d # ds"
    using nat_digits_nonempty by (metis neq_Nil_conv)
  then have "d \<noteq> CHR ''-''" using nat_digits_all_digits [of "nat i"] by auto
  then show ?thesis
    using False ds nat_of_digits_nat_digits [of "nat i"] by (simp add: int_repr_def)
qed (simp add: int_repr_def)

fun plain_json :: "bool \<Rightarrow> json \<Rightarrow> bool" where
  "plain_json asc (JFloat x) \<longleftrightarrow> False"
| "plain_json asc (JStr s) \<longleftrightarrow> str_ok asc s"
| "plain_json asc (JArr vs) \<longleftrightarrow> list_all (plain_json asc) vs"
| "plain_json asc (JObj kvs) \<longleftrightarrow> list_all (\<lambda>(k, v). str_ok asc k \<and> plain_json asc v) kvs"
| "plain_json asc _ \<longleftrightarrow> True"

lemma plain_json_ok: "json_ok plain_hooks asc v = plain_json asc v"
proof (induction v)
  case (JInt i)
  show ?case using int_of_repr [of i] by (simp add: plain_hooks_def)
next
  case (JArr vs)
  then show ?case by (auto simp: list_all_iff)
next
  case (JObj kvs)
  then show ?case by (fastforce simp: list_all_iff plain_hooks_def)
qed simp_all

theorem render_inject:
  assumes "plain_json asc v" "plain_json asc w" "render fr asc v = render fr asc w"
  shows "v = w"
proof -
  have "loads plain_hooks (render fr asc v) = Inr v" "loads plain_hooks (render fr asc w) = Inr w"
    using assms(1,2) by (simp_all add: loads_render plain_json_ok)
  then show ?thesis unfolding assms(3) by simp
qed

lemma plain_json_sort_keys: "plain_json asc (sort_keys v) = plain_json asc v"
proof (induction v)
  case (JArr vs)
  then show ?case by (simp add: list_all_iff)
next
  case (JObj kvs)
  have "plain_json asc (sort_keys (snd kv)) = plain_json asc (snd kv)" if "kv \<in> set kvs" for kv
    using JObj [of kv "snd kv"] that by (cases kv) simp
  then show ?case by (simp add: list_all_iff case_prod_beta)
qed simp_all

corollary dumps_inject:
  "plain_json asc v \<Longrightarrow> plain_json asc w \<Longrightarrow> dumps fr asc v = dumps fr asc w \<Longrightarrow> sort_keys v = sort_keys w"
  unfolding dumps_def by (rule render_inject) (simp_all add: plain_json_sort_keys)

end
