(* ===== verification/Codec.thy ===== *)
theory Codec
  imports Json_Roundtrip
begin

text \<open>
  The library functions the program hashes and serialises with, as one record of parameters
  (\<open>hashlib.sha256(..).hexdigest()\<close>, \<open>hmac.new(..).hexdigest()\<close>, the shortest decimal text of
  a double and its inverse, the two texts of a timestamp), Python's datetimes, the default
  \<open>json.loads\<close>, and the contract that a digest of JSON text offers to its users.
\<close>

section \<open>Timestamps\<close>

text \<open>
  Microseconds since the epoch, and the UTC offset in seconds (\<open>None\<close> for a naive datetime).
  Two aware datetimes compare by their instants, whatever their offsets.
\<close>

record datetime =
  dt_instant :: int
  dt_offset :: "int option"

definition dt_aware :: "datetime \<Rightarrow> bool" where
  "dt_aware t \<longleftrightarrow> dt_offset t \<noteq> None"

definition dt_le :: "datetime \<Rightarrow> datetime \<Rightarrow> bool" where
  "dt_le a b \<longleftrightarrow> dt_instant a \<le> dt_instant b"

definition dt_less :: "datetime \<Rightarrow> datetime \<Rightarrow> bool" where
  "dt_less a b \<longleftrightarrow> dt_instant a < dt_instant b"

section \<open>Parameters\<close>

record codec =
  sha256_hex :: "string \<Rightarrow> string"
  hmac_sha256_hex :: "string \<Rightarrow> string \<Rightarrow> string"
  float_repr :: "pyfloat \<Rightarrow> string"
  float_of_text :: "string \<Rightarrow> pyfloat"
  iso_utc :: "datetime \<Rightarrow> string"
  dt_json :: "datetime \<Rightarrow> string"

text \<open>A hash prints as 64 lowercase hex digits.\<close>

definition hash_ok :: "codec \<Rightarrow> bool" where
  "hash_ok C \<longleftrightarrow> (\<forall>s. sha256_text (sha256_hex C s))"

lemma hash_okD [simp]: "hash_ok C \<Longrightarrow> sha256_text (sha256_hex C s)"
  by (simp add: hash_ok_def)

section \<open>Loading with the default hooks\<close>

definition int_of_text :: "string \<Rightarrow> int" where
  "int_of_text t = (case t of
       c # ds \<Rightarrow> if c = CHR ''-'' then - int (nat_of_digits ds) else int (nat_of_digits t)
     | [] \<Rightarrow> 0)"

lemma int_of_text_repr [simp]: "int_of_text (int_repr i) = i"
  using int_of_repr [of i] by (simp add: int_of_text_def)

text \<open>\<open>int(text)\<close> refuses more than 4300 digits.\<close>

definition int_digit_limit :: nat where
  "int_digit_limit = 4300"

definition digit_count :: "string \<Rightarrow> nat" where
  "digit_count t = length (filter is_digit t)"

text \<open>A dictionary built from pairs: a repeated key keeps its place and takes the last value.\<close>

fun dict_set :: "(string \<times> json) list \<Rightarrow> string \<Rightarrow> json \<Rightarrow> (string \<times> json) list" where
  "dict_set [] k v = [(k, v)]"
| "dict_set ((k', v') # kvs) k v =
     (if k' = k then (k, v) # kvs else (k', v') # dict_set kvs k v)"

definition dict_of_pairs :: "(string \<times> json) list \<Rightarrow> (string \<times> json) list" where
  "dict_of_pairs kvs = foldl (\<lambda>d (k, v). dict_set d k v) [] kvs"

datatype load_error = JsonDecodeError | IntTooLong

definition default_hooks :: "codec \<Rightarrow> load_error hooks" where
  "default_hooks C =
     \<lparr>h_pairs = (\<lambda>kvs. Inr (JObj (dict_of_pairs kvs))),
      h_const = (\<lambda>t. Inr (JFloat (if t = ''NaN'' then PyNaN else PyInf (t = ''-Infinity'')))),
      h_int = (\<lambda>t. if digit_count t > int_digit_limit then Inl IntTooLong else Inr (JInt (int_of_text t))),
      h_float = (\<lambda>t. Inr (JFloat (float_of_text C t))),
      h_syntax = JsonDecodeError\<rparr>"

lemma dict_set_fresh: "k \<notin> fst ` set d \<Longrightarrow> dict_set d k v = d @ [(k, v)]"
  by (induction d k v rule: dict_set.induct) auto

lemma dict_of_pairs_distinct:
  assumes "distinct (map fst kvs)"
  shows "dict_of_pairs kvs = kvs"
proof -
  have "foldl (\<lambda>d (k, v). dict_set d k v) d kvs = d @ kvs"
    if "distinct (map fst (d @ kvs))" for d
    using that
  proof (induction kvs arbitrary: d)
    case (Cons kv kvs)
    obtain k v where kv: "kv = (k, v)" by (cases kv)
    from Cons.prems have "k \<notin> fst ` set d" by (auto simp: kv)
    moreover from Cons.prems have "distinct (map fst ((d @ [(k, v)]) @ kvs))" by (simp add: kv)
    ultimately show ?case using Cons.IH [of "d @ [(k, v)]"] by (simp add: kv dict_set_fresh)
  qed simp
  from this [of "[]"] assms show ?thesis by (simp add: dict_of_pairs_def)
qed

section \<open>Digests of JSON documents\<close>

text \<open>
  A digest commits to a document: among texts on which the hash has no collision, equal digests
  mean equal documents up to the order of keys.
\<close>

locale json_digest =
  fixes digest :: "codec \<Rightarrow> json \<Rightarrow> string"
    and text_of :: "codec \<Rightarrow> json \<Rightarrow> string"
    and admissible :: "json \<Rightarrow> bool"
  assumes digest_text: "digest C v = sha256_hex C (text_of C v)"
    and text_inject: "admissible v \<Longrightarrow> admissible w \<Longrightarrow> text_of C v = text_of C w
      \<Longrightarrow> sort_keys v = sort_keys w"
begin

lemma digest_binding:
  assumes "admissible v" "admissible w" "digest C v = digest C w"
    and "inj_on (sha256_hex C) {text_of C v, text_of C w}"
  shows "sort_keys v = sort_keys w"
proof -
  have "text_of C v = text_of C w"
    by (rule inj_onD [OF assms(4) assms(3) [unfolded digest_text]]) simp_all
  with assms(1,2) show ?thesis by (rule text_inject)
qed

lemma digest_binding_on:
  assumes "inj_on (sha256_hex C) T" "text_of C v \<in> T" "text_of C w \<in> T"
    and "admissible v" "admissible w" "digest C v = digest C w"
  shows "sort_keys v = sort_keys w"
proof (rule digest_binding [OF assms(4,5,6)])
  show "inj_on (sha256_hex C) {text_of C v, text_of C w}"
    by (rule inj_on_subset [OF assms(1)]) (use assms(2,3) in blast)
qed

end

section \<open>A concrete instance\<close>

text \<open>
  A polynomial checksum printed as 64 hex digits: the instance on which concrete runs are
  evaluated. It stands for no cryptographic function.
\<close>

fun hex_fixed :: "nat \<Rightarrow> nat \<Rightarrow> string" where
  "hex_fixed 0 n = []"
| "hex_fixed (Suc k) n = hex_fixed k (n div 16) @ [hex_digit (n mod 16)]"

definition checksum :: "string \<Rightarrow> nat" where
  "checksum s = foldl (\<lambda>a c. (a * 257 + ord c + 1) mod 2 ^ 61) 7 s"

definition sample_codec :: codec where
  "sample_codec =
     \<lparr>sha256_hex = (\<lambda>s. hex_fixed 64 (checksum s)),
      hmac_sha256_hex = (\<lambda>k s. hex_fixed 64 (checksum (k @ s))),
      float_repr = (\<lambda>_. ''0.0''),
      float_of_text = (\<lambda>_. PyFin 0),
      iso_utc = (\<lambda>t. int_repr (dt_instant t)),
      dt_json = (\<lambda>t. int_repr (dt_instant t))\<rparr>"

lemma hex_fixed_length: "length (hex_fixed k n) = k"
  by (induction k n rule: hex_fixed.induct) auto

lemma hex_fixed_hex: "list_all is_lower_hex (hex_fixed k n)"
proof (induction k n rule: hex_fixed.induct)
  case (2 k n)
  have "is_lower_hex (hex_digit d)" if "d < 16" for d
    using that by (auto simp: is_lower_hex_def is_digit_def hex_digit_def)
  with 2 show ?case by simp
qed simp

lemma sample_sha256_text: "sha256_text (sha256_hex sample_codec s)"
  by (simp add: sample_codec_def sha256_text_def hex_fixed_length hex_fixed_hex)

lemma sample_hash [simp]: "hash_ok sample_codec"
  by (simp add: hash_ok_def sample_sha256_text)

end
