(* ===== verification/Json_Default.thy ===== *)
theory Json_Default
  imports Codec
begin

text \<open>
  Texts that render without escapes and the lengths they render to, and the values that the
  default \<open>json.loads\<close> reads back from their \<open>json.dumps\<close>.
\<close>

section \<open>Texts without escapes\<close>

definition bare_char :: "char \<Rightarrow> bool" where
  "bare_char c \<longleftrightarrow> 32 \<le> ord c \<and> ord c < 127 \<and> ord c \<noteq> 34 \<and> ord c \<noteq> 92"

lemma label_char_bare: "label_char c \<Longrightarrow> bare_char c"
  by (auto simp: label_char_def bare_char_def is_lower_alpha_def is_upper_alpha_def is_digit_def)

lemma hex_char_bare: "is_lower_hex c \<Longrightarrow> bare_char c"
  by (auto simp: bare_char_def is_lower_hex_def is_digit_def)

lemma bare_ascii: "list_all bare_char s \<Longrightarrow> is_ascii s"
  by (auto simp: is_ascii_def list_all_iff bare_char_def)

lemma label_text_bare: "label_text s \<Longrightarrow> list_all bare_char s"
proof (cases s)
  case (Cons c cs)
  assume "label_text s"
  with Cons have "list_all label_char (c # cs)" by (auto simp: label_char_def)
  with Cons show ?thesis using label_char_bare by (auto simp: list_all_iff)
qed simp

lemma sha256_text_bare: "sha256_text s \<Longrightarrow> list_all bare_char s"
  using hex_char_bare by (auto simp: sha256_text_def list_all_iff)

lemma esc_cp_bare: "bare_char c \<Longrightarrow> esc_cp (ord c) = [c]"
  by (auto simp: bare_char_def esc_cp_def short_escape_def)

lemma render_str_bare: "list_all bare_char s \<Longrightarrow> render_str True s = [CHR 0x22] @ s @ [CHR 0x22]"
proof -
  assume b: "list_all bare_char s"
  then have "concat (map esc_cp (map ord s)) = s"
    by (induction s) (auto simp: esc_cp_bare)
  then show ?thesis using code_points_ascii [OF bare_ascii [OF b]] by (simp add: render_str_def)
qed

lemma length_render_str_bare [simp]: "list_all bare_char s \<Longrightarrow> length (render_str True s) = length s + 2"
  by (simp add: render_str_bare)

lemma length_join: "length (join '','' xs) = sum_list (map length xs) + (length xs - 1)"
proof (induction xs)
  case (Cons x xs)
  then show ?case by (cases xs) auto
qed simp

text \<open>Codes of character literals.\<close>

lemma ord_Char [simp]:
  "ord (Char a b c d e f g h) = of_char (Char a b c d e f g h)"
  by (simp add: ord_def)

section \<open>Numerals\<close>

lemma nat_digits_length: "n < 10 ^ Suc k \<Longrightarrow> length (nat_digits n) \<le> Suc k"
proof (induction k arbitrary: n)
  case 0
  then show ?case by (simp add: nat_digits.simps)
next
  case (Suc k)
  show ?case
  proof (cases "n < 10")
    case True
    then show ?thesis by (simp add: nat_digits.simps [of n])
  next
    case False
    from Suc.prems have "n div 10 < 10 ^ Suc k" by (simp add: less_mult_imp_div_less)
    from Suc.IH [OF this] False show ?thesis by (simp add: nat_digits.simps [of n])
  qed
qed

lemma int_repr_length: "0 \<le> i \<Longrightarrow> i < 10 ^ Suc k \<Longrightarrow> length (int_repr i) \<le> Suc k"
  using nat_digits_length [of "nat i" k] by (simp add: int_repr_def nat_less_iff)

lemma digit_count_le: "digit_count s \<le> length s"
  by (simp add: digit_count_def)

section \<open>Values the default hooks load back\<close>

fun load_ok :: "bool \<Rightarrow> json \<Rightarrow> bool" where
  "load_ok asc (JInt i) \<longleftrightarrow> digit_count (int_repr i) \<le> int_digit_limit"
| "load_ok asc (JFloat x) \<longleftrightarrow> False"
| "load_ok asc (JStr s) \<longleftrightarrow> str_ok asc s"
| "load_ok asc (JArr vs) \<longleftrightarrow> list_all (load_ok asc) vs"
| "load_ok asc (JObj kvs) \<longleftrightarrow> distinct (map fst kvs) \<and> list_all (\<lambda>(k, v). str_ok asc k \<and> load_ok asc v) kvs"
| "load_ok asc _ \<longleftrightarrow> True"

lemma load_ok_default: "load_ok asc v \<Longrightarrow> json_ok (default_hooks C) asc v"
proof (induction v)
  case (JArr vs)
  then show ?case by (auto simp: list_all_iff)
next
  case (JObj kvs)
  then show ?case by (fastforce simp: list_all_iff default_hooks_def dict_of_pairs_distinct)
qed (simp_all add: default_hooks_def)

lemma load_ok_plain: "load_ok asc v \<Longrightarrow> plain_json asc v"
proof (induction v)
  case (JArr vs)
  then show ?case by (auto simp: list_all_iff)
next
  case (JObj kvs)
  then show ?case by (fastforce simp: list_all_iff)
qed simp_all

lemma map_fst_sort_keys: "map fst (map (\<lambda>(k, v). (k, sort_keys v)) kvs) = map fst kvs"
  by (simp add: case_prod_beta)

lemma load_ok_sort_keys: "load_ok asc v \<Longrightarrow> load_ok asc (sort_keys v)"
proof (induction v)
  case (JArr vs)
  then show ?case by (auto simp: list_all_iff)
next
  case (JObj kvs)
  let ?m = "map (\<lambda>(k, v). (k, sort_keys v)) kvs"
  have "distinct (map fst ?m)" using JObj.prems by (simp only: load_ok.simps map_fst_sort_keys)
  then have "distinct (map fst (sort_key fst ?m))" by (simp only: distinct_map distinct_sort set_sort)
  then show ?case using JObj by (fastforce simp: list_all_iff)
qed simp_all

lemma sort_keys_idem [simp]: "sort_keys (sort_keys v) = sort_keys v"
proof (induction v)
  case (JObj kvs)
  have *: "map (\<lambda>(k, v). (k, sort_keys v)) (sort_key fst (map (\<lambda>(k, v). (k, sort_keys v)) kvs))
      = sort_key fst (map (\<lambda>(k, v). (k, sort_keys v)) kvs)"
    using JObj by (intro map_idI) auto
  show ?case by (simp only: sort_keys.simps * sort_key_id_if_sorted sorted_sort_key)
qed simp_all

lemma loads_dumps:
  "load_ok asc v \<Longrightarrow> loads (default_hooks C) (dumps fr asc v) = Inr (sort_keys v)"
  by (simp add: dumps_def loads_render load_ok_default load_ok_sort_keys)

lemma dumps_sort_keys [simp]: "dumps fr asc (sort_keys v) = dumps fr asc v"
  by (simp add: dumps_def)

section \<open>Matching on values\<close>

text \<open>
  A successful match on a value with one accepting pattern, stated without a case split: these
  rewrite a parser that returned normally to the shape of its input.
\<close>

lemma opt_str_case:
  "(case x of Some (JStr s) \<Rightarrow> f s | _ \<Rightarrow> Inl e) = Inr y \<longleftrightarrow> (\<exists>s. x = Some (JStr s) \<and> f s = Inr y)"
  by (cases x; simp; rename_tac a; case_tac a; simp)

lemma opt_int_case:
  "(case x of Some (JInt s) \<Rightarrow> f s | _ \<Rightarrow> Inl e) = Inr y \<longleftrightarrow> (\<exists>s. x = Some (JInt s) \<and> f s = Inr y)"
  by (cases x; simp; rename_tac a; case_tac a; simp)

lemma opt_pair_case:
  "(case (x, z) of (Some a, Some b) \<Rightarrow> f a b | _ \<Rightarrow> Inl e) = Inr y \<longleftrightarrow> (\<exists>a b. x = Some a \<and> z = Some b \<and> f a b = Inr y)"
  by (cases x; cases z; simp)

lemma json_obj_case:
  "(case x of JObj kvs \<Rightarrow> f kvs | _ \<Rightarrow> Inl e) = Inr y \<longleftrightarrow> (\<exists>kvs. x = JObj kvs \<and> f kvs = Inr y)"
  by (cases x; simp)

lemmas json_cases = opt_str_case opt_int_case opt_pair_case json_obj_case

lemma if_Inl_Inr: "(if b then Inl e else m) = Inr y \<longleftrightarrow> \<not> b \<and> m = Inr y"
  "(if b then m else Inl e) = Inr y \<longleftrightarrow> b \<and> m = Inr y"
  by auto

section \<open>Rendered text is ASCII\<close>

lemma is_ascii_join: "list_all is_ascii xs \<Longrightarrow> is_ascii (join '','' xs)"
proof (induction xs)
  case (Cons x xs)
  then show ?case by (cases xs) auto
qed simp

lemma nat_digits_ascii: "is_ascii (nat_digits n)"
  using nat_digits_all_digits [of n] by (auto simp: is_ascii_def list_all_iff is_digit_def)

lemma int_repr_ascii: "is_ascii (int_repr i)"
  by (simp add: int_repr_def nat_digits_ascii)

lemma esc_cp_ascii: "n < 128 \<Longrightarrow> is_ascii (esc_cp n)"
  by (auto simp: esc_cp_def short_escape_def u_escape_def hex_digit_def)

lemma render_str_ascii: "is_ascii s \<Longrightarrow> is_ascii (render_str True s)"
proof -
  assume a: "is_ascii s"
  then have "is_ascii (concat (map esc_cp (map ord s)))"
    by (induction s) (auto simp: esc_cp_ascii)
  with a show ?thesis by (simp add: render_str_def code_points_ascii)
qed

lemma render_ascii: "plain_json True v \<Longrightarrow> is_ascii (render fr True v)"
proof (induction v)
  case (JArr vs)
  then have "list_all is_ascii (map (render fr True) vs)" by (auto simp: list_all_iff)
  then show ?case using is_ascii_join by simp
next
  case (JObj kvs)
  then have "list_all is_ascii (map (\<lambda>(k, v). render_str True k @ '':'' @ render fr True v) kvs)"
    by (fastforce simp: list_all_iff str_ok_def render_str_ascii)
  then show ?case using is_ascii_join by simp
qed (auto simp: int_repr_ascii str_ok_def render_str_ascii)

text \<open>A rendered character takes at most six bytes.\<close>

lemma esc_byte_length: "length (esc_byte c) \<le> 6"
  by (simp add: esc_byte_def u_escape_def split: option.split)

lemma render_str_length: "length (render_str False s) \<le> 6 * length s + 2"
proof -
  have "length (concat (map esc_byte s)) \<le> 6 * length s"
  proof (induction s)
    case (Cons c s)
    then show ?case using esc_byte_length [of c] by simp
  qed simp
  then show ?thesis by (simp add: render_str_def)
qed

end
