(* ===== verification/Sqlite.thy ===== *)
theory Sqlite
  imports Json
begin

text \<open>
  Values of a SQLite table as Python's driver returns them, and how Python compares them: a number is
  equal to an integer when their values are.
\<close>

datatype cell = CInt int | CText string | CBlob string | CReal pyfloat | CNull

fun cell_is_int :: "cell \<Rightarrow> int \<Rightarrow> bool" where
  "cell_is_int (CInt m) n = (m = n)"
| "cell_is_int (CReal (PyFin r)) n = (r = of_int n)"
| "cell_is_int (CReal PyNegZero) n = (n = 0)"
| "cell_is_int _ n = False"

lemma cell_is_int_CInt [simp]: "cell_is_int (CInt m) n \<longleftrightarrow> m = n"
  by simp

end
