(* ===== verification/Ancestry_Store.thy ===== *)
theory Ancestry_Store
  imports Json_Default Sqlite
begin

text \<open>
  \<open>ancestry_store.py\<close>: a hash-chained, append-only registry of records with parents and scopes,
  kept in a SQLite database and a separate witness file. The durable state (\<open>disk\<close>) is the
  committed database, the bytes of the witness and the lock file; an operation returns its
  result together with the durable effects it performed, in order, so that a crash is a prefix
  of that list. SQLite contributes its documented typing of columns and the atomicity of
  \<open>COMMIT\<close>, \<open>os.replace\<close> the atomicity of a witness update.
\<close>

section \<open>Records\<close>

datatype anc_error =
    AncestryError string
  | CheckpointConflict string
  | IntegrityError string

record ancestry_record =
  ar_id :: string
  ar_context :: string
  ar_payload :: string
  ar_parents :: "string list"
  ar_scope :: "string list"

record checkpoint =
  cp_context :: string
  cp_root :: string
  cp_version :: int
  cp_sequence :: int
  cp_head :: string

record snapshot =
  sn_checkpoint :: checkpoint
  sn_records :: "ancestry_record list"

definition store_version :: int where "store_version = 1"
definition max_records :: nat where "max_records = 4096"
definition max_payload :: nat where "max_payload = 65536"
definition max_parents :: nat where "max_parents = 32"
definition max_scope :: nat where "max_scope = 64"
definition max_witness :: nat where "max_witness = 4096"

definition check_label :: "string \<Rightarrow> anc_error + unit" where
  "check_label v = ensure (label_text v) (AncestryError ''identifier/context/scope must be bounded ASCII labels'')"

definition check_labels :: "string list \<Rightarrow> nat \<Rightarrow> anc_error + unit" where
  "check_labels vs limit =
     res_bind (ensure (length vs \<le> limit) (AncestryError ''labels must be a bounded tuple'')) (\<lambda>_.
     res_bind (map_res check_label vs) (\<lambda>_.
     ensure (sort (remdups vs) = vs) (AncestryError ''labels must be sorted and unique'')))"

text \<open>\<open>AncestryRecord.__post_init__\<close>\<close>

definition mk_record :: "ancestry_record \<Rightarrow> anc_error + ancestry_record" where
  "mk_record r =
     res_bind (check_label (ar_id r)) (\<lambda>_.
     res_bind (check_label (ar_context r)) (\<lambda>_.
     res_bind (ensure (length (ar_payload r) \<le> max_payload)
                (AncestryError ''payload must be bytes of at most 65536 bytes'')) (\<lambda>_.
     res_bind (check_labels (ar_parents r) max_parents) (\<lambda>_.
     res_bind (check_labels (ar_scope r) max_scope) (\<lambda>_.
     Inr r)))))"

section \<open>Digests\<close>

definition anc_json :: "codec \<Rightarrow> json \<Rightarrow> string" where
  "anc_json C v = dumps (float_repr C) True v"

definition anc_digest :: "codec \<Rightarrow> string \<Rightarrow> string" where
  "anc_digest C b = sha256_hex C b"

definition hex_bytes :: "string \<Rightarrow> string" where
  "hex_bytes b = concat (map (\<lambda>c. [hex_digit (ord c div 16), hex_digit (ord c mod 16)]) b)"

definition labels_json :: "string list \<Rightarrow> json" where
  "labels_json ls = JArr (map JStr ls)"

definition record_doc :: "ancestry_record \<Rightarrow> json" where
  "record_doc r = JObj
     [(''context'', JStr (ar_context r)),
      (''id'', JStr (ar_id r)),
      (''parents'', labels_json (ar_parents r)),
      (''payload_hex'', JStr (hex_bytes (ar_payload r))),
      (''scope'', labels_json (ar_scope r)),
      (''version'', JInt store_version)]"

definition record_digest :: "codec \<Rightarrow> ancestry_record \<Rightarrow> string" where
  "record_digest C r = anc_digest C (anc_json C (record_doc r))"

definition head_doc :: "int \<Rightarrow> string \<Rightarrow> string \<Rightarrow> json" where
  "head_doc n before d = JObj
     [(''before'', JStr before),
      (''record_digest'', JStr d),
      (''sequence'', JInt n),
      (''version'', JInt store_version)]"

definition event_head :: "codec \<Rightarrow> int \<Rightarrow> string \<Rightarrow> string \<Rightarrow> string" where
  "event_head C n before d = anc_digest C (anc_json C (head_doc n before d))"

section \<open>Checkpoints and the witness file\<close>

definition checkpoint_data :: "checkpoint \<Rightarrow> json" where
  "checkpoint_data cp = JObj
     [(''context'', JStr (cp_context cp)),
      (''event_head'', JStr (cp_head cp)),
      (''root_digest'', JStr (cp_root cp)),
      (''sequence'', JInt (cp_sequence cp)),
      (''version'', JInt (cp_version cp))]"

definition parse_checkpoint :: "json \<Rightarrow> anc_error + checkpoint" where
  "parse_checkpoint v =
     (case v of
        JObj kvs \<Rightarrow>
          if obj_keys kvs \<noteq> {''context'', ''event_head'', ''root_digest'', ''sequence'', ''version''}
          then Inl (IntegrityError ''invalid checkpoint shape'')
          else
            (case (obj_get kvs ''context'', obj_get kvs ''event_head'', obj_get kvs ''root_digest'',
                   obj_get kvs ''sequence'', obj_get kvs ''version'') of
               (Some (JStr c), Some (JStr h), Some (JStr r), Some (JInt n), Some (JInt w)) \<Rightarrow>
                 if label_text c \<and> 1 \<le> n \<and> n \<le> int max_records \<and> w = store_version
                    \<and> sha256_text r \<and> sha256_text h
                 then Inr \<lparr>cp_context = c, cp_root = r, cp_version = w, cp_sequence = n, cp_head = h\<rparr>
                 else Inl (IntegrityError ''invalid checkpoint value'')
             | _ \<Rightarrow> Inl (IntegrityError ''invalid checkpoint value''))
      | _ \<Rightarrow> Inl (IntegrityError ''invalid checkpoint shape''))"

definition witness_doc :: "checkpoint \<Rightarrow> (checkpoint \<times> checkpoint) option \<Rightarrow> json" where
  "witness_doc committed pending = JObj
     [(''committed'', checkpoint_data committed),
      (''pending'', (case pending of
                       None \<Rightarrow> JNull
                     | Some (b, a) \<Rightarrow> JObj [(''before'', checkpoint_data b), (''after'', checkpoint_data a)])),
      (''version'', JInt store_version)]"

definition witness_bytes ::
  "codec \<Rightarrow> checkpoint \<Rightarrow> (checkpoint \<times> checkpoint) option \<Rightarrow> anc_error + string" where
  "witness_bytes C committed pending =
     (let data = anc_json C (witness_doc committed pending)
      in if length data > max_witness then Inl (IntegrityError ''witness too large'') else Inr data)"

definition parse_pending :: "json \<Rightarrow> anc_error + (checkpoint \<times> checkpoint) option" where
  "parse_pending v =
     (case v of
        JNull \<Rightarrow> Inr None
      | JObj kvs \<Rightarrow>
          if obj_keys kvs \<noteq> {''before'', ''after''} then Inl (IntegrityError ''invalid pending witness'')
          else (case (obj_get kvs ''before'', obj_get kvs ''after'') of
                  (Some b, Some a) \<Rightarrow>
                    res_bind (parse_checkpoint b) (\<lambda>b'.
                    res_bind (parse_checkpoint a) (\<lambda>a'. Inr (Some (b', a'))))
                | _ \<Rightarrow> Inl (IntegrityError ''invalid pending witness''))
      | _ \<Rightarrow> Inl (IntegrityError ''invalid pending witness''))"

definition read_witness ::
  "codec \<Rightarrow> string \<Rightarrow> anc_error + (checkpoint \<times> (checkpoint \<times> checkpoint) option)" where
  "read_witness C raw =
     (if length raw > max_witness then Inl (IntegrityError ''witness too large'')
      else if \<not> utf8_valid raw then Inl (IntegrityError ''witness unavailable or corrupt'')
      else
        (case loads (default_hooks C) raw of
           Inl _ \<Rightarrow> Inl (IntegrityError ''witness unavailable or corrupt'')
         | Inr body \<Rightarrow>
             (case body of
                JObj kvs \<Rightarrow>
                  if raw \<noteq> anc_json C body
                     \<or> obj_keys kvs \<noteq> {''committed'', ''pending'', ''version''}
                     \<or> obj_get kvs ''version'' \<noteq> Some (JInt store_version)
                  then Inl (IntegrityError ''invalid witness encoding'')
                  else
                    (case (obj_get kvs ''committed'', obj_get kvs ''pending'') of
                       (Some c, Some p) \<Rightarrow>
                         res_bind (parse_checkpoint c) (\<lambda>committed.
                         res_bind (parse_pending p) (\<lambda>pending. Inr (committed, pending)))
                     | _ \<Rightarrow> Inl (IntegrityError ''invalid witness encoding''))
              | _ \<Rightarrow> Inl (IntegrityError ''invalid witness encoding''))))"

section \<open>The database\<close>

text \<open>The rows of the three tables.\<close>

record record_row =
  rr_sequence :: int
  rr_id :: cell
  rr_context :: cell
  rr_payload :: cell
  rr_parents :: cell
  rr_scope :: cell
  rr_digest :: cell

record event_row =
  er_sequence :: int
  er_before :: cell
  er_record :: cell
  er_head :: cell

text \<open>The parts of the schema that the program inspects through \<open>sqlite_master\<close> and the pragmas.\<close>

record index_info =
  ix_name :: string
  ix_unique :: int
  ix_origin :: string
  ix_partial :: int
  ix_columns :: "string list"

record schema =
  sc_objects :: "(string \<times> string) list"
  sc_columns :: "(string \<times> (string \<times> string \<times> int \<times> int) list) list"
  sc_indexes :: "(string \<times> index_info list) list"

record database =
  db_schema :: schema
  db_meta :: "(cell \<times> cell) list"
  db_records :: "record_row list"
  db_events :: "event_row list"

record disk =
  dk_db :: "database option"
  dk_witness :: "string option"
  dk_lock :: "string option"

record store =
  st_context :: string
  st_root :: string

definition expected_columns :: "(string \<times> (string \<times> string \<times> int \<times> int) list) list" where
  "expected_columns =
     [(''meta'', [(''key'', ''TEXT'', 0, 1), (''value'', ''TEXT'', 1, 0)]),
      (''records'', [(''sequence'', ''INTEGER'', 0, 1), (''record_id'', ''TEXT'', 1, 0),
                     (''context'', ''TEXT'', 1, 0), (''payload'', ''BLOB'', 1, 0),
                     (''parents'', ''TEXT'', 1, 0), (''scope'', ''TEXT'', 1, 0),
                     (''digest'', ''TEXT'', 1, 0)]),
      (''events'', [(''sequence'', ''INTEGER'', 0, 1), (''before_head'', ''TEXT'', 1, 0),
                    (''record_digest'', ''TEXT'', 1, 0), (''event_head'', ''TEXT'', 1, 0)])]"

definition rows_of :: "(string \<times> 'a list) list \<Rightarrow> string \<Rightarrow> 'a list" where
  "rows_of m t = (case map_of m t of Some xs \<Rightarrow> xs | None \<Rightarrow> [])"

fun check_indexes :: "schema \<Rightarrow> string \<times> string option \<times> string \<Rightarrow> anc_error + unit" where
  "check_indexes sc (table, column, origin) =
     (let ixs = rows_of (sc_indexes sc) table
      in res_bind (ensure (length ixs = (if column = None then 0 else 1))
                     (IntegrityError ''database indexes differ'')) (\<lambda>_.
         res_bind (map_res (\<lambda>ix.
           res_bind (ensure (ix_unique ix = 1 \<and> ix_origin ix = origin \<and> ix_partial ix = 0)
                       (IntegrityError ''database index identity differs'')) (\<lambda>_.
           res_bind (ensure (ix_name ix = ''sqlite_autoindex_'' @ table @ ''_1'')
                       (IntegrityError ''database index name differs'')) (\<lambda>_.
           ensure (length (ix_columns ix) = 1 \<and> Some (hd (ix_columns ix)) = column)
             (IntegrityError ''database index columns differ'')))) ixs) (\<lambda>_.
         Inr ())))"

definition verify_schema :: "schema \<Rightarrow> anc_error + unit" where
  "verify_schema sc =
     res_bind (ensure (set (sc_objects sc) = {(''table'', ''meta''), (''table'', ''records''), (''table'', ''events'')}
                \<and> length (sc_objects sc) = 3) (IntegrityError ''database schema differs'')) (\<lambda>_.
     res_bind (map_res (\<lambda>(table, columns).
                 ensure (rows_of (sc_columns sc) table = columns) (IntegrityError ''database columns differ''))
               expected_columns) (\<lambda>_.
     res_bind (map_res (check_indexes sc)
                 [(''meta'', Some ''key'', ''pk''), (''records'', Some ''record_id'', ''u''), (''events'', None, [])]) (\<lambda>_.
     Inr ())))"

text \<open>The schema that \<open>create\<close> declares.\<close>

definition created_schema :: schema where
  "created_schema =
     \<lparr>sc_objects = [(''table'', ''meta''), (''table'', ''records''), (''table'', ''events'')],
      sc_columns = expected_columns,
      sc_indexes =
        [(''meta'', [\<lparr>ix_name = ''sqlite_autoindex_meta_1'', ix_unique = 1, ix_origin = ''pk'',
                      ix_partial = 0, ix_columns = [''key'']\<rparr>]),
         (''records'', [\<lparr>ix_name = ''sqlite_autoindex_records_1'', ix_unique = 1, ix_origin = ''u'',
                         ix_partial = 0, ix_columns = [''record_id'']\<rparr>])]\<rparr>"

fun is_text :: "cell \<Rightarrow> bool" where
  "is_text (CText s) = True"
| "is_text _ = False"

fun is_blob :: "cell \<Rightarrow> bool" where
  "is_blob (CBlob b) = True"
| "is_blob _ = False"

definition row_types_ok :: "record_row \<Rightarrow> bool" where
  "row_types_ok r \<longleftrightarrow> is_text (rr_id r) \<and> is_text (rr_context r) \<and> is_blob (rr_payload r)
     \<and> is_text (rr_parents r) \<and> is_text (rr_scope r) \<and> is_text (rr_digest r)"

text \<open>SQLite's \<open>LENGTH\<close>: characters of a text, bytes of a blob.\<close>

fun cell_length :: "cell \<Rightarrow> nat" where
  "cell_length (CText s) = py_len s"
| "cell_length (CBlob b) = length b"
| "cell_length _ = 0"

definition row_limits_ok :: "record_row \<Rightarrow> bool" where
  "row_limits_ok r \<longleftrightarrow> cell_length (rr_payload r) \<le> max_payload \<and> cell_length (rr_id r) \<le> 128
     \<and> cell_length (rr_context r) \<le> 128 \<and> cell_length (rr_parents r) \<le> 4200
     \<and> cell_length (rr_scope r) \<le> 8400 \<and> cell_length (rr_digest r) \<le> 64"

text \<open>\<open>tuple(json.loads(text))\<close>: a list's items, a string's characters, a dictionary's keys.\<close>

fun tuple_of_json :: "json \<Rightarrow> json list option" where
  "tuple_of_json (JArr vs) = Some vs"
| "tuple_of_json (JStr s) = Some (map (\<lambda>cp. JStr (utf8_encode_cp cp)) (code_points s))"
| "tuple_of_json (JObj kvs) = Some (map (\<lambda>(k, v). JStr k) kvs)"
| "tuple_of_json _ = None"

fun str_items :: "json list \<Rightarrow> string list option" where
  "str_items [] = Some []"
| "str_items (JStr s # vs) = map_option (Cons s) (str_items vs)"
| "str_items (_ # vs) = None"

definition load_labels :: "codec \<Rightarrow> string \<Rightarrow> string list option" where
  "load_labels C raw =
     (case loads (default_hooks C) raw of
        Inl _ \<Rightarrow> None
      | Inr v \<Rightarrow> (case tuple_of_json v of None \<Rightarrow> None | Some vs \<Rightarrow> str_items vs))"

text \<open>One row of \<open>records\<close> decoded and checked against itself (the \<open>try\<close> block and the test after it).\<close>

definition decode_row :: "codec \<Rightarrow> store \<Rightarrow> int \<Rightarrow> ancestry_record list \<Rightarrow> record_row
    \<Rightarrow> anc_error + (ancestry_record \<times> string)" where
  "decode_row C st n known row =
     (case (rr_id row, rr_context row, rr_payload row, rr_parents row, rr_scope row, rr_digest row) of
        (CText i, CText c, CBlob p, CText ps_raw, CText sc_raw, CText d) \<Rightarrow>
          (case (load_labels C ps_raw, load_labels C sc_raw) of
             (Some ps, Some sc) \<Rightarrow>
               (case mk_record \<lparr>ar_id = i, ar_context = c, ar_payload = p, ar_parents = ps, ar_scope = sc\<rparr> of
                  Inl _ \<Rightarrow> Inl (IntegrityError ''invalid stored record'')
                | Inr r \<Rightarrow>
                    if rr_sequence row \<noteq> n \<or> i \<in> ar_id ` set known \<or> c \<noteq> st_context st
                       \<or> ps_raw \<noteq> anc_json C (labels_json ps) \<or> sc_raw \<noteq> anc_json C (labels_json sc)
                       \<or> d \<noteq> record_digest C r
                    then Inl (IntegrityError ''record identity or encoding mismatch'')
                    else Inr (r, d))
           | _ \<Rightarrow> Inl (IntegrityError ''invalid stored record''))
      | _ \<Rightarrow> Inl (IntegrityError ''invalid stored column types''))"

definition find_record :: "ancestry_record list \<Rightarrow> string \<Rightarrow> ancestry_record option" where
  "find_record known i = find (\<lambda>r. ar_id r = i) known"

definition parent_ok :: "ancestry_record list \<Rightarrow> string list \<Rightarrow> string \<Rightarrow> bool" where
  "parent_ok known scope i =
     (case find_record known i of None \<Rightarrow> False | Some p \<Rightarrow> set scope \<subseteq> set (ar_scope p))"

text \<open>The loop over \<open>zip(rows, events)\<close>: position, chain head and records seen so far.\<close>

fun verify_rows :: "codec \<Rightarrow> store \<Rightarrow> int \<Rightarrow> string \<Rightarrow> ancestry_record list \<Rightarrow> record_row list
    \<Rightarrow> event_row list \<Rightarrow> anc_error + (string \<times> ancestry_record list)" where
  "verify_rows C st n before known [] [] = Inr (before, known)"
| "verify_rows C st n before known (row # rows) (ev # evs) =
     res_bind (decode_row C st n known row) (\<lambda>(r, d).
     res_bind (if n = 1 then ensure (ar_parents r = [] \<and> d = st_root st) (IntegrityError ''root mismatch'')
               else ensure (ar_parents r \<noteq> []) (IntegrityError ''additional root forbidden'')) (\<lambda>_.
     res_bind (ensure (list_all (parent_ok known (ar_scope r)) (ar_parents r))
                 (IntegrityError ''missing parent or scope expansion'')) (\<lambda>_.
     (let after = event_head C n before d
      in res_bind (ensure (ev = \<lparr>er_sequence = n, er_before = CText before, er_record = CText d,
                                  er_head = CText after\<rparr>) (IntegrityError ''event chain mismatch'')) (\<lambda>_.
         verify_rows C st (n + 1) after (known @ [r]) rows evs)))))"
| "verify_rows C st n before known _ _ = Inl (IntegrityError ''record/event count invalid'')"

definition verify_meta :: "store \<Rightarrow> (cell \<times> cell) list \<Rightarrow> bool" where
  "verify_meta st rows \<longleftrightarrow> length rows = 3
     \<and> set rows = {(CText ''context'', CText (st_context st)), (CText ''root_digest'', CText (st_root st)),
                   (CText ''version'', CText (int_repr store_version))}"

definition verify_db :: "codec \<Rightarrow> store \<Rightarrow> database \<Rightarrow> anc_error + (checkpoint \<times> ancestry_record list)" where
  "verify_db C st db =
     res_bind (verify_schema (db_schema db)) (\<lambda>_.
     res_bind (ensure (list_all row_types_ok (db_records db)) (IntegrityError ''invalid stored column types'')) (\<lambda>_.
     res_bind (ensure (verify_meta st (db_meta db)) (IntegrityError ''database identity differs from caller'')) (\<lambda>_.
     res_bind (ensure (1 \<le> length (db_records db) \<and> length (db_records db) \<le> max_records
                 \<and> list_all row_limits_ok (db_records db)) (IntegrityError ''stored record limits exceeded'')) (\<lambda>_.
     res_bind (ensure (length (db_events db) = length (db_records db))
                 (IntegrityError ''record/event count invalid'')) (\<lambda>_.
     res_bind (verify_rows C st 1 zero_sha256 [] (sort_key rr_sequence (db_records db))
                 (sort_key er_sequence (db_events db))) (\<lambda>(head, records).
     Inr (\<lparr>cp_context = st_context st, cp_root = st_root st, cp_version = store_version,
            cp_sequence = int (length (db_records db)), cp_head = head\<rparr>, records)))))))"

section \<open>Operations and their durable effects\<close>

datatype effect =
    CreateFiles
  | CommitCreate database
  | CommitInsert record_row event_row
  | WriteWitness string

fun apply_effect :: "disk \<Rightarrow> effect \<Rightarrow> disk" where
  "apply_effect dk CreateFiles =
     dk\<lparr>dk_db := Some \<lparr>db_schema = \<lparr>sc_objects = [], sc_columns = [], sc_indexes = []\<rparr>,
                      db_meta = [], db_records = [], db_events = []\<rparr>,
        dk_witness := Some [], dk_lock := Some [char_of (0 :: nat)]\<rparr>"
| "apply_effect dk (CommitCreate db) = dk\<lparr>dk_db := Some db\<rparr>"
| "apply_effect dk (CommitInsert row ev) =
     dk\<lparr>dk_db := map_option (\<lambda>db. db\<lparr>db_records := db_records db @ [row], db_events := db_events db @ [ev]\<rparr>)
                  (dk_db dk)\<rparr>"
| "apply_effect dk (WriteWitness b) = dk\<lparr>dk_witness := Some b\<rparr>"

definition apply_effects :: "disk \<Rightarrow> effect list \<Rightarrow> disk" where
  "apply_effects dk es = foldl apply_effect dk es"

text \<open>\<open>_insert\<close>: the two rows and the new head.\<close>

definition insert_rows :: "codec \<Rightarrow> int \<Rightarrow> string \<Rightarrow> ancestry_record \<Rightarrow> record_row \<times> event_row \<times> string" where
  "insert_rows C n before r =
     (let d = record_digest C r; after = event_head C n before d
      in (\<lparr>rr_sequence = n, rr_id = CText (ar_id r), rr_context = CText (ar_context r),
           rr_payload = CBlob (ar_payload r), rr_parents = CText (anc_json C (labels_json (ar_parents r))),
           rr_scope = CText (anc_json C (labels_json (ar_scope r))), rr_digest = CText d\<rparr>,
          \<lparr>er_sequence = n, er_before = CText before, er_record = CText d, er_head = CText after\<rparr>,
          after))"

text \<open>The locked sections: the lock file, the database and the witness must be there.\<close>

definition writer_guard :: "disk \<Rightarrow> anc_error + unit" where
  "writer_guard dk =
     (case dk_lock dk of
        None \<Rightarrow> Inl (IntegrityError ''lock file missing'')
      | Some b \<Rightarrow> ensure (take 1 b = [char_of (0 :: nat)]) (IntegrityError ''lock file corrupt''))"

definition prior_head :: "database \<Rightarrow> ancestry_record list \<Rightarrow> int \<Rightarrow> cell" where
  "prior_head db records n =
     (if length records = 1 then CText zero_sha256
      else (case find (\<lambda>ev. er_sequence ev = n - 1) (db_events db) of
              Some ev \<Rightarrow> er_head ev
            | None \<Rightarrow> CNull))"

text \<open>\<open>_locked_state\<close>: the verified state, and the witness it writes when it recovers a pending append.\<close>

definition locked_state ::
  "codec \<Rightarrow> store \<Rightarrow> disk \<Rightarrow> effect list \<times> (anc_error + (checkpoint \<times> ancestry_record list))" where
  "locked_state C st dk =
     (case dk_db dk of
        None \<Rightarrow> ([], Inl (IntegrityError ''database missing''))
      | Some db \<Rightarrow>
     (case verify_db C st db of
        Inl e \<Rightarrow> ([], Inl e)
      | Inr (db_cp, records) \<Rightarrow>
     (case dk_witness dk of
        None \<Rightarrow> ([], Inl (IntegrityError ''ancestry_storage_unavailable:read_witness''))
      | Some raw \<Rightarrow>
     (case read_witness C raw of
        Inl e \<Rightarrow> ([], Inl e)
      | Inr (committed, pending) \<Rightarrow>
          if cp_context committed \<noteq> st_context st \<or> cp_root committed \<noteq> st_root st
          then ([], Inl (IntegrityError ''witness identity differs from caller''))
          else
            (case pending of
               None \<Rightarrow>
                 if db_cp \<noteq> committed
                 then ([], Inl (IntegrityError ''database and witness checkpoints differ''))
                 else ([], Inr (db_cp, records))
             | Some (before, after) \<Rightarrow>
                 if before \<noteq> committed \<or> cp_context after \<noteq> st_context st \<or> cp_root after \<noteq> st_root st
                    \<or> cp_version after \<noteq> store_version \<or> cp_sequence after \<noteq> cp_sequence before + 1
                 then ([], Inl (IntegrityError ''invalid pending transition''))
                 else if db_cp = after
                      \<and> (cp_sequence before \<noteq> cp_sequence db_cp - 1
                         \<or> CText (cp_head before) \<noteq> prior_head db records (cp_sequence db_cp))
                 then ([], Inl (IntegrityError ''pending before does not bind database prefix''))
                 else if db_cp = before \<or> db_cp = after
                 then (case witness_bytes C db_cp None of
                         Inl e \<Rightarrow> ([], Inl e)
                       | Inr w \<Rightarrow> ([WriteWitness w], Inr (db_cp, records)))
                 else ([], Inl (IntegrityError ''pending transition cannot be recovered'')))))))"

definition state :: "codec \<Rightarrow> store \<Rightarrow> disk \<Rightarrow> effect list \<times> (anc_error + (checkpoint \<times> ancestry_record list))" where
  "state C st dk = (case writer_guard dk of Inl e \<Rightarrow> ([], Inl e) | Inr _ \<Rightarrow> locked_state C st dk)"

definition get_checkpoint :: "codec \<Rightarrow> store \<Rightarrow> disk \<Rightarrow> effect list \<times> (anc_error + checkpoint)" where
  "get_checkpoint C st dk =
     (case state C st dk of (es, r) \<Rightarrow> (es, res_bind r (\<lambda>(cp, _). Inr cp)))"

definition open_store :: "codec \<Rightarrow> string \<Rightarrow> string \<Rightarrow> disk \<Rightarrow> effect list \<times> (anc_error + store)" where
  "open_store C context rt dk =
     (case res_bind (check_label context) (\<lambda>_.
           ensure (sha256_text rt) (AncestryError ''root_digest must be a SHA-256 lowercase hex digest'')) of
        Inl e \<Rightarrow> ([], Inl e)
      | Inr _ \<Rightarrow>
          if dk_db dk = None \<or> dk_witness dk = None \<or> dk_lock dk = None
          then ([], Inl (IntegrityError ''existing database, witness and lock are required''))
          else
            (let st = \<lparr>st_context = context, st_root = rt\<rparr>
             in case get_checkpoint C st dk of (es, r) \<Rightarrow> (es, res_bind r (\<lambda>_. Inr st))))"

definition create_store :: "codec \<Rightarrow> string \<Rightarrow> ancestry_record \<Rightarrow> disk \<Rightarrow> effect list \<times> (anc_error + store)" where
  "create_store C context rt dk =
     (case res_bind (check_label context) (\<lambda>_.
           ensure (ar_context rt = context \<and> ar_parents rt = [])
             (AncestryError ''root must be a parentless record in context'')) of
        Inl e \<Rightarrow> ([], Inl e)
      | Inr _ \<Rightarrow>
          if dk_db dk \<noteq> None \<or> dk_witness dk \<noteq> None \<or> dk_lock dk \<noteq> None
          then ([], Inl (IntegrityError ''store already exists; create cannot overwrite it''))
          else
            (let digest = record_digest C rt;
                 (row, ev, after) = insert_rows C 1 zero_sha256 rt;
                 db = \<lparr>db_schema = created_schema,
                       db_meta = [(CText ''context'', CText context), (CText ''root_digest'', CText digest),
                                  (CText ''version'', CText (int_repr store_version))],
                       db_records = [row], db_events = [ev]\<rparr>;
                 cp = \<lparr>cp_context = context, cp_root = digest, cp_version = store_version,
                       cp_sequence = 1, cp_head = after\<rparr>
             in case witness_bytes C cp None of
                  Inl e \<Rightarrow> ([CreateFiles, CommitCreate db], Inl e)
                | Inr w \<Rightarrow> ([CreateFiles, CommitCreate db, WriteWitness w],
                            Inr \<lparr>st_context = context, st_root = digest\<rparr>)))"

text \<open>The admission tests of \<open>append\<close> against the records of the verified state.\<close>

definition admit_record :: "ancestry_record list \<Rightarrow> ancestry_record \<Rightarrow> anc_error + unit" where
  "admit_record records r =
     res_bind (ensure (length records < max_records) (AncestryError ''record limit reached'')) (\<lambda>_.
     res_bind (ensure (ar_id r \<notin> ar_id ` set records) (AncestryError ''record id already admitted'')) (\<lambda>_.
     res_bind (map_res (\<lambda>i. case find_record records i of
                  None \<Rightarrow> Inl (AncestryError ''missing parent'')
                | Some p \<Rightarrow> ensure (set (ar_scope r) \<subseteq> set (ar_scope p))
                              (AncestryError ''child scope expands parent scope'')) (ar_parents r)) (\<lambda>_.
     Inr ())))"

definition append_after :: "codec \<Rightarrow> store \<Rightarrow> checkpoint \<Rightarrow> ancestry_record \<Rightarrow> checkpoint" where
  "append_after C st before r =
     \<lparr>cp_context = st_context st, cp_root = st_root st, cp_version = store_version,
      cp_sequence = cp_sequence before + 1,
      cp_head = event_head C (cp_sequence before + 1) (cp_head before) (record_digest C r)\<rparr>"

definition append_locked :: "codec \<Rightarrow> store \<Rightarrow> ancestry_record \<Rightarrow> checkpoint \<Rightarrow> disk
    \<Rightarrow> checkpoint \<times> ancestry_record list \<Rightarrow> effect list \<times> (anc_error + checkpoint)" where
  "append_locked C st r expected dk s =
     (case s of (before, records) \<Rightarrow>
        if before \<noteq> expected then ([], Inl (CheckpointConflict ''stale expected checkpoint''))
        else
          (case admit_record records r of
             Inl e \<Rightarrow> ([], Inl e)
           | Inr _ \<Rightarrow>
               (let after = append_after C st before r;
                    (row, ev, actual) = insert_rows C (cp_sequence after) (cp_head before) r
                in case witness_bytes C before (Some (before, after)) of
                     Inl e \<Rightarrow> ([], Inl e)
                   | Inr w1 \<Rightarrow>
                       if actual \<noteq> cp_head after
                       then ([WriteWitness w1], Inl (IntegrityError ''event commitment mismatch''))
                       else
                         (let done = [WriteWitness w1, CommitInsert row ev]
                          in case dk_db (apply_effects dk done) of
                               None \<Rightarrow> (done, Inl (IntegrityError ''database missing''))
                             | Some db' \<Rightarrow>
                                 (case verify_db C st db' of
                                    Inl e \<Rightarrow> (done, Inl e)
                                  | Inr (verified, _) \<Rightarrow>
                                      if verified \<noteq> after
                                      then (done, Inl (IntegrityError ''committed append failed full verification''))
                                      else (case witness_bytes C after None of
                                              Inl e \<Rightarrow> (done, Inl e)
                                            | Inr w2 \<Rightarrow> (done @ [WriteWitness w2], Inr after)))))))"

definition append_record :: "codec \<Rightarrow> store \<Rightarrow> ancestry_record \<Rightarrow> checkpoint \<Rightarrow> disk
    \<Rightarrow> effect list \<times> (anc_error + checkpoint)" where
  "append_record C st r expected dk =
     (if ar_context r \<noteq> st_context st \<or> ar_parents r = []
      then ([], Inl (AncestryError ''child needs context and at least one parent''))
      else
        (case state C st dk of
           (es, Inl e) \<Rightarrow> (es, Inl e)
         | (es, Inr s) \<Rightarrow>
             (case append_locked C st r expected (apply_effects dk es) s of
                (es', res) \<Rightarrow> (es @ es', res))))"

definition take_snapshot :: "codec \<Rightarrow> store \<Rightarrow> checkpoint \<Rightarrow> disk \<Rightarrow> effect list \<times> (anc_error + snapshot)" where
  "take_snapshot C st expected dk =
     (case state C st dk of
        (es, r) \<Rightarrow>
          (es, res_bind r (\<lambda>(cp, records).
             if cp \<noteq> expected then Inl (CheckpointConflict ''stale expected checkpoint'')
             else Inr \<lparr>sn_checkpoint = cp, sn_records = records\<rparr>)))"

section \<open>Candidate verification\<close>

lemma find_record_Some:
  "find_record known i = Some r \<Longrightarrow> r \<in> set known \<and> ar_id r = i"
  by (auto simp: find_record_def find_Some_iff)

text \<open>
  The worklist of \<open>verify_candidate\<close>; the stack has its top first, so the parents of an item,
  which Python appends, come off in reverse order. A missing key would be a \<open>KeyError\<close> (\<open>None\<close>).
\<close>

function closure_loop :: "ancestry_record list \<Rightarrow> string list \<Rightarrow> string list \<Rightarrow> string list option" where
  "closure_loop known seen [] = Some seen"
| "closure_loop known seen (i # pending) =
     (if i \<in> set seen then closure_loop known seen pending
      else (case find_record known i of
              None \<Rightarrow> None
            | Some r \<Rightarrow> closure_loop known (i # seen) (rev (ar_parents r) @ pending)))"
  by pat_completeness auto

termination
proof (relation "measures [\<lambda>(known, seen, pending). card (ar_id ` set known - set seen),
                           \<lambda>(known, seen, pending). length pending]")
  fix known seen i pending r
  assume "i \<notin> set seen" "find_record known i = Some r"
  then have "i \<in> ar_id ` set known - set seen"
    using find_record_Some by force
  then have "card (ar_id ` set known - set (i # seen)) < card (ar_id ` set known - set seen)"
    by (intro psubset_card_mono) auto
  then show "((known, i # seen, rev (ar_parents r) @ pending), (known, seen, i # pending))
     \<in> measures [\<lambda>(known, seen, pending). card (ar_id ` set known - set seen),
                 \<lambda>(known, seen, pending). length pending]"
    by simp
qed auto

definition verify_candidate :: "codec \<Rightarrow> store \<Rightarrow> string \<Rightarrow> ancestry_record list \<Rightarrow> checkpoint \<Rightarrow> disk
    \<Rightarrow> effect list \<times> (anc_error + bool)" where
  "verify_candidate C st target candidate expected dk =
     (case check_label target of
        Inl e \<Rightarrow> ([], Inl e)
      | Inr _ \<Rightarrow>
          (case take_snapshot C st expected dk of
             (es, Inl e) \<Rightarrow> (es, Inl e)
           | (es, Inr sn) \<Rightarrow>
               if target \<notin> ar_id ` set (sn_records sn) then (es, Inr False)
               else (case closure_loop (sn_records sn) [] [target] of
                       None \<Rightarrow> (es, Inl (IntegrityError ''KeyError''))
                     | Some closure \<Rightarrow>
                         (es, Inr (candidate = filter (\<lambda>r. ar_id r \<in> set closure) (sn_records sn))))))"

end
