(* ===== verification/Ancestry_Codec.thy ===== *)
theory Ancestry_Codec
  imports Ancestry_Store
begin

text \<open>
  The encodings of the ancestry store: which records its constructor admits, what their label
  lists, digests and chain heads are encoded to, and that each encoding can be read back.
\<close>

section \<open>Admissible records\<close>

definition labels_ok :: "string list \<Rightarrow> nat \<Rightarrow> bool" where
  "labels_ok vs limit \<longleftrightarrow> length vs \<le> limit \<and> list_all label_text vs \<and> sorted vs \<and> distinct vs"

definition record_ok :: "ancestry_record \<Rightarrow> bool" where
  "record_ok r \<longleftrightarrow> label_text (ar_id r) \<and> label_text (ar_context r) \<and> length (ar_payload r) \<le> max_payload
     \<and> labels_ok (ar_parents r) max_parents \<and> labels_ok (ar_scope r) max_scope"

lemma check_label_Inr [simp]: "check_label v = Inr u \<longleftrightarrow> label_text v"
  by (simp add: check_label_def)

lemma map_res_ensure_Inr:
  "(\<exists>us. map_res (\<lambda>x. ensure (P x) (e x)) xs = Inr us) \<longleftrightarrow> list_all P xs"
  by (induction xs) auto

lemma map_check_label: "(\<exists>us. map_res check_label vs = Inr us) \<longleftrightarrow> list_all label_text vs"
  by (induction vs) auto

lemma sort_remdups_id: "sort (remdups vs) = vs \<longleftrightarrow> sorted vs \<and> distinct vs"
  by (metis distinct_remdups distinct_sort remdups_id_iff_distinct sorted_sort sorted_sort_id)

lemma check_labels_Inr [simp]: "check_labels vs n = Inr u \<longleftrightarrow> labels_ok vs n"
  by (auto simp: check_labels_def labels_ok_def sort_remdups_id map_check_label simp flip: map_check_label)

lemma mk_record_Inr: "mk_record r = Inr r' \<longleftrightarrow> r' = r \<and> record_ok r"
  by (auto simp: mk_record_def record_ok_def)

lemma labels_ok_ascii: "labels_ok vs n \<Longrightarrow> v \<in> set vs \<Longrightarrow> is_ascii v"
  by (auto simp: labels_ok_def list_all_iff intro: label_text_ascii)

lemma labels_json_load_ok: "labels_ok vs n \<Longrightarrow> load_ok True (labels_json vs)"
  by (auto simp: labels_json_def list_all_iff str_ok_def labels_ok_ascii)

lemma sort_labels_json [simp]: "sort_keys (labels_json vs) = labels_json vs"
  by (simp add: labels_json_def)

lemma str_items_map [simp]: "str_items (map JStr vs) = Some vs"
  by (induction vs) auto

lemma tuple_labels_json [simp]: "tuple_of_json (labels_json vs) = Some (map JStr vs)"
  by (simp add: labels_json_def)

lemma load_labels_json:
  "labels_ok vs n \<Longrightarrow> load_labels C (anc_json C (labels_json vs)) = Some vs"
  by (simp add: load_labels_def anc_json_def loads_dumps [OF labels_json_load_ok])

lemma labels_ok_bare: "labels_ok vs n \<Longrightarrow> v \<in> set vs \<Longrightarrow> label_text v \<and> list_all bare_char v"
  using label_text_bare by (auto simp: labels_ok_def Ball_set [symmetric])

text \<open>The stored text of a label list fits its column limit.\<close>

lemma anc_json_labels_length:
  assumes "labels_ok vs n"
  shows "length (anc_json C (labels_json vs)) \<le> 131 * length vs + 2"
proof -
  have "length (render_str True v) \<le> 130" if "v \<in> set vs" for v
    using labels_ok_bare [OF assms that] label_text_length [of v] by simp
  then have "sum_list (map (length \<circ> render_str True) vs) \<le> 130 * length vs"
    by (induction vs) (auto intro!: add_mono)
  then show ?thesis
    by (simp add: anc_json_def dumps_def) (simp add: labels_json_def length_join comp_def)
qed

lemma anc_json_labels_ascii:
  assumes "labels_ok vs n"
  shows "is_ascii (anc_json C (labels_json vs))"
proof -
  have r: "is_ascii (render_str True v)" if "v \<in> set vs" for v
    using labels_ok_bare [OF assms that] by (simp add: render_str_bare label_text_ascii)
  have "is_ascii (join '','' (map (render_str True) vs))"
    using r
  proof (induction vs)
    case (Cons v vs)
    then show ?case by (cases vs) auto
  qed simp
  then show ?thesis
    by (simp add: anc_json_def dumps_def) (simp add: labels_json_def comp_def)
qed

section \<open>What a digest commits to\<close>

lemma hex_digit_inject: "a < 16 \<Longrightarrow> b < 16 \<Longrightarrow> hex_digit a = hex_digit b \<longleftrightarrow> a = b"
  by (metis hex_value_hex_digit option.inject)

lemma hex_bytes_inject: "hex_bytes a = hex_bytes b \<longleftrightarrow> a = b"
proof (induction a arbitrary: b)
  case Nil
  then show ?case by (cases b) (auto simp: hex_bytes_def)
next
  case (Cons c cs)
  show ?case
  proof (cases b)
    case Nil
    then show ?thesis by (simp add: hex_bytes_def)
  next
    case (Cons d ds)
    have "ord c div 16 < 16" "ord d div 16 < 16" using ord_bound [of c] ord_bound [of d] by simp_all
    then have "hex_digit (ord c div 16) = hex_digit (ord d div 16) \<and> hex_digit (ord c mod 16) = hex_digit (ord d mod 16)
        \<longleftrightarrow> ord c div 16 = ord d div 16 \<and> ord c mod 16 = ord d mod 16"
      by (simp add: hex_digit_inject)
    also have "\<dots> \<longleftrightarrow> c = d" by (metis div_mult_mod_eq ord_inject)
    finally show ?thesis using Cons.IH [of ds] Cons by (auto simp: hex_bytes_def)
  qed
qed

lemma hex_bytes_ascii: "is_ascii (hex_bytes b)"
proof -
  have "ord (hex_digit d) < 128" if "d < 16" for d
    using that by (simp add: hex_digit_def)
  moreover have "ord c div 16 < 16" for c
    using ord_bound [of c] by simp
  ultimately show ?thesis by (induction b) (auto simp: hex_bytes_def)
qed


lemma int_repr_1: "int_repr 1 = ''1''"
  by code_simp

interpretation anc: json_digest "\<lambda>C v. anc_digest C (anc_json C v)" anc_json "plain_json True"
  by unfold_locales (auto simp: anc_digest_def anc_json_def intro: dumps_inject)

lemma sort_record_doc [simp]: "sort_keys (record_doc r) = record_doc r"
  by (simp add: record_doc_def)

lemma sort_head_doc [simp]: "sort_keys (head_doc n b d) = head_doc n b d"
  by (simp add: head_doc_def)

lemma record_doc_load_ok: "record_ok r \<Longrightarrow> load_ok True (record_doc r)"
  by (auto simp: record_doc_def record_ok_def str_ok_def label_text_ascii hex_bytes_ascii store_version_def
      int_repr_1 digit_count_def int_digit_limit_def intro: labels_json_load_ok)

lemma record_doc_inject: "record_doc r = record_doc r' \<longleftrightarrow> r = r'"
proof -
  have "inj JStr" by (simp add: inj_def)
  then show ?thesis
    by (auto simp: record_doc_def hex_bytes_inject labels_json_def inj_map_eq_map intro: ancestry_record.equality)
qed

definition record_text :: "codec \<Rightarrow> ancestry_record \<Rightarrow> string" where
  "record_text C r = anc_json C (record_doc r)"

definition head_text :: "codec \<Rightarrow> int \<Rightarrow> string \<Rightarrow> string \<Rightarrow> string" where
  "head_text C n b d = anc_json C (head_doc n b d)"

lemma record_digest_inject:
  assumes "inj_on (sha256_hex C) T" "record_text C r \<in> T" "record_text C r' \<in> T"
    and "record_ok r" "record_ok r'" "record_digest C r = record_digest C r'"
  shows "r = r'"
  using anc.digest_binding_on [OF assms(1), of "record_doc r" "record_doc r'"] assms(2-)
  by (simp add: record_text_def record_digest_def load_ok_plain record_doc_load_ok record_doc_inject)

lemma head_doc_plain: "is_ascii b \<Longrightarrow> is_ascii d \<Longrightarrow> plain_json True (head_doc n b d)"
  by (simp add: head_doc_def str_ok_def)

lemma event_head_inject:
  assumes "inj_on (sha256_hex C) T" "head_text C n b d \<in> T" "head_text C m b' d' \<in> T"
    and "is_ascii b" "is_ascii d" "is_ascii b'" "is_ascii d'" "event_head C n b d = event_head C m b' d'"
  shows "n = m \<and> b = b' \<and> d = d'"
  using anc.digest_binding_on [OF assms(1), of "head_doc n b d" "head_doc m b' d'"] assms(2-)
  by (simp add: head_text_def event_head_def head_doc_plain) (simp add: head_doc_def)

section \<open>Checkpoints and the witness\<close>

definition checkpoint_ok :: "checkpoint \<Rightarrow> bool" where
  "checkpoint_ok cp \<longleftrightarrow> label_text (cp_context cp) \<and> 1 \<le> cp_sequence cp \<and> cp_sequence cp \<le> int max_records
     \<and> cp_version cp = store_version \<and> sha256_text (cp_root cp) \<and> sha256_text (cp_head cp)"

lemma sort_checkpoint_data [simp]: "sort_keys (checkpoint_data cp) = checkpoint_data cp"
  by (simp add: checkpoint_data_def)

lemma parse_checkpoint_data: "checkpoint_ok cp \<Longrightarrow> parse_checkpoint (checkpoint_data cp) = Inr cp"
  by (auto simp: parse_checkpoint_def checkpoint_data_def checkpoint_ok_def obj_keys_def obj_get_def)

lemma parse_checkpoint_ok: "parse_checkpoint v = Inr cp \<Longrightarrow> checkpoint_ok cp"
  unfolding parse_checkpoint_def prod.case json_cases if_Inl_Inr
  by (clarsimp simp: checkpoint_ok_def)

lemma small_int_repr:
  assumes "0 \<le> i" "i \<le> int max_records"
  shows "length (int_repr i) \<le> 4" "digit_count (int_repr i) \<le> int_digit_limit"
proof -
  show l: "length (int_repr i) \<le> 4"
    using int_repr_length [of i 3] assms by (simp add: max_records_def)
  show "digit_count (int_repr i) \<le> int_digit_limit"
    using l digit_count_le [of "int_repr i"] by (simp add: int_digit_limit_def)
qed

lemma sha256_text_length [simp]: "sha256_text s \<Longrightarrow> length s = 64"
  by (simp add: sha256_text_def)

lemma checkpoint_load_ok:
  assumes "checkpoint_ok cp"
  shows "load_ok True (checkpoint_data cp)"
  using assms small_int_repr [of "cp_sequence cp"] small_int_repr [of 1]
  by (auto simp: checkpoint_ok_def checkpoint_data_def str_ok_def label_text_ascii sha256_text_ascii
      store_version_def max_records_def)

lemma checkpoint_text_length:
  assumes "checkpoint_ok cp"
  shows "length (render fr True (checkpoint_data cp)) \<le> 400"
  using assms small_int_repr(1) [of "cp_sequence cp"] label_text_length [of "cp_context cp"]
  by (simp add: checkpoint_ok_def checkpoint_data_def render_str_bare bare_char_def
      label_text_bare sha256_text_bare store_version_def int_repr_1)

lemma witness_sorted:
  "sort_keys (witness_doc c p) = JObj
     [(''committed'', checkpoint_data c),
      (''pending'', (case p of None \<Rightarrow> JNull
                     | Some (b, a) \<Rightarrow> JObj [(''after'', checkpoint_data a), (''before'', checkpoint_data b)])),
      (''version'', JInt store_version)]"
  by (cases p) (auto simp: witness_doc_def)

definition pending_ok :: "(checkpoint \<times> checkpoint) option \<Rightarrow> bool" where
  "pending_ok p \<longleftrightarrow> (case p of None \<Rightarrow> True | Some (b, a) \<Rightarrow> checkpoint_ok b \<and> checkpoint_ok a)"

lemma witness_load_ok: "checkpoint_ok c \<Longrightarrow> pending_ok p \<Longrightarrow> load_ok True (witness_doc c p)"
  using small_int_repr(2) [of 1]
  by (auto simp: witness_doc_def str_ok_def checkpoint_load_ok store_version_def max_records_def pending_ok_def
      split: option.splits)

lemma witness_length: "checkpoint_ok c \<Longrightarrow> pending_ok p \<Longrightarrow> length (anc_json C (witness_doc c p)) \<le> 1300"
  unfolding anc_json_def dumps_def witness_sorted
  using checkpoint_text_length [of c "float_repr C"]
    checkpoint_text_length [of "fst (the p)" "float_repr C"] checkpoint_text_length [of "snd (the p)" "float_repr C"]
  by (auto simp: render_str_bare bare_char_def pending_ok_def store_version_def int_repr_1
      split: option.splits)

lemma witness_bytes_ok:
  "checkpoint_ok c \<Longrightarrow> pending_ok p \<Longrightarrow> witness_bytes C c p = Inr (anc_json C (witness_doc c p))"
  using witness_length [of c p C] by (simp add: witness_bytes_def Let_def max_witness_def)

theorem read_witness_bytes:
  assumes "checkpoint_ok c" "pending_ok p" "witness_bytes C c p = Inr raw"
  shows "read_witness C raw = Inr (c, p)"
proof -
  have raw: "raw = anc_json C (witness_doc c p)"
    using assms(3) witness_bytes_ok [OF assms(1,2)] by simp
  have len: "length raw \<le> max_witness"
    using witness_length [OF assms(1,2), of C] by (simp add: raw max_witness_def)
  have ok: "load_ok True (witness_doc c p)" by (rule witness_load_ok [OF assms(1,2)])
  then have "is_ascii raw"
    by (simp add: raw anc_json_def dumps_def render_ascii load_ok_plain load_ok_sort_keys)
  then have valid: "utf8_valid raw" by (simp add: utf8_valid_ascii)
  have load: "loads (default_hooks C) raw = Inr (sort_keys (witness_doc c p))"
    using ok by (simp add: raw anc_json_def loads_dumps)
  have enc: "anc_json C (sort_keys (witness_doc c p)) = raw" by (simp add: raw anc_json_def)
  show ?thesis
    using assms(1,2) len valid
    unfolding read_witness_def load sum.case enc
    by (cases p) (auto simp: witness_sorted obj_keys_def obj_get_def parse_checkpoint_data parse_pending_def
        pending_ok_def enc)
qed

end
