(* ===== verification/Ancestry_Log.thy ===== *)
theory Ancestry_Log
  imports Ancestry_Codec
begin

text \<open>
  The registry as an abstract list of records with lineage, the rows it is stored as, and the
  refinement: the full scan of \<open>_verify_db\<close> accepts a database exactly when it is the stored
  form of such a list, and then returns that list and the checkpoint of its chain.
\<close>

section \<open>The abstract log\<close>

text \<open>
  What the registry means: a list of records in which every record but the first has parents,
  every parent is an earlier record, and no record has a label its parents lack.
\<close>

definition entry_ok :: "codec \<Rightarrow> store \<Rightarrow> ancestry_record list \<Rightarrow> ancestry_record \<Rightarrow> bool" where
  "entry_ok C st known r \<longleftrightarrow> record_ok r \<and> ar_id r \<notin> ar_id ` set known \<and> ar_context r = st_context st
     \<and> (if known = [] then ar_parents r = [] \<and> record_digest C r = st_root st else ar_parents r \<noteq> [])
     \<and> list_all (parent_ok known (ar_scope r)) (ar_parents r)"

fun lineage_from :: "codec \<Rightarrow> store \<Rightarrow> ancestry_record list \<Rightarrow> ancestry_record list \<Rightarrow> bool" where
  "lineage_from C st known [] = True"
| "lineage_from C st known (r # rs) = (entry_ok C st known r \<and> lineage_from C st (known @ [r]) rs)"

definition lineage :: "codec \<Rightarrow> store \<Rightarrow> ancestry_record list \<Rightarrow> bool" where
  "lineage C st rs \<longleftrightarrow> lineage_from C st [] rs"

text \<open>The chain of heads over a list of records, and the rows that store it.\<close>

fun chain_head :: "codec \<Rightarrow> int \<Rightarrow> string \<Rightarrow> ancestry_record list \<Rightarrow> string" where
  "chain_head C n before [] = before"
| "chain_head C n before (r # rs) = chain_head C (n + 1) (event_head C n before (record_digest C r)) rs"

fun stored_rows :: "codec \<Rightarrow> int \<Rightarrow> string \<Rightarrow> ancestry_record list \<Rightarrow> (record_row \<times> event_row) list" where
  "stored_rows C n before [] = []"
| "stored_rows C n before (r # rs) =
     (case insert_rows C n before r of (row, ev, after) \<Rightarrow> (row, ev) # stored_rows C (n + 1) after rs)"

lemma lineage_from_append:
  "lineage_from C st known (rs @ [r]) \<longleftrightarrow> lineage_from C st known rs \<and> entry_ok C st (known @ rs) r"
  by (induction rs arbitrary: known) auto

lemma lineage_append: "lineage C st (rs @ [r]) \<longleftrightarrow> lineage C st rs \<and> entry_ok C st rs r"
  using lineage_from_append [of C st "[]"] by (simp add: lineage_def)

lemma lineage_Nil [simp]: "lineage C st []"
  by (simp add: lineage_def)

lemma chain_head_append:
  "chain_head C n b (rs @ [r]) = event_head C (n + int (length rs)) (chain_head C n b rs) (record_digest C r)"
  by (induction rs arbitrary: n b) (auto simp: algebra_simps)

lemma stored_rows_append:
  "stored_rows C n b (rs @ [r]) = stored_rows C n b rs
     @ [case insert_rows C (n + int (length rs)) (chain_head C n b rs) r of (row, ev, _) \<Rightarrow> (row, ev)]"
  by (induction rs arbitrary: n b) (auto simp: insert_rows_def Let_def algebra_simps)

lemma length_stored_rows [simp]: "length (stored_rows C n b rs) = length rs"
  by (induction rs arbitrary: n b) (auto simp: insert_rows_def Let_def)

section \<open>One row\<close>

lemma decode_row_Inr:
  "decode_row C st n known row = Inr (r, d) \<longleftrightarrow>
     record_ok r \<and> ar_id r \<notin> ar_id ` set known \<and> ar_context r = st_context st \<and> d = record_digest C r
     \<and> row = fst (insert_rows C n before r)"
proof
  assume "decode_row C st n known row = Inr (r, d)"
  then show "record_ok r \<and> ar_id r \<notin> ar_id ` set known \<and> ar_context r = st_context st \<and> d = record_digest C r
     \<and> row = fst (insert_rows C n before r)"
    by (auto simp: decode_row_def insert_rows_def Let_def mk_record_Inr
        split: cell.splits option.splits sum.splits if_splits)
next
  assume "record_ok r \<and> ar_id r \<notin> ar_id ` set known \<and> ar_context r = st_context st \<and> d = record_digest C r
     \<and> row = fst (insert_rows C n before r)"
  moreover have "load_labels C (anc_json C (labels_json (ar_parents r))) = Some (ar_parents r)"
    "load_labels C (anc_json C (labels_json (ar_scope r))) = Some (ar_scope r)" if "record_ok r"
    using that load_labels_json by (auto simp: record_ok_def)
  moreover have "mk_record r = Inr r" if "record_ok r" using that mk_record_Inr by auto
  ultimately show "decode_row C st n known row = Inr (r, d)"
    by (cases r) (simp add: decode_row_def insert_rows_def Let_def)
qed


section \<open>The verified rows are exactly the stored form of a log\<close>

lemma verify_rows_sound:
  assumes "verify_rows C st n before known rows evs = Inr (h, recs)" "n = int (length known) + 1"
  shows "\<exists>rs. recs = known @ rs \<and> lineage_from C st known rs \<and> h = chain_head C n before rs
     \<and> length rows = length rs \<and> zip rows evs = stored_rows C n before rs \<and> length evs = length rs"
  using assms
proof (induction C st n before known rows evs arbitrary: h recs rule: verify_rows.induct)
  case (2 C st n before known row rows ev evs)
  obtain r d where dec: "decode_row C st n known row = Inr (r, d)"
    and rootc: "if n = 1 then ar_parents r = [] \<and> d = st_root st else ar_parents r \<noteq> []"
    and par: "list_all (parent_ok known (ar_scope r)) (ar_parents r)"
    and ev: "ev = \<lparr>er_sequence = n, er_before = CText before, er_record = CText d,
                   er_head = CText (event_head C n before d)\<rparr>"
    and rest: "verify_rows C st (n + 1) (event_head C n before d) (known @ [r]) rows evs = Inr (h, recs)"
    using "2.prems"(1) by (auto simp: Let_def split: if_splits)
  note row = dec [unfolded decode_row_Inr [where before = before]]
  then have d: "d = record_digest C r" by simp
  have one: "n = 1 \<longleftrightarrow> known = []" using "2.prems"(2) by auto
  have entry: "entry_ok C st known r"
    using row rootc par by (auto simp: entry_ok_def one split: if_splits)
  obtain rs where "recs = (known @ [r]) @ rs" "lineage_from C st (known @ [r]) rs"
    "h = chain_head C (n + 1) (event_head C n before d) rs" "length rows = length rs" "length evs = length rs"
    "zip rows evs = stored_rows C (n + 1) (event_head C n before d) rs"
    using "2.IH" [of "(r, d)" r d "()" "()" "event_head C n before d" "()" h recs] dec rootc par ev rest "2.prems"(2)
    by (auto split: if_splits)
  with entry row ev show ?case
    by (intro exI [of _ "r # rs"]) (auto simp: d insert_rows_def Let_def)
qed auto

lemma verify_rows_complete:
  assumes "lineage_from C st known rs" "n = int (length known) + 1"
  shows "verify_rows C st n before known (map fst (stored_rows C n before rs)) (map snd (stored_rows C n before rs))
     = Inr (chain_head C n before rs, known @ rs)"
  using assms
proof (induction rs arbitrary: n before known)
  case (Cons r rs)
  then have e: "entry_ok C st known r" by simp
  have dec: "decode_row C st n known (fst (insert_rows C n before r)) = Inr (r, record_digest C r)"
    by (subst decode_row_Inr [where before = before]) (use e in \<open>auto simp: entry_ok_def\<close>)
  have one: "n = 1 \<longleftrightarrow> known = []" using Cons.prems(2) by auto
  have rootc: "if n = 1 then ar_parents r = [] \<and> record_digest C r = st_root st else ar_parents r \<noteq> []"
    using e by (auto simp: entry_ok_def one split: if_splits)
  have "verify_rows C st (n + 1) (event_head C n before (record_digest C r)) (known @ [r])
      (map fst (stored_rows C (n + 1) (event_head C n before (record_digest C r)) rs))
      (map snd (stored_rows C (n + 1) (event_head C n before (record_digest C r)) rs))
    = Inr (chain_head C (n + 1) (event_head C n before (record_digest C r)) rs, (known @ [r]) @ rs)"
    using Cons.prems by (intro Cons.IH) auto
  with dec rootc e show ?case
    by (auto simp: insert_rows_def Let_def entry_ok_def)
qed simp


section \<open>The database of a log\<close>

definition checkpoint_of :: "codec \<Rightarrow> store \<Rightarrow> ancestry_record list \<Rightarrow> checkpoint" where
  "checkpoint_of C st rs =
     \<lparr>cp_context = st_context st, cp_root = st_root st, cp_version = store_version,
      cp_sequence = int (length rs), cp_head = chain_head C 1 zero_sha256 rs\<rparr>"

definition database_of :: "codec \<Rightarrow> store \<Rightarrow> ancestry_record list \<Rightarrow> database" where
  "database_of C st rs =
     \<lparr>db_schema = created_schema,
      db_meta = [(CText ''context'', CText (st_context st)), (CText ''root_digest'', CText (st_root st)),
                 (CText ''version'', CText (int_repr store_version))],
      db_records = map fst (stored_rows C 1 zero_sha256 rs),
      db_events = map snd (stored_rows C 1 zero_sha256 rs)\<rparr>"

definition log_ok :: "codec \<Rightarrow> store \<Rightarrow> ancestry_record list \<Rightarrow> bool" where
  "log_ok C st rs \<longleftrightarrow> lineage C st rs \<and> rs \<noteq> [] \<and> length rs \<le> max_records"

theorem verify_db_sound:
  assumes "verify_db C st db = Inr (cp, rs)"
  shows "log_ok C st rs \<and> cp = checkpoint_of C st rs
    \<and> sort_key rr_sequence (db_records db) = map fst (stored_rows C 1 zero_sha256 rs)
    \<and> sort_key er_sequence (db_events db) = map snd (stored_rows C 1 zero_sha256 rs)"
proof -
  obtain h where l: "1 \<le> length (db_records db)" "length (db_records db) \<le> max_records"
      "length (db_events db) = length (db_records db)"
    and v: "verify_rows C st 1 zero_sha256 [] (sort_key rr_sequence (db_records db))
      (sort_key er_sequence (db_events db)) = Inr (h, rs)"
    and cp: "cp = \<lparr>cp_context = st_context st, cp_root = st_root st, cp_version = store_version,
      cp_sequence = int (length (db_records db)), cp_head = h\<rparr>"
    using assms by (auto simp: verify_db_def)
  let ?rows = "sort_key rr_sequence (db_records db)" and ?evs = "sort_key er_sequence (db_events db)"
  have r: "lineage_from C st [] rs" "h = chain_head C 1 zero_sha256 rs" "length ?rows = length rs"
    "zip ?rows ?evs = stored_rows C 1 zero_sha256 rs" "length ?evs = length rs"
    using verify_rows_sound [OF v] by auto
  have "map fst (stored_rows C 1 zero_sha256 rs) = ?rows" "map snd (stored_rows C 1 zero_sha256 rs) = ?evs"
    by (simp_all only: r(4) [symmetric] map_fst_zip map_snd_zip r(3,5))
  moreover have "cp = checkpoint_of C st rs"
    using r(2,3) by (simp add: cp checkpoint_of_def)
  moreover have "log_ok C st rs"
    using r(1,3) l by (auto simp: log_ok_def lineage_def)
  ultimately show ?thesis by simp
qed

lemma sort_key_id: "sorted (map f xs) \<Longrightarrow> sort_key f xs = xs"
  by (rule sort_key_id_if_sorted)

lemma stored_sequences:
  "map (rr_sequence \<circ> fst) (stored_rows C n b rs) = map (\<lambda>i. n + int i) [0..<length rs]"
  "map (er_sequence \<circ> snd) (stored_rows C n b rs) = map (\<lambda>i. n + int i) [0..<length rs]"
proof -
  have *: "map (\<lambda>i. n + int i) [0..<Suc k] = n # map (\<lambda>i. (n + 1) + int i) [0..<k]" for n :: int and k
    by (simp add: upt_rec [of 0 "Suc k"] map_Suc_upt [symmetric] comp_def del: upt_Suc)
  show "map (rr_sequence \<circ> fst) (stored_rows C n b rs) = map (\<lambda>i. n + int i) [0..<length rs]"
    by (induction rs arbitrary: n b) (simp_all add: insert_rows_def Let_def * del: upt_Suc)
  show "map (er_sequence \<circ> snd) (stored_rows C n b rs) = map (\<lambda>i. n + int i) [0..<length rs]"
    by (induction rs arbitrary: n b) (simp_all add: insert_rows_def Let_def * del: upt_Suc)
qed

lemma sorted_sequences: "sorted (map (\<lambda>i. n + int i) [0..<k])"
  by (simp add: sorted_iff_nth_mono)

lemma stored_rows_sorted:
  "sort_key rr_sequence (map fst (stored_rows C n b rs)) = map fst (stored_rows C n b rs)"
  "sort_key er_sequence (map snd (stored_rows C n b rs)) = map snd (stored_rows C n b rs)"
  by (rule sort_key_id, simp add: stored_sequences sorted_sequences)+

lemma created_schema_ok: "verify_schema created_schema = Inr ()"
  by (simp add: verify_schema_def created_schema_def expected_columns_def rows_of_def Let_def)

text \<open>Rows of admissible records fit the column limits that the next scan enforces.\<close>

lemma stored_rows_within_limits:
  assumes "\<forall>r \<in> set rs. record_ok r" "\<And>s. sha256_text (sha256_hex C s)"
  shows "list_all row_types_ok (map fst (stored_rows C n b rs)) \<and> list_all row_limits_ok (map fst (stored_rows C n b rs))"
  using assms(1)
proof (induction rs arbitrary: n b)
  case (Cons r rs)
  then have r: "record_ok r" by simp
  then have l: "label_text (ar_id r)" "label_text (ar_context r)" "labels_ok (ar_parents r) max_parents"
    "labels_ok (ar_scope r) max_scope" by (auto simp: record_ok_def)
  have "py_len (anc_json C (labels_json (ar_parents r))) \<le> 4200"
    using anc_json_labels_length [OF l(3), of C] anc_json_labels_ascii [OF l(3), of C] l(3)
    by (simp add: py_len_ascii labels_ok_def max_parents_def)
  moreover have "py_len (anc_json C (labels_json (ar_scope r))) \<le> 8400"
    using anc_json_labels_length [OF l(4), of C] anc_json_labels_ascii [OF l(4), of C] l(4)
    by (simp add: py_len_ascii labels_ok_def max_scope_def)
  moreover have "py_len (record_digest C r) \<le> 64"
    using assms(2) by (simp add: record_digest_def anc_digest_def py_len_ascii sha256_text_ascii)
  moreover have "py_len (ar_id r) \<le> 128" "py_len (ar_context r) \<le> 128"
    using l label_text_length by (simp_all add: py_len_ascii label_text_ascii)
  ultimately show ?case
    using Cons r by (auto simp: insert_rows_def Let_def row_types_ok_def row_limits_ok_def record_ok_def)
qed simp

lemma lineage_from_record_ok: "lineage_from C st known rs \<Longrightarrow> r \<in> set rs \<Longrightarrow> record_ok r"
  by (induction rs arbitrary: known) (auto simp: entry_ok_def)

theorem verify_database_of:
  assumes "log_ok C st rs" "\<And>s. sha256_text (sha256_hex C s)"
  shows "verify_db C st (database_of C st rs) = Inr (checkpoint_of C st rs, rs)"
proof -
  have lin: "lineage_from C st [] rs" using assms(1) by (simp add: log_ok_def lineage_def)
  have lim: "list_all row_types_ok (map fst (stored_rows C 1 zero_sha256 rs))"
    "list_all row_limits_ok (map fst (stored_rows C 1 zero_sha256 rs))"
    using stored_rows_within_limits [OF _ assms(2)] lineage_from_record_ok [OF lin] by blast+
  have "verify_rows C st 1 zero_sha256 [] (map fst (stored_rows C 1 zero_sha256 rs))
      (map snd (stored_rows C 1 zero_sha256 rs)) = Inr (chain_head C 1 zero_sha256 rs, rs)"
    using verify_rows_complete [OF lin] by simp
  moreover have "1 \<le> length rs" "length rs \<le> max_records"
    using assms(1) by (auto simp: log_ok_def Suc_le_eq)
  ultimately show ?thesis
    using lim
    by (simp add: verify_db_def database_of_def created_schema_ok stored_rows_sorted verify_meta_def
        checkpoint_of_def)
qed

end
