(* ===== verification/Ancestry_Recovery.thy ===== *)
theory Ancestry_Recovery
  imports Ancestry_Log
begin

text \<open>
  Crash recovery of the ancestry store: the disks a prefix of the durable effects of its
  operations can leave behind (\<open>recoverable\<close>), what the next read makes of each of them, and
  what an append does to them, effect by effect.
\<close>

lemma record_digest_sha [simp]: "hash_ok C \<Longrightarrow> sha256_text (record_digest C r)"
  by (simp add: record_digest_def anc_digest_def)

lemma chain_head_sha: "hash_ok C \<Longrightarrow> sha256_text b \<Longrightarrow> sha256_text (chain_head C n b rs)"
  by (induction rs arbitrary: n b) (auto simp: event_head_def anc_digest_def)

lemma log_context: "log_ok C st rs \<Longrightarrow> label_text (st_context st)"
  by (cases rs) (auto simp: log_ok_def lineage_def entry_ok_def record_ok_def)

lemma log_root:
  assumes "hash_ok C" "log_ok C st rs"
  shows "sha256_text (st_root st)"
proof -
  obtain r where "record_digest C r = st_root st"
    using assms(2) by (cases rs) (auto simp: log_ok_def lineage_def entry_ok_def)
  then show ?thesis using record_digest_sha [OF assms(1), of r] by simp
qed

lemma checkpoint_of_ok:
  assumes "hash_ok C" "log_ok C st rs"
  shows "checkpoint_ok (checkpoint_of C st rs)"
proof -
  have "1 \<le> length rs" "length rs \<le> max_records"
    using assms(2) by (simp_all add: log_ok_def Suc_le_eq)
  then show ?thesis
    using log_context [OF assms(2)] log_root [OF assms] chain_head_sha [OF assms(1)]
    by (simp add: checkpoint_ok_def checkpoint_of_def)
qed

lemma log_ok_snoc:
  "log_ok C st rs \<Longrightarrow> entry_ok C st rs r \<Longrightarrow> length rs < max_records \<Longrightarrow> log_ok C st (rs @ [r])"
  by (auto simp: log_ok_def lineage_append)

lemma log_ok_butlast: "log_ok C st (rs @ [r]) \<Longrightarrow> rs \<noteq> [] \<Longrightarrow> log_ok C st rs"
  by (auto simp: log_ok_def lineage_append)

lemma checkpoint_of_sequence [simp]: "cp_sequence (checkpoint_of C st rs) = int (length rs)"
  by (simp add: checkpoint_of_def)

lemma checkpoint_of_snoc_neq [simp]: "checkpoint_of C st rs \<noteq> checkpoint_of C st (rs @ [r])"
  "checkpoint_of C st (rs @ [r]) \<noteq> checkpoint_of C st rs"
  by (simp_all add: checkpoint_of_def)

lemma checkpoint_of_fields [simp]:
  "cp_context (checkpoint_of C st rs) = st_context st" "cp_root (checkpoint_of C st rs) = st_root st"
  "cp_version (checkpoint_of C st rs) = store_version"
  by (simp_all add: checkpoint_of_def)

lemma append_after_eq: "append_after C st (checkpoint_of C st rs) r = checkpoint_of C st (rs @ [r])"
  by (simp add: append_after_def checkpoint_of_def chain_head_append algebra_simps)

section \<open>Disks that a sequence of operations and crashes can leave behind\<close>

definition witness_text :: "codec \<Rightarrow> checkpoint \<Rightarrow> (checkpoint \<times> checkpoint) option \<Rightarrow> string" where
  "witness_text C c p = anc_json C (witness_doc c p)"

definition lock_ok :: "disk \<Rightarrow> bool" where
  "lock_ok dk \<longleftrightarrow> (\<exists>b. dk_lock dk = Some b \<and> take 1 b = [char_of (0 :: nat)])"

definition settled :: "codec \<Rightarrow> store \<Rightarrow> ancestry_record list \<Rightarrow> disk \<Rightarrow> bool" where
  "settled C st rs dk \<longleftrightarrow> log_ok C st rs \<and> lock_ok dk \<and> dk_db dk = Some (database_of C st rs)
     \<and> dk_witness dk = Some (witness_text C (checkpoint_of C st rs) None)"

inductive recoverable :: "codec \<Rightarrow> store \<Rightarrow> ancestry_record list \<Rightarrow> disk \<Rightarrow> bool" for C st where
  settled: "settled C st rs dk \<Longrightarrow> recoverable C st rs dk"
| prepared: "log_ok C st (rs @ [r]) \<Longrightarrow> rs \<noteq> [] \<Longrightarrow> lock_ok dk \<Longrightarrow> dk_db dk = Some (database_of C st rs)
    \<Longrightarrow> dk_witness dk = Some (witness_text C (checkpoint_of C st rs)
          (Some (checkpoint_of C st rs, checkpoint_of C st (rs @ [r]))))
    \<Longrightarrow> recoverable C st rs dk"
| committed: "log_ok C st (rs @ [r]) \<Longrightarrow> rs \<noteq> [] \<Longrightarrow> lock_ok dk
    \<Longrightarrow> dk_db dk = Some (database_of C st (rs @ [r]))
    \<Longrightarrow> dk_witness dk = Some (witness_text C (checkpoint_of C st rs)
          (Some (checkpoint_of C st rs, checkpoint_of C st (rs @ [r]))))
    \<Longrightarrow> recoverable C st (rs @ [r]) dk"

lemma recoverable_log: "recoverable C st rs dk \<Longrightarrow> log_ok C st rs"
  by (induction rule: recoverable.induct) (auto simp: settled_def dest: log_ok_butlast)

lemma recoverable_lock: "recoverable C st rs dk \<Longrightarrow> lock_ok dk"
  by (induction rule: recoverable.induct) (auto simp: settled_def)

lemma recoverable_db: "recoverable C st rs dk \<Longrightarrow> dk_db dk = Some (database_of C st rs)"
  by (induction rule: recoverable.induct) (auto simp: settled_def)

lemma apply_effects_simps [simp]:
  "apply_effects dk [] = dk"
  "apply_effects dk (e # es) = apply_effects (apply_effect dk e) es"
  "apply_effects dk (es @ es') = apply_effects (apply_effects dk es) es'"
  by (simp_all add: apply_effects_def)

lemma read_witness_text:
  "checkpoint_ok c \<Longrightarrow> pending_ok p \<Longrightarrow> read_witness C (witness_text C c p) = Inr (c, p)"
  unfolding witness_text_def by (rule read_witness_bytes [OF _ _ witness_bytes_ok])

lemma witness_bytes_text:
  "checkpoint_ok c \<Longrightarrow> pending_ok p \<Longrightarrow> witness_bytes C c p = Inr (witness_text C c p)"
  unfolding witness_text_def by (rule witness_bytes_ok)

text \<open>The head before the last event of a stored log.\<close>

lemma find_append: "find P (xs @ ys) = (case find P xs of Some x \<Rightarrow> Some x | None \<Rightarrow> find P ys)"
  by (induction xs) auto

lemma stored_events_snoc:
  "map snd (stored_rows C 1 zero_sha256 (qs @ [q])) = map snd (stored_rows C 1 zero_sha256 qs)
     @ [\<lparr>er_sequence = int (length qs) + 1, er_before = CText (chain_head C 1 zero_sha256 qs),
         er_record = CText (record_digest C q), er_head = CText (chain_head C 1 zero_sha256 (qs @ [q]))\<rparr>]"
  by (simp add: stored_rows_append insert_rows_def Let_def chain_head_append algebra_simps)

lemma stored_event_bound:
  assumes "ev \<in> set (map snd (stored_rows C 1 zero_sha256 qs))"
  shows "er_sequence ev \<le> int (length qs)"
proof -
  have "er_sequence ev \<in> er_sequence ` set (map snd (stored_rows C 1 zero_sha256 qs))"
    using assms by (rule imageI)
  also have "\<dots> = set (map (er_sequence \<circ> snd) (stored_rows C 1 zero_sha256 qs))"
    by (simp add: image_comp)
  finally show ?thesis by (auto simp: stored_sequences simp del: list.map_comp)
qed

lemma prior_head_of:
  assumes "rs \<noteq> []"
  shows "prior_head (database_of C st (rs @ [r])) (rs @ [r]) (int (length (rs @ [r])))
    = CText (chain_head C 1 zero_sha256 rs)"
proof -
  obtain qs q where rs: "rs = qs @ [q]" using assms by (cases rs rule: rev_cases) auto
  let ?evs = "map snd (stored_rows C 1 zero_sha256 qs)"
  have "find (\<lambda>ev. er_sequence ev = int (length rs)) ?evs = None"
    using stored_event_bound [of _ C qs] by (fastforce simp: find_None_iff rs)
  moreover have "map snd (stored_rows C 1 zero_sha256 rs) = ?evs
      @ [\<lparr>er_sequence = int (length rs), er_before = CText (chain_head C 1 zero_sha256 qs),
          er_record = CText (record_digest C q), er_head = CText (chain_head C 1 zero_sha256 rs)\<rparr>]"
    unfolding rs stored_events_snoc by simp
  ultimately show ?thesis
    using assms by (simp add: prior_head_def database_of_def stored_events_snoc [of C rs r] find_append)
qed

section \<open>Recovery\<close>

lemma writer_guard_ok: "lock_ok dk \<Longrightarrow> writer_guard dk = Inr ()"
  by (auto simp: lock_ok_def writer_guard_def)

lemma lock_ok_witness [simp]: "lock_ok (dk\<lparr>dk_witness := w\<rparr>) = lock_ok dk"
  "lock_ok (dk\<lparr>dk_db := d\<rparr>) = lock_ok dk"
  by (simp_all add: lock_ok_def)

lemma verify_database: "hash_ok C \<Longrightarrow> log_ok C st rs \<Longrightarrow>
    verify_db C st (database_of C st rs) = Inr (checkpoint_of C st rs, rs)"
  by (rule verify_database_of) auto

lemma state_settled:
  assumes "hash_ok C" "settled C st rs dk"
  shows "state C st dk = ([], Inr (checkpoint_of C st rs, rs))"
proof -
  have ok: "checkpoint_ok (checkpoint_of C st rs)" "log_ok C st rs"
    using assms by (auto simp: settled_def checkpoint_of_ok)
  have r: "read_witness C (witness_text C (checkpoint_of C st rs) None) = Inr (checkpoint_of C st rs, None)"
    using ok by (intro read_witness_text) (auto simp: pending_ok_def)
  have dk: "dk_db dk = Some (database_of C st rs)" "writer_guard dk = Inr ()"
    "dk_witness dk = Some (witness_text C (checkpoint_of C st rs) None)"
    using assms(2) by (auto simp: settled_def writer_guard_ok)
  show ?thesis
    by (simp add: state_def locked_state_def dk r verify_database [OF assms(1) ok(2)])
qed

lemma state_pending:
  assumes "hash_ok C" "log_ok C st (rs @ [r])" "rs \<noteq> []" "lock_ok dk"
    and db: "dk_db dk = Some (database_of C st qs)" and qs: "qs = rs \<or> qs = rs @ [r]"
    and w: "dk_witness dk = Some (witness_text C (checkpoint_of C st rs)
          (Some (checkpoint_of C st rs, checkpoint_of C st (rs @ [r]))))"
  shows "state C st dk = ([WriteWitness (witness_text C (checkpoint_of C st qs) None)],
      Inr (checkpoint_of C st qs, qs))"
proof -
  have log: "log_ok C st rs" using log_ok_butlast assms(2,3) by blast
  have ok: "checkpoint_ok (checkpoint_of C st rs)" "checkpoint_ok (checkpoint_of C st (rs @ [r]))"
    using assms(1,2) log by (auto simp: checkpoint_of_ok)
  have r: "read_witness C (witness_text C (checkpoint_of C st rs)
          (Some (checkpoint_of C st rs, checkpoint_of C st (rs @ [r]))))
      = Inr (checkpoint_of C st rs, Some (checkpoint_of C st rs, checkpoint_of C st (rs @ [r])))"
    using ok by (intro read_witness_text) (auto simp: pending_ok_def)
  have g: "writer_guard dk = Inr ()" using assms(4) by (rule writer_guard_ok)
  have v: "verify_db C st (database_of C st qs) = Inr (checkpoint_of C st qs, qs)"
    using qs log assms(1,2) by (auto intro: verify_database)
  have b: "witness_bytes C (checkpoint_of C st qs) None = Inr (witness_text C (checkpoint_of C st qs) None)"
    using qs ok by (auto intro!: witness_bytes_text simp: pending_ok_def)
  have p: "qs = rs @ [r] \<Longrightarrow> prior_head (database_of C st qs) qs (cp_sequence (checkpoint_of C st qs))
      = CText (cp_head (checkpoint_of C st rs))"
    using prior_head_of [OF assms(3)] by (simp add: checkpoint_of_def)
  show ?thesis
    using qs p by (auto simp: state_def locked_state_def db w r v g b)
qed

theorem state_recovers:
  assumes "hash_ok C" "recoverable C st rs dk"
  obtains es where "state C st dk = (es, Inr (checkpoint_of C st rs, rs))"
    and "settled C st rs (apply_effects dk es)" and "length es \<le> 1"
    and "\<And>k. recoverable C st rs (apply_effects dk (take k es))"
  using assms(2)
proof cases
  case settled
  with state_settled [OF assms(1) settled] show ?thesis
    by (intro that [of "[]"]) (auto intro: recoverable.settled)
next
  case (prepared r)
  let ?es = "[WriteWitness (witness_text C (checkpoint_of C st rs) None)]"
  have s: "settled C st rs (apply_effects dk ?es)"
    using prepared log_ok_butlast by (auto simp: settled_def)
  show ?thesis
  proof (rule that [OF state_pending [OF assms(1) prepared(1-4)] s])
    show "recoverable C st rs (apply_effects dk (take k ?es))" for k
      using s assms(2) by (cases k) (auto intro: recoverable.settled)
  qed (use prepared in auto)
next
  case (committed qs r)
  let ?es = "[WriteWitness (witness_text C (checkpoint_of C st rs) None)]"
  have s: "settled C st rs (apply_effects dk ?es)"
    using committed by (auto simp: settled_def)
  have st: "state C st dk = (?es, Inr (checkpoint_of C st rs, rs))"
    unfolding committed(1) by (rule state_pending [OF assms(1) committed(2-5) _ committed(6)]) simp
  show ?thesis
  proof (rule that [OF st s])
    show "recoverable C st rs (apply_effects dk (take k ?es))" for k
      using s assms(2) by (cases k) (auto intro: recoverable.settled)
  qed simp
qed


section \<open>Append\<close>

lemma append_locked_run:
  assumes "hash_ok C" "settled C st rs dk" "entry_ok C st rs r" "length rs < max_records"
  defines "w1 \<equiv> witness_text C (checkpoint_of C st rs) (Some (checkpoint_of C st rs, checkpoint_of C st (rs @ [r])))"
    and "w2 \<equiv> witness_text C (checkpoint_of C st (rs @ [r])) None"
  obtains row ev where
    "append_locked C st r (checkpoint_of C st rs) dk (checkpoint_of C st rs, rs)
      = ([WriteWitness w1, CommitInsert row ev, WriteWitness w2], Inr (checkpoint_of C st (rs @ [r])))"
    and "\<And>d. dk_db d = Some (database_of C st rs)
      \<Longrightarrow> dk_db (apply_effect d (CommitInsert row ev)) = Some (database_of C st (rs @ [r]))"
proof -
  have log: "log_ok C st rs" and db: "dk_db dk = Some (database_of C st rs)"
    using assms(2) by (auto simp: settled_def)
  have log': "log_ok C st (rs @ [r])" using log assms(3,4) by (rule log_ok_snoc)
  have ok: "checkpoint_ok (checkpoint_of C st rs)" "checkpoint_ok (checkpoint_of C st (rs @ [r]))"
    using assms(1) log log' by (auto simp: checkpoint_of_ok)
  have adm: "admit_record rs r = Inr ()"
  proof -
    have "\<exists>us. map_res (\<lambda>i. case find_record rs i of
                  None \<Rightarrow> Inl (AncestryError ''missing parent'')
                | Some p \<Rightarrow> ensure (set (ar_scope r) \<subseteq> set (ar_scope p))
                              (AncestryError ''child scope expands parent scope'')) ps = Inr us"
      if "list_all (parent_ok rs (ar_scope r)) ps" for ps
      using that by (induction ps) (auto simp: parent_ok_def split: option.splits)
    then show ?thesis
      using assms(3,4) by (auto simp: admit_record_def entry_ok_def)
  qed
  obtain row ev where ins: "insert_rows C (1 + int (length rs)) (chain_head C 1 zero_sha256 rs) r
      = (row, ev, cp_head (checkpoint_of C st (rs @ [r])))"
    by (simp add: insert_rows_def Let_def checkpoint_of_def chain_head_append algebra_simps)
  have b: "witness_bytes C (checkpoint_of C st rs) (Some (checkpoint_of C st rs, checkpoint_of C st (rs @ [r]))) = Inr w1"
    "witness_bytes C (checkpoint_of C st (rs @ [r])) None = Inr w2"
    using ok by (auto intro!: witness_bytes_text simp: pending_ok_def w1_def w2_def)
  have put: "dk_db (apply_effect d (CommitInsert row ev)) = Some (database_of C st (rs @ [r]))"
    if "dk_db d = Some (database_of C st rs)" for d
    using ins that by (simp add: database_of_def stored_rows_append algebra_simps)
  have "dk_db (apply_effects dk [WriteWitness w1, CommitInsert row ev]) = Some (database_of C st (rs @ [r]))"
    by (simp add: put db del: apply_effect.simps(3))
  then have "append_locked C st r (checkpoint_of C st rs) dk (checkpoint_of C st rs, rs)
      = ([WriteWitness w1, CommitInsert row ev, WriteWitness w2], Inr (checkpoint_of C st (rs @ [r])))"
    using ins
    by (simp add: append_locked_def adm append_after_eq Let_def b verify_database [OF assms(1) log']
        checkpoint_of_def [of C st rs, THEN arg_cong [of _ _ cp_head], simplified]
        del: apply_effects_simps apply_effect.simps)
  from that [OF this put] show ?thesis .
qed


lemma recoverable_settled: "settled C st rs dk \<Longrightarrow> recoverable C st rs dk"
  by (rule recoverable.settled)

lemma append_settled:
  assumes "hash_ok C" "settled C st rs dk" "entry_ok C st rs r" "length rs < max_records"
  obtains es where "append_locked C st r (checkpoint_of C st rs) dk (checkpoint_of C st rs, rs)
      = (es, Inr (checkpoint_of C st (rs @ [r])))"
    and "settled C st (rs @ [r]) (apply_effects dk es)"
    and "\<And>k. k < 2 \<Longrightarrow> recoverable C st rs (apply_effects dk (take k es))"
    and "\<And>k. 2 \<le> k \<Longrightarrow> recoverable C st (rs @ [r]) (apply_effects dk (take k es))"
proof -
  have log: "log_ok C st rs" "rs \<noteq> []" "lock_ok dk" and db: "dk_db dk = Some (database_of C st rs)"
    using assms(2) by (auto simp: settled_def log_ok_def)
  have log': "log_ok C st (rs @ [r])" using log(1) assms(3,4) by (rule log_ok_snoc)
  let ?w1 = "witness_text C (checkpoint_of C st rs) (Some (checkpoint_of C st rs, checkpoint_of C st (rs @ [r])))"
    and ?w2 = "witness_text C (checkpoint_of C st (rs @ [r])) None"
  obtain row ev where
    run: "append_locked C st r (checkpoint_of C st rs) dk (checkpoint_of C st rs, rs)
      = ([WriteWitness ?w1, CommitInsert row ev, WriteWitness ?w2], Inr (checkpoint_of C st (rs @ [r])))"
    and put: "\<And>d. dk_db d = Some (database_of C st rs)
      \<Longrightarrow> dk_db (apply_effect d (CommitInsert row ev)) = Some (database_of C st (rs @ [r]))"
    using append_locked_run [OF assms] by blast
  let ?es = "[WriteWitness ?w1, CommitInsert row ev, WriteWitness ?w2]"
  let ?d1 = "apply_effect dk (WriteWitness ?w1)"
  let ?d2 = "apply_effect ?d1 (CommitInsert row ev)"
  have d1: "recoverable C st rs ?d1"
    using log db by (intro recoverable.prepared [OF log']) auto
  have db2: "dk_db ?d2 = Some (database_of C st (rs @ [r]))"
    using db by (intro put) simp
  have d2: "recoverable C st (rs @ [r]) ?d2"
    by (intro recoverable.committed [OF log'] log(2) db2) (use log in auto)
  have d3: "settled C st (rs @ [r]) (apply_effect ?d2 (WriteWitness ?w2))"
    unfolding settled_def using log log' db2 by simp
  show ?thesis
  proof (rule that [OF run])
    show "settled C st (rs @ [r]) (apply_effects dk ?es)" using d3 by simp
    show "recoverable C st rs (apply_effects dk (take k ?es))" if "k < 2" for k
    proof -
      have "k = 0 \<or> k = 1" using that by auto
      then show ?thesis using d1 assms(2) by (auto intro: recoverable_settled)
    qed
    show "recoverable C st (rs @ [r]) (apply_effects dk (take k ?es))" if "2 \<le> k" for k
    proof (cases "k = 2")
      case True
      then show ?thesis using d2 by simp
    next
      case False
      with that have "take k ?es = ?es" by simp
      then show ?thesis using d3 by (auto intro: recoverable_settled)
    qed
  qed
qed

text \<open>An append that is refused leaves no effect behind, and one that is let through is an entry.\<close>

lemma append_locked_cases:
  assumes "log_ok C st rs" "record_ok r" "ar_context r = st_context st" "ar_parents r \<noteq> []"
    and run: "append_locked C st r expected dk (checkpoint_of C st rs, rs) = (es, res)"
  shows "(es = [] \<and> (\<exists>e. res = Inl e))
    \<or> (expected = checkpoint_of C st rs \<and> entry_ok C st rs r \<and> length rs < max_records)"
proof (cases "expected = checkpoint_of C st rs \<and> (\<exists>u. admit_record rs r = Inr u)")
  case False
  with run show ?thesis
    by (cases "expected = checkpoint_of C st rs"; cases "admit_record rs r") (auto simp: append_locked_def)
next
  case True
  have "list_all (parent_ok rs (ar_scope r)) ps"
    if "map_res (\<lambda>i. case find_record rs i of
                  None \<Rightarrow> Inl (AncestryError ''missing parent'')
                | Some p \<Rightarrow> ensure (set (ar_scope r) \<subseteq> set (ar_scope p))
                              (AncestryError ''child scope expands parent scope'')) ps = Inr us" for ps us
    using that by (induction ps arbitrary: us) (auto simp: parent_ok_def split: option.splits)
  with True assms show ?thesis
    by (auto simp: admit_record_def entry_ok_def log_ok_def)
qed

end
