(* ===== verification/Ancestry_Session.thy ===== *)
theory Ancestry_Session
  imports Ancestry_Recovery
begin

text \<open>
  Sessions of the ancestry store: appends, creation, arbitrary sequences of operations with
  crashes between any two durable effects, the lineage a verified log guarantees, the closure
  that \<open>verify_candidate\<close> computes, and what a checkpoint commits to.
\<close>

section \<open>Append\<close>

lemma append_record_run:
  assumes "hash_ok C" "recoverable C st rs dk" "record_ok r"
    and run: "append_record C st r expected dk = (es, res)"
  shows "(es = [] \<and> (\<exists>e. res = Inl e)) \<or>
    (\<exists>es1 es2. es = es1 @ es2 \<and> settled C st rs (apply_effects dk es1) \<and> length es1 \<le> 1
       \<and> (\<forall>k. recoverable C st rs (apply_effects dk (take k es1)))
       \<and> append_locked C st r expected (apply_effects dk es1) (checkpoint_of C st rs, rs) = (es2, res)
       \<and> ar_context r = st_context st \<and> ar_parents r \<noteq> [])"
proof (cases "ar_context r \<noteq> st_context st \<or> ar_parents r = []")
  case True
  with run show ?thesis by (auto simp: append_record_def)
next
  case False
  obtain es1 where s: "state C st dk = (es1, Inr (checkpoint_of C st rs, rs))"
    "settled C st rs (apply_effects dk es1)" "length es1 \<le> 1"
    "\<And>k. recoverable C st rs (apply_effects dk (take k es1))"
    by (rule state_recovers [OF assms(1,2)]) blast
  obtain es2 res2 where l:
    "append_locked C st r expected (apply_effects dk es1) (checkpoint_of C st rs, rs) = (es2, res2)"
    by (cases "append_locked C st r expected (apply_effects dk es1) (checkpoint_of C st rs, rs)")
  have "es = es1 @ es2" "res = res2"
    using run False by (simp_all add: append_record_def s(1) l)
  with s l False show ?thesis by blast
qed

lemma append_crash_step:
  assumes "hash_ok C" "recoverable C st rs dk" "record_ok r"
    and "append_record C st r expected dk = (es, res)"
  shows "\<exists>rs'. recoverable C st rs' (apply_effects dk (take k es))
    \<and> (rs' = rs \<or> rs' = rs @ [r] \<and> entry_ok C st rs r \<and> expected = checkpoint_of C st rs)"
  using append_record_run [OF assms]
proof (elim disjE exE conjE)
  assume "es = []"
  with assms(2) show ?thesis by auto
next
  fix es1 es2
  assume es: "es = es1 @ es2" and s: "settled C st rs (apply_effects dk es1)"
    and pre: "\<forall>k. recoverable C st rs (apply_effects dk (take k es1))"
    and l: "append_locked C st r expected (apply_effects dk es1) (checkpoint_of C st rs, rs) = (es2, res)"
    and ctx: "ar_context r = st_context st" "ar_parents r \<noteq> []"
  have log: "log_ok C st rs" using assms(2) by (rule recoverable_log)
  show ?thesis
  proof (cases "k \<le> length es1")
    case True
    with pre es show ?thesis by auto
  next
    case False
    then have tk: "apply_effects dk (take k es)
        = apply_effects (apply_effects dk es1) (take (k - length es1) es2)"
      by (simp add: es)
    from append_locked_cases [OF log assms(3) ctx l] show ?thesis
    proof (elim disjE conjE)
      assume "es2 = []"
      with s show ?thesis unfolding tk by (auto intro: recoverable_settled)
    next
      assume e: "expected = checkpoint_of C st rs" "entry_ok C st rs r" "length rs < max_records"
      obtain es3 where a: "append_locked C st r expected (apply_effects dk es1) (checkpoint_of C st rs, rs)
          = (es3, Inr (checkpoint_of C st (rs @ [r])))"
        and b: "\<And>k. k < 2 \<Longrightarrow> recoverable C st rs (apply_effects (apply_effects dk es1) (take k es3))"
        and c: "\<And>k. 2 \<le> k \<Longrightarrow> recoverable C st (rs @ [r]) (apply_effects (apply_effects dk es1) (take k es3))"
        using append_settled [OF assms(1) s e(2,3)] e(1) by metis
      have "es2 = es3" using a l by simp
      with b c e show ?thesis
        unfolding tk by (cases "k - length es1 < 2") (auto simp: not_less)
    qed
  qed
qed

section \<open>Creation\<close>

lemma check_label_ok [simp]: "label_text v \<Longrightarrow> check_label v = Inr ()"
  by simp

lemma root_log_ok:
  assumes "record_ok r" "ar_context r = c" "ar_parents r = []"
  shows "log_ok C \<lparr>st_context = c, st_root = record_digest C r\<rparr> [r]"
  using assms by (simp add: log_ok_def lineage_def entry_ok_def max_records_def)

lemma create_settles:
  assumes "hash_ok C" "record_ok r" "label_text c" "ar_context r = c" "ar_parents r = []"
    and "dk_db dk = None" "dk_witness dk = None" "dk_lock dk = None"
  defines "st \<equiv> \<lparr>st_context = c, st_root = record_digest C r\<rparr>"
  shows "\<exists>es. create_store C c r dk = (es, Inr st) \<and> settled C st [r] (apply_effects dk es)"
proof -
  have log: "log_ok C st [r]" unfolding st_def by (rule root_log_ok [OF assms(2,4,5)])
  have cp: "checkpoint_of C st [r] = \<lparr>cp_context = c, cp_root = record_digest C r, cp_version = store_version,
      cp_sequence = 1, cp_head = event_head C 1 zero_sha256 (record_digest C r)\<rparr>"
    by (simp add: checkpoint_of_def st_def)
  have b: "witness_bytes C (checkpoint_of C st [r]) None = Inr (witness_text C (checkpoint_of C st [r]) None)"
    by (rule witness_bytes_text) (simp_all add: checkpoint_of_ok assms(1) log pending_ok_def)
  have run: "create_store C c r dk = ([CreateFiles, CommitCreate (database_of C st [r]),
      WriteWitness (witness_text C (checkpoint_of C st [r]) None)], Inr st)"
    using assms(3-8) b [unfolded cp]
    by (simp add: create_store_def insert_rows_def Let_def database_of_def cp) (simp add: st_def)
  show ?thesis
    unfolding run settled_def using log by (simp add: lock_ok_def)
qed

lemma verify_empty_schema:
  "\<exists>e. verify_db C st \<lparr>db_schema = \<lparr>sc_objects = [], sc_columns = [], sc_indexes = []\<rparr>,
      db_meta = [], db_records = [], db_events = []\<rparr> = Inl (IntegrityError e)"
  by (auto simp: verify_db_def verify_schema_def ensure_def)

lemma read_witness_empty: "\<exists>e. read_witness C [] = Inl (IntegrityError e)"
  by (simp add: read_witness_def loads_def skip_ws_def utf8_valid_ascii split: sum.splits)

lemma open_empty_witness:
  assumes "dk_witness dk = Some []" "dk_lock dk = Some [char_of (0 :: nat)]"
  shows "\<exists>e. open_store C c d dk = ([], Inl e)"
proof -
  obtain e where e: "read_witness C [] = Inl e" using read_witness_empty by blast
  have s: "\<exists>e. state C st dk = ([], Inl e)" for st
    using assms
    by (cases "dk_db dk"; cases "verify_db C st (the (dk_db dk))")
      (auto simp: state_def writer_guard_def locked_state_def e)
  obtain e' where s': "state C \<lparr>st_context = c, st_root = d\<rparr> dk = ([], Inl e')" using s by blast
  show ?thesis
    unfolding open_store_def Let_def get_checkpoint_def s' prod.case
    by (simp split: sum.split)
qed

lemma create_cut_short:
  assumes "create_store C c r dk = (es, res)" "0 < k" "k < length es"
  shows "\<exists>e. open_store C c' d (apply_effects dk (take k es)) = ([], Inl e)"
proof -
  obtain db es' where es: "es = CreateFiles # CommitCreate db # es'" "length es' \<le> 1"
    using assms by (auto simp: create_store_def Let_def insert_rows_def split: sum.splits if_splits)
  then have "k = 1 \<or> k = 2" using assms(2,3) by auto
  then show ?thesis by (elim disjE) (auto intro!: open_empty_witness simp: es(1))
qed

section \<open>Sessions\<close>

text \<open>
  Any number of reads and appends, each cut by a crash after any number of its durable effects
  (all of them when it returns).
\<close>

inductive session :: "codec \<Rightarrow> store \<Rightarrow> disk \<Rightarrow> disk \<Rightarrow> bool" for C st where
  start: "session C st dk dk"
| read: "session C st dk dk' \<Longrightarrow> state C st dk' = (es, res) \<Longrightarrow> session C st dk (apply_effects dk' (take k es))"
| append: "session C st dk dk' \<Longrightarrow> record_ok r \<Longrightarrow> append_record C st r expected dk' = (es, res)
    \<Longrightarrow> session C st dk (apply_effects dk' (take k es))"


lemma run_extends:
  assumes "hash_ok C"
  shows "session C st dk dk' \<Longrightarrow> recoverable C st rs dk \<Longrightarrow> \<exists>ys. recoverable C st (rs @ ys) dk'"
proof (induction rule: session.induct)
  case (start dk)
  then show ?case by (intro exI [of _ "[]"]) simp
next
  case (read dk dk' es res k)
  then obtain ys where y: "recoverable C st (rs @ ys) dk'" by blast
  obtain es' where "state C st dk' = (es', Inr (checkpoint_of C st (rs @ ys), rs @ ys))"
    "\<And>k. recoverable C st (rs @ ys) (apply_effects dk' (take k es'))"
    by (rule state_recovers [OF assms y]) blast
  with read.hyps show ?case by (intro exI [of _ ys]) simp
next
  case (append dk dk' r expected es res k)
  then obtain ys where y: "recoverable C st (rs @ ys) dk'" by blast
  from append_crash_step [OF assms y append.hyps(2,3), of k] show ?case
    by (auto intro: exI [of _ ys] exI [of _ "ys @ [r]"])
qed

section \<open>What a verified log guarantees\<close>

lemma find_record_None: "find_record known i = None \<longleftrightarrow> i \<notin> ar_id ` set known"
  by (auto simp: find_record_def find_None_iff)

lemma find_record_append:
  "find_record (xs @ ys) i = (case find_record xs i of Some r \<Rightarrow> Some r | None \<Rightarrow> find_record ys i)"
  by (simp only: find_record_def find_append)

lemma find_record_distinct:
  "distinct (map ar_id rs) \<Longrightarrow> r \<in> set rs \<Longrightarrow> find_record rs (ar_id r) = Some r"
proof (induction rs)
  case (Cons a rs)
  then show ?case by (auto simp: find_record_def image_iff)
qed simp

lemma lineage_distinct: "lineage C st rs \<Longrightarrow> distinct (map ar_id rs)"
  by (induction rs rule: rev_induct) (auto simp: lineage_append entry_ok_def)

lemma lineage_scope:
  assumes "lineage C st rs" "r \<in> set rs"
  shows "set (ar_scope r) \<subseteq> set (ar_scope (hd rs))"
  using assms
proof (induction rs arbitrary: r rule: rev_induct)
  case (snoc x rs)
  then have lin: "lineage C st rs" and e: "entry_ok C st rs x" by (auto simp: lineage_append)
  show ?case
  proof (cases "rs = []")
    case True
    with snoc.prems show ?thesis by simp
  next
    case False
    have "set (ar_scope x) \<subseteq> set (ar_scope (hd rs))"
    proof -
      obtain i where i: "i \<in> set (ar_parents x)" using e False by (cases "ar_parents x") (auto simp: entry_ok_def)
      then have "parent_ok rs (ar_scope x) i" using e by (auto simp: entry_ok_def list_all_iff)
      then obtain p where "find_record rs i = Some p" "set (ar_scope x) \<subseteq> set (ar_scope p)"
        by (auto simp: parent_ok_def split: option.splits)
      with snoc.IH [OF lin] find_record_Some show ?thesis by blast
    qed
    with snoc.IH [OF lin] snoc.prems False show ?thesis by auto
  qed
qed simp

lemma lineage_parents_known:
  assumes "lineage C st rs" "r \<in> set rs" "i \<in> set (ar_parents r)"
  shows "\<exists>p. find_record rs i = Some p \<and> set (ar_scope r) \<subseteq> set (ar_scope p)"
  using assms
proof (induction rs arbitrary: r rule: rev_induct)
  case (snoc x rs)
  then have lin: "lineage C st rs" and e: "entry_ok C st rs x" by (auto simp: lineage_append)
  have "\<exists>p. find_record rs i = Some p \<and> set (ar_scope r) \<subseteq> set (ar_scope p)"
  proof (cases "r = x")
    case True
    with e snoc.prems show ?thesis
      by (auto simp: entry_ok_def list_all_iff parent_ok_def split: option.splits)
  next
    case False
    with snoc.prems snoc.IH [OF lin] show ?thesis by auto
  qed
  then show ?case by (auto simp: find_record_append)
qed simp

section \<open>The ancestor closure\<close>

definition parent_of :: "ancestry_record list \<Rightarrow> (string \<times> string) set" where
  "parent_of rs = {(i, p). \<exists>r. find_record rs i = Some r \<and> p \<in> set (ar_parents r)}"

lemma closure_loop_upper:
  "closure_loop known seen pending = Some cl \<Longrightarrow> set cl \<subseteq> set seen \<union> (parent_of known)\<^sup>* `` set pending"
proof (induction known seen pending arbitrary: cl rule: closure_loop.induct)
  case (2 known seen i pending)
  show ?case
  proof (cases "i \<in> set seen")
    case True
    with 2 show ?thesis by auto
  next
    case False
    with "2.prems" obtain r where r: "find_record known i = Some r"
      and rec: "closure_loop known (i # seen) (rev (ar_parents r) @ pending) = Some cl"
      by (auto split: option.splits)
    have "set cl \<subseteq> set (i # seen) \<union> (parent_of known)\<^sup>* `` set (rev (ar_parents r) @ pending)"
      by (rule "2.IH"(2) [OF False r rec])
    moreover have "(parent_of known)\<^sup>* `` set (ar_parents r) \<subseteq> (parent_of known)\<^sup>* `` {i}"
    proof -
      have "(i, p) \<in> parent_of known" if "p \<in> set (ar_parents r)" for p
        using that r by (auto simp: parent_of_def)
      then show ?thesis by (auto intro: converse_rtrancl_into_rtrancl)
    qed
    ultimately show ?thesis by auto
  qed
qed simp

lemma closure_loop_lower:
  assumes "closure_loop known seen pending = Some cl"
    and "parent_of known `` set seen \<subseteq> set seen \<union> set pending"
  shows "set seen \<union> set pending \<subseteq> set cl \<and> parent_of known `` set cl \<subseteq> set cl"
  using assms
proof (induction known seen pending arbitrary: cl rule: closure_loop.induct)
  case (2 known seen i pending)
  show ?case
  proof (cases "i \<in> set seen")
    case True
    with 2 show ?thesis by (simp add: insert_absorb)
  next
    case False
    with "2.prems"(1) obtain r where r: "find_record known i = Some r"
      and rec: "closure_loop known (i # seen) (rev (ar_parents r) @ pending) = Some cl"
      by (auto split: option.splits)
    have "parent_of known `` set (i # seen) \<subseteq> set (i # seen) \<union> set (rev (ar_parents r) @ pending)"
      using "2.prems"(2) r by (auto simp: parent_of_def)
    from "2.IH"(2) [OF False r rec this] show ?thesis by auto
  qed
qed simp

lemma closure_loop_total:
  assumes "set pending \<subseteq> ar_id ` set known"
    and "\<And>r. r \<in> set known \<Longrightarrow> set (ar_parents r) \<subseteq> ar_id ` set known"
  shows "\<exists>cl. closure_loop known seen pending = Some cl"
  using assms
proof (induction known seen pending rule: closure_loop.induct)
  case (2 known seen i pending)
  show ?case
  proof (cases "i \<in> set seen")
    case True
    with 2 show ?thesis by auto
  next
    case False
    from "2.prems"(1) obtain r where r: "find_record known i = Some r"
      using find_record_None [of known i] by (cases "find_record known i") auto
    with find_record_Some have "set (ar_parents r) \<subseteq> ar_id ` set known" using "2.prems"(2) by blast
    with "2.IH"(2) [OF False r] "2.prems" False r show ?thesis by auto
  qed
qed simp

lemma closure_loop_ancestors:
  assumes "lineage C st rs" "t \<in> ar_id ` set rs"
  shows "\<exists>cl. closure_loop rs [] [t] = Some cl \<and> set cl = (parent_of rs)\<^sup>* `` {t}"
proof -
  have "set (ar_parents r) \<subseteq> ar_id ` set rs" if "r \<in> set rs" for r
    using lineage_parents_known [OF assms(1) that] find_record_Some by force
  then obtain cl where cl: "closure_loop rs [] [t] = Some cl"
    using closure_loop_total [of "[t]" rs "[]"] assms(2) by auto
  have up: "set cl \<subseteq> (parent_of rs)\<^sup>* `` {t}" using closure_loop_upper [OF cl] by simp
  have lo: "t \<in> set cl" "parent_of rs `` set cl \<subseteq> set cl" using closure_loop_lower [OF cl] by auto
  have "i \<in> set cl" if "(t, i) \<in> (parent_of rs)\<^sup>*" for i
    using that lo by (induction rule: rtrancl_induct) auto
  with up cl show ?thesis by blast
qed

section \<open>What a checkpoint commits to\<close>

fun log_texts :: "codec \<Rightarrow> int \<Rightarrow> string \<Rightarrow> ancestry_record list \<Rightarrow> string set" where
  "log_texts C n before [] = {}"
| "log_texts C n before (r # rs) =
     insert (record_text C r) (insert (head_text C n before (record_digest C r))
       (log_texts C (n + 1) (event_head C n before (record_digest C r)) rs))"

lemma chain_head_inject:
  assumes "hash_ok C" "sha256_text b" "sha256_text b'" "length rs = length rs'"
    and "\<forall>r \<in> set rs. record_ok r" "\<forall>r \<in> set rs'. record_ok r"
    and "inj_on (sha256_hex C) T" "log_texts C n b rs \<subseteq> T" "log_texts C n b' rs' \<subseteq> T"
    and "chain_head C n b rs = chain_head C n b' rs'"
  shows "rs = rs' \<and> b = b'"
  using assms(2-6,8-)
proof (induction rs arbitrary: rs' n b b')
  case (Cons r rs)
  then obtain r' qs where rs': "rs' = r' # qs" by (cases rs') auto
  let ?h = "event_head C n b (record_digest C r)" and ?h' = "event_head C n b' (record_digest C r')"
  have "rs = qs \<and> ?h = ?h'"
    using Cons.prems assms(1) unfolding rs'
    by (intro Cons.IH [of ?h ?h' qs "n + 1"]) (simp_all add: event_head_def anc_digest_def)
  moreover from this have "n = n \<and> b = b' \<and> record_digest C r = record_digest C r'"
    using Cons.prems assms(1) unfolding rs'
    by (intro event_head_inject [OF assms(7)]) (simp_all add: sha256_text_ascii)
  moreover from this have "r = r'"
    using Cons.prems unfolding rs' by (intro record_digest_inject [OF assms(7)]) simp_all
  ultimately show ?case by (simp add: rs')
qed simp

end
