(* ===== verification/Ancestry_Properties.thy ===== *)
theory Ancestry_Properties
  imports Ancestry_Session
begin

section \<open>A concrete store\<close>

definition sample_root :: ancestry_record where
  "sample_root = \<lparr>ar_id = ''root'', ar_context = ''ctx'', ar_payload = ''p'', ar_parents = [], ar_scope = [''read'', ''write'']\<rparr>"

definition sample_child :: ancestry_record where
  "sample_child = \<lparr>ar_id = ''child'', ar_context = ''ctx'', ar_payload = ''q'', ar_parents = [''root''], ar_scope = [''read'']\<rparr>"

definition sample_store :: store where
  "sample_store = \<lparr>st_context = ''ctx'', st_root = record_digest sample_codec sample_root\<rparr>"

definition empty_disk :: disk where
  "empty_disk = \<lparr>dk_db = None, dk_witness = None, dk_lock = None\<rparr>"

definition sample_disk :: disk where
  "sample_disk = apply_effects empty_disk (fst (create_store sample_codec ''ctx'' sample_root empty_disk))"

lemma sample_fields [simp]:
  "ar_context sample_root = ''ctx''" "ar_parents sample_root = []" "ar_id sample_root = ''root''"
  "ar_context sample_child = ''ctx''" "ar_parents sample_child = [''root'']" "ar_id sample_child = ''child''"
  "dk_db empty_disk = None" "dk_witness empty_disk = None" "dk_lock empty_disk = None"
  by (simp_all add: sample_root_def sample_child_def empty_disk_def)

lemma sample_records [simp]: "record_ok sample_root" "record_ok sample_child"
  by (simp_all add: record_ok_def sample_root_def sample_child_def labels_ok_def is_lower_alpha_def
      label_char_def max_payload_def max_parents_def max_scope_def)

lemma label_ctx [simp]: "label_text ''ctx''"
  by (simp add: is_lower_alpha_def label_char_def)

lemma sample_settled [simp]: "settled sample_codec sample_store [sample_root] sample_disk"
proof -
  have "\<exists>es. create_store sample_codec ''ctx'' sample_root empty_disk = (es, Inr sample_store)
      \<and> settled sample_codec sample_store [sample_root] (apply_effects empty_disk es)"
    unfolding sample_store_def by (rule create_settles) (simp_all add: is_lower_alpha_def label_char_def)
  then show ?thesis by (auto simp: sample_disk_def)
qed

lemma sample_recoverable [simp]: "recoverable sample_codec sample_store [sample_root] sample_disk"
  by (rule recoverable_settled) simp

lemma sample_entry [simp]: "entry_ok sample_codec sample_store [sample_root] sample_child"
  using sample_records(2)
  by (simp add: entry_ok_def sample_store_def parent_ok_def find_record_def sample_root_def sample_child_def)

lemma sample_log: "log_ok sample_codec sample_store [sample_root]"
  using sample_recoverable recoverable_log by blast

lemma sample_verified: "verify_db sample_codec sample_store (database_of sample_codec sample_store [sample_root])
  = Inr (checkpoint_of sample_codec sample_store [sample_root], [sample_root])"
  by (rule verify_database) (simp_all add: sample_log)

section \<open>Properties\<close>

text \<open>
  C12: durability. However reads and appends are interrupted by crashes between two durable
  effects, the next read of the store succeeds, and what it returns extends what an earlier read
  returned: no admitted record is ever lost, reordered or changed.
\<close>

theorem session_never_loses_records:
  assumes "hash_ok C" "recoverable C st rs dk" "session C st dk dk'"
  shows "\<exists>es ys. state C st dk' = (es, Inr (checkpoint_of C st (rs @ ys), rs @ ys)) \<and> lineage C st (rs @ ys)"
proof -
  obtain ys where y: "recoverable C st (rs @ ys) dk'"
    using run_extends [OF assms(1,3,2)] by blast
  obtain es where "state C st dk' = (es, Inr (checkpoint_of C st (rs @ ys), rs @ ys))"
    by (rule state_recovers [OF assms(1) y]) blast
  with recoverable_log [OF y] show ?thesis by (auto simp: log_ok_def)
qed

theorem session_never_loses_records_witness:
  "\<exists>es ys. state sample_codec sample_store sample_disk
      = (es, Inr (checkpoint_of sample_codec sample_store ([sample_root] @ ys), [sample_root] @ ys))
    \<and> lineage sample_codec sample_store ([sample_root] @ ys)"
  by (rule session_never_loses_records [OF sample_hash sample_recoverable session.start])

text \<open>
  C14: crash safety of one append. Cut after any number of its durable effects, the disk still
  denotes the old log or the old log with exactly the new record, and the latter only when the
  record was admissible against the checkpoint the caller expected.
\<close>

theorem append_crash_safe:
  assumes "hash_ok C" "recoverable C st rs dk" "record_ok r"
    and "append_record C st r expected dk = (es, res)"
  shows "\<exists>rs'. recoverable C st rs' (apply_effects dk (take k es))
    \<and> (rs' = rs \<or> rs' = rs @ [r] \<and> entry_ok C st rs r \<and> expected = checkpoint_of C st rs)"
  by (rule append_crash_step [OF assms])

theorem append_crash_safe_witness:
  "\<exists>rs'. recoverable sample_codec sample_store rs' (apply_effects sample_disk
        (take 2 (fst (append_record sample_codec sample_store sample_child
           (checkpoint_of sample_codec sample_store [sample_root]) sample_disk))))
    \<and> (rs' = [sample_root] \<or> rs' = [sample_root] @ [sample_child])"
  using append_crash_safe [OF sample_hash sample_recoverable sample_records(2) surjective_pairing,
      where k = 2 and expected = "checkpoint_of sample_codec sample_store [sample_root]"] by blast

text \<open>
  C18: an admissible record is appended: the call returns the checkpoint of the extended log, the
  witness is settled and the next read returns the extended log.
\<close>

theorem append_succeeds:
  assumes "hash_ok C" "recoverable C st rs dk" "entry_ok C st rs r" "length rs < max_records"
  shows "\<exists>es. append_record C st r (checkpoint_of C st rs) dk = (es, Inr (checkpoint_of C st (rs @ [r])))
    \<and> settled C st (rs @ [r]) (apply_effects dk es)
    \<and> state C st (apply_effects dk es) = ([], Inr (checkpoint_of C st (rs @ [r]), rs @ [r]))"
proof -
  have log: "log_ok C st rs" using assms(2) by (rule recoverable_log)
  obtain es1 where s: "state C st dk = (es1, Inr (checkpoint_of C st rs, rs))"
    "settled C st rs (apply_effects dk es1)"
    by (rule state_recovers [OF assms(1,2)]) blast
  obtain es2 where a: "append_locked C st r (checkpoint_of C st rs) (apply_effects dk es1) (checkpoint_of C st rs, rs)
      = (es2, Inr (checkpoint_of C st (rs @ [r])))"
    and f: "settled C st (rs @ [r]) (apply_effects (apply_effects dk es1) es2)"
    by (rule append_settled [OF assms(1) s(2) assms(3,4)]) blast
  have "ar_context r = st_context st" "ar_parents r \<noteq> []"
    using assms(3) log by (auto simp: entry_ok_def log_ok_def)
  then have "append_record C st r (checkpoint_of C st rs) dk = (es1 @ es2, Inr (checkpoint_of C st (rs @ [r])))"
    by (simp add: append_record_def s(1) a)
  with f state_settled [OF assms(1) f] show ?thesis by (intro exI [of _ "es1 @ es2"]) simp
qed

theorem append_succeeds_witness:
  "\<exists>es. append_record sample_codec sample_store sample_child (checkpoint_of sample_codec sample_store [sample_root]) sample_disk
      = (es, Inr (checkpoint_of sample_codec sample_store ([sample_root] @ [sample_child])))
    \<and> settled sample_codec sample_store ([sample_root] @ [sample_child]) (apply_effects sample_disk es)
    \<and> state sample_codec sample_store (apply_effects sample_disk es)
      = ([], Inr (checkpoint_of sample_codec sample_store ([sample_root] @ [sample_child]), [sample_root] @ [sample_child]))"
  by (rule append_succeeds [OF sample_hash sample_recoverable sample_entry]) (simp add: max_records_def)

text \<open>
  C20: every other append is refused without touching the database: a stale checkpoint, a record
  that is not admissible (known id, unknown parent, wider scope, other context) or a full store.
\<close>

theorem append_refused:
  assumes "hash_ok C" "recoverable C st rs dk" "record_ok r"
    and "expected \<noteq> checkpoint_of C st rs \<or> \<not> entry_ok C st rs r \<or> max_records \<le> length rs"
    and "append_record C st r expected dk = (es, res)"
  shows "(\<exists>e. res = Inl e) \<and> recoverable C st rs (apply_effects dk es)
    \<and> dk_db (apply_effects dk es) = dk_db dk"
  using append_record_run [OF assms(1-3,5)]
proof (elim disjE exE conjE)
  fix es1 es2
  assume es: "es = es1 @ es2" and s: "settled C st rs (apply_effects dk es1)"
    and l: "append_locked C st r expected (apply_effects dk es1) (checkpoint_of C st rs, rs) = (es2, res)"
    and ctx: "ar_context r = st_context st" "ar_parents r \<noteq> []"
  have "es2 = []" "\<exists>e. res = Inl e"
    using append_locked_cases [OF recoverable_log [OF assms(2)] assms(3) ctx l] assms(4) by auto
  with s es recoverable_db [OF assms(2)] show ?thesis
    by (auto simp: settled_def intro: recoverable_settled [unfolded settled_def])
qed (use assms(2) in auto)

theorem append_refused_witness:
  "(\<exists>e. snd (append_record sample_codec sample_store sample_root
       (checkpoint_of sample_codec sample_store [sample_root]) sample_disk) = Inl e)"
  using append_refused [OF sample_hash sample_recoverable sample_records(1) _ surjective_pairing,
      where expected = "checkpoint_of sample_codec sample_store [sample_root]"]
  by (simp add: entry_ok_def)

text \<open>
  C28: what the full scan guarantees of a database it accepts: ids are unique, the first record is
  the parentless root the caller pinned, every other record has parents, all of them known, and
  holds no scope label that one of its parents, or the root, lacks.
\<close>

theorem verified_log_lineage:
  assumes "verify_db C st db = Inr (cp, rs)"
  shows "distinct (map ar_id rs) \<and> rs \<noteq> [] \<and> length rs \<le> max_records
    \<and> ar_parents (hd rs) = [] \<and> record_digest C (hd rs) = st_root st
    \<and> list_all (\<lambda>r. ar_parents r \<noteq> [] \<and> ar_context r = st_context st) (tl rs)
    \<and> list_all (\<lambda>r. list_all (parent_ok rs (ar_scope r)) (ar_parents r)) rs
    \<and> list_all (\<lambda>r. set (ar_scope r) \<subseteq> set (ar_scope (hd rs))) rs"
proof -
  have log: "log_ok C st rs" using verify_db_sound [OF assms] by simp
  then have lin: "lineage C st rs" and ne: "rs \<noteq> []" and len: "length rs \<le> max_records"
    by (auto simp: log_ok_def)
  have hd: "ar_parents (hd rs) = [] \<and> record_digest C (hd rs) = st_root st"
    using lin ne by (cases rs) (auto simp: lineage_def entry_ok_def)
  have tl: "\<forall>r \<in> set (tl rs). ar_parents r \<noteq> [] \<and> ar_context r = st_context st"
    using lin
  proof (induction rs rule: rev_induct)
    case (snoc x xs)
    then have "lineage C st xs" "entry_ok C st xs x" by (auto simp: lineage_append)
    with snoc.IH show ?case by (cases xs) (auto simp: entry_ok_def)
  qed simp
  have par: "parent_ok rs (ar_scope r) i" if "r \<in> set rs" "i \<in> set (ar_parents r)" for r i
    using lineage_parents_known [OF lin that] by (auto simp: parent_ok_def)
  show ?thesis
    using lineage_distinct [OF lin] ne len hd tl par lineage_scope [OF lin]
    by (auto simp: list_all_iff)
qed

theorem verified_log_lineage_witness:
  "distinct (map ar_id [sample_root]) \<and> record_digest sample_codec sample_root = st_root sample_store"
  using verified_log_lineage [OF sample_verified] by simp

text \<open>
  Tamper evidence. Two databases that verify to the same checkpoint hold the same records, if
  the hash has no collision among the texts the two logs hash.
\<close>

theorem checkpoint_binds_log:
  assumes "hash_ok C" "verify_db C st db = Inr (cp, rs)" "verify_db C st' db' = Inr (cp, rs')"
    and "inj_on (sha256_hex C) (log_texts C 1 zero_sha256 rs \<union> log_texts C 1 zero_sha256 rs')"
  shows "rs = rs' \<and> st = st'"
proof -
  have s: "log_ok C st rs" "cp = checkpoint_of C st rs" "log_ok C st' rs'" "cp = checkpoint_of C st' rs'"
    using verify_db_sound [OF assms(2)] verify_db_sound [OF assms(3)] by auto
  then have "length rs = length rs'" "chain_head C 1 zero_sha256 rs = chain_head C 1 zero_sha256 rs'"
    "st_context st = st_context st'" "st_root st = st_root st'"
    by (auto simp: checkpoint_of_def)
  moreover have "\<forall>r \<in> set rs. record_ok r" "\<forall>r \<in> set rs'. record_ok r"
    using s lineage_from_record_ok by (auto simp: log_ok_def lineage_def)
  ultimately have "rs = rs'" "st = st'"
    using chain_head_inject [OF assms(1) _ _ _ _ _ assms(4), of zero_sha256 zero_sha256 rs rs' 1]
    by (auto intro: store.equality)
  then show ?thesis by simp
qed

text \<open>A hash that tells chain heads from records, for the concrete run.\<close>

definition tag_codec :: codec where
  "tag_codec = sample_codec\<lparr>sha256_hex := \<lambda>s. if starts_with s [CHR ''{'', CHR 0x22, CHR ''b''] then zero_sha256
     else replicate 64 (CHR ''1'')\<rparr>"

definition tag_store :: store where
  "tag_store = \<lparr>st_context = ''ctx'', st_root = record_digest tag_codec sample_root\<rparr>"

lemma tag_hash: "hash_ok tag_codec"
proof -
  have "sha256_text (replicate 64 (CHR ''1''))"
    by (simp add: sha256_text_def list_all_iff is_lower_hex_def is_digit_def)
  then show ?thesis by (simp add: hash_ok_def tag_codec_def)
qed

lemma tag_verified: "verify_db tag_codec tag_store (database_of tag_codec tag_store [sample_root])
  = Inr (checkpoint_of tag_codec tag_store [sample_root], [sample_root])"
proof (rule verify_database [OF tag_hash])
  show "log_ok tag_codec tag_store [sample_root]"
    unfolding tag_store_def by (rule root_log_ok) simp_all
qed

lemma tag_texts_inj:
  "inj_on (sha256_hex tag_codec) (log_texts tag_codec 1 zero_sha256 [sample_root]
     \<union> log_texts tag_codec 1 zero_sha256 [sample_root])"
proof -
  have "sha256_hex tag_codec (record_text tag_codec sample_root) = replicate 64 (CHR ''1'')"
    by (simp add: record_text_def anc_json_def dumps_def) (simp add: record_doc_def render_str_bare bare_char_def tag_codec_def)
  moreover have "sha256_hex tag_codec (head_text tag_codec 1 zero_sha256 d) = zero_sha256" for d
    by (simp add: head_text_def anc_json_def dumps_def) (simp add: head_doc_def render_str_bare bare_char_def tag_codec_def)
  moreover have "replicate 64 (CHR ''1'') \<noteq> zero_sha256" by (simp add: zero_sha256_def)
  ultimately show ?thesis by auto
qed

theorem checkpoint_binds_log_witness:
  "[sample_root] = [sample_root] \<and> tag_store = tag_store"
  by (rule checkpoint_binds_log [OF tag_hash tag_verified tag_verified tag_texts_inj])

text \<open>
  C30: \<open>verify_candidate\<close> accepts exactly one candidate, the records that are ancestors of the
  target (reflexively and transitively), in log order; its worklist never misses a key.
\<close>

theorem verify_candidate_exact:
  assumes "hash_ok C" "recoverable C st rs dk" "label_text t"
  shows "snd (verify_candidate C st t candidate (checkpoint_of C st rs) dk)
    = Inr (t \<in> ar_id ` set rs \<and> candidate = filter (\<lambda>r. (t, ar_id r) \<in> (parent_of rs)\<^sup>*) rs)"
proof -
  obtain es where st: "state C st dk = (es, Inr (checkpoint_of C st rs, rs))"
    by (rule state_recovers [OF assms(1,2)]) blast
  have snap: "take_snapshot C st (checkpoint_of C st rs) dk
      = (es, Inr \<lparr>sn_checkpoint = checkpoint_of C st rs, sn_records = rs\<rparr>)"
    by (simp add: take_snapshot_def st)
  have lin: "lineage C st rs" using recoverable_log [OF assms(2)] by (simp add: log_ok_def)
  show ?thesis
  proof (cases "t \<in> ar_id ` set rs")
    case True
    obtain cl where "closure_loop rs [] [t] = Some cl" "set cl = (parent_of rs)\<^sup>* `` {t}"
      using closure_loop_ancestors [OF lin True] by blast
    with True show ?thesis
      using assms(3) by (simp add: verify_candidate_def snap)
  next
    case False
    then show ?thesis
      using assms(3) by (simp add: verify_candidate_def snap)
  qed
qed

theorem verify_candidate_exact_witness:
  "snd (verify_candidate sample_codec sample_store ''root'' [sample_root]
      (checkpoint_of sample_codec sample_store [sample_root]) sample_disk) = Inr True"
  using verify_candidate_exact [OF sample_hash sample_recoverable, of "''root''" "[sample_root]"]
  by (simp add: is_lower_alpha_def label_char_def)

text \<open>
  Creation is all or nothing: cut between two of its durable effects it leaves files that
  no caller can open as a store.
\<close>

theorem create_interrupted:
  assumes "create_store C c r dk = (es, res)" "0 < k" "k < length es"
  shows "\<exists>e. open_store C c' d (apply_effects dk (take k es)) = ([], Inl e)"
  by (rule create_cut_short [OF assms])

theorem create_interrupted_witness:
  "\<exists>e. open_store sample_codec ''ctx'' (st_root sample_store)
      (apply_effects empty_disk (take 1 (fst (create_store sample_codec ''ctx'' sample_root empty_disk)))) = ([], Inl e)"
proof -
  have len: "1 < length (fst (create_store sample_codec ''ctx'' sample_root empty_disk))"
    by (simp add: create_store_def Let_def insert_rows_def is_lower_alpha_def label_char_def split: sum.splits)
  show ?thesis
    by (rule create_interrupted [OF surjective_pairing zero_less_one len])
qed

text \<open>
  A witness that is written is read back as the same transition, and never outgrows the size
  that the reader accepts.
\<close>

theorem witness_round_trip:
  assumes "checkpoint_ok c" "pending_ok p"
  shows "\<exists>raw. witness_bytes C c p = Inr raw \<and> length raw \<le> max_witness \<and> read_witness C raw = Inr (c, p)"
proof -
  have b: "witness_bytes C c p = Inr (witness_text C c p)" using assms by (rule witness_bytes_text)
  then have "length (witness_text C c p) \<le> max_witness"
    by (auto simp: witness_bytes_def Let_def split: if_splits)
  with b read_witness_text [OF assms] show ?thesis by blast
qed

theorem witness_round_trip_witness:
  "\<exists>raw. witness_bytes sample_codec (checkpoint_of sample_codec sample_store [sample_root]) None = Inr raw
    \<and> length raw \<le> max_witness
    \<and> read_witness sample_codec raw = Inr (checkpoint_of sample_codec sample_store [sample_root], None)"
  by (rule witness_round_trip) (simp_all add: checkpoint_of_ok sample_log pending_ok_def)

end
