(* ===== verification/Envelope.thy ===== *)
theory Envelope
  imports Prelude
begin

text \<open>
  \<open>DataEnvelope\<close> of \<open>models.py\<close>, the restriction check of \<open>envelope_policy.py\<close> and the memory reads of
  \<open>memory_governance.py\<close>: which policy labels may replace which, when a stored record may be
  read, and which record a read selects.
\<close>

section \<open>Envelopes\<close>

record data_envelope =
  de_class :: string
  de_recipients :: "string list"
  de_purpose :: "string list"
  de_store :: bool
  de_forward :: bool
  de_ttl :: "int option"
  de_confirm :: bool
  de_source :: string
  de_mutable :: bool

definition classification_rank :: "(string \<times> nat) list" where
  "classification_rank = [(''public'', 0), (''internal'', 1), (''confidential'', 2), (''restricted'', 3)]"

record envelope_check =
  ec_ok :: bool
  ec_violations :: "string list"

definition ranked_non_decrease :: "string \<Rightarrow> string \<Rightarrow> (string \<times> nat) list \<Rightarrow> string \<Rightarrow> string option" where
  "ranked_non_decrease candidate baseline ranks field =
     (case (map_of ranks candidate, map_of ranks baseline) of
        (Some l, Some r) \<Rightarrow> if l < r then Some (field @ ''_downgraded'') else None
      | _ \<Rightarrow> if candidate = baseline then None else Some (field @ ''_policy_unknown_or_changed''))"

text \<open>A list built by \<open>if c: violations.append(v)\<close> statements.\<close>

definition flag :: "bool \<Rightarrow> string \<Rightarrow> string list" where
  "flag c v = (if c then [v] else [])"

lemma flag_Nil [simp]: "flag c v = [] \<longleftrightarrow> \<not> c"
  by (simp add: flag_def)

lemma set_flag [simp]: "set (flag c v) = (if c then {v} else {})"
  by (simp add: flag_def)

definition option_list :: "'a option \<Rightarrow> 'a list" where
  "option_list x = (case x of None \<Rightarrow> [] | Some a \<Rightarrow> [a])"

lemma option_list_Nil [simp]: "option_list x = [] \<longleftrightarrow> x = None"
  by (simp add: option_list_def split: option.splits)

definition ttl_violations :: "int option \<Rightarrow> int option \<Rightarrow> string list" where
  "ttl_violations candidate baseline =
     (case baseline of
        None \<Rightarrow> []
      | Some b \<Rightarrow> (case candidate of
                    None \<Rightarrow> [''ttl_removed'']
                  | Some c \<Rightarrow> flag (c > b) ''ttl_expanded''))"

definition envelope_violations :: "'a data_envelope_scheme option \<Rightarrow> 'a data_envelope_scheme option \<Rightarrow> string list" where
  "envelope_violations candidate baseline =
     (case baseline of
        None \<Rightarrow> (case candidate of None \<Rightarrow> [] | Some _ \<Rightarrow> [''unexpected_envelope_without_baseline''])
      | Some b \<Rightarrow>
          (case candidate of
             None \<Rightarrow> [''missing_envelope'']
           | Some c \<Rightarrow>
               flag (\<not> set (de_recipients c) \<subseteq> set (de_recipients b)) ''allowed_recipients_expanded''
               @ flag (\<not> set (de_purpose c) \<subseteq> set (de_purpose b)) ''allowed_purpose_expanded''
               @ option_list (ranked_non_decrease (de_class c) (de_class b) classification_rank ''data_class'')
               @ flag (\<not> de_store b \<and> de_store c) ''can_store_weakened''
               @ flag (\<not> de_forward b \<and> de_forward c) ''can_forward_weakened''
               @ ttl_violations (de_ttl c) (de_ttl b)
               @ flag (de_confirm b \<and> \<not> de_confirm c) ''requires_confirmation_removed''
               @ flag (de_source c \<noteq> de_source b) ''classification_source_changed''
               @ flag (\<not> de_mutable b \<and> de_mutable c) ''classification_mutable_weakened''))"

definition is_envelope_restriction :: "'a data_envelope_scheme option \<Rightarrow> 'a data_envelope_scheme option \<Rightarrow> bool" where
  "is_envelope_restriction candidate baseline \<longleftrightarrow> envelope_violations candidate baseline = []"

definition finite_ttls :: "'a data_envelope_scheme option list \<Rightarrow> int list" where
  "finite_ttls es = List.map_filter (\<lambda>e. case e of None \<Rightarrow> None | Some x \<Rightarrow> de_ttl x) es"

definition validate_memory_read_envelope ::
  "'a data_envelope_scheme option \<Rightarrow> 'a data_envelope_scheme option \<Rightarrow> 'a data_envelope_scheme option
    \<Rightarrow> int option \<Rightarrow> envelope_check" where
  "validate_memory_read_envelope write stored read elapsed =
     (let ttls = finite_ttls [write, stored, read];
          violations =
            map (\<lambda>v. ''stored:'' @ v) (envelope_violations stored write)
            @ map (\<lambda>v. ''read:'' @ v) (envelope_violations read stored)
            @ (case elapsed of
                 None \<Rightarrow> []
               | Some t \<Rightarrow> flag (ttls \<noteq> [] \<and> t > Min (set ttls)) ''read:ttl_expired_from_write_time'')
      in \<lparr>ec_ok = (violations = []), ec_violations = violations\<rparr>)"

section \<open>The restriction relation\<close>

definition class_le :: "string \<Rightarrow> string \<Rightarrow> bool" where
  "class_le c b \<longleftrightarrow>
     (case (map_of classification_rank c, map_of classification_rank b) of
        (Some l, Some r) \<Rightarrow> r \<le> l
      | _ \<Rightarrow> c = b)"

definition ttl_le :: "int option \<Rightarrow> int option \<Rightarrow> bool" where
  "ttl_le c b \<longleftrightarrow> (case b of None \<Rightarrow> True | Some y \<Rightarrow> (case c of None \<Rightarrow> False | Some x \<Rightarrow> x \<le> y))"

text \<open>Equal to or more restrictive than, field by field.\<close>

definition restricts :: "'a data_envelope_scheme \<Rightarrow> 'a data_envelope_scheme \<Rightarrow> bool" where
  "restricts c b \<longleftrightarrow> set (de_recipients c) \<subseteq> set (de_recipients b) \<and> set (de_purpose c) \<subseteq> set (de_purpose b)
     \<and> class_le (de_class c) (de_class b) \<and> (de_store c \<longrightarrow> de_store b) \<and> (de_forward c \<longrightarrow> de_forward b)
     \<and> ttl_le (de_ttl c) (de_ttl b) \<and> (de_confirm b \<longrightarrow> de_confirm c) \<and> de_source c = de_source b
     \<and> (de_mutable c \<longrightarrow> de_mutable b)"

lemma ranked_None_iff: "ranked_non_decrease c b classification_rank f = None \<longleftrightarrow> class_le c b"
  by (auto simp: ranked_non_decrease_def class_le_def split: option.splits)

lemma ttl_violations_Nil: "ttl_violations c b = [] \<longleftrightarrow> ttl_le c b"
  by (auto simp: ttl_violations_def ttl_le_def split: option.splits)

lemma violations_Nil_iff: "envelope_violations (Some c) (Some b) = [] \<longleftrightarrow> restricts c b"
  by (auto simp: envelope_violations_def restricts_def ranked_None_iff ttl_violations_Nil)

lemma class_le_trans: "class_le a b \<Longrightarrow> class_le b c \<Longrightarrow> class_le a c"
  by (auto simp: class_le_def split: option.splits)

lemma ttl_le_trans: "ttl_le a b \<Longrightarrow> ttl_le b c \<Longrightarrow> ttl_le a c"
  by (auto simp: ttl_le_def split: option.splits)

lemma restricts_refl: "restricts e e"
  by (auto simp: restricts_def class_le_def ttl_le_def split: option.splits)

lemma restricts_trans: "restricts a b \<Longrightarrow> restricts b c \<Longrightarrow> restricts a c"
  by (auto simp: restricts_def intro: class_le_trans ttl_le_trans)

text \<open>A chain of hops, each a restriction of the one before, ends in a restriction of the origin.\<close>

locale restriction_order =
  fixes le :: "'e \<Rightarrow> 'e \<Rightarrow> bool"
  assumes refl: "le e e"
    and trans: "le a b \<Longrightarrow> le b c \<Longrightarrow> le a c"
begin

lemma chain_restricts:
  "successively (\<lambda>b c. le c b) (e # es) \<Longrightarrow> le (last (e # es)) e"
proof (induction es arbitrary: e)
  case (Cons x xs)
  then have "le (last (x # xs)) x" "le x e" by auto
  then show ?case by (auto intro: trans)
qed (simp add: refl)

end

interpretation envelope_order: restriction_order restricts
  by unfold_locales (blast intro: restricts_refl restricts_trans)+

section \<open>Memory governance\<close>

datatype trust_level = Untrusted | ToolOutput | UserTrust | TrustedPolicy | SystemTrust

fun trust_rank :: "trust_level \<Rightarrow> nat" where
  "trust_rank Untrusted = 0"
| "trust_rank ToolOutput = 1"
| "trust_rank UserTrust = 2"
| "trust_rank TrustedPolicy = 3"
| "trust_rank SystemTrust = 4"

record memory_record =
  mr_key :: string
  mr_value_hash :: string
  mr_write :: data_envelope
  mr_stored :: data_envelope
  mr_channel :: string
  mr_trust :: trust_level
  mr_scope :: string
  mr_step :: int

record memory_request =
  mq_key :: string
  mq_envelope :: data_envelope
  mq_scope :: string
  mq_step :: int
  mq_min_trust :: trust_level

record memory_decision =
  md_ok :: bool
  md_violations :: "string list"

text \<open>The loop over competing records stops at the first one of higher trust.\<close>

definition overridden :: "memory_record \<Rightarrow> memory_record list \<Rightarrow> bool" where
  "overridden r competing \<longleftrightarrow>
     list_ex (\<lambda>c. mr_key c = mr_key r \<and> mr_scope c = mr_scope r
                \<and> trust_rank (mr_trust c) > trust_rank (mr_trust r)) competing"

definition validate_memory_read :: "memory_record \<Rightarrow> memory_request \<Rightarrow> memory_record list \<Rightarrow> memory_decision" where
  "validate_memory_read r q competing =
     (let violations =
        flag (mr_key r \<noteq> mq_key q) ''key_mismatch''
        @ flag (mr_scope r \<noteq> mq_scope q) ''scope_mismatch''
        @ flag (mq_step q < mr_step r) ''read_before_write''
        @ flag (trust_rank (mr_trust r) < trust_rank (mq_min_trust q)) ''trust_too_low''
        @ ec_violations (validate_memory_read_envelope (Some (mr_write r)) (Some (mr_stored r))
             (Some (mq_envelope q)) (Some (max 0 (mq_step q - mr_step r))))
        @ flag (overridden r competing) ''trust_precedence_violation''
      in \<lparr>md_ok = (violations = []), md_violations = violations\<rparr>)"

text \<open>The key of \<open>max\<close>: trust, then step.\<close>

definition memory_key_less :: "memory_record \<Rightarrow> memory_record \<Rightarrow> bool" where
  "memory_key_less a b \<longleftrightarrow> trust_rank (mr_trust a) < trust_rank (mr_trust b)
     \<or> trust_rank (mr_trust a) = trust_rank (mr_trust b) \<and> mr_step a < mr_step b"

definition max_record :: "memory_record \<Rightarrow> memory_record list \<Rightarrow> memory_record" where
  "max_record = max_by memory_key_less"

definition select_governed_memory :: "memory_record list \<Rightarrow> memory_request \<Rightarrow> memory_record option" where
  "select_governed_memory records q =
     (case filter (\<lambda>r. mr_key r = mq_key q \<and> mr_scope r = mq_scope q \<and> md_ok (validate_memory_read r q [])) records of
        [] \<Rightarrow> None
      | r # rs \<Rightarrow> Some (max_record r rs))"

interpretation memory_order: key_order memory_key_less
  by unfold_locales (auto simp: memory_key_less_def)

lemma max_record_in: "max_record b rs \<in> set (b # rs)"
  unfolding max_record_def by (rule max_by_in)

lemma max_record_greatest: "r \<in> set (b # rs) \<Longrightarrow> \<not> memory_key_less (max_record b rs) r"
  unfolding max_record_def by (rule memory_order.greatest)

text \<open>What an accepted read guarantees.\<close>

lemma memory_read_ok:
  "md_ok (validate_memory_read r q competing) \<longleftrightarrow>
     mr_key r = mq_key q \<and> mr_scope r = mq_scope q \<and> mr_step r \<le> mq_step q
     \<and> trust_rank (mq_min_trust q) \<le> trust_rank (mr_trust r)
     \<and> restricts (mr_stored r) (mr_write r) \<and> restricts (mq_envelope q) (mr_stored r)
     \<and> (\<forall>t \<in> set (finite_ttls [Some (mr_write r), Some (mr_stored r), Some (mq_envelope q)]).
          mq_step q - mr_step r \<le> t \<or> mq_step q < mr_step r)
     \<and> \<not> overridden r competing"
proof -
  let ?ts = "finite_ttls [Some (mr_write r), Some (mr_stored r), Some (mq_envelope q)]"
  have ttl: "(?ts = [] \<or> t \<le> Min (set ?ts)) \<longleftrightarrow> (\<forall>u \<in> set ?ts. t \<le> u)" for t
    by (cases "?ts = []") auto
  show ?thesis
    using ttl [of "max 0 (mq_step q - mr_step r)"]
    by (auto simp: validate_memory_read_def validate_memory_read_envelope_def Let_def violations_Nil_iff not_less)
qed

section \<open>Properties\<close>

definition sample_envelope :: data_envelope where
  "sample_envelope = \<lparr>de_class = ''internal'', de_recipients = [''agent-a''], de_purpose = [''review''],
     de_store = True, de_forward = False, de_ttl = Some 60, de_confirm = False, de_source = ''owner'',
     de_mutable = False\<rparr>"

definition sample_memory :: memory_record where
  "sample_memory = \<lparr>mr_key = ''k'', mr_value_hash = ''v'', mr_write = sample_envelope, mr_stored = sample_envelope,
     mr_channel = ''user'', mr_trust = UserTrust, mr_scope = ''s'', mr_step = 3\<rparr>"

definition sample_request :: memory_request where
  "sample_request = \<lparr>mq_key = ''k'', mq_envelope = sample_envelope\<lparr>de_ttl := Some 30\<rparr>, mq_scope = ''s'',
     mq_step = 20, mq_min_trust = ToolOutput\<rparr>"

text \<open>
  C40: the violation list of an envelope is empty exactly when every label is kept or tightened,
  and over a chain of hops, each accepted against the one before, the last envelope is accepted
  against the origin: no sequence of hops weakens the policy.
\<close>

theorem envelope_chain_never_weakens:
  assumes "successively (\<lambda>b c. envelope_violations (Some c) (Some b) = []) (e # es)"
  shows "restricts (last (e # es)) e \<and> is_envelope_restriction (Some (last (e # es))) (Some e)"
proof -
  have "restricts (last (e # es)) e"
    by (rule envelope_order.chain_restricts) (use assms in \<open>simp add: violations_Nil_iff\<close>)
  then show ?thesis by (simp add: is_envelope_restriction_def violations_Nil_iff)
qed

theorem envelope_chain_never_weakens_witness:
  "restricts (sample_envelope\<lparr>de_ttl := Some 10, de_store := False\<rparr>) sample_envelope"
  using envelope_chain_never_weakens [of sample_envelope
      "[sample_envelope\<lparr>de_ttl := Some 30\<rparr>, sample_envelope\<lparr>de_ttl := Some 10, de_store := False\<rparr>]"]
  by (simp add: violations_Nil_iff restricts_def sample_envelope_def class_le_def classification_rank_def ttl_le_def)

text \<open>
  An accepted memory read stays in its scope, is not older than the earliest deadline of the
  write, stored and read envelopes measured from the write, does not weaken the write envelope
  and is not overridden by a competing record of higher trust.
\<close>

theorem accepted_memory_read:
  assumes "md_ok (validate_memory_read r q competing)"
  shows "mr_scope r = mq_scope q \<and> mr_key r = mq_key q \<and> restricts (mq_envelope q) (mr_write r)
    \<and> (\<forall>ttl. de_ttl (mr_write r) = Some ttl \<longrightarrow> mq_step q - mr_step r \<le> ttl)
    \<and> (\<forall>c \<in> set competing. mr_key c = mr_key r \<and> mr_scope c = mr_scope r
         \<longrightarrow> trust_rank (mr_trust c) \<le> trust_rank (mr_trust r))"
proof -
  note ok = assms [unfolded memory_read_ok]
  then have "restricts (mq_envelope q) (mr_write r)" by (blast intro: restricts_trans)
  moreover have "mq_step q - mr_step r \<le> ttl" if "de_ttl (mr_write r) = Some ttl" for ttl
    using ok that by (auto simp: finite_ttls_def List.map_filter_def)
  moreover have "trust_rank (mr_trust c) \<le> trust_rank (mr_trust r)"
    if "c \<in> set competing" "mr_key c = mr_key r \<and> mr_scope c = mr_scope r" for c
    using ok that by (auto simp: overridden_def list_ex_iff not_less)
  ultimately show ?thesis using ok by blast
qed

theorem accepted_memory_read_witness:
  "restricts (mq_envelope sample_request) (mr_write sample_memory)"
  using accepted_memory_read [of sample_memory sample_request "[sample_memory]"]
  by (simp add: memory_read_ok sample_memory_def sample_request_def sample_envelope_def restricts_def class_le_def
      classification_rank_def ttl_le_def finite_ttls_def List.map_filter_def overridden_def)

text \<open>
  The selected record is one of the records the read accepts, no accepted record has higher
  trust or equal trust and a newer write, and a record is selected whenever one is accepted.
\<close>

theorem selected_memory_is_best:
  "(case select_governed_memory records q of
      None \<Rightarrow> list_all (\<lambda>r. \<not> md_ok (validate_memory_read r q [])) records
    | Some m \<Rightarrow> m \<in> set records \<and> md_ok (validate_memory_read m q [])
        \<and> list_all (\<lambda>r. \<not> md_ok (validate_memory_read r q []) \<or> \<not> memory_key_less m r) records)"
proof -
  let ?ok = "\<lambda>r. md_ok (validate_memory_read r q [])"
  have eq: "filter (\<lambda>r. mr_key r = mq_key q \<and> mr_scope r = mq_scope q \<and> ?ok r) records = filter ?ok records"
    by (rule filter_cong) (auto simp: memory_read_ok)
  show ?thesis
  proof (cases "filter ?ok records")
    case Nil
    then show ?thesis by (simp add: select_governed_memory_def eq list_all_iff filter_empty_conv)
  next
    case (Cons r rs)
    have "x \<in> set (r # rs) \<longleftrightarrow> x \<in> set records \<and> ?ok x" for x
      unfolding Cons [symmetric] by auto
    then show ?thesis
      using max_record_in [of r rs] max_record_greatest [of _ r rs]
      by (simp only: select_governed_memory_def eq Cons list.case option.case list_all_iff) blast
  qed
qed

theorem selected_memory_is_best_witness:
  "\<exists>m. select_governed_memory [sample_memory] sample_request = Some m
     \<and> md_ok (validate_memory_read m sample_request [])"
proof -
  have ok: "md_ok (validate_memory_read sample_memory sample_request [])"
    by (simp add: memory_read_ok sample_memory_def sample_request_def sample_envelope_def restricts_def class_le_def
      classification_rank_def ttl_le_def finite_ttls_def List.map_filter_def overridden_def)
  show ?thesis
    using selected_memory_is_best [of sample_request "[sample_memory]"] ok
    by (cases "select_governed_memory [sample_memory] sample_request") simp_all
qed

end
