(* ===== verification/Uri.thy ===== *)
theory Uri
  imports Pytext "HOL-Library.Sublist"
begin

text \<open>
  The two pieces of Python's standard library that decide on resource names in the runtime guard:
  \<open>urllib.parse.urlsplit\<close> with the properties of its result, on printable ASCII, and
  \<open>fnmatch.fnmatchcase\<close> on code points.
\<close>

section \<open>Splitting texts\<close>

text \<open>\<open>s.partition(c)\<close> on one character: before, whether it was found, after.\<close>

definition partition1 :: "char \<Rightarrow> string \<Rightarrow> string \<times> bool \<times> string" where
  "partition1 d s = (takeWhile (\<lambda>c. c \<noteq> d) s, d \<in> set s, drop 1 (dropWhile (\<lambda>c. c \<noteq> d) s))"

definition rpartition1 :: "char \<Rightarrow> string \<Rightarrow> string \<times> bool \<times> string" where
  "rpartition1 d s =
     (if d \<in> set s
      then (rev (drop 1 (dropWhile (\<lambda>c. c \<noteq> d) (rev s))), True, rev (takeWhile (\<lambda>c. c \<noteq> d) (rev s)))
      else ([], False, s))"

fun partition3 :: "string \<Rightarrow> string \<Rightarrow> string \<times> bool \<times> string" where
  "partition3 sep [] = ([], sep = [], [])"
| "partition3 sep (c # cs) =
     (if starts_with (c # cs) sep then ([], True, drop (length sep) (c # cs))
      else (case partition3 sep cs of (a, b, r) \<Rightarrow> (if b then c # a else c # cs, b, r)))"

definition ends_with_char :: "string \<Rightarrow> char \<Rightarrow> bool" where
  "ends_with_char s c \<longleftrightarrow> s \<noteq> [] \<and> last s = c"

section \<open>IP literals\<close>

definition hex_digit_char :: "char \<Rightarrow> bool" where
  "hex_digit_char c \<longleftrightarrow> is_digit c \<or> (97 \<le> ord c \<and> ord c \<le> 102) \<or> (65 \<le> ord c \<and> ord c \<le> 70)"

definition ipv4_octet :: "string \<Rightarrow> bool" where
  "ipv4_octet s \<longleftrightarrow> s \<noteq> [] \<and> list_all is_digit s \<and> length s \<le> 3
     \<and> (s = ''0'' \<or> hd s \<noteq> CHR ''0'') \<and> nat_of_digits s \<le> 255"

definition ipv4_text :: "string \<Rightarrow> bool" where
  "ipv4_text s \<longleftrightarrow> length (split_on (CHR ''.'') s) = 4 \<and> list_all ipv4_octet (split_on (CHR ''.'') s)"

definition hextet :: "string \<Rightarrow> bool" where
  "hextet s \<longleftrightarrow> s \<noteq> [] \<and> list_all hex_digit_char s \<and> length s \<le> 4"

text \<open>The dotted tail of an IPv6 literal counts as two groups.\<close>

definition ipv6_parts :: "string \<Rightarrow> string list option" where
  "ipv6_parts s =
     (let ps = split_on (CHR '':'') s
      in if length ps < 3 then None
         else if CHR ''.'' \<in> set (last ps)
         then (if ipv4_text (last ps) then Some (butlast ps @ [''0'', ''0'']) else None)
         else Some ps)"

definition ipv6_text :: "string \<Rightarrow> bool" where
  "ipv6_text s =
     (case ipv6_parts s of
        None \<Rightarrow> False
      | Some ps \<Rightarrow>
          (let n = length ps;
               skips = filter (\<lambda>i. ps ! i = []) [1..<n - 1]
           in n \<le> 9
              \<and> (case skips of
                   [] \<Rightarrow> n = 8 \<and> list_all hextet ps
                 | [k] \<Rightarrow>
                     (let hi = take k ps; lo = drop (k + 1) ps;
                          hi' = (if hd ps = [] then tl hi else hi);
                          lo' = (if last ps = [] then butlast lo else lo)
                      in (hd ps \<noteq> [] \<or> hi' = []) \<and> (last ps \<noteq> [] \<or> lo' = [])
                         \<and> length hi' + length lo' \<le> 7 \<and> list_all hextet hi' \<and> list_all hextet lo')
                 | _ \<Rightarrow> False)))"

definition ipvfuture_text :: "string \<Rightarrow> bool" where
  "ipvfuture_text s \<longleftrightarrow>
     (case s of
        c # r \<Rightarrow> c = CHR ''v''
          \<and> (case partition1 (CHR ''.'') r of (a, b, t) \<Rightarrow> b \<and> a \<noteq> [] \<and> list_all hex_digit_char a \<and> t \<noteq> [])
      | [] \<Rightarrow> False)"

definition bracketed_host_ok :: "string \<Rightarrow> bool" where
  "bracketed_host_ok h \<longleftrightarrow> (if starts_with h ''v'' then ipvfuture_text h else ipv6_text h)"

section \<open>\<open>urlsplit\<close>\<close>

record split_url =
  su_scheme :: string
  su_netloc :: string
  su_path :: string
  su_query :: string
  su_fragment :: string

definition scheme_char :: "char \<Rightarrow> bool" where
  "scheme_char c \<longleftrightarrow> is_lower_alpha c \<or> is_upper_alpha c \<or> is_digit c \<or> c \<in> {CHR ''+'', CHR ''-'', CHR ''.''}"

definition split_scheme :: "string \<Rightarrow> string \<times> string" where
  "split_scheme url =
     (case partition1 (CHR '':'') url of
        (s, found, r) \<Rightarrow>
          if found \<and> s \<noteq> [] \<and> (is_lower_alpha (hd s) \<or> is_upper_alpha (hd s)) \<and> list_all scheme_char s
          then (lower s, r) else ([], url))"

text \<open>The brackets of an authority: before them nothing, after them nothing or a port.\<close>

definition netloc_brackets_ok :: "string \<Rightarrow> bool" where
  "netloc_brackets_ok netloc =
     (let opened = CHR ''['' \<in> set netloc; closed = CHR '']'' \<in> set netloc
      in if opened \<noteq> closed then False
         else if \<not> opened then True
         else (case rpartition1 (CHR ''@'') netloc of
                 (_, _, hostport) \<Rightarrow>
                   (case partition1 (CHR ''['') hostport of
                      (before, have_open, bracketed) \<Rightarrow>
                        if have_open
                        then (case partition1 (CHR '']'') bracketed of
                                (host, _, port) \<Rightarrow> before = [] \<and> (port = [] \<or> hd port = CHR '':'')
                                  \<and> bracketed_host_ok host)
                        else bracketed_host_ok (fst (partition1 (CHR '':'') hostport)))))"

definition urlsplit :: "string \<Rightarrow> split_url option" where
  "urlsplit url =
     (let (scheme, r) = split_scheme url;
          delim = (\<lambda>c. c \<in> {CHR ''/'', CHR ''?'', CHR ''#''});
          (netloc, r1) = (if starts_with r ''//''
                          then (takeWhile (\<lambda>c. \<not> delim c) (drop 2 r), dropWhile (\<lambda>c. \<not> delim c) (drop 2 r))
                          else ([], r));
          (r2, _, fragment) = partition1 (CHR ''#'') r1;
          (path, _, query) = partition1 (CHR ''?'') r2
      in if netloc_brackets_ok netloc
         then Some \<lparr>su_scheme = scheme, su_netloc = netloc, su_path = path, su_query = query,
                    su_fragment = fragment\<rparr>
         else None)"

text \<open>\<open>username\<close>, \<open>hostname\<close> and \<open>port\<close>; a port that is no number of 0 to 65535 raises.\<close>

definition has_userinfo :: "split_url \<Rightarrow> bool" where
  "has_userinfo u \<longleftrightarrow> CHR ''@'' \<in> set (su_netloc u)"

definition host_port :: "split_url \<Rightarrow> string \<times> string" where
  "host_port u =
     (case rpartition1 (CHR ''@'') (su_netloc u) of
        (_, _, hostinfo) \<Rightarrow>
          (case partition1 (CHR ''['') hostinfo of
             (_, have_open, bracketed) \<Rightarrow>
               if have_open
               then (case partition1 (CHR '']'') bracketed of
                       (host, _, rest) \<Rightarrow> (host, snd (snd (partition1 (CHR '':'') rest))))
               else (case partition1 (CHR '':'') hostinfo of (host, _, port) \<Rightarrow> (host, port))))"

definition url_host :: "split_url \<Rightarrow> string option" where
  "url_host u = (case fst (host_port u) of [] \<Rightarrow> None | h \<Rightarrow> Some (lower h))"

definition url_port :: "split_url \<Rightarrow> nat option option" where
  "url_port u =
     (case snd (host_port u) of
        [] \<Rightarrow> Some None
      | p \<Rightarrow> if list_all is_digit p \<and> nat_of_digits p \<le> 65535 then Some (Some (nat_of_digits p)) else None)"

section \<open>\<open>fnmatchcase\<close>\<close>

text \<open>
  A pattern is translated, as in the standard library, to a sequence of any-run, any-one, literal
  and class tokens. A class keeps its ranges as pairs; a negated empty class accepts everything.
\<close>

datatype glob =
    GStar
  | GAny
  | GLit nat
  | GClass bool "(nat \<times> nat) list"
  | GNever

text \<open>The hyphen-separated chunks of a class body: a hyphen is looked for three places later each time.\<close>

function find_hyphen :: "nat list \<Rightarrow> nat \<Rightarrow> nat option" where
  "find_hyphen s k = (if k < length s then (if s ! k = 45 then Some k else find_hyphen s (k + 1)) else None)"
  by pat_completeness auto
termination
  by (relation "measure (\<lambda>(s, k). length s - k)") auto

declare find_hyphen.simps [simp del]

lemma find_hyphen_bound: "find_hyphen s k = Some j \<Longrightarrow> k \<le> j \<and> j < length s"
proof (induction s k rule: find_hyphen.induct)
  case (1 s k)
  then show ?case by (auto simp: find_hyphen.simps [of s k] split: if_splits)
qed

text \<open>\<open>i\<close> starts the current chunk, \<open>k\<close> is where the search for the next hyphen starts.\<close>

function class_chunks :: "nat list \<Rightarrow> nat \<Rightarrow> nat \<Rightarrow> nat list list" where
  "class_chunks s i k =
     (case find_hyphen s k of
        None \<Rightarrow> [drop i s]
      | Some j \<Rightarrow> take (j - i) (drop i s) # class_chunks s (j + 1) (j + 3))"
  by pat_completeness auto
termination
  by (relation "measure (\<lambda>(s, i, k). length s + 3 - k)") (auto dest!: find_hyphen_bound)

declare class_chunks.simps [simp del]

text \<open>An empty last chunk gives its hyphen back to the chunk before it.\<close>

definition close_chunks :: "nat list list \<Rightarrow> nat list list" where
  "close_chunks cs =
     (if last cs = [] \<and> length cs > 1
      then butlast (butlast cs) @ [last (butlast cs) @ [45]] else cs)"

text \<open>Empty ranges are dropped, from the last chunk to the first.\<close>

fun drop_empty_ranges :: "nat list list \<Rightarrow> nat list list" where
  "drop_empty_ranges [] = []"
| "drop_empty_ranges [c] = [c]"
| "drop_empty_ranges (c # d # ds) =
     (case drop_empty_ranges (d # ds) of
        e # es \<Rightarrow> if c \<noteq> [] \<and> e \<noteq> [] \<and> last c > hd e then (butlast c @ tl e) # es else c # e # es
      | [] \<Rightarrow> [c])"

text \<open>
  The class body as the regular expression parser reads it: characters, with \<open>None\<close> for the
  hyphens that join two chunks (those inside a chunk are escaped).
\<close>

fun class_tokens :: "nat list list \<Rightarrow> nat option list" where
  "class_tokens [] = []"
| "class_tokens [c] = map Some c"
| "class_tokens (c # d # ds) = map Some c @ [None] @ class_tokens (d # ds)"

fun token_code :: "nat option \<Rightarrow> nat" where
  "token_code None = 45"
| "token_code (Some c) = c"

fun class_ranges :: "nat option list \<Rightarrow> (nat \<times> nat) list" where
  "class_ranges [] = []"
| "class_ranges [t] = [(token_code t, token_code t)]"
| "class_ranges [t, u] = [(token_code t, token_code t), (token_code u, token_code u)]"
| "class_ranges (t # u # v # ts) =
     (if u = None then (token_code t, token_code v) # class_ranges ts
      else (token_code t, token_code t) # class_ranges (u # v # ts))"

definition class_body :: "nat list \<Rightarrow> nat option list" where
  "class_body stuff =
     (if 45 \<notin> set stuff then map Some stuff
      else class_tokens (drop_empty_ranges (close_chunks
             (class_chunks stuff 0 (if hd stuff = 33 then 2 else 1)))))"

definition glob_class :: "nat list \<Rightarrow> glob" where
  "glob_class stuff =
     (case class_body stuff of
        [] \<Rightarrow> GNever
      | t # ts \<Rightarrow> if t = Some 33 then (if ts = [] then GAny else GClass True (class_ranges ts))
                  else GClass False (class_ranges (t # ts)))"

text \<open>
  The closing bracket of a class after \<open>[\<close>: an exclamation mark and then a closing bracket
  directly behind the opening one belong to the body.
\<close>

definition class_end :: "nat list \<Rightarrow> nat option" where
  "class_end r =
     (let a = (if r \<noteq> [] \<and> hd r = 33 then 1 else 0);
          b = (if a < length r \<and> r ! a = 93 then a + 1 else a);
          j = b + length (takeWhile (\<lambda>c. c \<noteq> 93) (drop b r))
      in if j < length r then Some j else None)"

function glob_tokens :: "nat list \<Rightarrow> glob list" where
  "glob_tokens [] = []"
| "glob_tokens (c # r) =
     (if c = 42 then GStar # glob_tokens r
      else if c = 63 then GAny # glob_tokens r
      else if c = 91 then
        (case class_end r of
           None \<Rightarrow> GLit 91 # glob_tokens r
         | Some j \<Rightarrow> glob_class (take j r) # glob_tokens (drop (j + 1) r))
      else GLit c # glob_tokens r)"
  by pat_completeness auto
termination
  by (relation "measure length") auto

definition in_ranges :: "nat \<Rightarrow> (nat \<times> nat) list \<Rightarrow> bool" where
  "in_ranges c rs \<longleftrightarrow> list_ex (\<lambda>(lo, hi). lo \<le> c \<and> c \<le> hi) rs"

fun glob_one :: "glob \<Rightarrow> nat \<Rightarrow> bool" where
  "glob_one GStar c = False"
| "glob_one GAny c = True"
| "glob_one (GLit d) c = (c = d)"
| "glob_one (GClass neg rs) c = (in_ranges c rs \<noteq> neg)"
| "glob_one GNever c = False"

fun glob_match :: "glob list \<Rightarrow> nat list \<Rightarrow> bool" where
  "glob_match [] s = (s = [])"
| "glob_match (GStar # ps) [] = glob_match ps []"
| "glob_match (GStar # ps) (c # s) = (glob_match ps (c # s) \<or> glob_match (GStar # ps) s)"
| "glob_match (p # ps) [] = False"
| "glob_match (p # ps) (c # s) = (glob_one p c \<and> glob_match ps s)"

definition fnmatchcase :: "string \<Rightarrow> string \<Rightarrow> bool" where
  "fnmatchcase name pat = glob_match (glob_tokens (code_points pat)) (code_points name)"

text \<open>A pattern without metacharacters matches itself only.\<close>

definition plain_pattern :: "nat list \<Rightarrow> bool" where
  "plain_pattern p \<longleftrightarrow> list_all (\<lambda>c. c \<noteq> 42 \<and> c \<noteq> 63 \<and> c \<noteq> 91) p"

lemma glob_match_literal: "glob_match (map GLit p) s \<longleftrightarrow> s = p"
proof (induction p arbitrary: s)
  case (Cons c p)
  then show ?case by (cases s) auto
qed simp

lemma glob_tokens_plain: "plain_pattern p \<Longrightarrow> glob_tokens p = map GLit p"
  by (induction p) (auto simp: plain_pattern_def)

lemma fnmatch_plain: "plain_pattern (code_points p) \<Longrightarrow> fnmatchcase s p \<longleftrightarrow> code_points s = code_points p"
  by (simp add: fnmatchcase_def glob_tokens_plain glob_match_literal)

text \<open>A literal prefix and a star match exactly the texts with that prefix.\<close>

lemma glob_match_star: "glob_match [GStar] s"
  by (induction s) auto

lemma glob_match_prefix: "glob_match (map GLit p @ [GStar]) s \<longleftrightarrow> (\<exists>r. s = p @ r)"
proof (induction p arbitrary: s)
  case Nil
  then show ?case by (simp add: glob_match_star)
next
  case (Cons c p)
  then show ?case by (cases s) auto
qed

end
