(* ===== verification/Guard_Model.thy ===== *)
theory Guard_Model
  imports Envelope Uri Json_Default
begin

text \<open>
  The records of \<open>runtime_guard_foundation.py\<close> with the constraints their constructors check, the
  documents they are hashed as, and the digests that bind consent, authority and evidence to
  one exact action. A constructor is a function from the raw record to the record or the error
  that pydantic raises; the other components receive only records that passed it.
\<close>

section \<open>Vocabulary\<close>

datatype action_type =
    Observe | ReadAction | ModelQuery | ToolCall | FilesystemWrite | GitWrite | CodeExecute
  | NetworkRequest | ExternalSend | ProcessControl | SecretAccess | IamChange | Merge | Release
  | Deployment | Destructive

fun action_text :: "action_type \<Rightarrow> string" where
  "action_text Observe = ''observe''"
| "action_text ReadAction = ''read''"
| "action_text ModelQuery = ''model_query''"
| "action_text ToolCall = ''tool_call''"
| "action_text FilesystemWrite = ''filesystem_write''"
| "action_text GitWrite = ''git_write''"
| "action_text CodeExecute = ''code_execute''"
| "action_text NetworkRequest = ''network_request''"
| "action_text ExternalSend = ''external_send''"
| "action_text ProcessControl = ''process_control''"
| "action_text SecretAccess = ''secret_access''"
| "action_text IamChange = ''iam_change''"
| "action_text Merge = ''merge''"
| "action_text Release = ''release''"
| "action_text Deployment = ''deployment''"
| "action_text Destructive = ''destructive''"

datatype disposition = Allow | Redact | Block | AskUser | SandboxOnly | LogOnly

fun disposition_text :: "disposition \<Rightarrow> string" where
  "disposition_text Allow = ''allow''"
| "disposition_text Redact = ''redact''"
| "disposition_text Block = ''block''"
| "disposition_text AskUser = ''ask_user''"
| "disposition_text SandboxOnly = ''sandbox_only''"
| "disposition_text LogOnly = ''log_only''"

datatype verification = Verified | Unverified

fun verification_text :: "verification \<Rightarrow> string" where
  "verification_text Verified = ''verified''"
| "verification_text Unverified = ''unverified''"

datatype research_status = EligibleForBoundedReview | ResearchHold
datatype logging_mode = LoggingDisabled | LoggingContractLimited | LoggingVendorDefault | LoggingUnknown
datatype retention_class = NoStorage | Transient | ContractReviewed | RetentionUnknown
datatype training_use = TrainingDisabled | NoTrainingWithoutConsent | TrainingAllowed | TrainingUnknown
datatype output_use = InternalResearchOnly | CommercialUseReviewed | OutputBlocked | OutputUnknown
datatype publication_status = AggregatesAllowed | ProviderClearanceRequired | PublicationBlocked | PublicationUnknown
datatype license_status = LicenseReviewed | LicenseBlocked | LicenseUncertain
datatype rights_status = SyntheticOwned | RightsLicenseReviewed | RightsBlocked | RightsUncertain
datatype benchmark_status = BenchmarkAllowed | BenchmarkBlocked | BenchmarkUncertain
datatype handoff_verdict = HandoffPass | HandoffBlocked | HandoffNeedsReview | HandoffQuarantine

fun research_text :: "research_status \<Rightarrow> string" where
  "research_text EligibleForBoundedReview = ''eligible_for_bounded_review''"
| "research_text ResearchHold = ''hold''"

fun logging_text :: "logging_mode \<Rightarrow> string" where
  "logging_text LoggingDisabled = ''disabled''"
| "logging_text LoggingContractLimited = ''contract_limited''"
| "logging_text LoggingVendorDefault = ''vendor_default''"
| "logging_text LoggingUnknown = ''unknown''"

fun retention_text :: "retention_class \<Rightarrow> string" where
  "retention_text NoStorage = ''no_storage''"
| "retention_text Transient = ''transient''"
| "retention_text ContractReviewed = ''contract_reviewed''"
| "retention_text RetentionUnknown = ''unknown''"

fun training_text :: "training_use \<Rightarrow> string" where
  "training_text TrainingDisabled = ''disabled''"
| "training_text NoTrainingWithoutConsent = ''no_training_without_consent''"
| "training_text TrainingAllowed = ''allowed''"
| "training_text TrainingUnknown = ''unknown''"

fun output_text :: "output_use \<Rightarrow> string" where
  "output_text InternalResearchOnly = ''internal_research_only''"
| "output_text CommercialUseReviewed = ''commercial_use_reviewed''"
| "output_text OutputBlocked = ''blocked''"
| "output_text OutputUnknown = ''unknown''"

fun publication_text :: "publication_status \<Rightarrow> string" where
  "publication_text AggregatesAllowed = ''aggregates_allowed''"
| "publication_text ProviderClearanceRequired = ''provider_clearance_required''"
| "publication_text PublicationBlocked = ''blocked''"
| "publication_text PublicationUnknown = ''unknown''"

fun license_text :: "license_status \<Rightarrow> string" where
  "license_text LicenseReviewed = ''reviewed''"
| "license_text LicenseBlocked = ''blocked''"
| "license_text LicenseUncertain = ''uncertain''"

fun rights_text :: "rights_status \<Rightarrow> string" where
  "rights_text SyntheticOwned = ''synthetic_owned''"
| "rights_text RightsLicenseReviewed = ''license_reviewed''"
| "rights_text RightsBlocked = ''blocked''"
| "rights_text RightsUncertain = ''uncertain''"

fun benchmark_text :: "benchmark_status \<Rightarrow> string" where
  "benchmark_text BenchmarkAllowed = ''allowed''"
| "benchmark_text BenchmarkBlocked = ''blocked''"
| "benchmark_text BenchmarkUncertain = ''uncertain''"

fun verdict_text :: "handoff_verdict \<Rightarrow> string" where
  "verdict_text HandoffPass = ''pass''"
| "verdict_text HandoffBlocked = ''blocked''"
| "verdict_text HandoffNeedsReview = ''needs_review''"
| "verdict_text HandoffQuarantine = ''quarantine''"

definition guard_data_classes :: "string list" where
  "guard_data_classes = [''public'', ''synthetic'', ''sanitized'', ''restricted'', ''private'', ''secret'']"

definition global_request_cap :: int where "global_request_cap = 200"
definition global_cost_cap :: int where "global_cost_cap = 150000"

definition owner_gate_actions :: "action_type list" where
  "owner_gate_actions = [SecretAccess, IamChange, Merge, Release, Deployment, Destructive]"

definition consent_actions :: "action_type list" where
  "consent_actions =
     [FilesystemWrite, GitWrite, ModelQuery, NetworkRequest, ExternalSend, ProcessControl] @ owner_gate_actions"

definition egress_actions :: "action_type list" where
  "egress_actions = [ModelQuery, NetworkRequest, ExternalSend]"

definition external_allowed_data :: "string list" where
  "external_allowed_data = [''public'', ''synthetic'', ''sanitized'']"

definition external_target_schemes :: "string list" where
  "external_target_schemes =
     [''dns'', ''ftp'', ''ftps'', ''grpc'', ''grpcs'', ''git'', ''http'', ''https'', ''mailto'', ''provider'',
      ''sftp'', ''ssh'', ''tcp'', ''tls'', ''udp'', ''ws'', ''wss'']"

definition local_target_schemes :: "string list" where
  "local_target_schemes = [''file'', ''fixture'', ''local'', ''local-git'', ''memory'', ''process'']"

section \<open>Field constraints\<close>

datatype guard_error = ValidationError string

text \<open>Text that pydantic accepts as a \<open>str\<close>, and with \<open>min_length=1\<close>.\<close>

definition text_field :: "string \<Rightarrow> bool" where
  "text_field s \<longleftrightarrow> s \<noteq> [] \<and> utf8_valid s"

definition texts_field :: "string list \<Rightarrow> bool" where
  "texts_field ss \<longleftrightarrow> ss \<noteq> [] \<and> list_all utf8_valid ss"

definition require_aware :: "datetime list \<Rightarrow> bool" where
  "require_aware ts \<longleftrightarrow> list_all dt_aware ts"

definition aware_message :: guard_error where
  "aware_message = ValidationError ''timestamps must include a timezone''"

definition is_sha256 :: "string \<Rightarrow> bool" where
  "is_sha256 s \<longleftrightarrow> py_len s = 64 \<and> list_all is_lower_hex s"

definition require_unique :: "string list \<Rightarrow> bool" where
  "require_unique vs \<longleftrightarrow> distinct vs"

section \<open>Records\<close>

record runtime_envelope = data_envelope +
  re_receipt :: string
  re_content :: string
  re_policy :: string
  re_root :: string
  re_checked_at :: datetime
  re_expires_at :: datetime
  re_verification :: verification

definition mk_runtime_envelope :: "runtime_envelope \<Rightarrow> guard_error + runtime_envelope" where
  "mk_runtime_envelope e = raise_first
     [(\<not> (list_all utf8_valid (de_recipients e) \<and> list_all utf8_valid (de_purpose e) \<and> utf8_valid (de_source e)
          \<and> de_class e \<in> set guard_data_classes \<and> sha256_text (re_receipt e) \<and> sha256_text (re_content e)
          \<and> sha256_text (re_policy e) \<and> text_field (re_root e)), ValidationError ''field constraints''),
      (\<not> require_aware [re_checked_at e, re_expires_at e], aware_message),
      (dt_le (re_expires_at e) (re_checked_at e), ValidationError ''classification expiry must follow verification'')] e"

record capability_grant =
  cg_id :: string
  cg_issuer :: string
  cg_subject :: string
  cg_scopes :: "string list"
  cg_targets :: "string list"
  cg_purpose :: string
  cg_issued_at :: datetime
  cg_expires_at :: datetime
  cg_can_delegate :: bool
  cg_depth :: int
  cg_max_depth :: int
  cg_policy :: string
  cg_receipt :: string
  cg_action_digest :: string
  cg_root :: string
  cg_nonce :: string
  cg_max_uses :: int
  cg_uses :: int
  cg_revoked :: bool
  cg_verification :: verification

definition mk_capability_grant :: "capability_grant \<Rightarrow> guard_error + capability_grant" where
  "mk_capability_grant g = raise_first
     [(\<not> (text_field (cg_id g) \<and> text_field (cg_issuer g) \<and> text_field (cg_subject g) \<and> texts_field (cg_scopes g)
          \<and> texts_field (cg_targets g) \<and> text_field (cg_purpose g) \<and> 0 \<le> cg_depth g \<and> 0 \<le> cg_max_depth g
          \<and> sha256_text (cg_policy g) \<and> sha256_text (cg_receipt g) \<and> sha256_text (cg_action_digest g)
          \<and> text_field (cg_root g) \<and> sha256_text (cg_nonce g) \<and> 1 \<le> cg_max_uses g \<and> 0 \<le> cg_uses g),
       ValidationError ''field constraints''),
      (\<not> require_aware [cg_issued_at g, cg_expires_at g], aware_message),
      (dt_le (cg_expires_at g) (cg_issued_at g), ValidationError ''capability expiry must follow issuance''),
      (cg_depth g > cg_max_depth g, ValidationError ''capability delegation depth exceeds maximum''),
      (cg_uses g \<ge> cg_max_uses g, ValidationError ''capability has no remaining uses'')] g"

record consent_receipt =
  cr_id :: string
  cr_action_id :: string
  cr_actor_id :: string
  cr_action_digest :: string
  cr_policy :: string
  cr_receipt :: string
  cr_root :: string
  cr_nonce :: string
  cr_issued_at :: datetime
  cr_expires_at :: datetime
  cr_approved :: bool
  cr_verification :: verification

definition mk_consent_receipt :: "consent_receipt \<Rightarrow> guard_error + consent_receipt" where
  "mk_consent_receipt r = raise_first
     [(\<not> (text_field (cr_id r) \<and> text_field (cr_action_id r) \<and> text_field (cr_actor_id r)
          \<and> sha256_text (cr_action_digest r) \<and> sha256_text (cr_policy r) \<and> sha256_text (cr_receipt r)
          \<and> text_field (cr_root r) \<and> sha256_text (cr_nonce r)), ValidationError ''field constraints''),
      (\<not> require_aware [cr_issued_at r, cr_expires_at r], aware_message),
      (dt_le (cr_expires_at r) (cr_issued_at r), ValidationError ''consent expiry must follow issuance'')] r"

record provider_policy =
  pp_provider :: string
  pp_route :: string
  pp_destination :: string
  pp_model :: string
  pp_target :: string
  pp_terms_url :: string
  pp_terms :: string
  pp_acceptable_url :: string
  pp_acceptable :: string
  pp_privacy_url :: string
  pp_privacy :: string
  pp_reviewed_at :: datetime
  pp_review_expires_at :: datetime
  pp_license_id :: string
  pp_license_url :: string
  pp_license :: string
  pp_license_status :: license_status
  pp_rights :: rights_status
  pp_purposes :: "string list"
  pp_data_classes :: "string list"
  pp_request_cap :: int
  pp_cost_cap :: int
  pp_retention :: retention_class
  pp_logging :: logging_mode
  pp_training :: training_use
  pp_output :: output_use
  pp_publication :: publication_status
  pp_automated :: bool
  pp_benchmark :: benchmark_status
  pp_research :: research_status
  pp_region :: string
  pp_policy :: string
  pp_root :: string
  pp_verification :: verification

definition mk_provider_policy :: "provider_policy \<Rightarrow> guard_error + provider_policy" where
  "mk_provider_policy p = raise_first
     [(\<not> (text_field (pp_provider p) \<and> sha256_text (pp_route p) \<and> sha256_text (pp_destination p)
          \<and> sha256_text (pp_model p) \<and> sha256_text (pp_target p) \<and> text_field (pp_terms_url p)
          \<and> sha256_text (pp_terms p) \<and> text_field (pp_acceptable_url p) \<and> sha256_text (pp_acceptable p)
          \<and> text_field (pp_privacy_url p) \<and> sha256_text (pp_privacy p) \<and> text_field (pp_license_id p)
          \<and> text_field (pp_license_url p) \<and> sha256_text (pp_license p) \<and> texts_field (pp_purposes p)
          \<and> set (pp_data_classes p) \<subseteq> set guard_data_classes \<and> 0 \<le> pp_request_cap p \<and> 0 \<le> pp_cost_cap p
          \<and> text_field (pp_region p) \<and> sha256_text (pp_policy p) \<and> text_field (pp_root p)),
       ValidationError ''field constraints''),
      (\<not> require_aware [pp_reviewed_at p, pp_review_expires_at p], aware_message),
      (dt_le (pp_review_expires_at p) (pp_reviewed_at p),
       ValidationError ''provider terms review expiry must follow review''),
      (pp_request_cap p > global_request_cap, ValidationError ''provider request cap exceeds cycle cap''),
      (pp_cost_cap p > global_cost_cap, ValidationError ''provider cost cap exceeds cycle cap'')] p"

record provider_usage =
  pu_provider :: string
  pu_requests :: int
  pu_cost :: int

definition mk_provider_usage :: "provider_usage \<Rightarrow> guard_error + provider_usage" where
  "mk_provider_usage u = raise_first
     [(\<not> (text_field (pu_provider u) \<and> 0 \<le> pu_requests u \<and> 0 \<le> pu_cost u), ValidationError ''field constraints'')] u"

record budget_reservation =
  br_id :: string
  br_action_digest :: string
  br_provider :: string
  br_requests :: int
  br_max_cost :: int
  br_issued_at :: datetime
  br_expires_at :: datetime
  br_receipt :: string
  br_quote :: string
  br_quote_issued_at :: datetime
  br_quote_expires_at :: datetime
  br_fx :: string
  br_margin_bps :: int
  br_root :: string
  br_verification :: verification

definition mk_budget_reservation :: "budget_reservation \<Rightarrow> guard_error + budget_reservation" where
  "mk_budget_reservation b = raise_first
     [(\<not> (text_field (br_id b) \<and> sha256_text (br_action_digest b) \<and> text_field (br_provider b) \<and> 1 \<le> br_requests b
          \<and> 0 \<le> br_max_cost b \<and> sha256_text (br_receipt b) \<and> sha256_text (br_quote b) \<and> sha256_text (br_fx b)
          \<and> 1 \<le> br_margin_bps b \<and> br_margin_bps b \<le> 10000 \<and> text_field (br_root b)),
       ValidationError ''field constraints''),
      (\<not> require_aware [br_issued_at b, br_expires_at b, br_quote_issued_at b, br_quote_expires_at b], aware_message),
      (dt_le (br_expires_at b) (br_issued_at b), ValidationError ''budget reservation expiry must follow issuance''),
      (dt_le (br_quote_expires_at b) (br_quote_issued_at b),
       ValidationError ''pricing quote expiry must follow issuance'')] b"

record handoff_binding =
  hb_envelope :: string
  hb_verification_sha :: string
  hb_payload :: string
  hb_receiver :: string
  hb_verdict :: handoff_verdict
  hb_checked_at :: datetime
  hb_expires_at :: datetime
  hb_policy :: string
  hb_root :: string
  hb_verification :: verification

definition mk_handoff_binding :: "handoff_binding \<Rightarrow> guard_error + handoff_binding" where
  "mk_handoff_binding h = raise_first
     [(\<not> (sha256_text (hb_envelope h) \<and> sha256_text (hb_verification_sha h) \<and> sha256_text (hb_payload h)
          \<and> sha256_text (hb_receiver h) \<and> sha256_text (hb_policy h) \<and> text_field (hb_root h)),
       ValidationError ''field constraints''),
      (\<not> require_aware [hb_checked_at h, hb_expires_at h], aware_message),
      (dt_le (hb_expires_at h) (hb_checked_at h), ValidationError ''handoff expiry must follow verification'')] h"

record tool_binding =
  tb_tool :: string
  tb_schema :: string
  tb_registry :: string
  tb_effect :: action_type
  tb_policy :: string
  tb_root :: string
  tb_verification :: verification

definition mk_tool_binding :: "tool_binding \<Rightarrow> guard_error + tool_binding" where
  "mk_tool_binding t = raise_first
     [(\<not> (sha256_text (tb_tool t) \<and> sha256_text (tb_schema t) \<and> sha256_text (tb_registry t)
          \<and> sha256_text (tb_policy t) \<and> text_field (tb_root t)), ValidationError ''field constraints'')] t"

section \<open>Actions\<close>

record action_envelope =
  ae_id :: string
  ae_actor :: string
  ae_session :: string
  ae_sponsor :: string
  ae_chain :: string
  ae_type :: action_type
  ae_effect :: "action_type option"
  ae_target :: string
  ae_purpose :: string
  ae_scopes :: "string list"
  ae_data :: runtime_envelope
  ae_content :: string
  ae_policy :: string
  ae_created_at :: datetime
  ae_expires_at :: datetime
  ae_provider :: "string option"
  ae_destination :: "string option"
  ae_route :: "string option"
  ae_model :: "string option"
  ae_region :: "string option"
  ae_requests :: int
  ae_max_cost :: int
  ae_handoff :: "handoff_binding option"
  ae_tool :: "tool_binding option"
  ae_depth :: int

definition effective_action :: "action_envelope \<Rightarrow> action_type" where
  "effective_action a = (case ae_effect a of Some e \<Rightarrow> e | None \<Rightarrow> ae_type a)"

text \<open>
  The tests on the target text alone. \<open>unquote\<close> is the identity on the paths that get past the
  test on percent signs, and \<open>urlsplit\<close> is modelled on the printable ASCII texts that get past the tests
  before it, so each raising case is one error here.
\<close>

definition target_strip_changes :: "string \<Rightarrow> bool" where
  "target_strip_changes t \<longleftrightarrow> t \<noteq> strip t"

definition canonical_target :: "string \<Rightarrow> split_url option" where
  "canonical_target t =
     (if \<not> is_ascii t \<or> list_ex (\<lambda>c. ord c < 32) t \<or> CHR ''%'' \<in> set t then None
      else
        (case urlsplit t of
           None \<Rightarrow> None
         | Some u \<Rightarrow>
             (case partition3 ''://'' t of
                (raw_scheme, found, remainder) \<Rightarrow>
                  let raw_authority = takeWhile (\<lambda>c. c \<noteq> CHR ''/'') remainder
                  in if su_scheme u = [] \<or> \<not> found \<or> raw_scheme \<noteq> lower raw_scheme
                        \<or> raw_authority \<noteq> lower raw_authority \<or> su_fragment u \<noteq> [] \<or> su_query u \<noteq> []
                        \<or> has_userinfo u \<or> url_port u \<noteq> Some None
                        \<or> (case url_host u of Some h \<Rightarrow> ends_with_char h (CHR ''.'') | None \<Rightarrow> False)
                        \<or> contains_sub (su_path u) ''//''
                        \<or> list_ex (\<lambda>p. p = ''.'' \<or> p = ''..'') (split_on (CHR ''/'') (su_path u))
                     then None else Some u)))"

definition provider_complete :: "action_envelope \<Rightarrow> bool" where
  "provider_complete a \<longleftrightarrow> ae_provider a \<noteq> None \<and> ae_destination a \<noteq> None \<and> ae_route a \<noteq> None
     \<and> ae_model a \<noteq> None \<and> ae_region a \<noteq> None"

definition action_fields_ok :: "action_envelope \<Rightarrow> bool" where
  "action_fields_ok a \<longleftrightarrow>
     text_field (ae_id a) \<and> text_field (ae_actor a) \<and> sha256_text (ae_session a) \<and> sha256_text (ae_sponsor a)
     \<and> sha256_text (ae_chain a) \<and> text_field (ae_target a) \<and> text_field (ae_purpose a) \<and> texts_field (ae_scopes a)
     \<and> sha256_text (ae_content a) \<and> sha256_text (ae_policy a)
     \<and> pred_option utf8_valid (ae_provider a) \<and> pred_option sha256_text (ae_destination a)
     \<and> pred_option sha256_text (ae_route a) \<and> pred_option sha256_text (ae_model a)
     \<and> pred_option text_field (ae_region a) \<and> 0 \<le> ae_requests a \<and> 0 \<le> ae_max_cost a \<and> 0 \<le> ae_depth a"

text \<open>The tests after the target has been split, in the order of the validator.\<close>

definition action_shape_errors :: "action_envelope \<Rightarrow> split_url \<Rightarrow> (bool \<times> guard_error) list" where
  "action_shape_errors a u =
     (let eff = effective_action a; egress = eff \<in> set egress_actions;
          external = su_scheme u \<in> set external_target_schemes
      in [(ae_type a = ModelQuery \<and> ae_provider a = None, ValidationError ''model query requires provider_id''),
          (ae_type a \<in> set egress_actions \<and> \<not> provider_complete a,
           ValidationError ''external action requires provider, route, destination, model, region''),
          (ae_type a = ToolCall \<and> (ae_tool a = None \<or> ae_effect a = None),
           ValidationError ''tool call requires pinned tool and effect bindings''),
          (ae_type a \<noteq> ToolCall \<and> ae_effect a \<noteq> None,
           ValidationError ''effect_type is valid only for a pinned tool call''),
          (\<not> external \<and> su_scheme u \<notin> set local_target_schemes,
           ValidationError ''target scheme is not in the closed policy vocabulary''),
          (external \<and> \<not> egress, ValidationError ''external target requires an authenticated egress effect''),
          (egress \<and> \<not> external, ValidationError ''egress effect requires an external target scheme''),
          (external \<and> su_netloc u = [], ValidationError ''external target requires a non-empty authority''),
          (su_scheme u = ''file'' \<and> su_netloc u \<noteq> [], ValidationError ''file target cannot name a remote authority''),
          (su_scheme u = ''local-git'' \<and> su_netloc u \<noteq> ''repository'',
           ValidationError ''local-git target requires the abstract repository authority''),
          (egress \<and> \<not> provider_complete a, ValidationError ''egress effect requires exact provider route and model''),
          (ae_provider a \<noteq> None \<and> \<not> egress, ValidationError ''provider metadata is valid only for an egress effect''),
          (ae_provider a = None \<and> (ae_destination a \<noteq> None \<or> ae_route a \<noteq> None \<or> ae_model a \<noteq> None
             \<or> ae_region a \<noteq> None), ValidationError ''provider route metadata requires provider_id''),
          (ae_depth a > 0 \<and> ae_handoff a = None, ValidationError ''delegated action requires a handoff binding''),
          (ae_provider a = None \<and> (ae_requests a \<noteq> 0 \<or> ae_max_cost a \<noteq> 0),
           ValidationError ''cloud estimates require provider_id''),
          (ae_provider a \<noteq> None \<and> ae_requests a < 1,
           ValidationError ''external provider action requires at least one request'')])"

definition mk_action :: "action_envelope \<Rightarrow> guard_error + action_envelope" where
  "mk_action a =
     res_bind (raise_first
       [(\<not> action_fields_ok a, ValidationError ''field constraints''),
        (\<not> require_aware [ae_created_at a, ae_expires_at a], aware_message),
        (dt_le (ae_expires_at a) (ae_created_at a), ValidationError ''action expiry must follow creation''),
        (target_strip_changes (ae_target a) \<or> CHR 0x5C \<in> set (ae_target a),
         ValidationError ''target must be normalized'')] ()) (\<lambda>_.
     (case canonical_target (ae_target a) of
        None \<Rightarrow> Inl (ValidationError ''target must be an absolute canonical resource URI'')
      | Some u \<Rightarrow> raise_first (action_shape_errors a u) a))"

section \<open>Context\<close>

record guard_context =
  gc_evaluated_at :: datetime
  gc_policy_version :: string
  gc_policy :: string
  gc_capabilities :: "capability_grant list"
  gc_consents :: "consent_receipt list"
  gc_policies :: "provider_policy list"
  gc_usages :: "provider_usage list"
  gc_reservations :: "budget_reservation list"
  gc_requests_used :: int
  gc_cost_used :: int
  gc_previous_hash :: string
  gc_seen_digests :: "string list"
  gc_seen_ids :: "string list"
  gc_authority_roots :: "string list"
  gc_consent_roots :: "string list"
  gc_handoff_roots :: "string list"
  gc_budget_roots :: "string list"
  gc_classifier_roots :: "string list"
  gc_tool_roots :: "string list"
  gc_provider_roots :: "string list"
  gc_classifications :: "string list"
  gc_handoffs :: "string list"
  gc_tools :: "string list"
  gc_verifier :: bool

definition mk_guard_context :: "guard_context \<Rightarrow> guard_error + guard_context" where
  "mk_guard_context c = raise_first
     [(\<not> (text_field (gc_policy_version c) \<and> sha256_text (gc_policy c) \<and> 0 \<le> gc_requests_used c \<and> 0 \<le> gc_cost_used c
          \<and> sha256_text (gc_previous_hash c) \<and> list_all utf8_valid (gc_seen_digests c) \<and> list_all utf8_valid (gc_seen_ids c)
          \<and> texts_field (gc_authority_roots c) \<and> texts_field (gc_consent_roots c) \<and> texts_field (gc_handoff_roots c)
          \<and> texts_field (gc_budget_roots c) \<and> texts_field (gc_classifier_roots c) \<and> texts_field (gc_tool_roots c)
          \<and> texts_field (gc_provider_roots c) \<and> texts_field (gc_classifications c)
          \<and> list_all utf8_valid (gc_handoffs c) \<and> list_all utf8_valid (gc_tools c)), ValidationError ''field constraints''),
      (\<not> require_aware [gc_evaluated_at c], aware_message),
      (\<not> list_all is_sha256 (gc_seen_digests c), ValidationError ''seen action digests must be lowercase SHA-256''),
      (\<not> list_all is_sha256 (gc_seen_ids c), ValidationError ''seen action id hashes must be lowercase SHA-256''),
      (\<not> require_unique (map pp_provider (gc_policies c)), ValidationError ''provider policy ids must be unique''),
      (\<not> require_unique (map pu_provider (gc_usages c)), ValidationError ''provider usage ids must be unique''),
      (\<not> require_unique (map cg_id (gc_capabilities c)), ValidationError ''grant ids must be unique''),
      (\<not> require_unique (map cg_nonce (gc_capabilities c)), ValidationError ''grant nonces must be unique''),
      (\<not> require_unique (map cr_id (gc_consents c)), ValidationError ''consent ids must be unique''),
      (\<not> require_unique (map cr_nonce (gc_consents c)), ValidationError ''consent nonces must be unique''),
      (\<not> require_unique (map br_id (gc_reservations c)), ValidationError ''reservation ids must be unique''),
      (\<not> require_unique (gc_seen_digests c), ValidationError ''seen action digests must be unique''),
      (\<not> require_unique (gc_seen_ids c), ValidationError ''seen action id hashes must be unique''),
      (\<not> require_unique (gc_classifications c), ValidationError ''authenticated classification receipts must be unique''),
      (\<not> require_unique (gc_handoffs c), ValidationError ''authenticated handoff verifications must be unique''),
      (\<not> require_unique (gc_tools c), ValidationError ''authenticated tool registries must be unique'')] c"

record evidence_receipt =
  ev_action_id_hash :: string
  ev_action_digest :: string
  ev_content :: string
  ev_context_digest :: string
  ev_policy :: string
  ev_policy_version :: string
  ev_disposition :: disposition
  ev_reasons :: "string list"
  ev_evaluated_at :: datetime
  ev_previous_hash :: string
  ev_decision_hash :: string

record guard_decision =
  gd_disposition :: disposition
  gd_reasons :: "string list"
  gd_owner_gate :: bool
  gd_evidence :: evidence_receipt

end
