(* ===== verification/Guard_Eval.thy ===== *)
theory Guard_Eval
  imports Guard_Model
begin

text \<open>
  The evaluator of \<open>runtime_guard_foundation.py\<close>: the documents it hashes, the capability, consent
  and provider checks, and \<open>evaluate_action\<close> with the evidence receipt it issues.
\<close>

section \<open>Documents and digests\<close>

definition guard_json :: "codec \<Rightarrow> json \<Rightarrow> string" where
  "guard_json C v = dumps (float_repr C) True v"

definition sha256_json :: "codec \<Rightarrow> json \<Rightarrow> string" where
  "sha256_json C v = sha256_hex C (guard_json C v)"

definition guard_sha256_text :: "codec \<Rightarrow> string \<Rightarrow> string" where
  "guard_sha256_text C s = sha256_hex C s"

definition texts_json :: "string list \<Rightarrow> json" where
  "texts_json ss = JArr (map JStr ss)"

definition opt_json :: "('a \<Rightarrow> json) \<Rightarrow> 'a option \<Rightarrow> json" where
  "opt_json f x = (case x of None \<Rightarrow> JNull | Some a \<Rightarrow> f a)"

definition runtime_envelope_doc :: "codec \<Rightarrow> runtime_envelope \<Rightarrow> json" where
  "runtime_envelope_doc C e = JObj
     [(''data_class'', JStr (de_class e)),
      (''allowed_recipients'', texts_json (de_recipients e)),
      (''allowed_purpose'', texts_json (de_purpose e)),
      (''can_store'', JBool (de_store e)),
      (''can_forward'', JBool (de_forward e)),
      (''ttl_seconds'', opt_json JInt (de_ttl e)),
      (''requires_confirmation'', JBool (de_confirm e)),
      (''classification_source'', JStr (de_source e)),
      (''classification_mutable'', JBool (de_mutable e)),
      (''classification_receipt_sha256'', JStr (re_receipt e)),
      (''classified_content_sha256'', JStr (re_content e)),
      (''classifier_policy_sha256'', JStr (re_policy e)),
      (''classifier_trust_root_id'', JStr (re_root e)),
      (''classification_checked_at'', JStr (dt_json C (re_checked_at e))),
      (''classification_expires_at'', JStr (dt_json C (re_expires_at e))),
      (''classification_verification'', JStr (verification_text (re_verification e)))]"

definition classification_doc :: "codec \<Rightarrow> runtime_envelope \<Rightarrow> json" where
  "classification_doc C e = JObj
     [(''receipt'', JStr (re_receipt e)),
      (''content'', JStr (re_content e)),
      (''data_class'', JStr (de_class e)),
      (''classification_source'', JStr (de_source e)),
      (''classification_mutable'', JBool (de_mutable e)),
      (''policy'', JStr (re_policy e)),
      (''root'', JStr (re_root e)),
      (''checked_at'', JStr (iso_utc C (re_checked_at e))),
      (''expires_at'', JStr (iso_utc C (re_expires_at e))),
      (''verification'', JStr (verification_text (re_verification e)))]"

definition classification_binding :: "codec \<Rightarrow> runtime_envelope \<Rightarrow> string" where
  "classification_binding C e = sha256_json C (classification_doc C e)"

definition handoff_doc :: "codec \<Rightarrow> handoff_binding \<Rightarrow> json" where
  "handoff_doc C h = JObj
     [(''envelope_sha256'', JStr (hb_envelope h)),
      (''verification_sha256'', JStr (hb_verification_sha h)),
      (''payload_sha256'', JStr (hb_payload h)),
      (''receiver_id_hash'', JStr (hb_receiver h)),
      (''verdict'', JStr (verdict_text (hb_verdict h))),
      (''checked_at'', JStr (dt_json C (hb_checked_at h))),
      (''expires_at'', JStr (dt_json C (hb_expires_at h))),
      (''verifier_policy_sha256'', JStr (hb_policy h)),
      (''issuer_trust_root_id'', JStr (hb_root h)),
      (''verification'', JStr (verification_text (hb_verification h)))]"

definition handoff_binding_digest :: "codec \<Rightarrow> handoff_binding \<Rightarrow> string" where
  "handoff_binding_digest C h = sha256_json C (handoff_doc C h)"

definition tool_doc :: "tool_binding \<Rightarrow> json" where
  "tool_doc t = JObj
     [(''tool_id_hash'', JStr (tb_tool t)),
      (''schema_sha256'', JStr (tb_schema t)),
      (''registry_sha256'', JStr (tb_registry t)),
      (''declared_effect'', JStr (action_text (tb_effect t))),
      (''policy_sha256'', JStr (tb_policy t)),
      (''issuer_trust_root_id'', JStr (tb_root t)),
      (''verification'', JStr (verification_text (tb_verification t)))]"

definition tool_binding_digest :: "codec \<Rightarrow> tool_binding \<Rightarrow> string" where
  "tool_binding_digest C t = sha256_json C (tool_doc t)"

definition action_doc :: "codec \<Rightarrow> action_envelope \<Rightarrow> json" where
  "action_doc C a = JObj
     [(''action_id'', JStr (ae_id a)),
      (''actor_id'', JStr (ae_actor a)),
      (''action_type'', JStr (action_text (ae_type a))),
      (''effect_type'', opt_json (\<lambda>t. JStr (action_text t)) (ae_effect a)),
      (''target'', JStr (ae_target a)),
      (''purpose'', JStr (ae_purpose a)),
      (''requested_scopes'', texts_json (sort (ae_scopes a))),
      (''data_envelope'', runtime_envelope_doc C (ae_data a)),
      (''content_sha256'', JStr (ae_content a)),
      (''provider_id'', opt_json JStr (ae_provider a)),
      (''destination_id_hash'', opt_json JStr (ae_destination a)),
      (''invocation_route_id_hash'', opt_json JStr (ae_route a)),
      (''model_id_hash'', opt_json JStr (ae_model a)),
      (''provider_region'', opt_json JStr (ae_region a)),
      (''session_id_hash'', JStr (ae_session a)),
      (''sponsor_id_hash'', JStr (ae_sponsor a)),
      (''call_chain_digest'', JStr (ae_chain a)),
      (''call_chain_depth'', JInt (ae_depth a)),
      (''created_at'', JStr (iso_utc C (ae_created_at a))),
      (''expires_at'', JStr (iso_utc C (ae_expires_at a))),
      (''reserved_cloud_requests'', JInt (ae_requests a)),
      (''max_cost_kopecks'', JInt (ae_max_cost a)),
      (''handoff'', opt_json (handoff_doc C) (ae_handoff a)),
      (''tool'', opt_json tool_doc (ae_tool a)),
      (''policy_sha256'', JStr (ae_policy a))]"

definition action_digest :: "codec \<Rightarrow> action_envelope \<Rightarrow> string" where
  "action_digest C a = sha256_json C (action_doc C a)"

definition capability_doc :: "codec \<Rightarrow> capability_grant \<Rightarrow> json" where
  "capability_doc C g = JObj
     [(''grant_id'', JStr (cg_id g)), (''issuer'', JStr (cg_issuer g)), (''subject'', JStr (cg_subject g)),
      (''scopes'', texts_json (cg_scopes g)), (''target_patterns'', texts_json (cg_targets g)),
      (''purpose'', JStr (cg_purpose g)), (''issued_at'', JStr (dt_json C (cg_issued_at g))),
      (''expires_at'', JStr (dt_json C (cg_expires_at g))), (''can_delegate'', JBool (cg_can_delegate g)),
      (''delegation_depth'', JInt (cg_depth g)), (''max_delegation_depth'', JInt (cg_max_depth g)),
      (''policy_sha256'', JStr (cg_policy g)), (''authority_receipt_sha256'', JStr (cg_receipt g)),
      (''authorized_action_digest'', JStr (cg_action_digest g)), (''issuer_trust_root_id'', JStr (cg_root g)),
      (''nonce_sha256'', JStr (cg_nonce g)), (''max_uses'', JInt (cg_max_uses g)), (''uses'', JInt (cg_uses g)),
      (''revoked'', JBool (cg_revoked g)), (''verification'', JStr (verification_text (cg_verification g)))]"

definition consent_doc :: "codec \<Rightarrow> consent_receipt \<Rightarrow> json" where
  "consent_doc C r = JObj
     [(''receipt_id'', JStr (cr_id r)), (''action_id'', JStr (cr_action_id r)), (''actor_id'', JStr (cr_actor_id r)),
      (''action_digest'', JStr (cr_action_digest r)), (''policy_sha256'', JStr (cr_policy r)),
      (''receipt_sha256'', JStr (cr_receipt r)), (''issuer_trust_root_id'', JStr (cr_root r)),
      (''nonce_sha256'', JStr (cr_nonce r)), (''issued_at'', JStr (dt_json C (cr_issued_at r))),
      (''expires_at'', JStr (dt_json C (cr_expires_at r))), (''approved'', JBool (cr_approved r)),
      (''verification'', JStr (verification_text (cr_verification r)))]"

definition provider_policy_doc :: "codec \<Rightarrow> provider_policy \<Rightarrow> json" where
  "provider_policy_doc C p = JObj
     [(''provider_id'', JStr (pp_provider p)), (''invocation_route_id_hash'', JStr (pp_route p)),
      (''destination_id_hash'', JStr (pp_destination p)), (''model_id_hash'', JStr (pp_model p)),
      (''target_sha256'', JStr (pp_target p)), (''terms_url'', JStr (pp_terms_url p)),
      (''terms_sha256'', JStr (pp_terms p)), (''acceptable_use_url'', JStr (pp_acceptable_url p)),
      (''acceptable_use_sha256'', JStr (pp_acceptable p)), (''privacy_policy_url'', JStr (pp_privacy_url p)),
      (''privacy_policy_sha256'', JStr (pp_privacy p)), (''terms_reviewed_at'', JStr (dt_json C (pp_reviewed_at p))),
      (''terms_review_expires_at'', JStr (dt_json C (pp_review_expires_at p))),
      (''model_license_id'', JStr (pp_license_id p)), (''model_license_url'', JStr (pp_license_url p)),
      (''model_license_sha256'', JStr (pp_license p)),
      (''model_license_status'', JStr (license_text (pp_license_status p))),
      (''input_rights_status'', JStr (rights_text (pp_rights p))),
      (''permitted_purposes'', texts_json (pp_purposes p)),
      (''allowed_data_classes'', texts_json (pp_data_classes p)), (''request_cap'', JInt (pp_request_cap p)),
      (''cost_cap_kopecks'', JInt (pp_cost_cap p)), (''retention_class'', JStr (retention_text (pp_retention p))),
      (''data_logging_mode'', JStr (logging_text (pp_logging p))),
      (''training_use'', JStr (training_text (pp_training p))),
      (''output_use_policy'', JStr (output_text (pp_output p))),
      (''publication_status'', JStr (publication_text (pp_publication p))),
      (''automated_api_use_allowed'', JBool (pp_automated p)),
      (''benchmark_use_status'', JStr (benchmark_text (pp_benchmark p))),
      (''security_research_status'', JStr (research_text (pp_research p))), (''region'', JStr (pp_region p)),
      (''policy_sha256'', JStr (pp_policy p)), (''issuer_trust_root_id'', JStr (pp_root p)),
      (''verification'', JStr (verification_text (pp_verification p)))]"

definition usage_doc :: "provider_usage \<Rightarrow> json" where
  "usage_doc u = JObj
     [(''provider_id'', JStr (pu_provider u)), (''requests_used'', JInt (pu_requests u)),
      (''cost_used_kopecks'', JInt (pu_cost u))]"

definition reservation_doc :: "codec \<Rightarrow> budget_reservation \<Rightarrow> json" where
  "reservation_doc C b = JObj
     [(''reservation_id'', JStr (br_id b)), (''action_digest'', JStr (br_action_digest b)),
      (''provider_id'', JStr (br_provider b)), (''requests'', JInt (br_requests b)),
      (''max_cost_kopecks'', JInt (br_max_cost b)), (''currency'', JStr ''RUB''),
      (''issued_at'', JStr (dt_json C (br_issued_at b))), (''expires_at'', JStr (dt_json C (br_expires_at b))),
      (''reservation_receipt_sha256'', JStr (br_receipt b)), (''pricing_quote_sha256'', JStr (br_quote b)),
      (''pricing_quote_issued_at'', JStr (dt_json C (br_quote_issued_at b))),
      (''pricing_quote_expires_at'', JStr (dt_json C (br_quote_expires_at b))),
      (''fx_evidence_sha256'', JStr (br_fx b)), (''rounding_rule'', JStr ''ceil_to_kopeck''),
      (''safety_margin_bps'', JInt (br_margin_bps b)), (''issuer_trust_root_id'', JStr (br_root b)),
      (''verification'', JStr (verification_text (br_verification b)))]"

section \<open>Authority and consent\<close>

text \<open>The tests of the loop body of \<open>_has_capability\<close>, each a \<open>continue\<close> when it fails.\<close>

definition grant_covers :: "codec \<Rightarrow> action_envelope \<Rightarrow> guard_context \<Rightarrow> capability_grant \<Rightarrow> bool" where
  "grant_covers C a c g \<longleftrightarrow>
     cg_verification g = Verified \<and> \<not> cg_revoked g \<and> cg_policy g = gc_policy c
     \<and> cg_root g \<in> set (gc_authority_roots c) \<and> cg_action_digest g = action_digest C a
     \<and> cg_subject g = ae_actor a \<and> cg_purpose g = ae_purpose a \<and> cg_depth g = ae_depth a
     \<and> dt_le (cg_issued_at g) (gc_evaluated_at c) \<and> dt_le (gc_evaluated_at c) (cg_expires_at g)
     \<and> set (ae_scopes a) \<subseteq> set (cg_scopes g) \<and> list_ex (fnmatchcase (ae_target a)) (cg_targets g)"

definition has_capability :: "codec \<Rightarrow> action_envelope \<Rightarrow> guard_context \<Rightarrow> bool" where
  "has_capability C a c \<longleftrightarrow> ae_scopes a = [] \<or> list_ex (grant_covers C a c) (gc_capabilities c)"

definition consent_covers :: "codec \<Rightarrow> action_envelope \<Rightarrow> guard_context \<Rightarrow> consent_receipt \<Rightarrow> bool" where
  "consent_covers C a c r \<longleftrightarrow>
     cr_verification r = Verified \<and> cr_approved r \<and> cr_root r \<in> set (gc_consent_roots c)
     \<and> cr_action_id r = ae_id a \<and> cr_actor_id r = ae_actor a \<and> cr_action_digest r = action_digest C a
     \<and> cr_policy r = gc_policy c \<and> dt_le (cr_issued_at r) (gc_evaluated_at c)
     \<and> dt_le (gc_evaluated_at c) (cr_expires_at r)"

definition has_consent :: "codec \<Rightarrow> action_envelope \<Rightarrow> guard_context \<Rightarrow> bool" where
  "has_consent C a c \<longleftrightarrow> list_ex (consent_covers C a c) (gc_consents c)"

section \<open>Providers\<close>

definition reservation_active :: "guard_context \<Rightarrow> budget_reservation \<Rightarrow> bool" where
  "reservation_active c b \<longleftrightarrow> br_verification b = Verified \<and> br_root b \<in> set (gc_budget_roots c)
     \<and> dt_le (br_issued_at b) (gc_evaluated_at c) \<and> dt_le (gc_evaluated_at c) (br_expires_at b)"

definition reservation_covers :: "codec \<Rightarrow> action_envelope \<Rightarrow> guard_context \<Rightarrow> budget_reservation \<Rightarrow> bool" where
  "reservation_covers C a c b \<longleftrightarrow>
     br_action_digest b = action_digest C a \<and> Some (br_provider b) = ae_provider a \<and> br_requests b = ae_requests a
     \<and> br_max_cost b = ae_max_cost a \<and> reservation_active c b
     \<and> dt_le (br_quote_issued_at b) (gc_evaluated_at c) \<and> dt_le (gc_evaluated_at c) (br_quote_expires_at b)"

definition active_reservations :: "guard_context \<Rightarrow> budget_reservation list" where
  "active_reservations c = filter (reservation_active c) (gc_reservations c)"

definition provider_policy_reasons :: "codec \<Rightarrow> action_envelope \<Rightarrow> guard_context \<Rightarrow> provider_policy \<Rightarrow> string list" where
  "provider_policy_reasons C a c p =
     flag (pp_policy p \<noteq> gc_policy c) ''provider_policy_missing_or_unverified''
     @ flag (Some (pp_route p) \<noteq> ae_route a \<or> Some (pp_destination p) \<noteq> ae_destination a
             \<or> Some (pp_model p) \<noteq> ae_model a \<or> pp_target p \<noteq> guard_sha256_text C (ae_target a)
             \<or> Some (pp_region p) \<noteq> ae_region a) ''provider_route_or_model_mismatch''
     @ flag (\<not> (dt_le (pp_reviewed_at p) (gc_evaluated_at c) \<and> dt_le (gc_evaluated_at c) (pp_review_expires_at p)))
         ''provider_terms_review_stale''
     @ flag (pp_research p \<noteq> EligibleForBoundedReview) ''provider_research_on_hold''
     @ flag (\<not> pp_automated p) ''provider_automated_api_forbidden''
     @ flag (pp_benchmark p \<noteq> BenchmarkAllowed) ''provider_benchmark_status_not_allowed''
     @ flag (pp_logging p \<notin> {LoggingDisabled, LoggingContractLimited}) ''provider_logging_boundary_unacceptable''
     @ flag (pp_retention p \<notin> {NoStorage, Transient, ContractReviewed}) ''provider_retention_unknown''
     @ flag (pp_training p \<notin> {TrainingDisabled, NoTrainingWithoutConsent}) ''provider_training_use_unacceptable''
     @ flag (pp_output p \<notin> {InternalResearchOnly, CommercialUseReviewed}) ''provider_output_use_unacceptable''
     @ flag (pp_publication p \<noteq> AggregatesAllowed) ''provider_publication_status_unacceptable''
     @ flag (pp_license_status p \<noteq> LicenseReviewed) ''provider_model_license_unreviewed''
     @ flag (pp_rights p \<notin> {SyntheticOwned, RightsLicenseReviewed}) ''provider_input_rights_unverified''
     @ flag (ae_purpose a \<notin> set (pp_purposes p)) ''provider_purpose_forbidden''
     @ (if de_class (ae_data a) = ''restricted'' then [''provider_redaction_required'']
        else flag (de_class (ae_data a) \<notin> set external_allowed_data
                   \<or> de_class (ae_data a) \<notin> set (pp_data_classes p)) ''provider_data_class_forbidden'')"

definition budget_reasons :: "codec \<Rightarrow> action_envelope \<Rightarrow> guard_context \<Rightarrow> provider_policy \<Rightarrow> string list" where
  "budget_reasons C a c p =
     (let act = active_reservations c;
          mine = filter (\<lambda>b. Some (br_provider b) = ae_provider a) act
      in flag (\<not> list_ex (reservation_covers C a c) (gc_reservations c)) ''budget_reservation_missing_or_invalid''
         @ flag (gc_requests_used c + sum_list (map br_requests act) > global_request_cap)
             ''global_request_budget_exceeded''
         @ flag (gc_cost_used c + sum_list (map br_max_cost act) > global_cost_cap) ''global_cost_budget_exceeded''
         @ (case find (\<lambda>u. Some (pu_provider u) = ae_provider a) (gc_usages c) of
              None \<Rightarrow> [''provider_usage_missing'']
            | Some u \<Rightarrow>
                flag (pu_requests u + sum_list (map br_requests mine) > pp_request_cap p)
                  ''provider_request_budget_exceeded''
                @ flag (pu_cost u + sum_list (map br_max_cost mine) > pp_cost_cap p)
                    ''provider_cost_budget_exceeded''))"

definition provider_reasons :: "codec \<Rightarrow> action_envelope \<Rightarrow> guard_context \<Rightarrow> string list" where
  "provider_reasons C a c =
     (case find (\<lambda>p. Some (pp_provider p) = ae_provider a \<and> pp_verification p = Verified
                   \<and> pp_root p \<in> set (gc_provider_roots c)) (gc_policies c) of
        None \<Rightarrow> [''provider_policy_missing_or_unverified'']
      | Some p \<Rightarrow>
          provider_policy_reasons C a c p
          @ (if de_class (ae_data a) = ''restricted'' then [] else budget_reasons C a c p))"

section \<open>The verdict\<close>

definition handoff_ok :: "codec \<Rightarrow> action_envelope \<Rightarrow> guard_context \<Rightarrow> handoff_binding \<Rightarrow> bool" where
  "handoff_ok C a c h \<longleftrightarrow> hb_verification h = Verified \<and> hb_verdict h = HandoffPass \<and> hb_policy h = gc_policy c
     \<and> hb_payload h = ae_content a \<and> hb_receiver h = guard_sha256_text C (ae_actor a)
     \<and> dt_le (hb_checked_at h) (gc_evaluated_at c) \<and> dt_le (gc_evaluated_at c) (hb_expires_at h)
     \<and> handoff_binding_digest C h \<in> set (gc_handoffs c) \<and> hb_root h \<in> set (gc_handoff_roots c)"

definition tool_ok :: "codec \<Rightarrow> action_envelope \<Rightarrow> guard_context \<Rightarrow> tool_binding \<Rightarrow> bool" where
  "tool_ok C a c t \<longleftrightarrow> tb_verification t = Verified \<and> tb_policy t = gc_policy c \<and> Some (tb_effect t) = ae_effect a
     \<and> tool_binding_digest C t \<in> set (gc_tools c) \<and> tb_root t \<in> set (gc_tool_roots c)"

definition classification_ok :: "codec \<Rightarrow> action_envelope \<Rightarrow> guard_context \<Rightarrow> bool" where
  "classification_ok C a c \<longleftrightarrow>
     (let e = ae_data a
      in re_verification e = Verified \<and> classification_binding C e \<in> set (gc_classifications c)
         \<and> re_content e = ae_content a \<and> re_policy e = gc_policy c
         \<and> dt_le (re_checked_at e) (gc_evaluated_at c) \<and> dt_le (gc_evaluated_at c) (re_expires_at e)
         \<and> re_root e \<in> set (gc_classifier_roots c))"

text \<open>\<open>(evaluated_at - created_at).total_seconds() > ttl_seconds\<close>, in microseconds.\<close>

definition ttl_expired :: "action_envelope \<Rightarrow> guard_context \<Rightarrow> bool" where
  "ttl_expired a c \<longleftrightarrow>
     (case de_ttl (ae_data a) of
        None \<Rightarrow> False
      | Some ttl \<Rightarrow> dt_instant (gc_evaluated_at c) - dt_instant (ae_created_at a) > ttl * 1000000)"

definition action_reasons :: "codec \<Rightarrow> action_envelope \<Rightarrow> guard_context \<Rightarrow> string list" where
  "action_reasons C a c =
     (let e = ae_data a; eff = effective_action a
      in flag (\<not> gc_verifier c) ''verifier_unavailable''
         @ flag (dt_less (gc_evaluated_at c) (ae_created_at a)) ''action_created_in_future''
         @ flag (dt_less (ae_expires_at a) (gc_evaluated_at c)) ''action_expired''
         @ flag (action_digest C a \<in> set (gc_seen_digests c)) ''action_replay_detected''
         @ flag (guard_sha256_text C (ae_id a) \<in> set (gc_seen_ids c)) ''action_id_reused''
         @ flag (ae_policy a \<noteq> gc_policy c) ''active_policy_mismatch''
         @ flag (\<not> pred_option (handoff_ok C a c) (ae_handoff a)) ''handoff_not_verified''
         @ flag (\<not> pred_option (tool_ok C a c) (ae_tool a)) ''tool_not_verified''
         @ flag (de_class e = ''secret'') ''secret_data_forbidden''
         @ flag (ae_purpose a \<notin> set (de_purpose e)) ''data_purpose_forbidden''
         @ flag (de_source e = ''unknown'') ''data_classification_unknown''
         @ flag (\<not> classification_ok C a c) ''data_classification_unverified''
         @ flag (de_mutable e) ''data_classification_mutable''
         @ flag (ttl_expired a c) ''data_ttl_expired''
         @ flag (eff \<in> {FilesystemWrite, GitWrite} \<and> \<not> de_store e) ''data_storage_forbidden''
         @ flag (ae_provider a \<noteq> None \<and> \<not> de_forward e) ''data_forwarding_forbidden''
         @ flag (ae_provider a \<noteq> None \<and> \<not> pred_option (\<lambda>p. p \<in> set (de_recipients e)) (ae_provider a))
             ''data_recipient_forbidden''
         @ flag (ae_provider a = None \<and> ae_type a \<in> {NetworkRequest, ExternalSend}) ''external_route_missing_provider''
         @ flag (ae_scopes a \<noteq> [] \<and> \<not> has_capability C a c) ''capability_missing_or_invalid''
         @ flag ((eff \<in> set consent_actions \<or> de_confirm e) \<and> \<not> has_consent C a c) ''current_action_consent_missing''
         @ (if ae_provider a \<noteq> None then provider_reasons C a c else []))"

definition hard_block_reasons :: "string list" where
  "hard_block_reasons =
     [''verifier_unavailable'', ''action_created_in_future'', ''action_expired'', ''action_replay_detected'',
      ''action_id_reused'', ''active_policy_mismatch'', ''handoff_not_verified'', ''tool_not_verified'',
      ''secret_data_forbidden'', ''data_purpose_forbidden'', ''data_classification_unknown'',
      ''data_classification_unverified'', ''data_classification_mutable'', ''data_ttl_expired'',
      ''data_storage_forbidden'', ''data_forwarding_forbidden'', ''data_recipient_forbidden'',
      ''external_route_missing_provider'', ''provider_policy_missing_or_unverified'',
      ''provider_route_or_model_mismatch'', ''provider_terms_review_stale'', ''provider_research_on_hold'',
      ''provider_automated_api_forbidden'', ''provider_benchmark_status_not_allowed'',
      ''provider_logging_boundary_unacceptable'', ''provider_retention_unknown'',
      ''provider_training_use_unacceptable'', ''provider_output_use_unacceptable'',
      ''provider_publication_status_unacceptable'', ''provider_model_license_unreviewed'',
      ''provider_input_rights_unverified'', ''provider_purpose_forbidden'', ''provider_data_class_forbidden'',
      ''budget_reservation_missing_or_invalid'', ''global_request_budget_exceeded'', ''global_cost_budget_exceeded'',
      ''provider_request_budget_exceeded'', ''provider_cost_budget_exceeded'', ''provider_usage_missing'']"

definition choose_disposition :: "action_envelope \<Rightarrow> string list \<Rightarrow> disposition" where
  "choose_disposition a reasons =
     (if list_ex (\<lambda>r. r \<in> set hard_block_reasons) reasons then Block
      else if effective_action a \<in> set owner_gate_actions then AskUser
      else if ''capability_missing_or_invalid'' \<in> set reasons then Block
      else if ae_provider a \<noteq> None \<and> de_class (ae_data a) = ''restricted'' then Redact
      else if ''current_action_consent_missing'' \<in> set reasons then AskUser
      else if effective_action a = CodeExecute then SandboxOnly
      else if ae_type a = Observe then LogOnly
      else Allow)"

definition roots_doc :: "guard_context \<Rightarrow> json" where
  "roots_doc c = JObj
     [(''authority'', texts_json (sort (gc_authority_roots c))), (''consent'', texts_json (sort (gc_consent_roots c))),
      (''handoff'', texts_json (sort (gc_handoff_roots c))), (''budget'', texts_json (sort (gc_budget_roots c))),
      (''classifier'', texts_json (sort (gc_classifier_roots c))), (''tool'', texts_json (sort (gc_tool_roots c))),
      (''provider'', texts_json (sort (gc_provider_roots c)))]"

definition authenticated_doc :: "guard_context \<Rightarrow> json" where
  "authenticated_doc c = JObj
     [(''classifications'', texts_json (sort (gc_classifications c))), (''handoffs'', texts_json (sort (gc_handoffs c))),
      (''tools'', texts_json (sort (gc_tools c)))]"

definition verified_digests :: "codec \<Rightarrow> ('a \<Rightarrow> verification) \<Rightarrow> ('a \<Rightarrow> json) \<Rightarrow> 'a list \<Rightarrow> json" where
  "verified_digests C v doc xs =
     texts_json (sort (map (\<lambda>x. sha256_json C (doc x)) (filter (\<lambda>x. v x = Verified) xs)))"

definition context_doc :: "codec \<Rightarrow> guard_context \<Rightarrow> json" where
  "context_doc C c = JObj
     [(''policy_version'', JStr (gc_policy_version c)),
      (''active_policy_sha256'', JStr (gc_policy c)),
      (''capability_ids'', verified_digests C cg_verification (capability_doc C) (gc_capabilities c)),
      (''consent_ids'', verified_digests C cr_verification (consent_doc C) (gc_consents c)),
      (''provider_policy_ids'', verified_digests C pp_verification (provider_policy_doc C) (gc_policies c)),
      (''reservation_ids'', verified_digests C br_verification (reservation_doc C) (gc_reservations c)),
      (''provider_usages'', texts_json (sort (map (\<lambda>u. sha256_json C (usage_doc u)) (gc_usages c)))),
      (''seen_action_digests'', texts_json (sort (gc_seen_digests c))),
      (''seen_action_id_hashes'', texts_json (sort (gc_seen_ids c))),
      (''trusted_roots_digest'', JStr (sha256_json C (roots_doc c))),
      (''authenticated_receipts_digest'', JStr (sha256_json C (authenticated_doc c))),
      (''cloud_requests_used'', JInt (gc_requests_used c)),
      (''cloud_cost_used_kopecks'', JInt (gc_cost_used c)),
      (''verifier_available'', JBool (gc_verifier c))]"

definition decision_doc :: "codec \<Rightarrow> action_envelope \<Rightarrow> guard_context \<Rightarrow> disposition \<Rightarrow> string list \<Rightarrow> json" where
  "decision_doc C a c d reasons = JObj
     [(''action_id_hash'', JStr (guard_sha256_text C (ae_id a))),
      (''action_digest'', JStr (action_digest C a)),
      (''content_sha256'', JStr (ae_content a)),
      (''context_digest'', JStr (sha256_json C (context_doc C c))),
      (''policy_version'', JStr (gc_policy_version c)),
      (''policy_sha256'', JStr (gc_policy c)),
      (''disposition'', JStr (disposition_text d)),
      (''reason_codes'', texts_json reasons),
      (''evaluated_at'', JStr (iso_utc C (gc_evaluated_at c))),
      (''previous_hash'', JStr (gc_previous_hash c))]"

definition issue_receipt :: "codec \<Rightarrow> action_envelope \<Rightarrow> guard_context \<Rightarrow> disposition \<Rightarrow> string list \<Rightarrow> evidence_receipt" where
  "issue_receipt C a c d reasons =
     \<lparr>ev_action_id_hash = guard_sha256_text C (ae_id a), ev_action_digest = action_digest C a,
      ev_content = ae_content a, ev_context_digest = sha256_json C (context_doc C c), ev_policy = gc_policy c,
      ev_policy_version = gc_policy_version c, ev_disposition = d, ev_reasons = reasons,
      ev_evaluated_at = gc_evaluated_at c, ev_previous_hash = gc_previous_hash c,
      ev_decision_hash = sha256_json C (decision_doc C a c d reasons)\<rparr>"

definition ordered_reasons :: "string list \<Rightarrow> string list" where
  "ordered_reasons rs = (if rs = [] then [''policy_satisfied''] else sort (remdups rs))"

definition evaluate_action :: "codec \<Rightarrow> action_envelope \<Rightarrow> guard_context \<Rightarrow> guard_decision" where
  "evaluate_action C a c =
     (let reasons = action_reasons C a c;
          d = choose_disposition a reasons;
          ordered = ordered_reasons reasons
      in \<lparr>gd_disposition = d, gd_reasons = ordered,
          gd_owner_gate = (effective_action a \<in> set owner_gate_actions),
          gd_evidence = issue_receipt C a c d ordered\<rparr>)"

section \<open>Synthetic tokens\<close>

record capability_token =
  ct_issuer :: string
  ct_subject :: string
  ct_scope :: "string list"
  ct_purpose :: string
  ct_ttl_steps :: int
  ct_can_delegate :: bool
  ct_depth :: int

definition grant_from_token :: "capability_token \<Rightarrow> string \<Rightarrow> string list \<Rightarrow> datetime \<Rightarrow> datetime \<Rightarrow> string
    \<Rightarrow> string \<Rightarrow> guard_error + capability_grant" where
  "grant_from_token t gid targets issued expires policy token_sha = mk_capability_grant
     \<lparr>cg_id = gid, cg_issuer = ct_issuer t, cg_subject = ct_subject t, cg_scopes = ct_scope t,
      cg_targets = targets, cg_purpose = ct_purpose t, cg_issued_at = issued, cg_expires_at = expires,
      cg_can_delegate = ct_can_delegate t, cg_depth = ct_depth t, cg_max_depth = ct_depth t, cg_policy = policy,
      cg_receipt = token_sha, cg_action_digest = token_sha, cg_root = ''synthetic-harness-token'',
      cg_nonce = token_sha, cg_max_uses = 1, cg_uses = 0, cg_revoked = False, cg_verification = Unverified\<rparr>"

end
