(* ===== verification/Guard_Properties.thy ===== *)
theory Guard_Properties
  imports Guard_Eval
begin

text \<open>
  Properties of the runtime guard: what an action that proceeds has passed, the bounds on egress,
  the fail-closed and owner-gate cases, which reasons are reported and how they explain the verdict, the
  shape of accepted actions and what a decision hash commits to.
\<close>

section \<open>What an empty list of reasons means\<close>

definition provider_ok :: "codec \<Rightarrow> action_envelope \<Rightarrow> guard_context \<Rightarrow> bool" where
  "provider_ok C a c \<longleftrightarrow> provider_reasons C a c = []"

lemma action_reasons_Nil:
  "action_reasons C a c = [] \<longleftrightarrow>
     gc_verifier c \<and> dt_le (ae_created_at a) (gc_evaluated_at c) \<and> dt_le (gc_evaluated_at c) (ae_expires_at a)
     \<and> action_digest C a \<notin> set (gc_seen_digests c) \<and> guard_sha256_text C (ae_id a) \<notin> set (gc_seen_ids c)
     \<and> ae_policy a = gc_policy c \<and> pred_option (handoff_ok C a c) (ae_handoff a)
     \<and> pred_option (tool_ok C a c) (ae_tool a) \<and> de_class (ae_data a) \<noteq> ''secret''
     \<and> ae_purpose a \<in> set (de_purpose (ae_data a)) \<and> de_source (ae_data a) \<noteq> ''unknown''
     \<and> classification_ok C a c \<and> \<not> de_mutable (ae_data a) \<and> \<not> ttl_expired a c
     \<and> (effective_action a \<in> {FilesystemWrite, GitWrite} \<longrightarrow> de_store (ae_data a))
     \<and> (ae_provider a \<noteq> None \<longrightarrow> de_forward (ae_data a)
          \<and> pred_option (\<lambda>p. p \<in> set (de_recipients (ae_data a))) (ae_provider a) \<and> provider_ok C a c)
     \<and> (ae_provider a = None \<longrightarrow> ae_type a \<notin> {NetworkRequest, ExternalSend})
     \<and> (ae_scopes a \<noteq> [] \<longrightarrow> has_capability C a c)
     \<and> (effective_action a \<in> set consent_actions \<or> de_confirm (ae_data a) \<longrightarrow> has_consent C a c)"
  unfolding action_reasons_def Let_def append_is_Nil_conv flag_Nil
  by (auto simp: dt_le_def dt_less_def not_less provider_ok_def)

lemma provider_ok_iff:
  "provider_ok C a c \<longleftrightarrow>
     (\<exists>p. find (\<lambda>p. Some (pp_provider p) = ae_provider a \<and> pp_verification p = Verified
             \<and> pp_root p \<in> set (gc_provider_roots c)) (gc_policies c) = Some p
        \<and> provider_policy_reasons C a c p = [] \<and> de_class (ae_data a) \<noteq> ''restricted''
        \<and> budget_reasons C a c p = [])"
  by (auto simp: provider_ok_def provider_reasons_def provider_policy_reasons_def split: option.splits)

section \<open>The reasons that occur\<close>

text \<open>Every reason blocks, or is one of three that the verdict treats separately.\<close>

definition known_reason :: "action_envelope \<Rightarrow> string \<Rightarrow> bool" where
  "known_reason a r \<longleftrightarrow> r \<in> set hard_block_reasons \<or> r = ''capability_missing_or_invalid''
     \<or> r = ''current_action_consent_missing''
     \<or> r = ''provider_redaction_required'' \<and> ae_provider a \<noteq> None \<and> de_class (ae_data a) = ''restricted''"

definition known_reasons :: "action_envelope \<Rightarrow> string list \<Rightarrow> bool" where
  "known_reasons a rs \<longleftrightarrow> list_all (known_reason a) rs"

lemma known_reasons_append: "known_reasons a (xs @ ys) \<longleftrightarrow> known_reasons a xs \<and> known_reasons a ys"
  by (simp add: known_reasons_def)

lemma known_reasons_flag: "v \<in> set hard_block_reasons \<Longrightarrow> known_reasons a (flag b v)"
  by (simp add: known_reasons_def flag_def known_reason_def)

lemma known_reasons_single: "v \<in> set hard_block_reasons \<Longrightarrow> known_reasons a [v]"
  by (simp add: known_reasons_def known_reason_def)

lemma known_reasons_Nil [simp]: "known_reasons a []"
  by (simp add: known_reasons_def)

lemma known_policy_reasons:
  assumes "ae_provider a \<noteq> None"
  shows "known_reasons a (provider_policy_reasons C a c p)"
proof -
  have last: "known_reasons a (if de_class (ae_data a) = ''restricted'' then [''provider_redaction_required'']
      else flag b ''provider_data_class_forbidden'')" for b
  proof (cases "de_class (ae_data a) = ''restricted''")
    case True
    with assms show ?thesis by (simp add: known_reasons_def known_reason_def)
  next
    case False
    have "known_reasons a (flag b ''provider_data_class_forbidden'')"
      by (rule known_reasons_flag) code_simp
    with False show ?thesis by simp
  qed
  show ?thesis
    unfolding provider_policy_reasons_def known_reasons_append
    by (intro conjI; (rule last | rule known_reasons_flag, code_simp))
qed

lemma known_budget_reasons: "known_reasons a (budget_reasons C a c p)"
proof -
  have last: "known_reasons a (case x of None \<Rightarrow> [''provider_usage_missing'']
      | Some u \<Rightarrow> flag (f u) ''provider_request_budget_exceeded'' @ flag (g u) ''provider_cost_budget_exceeded'')"
    for x :: "provider_usage option" and f g
  proof (cases x)
    case None
    have "known_reasons a [''provider_usage_missing'']" by (rule known_reasons_single) code_simp
    with None show ?thesis by simp
  next
    case (Some u)
    have "known_reasons a (flag (f u) ''provider_request_budget_exceeded'' @ flag (g u) ''provider_cost_budget_exceeded'')"
      unfolding known_reasons_append by (intro conjI; rule known_reasons_flag, code_simp)
    with Some show ?thesis by simp
  qed
  show ?thesis
    unfolding budget_reasons_def Let_def known_reasons_append
    by (intro conjI; (rule last | rule known_reasons_flag, code_simp))
qed

lemma known_provider_reasons:
  assumes "ae_provider a \<noteq> None"
  shows "known_reasons a (provider_reasons C a c)"
proof -
  have "known_reasons a [''provider_policy_missing_or_unverified'']" by (rule known_reasons_single) code_simp
  then show ?thesis
    using known_policy_reasons [OF assms] known_budget_reasons
    by (auto simp: provider_reasons_def known_reasons_append split: option.split)
qed

lemma known_soft_flags:
  "known_reasons a (flag b ''capability_missing_or_invalid'')"
  "known_reasons a (flag b ''current_action_consent_missing'')"
  by (simp_all add: known_reasons_def flag_def known_reason_def)

lemma known_action_reasons: "known_reasons a (action_reasons C a c)"
proof -
  have last: "known_reasons a (if ae_provider a \<noteq> None then provider_reasons C a c else [])"
    by (simp add: known_provider_reasons)
  show ?thesis
    unfolding action_reasons_def Let_def known_reasons_append
    by (intro conjI; (rule last | rule known_soft_flags | rule known_reasons_flag, code_simp))
qed

section \<open>The verdict\<close>

definition unconditional :: "disposition \<Rightarrow> bool" where
  "unconditional d \<longleftrightarrow> d = Allow \<or> d = SandboxOnly \<or> d = LogOnly"

lemma unconditional_iff:
  "unconditional (choose_disposition a (action_reasons C a c)) \<longleftrightarrow>
     action_reasons C a c = [] \<and> effective_action a \<notin> set owner_gate_actions"
proof
  let ?rs = "action_reasons C a c"
  assume u: "unconditional (choose_disposition a ?rs)"
  then have n: "\<not> list_ex (\<lambda>r. r \<in> set hard_block_reasons) ?rs" "effective_action a \<notin> set owner_gate_actions"
    "''capability_missing_or_invalid'' \<notin> set ?rs" "\<not> (ae_provider a \<noteq> None \<and> de_class (ae_data a) = ''restricted'')"
    "''current_action_consent_missing'' \<notin> set ?rs"
    by (auto simp: unconditional_def choose_disposition_def split: if_splits)
  have "r \<notin> set ?rs" for r
  proof
    assume r: "r \<in> set ?rs"
    with known_action_reasons [of a C c] have "known_reason a r" by (auto simp: known_reasons_def list_all_iff)
    with n r show False by (auto simp: known_reason_def list_ex_iff)
  qed
  then have "?rs = []" by (cases ?rs) auto
  with n show "?rs = [] \<and> effective_action a \<notin> set owner_gate_actions" by simp
next
  assume r: "action_reasons C a c = [] \<and> effective_action a \<notin> set owner_gate_actions"
  then have "\<not> (ae_provider a \<noteq> None \<and> de_class (ae_data a) = ''restricted'')"
    by (auto simp: action_reasons_Nil provider_ok_iff)
  with r show "unconditional (choose_disposition a (action_reasons C a c))"
    by (auto simp: choose_disposition_def unconditional_def)
qed

lemma ordered_reasons_set: "set (ordered_reasons rs) = (if rs = [] then {''policy_satisfied''} else set rs)"
  by (simp add: ordered_reasons_def)


interpretation guard: json_digest sha256_json guard_json "plain_json True"
  by unfold_locales (auto simp: sha256_json_def guard_json_def intro: dumps_inject)

lemma disposition_text_inject: "disposition_text d = disposition_text e \<longleftrightarrow> d = e"
  by (cases d; cases e) auto

lemma texts_json_inject [simp]: "texts_json xs = texts_json ys \<longleftrightarrow> xs = ys"
  by (auto simp: texts_json_def inj_map_eq_map inj_def)

lemma texts_json_sort [simp]: "sort_keys (texts_json xs) = texts_json xs"
  by (simp add: texts_json_def)

lemma decision_doc_sorted:
  "sort_keys (decision_doc C a c d rs) = JObj
     [(''action_digest'', JStr (action_digest C a)),
      (''action_id_hash'', JStr (guard_sha256_text C (ae_id a))),
      (''content_sha256'', JStr (ae_content a)),
      (''context_digest'', JStr (sha256_json C (context_doc C c))),
      (''disposition'', JStr (disposition_text d)),
      (''evaluated_at'', JStr (iso_utc C (gc_evaluated_at c))),
      (''policy_sha256'', JStr (gc_policy c)),
      (''policy_version'', JStr (gc_policy_version c)),
      (''previous_hash'', JStr (gc_previous_hash c)),
      (''reason_codes'', texts_json rs)]"
  by (simp add: decision_doc_def)

section \<open>A concrete action\<close>

definition at_time :: "int \<Rightarrow> datetime" where
  "at_time t = \<lparr>dt_instant = t * 1000000, dt_offset = Some 0\<rparr>"

definition sample_label :: runtime_envelope where
  "sample_label = \<lparr>de_class = ''public'', de_recipients = [''prov''], de_purpose = [''review''], de_store = True,
     de_forward = True, de_ttl = Some 60, de_confirm = False, de_source = ''owner'', de_mutable = False,
     re_receipt = zero_sha256, re_content = zero_sha256, re_policy = zero_sha256, re_root = ''root'',
     re_checked_at = at_time 0, re_expires_at = at_time 100, re_verification = Verified\<rparr>"

definition sample_action :: action_envelope where
  "sample_action = \<lparr>ae_id = ''a1'', ae_actor = ''agent'', ae_session = zero_sha256, ae_sponsor = zero_sha256,
     ae_chain = zero_sha256, ae_type = ModelQuery, ae_effect = None, ae_target = ''https://api.example/v1'',
     ae_purpose = ''review'', ae_scopes = [''query''], ae_data = sample_label, ae_content = zero_sha256,
     ae_policy = zero_sha256, ae_created_at = at_time 10, ae_expires_at = at_time 90, ae_provider = Some ''prov'',
     ae_destination = Some zero_sha256, ae_route = Some zero_sha256, ae_model = Some zero_sha256,
     ae_region = Some ''eu'', ae_requests = 1, ae_max_cost = 500, ae_handoff = None, ae_tool = None, ae_depth = 0\<rparr>"

definition sample_grant :: capability_grant where
  "sample_grant = \<lparr>cg_id = ''g'', cg_issuer = ''owner'', cg_subject = ''agent'', cg_scopes = [''query''],
     cg_targets = [''https://api.example/v1''], cg_purpose = ''review'', cg_issued_at = at_time 0,
     cg_expires_at = at_time 100, cg_can_delegate = False, cg_depth = 0, cg_max_depth = 0, cg_policy = zero_sha256,
     cg_receipt = zero_sha256, cg_action_digest = action_digest sample_codec sample_action, cg_root = ''root'',
     cg_nonce = zero_sha256, cg_max_uses = 1, cg_uses = 0, cg_revoked = False, cg_verification = Verified\<rparr>"

definition sample_consent :: consent_receipt where
  "sample_consent = \<lparr>cr_id = ''c'', cr_action_id = ''a1'', cr_actor_id = ''agent'',
     cr_action_digest = action_digest sample_codec sample_action, cr_policy = zero_sha256, cr_receipt = zero_sha256,
     cr_root = ''root'', cr_nonce = zero_sha256, cr_issued_at = at_time 0, cr_expires_at = at_time 100,
     cr_approved = True, cr_verification = Verified\<rparr>"

definition sample_policy :: provider_policy where
  "sample_policy = \<lparr>pp_provider = ''prov'', pp_route = zero_sha256, pp_destination = zero_sha256, pp_model = zero_sha256,
     pp_target = guard_sha256_text sample_codec ''https://api.example/v1'', pp_terms_url = ''u'', pp_terms = zero_sha256,
     pp_acceptable_url = ''u'', pp_acceptable = zero_sha256, pp_privacy_url = ''u'', pp_privacy = zero_sha256,
     pp_reviewed_at = at_time 0, pp_review_expires_at = at_time 100, pp_license_id = ''l'', pp_license_url = ''u'',
     pp_license = zero_sha256, pp_license_status = LicenseReviewed, pp_rights = SyntheticOwned,
     pp_purposes = [''review''], pp_data_classes = [''public''], pp_request_cap = 10, pp_cost_cap = 1000,
     pp_retention = NoStorage, pp_logging = LoggingDisabled, pp_training = TrainingDisabled,
     pp_output = InternalResearchOnly, pp_publication = AggregatesAllowed, pp_automated = True,
     pp_benchmark = BenchmarkAllowed, pp_research = EligibleForBoundedReview, pp_region = ''eu'',
     pp_policy = zero_sha256, pp_root = ''root'', pp_verification = Verified\<rparr>"

definition sample_reservation :: budget_reservation where
  "sample_reservation = \<lparr>br_id = ''r'', br_action_digest = action_digest sample_codec sample_action,
     br_provider = ''prov'', br_requests = 1, br_max_cost = 500, br_issued_at = at_time 0, br_expires_at = at_time 100,
     br_receipt = zero_sha256, br_quote = zero_sha256, br_quote_issued_at = at_time 0,
     br_quote_expires_at = at_time 100, br_fx = zero_sha256, br_margin_bps = 100, br_root = ''root'',
     br_verification = Verified\<rparr>"

definition sample_context :: guard_context where
  "sample_context = \<lparr>gc_evaluated_at = at_time 20, gc_policy_version = ''v1'', gc_policy = zero_sha256,
     gc_capabilities = [sample_grant], gc_consents = [sample_consent], gc_policies = [sample_policy],
     gc_usages = [\<lparr>pu_provider = ''prov'', pu_requests = 2, pu_cost = 100\<rparr>],
     gc_reservations = [sample_reservation], gc_requests_used = 5, gc_cost_used = 100,
     gc_previous_hash = zero_sha256, gc_seen_digests = [], gc_seen_ids = [], gc_authority_roots = [''root''],
     gc_consent_roots = [''root''], gc_handoff_roots = [''root''], gc_budget_roots = [''root''],
     gc_classifier_roots = [''root''], gc_tool_roots = [''root''], gc_provider_roots = [''root''],
     gc_classifications = [classification_binding sample_codec sample_label], gc_handoffs = [], gc_tools = [],
     gc_verifier = True\<rparr>"

lemma sample_target_match: "fnmatchcase ''https://api.example/v1'' ''https://api.example/v1''"
  by (subst fnmatch_plain) (simp_all add: code_points_ascii plain_pattern_def)

lemma sample_covered:
  "grant_covers sample_codec sample_action sample_context sample_grant"
  "consent_covers sample_codec sample_action sample_context sample_consent"
  "reservation_covers sample_codec sample_action sample_context sample_reservation"
  "reservation_active sample_context sample_reservation"
  "classification_ok sample_codec sample_action sample_context"
proof -
  have "ae_id sample_action = ''a1'' \<and> ae_actor sample_action = ''agent'' \<and> ae_purpose sample_action = ''review''
      \<and> ae_depth sample_action = 0 \<and> ae_scopes sample_action = [''query''] \<and> ae_requests sample_action = 1
      \<and> ae_max_cost sample_action = 500 \<and> ae_provider sample_action = Some ''prov''
      \<and> ae_target sample_action = ''https://api.example/v1'' \<and> ae_data sample_action = sample_label
      \<and> ae_content sample_action = zero_sha256"
    by (simp add: sample_action_def)
  then show "grant_covers sample_codec sample_action sample_context sample_grant"
    "consent_covers sample_codec sample_action sample_context sample_consent"
    "reservation_covers sample_codec sample_action sample_context sample_reservation"
    "reservation_active sample_context sample_reservation"
    "classification_ok sample_codec sample_action sample_context"
    by (simp_all add: grant_covers_def consent_covers_def reservation_covers_def reservation_active_def
        classification_ok_def Let_def sample_context_def sample_grant_def sample_consent_def sample_reservation_def
        dt_le_def at_time_def sample_target_match)
      (simp_all add: sample_label_def at_time_def)
qed

lemma sample_provider_ok: "provider_reasons sample_codec sample_action sample_context = []"
proof -
  have "provider_policy_reasons sample_codec sample_action sample_context sample_policy = []"
    by (simp add: provider_policy_reasons_def sample_policy_def sample_action_def sample_context_def sample_label_def
        dt_le_def at_time_def external_allowed_data_def)
  moreover have "budget_reasons sample_codec sample_action sample_context sample_policy = []"
    using sample_covered(3,4)
    by (simp add: budget_reasons_def active_reservations_def Let_def sample_context_def)
      (simp add: sample_policy_def sample_action_def sample_reservation_def global_request_cap_def global_cost_cap_def)
  ultimately show ?thesis
    by (simp add: provider_reasons_def) (simp add: sample_context_def sample_policy_def sample_action_def)
qed

lemma sample_reasons: "action_reasons sample_codec sample_action sample_context = []"
proof -
  have "has_capability sample_codec sample_action sample_context" "has_consent sample_codec sample_action sample_context"
    using sample_covered(1,2) by (simp_all add: has_capability_def has_consent_def) (simp_all add: sample_context_def)
  then show ?thesis
    unfolding action_reasons_Nil provider_ok_def
    using sample_covered(5) sample_provider_ok
    by (simp add: dt_le_def ttl_expired_def) (simp add: sample_action_def sample_context_def sample_label_def at_time_def)
qed

lemma sample_proceeds: "unconditional (gd_disposition (evaluate_action sample_codec sample_action sample_context))"
proof -
  have "gd_disposition (evaluate_action sample_codec sample_action sample_context)
      = choose_disposition sample_action (action_reasons sample_codec sample_action sample_context)"
    by (simp add: evaluate_action_def Let_def)
  moreover have "effective_action sample_action \<notin> set owner_gate_actions"
    by (simp add: effective_action_def sample_action_def owner_gate_actions_def)
  ultimately show ?thesis
    using unconditional_iff [of sample_action sample_codec sample_context] sample_reasons by simp
qed

lemma sample_target: "canonical_target ''https://api.example/v1'' = Some \<lparr>su_scheme = ''https'',
    su_netloc = ''api.example'', su_path = ''/v1'', su_query = [], su_fragment = []\<rparr>"
  by (simp add: canonical_target_def urlsplit_def split_scheme_def partition1_def rpartition1_def scheme_char_def
      is_lower_alpha_def is_upper_alpha_def is_digit_def lower_def lower_char_def Let_def netloc_brackets_ok_def
      has_userinfo_def url_port_def url_host_def host_port_def ends_with_char_def)

lemma sample_action_accepted: "mk_action sample_action = Inr sample_action"
proof -
  have f: "action_fields_ok sample_action"
    by (simp add: action_fields_ok_def sample_action_def text_field_def texts_field_def utf8_valid_ascii)
  have u: "canonical_target (ae_target sample_action) = Some \<lparr>su_scheme = ''https'',
    su_netloc = ''api.example'', su_path = ''/v1'', su_query = [], su_fragment = []\<rparr>"
    using sample_target by (simp add: sample_action_def)
  have s: "\<not> target_strip_changes (ae_target sample_action)" "CHR 0x5C \<notin> set (ae_target sample_action)"
    by (simp_all add: sample_action_def target_strip_changes_def strip_def is_space_def)
  have t: "require_aware [ae_created_at sample_action, ae_expires_at sample_action]"
    "\<not> dt_le (ae_expires_at sample_action) (ae_created_at sample_action)"
    by (simp_all add: sample_action_def require_aware_def dt_aware_def dt_le_def at_time_def)
  show ?thesis
    unfolding mk_action_def u option.case
    by (simp add: raise_first_def f s t)
      (simp add: action_shape_errors_def effective_action_def sample_action_def egress_actions_def
        external_target_schemes_def provider_complete_def)
qed

section \<open>Properties\<close>

text \<open>
  C1: an action proceeds without a person in the loop exactly when every check holds: the verifier
  is available, the action is inside its interval, new, under the active policy, carries only
  verified handoff and tool bindings, classified, unexpired and storable or forwardable data, a
  verified capability for its scopes and target, a current consent where one is needed, an
  acceptable provider and budget for egress, and its effect is not reserved to the owner.
\<close>

theorem proceeds_iff_every_check_holds:
  "unconditional (gd_disposition (evaluate_action C a c)) \<longleftrightarrow>
     effective_action a \<notin> set owner_gate_actions
     \<and> gc_verifier c \<and> dt_le (ae_created_at a) (gc_evaluated_at c) \<and> dt_le (gc_evaluated_at c) (ae_expires_at a)
     \<and> action_digest C a \<notin> set (gc_seen_digests c) \<and> guard_sha256_text C (ae_id a) \<notin> set (gc_seen_ids c)
     \<and> ae_policy a = gc_policy c \<and> pred_option (handoff_ok C a c) (ae_handoff a)
     \<and> pred_option (tool_ok C a c) (ae_tool a) \<and> de_class (ae_data a) \<noteq> ''secret''
     \<and> ae_purpose a \<in> set (de_purpose (ae_data a)) \<and> de_source (ae_data a) \<noteq> ''unknown''
     \<and> classification_ok C a c \<and> \<not> de_mutable (ae_data a) \<and> \<not> ttl_expired a c
     \<and> (effective_action a \<notin> {FilesystemWrite, GitWrite} \<or> de_store (ae_data a))
     \<and> (ae_provider a = None \<and> ae_type a \<notin> {NetworkRequest, ExternalSend}
        \<or> ae_provider a \<noteq> None \<and> de_forward (ae_data a)
          \<and> pred_option (\<lambda>p. p \<in> set (de_recipients (ae_data a))) (ae_provider a)
          \<and> provider_reasons C a c = [])
     \<and> (ae_scopes a = [] \<or> list_ex (\<lambda>g. cg_verification g = Verified \<and> \<not> cg_revoked g
            \<and> cg_policy g = gc_policy c \<and> cg_root g \<in> set (gc_authority_roots c)
            \<and> cg_action_digest g = action_digest C a \<and> cg_subject g = ae_actor a \<and> cg_purpose g = ae_purpose a
            \<and> cg_depth g = ae_depth a \<and> dt_le (cg_issued_at g) (gc_evaluated_at c)
            \<and> dt_le (gc_evaluated_at c) (cg_expires_at g) \<and> set (ae_scopes a) \<subseteq> set (cg_scopes g)
            \<and> list_ex (fnmatchcase (ae_target a)) (cg_targets g)) (gc_capabilities c))
     \<and> (effective_action a \<notin> set consent_actions \<and> \<not> de_confirm (ae_data a)
        \<or> list_ex (consent_covers C a c) (gc_consents c))"
proof -
  have eq: "gd_disposition (evaluate_action C a c) = choose_disposition a (action_reasons C a c)"
    by (simp add: evaluate_action_def Let_def)
  show ?thesis
    unfolding eq unconditional_iff action_reasons_Nil grant_covers_def [symmetric]
    by (cases "ae_provider a") (auto simp: provider_ok_def has_capability_def has_consent_def)
qed

theorem proceeds_iff_every_check_holds_witness:
  "gc_verifier sample_context \<and> list_ex (grant_covers sample_codec sample_action sample_context) (gc_capabilities sample_context)"
proof -
  note all = iffD1 [OF proceeds_iff_every_check_holds sample_proceeds]
  have "ae_scopes sample_action \<noteq> []" by (simp add: sample_action_def)
  with all show ?thesis unfolding grant_covers_def [symmetric] by (elim conjE) (intro conjI; blast)
qed

text \<open>
  C2: egress is bounded. When an action that names a provider proceeds, a verified and current
  reservation covers exactly its requests and cost, the usage plus every active reservation stays
  within the cycle caps of 200 requests and 150000 kopecks and within the provider's own caps, and
  the data class is one of the three that may leave.
\<close>

theorem egress_within_budget:
  assumes "ae_provider a \<noteq> None" "unconditional (gd_disposition (evaluate_action C a c))"
  shows "list_ex (reservation_covers C a c) (gc_reservations c)
    \<and> gc_requests_used c + sum_list (map br_requests (active_reservations c)) \<le> 200
    \<and> gc_cost_used c + sum_list (map br_max_cost (active_reservations c)) \<le> 150000
    \<and> de_class (ae_data a) \<in> {''public'', ''synthetic'', ''sanitized''}
    \<and> list_ex (\<lambda>p. Some (pp_provider p) = ae_provider a \<and> pp_verification p = Verified
         \<and> list_ex (\<lambda>u. pu_provider u = pp_provider p
              \<and> pu_requests u + sum_list (map br_requests (filter (\<lambda>b. br_provider b = pp_provider p) (active_reservations c)))
                  \<le> pp_request_cap p
              \<and> pu_cost u + sum_list (map br_max_cost (filter (\<lambda>b. br_provider b = pp_provider p) (active_reservations c)))
                  \<le> pp_cost_cap p) (gc_usages c)) (gc_policies c)"
proof -
  have "action_reasons C a c = []"
    using assms(2) unfolding evaluate_action_def Let_def guard_decision.simps unconditional_iff by simp
  then have "provider_ok C a c" using assms(1) by (simp add: action_reasons_Nil)
  then obtain p where p: "find (\<lambda>p. Some (pp_provider p) = ae_provider a \<and> pp_verification p = Verified
             \<and> pp_root p \<in> set (gc_provider_roots c)) (gc_policies c) = Some p"
    and pr: "provider_policy_reasons C a c p = []" and nr: "de_class (ae_data a) \<noteq> ''restricted''"
    and bu: "budget_reasons C a c p = []"
    by (auto simp: provider_ok_iff)
  from p have pin: "p \<in> set (gc_policies c)" "Some (pp_provider p) = ae_provider a" "pp_verification p = Verified"
    by (auto simp: find_Some_iff)
  have same: "(Some x = ae_provider a) = (x = pp_provider p)" for x using pin(2) by (metis option.inject)
  have cls: "de_class (ae_data a) \<in> {''public'', ''synthetic'', ''sanitized''}"
    using pr nr by (simp add: provider_policy_reasons_def external_allowed_data_def)
  obtain u where u: "find (\<lambda>u. pu_provider u = pp_provider p) (gc_usages c) = Some u"
    and caps: "pu_requests u + sum_list (map br_requests (filter (\<lambda>b. br_provider b = pp_provider p) (active_reservations c)))
        \<le> pp_request_cap p"
      "pu_cost u + sum_list (map br_max_cost (filter (\<lambda>b. br_provider b = pp_provider p) (active_reservations c)))
        \<le> pp_cost_cap p"
    using bu by (cases "find (\<lambda>u. pu_provider u = pp_provider p) (gc_usages c)")
      (auto simp: budget_reasons_def Let_def same not_less)
  from u have uin: "u \<in> set (gc_usages c)" "pu_provider u = pp_provider p" by (auto simp: find_Some_iff)
  have g: "list_ex (reservation_covers C a c) (gc_reservations c)"
    "gc_requests_used c + sum_list (map br_requests (active_reservations c)) \<le> 200"
    "gc_cost_used c + sum_list (map br_max_cost (active_reservations c)) \<le> 150000"
    using bu by (simp_all add: budget_reasons_def Let_def global_request_cap_def global_cost_cap_def not_less)
  have "list_ex (\<lambda>u. pu_provider u = pp_provider p
              \<and> pu_requests u + sum_list (map br_requests (filter (\<lambda>b. br_provider b = pp_provider p) (active_reservations c)))
                  \<le> pp_request_cap p
              \<and> pu_cost u + sum_list (map br_max_cost (filter (\<lambda>b. br_provider b = pp_provider p) (active_reservations c)))
                  \<le> pp_cost_cap p) (gc_usages c)"
    unfolding list_ex_iff using uin caps by blast
  with g cls pin show ?thesis unfolding list_ex_iff by blast
qed

theorem egress_within_budget_witness:
  "list_ex (reservation_covers sample_codec sample_action sample_context) (gc_reservations sample_context)"
  using egress_within_budget [OF _ sample_proceeds] by (simp add: sample_action_def)

text \<open>
  C3: what is reserved to the owner never proceeds unattended: the verdict on secret access, IAM
  changes, merges, releases, deployments and destructive effects, also behind a tool call, is a
  block or a question.
\<close>

theorem owner_gate_never_unattended:
  assumes "effective_action a \<in> set owner_gate_actions"
  shows "gd_owner_gate (evaluate_action C a c)
    \<and> (gd_disposition (evaluate_action C a c) = Block \<or> gd_disposition (evaluate_action C a c) = AskUser)"
  using assms by (simp add: evaluate_action_def Let_def choose_disposition_def)

theorem owner_gate_never_unattended_witness:
  "gd_disposition (evaluate_action sample_codec (sample_action\<lparr>ae_type := Deployment\<rparr>) sample_context) \<in> {Block, AskUser}"
  using owner_gate_never_unattended [of "sample_action\<lparr>ae_type := Deployment\<rparr>" sample_codec sample_context]
  by (simp add: effective_action_def sample_action_def owner_gate_actions_def)

lemma hard_reason_blocks:
  assumes "r \<in> set (action_reasons C a c)" "r \<in> set hard_block_reasons"
  shows "gd_disposition (evaluate_action C a c) = Block"
  using assms by (auto simp: evaluate_action_def Let_def choose_disposition_def list_ex_iff)

lemma some_hard_reason:
  assumes "\<not> gc_verifier c \<or> action_digest C a \<in> set (gc_seen_digests c)
      \<or> guard_sha256_text C (ae_id a) \<in> set (gc_seen_ids c) \<or> ae_policy a \<noteq> gc_policy c
      \<or> dt_less (gc_evaluated_at c) (ae_created_at a) \<or> dt_less (ae_expires_at a) (gc_evaluated_at c)
      \<or> de_class (ae_data a) = ''secret''"
  shows "\<exists>r \<in> set (action_reasons C a c). r \<in> set hard_block_reasons"
proof -
  have h: "''verifier_unavailable'' \<in> set hard_block_reasons" "''action_replay_detected'' \<in> set hard_block_reasons"
    "''action_id_reused'' \<in> set hard_block_reasons" "''active_policy_mismatch'' \<in> set hard_block_reasons"
    "''action_created_in_future'' \<in> set hard_block_reasons" "''action_expired'' \<in> set hard_block_reasons"
    "''secret_data_forbidden'' \<in> set hard_block_reasons"
    by code_simp+
  have m: "\<not> gc_verifier c \<Longrightarrow> ''verifier_unavailable'' \<in> set (action_reasons C a c)"
    "action_digest C a \<in> set (gc_seen_digests c) \<Longrightarrow> ''action_replay_detected'' \<in> set (action_reasons C a c)"
    "guard_sha256_text C (ae_id a) \<in> set (gc_seen_ids c) \<Longrightarrow> ''action_id_reused'' \<in> set (action_reasons C a c)"
    "ae_policy a \<noteq> gc_policy c \<Longrightarrow> ''active_policy_mismatch'' \<in> set (action_reasons C a c)"
    "dt_less (gc_evaluated_at c) (ae_created_at a) \<Longrightarrow> ''action_created_in_future'' \<in> set (action_reasons C a c)"
    "dt_less (ae_expires_at a) (gc_evaluated_at c) \<Longrightarrow> ''action_expired'' \<in> set (action_reasons C a c)"
    "de_class (ae_data a) = ''secret'' \<Longrightarrow> ''secret_data_forbidden'' \<in> set (action_reasons C a c)"
    unfolding action_reasons_def Let_def set_append by (simp_all only: set_flag) auto
  from assms h m show ?thesis by blast
qed

text \<open>
  C4: fail closed. Without a verifier, on a replayed or reused action, outside the action's
  interval, under another policy, or on secret data, the verdict is a block whatever else holds.
\<close>

theorem fail_closed:
  assumes "\<not> gc_verifier c \<or> action_digest C a \<in> set (gc_seen_digests c)
      \<or> guard_sha256_text C (ae_id a) \<in> set (gc_seen_ids c) \<or> ae_policy a \<noteq> gc_policy c
      \<or> dt_less (gc_evaluated_at c) (ae_created_at a) \<or> dt_less (ae_expires_at a) (gc_evaluated_at c)
      \<or> de_class (ae_data a) = ''secret''"
  shows "gd_disposition (evaluate_action C a c) = Block"
  using some_hard_reason [OF assms] hard_reason_blocks by blast

theorem fail_closed_witness:
  "gd_disposition (evaluate_action sample_codec sample_action (sample_context\<lparr>gc_verifier := False\<rparr>)) = Block"
  by (rule fail_closed) simp

section \<open>What is reported\<close>

definition provider_codes :: "string list" where
  "provider_codes =
     [''provider_policy_missing_or_unverified'', ''provider_route_or_model_mismatch'', ''provider_terms_review_stale'',
      ''provider_research_on_hold'', ''provider_automated_api_forbidden'', ''provider_benchmark_status_not_allowed'',
      ''provider_logging_boundary_unacceptable'', ''provider_retention_unknown'', ''provider_training_use_unacceptable'',
      ''provider_output_use_unacceptable'', ''provider_publication_status_unacceptable'', ''provider_model_license_unreviewed'',
      ''provider_input_rights_unverified'', ''provider_purpose_forbidden'', ''provider_data_class_forbidden'',
      ''provider_redaction_required'', ''budget_reservation_missing_or_invalid'', ''global_request_budget_exceeded'',
      ''global_cost_budget_exceeded'', ''provider_request_budget_exceeded'', ''provider_cost_budget_exceeded'',
      ''provider_usage_missing'']"

lemma provider_reasons_codes: "set (provider_reasons C a c) \<subseteq> set provider_codes"
proof -
  have flags: "set (flag b v) \<subseteq> set provider_codes \<longleftrightarrow> \<not> b \<or> v \<in> set provider_codes" for b v by simp
  have "set (provider_policy_reasons C a c p) \<subseteq> set provider_codes" for p
    unfolding provider_policy_reasons_def set_append Un_subset_iff flags
    by (simp add: provider_codes_def)
  moreover have "set (budget_reasons C a c p) \<subseteq> set provider_codes" for p
    unfolding budget_reasons_def Let_def set_append Un_subset_iff flags
    by (simp add: provider_codes_def split: option.split)
  moreover have "''provider_policy_missing_or_unverified'' \<in> set provider_codes" by (simp add: provider_codes_def)
  ultimately show ?thesis by (auto simp: provider_reasons_def split: option.splits if_splits)
qed

text \<open>The checks of the action itself, by the code that their failure is reported with.\<close>

definition own_codes :: "string list" where
  "own_codes =
     [''verifier_unavailable'',
      ''action_created_in_future'',
      ''action_expired'',
      ''action_replay_detected'',
      ''action_id_reused'',
      ''active_policy_mismatch'',
      ''handoff_not_verified'',
      ''tool_not_verified'',
      ''secret_data_forbidden'',
      ''data_purpose_forbidden'',
      ''data_classification_unknown'',
      ''data_classification_unverified'',
      ''data_classification_mutable'',
      ''data_ttl_expired'',
      ''data_storage_forbidden'',
      ''data_forwarding_forbidden'',
      ''data_recipient_forbidden'',
      ''external_route_missing_provider'',
      ''capability_missing_or_invalid'',
      ''current_action_consent_missing'']"

definition failed_checks :: "codec \<Rightarrow> action_envelope \<Rightarrow> guard_context \<Rightarrow> bool list" where
  "failed_checks C a c =
     [\<not> gc_verifier c,
      dt_less (gc_evaluated_at c) (ae_created_at a),
      dt_less (ae_expires_at a) (gc_evaluated_at c),
      action_digest C a \<in> set (gc_seen_digests c),
      guard_sha256_text C (ae_id a) \<in> set (gc_seen_ids c),
      ae_policy a \<noteq> gc_policy c,
      \<not> pred_option (handoff_ok C a c) (ae_handoff a),
      \<not> pred_option (tool_ok C a c) (ae_tool a),
      de_class (ae_data a) = ''secret'',
      ae_purpose a \<notin> set (de_purpose (ae_data a)),
      de_source (ae_data a) = ''unknown'',
      \<not> classification_ok C a c,
      de_mutable (ae_data a),
      ttl_expired a c,
      effective_action a \<in> {FilesystemWrite, GitWrite} \<and> \<not> de_store (ae_data a),
      ae_provider a \<noteq> None \<and> \<not> de_forward (ae_data a),
      ae_provider a \<noteq> None \<and> \<not> pred_option (\<lambda>p. p \<in> set (de_recipients (ae_data a))) (ae_provider a),
      ae_provider a = None \<and> ae_type a \<in> {NetworkRequest, ExternalSend},
      ae_scopes a \<noteq> [] \<and> \<not> list_ex (grant_covers C a c) (gc_capabilities c),
      (effective_action a \<in> set consent_actions \<or> de_confirm (ae_data a)) \<and> \<not> list_ex (consent_covers C a c) (gc_consents c)]"

lemma own_codes_facts: "distinct own_codes" "set own_codes \<inter> set provider_codes = {}" "''policy_satisfied'' \<notin> set own_codes"
  "''policy_satisfied'' \<notin> set provider_codes"
proof -
  have "list_all (\<lambda>v. v \<notin> set provider_codes) own_codes" by code_simp
  then show "set own_codes \<inter> set provider_codes = {}" by (auto simp: list_all_iff)
qed code_simp+

lemma action_reasons_checks:
  "action_reasons C a c = concat (map (\<lambda>(v, b). flag b v) (zip own_codes (failed_checks C a c)))
     @ (if ae_provider a \<noteq> None then provider_reasons C a c else [])"
  by (simp add: action_reasons_def own_codes_def failed_checks_def has_capability_def has_consent_def Let_def)

lemma flags_set: "set (concat (map (\<lambda>(v, b). flag b v) xs)) = fst ` {(v, b) \<in> set xs. b}"
  by (force split: if_splits)

lemma flags_table:
  assumes "distinct (map fst xs)"
  shows "list_all (\<lambda>(v, b). v \<in> set (concat (map (\<lambda>(v, b). flag b v) xs)) \<longleftrightarrow> b) xs"
proof -
  have "b = b'" if "(v, b) \<in> set xs" "(v, b') \<in> set xs" for v b b' using assms that by (rule eq_key_imp_eq_value)
  then show ?thesis unfolding flags_set by (force simp: list_all_iff)
qed

text \<open>Each of these codes is reported exactly when its check fails; the other codes are the provider's.\<close>

lemma reported_checks: "list_all (\<lambda>(v, b). v \<in> set (action_reasons C a c) \<longleftrightarrow> b) (zip own_codes (failed_checks C a c))"
proof -
  let ?t = "zip own_codes (failed_checks C a c)"
  have len: "length own_codes = length (failed_checks C a c)" by (simp add: own_codes_def failed_checks_def)
  have "list_all (\<lambda>(v, b). v \<in> set (concat (map (\<lambda>(v, b). flag b v) ?t)) \<longleftrightarrow> b) ?t"
    by (rule flags_table) (simp add: len own_codes_facts(1))
  moreover have "v \<notin> set (if ae_provider a \<noteq> None then provider_reasons C a c else [])" if "(v, b) \<in> set ?t" for v b
    using set_zip_leftD [OF that] own_codes_facts(2) provider_reasons_codes [of C a c] by auto
  ultimately show ?thesis unfolding action_reasons_checks set_append Un_iff list_all_iff by blast
qed

lemma reported_provider:
  "set (action_reasons C a c) \<inter> set provider_codes = (if ae_provider a = None then {} else set (provider_reasons C a c))"
proof -
  have "set (concat (map (\<lambda>(v, b). flag b v) (zip own_codes (failed_checks C a c)))) \<subseteq> set own_codes"
    unfolding flags_set by (auto dest: set_zip_leftD)
  moreover have "set (if ae_provider a \<noteq> None then provider_reasons C a c else []) \<inter> set provider_codes
      = (if ae_provider a = None then {} else set (provider_reasons C a c))"
    using provider_reasons_codes [of C a c] by auto
  ultimately show ?thesis
    using own_codes_facts(2) unfolding action_reasons_checks set_append Int_Un_distrib2 by blast
qed

lemma redaction_reported:
  assumes "set (action_reasons C a c) \<inter> set hard_block_reasons = {}"
  shows "''provider_redaction_required'' \<in> set (action_reasons C a c) \<longleftrightarrow> ae_provider a \<noteq> None \<and> de_class (ae_data a) = ''restricted''"
proof
  assume "''provider_redaction_required'' \<in> set (action_reasons C a c)"
  with known_action_reasons [of a C c] have "known_reason a ''provider_redaction_required''"
    by (auto simp: known_reasons_def list_all_iff)
  moreover have "''provider_redaction_required'' \<notin> set hard_block_reasons" by code_simp
  ultimately show "ae_provider a \<noteq> None \<and> de_class (ae_data a) = ''restricted''" by (simp add: known_reason_def)
next
  assume r: "ae_provider a \<noteq> None \<and> de_class (ae_data a) = ''restricted''"
  have "set (if ae_provider a \<noteq> None then provider_reasons C a c else []) \<subseteq> set (action_reasons C a c)"
    unfolding action_reasons_def Let_def set_append by blast
  with r have sub: "set (provider_reasons C a c) \<subseteq> set (action_reasons C a c)" by simp
  have "''provider_policy_missing_or_unverified'' \<in> set hard_block_reasons" by code_simp
  with sub assms have "''provider_policy_missing_or_unverified'' \<notin> set (provider_reasons C a c)" by blast
  with r have "''provider_redaction_required'' \<in> set (provider_reasons C a c)"
    by (auto simp: provider_reasons_def provider_policy_reasons_def split: option.splits)
  with sub show "''provider_redaction_required'' \<in> set (action_reasons C a c)" by blast
qed

lemma policy_satisfied_unreported: "''policy_satisfied'' \<notin> set (action_reasons C a c)"
proof
  assume "''policy_satisfied'' \<in> set (action_reasons C a c)"
  with known_action_reasons have "known_reason a ''policy_satisfied''" by (auto simp: known_reasons_def list_all_iff)
  moreover have "''policy_satisfied'' \<notin> set hard_block_reasons" by code_simp
  ultimately show False by (simp add: known_reason_def)
qed

lemma evaluate_action_fields:
  "gd_disposition (evaluate_action C a c) = choose_disposition a (action_reasons C a c)"
  "set (gd_reasons (evaluate_action C a c)) = (if action_reasons C a c = [] then {''policy_satisfied''} else set (action_reasons C a c))"
  by (simp_all add: evaluate_action_def Let_def ordered_reasons_set)

text \<open>Reasons that decide are reported as they were found.\<close>

lemma reported_found:
  assumes "r \<noteq> ''policy_satisfied''"
  shows "r \<in> set (gd_reasons (evaluate_action C a c)) \<longleftrightarrow> r \<in> set (action_reasons C a c)"
  using assms by (simp add: evaluate_action_fields)

lemma reported_hard:
  "set (gd_reasons (evaluate_action C a c)) \<inter> set hard_block_reasons = {}
    \<longleftrightarrow> \<not> list_ex (\<lambda>r. r \<in> set hard_block_reasons) (action_reasons C a c)"
proof -
  have "''policy_satisfied'' \<notin> set hard_block_reasons" by code_simp
  then show ?thesis by (auto simp: evaluate_action_fields list_ex_iff)
qed

lemma verdict_from_reasons:
  fixes C a c
  defines "D \<equiv> evaluate_action C a c" and "owner \<equiv> effective_action a \<in> set owner_gate_actions"
  defines "rs \<equiv> set (gd_reasons D)"
  shows "(gd_disposition D = Block \<longleftrightarrow> rs \<inter> set hard_block_reasons \<noteq> {} \<or> ''capability_missing_or_invalid'' \<in> rs \<and> \<not> owner)
     \<and> (gd_disposition D = AskUser \<longleftrightarrow> rs \<inter> set hard_block_reasons = {}
          \<and> (owner \<or> ''current_action_consent_missing'' \<in> rs
               \<and> rs \<inter> {''capability_missing_or_invalid'', ''provider_redaction_required''} = {}))
     \<and> (gd_disposition D = Redact \<longleftrightarrow> rs \<inter> set hard_block_reasons = {} \<and> \<not> owner
          \<and> ''capability_missing_or_invalid'' \<notin> rs \<and> ''provider_redaction_required'' \<in> rs)"
proof -
  have soft: "''provider_redaction_required'' \<in> rs \<longleftrightarrow> ''provider_redaction_required'' \<in> set (action_reasons C a c)"
    "''capability_missing_or_invalid'' \<in> rs \<longleftrightarrow> ''capability_missing_or_invalid'' \<in> set (action_reasons C a c)"
    "''current_action_consent_missing'' \<in> rs \<longleftrightarrow> ''current_action_consent_missing'' \<in> set (action_reasons C a c)"
    by (simp_all add: rs_def D_def reported_found)
  note hard = reported_hard [of C a c, folded D_def rs_def]
  show ?thesis
  proof (cases "list_ex (\<lambda>r. r \<in> set hard_block_reasons) (action_reasons C a c)")
    case True
    with hard show ?thesis by (simp add: D_def owner_def evaluate_action_fields(1) choose_disposition_def)
  next
    case False
    then have "set (action_reasons C a c) \<inter> set hard_block_reasons = {}" by (auto simp: list_ex_iff)
    note redact = redaction_reported [OF this]
    from False hard show ?thesis unfolding Int_insert_right Int_empty_right soft redact
      by (simp add: D_def owner_def evaluate_action_fields(1) choose_disposition_def)
  qed
qed

text \<open>
  C5: the reported reasons explain the verdict. They are sorted, distinct and never empty; each check of the action
  itself that fails is reported and no other one, provider and budget reasons only for an action with a
  provider, and \<open>policy_satisfied\<close> exactly when nothing failed. Together with the effect of the action they
  determine the verdict, and the receipt repeats both.
\<close>

theorem reasons_and_receipt_consistent:
  "(let D = evaluate_action C a c; rs = set (gd_reasons D); owner = (effective_action a \<in> set owner_gate_actions)
    in gd_reasons D \<noteq> [] \<and> sorted (gd_reasons D) \<and> distinct (gd_reasons D)
     \<and> (''policy_satisfied'' \<in> rs \<longleftrightarrow> rs = {''policy_satisfied''})
     \<and> (''policy_satisfied'' \<in> rs \<longleftrightarrow> action_reasons C a c = [])
     \<and> rs \<inter> set provider_codes = (if ae_provider a = None then {} else set (provider_reasons C a c))
     \<and> (''verifier_unavailable'' \<in> rs \<longleftrightarrow> \<not> gc_verifier c)
     \<and> (''action_created_in_future'' \<in> rs \<longleftrightarrow> dt_less (gc_evaluated_at c) (ae_created_at a))
     \<and> (''action_expired'' \<in> rs \<longleftrightarrow> dt_less (ae_expires_at a) (gc_evaluated_at c))
     \<and> (''action_replay_detected'' \<in> rs \<longleftrightarrow> action_digest C a \<in> set (gc_seen_digests c))
     \<and> (''action_id_reused'' \<in> rs \<longleftrightarrow> guard_sha256_text C (ae_id a) \<in> set (gc_seen_ids c))
     \<and> (''active_policy_mismatch'' \<in> rs \<longleftrightarrow> ae_policy a \<noteq> gc_policy c)
     \<and> (''handoff_not_verified'' \<in> rs \<longleftrightarrow> \<not> pred_option (handoff_ok C a c) (ae_handoff a))
     \<and> (''tool_not_verified'' \<in> rs \<longleftrightarrow> \<not> pred_option (tool_ok C a c) (ae_tool a))
     \<and> (''secret_data_forbidden'' \<in> rs \<longleftrightarrow> de_class (ae_data a) = ''secret'')
     \<and> (''data_purpose_forbidden'' \<in> rs \<longleftrightarrow> ae_purpose a \<notin> set (de_purpose (ae_data a)))
     \<and> (''data_classification_unknown'' \<in> rs \<longleftrightarrow> de_source (ae_data a) = ''unknown'')
     \<and> (''data_classification_unverified'' \<in> rs \<longleftrightarrow> \<not> classification_ok C a c)
     \<and> (''data_classification_mutable'' \<in> rs \<longleftrightarrow> de_mutable (ae_data a))
     \<and> (''data_ttl_expired'' \<in> rs \<longleftrightarrow> ttl_expired a c)
     \<and> (''data_storage_forbidden'' \<in> rs \<longleftrightarrow> effective_action a \<in> {FilesystemWrite, GitWrite} \<and> \<not> de_store (ae_data a))
     \<and> (''data_forwarding_forbidden'' \<in> rs \<longleftrightarrow> ae_provider a \<noteq> None \<and> \<not> de_forward (ae_data a))
     \<and> (''data_recipient_forbidden'' \<in> rs \<longleftrightarrow> ae_provider a \<noteq> None
          \<and> \<not> pred_option (\<lambda>p. p \<in> set (de_recipients (ae_data a))) (ae_provider a))
     \<and> (''external_route_missing_provider'' \<in> rs \<longleftrightarrow> ae_provider a = None \<and> ae_type a \<in> {NetworkRequest, ExternalSend})
     \<and> (''capability_missing_or_invalid'' \<in> rs \<longleftrightarrow> ae_scopes a \<noteq> [] \<and> \<not> list_ex (grant_covers C a c) (gc_capabilities c))
     \<and> (''current_action_consent_missing'' \<in> rs \<longleftrightarrow> (effective_action a \<in> set consent_actions \<or> de_confirm (ae_data a))
          \<and> \<not> list_ex (consent_covers C a c) (gc_consents c))
     \<and> (gd_disposition D = Block \<longleftrightarrow> rs \<inter> set hard_block_reasons \<noteq> {} \<or> ''capability_missing_or_invalid'' \<in> rs \<and> \<not> owner)
     \<and> (gd_disposition D = AskUser \<longleftrightarrow> rs \<inter> set hard_block_reasons = {}
          \<and> (owner \<or> ''current_action_consent_missing'' \<in> rs
               \<and> rs \<inter> {''capability_missing_or_invalid'', ''provider_redaction_required''} = {}))
     \<and> (gd_disposition D = Redact \<longleftrightarrow> rs \<inter> set hard_block_reasons = {} \<and> \<not> owner
          \<and> ''capability_missing_or_invalid'' \<notin> rs \<and> ''provider_redaction_required'' \<in> rs)
     \<and> (unconditional (gd_disposition D) \<longleftrightarrow> rs = {''policy_satisfied''} \<and> \<not> owner)
     \<and> gd_evidence D = issue_receipt C a c (gd_disposition D) (gd_reasons D))"
proof -
  let ?D = "evaluate_action C a c" and ?as = "action_reasons C a c"
  let ?rs = "set (gd_reasons ?D)" and ?owner = "effective_action a \<in> set owner_gate_actions"
  have shape: "gd_reasons ?D \<noteq> []" "sorted (gd_reasons ?D)" "distinct (gd_reasons ?D)"
    "gd_evidence ?D = issue_receipt C a c (gd_disposition ?D) (gd_reasons ?D)"
    by (simp_all add: evaluate_action_def Let_def ordered_reasons_def) (metis set_empty set_remdups set_sort)
  have ok: "''policy_satisfied'' \<in> ?rs \<longleftrightarrow> ?as = []" "?rs = {''policy_satisfied''} \<longleftrightarrow> ?as = []"
    using policy_satisfied_unreported [of C a c] by (auto simp: evaluate_action_fields)
  have provider: "?rs \<inter> set provider_codes = (if ae_provider a = None then {} else set (provider_reasons C a c))"
    unfolding evaluate_action_fields(2) reported_provider [symmetric] using own_codes_facts(4) by simp
  have proceeds: "unconditional (gd_disposition ?D) \<longleftrightarrow> ?rs = {''policy_satisfied''} \<and> \<not> ?owner"
    unfolding evaluate_action_fields(1) unconditional_iff ok(2) by (rule refl)
  have "list_all (\<lambda>(v, b). v \<in> ?rs \<longleftrightarrow> b) (zip own_codes (failed_checks C a c))"
  proof -
    have "v \<in> ?rs \<longleftrightarrow> v \<in> set ?as" if "(v, b) \<in> set (zip own_codes (failed_checks C a c))" for v b
      by (rule reported_found) (use set_zip_leftD [OF that] own_codes_facts(3) in blast)
    with reported_checks [of C a c] show ?thesis unfolding list_all_iff by blast
  qed
  note checks = this [unfolded own_codes_def failed_checks_def zip_Cons_Cons zip_Nil list.pred_inject prod.case]
  show ?thesis by (simp only: Let_def shape ok provider verdict_from_reasons proceeds checks simp_thms)
qed

theorem reasons_and_receipt_consistent_witness:
  "(let D = evaluate_action sample_codec sample_action (sample_context\<lparr>gc_verifier := False\<rparr>)
    in ''verifier_unavailable'' \<in> set (gd_reasons D) \<and> ''policy_satisfied'' \<notin> set (gd_reasons D) \<and> gd_disposition D = Block)"
proof -
  let ?D = "evaluate_action sample_codec sample_action (sample_context\<lparr>gc_verifier := False\<rparr>)"
  let ?rs = "set (gd_reasons ?D)"
  note all = reasons_and_receipt_consistent [of sample_codec sample_action "sample_context\<lparr>gc_verifier := False\<rparr>", unfolded Let_def]
  have v: "''verifier_unavailable'' \<in> ?rs \<longleftrightarrow> \<not> gc_verifier (sample_context\<lparr>gc_verifier := False\<rparr>)"
    and p: "''policy_satisfied'' \<in> ?rs \<longleftrightarrow> ?rs = {''policy_satisfied''}"
    and b: "gd_disposition ?D = Block \<longleftrightarrow> ?rs \<inter> set hard_block_reasons \<noteq> {}
      \<or> ''capability_missing_or_invalid'' \<in> ?rs \<and> \<not> effective_action sample_action \<in> set owner_gate_actions"
    using all by - (elim conjE, assumption)+
  have r: "''verifier_unavailable'' \<in> ?rs" using v by simp
  moreover have "''verifier_unavailable'' \<in> set hard_block_reasons" by code_simp
  ultimately have "gd_disposition ?D = Block" using b by blast
  moreover have "''verifier_unavailable'' \<notin> {''policy_satisfied''}" by simp
  then have "?rs \<noteq> {''policy_satisfied''}" using r by metis
  ultimately show ?thesis unfolding Let_def using r p by blast
qed

text \<open>
  An accepted action leaves the machine only through the front door: its target scheme is in
  the closed vocabulary, is external exactly when the effect is an egress effect, and egress comes
  with a provider, a route, a model, a region, an authority and at least one reserved request,
  while a local action carries no provider and no cloud estimate.
\<close>

theorem accepted_action_egress:
  assumes "mk_action a = Inr b"
  shows "b = a \<and> (\<exists>u. canonical_target (ae_target a) = Some u
    \<and> su_scheme u \<in> set (external_target_schemes @ local_target_schemes)
    \<and> (su_scheme u \<in> set external_target_schemes \<longleftrightarrow> effective_action a \<in> set egress_actions)
    \<and> (ae_provider a \<noteq> None \<longleftrightarrow> effective_action a \<in> set egress_actions)
    \<and> (if effective_action a \<in> set egress_actions
       then provider_complete a \<and> su_netloc u \<noteq> [] \<and> 1 \<le> ae_requests a
       else ae_requests a = 0 \<and> ae_max_cost a = 0 \<and> ae_destination a = None \<and> ae_route a = None))"
proof -
  obtain u where u: "canonical_target (ae_target a) = Some u" "b = a"
    and e: "first_error (action_shape_errors a u) = None"
    using assms by (auto simp: mk_action_def raise_first_Inr_iff split: option.splits)
  have "\<forall>p \<in> set (action_shape_errors a u). \<not> fst p" using e by (simp add: first_error_None_iff)
  note all = this [unfolded action_shape_errors_def Let_def list.set ball_simps fst_conv]
  let ?egress = "effective_action a \<in> set egress_actions" and ?external = "su_scheme u \<in> set external_target_schemes"
  have f: "\<not> (\<not> ?external \<and> su_scheme u \<notin> set local_target_schemes) \<and> \<not> (?external \<and> \<not> ?egress)
    \<and> \<not> (?egress \<and> \<not> ?external) \<and> \<not> (?external \<and> su_netloc u = []) \<and> \<not> (?egress \<and> \<not> provider_complete a)
    \<and> \<not> (ae_provider a \<noteq> None \<and> \<not> ?egress)
    \<and> \<not> (ae_provider a = None \<and> (ae_destination a \<noteq> None \<or> ae_route a \<noteq> None \<or> ae_model a \<noteq> None
        \<or> ae_region a \<noteq> None))
    \<and> \<not> (ae_provider a = None \<and> (ae_requests a \<noteq> 0 \<or> ae_max_cost a \<noteq> 0))
    \<and> \<not> (ae_provider a \<noteq> None \<and> ae_requests a < 1)"
    using all by (elim conjE) (intro conjI)
  have "provider_complete a \<Longrightarrow> ae_provider a \<noteq> None" by (simp add: provider_complete_def)
  with f have "(?external \<longleftrightarrow> ?egress) \<and> (ae_provider a \<noteq> None \<longleftrightarrow> ?egress)
    \<and> su_scheme u \<in> set (external_target_schemes @ local_target_schemes)
    \<and> (if ?egress then provider_complete a \<and> su_netloc u \<noteq> [] \<and> 1 \<le> ae_requests a
       else ae_requests a = 0 \<and> ae_max_cost a = 0 \<and> ae_destination a = None \<and> ae_route a = None)"
    unfolding set_append not_less [symmetric] by (cases ?egress; cases ?external) (simp_all, blast?)
  with u show ?thesis by blast
qed

theorem accepted_action_egress_witness:
  "\<exists>u. canonical_target (ae_target sample_action) = Some u \<and> su_scheme u \<in> set external_target_schemes"
proof -
  have "mk_action sample_action = Inr sample_action"
    by (rule sample_action_accepted)
  from accepted_action_egress [OF this] show ?thesis
    by (auto simp: effective_action_def sample_action_def egress_actions_def)
qed

text \<open>The text whose digest a decision carries; the texts that enter it as they are.\<close>

definition decision_text :: "codec \<Rightarrow> action_envelope \<Rightarrow> guard_context \<Rightarrow> string" where
  "decision_text C a c =
     (let D = evaluate_action C a c in guard_json C (decision_doc C a c (gd_disposition D) (gd_reasons D)))"

definition decision_texts_plain :: "codec \<Rightarrow> action_envelope \<Rightarrow> guard_context \<Rightarrow> bool" where
  "decision_texts_plain C a c \<longleftrightarrow> sha256_text (ae_content a) \<and> sha256_text (gc_policy c) \<and> sha256_text (gc_previous_hash c)
     \<and> is_ascii (gc_policy_version c) \<and> is_ascii (iso_utc C (gc_evaluated_at c))"

lemma reasons_ascii: "list_all is_ascii (gd_reasons (evaluate_action C a c))"
proof -
  have "list_all is_ascii hard_block_reasons" by code_simp
  then have "is_ascii r" if "known_reason a r" for r
    using that by (auto simp: known_reason_def list_all_iff)
  with known_action_reasons [of a C c] have "\<forall>r \<in> set (action_reasons C a c). is_ascii r"
    by (auto simp: known_reasons_def list_all_iff)
  then show ?thesis by (simp add: list_all_iff evaluate_action_def Let_def ordered_reasons_set)
qed

lemma decision_doc_plain:
  assumes "hash_ok C" "decision_texts_plain C a c"
  shows "plain_json True (decision_doc C a c d (gd_reasons (evaluate_action C a c)))"
proof -
  have "is_ascii (disposition_text d)" by (cases d) simp_all
  moreover have "list_all (\<lambda>v. plain_json True v) (map JStr (gd_reasons (evaluate_action C a c)))"
    using reasons_ascii [of C a c] by (simp add: list_all_iff str_ok_def)
  ultimately show ?thesis
    using assms sha256_text_ascii
    by (simp add: decision_doc_def str_ok_def decision_texts_plain_def texts_json_def guard_sha256_text_def action_digest_def sha256_json_def)
qed

text \<open>
  C6: the decision hash commits to the whole receipt. If two decisions have the same hash, then their receipts are
  equal in every field, the verdict, the reasons, the digests of action and context and the previous hash
  among them; the times of evaluation are rendered alike. This holds when content, policy and previous hash are digests (the
  constructors check it), the policy version and the rendered times are plain ASCII, a hash prints as
  64 hex digits, and it does not collide on the two texts of these decisions.
\<close>

theorem receipt_binds_decision:
  assumes "hash_ok C" "decision_texts_plain C a c" "decision_texts_plain C a' c'"
    and "inj_on (sha256_hex C) {decision_text C a c, decision_text C a' c'}"
    and "ev_decision_hash (gd_evidence (evaluate_action C a c)) = ev_decision_hash (gd_evidence (evaluate_action C a' c'))"
  shows "gd_evidence (evaluate_action C a c)\<lparr>ev_evaluated_at := t\<rparr> = gd_evidence (evaluate_action C a' c')\<lparr>ev_evaluated_at := t\<rparr>
    \<and> gd_disposition (evaluate_action C a c) = gd_disposition (evaluate_action C a' c')
    \<and> gd_reasons (evaluate_action C a c) = gd_reasons (evaluate_action C a' c')
    \<and> iso_utc C (gc_evaluated_at c) = iso_utc C (gc_evaluated_at c')"
proof -
  have e: "gd_evidence (evaluate_action C a c)
      = issue_receipt C a c (gd_disposition (evaluate_action C a c)) (gd_reasons (evaluate_action C a c))" for a c
    by (simp add: evaluate_action_def Let_def)
  note plain = decision_doc_plain [OF assms(1,2)] decision_doc_plain [OF assms(1,3)]
  from assms(5) have h: "sha256_json C (decision_doc C a c (gd_disposition (evaluate_action C a c)) (gd_reasons (evaluate_action C a c)))
      = sha256_json C (decision_doc C a' c' (gd_disposition (evaluate_action C a' c')) (gd_reasons (evaluate_action C a' c')))"
    unfolding e by (simp add: issue_receipt_def)
  from guard.digest_binding [OF plain h assms(4) [unfolded decision_text_def Let_def]] assms(5) show ?thesis
    unfolding e by (simp add: decision_doc_sorted disposition_text_inject issue_receipt_def)
qed

text \<open>
  A local action under a hash that tells texts apart by their last reason: evaluated with a verifier, in two time
  zones, and without one.
\<close>

definition tail_codec :: codec where
  "tail_codec = sample_codec\<lparr>sha256_hex :=
     \<lambda>s. if take 4 (rev s) = [CHR 0x7D, CHR 0x5D, CHR 0x22, CHR ''e''] then replicate 64 CHR ''1'' else zero_sha256\<rparr>"

definition local_action :: action_envelope where
  "local_action = sample_action\<lparr>ae_type := Observe, ae_provider := None, ae_scopes := []\<rparr>"

definition local_context :: guard_context where
  "local_context = sample_context\<lparr>gc_classifications := [classification_binding tail_codec sample_label], gc_consents := [],
     gc_capabilities := [], gc_policies := [], gc_reservations := []\<rparr>"

lemma tail_codec_ok: "hash_ok tail_codec" "iso_utc tail_codec t = int_repr (dt_instant t)"
proof -
  have "sha256_text (replicate 64 CHR ''1'')" by (simp add: sha256_text_def list_all_iff is_lower_hex_def is_digit_def)
  then show "hash_ok tail_codec" by (simp add: hash_ok_def tail_codec_def)
qed (simp add: tail_codec_def sample_codec_def)

lemma local_reasons:
  assumes "dt_instant t = 20000000"
  shows "action_reasons tail_codec local_action (local_context\<lparr>gc_evaluated_at := t, gc_verifier := v\<rparr>) = flag (\<not> v) ''verifier_unavailable''"
proof -
  have f: "effective_action local_action = Observe" "ae_data local_action = sample_label" "ae_provider local_action = None"
    "ae_type local_action = Observe" "ae_scopes local_action = []" "ae_content local_action = zero_sha256"
    "ae_policy local_action = zero_sha256" "ae_purpose local_action = ''review''" "ae_handoff local_action = None"
    "ae_tool local_action = None" "ae_created_at local_action = at_time 10" "ae_expires_at local_action = at_time 90"
    by (simp_all add: local_action_def sample_action_def effective_action_def)
  have k: "classification_ok tail_codec local_action (local_context\<lparr>gc_evaluated_at := t, gc_verifier := v\<rparr>)"
    using assms by (simp add: classification_ok_def f Let_def local_context_def sample_context_def dt_le_def)
      (simp add: sample_label_def at_time_def)
  show ?thesis
    unfolding action_reasons_def Let_def f
    using assms k by (simp add: local_context_def sample_context_def dt_less_def at_time_def ttl_expired_def f sample_label_def
        consent_actions_def owner_gate_actions_def flag_def)
qed

abbreviation local_case :: "datetime \<Rightarrow> bool \<Rightarrow> guard_context" where
  "local_case t v \<equiv> local_context\<lparr>gc_evaluated_at := t, gc_verifier := v\<rparr>"

lemma local_decision:
  assumes "dt_instant t = 20000000"
  shows "gd_disposition (evaluate_action tail_codec local_action (local_case t v)) = (if v then LogOnly else Block)"
    "gd_reasons (evaluate_action tail_codec local_action (local_case t v)) = [if v then ''policy_satisfied'' else ''verifier_unavailable'']"
proof -
  have "''verifier_unavailable'' \<in> set hard_block_reasons" by code_simp
  moreover have "effective_action local_action = Observe" "ae_provider local_action = None" "ae_type local_action = Observe"
    by (simp_all add: local_action_def sample_action_def effective_action_def)
  ultimately show "gd_disposition (evaluate_action tail_codec local_action (local_case t v)) = (if v then LogOnly else Block)"
    by (simp add: evaluate_action_def Let_def local_reasons [OF assms] choose_disposition_def flag_def owner_gate_actions_def)
  show "gd_reasons (evaluate_action tail_codec local_action (local_case t v)) = [if v then ''policy_satisfied'' else ''verifier_unavailable'']"
    by (simp add: evaluate_action_def Let_def local_reasons [OF assms] ordered_reasons_def flag_def)
qed

lemma tail_hash:
  "sha256_hex tail_codec (guard_json tail_codec (decision_doc C a c d [''policy_satisfied''])) = zero_sha256"
  "sha256_hex tail_codec (guard_json tail_codec (decision_doc C a c d [''verifier_unavailable''])) = replicate 64 CHR ''1''"
  by (simp_all add: guard_json_def dumps_def decision_doc_sorted texts_json_def render_str_bare bare_char_def tail_codec_def
      del: replicate.simps)

lemma local_plain: "dt_instant t = 20000000 \<Longrightarrow> decision_texts_plain tail_codec local_action (local_case t v)"
  by (simp add: decision_texts_plain_def local_action_def local_context_def sample_action_def sample_context_def tail_codec_ok
      int_repr_ascii)

lemma local_text:
  assumes "dt_instant t = 20000000"
  shows "decision_text tail_codec local_action (local_case t v) = guard_json tail_codec (decision_doc tail_codec local_action
      (local_case t v) (if v then LogOnly else Block) [if v then ''policy_satisfied'' else ''verifier_unavailable''])"
  by (simp only: decision_text_def Let_def local_decision [OF assms])

lemma decision_hash_text: "ev_decision_hash (gd_evidence (evaluate_action C a c)) = sha256_hex C (decision_text C a c)"
  by (simp add: evaluate_action_def Let_def issue_receipt_def decision_text_def sha256_json_def)

text \<open>
  The verdicts with and without a verifier have different hashes; two evaluations at the same instant in different
  time zones have the same one, and the same receipt.
\<close>

theorem receipt_binds_decision_witness:
  "ev_decision_hash (gd_evidence (evaluate_action tail_codec local_action (local_case (at_time 20) True)))
      \<noteq> ev_decision_hash (gd_evidence (evaluate_action tail_codec local_action (local_case (at_time 20) False)))
    \<and> gd_evidence (evaluate_action tail_codec local_action (local_case \<lparr>dt_instant = 20000000, dt_offset = Some 3600\<rparr> True))
        \<lparr>ev_evaluated_at := at_time 20\<rparr>
      = gd_evidence (evaluate_action tail_codec local_action (local_case (at_time 20) True))\<lparr>ev_evaluated_at := at_time 20\<rparr>"
proof
  let ?z = "\<lparr>dt_instant = 20000000, dt_offset = Some 3600\<rparr> :: datetime"
  have at: "dt_instant (at_time 20) = 20000000" "dt_instant ?z = 20000000" by (simp_all add: at_time_def)
  note plain = local_plain [OF at(1)] local_plain [OF at(2)]
  have "replicate 64 CHR ''1'' \<noteq> zero_sha256" by (simp add: zero_sha256_def)
  then have "inj_on (sha256_hex tail_codec) {decision_text tail_codec local_action (local_case (at_time 20) True),
      decision_text tail_codec local_action (local_case (at_time 20) False)}"
    by (auto simp: inj_on_def local_text [OF at(1)] tail_hash simp del: replicate.simps)
  from receipt_binds_decision [OF tail_codec_ok(1) plain(1,1) this] local_decision(1) [OF at(1)]
  show "ev_decision_hash (gd_evidence (evaluate_action tail_codec local_action (local_case (at_time 20) True)))
      \<noteq> ev_decision_hash (gd_evidence (evaluate_action tail_codec local_action (local_case (at_time 20) False)))" by auto
  have "decision_doc tail_codec local_action (local_case ?z True) d rs = decision_doc tail_codec local_action (local_case (at_time 20) True) d rs" for d rs
    by (simp add: decision_doc_def tail_codec_ok(2) at context_doc_def roots_doc_def authenticated_doc_def)
  then have same: "decision_text tail_codec local_action (local_case ?z True) = decision_text tail_codec local_action (local_case (at_time 20) True)"
    by (simp only: local_text [OF at(1)] local_text [OF at(2)])
  show "gd_evidence (evaluate_action tail_codec local_action (local_case ?z True))\<lparr>ev_evaluated_at := at_time 20\<rparr>
      = gd_evidence (evaluate_action tail_codec local_action (local_case (at_time 20) True))\<lparr>ev_evaluated_at := at_time 20\<rparr>"
    using receipt_binds_decision [OF tail_codec_ok(1) plain(2,1)] by (simp add: decision_hash_text same)
qed

text \<open>
  A grant derived from a synthetic token is never authority, whatever the context trusts.
\<close>

theorem synthetic_grant_never_covers:
  assumes "grant_from_token t gid targets issued expires policy token_sha = Inr g"
  shows "cg_verification g = Unverified \<and> \<not> grant_covers C a c g"
  using assms by (auto simp: grant_from_token_def mk_capability_grant_def raise_first_Inr_iff grant_covers_def)

theorem synthetic_grant_never_covers_witness:
  "\<exists>g. grant_from_token \<lparr>ct_issuer = ''i'', ct_subject = ''agent'', ct_scope = [''query''], ct_purpose = ''review'',
        ct_ttl_steps = 3, ct_can_delegate = False, ct_depth = 0\<rparr> ''g'' [''*''] (at_time 0) (at_time 9) zero_sha256 zero_sha256 = Inr g
     \<and> \<not> grant_covers sample_codec sample_action sample_context g"
proof -
  obtain g where g: "grant_from_token \<lparr>ct_issuer = ''i'', ct_subject = ''agent'', ct_scope = [''query''], ct_purpose = ''review'',
        ct_ttl_steps = 3, ct_can_delegate = False, ct_depth = 0\<rparr> ''g'' [''*''] (at_time 0) (at_time 9) zero_sha256 zero_sha256 = Inr g"
    by (simp add: grant_from_token_def mk_capability_grant_def raise_first_def text_field_def texts_field_def
        utf8_valid_ascii require_aware_def dt_aware_def at_time_def dt_le_def)
  with synthetic_grant_never_covers [OF g] show ?thesis by blast
qed

end
