(* ===== verification/Gateway_Model.thy ===== *)
theory Gateway_Model
  imports Json_Default
begin

text \<open>
  The contracts of \<open>runtime_gateway.py\<close>: the bounds on untrusted JSON, the closed policy, the tool
  call and its decision, the approval request and the audit record, with the documents they are
  hashed as. A constructor returns the record or the error that the pydantic model raises.
\<close>

section \<open>Errors\<close>

text \<open>
  \<open>GatewayContractError\<close> with its message, and the plain \<open>ValueError\<close>s that are not contract errors:
  a bound of \<open>_validate_json_value\<close>, an unencodable string, an integer literal of more than 4300
  digits, a pydantic \<open>ValidationError\<close>. \<open>LookupFailed\<close> is a \<open>KeyError\<close> or \<open>AttributeError\<close>.
\<close>

datatype gateway_error =
    ContractError string
  | BoundError string
  | UnicodeError
  | IntDigitsError
  | ValidationError string
  | LookupFailed string

section \<open>Bounded JSON\<close>

definition int64_ok :: "int \<Rightarrow> bool" where
  "int64_ok i \<longleftrightarrow> - (2 ^ 63) \<le> i \<and> i < 2 ^ 63"

text \<open>The double written \<open>1e308\<close> is this integer.\<close>

definition float_1e308 :: rat where
  "float_1e308 = 100000000000000001097906362944045541740492309677311846336810682903157585404911491537163328978494688899061249669721172515611590283743140088328307009198146046031271664502933027185697489699588559043338384466165001178426897626212945177628091195786707458122783970171784415105291802893207873272974885715430223118336"

definition float_bounded :: "pyfloat \<Rightarrow> bool" where
  "float_bounded x = (case x of PyFin r \<Rightarrow> - float_1e308 < r \<and> r < float_1e308 | PyNegZero \<Rightarrow> True | _ \<Rightarrow> False)"

fun validate_json_value :: "nat \<Rightarrow> json \<Rightarrow> gateway_error + unit" where
  "validate_json_value d v =
     (if 12 < d then Inl (BoundError ''JSON nesting exceeds the gateway limit'')
      else (case v of
          JNull \<Rightarrow> Inr ()
        | JBool b \<Rightarrow> Inr ()
        | JInt i \<Rightarrow> ensure (int64_ok i) (BoundError ''JSON integer exceeds the gateway limit'')
        | JStr s \<Rightarrow> res_bind (ensure (encodable s) UnicodeError)
            (\<lambda>_. ensure (length s \<le> 16384) (BoundError ''JSON string exceeds the gateway limit''))
        | JFloat x \<Rightarrow> ensure (float_bounded x) (BoundError ''non-finite JSON numbers are forbidden'')
        | JArr vs \<Rightarrow>
            res_bind (ensure (length vs \<le> 256) (BoundError ''JSON array exceeds the gateway limit''))
              (\<lambda>_. res_bind (map_res (validate_json_value (Suc d)) vs) (\<lambda>_. Inr ()))
        | JObj kvs \<Rightarrow>
            res_bind (ensure (length kvs \<le> 128) (BoundError ''JSON object exceeds the gateway limit''))
              (\<lambda>_. res_bind (map_res (\<lambda>(k, w).
                   res_bind (ensure (k \<noteq> [] \<and> py_len k \<le> 128)
                     (BoundError ''JSON object keys must be bounded non-empty strings''))
                     (\<lambda>_. validate_json_value (Suc d) w)) kvs) (\<lambda>_. Inr ()))))"

declare validate_json_value.simps [simp del]

text \<open>The hooks of \<open>_strict_json_object\<close>: no repeated field, no \<open>NaN\<close> or infinity literal.\<close>

definition strict_hooks :: "codec \<Rightarrow> gateway_error hooks" where
  "strict_hooks C =
     \<lparr>h_pairs = (\<lambda>kvs. if distinct (map fst kvs) then Inr (JObj kvs) else Inl (ContractError ''duplicate_json_field'')),
      h_const = (\<lambda>t. Inl (ContractError ''non_finite_json_number'')),
      h_int = (\<lambda>t. if digit_count t > int_digit_limit then Inl IntDigitsError else Inr (JInt (int_of_text t))),
      h_float = (\<lambda>t. Inr (JFloat (float_of_text C t))),
      h_syntax = ContractError ''invalid_json''\<rparr>"

definition strict_json_object :: "codec \<Rightarrow> string \<Rightarrow> gateway_error + (string \<times> json) list" where
  "strict_json_object C raw =
     res_bind (ensure (utf8_valid raw) (ContractError ''invalid_json''))
       (\<lambda>_. res_bind (loads (strict_hooks C) raw)
          (\<lambda>v. case v of
                 JObj kvs \<Rightarrow> res_bind (validate_json_value 0 v) (\<lambda>_. Inr kvs)
               | _ \<Rightarrow> Inl (ContractError ''json_object_required'')))"

section \<open>Canonical bytes and digests\<close>

definition gw_json :: "codec \<Rightarrow> json \<Rightarrow> string" where
  "gw_json C v = dumps (float_repr C) False v"

definition canonical_json_bytes :: "codec \<Rightarrow> json \<Rightarrow> gateway_error + string" where
  "canonical_json_bytes C v =
     res_bind (ensure (json_finite v) (BoundError ''Out of range float values are not JSON compliant''))
       (\<lambda>_. res_bind (ensure (json_encodable v) UnicodeError) (\<lambda>_. Inr (gw_json C v)))"

definition gw_sha256_json :: "codec \<Rightarrow> json \<Rightarrow> string" where
  "gw_sha256_json C v = sha256_hex C (gw_json C v)"

definition domain_text :: "codec \<Rightarrow> string \<Rightarrow> json \<Rightarrow> string" where
  "domain_text C domain v = domain @ [CHR 0x00] @ gw_json C v"

definition sha256_domain :: "codec \<Rightarrow> string \<Rightarrow> json \<Rightarrow> string" where
  "sha256_domain C domain v = sha256_hex C (domain_text C domain v)"

section \<open>Policy\<close>

datatype gw_disposition = GwAllow | GwDeny | GwApproval

fun gw_disposition_text :: "gw_disposition \<Rightarrow> string" where
  "gw_disposition_text GwAllow = ''allow''"
| "gw_disposition_text GwDeny = ''deny''"
| "gw_disposition_text GwApproval = ''require_approval''"

datatype gw_protocol = OpenaiCompatible | OpenaiResponses | AnthropicMessages | GoogleInteractions | Mcp

fun protocol_text :: "gw_protocol \<Rightarrow> string" where
  "protocol_text OpenaiCompatible = ''openai_compatible''"
| "protocol_text OpenaiResponses = ''openai_responses''"
| "protocol_text AnthropicMessages = ''anthropic_messages''"
| "protocol_text GoogleInteractions = ''google_interactions''"
| "protocol_text Mcp = ''mcp''"

datatype gw_effect = EffPure | EffExternal | EffProcess | EffUnknown

fun effect_text :: "gw_effect \<Rightarrow> string" where
  "effect_text EffPure = ''pure''"
| "effect_text EffExternal = ''external''"
| "effect_text EffProcess = ''process''"
| "effect_text EffUnknown = ''unknown''"

record tool_rule =
  tr_name :: string
  tr_disposition :: gw_disposition
  tr_effect :: gw_effect
  tr_reason :: string

definition mk_tool_rule :: "tool_rule \<Rightarrow> gateway_error + tool_rule" where
  "mk_tool_rule r = raise_first
     [(\<not> safe_token (tr_name r), ValidationError ''tool_name''),
      (tr_effect r = EffUnknown, ValidationError ''effect''),
      (\<not> safe_token (tr_reason r), ValidationError ''reason_code'')] r"

text \<open>The other fields of the policy are constants, so a policy is its rules.\<close>

record gateway_policy =
  gp_rules :: "tool_rule list"

definition rule_entry :: "tool_rule \<Rightarrow> string \<times> (gw_disposition \<times> gw_effect \<times> string)" where
  "rule_entry r = (tr_name r, (tr_disposition r, tr_effect r, tr_reason r))"

definition expected_rules :: "(string \<times> (gw_disposition \<times> gw_effect \<times> string)) list" where
  "expected_rules =
     [(''external.send'', (GwApproval, EffExternal, ''owner_approval_required'')),
      (''synthetic.lookup'', (GwAllow, EffPure, ''synthetic_tool_allowed'')),
      (''synthetic.sha256'', (GwAllow, EffPure, ''synthetic_tool_allowed'')),
      (''system.shell'', (GwDeny, EffProcess, ''process_execution_denied''))]"

text \<open>Equality of two dictionaries.\<close>

definition dict_eq :: "(string \<times> 'a) list \<Rightarrow> (string \<times> 'a) list \<Rightarrow> bool" where
  "dict_eq d e \<longleftrightarrow> list_all (\<lambda>(k, v). map_of e k = map_of d k) d \<and> list_all (\<lambda>(k, v). map_of d k = map_of e k) e"

definition mk_gateway_policy :: "tool_rule list \<Rightarrow> gateway_error + gateway_policy" where
  "mk_gateway_policy rules = raise_first
     [(sort (map tr_name rules) \<noteq> map tr_name rules \<or> \<not> distinct (map tr_name rules),
        ValidationError ''gateway rules must use sorted unique tool names''),
      (\<not> dict_eq (map rule_entry rules) expected_rules,
        ValidationError ''gateway policy must match the closed local synthetic ruleset'')]
     \<lparr>gp_rules = rules\<rparr>"

definition default_gateway_policy :: gateway_policy where
  "default_gateway_policy = \<lparr>gp_rules =
     [\<lparr>tr_name = ''external.send'', tr_disposition = GwApproval, tr_effect = EffExternal, tr_reason = ''owner_approval_required''\<rparr>,
      \<lparr>tr_name = ''synthetic.lookup'', tr_disposition = GwAllow, tr_effect = EffPure, tr_reason = ''synthetic_tool_allowed''\<rparr>,
      \<lparr>tr_name = ''synthetic.sha256'', tr_disposition = GwAllow, tr_effect = EffPure, tr_reason = ''synthetic_tool_allowed''\<rparr>,
      \<lparr>tr_name = ''system.shell'', tr_disposition = GwDeny, tr_effect = EffProcess, tr_reason = ''process_execution_denied''\<rparr>]\<rparr>"

definition rule_doc :: "tool_rule \<Rightarrow> json" where
  "rule_doc r = JObj
     [(''tool_name'', JStr (tr_name r)),
      (''disposition'', JStr (gw_disposition_text (tr_disposition r))),
      (''effect'', JStr (effect_text (tr_effect r))),
      (''reason_code'', JStr (tr_reason r))]"

definition gateway_policy_id :: string where
  "gateway_policy_id = ''ash-local-synthetic-default-v1''"

definition policy_doc :: "gateway_policy \<Rightarrow> json" where
  "policy_doc p = JObj
     [(''schema_version'', JStr ''AgenticSecurityHarnessGatewayPolicy.v1''),
      (''policy_id'', JStr gateway_policy_id),
      (''rules'', JArr (map rule_doc (gp_rules p))),
      (''default_disposition'', JStr ''deny'')]"

definition policy_sha256 :: "codec \<Rightarrow> gateway_policy \<Rightarrow> string" where
  "policy_sha256 C p = gw_sha256_json C (policy_doc p)"

definition policy_snapshot_doc :: "codec \<Rightarrow> gateway_policy \<Rightarrow> json" where
  "policy_snapshot_doc C p = JObj
     [(''schema_version'', JStr ''AgenticSecurityHarnessGatewayPolicySnapshot.v1''),
      (''policy_id'', JStr gateway_policy_id),
      (''policy_sha256'', JStr (policy_sha256 C p)),
      (''default_disposition'', JStr ''deny''),
      (''rules'', JArr (map rule_doc (gp_rules p))),
      (''approval_grant_available'', JBool False)]"

section \<open>Tool calls\<close>

record tool_call =
  tc_id :: string
  tc_protocol :: gw_protocol
  tc_tool :: string
  tc_args :: "(string \<times> json) list"

definition arguments_limit :: nat where
  "arguments_limit = 16384"

definition mk_tool_call :: "codec \<Rightarrow> tool_call \<Rightarrow> gateway_error + tool_call" where
  "mk_tool_call C c =
     res_bind (ensure (safe_token (tc_id c)) (ValidationError ''call_id''))
       (\<lambda>_. res_bind (ensure (safe_token (tc_tool c)) (ValidationError ''tool_name''))
         (\<lambda>_. map_err (\<lambda>_. ValidationError ''arguments'')
           (res_bind (validate_json_value 0 (JObj (tc_args c)))
             (\<lambda>_. res_bind (canonical_json_bytes C (JObj (tc_args c)))
               (\<lambda>encoded. res_bind (ensure (length encoded \<le> arguments_limit)
                    (BoundError ''tool arguments exceed the 16384-byte gateway limit''))
                 (\<lambda>_. Inr c))))))"

text \<open>The same constructor on two unchecked JSON values.\<close>

definition tool_call_of_json ::
  "codec \<Rightarrow> string \<Rightarrow> gw_protocol \<Rightarrow> json \<Rightarrow> json \<Rightarrow> gateway_error + tool_call" where
  "tool_call_of_json C cid proto n a =
     (case (n, a) of
        (JStr tool, JObj args) \<Rightarrow>
          mk_tool_call C \<lparr>tc_id = cid, tc_protocol = proto, tc_tool = tool, tc_args = args\<rparr>
      | _ \<Rightarrow> Inl (ValidationError ''tool_name or arguments''))"

definition arguments_sha256 :: "codec \<Rightarrow> tool_call \<Rightarrow> string" where
  "arguments_sha256 C c = sha256_domain C ''ash-gateway-tool-arguments-v1'' (JObj (tc_args c))"

section \<open>Decisions\<close>

record gateway_decision =
  dn_call :: string
  dn_tool :: string
  dn_args :: string
  dn_policy :: string
  dn_disposition :: gw_disposition
  dn_reason :: string
  dn_effect :: gw_effect
  dn_permitted :: bool

definition mk_gateway_decision :: "gateway_decision \<Rightarrow> gateway_error + gateway_decision" where
  "mk_gateway_decision d = raise_first
     [(\<not> list_all sha256_text [dn_call d, dn_tool d, dn_args d, dn_policy d], ValidationError ''sha256''),
      (\<not> safe_token (dn_reason d), ValidationError ''reason_code''),
      (dn_permitted d \<noteq> (dn_disposition d = GwAllow), ValidationError ''only allow decisions may permit execution'')] d"

record approval_request =
  ap_call :: string
  ap_tool :: string
  ap_args :: string
  ap_policy :: string
  ap_effect :: gw_effect
  ap_reason :: string
  ap_permitted :: bool
  ap_grant_endpoint :: bool

definition mk_approval_request :: "gateway_decision \<Rightarrow> gateway_error + approval_request" where
  "mk_approval_request d =
     (if dn_disposition d \<noteq> GwApproval \<or> dn_effect d = EffPure
      then Inl (ContractError ''only approval-required decisions create requests'')
      else Inr \<lparr>ap_call = dn_call d, ap_tool = dn_tool d, ap_args = dn_args d, ap_policy = dn_policy d,
                ap_effect = dn_effect d, ap_reason = dn_reason d, ap_permitted = False, ap_grant_endpoint = False\<rparr>)"

definition approval_status :: string where
  "approval_status = ''pending_non_executable''"

definition approval_doc :: "approval_request \<Rightarrow> json" where
  "approval_doc r = JObj
     [(''schema_version'', JStr ''AgenticSecurityHarnessGatewayApprovalRequest.v1''),
      (''status'', JStr approval_status),
      (''call_id_sha256'', JStr (ap_call r)),
      (''tool_name_sha256'', JStr (ap_tool r)),
      (''arguments_sha256'', JStr (ap_args r)),
      (''policy_sha256'', JStr (ap_policy r)),
      (''effect'', JStr (effect_text (ap_effect r))),
      (''reason_code'', JStr (ap_reason r)),
      (''execution_permitted'', JBool (ap_permitted r)),
      (''grant_endpoint_available'', JBool (ap_grant_endpoint r))]"

definition approval_sha256 :: "codec \<Rightarrow> approval_request \<Rightarrow> string" where
  "approval_sha256 C r = sha256_domain C ''ash-gateway-approval-request-v1'' (approval_doc r)"

section \<open>Evaluation\<close>

definition argument_error :: string where
  "argument_error = ''tool_arguments_denied''"

definition lookup_keys :: "string list" where
  "lookup_keys = [''gateway-mode'', ''project-status'']"

definition validate_builtin_arguments :: "tool_call \<Rightarrow> string option" where
  "validate_builtin_arguments c =
     (if tc_tool c = ''synthetic.sha256'' then
        (if obj_keys (tc_args c) \<noteq> {''text''} then Some argument_error
         else (case obj_get (tc_args c) ''text'' of
                 Some (JStr v) \<Rightarrow> if length v > 4096 then Some argument_error else None
               | _ \<Rightarrow> Some argument_error))
      else if tc_tool c = ''synthetic.lookup'' then
        (if obj_keys (tc_args c) \<noteq> {''key''} then Some argument_error
         else (case obj_get (tc_args c) ''key'' of
                 Some (JStr k) \<Rightarrow> if k \<notin> set lookup_keys then Some argument_error else None
               | _ \<Rightarrow> Some argument_error))
      else None)"

definition rule_verdict :: "gateway_policy \<Rightarrow> string \<Rightarrow> gw_disposition \<times> gw_effect \<times> string" where
  "rule_verdict p tool =
     (case find (\<lambda>r. tr_name r = tool) (gp_rules p) of
        None \<Rightarrow> (GwDeny, EffUnknown, ''unknown_tool_denied'')
      | Some r \<Rightarrow> (tr_disposition r, tr_effect r, tr_reason r))"

definition evaluate_gateway_tool_call :: "codec \<Rightarrow> tool_call \<Rightarrow> gateway_policy \<Rightarrow> gateway_error + gateway_decision" where
  "evaluate_gateway_tool_call C c p =
     (let (disp, eff, reason) = rule_verdict p (tc_tool c);
          (disp', reason') =
            (if disp = GwAllow
             then (case validate_builtin_arguments c of None \<Rightarrow> (disp, reason) | Some e \<Rightarrow> (GwDeny, e))
             else (disp, reason))
      in mk_gateway_decision
           \<lparr>dn_call = sha256_domain C ''ash-gateway-call-id-v1'' (JStr (tc_id c)),
            dn_tool = sha256_domain C ''ash-gateway-tool-name-v1'' (JStr (tc_tool c)),
            dn_args = arguments_sha256 C c, dn_policy = policy_sha256 C p, dn_disposition = disp',
            dn_reason = reason', dn_effect = eff, dn_permitted = (disp' = GwAllow)\<rparr>)"

section \<open>Configuration\<close>

datatype gw_host = LoopbackHost | AnyHost

record gateway_config =
  cf_host :: gw_host
  cf_port :: int
  cf_audit_absolute :: bool
  cf_max_body :: int
  cf_dashboard :: bool
  cf_container :: bool

definition mk_gateway_config :: "gateway_config \<Rightarrow> gateway_error + gateway_config" where
  "mk_gateway_config c = raise_first
     [(\<not> (1 \<le> cf_port c \<and> cf_port c \<le> 65535), ValidationError ''port''),
      (\<not> (1024 \<le> cf_max_body c \<and> cf_max_body c \<le> 1048576), ValidationError ''max_body_bytes''),
      (\<not> cf_audit_absolute c, ValidationError ''gateway audit_dir must be absolute after config resolution''),
      ((cf_host c = AnyHost) \<noteq> cf_container c,
        ValidationError ''0.0.0.0 is permitted only for explicit synthetic_container_mode'')] c"

end
