(* ===== verification/Gateway_Ledger.thy ===== *)
theory Gateway_Ledger
  imports Gateway_Model
begin

text \<open>
  \<open>GatewayAuditLedger\<close>: a file of canonical JSON lines, each carrying the digest of its
  predecessor. The state of a ledger is its key, the content of its file (\<open>None\<close> when it does not
  exist) and whether it is closed; the lock of another process and the files' identities are in
  \<open>Gateway_Files\<close>.
\<close>

section \<open>Audit records\<close>

datatype gw_operation = ChatCompletion | McpDiscover | McpToolsList | ToolCallOp

fun operation_text :: "gw_operation \<Rightarrow> string" where
  "operation_text ChatCompletion = ''chat_completion''"
| "operation_text McpDiscover = ''mcp_discover''"
| "operation_text McpToolsList = ''mcp_tools_list''"
| "operation_text ToolCallOp = ''tool_call''"

record audit_record =
  au_sequence :: int
  au_occurred :: string
  au_request :: string
  au_protocol :: gw_protocol
  au_operation :: gw_operation
  au_subject :: string
  au_payload :: string
  au_key_id :: string
  au_policy :: string
  au_disposition :: gw_disposition
  au_reason :: string
  au_previous :: string
  au_entry :: string

text \<open>
  \<open>\\d\<close> in a pattern of the validation library is any decimal digit of Unicode 16: ten code points from
  each of these zeros.
\<close>

definition decimal_zeros :: "nat list" where
  "decimal_zeros =
     [48, 1632, 1776, 1984, 2406, 2534, 2662, 2790, 2918, 3046, 3174, 3302, 3430, 3558, 3664, 3792,
      3872, 4160, 4240, 6112, 6160, 6470, 6608, 6784, 6800, 6992, 7088, 7232, 7248, 42528, 43216,
      43264, 43472, 43504, 43600, 44016, 65296, 66720, 68912, 68928, 69734, 69872, 69942, 70096,
      70384, 70736, 70864, 71248, 71360, 71376, 71386, 71472, 71904, 72016, 72688, 72784, 73040,
      73120, 73552, 90416, 92768, 92864, 93008, 93552, 118000, 120782, 120792, 120802, 120812,
      120822, 123200, 123632, 124144, 124401, 125264, 130032]"

definition unicode_digit :: "nat \<Rightarrow> bool" where
  "unicode_digit n \<longleftrightarrow> list_ex (\<lambda>z. z \<le> n \<and> n < z + 10) decimal_zeros"

text \<open>A \<open>9\<close> of the pattern stands for a digit.\<close>

definition occurred_ok :: "string \<Rightarrow> bool" where
  "occurred_ok s \<longleftrightarrow>
     list_all2 (\<lambda>p n. if p = CHR ''9'' then unicode_digit n else n = ord p)
       ''9999-99-99T99:99:99Z'' (code_points s)"

definition mk_audit_record :: "audit_record \<Rightarrow> gateway_error + audit_record" where
  "mk_audit_record r = raise_first
     [(au_sequence r < 1, ValidationError ''sequence''),
      (\<not> occurred_ok (au_occurred r), ValidationError ''occurred_at''),
      (\<not> list_all sha256_text [au_request r, au_subject r, au_payload r, au_key_id r, au_policy r, au_previous r, au_entry r],
        ValidationError ''sha256''),
      (\<not> safe_token (au_reason r), ValidationError ''reason_code'')] r"

definition unsigned_fields :: "audit_record \<Rightarrow> (string \<times> json) list" where
  "unsigned_fields r =
     [(''schema_version'', JStr ''AgenticSecurityHarnessGatewayAudit.v1''),
      (''sequence'', JInt (au_sequence r)),
      (''occurred_at'', JStr (au_occurred r)),
      (''request_id_commitment'', JStr (au_request r)),
      (''protocol'', JStr (protocol_text (au_protocol r))),
      (''operation'', JStr (operation_text (au_operation r))),
      (''subject_commitment'', JStr (au_subject r)),
      (''payload_commitment'', JStr (au_payload r)),
      (''privacy_key_id_sha256'', JStr (au_key_id r)),
      (''policy_sha256'', JStr (au_policy r)),
      (''disposition'', JStr (gw_disposition_text (au_disposition r))),
      (''reason_code'', JStr (au_reason r)),
      (''previous_entry_sha256'', JStr (au_previous r))]"

definition audit_doc :: "audit_record \<Rightarrow> json" where
  "audit_doc r = JObj (unsigned_fields r @ [(''entry_sha256'', JStr (au_entry r))])"

definition entry_domain :: string where
  "entry_domain = ''ash-gateway-audit-entry-v1''"

definition entry_digest :: "codec \<Rightarrow> audit_record \<Rightarrow> string" where
  "entry_digest C r = sha256_domain C entry_domain (JObj (unsigned_fields r))"

definition audit_verify :: "codec \<Rightarrow> audit_record \<Rightarrow> gateway_error + unit" where
  "audit_verify C r = ensure (au_entry r = entry_digest C r) (ContractError ''gateway audit entry digest mismatch'')"

section \<open>Reading a record\<close>

definition parse_protocol :: "string \<Rightarrow> gw_protocol option" where
  "parse_protocol s = find (\<lambda>p. protocol_text p = s)
     [OpenaiCompatible, OpenaiResponses, AnthropicMessages, GoogleInteractions, Mcp]"

definition parse_operation :: "string \<Rightarrow> gw_operation option" where
  "parse_operation s = find (\<lambda>p. operation_text p = s) [ChatCompletion, McpDiscover, McpToolsList, ToolCallOp]"

definition parse_disposition :: "string \<Rightarrow> gw_disposition option" where
  "parse_disposition s = find (\<lambda>p. gw_disposition_text p = s) [GwAllow, GwDeny, GwApproval]"

definition get_text :: "(string \<times> json) list \<Rightarrow> string \<Rightarrow> string option" where
  "get_text kvs k = (case obj_get kvs k of Some (JStr s) \<Rightarrow> Some s | _ \<Rightarrow> None)"

definition get_int :: "(string \<times> json) list \<Rightarrow> string \<Rightarrow> int option" where
  "get_int kvs k = (case obj_get kvs k of Some (JInt i) \<Rightarrow> Some i | _ \<Rightarrow> None)"

definition audit_keys :: "string set" where
  "audit_keys = {''schema_version'', ''sequence'', ''occurred_at'', ''request_id_commitment'', ''protocol'',
     ''operation'', ''subject_commitment'', ''payload_commitment'', ''privacy_key_id_sha256'', ''policy_sha256'',
     ''disposition'', ''reason_code'', ''previous_entry_sha256'', ''entry_sha256''}"

text \<open>
  \<open>model_validate\<close> on the parsed object. What pydantic would convert or fill in by a default is refused
  here at once: the canonical form of the converted record differs from the line, so the code
  refuses it too, with the other of its two messages.
\<close>

definition audit_of_fields :: "(string \<times> json) list \<Rightarrow> audit_record option" where
  "audit_of_fields kvs =
     (if obj_keys kvs \<noteq> audit_keys \<or> get_text kvs ''schema_version'' \<noteq> Some ''AgenticSecurityHarnessGatewayAudit.v1''
      then None
      else Option.bind (get_int kvs ''sequence'') (\<lambda>sq.
        Option.bind (get_text kvs ''occurred_at'') (\<lambda>oc.
        Option.bind (get_text kvs ''request_id_commitment'') (\<lambda>rq.
        Option.bind (Option.bind (get_text kvs ''protocol'') parse_protocol) (\<lambda>pr.
        Option.bind (Option.bind (get_text kvs ''operation'') parse_operation) (\<lambda>op.
        Option.bind (get_text kvs ''subject_commitment'') (\<lambda>su.
        Option.bind (get_text kvs ''payload_commitment'') (\<lambda>pa.
        Option.bind (get_text kvs ''privacy_key_id_sha256'') (\<lambda>ke.
        Option.bind (get_text kvs ''policy_sha256'') (\<lambda>po.
        Option.bind (Option.bind (get_text kvs ''disposition'') parse_disposition) (\<lambda>di.
        Option.bind (get_text kvs ''reason_code'') (\<lambda>re.
        Option.bind (get_text kvs ''previous_entry_sha256'') (\<lambda>pv.
        Option.bind (get_text kvs ''entry_sha256'') (\<lambda>en.
          Some \<lparr>au_sequence = sq, au_occurred = oc, au_request = rq, au_protocol = pr, au_operation = op,
                au_subject = su, au_payload = pa, au_key_id = ke, au_policy = po, au_disposition = di,
                au_reason = re, au_previous = pv, au_entry = en\<rparr>))))))))))))))"

definition audit_validate :: "(string \<times> json) list \<Rightarrow> gateway_error + audit_record" where
  "audit_validate kvs =
     map_err (\<lambda>_. ContractError ''gateway audit record violates V1'')
       (case audit_of_fields kvs of None \<Rightarrow> Inl (ValidationError ''fields'') | Some r \<Rightarrow> mk_audit_record r)"

section \<open>Reading the file\<close>

text \<open>\<open>bytes.splitlines()\<close>: lines end at a line feed, a carriage return, or both.\<close>

fun splitlines :: "string \<Rightarrow> string list" where
  "splitlines [] = []"
| "splitlines (c # cs) =
     (if ord c = 10 then [] # splitlines cs
      else if ord c = 13 then
        (case cs of
           d # ds \<Rightarrow> if ord d = 10 then [] # splitlines ds else [] # splitlines cs
         | [] \<Rightarrow> [[]])
      else (case splitlines cs of [] \<Rightarrow> [[c]] | w # ws \<Rightarrow> (c # w) # ws))"

definition audit_line :: "codec \<Rightarrow> audit_record \<Rightarrow> string" where
  "audit_line C r = gw_json C (audit_doc r)"

definition read_line :: "codec \<Rightarrow> string \<Rightarrow> nat \<Rightarrow> string \<Rightarrow> string \<Rightarrow> gateway_error + audit_record" where
  "read_line C key index previous line =
     res_bind (ensure (length line \<le> 8192) (ContractError ''gateway audit record exceeds 8192 bytes''))
     (\<lambda>_. res_bind (strict_json_object C line)
     (\<lambda>payload. res_bind (audit_validate payload)
     (\<lambda>r. res_bind (ensure (audit_line C r = line) (ContractError ''gateway audit record is not canonical JSON''))
     (\<lambda>_. res_bind (audit_verify C r)
     (\<lambda>_. res_bind (ensure (au_key_id r = sha256_hex C key) (ContractError ''gateway audit privacy key identity mismatch''))
     (\<lambda>_. res_bind (ensure (au_sequence r = int index \<and> au_previous r = previous)
        (ContractError ''gateway audit chain continuity failed''))
     (\<lambda>_. Inr r)))))))"

fun read_lines :: "codec \<Rightarrow> string \<Rightarrow> nat \<Rightarrow> string \<Rightarrow> string list \<Rightarrow> gateway_error + audit_record list" where
  "read_lines C key index previous [] = Inr []"
| "read_lines C key index previous (line # lines) =
     res_bind (read_line C key index previous line)
       (\<lambda>r. res_bind (read_lines C key (Suc index) (au_entry r) lines) (\<lambda>rs. Inr (r # rs)))"

definition max_audit_records :: nat where
  "max_audit_records = 100000"

definition max_audit_bytes :: nat where
  "max_audit_bytes = 96 * 1024 * 1024"

definition parse_ledger :: "codec \<Rightarrow> string \<Rightarrow> string \<Rightarrow> gateway_error + audit_record list" where
  "parse_ledger C key raw =
     res_bind (ensure (length raw \<le> max_audit_bytes) (ContractError ''gateway audit ledger exceeds its byte limit''))
     (\<lambda>_. res_bind (ensure (raw = [] \<or> ord (last raw) = 10) (ContractError ''gateway audit ledger has a partial record''))
     (\<lambda>_. res_bind (ensure (length (splitlines raw) \<le> max_audit_records)
        (ContractError ''gateway audit ledger exceeds the record limit''))
     (\<lambda>_. read_lines C key 1 zero_sha256 (splitlines raw))))"

section \<open>The ledger\<close>

record audit_ledger =
  al_key :: string
  al_file :: "string option"
  al_closed :: bool

definition read_records :: "codec \<Rightarrow> audit_ledger \<Rightarrow> gateway_error + audit_record list" where
  "read_records C l = (case al_file l of None \<Rightarrow> Inr [] | Some raw \<Rightarrow> parse_ledger C (al_key l) raw)"

text \<open>
  The constructor on an existing or new directory: the key file is created from \<open>fresh\<close> random bytes
  when missing, the lock must be free, and the file must verify.
\<close>

record ledger_disk =
  ld_key :: "string option"
  ld_file :: "string option"
  ld_locked :: bool

definition ledger_key :: "string \<Rightarrow> string option \<Rightarrow> string \<times> (gateway_error + string)" where
  "ledger_key fresh stored =
     (let key = (case stored of None \<Rightarrow> fresh | Some k \<Rightarrow> k)
      in (key,
          if length key > 32 then Inl (ContractError ''gateway privacy key exceeds its byte limit'')
          else if length key \<noteq> 32 then Inl (ContractError ''gateway privacy key is invalid or unstable'')
          else Inr key))"

definition ledger_lock :: "bool \<Rightarrow> gateway_error + bool" where
  "ledger_lock locked =
     (if locked then Inl (ContractError ''another gateway process owns the audit ledger'') else Inr True)"

definition ledger_open :: "codec \<Rightarrow> string \<Rightarrow> ledger_disk \<Rightarrow> ledger_disk \<times> (gateway_error + audit_ledger)" where
  "ledger_open C fresh d =
     (let (key, checked) = ledger_key fresh (ld_key d);
          d' = d\<lparr>ld_key := Some key\<rparr>
      in case res_bind checked (\<lambda>_. ledger_lock (ld_locked d)) of
           Inl e \<Rightarrow> (d', Inl e)
         | Inr owned \<Rightarrow>
             (let l = \<lparr>al_key = key, al_file = ld_file d, al_closed = False\<rparr>
              in case read_records C l of
                   Inl e \<Rightarrow> (d', Inl e)
                 | Inr rs \<Rightarrow> (d'\<lparr>ld_locked := owned\<rparr>, Inr l)))"

definition ledger_close :: "audit_ledger \<Rightarrow> ledger_disk \<Rightarrow> audit_ledger \<times> ledger_disk" where
  "ledger_close l d = (if al_closed l then (l, d) else (l\<lparr>al_closed := True\<rparr>, d\<lparr>ld_locked := False\<rparr>))"

definition commitment :: "codec \<Rightarrow> string \<Rightarrow> string \<Rightarrow> json \<Rightarrow> gateway_error + string" where
  "commitment C key domain v =
     res_bind (canonical_json_bytes C v) (\<lambda>b. Inr (hmac_sha256_hex C key (domain @ [CHR 0x00] @ b)))"

text \<open>The arguments of \<open>append\<close>, and the text of the clock at the call.\<close>

record audit_event =
  oe_request :: string
  oe_protocol :: gw_protocol
  oe_operation :: gw_operation
  oe_subject :: string
  oe_payload :: json
  oe_policy :: string
  oe_verdict :: gw_disposition
  oe_reason :: string

definition audit_record_for ::
  "codec \<Rightarrow> string \<Rightarrow> string \<Rightarrow> audit_record list \<Rightarrow> audit_event \<Rightarrow> gateway_error + audit_record" where
  "audit_record_for C key now records e =
     res_bind (commitment C key ''ash-gateway-request-id-v1'' (JStr (oe_request e)))
     (\<lambda>rq. res_bind (commitment C key ''ash-gateway-subject-v1'' (JStr (oe_subject e)))
     (\<lambda>su. res_bind (commitment C key ''ash-gateway-request-payload-v1'' (oe_payload e))
     (\<lambda>pa. let r = \<lparr>au_sequence = int (length records) + 1, au_occurred = now, au_request = rq,
                    au_protocol = oe_protocol e, au_operation = oe_operation e, au_subject = su, au_payload = pa,
                    au_key_id = sha256_hex C key, au_policy = oe_policy e, au_disposition = oe_verdict e,
                    au_reason = oe_reason e,
                    au_previous = (if records = [] then zero_sha256 else au_entry (last records)), au_entry = []\<rparr>
           in mk_audit_record (r\<lparr>au_entry := entry_digest C r\<rparr>))))"

definition line_end :: char where
  "line_end = char_of (10 :: nat)"

text \<open>
  \<open>append\<close>: read and verify, build the record, write its line at the end, read and verify again. A
  failure after the write leaves the line in the file.
\<close>

definition ledger_append ::
  "codec \<Rightarrow> string \<Rightarrow> audit_event \<Rightarrow> audit_ledger \<Rightarrow> audit_ledger \<times> (gateway_error + audit_record)" where
  "ledger_append C now e l =
     (if al_closed l then (l, Inl (ContractError ''gateway audit ledger is closed''))
      else (case read_records C l of
          Inl err \<Rightarrow> (l, Inl err)
        | Inr records \<Rightarrow>
            (case audit_record_for C (al_key l) now records e of
               Inl err \<Rightarrow> (l, Inl err)
             | Inr r \<Rightarrow>
                 (let old = (case al_file l of None \<Rightarrow> [] | Some raw \<Rightarrow> raw);
                      l' = l\<lparr>al_file := Some (old @ audit_line C r @ [line_end])\<rparr>
                  in (l', res_bind (read_records C l')
                        (\<lambda>rs. res_bind (ensure (rs \<noteq> [] \<and> last rs = r) (ContractError ''gateway audit append verification failed''))
                           (\<lambda>_. Inr r)))))))"

record audit_snapshot =
  sn_records :: nat
  sn_allow :: nat
  sn_deny :: nat
  sn_approval :: nat
  sn_head :: string

definition count_disposition :: "gw_disposition \<Rightarrow> audit_record list \<Rightarrow> nat" where
  "count_disposition d rs = length (filter (\<lambda>r. au_disposition r = d) rs)"

definition ledger_snapshot :: "codec \<Rightarrow> audit_ledger \<Rightarrow> gateway_error + audit_snapshot" where
  "ledger_snapshot C l =
     res_bind (read_records C l)
       (\<lambda>rs. Inr \<lparr>sn_records = length rs, sn_allow = count_disposition GwAllow rs, sn_deny = count_disposition GwDeny rs,
                  sn_approval = count_disposition GwApproval rs,
                  sn_head = (if rs = [] then zero_sha256 else au_entry (last rs))\<rparr>)"

definition snapshot_doc :: "audit_snapshot \<Rightarrow> json" where
  "snapshot_doc s = JObj
     [(''schema_version'', JStr ''AgenticSecurityHarnessGatewayAuditSnapshot.v1''),
      (''records'', JInt (int (sn_records s))),
      (''allow'', JInt (int (sn_allow s))),
      (''deny'', JInt (int (sn_deny s))),
      (''require_approval'', JInt (int (sn_approval s))),
      (''head_sha256'', JStr (sn_head s)),
      (''chain_valid'', JBool True)]"

end
