(* ===== verification/Json_Hooks.thy ===== *)
theory Json_Hooks
  imports Json_Default
begin

text \<open>
  The contract between \<open>json.loads\<close> and its hooks: a property of values that the hooks establish on what
  they build holds of the whole parsed document. Instances: with the default hooks and with hooks
  that refuse repeated fields, every object of the document has distinct keys.
\<close>

locale hook_invariant =
  fixes h :: "'e hooks" and P :: "json \<Rightarrow> bool"
  assumes leaf: "P JNull" "P (JBool b)" "P (JStr s)"
    and arr: "list_all P vs \<Longrightarrow> P (JArr vs)"
    and pairs: "list_all (\<lambda>kv. P (snd kv)) kvs \<Longrightarrow> h_pairs h kvs = Inr v \<Longrightarrow> P v"
    and number: "h_int h t = Inr v \<Longrightarrow> P v" "h_float h t = Inr v \<Longrightarrow> P v" "h_const h t = Inr v \<Longrightarrow> P v"
begin

lemma scan_all:
  "(\<forall>s v q. scan_value h n s = Inr (v, q) \<longrightarrow> P v) \<and>
   (\<forall>s vs q. scan_items h n s = Inr (vs, q) \<longrightarrow> list_all P vs) \<and>
   (\<forall>s kvs q. scan_members h n s = Inr (kvs, q) \<longrightarrow> list_all (\<lambda>kv. P (snd kv)) kvs)"
proof (induction n)
  case 0
  then show ?case by simp
next
  case (Suc n)
  then have IHv: "\<And>s v q. scan_value h n s = Inr (v, q) \<Longrightarrow> P v"
    and IHi: "\<And>s vs q. scan_items h n s = Inr (vs, q) \<Longrightarrow> list_all P vs"
    and IHm: "\<And>s kvs q. scan_members h n s = Inr (kvs, q) \<Longrightarrow> list_all (\<lambda>kv. P (snd kv)) kvs"
    by blast+
  have "P v" if eq: "scan_value h (Suc n) s = Inr (v, q)" for s v q
  proof (cases s)
    case Nil
    with eq show ?thesis by simp
  next
    case (Cons c r)
    consider (str) "c = CHR 0x22" | (obj) "c = CHR ''{''" | (items) "c = CHR ''[''"
      | (other) "c \<noteq> CHR 0x22" "c \<noteq> CHR ''{''" "c \<noteq> CHR ''[''" by blast
    then show ?thesis
    proof cases
      case str
      with eq Cons leaf(3) show ?thesis by (auto split: option.splits)
    next
      case obj
      show ?thesis
      proof (cases "starts_with (skip_ws r) ''}''")
        case True
        with eq Cons obj have "h_pairs h [] = Inr v" by (simp add: Let_def)
        then show ?thesis by (rule pairs [of "[]", simplified])
      next
        case False
        with eq Cons obj obtain kvs where "scan_members h n (skip_ws r) = Inr (kvs, q)" "h_pairs h kvs = Inr v"
          by (auto simp: Let_def)
        then show ?thesis using pairs IHm by blast
      qed
    next
      case items
      with eq Cons have "v = JArr [] \<or> (\<exists>vs p. scan_items h n (skip_ws r) = Inr (vs, p) \<and> v = JArr vs)"
        by (auto simp: Let_def split: if_splits)
      then show ?thesis using arr [of "[]"] arr IHi by auto
    next
      case other
      show ?thesis
      proof (cases "starts_with s ''null'' \<or> starts_with s ''true'' \<or> starts_with s ''false''")
        case True
        with eq Cons other have "v = JNull \<or> v = JBool True \<or> v = JBool False" by (simp split: if_splits)
        then show ?thesis using leaf by blast
      next
        case False
        show ?thesis
        proof (cases "parse_number s")
          case None
          with eq Cons other False have "\<exists>t. h_const h t = Inr v" by (auto simp: Let_def split: if_splits)
          then show ?thesis using number(3) by blast
        next
          case (Some a)
          with eq Cons other False have "\<exists>t. h_int h t = Inr v \<or> h_float h t = Inr v"
            by (cases a) (auto simp: Let_def split: if_splits)
          then show ?thesis using number by blast
        qed
      qed
    qed
  qed
  moreover have "list_all P vs" if eq: "scan_items h (Suc n) s = Inr (vs, q)" for s vs q
  proof -
    from eq obtain v p where v: "scan_value h n s = Inr (v, p)"
      and rest: "(case skip_ws p of [] \<Rightarrow> Inl (h_syntax h)
                   | d # q' \<Rightarrow> if d = CHR '']'' then Inr ([v], q')
                       else if d = CHR '','' then
                         res_bind (scan_items h n (skip_ws q')) (\<lambda>(vs, q''). Inr (v # vs, q''))
                       else Inl (h_syntax h)) = Inr (vs, q)"
      by (auto simp del: res_bind_Inr_iff simp: res_bind_def split: sum.splits)
    with IHv [OF v] IHi show ?thesis by (cases "skip_ws p") (auto split: if_splits)
  qed
  moreover have "list_all (\<lambda>kv. P (snd kv)) kvs" if eq: "scan_members h (Suc n) s = Inr (kvs, q)" for s kvs q
  proof -
    from eq obtain c r where s: "s = c # r" and c: "c = CHR 0x22"
      by (cases s) (auto split: if_splits)
    with eq obtain k p where k: "parse_chars r = Some (k, p)"
      by (cases "parse_chars r") auto
    with eq s c obtain e p1 where e: "skip_ws p = e # p1" and e': "e = CHR '':''"
      by (cases "skip_ws p") (auto split: if_splits)
    from eq s c k e e' obtain v p2 where v: "scan_value h n (skip_ws p1) = Inr (v, p2)"
      by (cases "scan_value h n (skip_ws p1)") auto
    with eq s c k e e' obtain d p3 where d: "skip_ws p2 = d # p3"
      by (cases "skip_ws p2") auto
    from eq s c k e e' v d IHv [OF v] show ?thesis
      by (auto split: if_splits dest: IHm)
  qed
  ultimately show ?case by blast
qed

lemma scan_value_invariant: "scan_value h n s = Inr (v, q) \<Longrightarrow> P v"
  using scan_all by blast

lemma loads_invariant: "loads h s = Inr v \<Longrightarrow> P v"
  by (auto simp: loads_def simp del: scan_value.simps split: if_splits dest: scan_value_invariant)

end

section \<open>Distinct keys\<close>

fun distinct_json :: "json \<Rightarrow> bool" where
  "distinct_json (JArr vs) \<longleftrightarrow> list_all distinct_json vs"
| "distinct_json (JObj kvs) \<longleftrightarrow> distinct (map fst kvs) \<and> list_all (\<lambda>(k, v). distinct_json v) kvs"
| "distinct_json _ \<longleftrightarrow> True"

lemma dict_set_distinct:
  assumes "distinct (map fst d)" "list_all (\<lambda>kv. P (snd kv)) d" "P v"
  shows "distinct (map fst (dict_set d k v)) \<and> list_all (\<lambda>kv. P (snd kv)) (dict_set d k v)"
proof -
  have "fst ` set (dict_set d k v) = insert k (fst ` set d)" for d
    by (induction d k v rule: dict_set.induct) auto
  then show ?thesis
    using assms by (induction d k v rule: dict_set.induct) auto
qed

lemma dict_of_pairs_invariant:
  assumes "list_all (\<lambda>kv. P (snd kv)) kvs"
  shows "distinct (map fst (dict_of_pairs kvs)) \<and> list_all (\<lambda>kv. P (snd kv)) (dict_of_pairs kvs)"
proof -
  have "distinct (map fst (foldl (\<lambda>d (k, v). dict_set d k v) d kvs))
      \<and> list_all (\<lambda>kv. P (snd kv)) (foldl (\<lambda>d (k, v). dict_set d k v) d kvs)"
    if "distinct (map fst d)" "list_all (\<lambda>kv. P (snd kv)) d" for d
    using that assms
  proof (induction kvs arbitrary: d)
    case (Cons kv kvs)
    obtain k v where kv: "kv = (k, v)" by (cases kv)
    with Cons.prems have "P v" "list_all (\<lambda>kv. P (snd kv)) kvs" by simp_all
    with Cons.IH dict_set_distinct [OF Cons.prems(1,2) \<open>P v\<close>] show ?case by (simp add: kv)
  qed simp
  from this [of "[]"] show ?thesis by (simp add: dict_of_pairs_def)
qed

interpretation default_parse: hook_invariant "default_hooks C" distinct_json for C
proof
  fix kvs v
  assume "list_all (\<lambda>kv. distinct_json (snd kv)) kvs" "h_pairs (default_hooks C) kvs = Inr v"
  with dict_of_pairs_invariant [of distinct_json kvs] show "distinct_json v"
    by (fastforce simp: default_hooks_def list_all_iff)
qed (auto simp: default_hooks_def split: if_splits)

end
