(* ===== verification/Gateway_Chain.thy ===== *)
theory Gateway_Chain
  imports Gateway_Ledger Json_Hooks
begin

text \<open>
  The audit file as a list of records: a line reads back to the record it was written for, a
  verified file grows by whole lines, and the entry digests chain the records.
\<close>

section \<open>Lines\<close>

lemma esc_byte_printable: "list_all (\<lambda>c. 32 \<le> ord c) (esc_byte c)"
proof (cases "short_escape (ord c)")
  case None
  have "32 \<le> ord (hex_digit d)" if "d < 16" for d using that by (simp add: hex_digit_def)
  with None show ?thesis by (auto simp: esc_byte_def u_escape_def)
next
  case (Some e)
  then have "32 \<le> ord e" by (auto simp: short_escape_def split: if_splits)
  with Some show ?thesis by (simp add: esc_byte_def)
qed

lemma render_str_printable: "list_all (\<lambda>c. 32 \<le> ord c) (render_str False s)"
  using esc_byte_printable by (induction s) (auto simp: render_str_def list_all_append)

lemma int_repr_printable: "list_all (\<lambda>c. 32 \<le> ord c) (int_repr i)"
proof -
  have "list_all (\<lambda>c. 32 \<le> ord c) (nat_digits n)" for n
    using nat_digits_all_digits [of n] by (auto simp: list_all_iff is_digit_def)
  then show ?thesis by (simp add: int_repr_def)
qed

lemma join_printable: "list_all (list_all (\<lambda>c. 32 \<le> ord c)) xs \<Longrightarrow> list_all (\<lambda>c. 32 \<le> ord c) (join '','' xs)"
proof (induction xs)
  case (Cons x xs)
  then show ?case by (cases xs) auto
qed simp

lemma render_printable: "plain_json False v \<Longrightarrow> list_all (\<lambda>c. 32 \<le> ord c) (render fr False v)"
proof (induction v)
  case (JArr vs)
  then have "list_all (list_all (\<lambda>c. 32 \<le> ord c)) (map (render fr False) vs)" by (auto simp: list_all_iff)
  then show ?case using join_printable by simp
next
  case (JObj kvs)
  then have "list_all (list_all (\<lambda>c. 32 \<le> ord c))
      (map (\<lambda>(k, v). render_str False k @ '':'' @ render fr False v) kvs)"
    using render_str_printable by (fastforce simp: list_all_iff)
  then show ?case using join_printable by simp
qed (use int_repr_printable render_str_printable in simp_all)

lemma splitlines_printable:
  "list_all (\<lambda>c. 32 \<le> ord c) line \<Longrightarrow> line \<noteq> [] \<Longrightarrow> splitlines (line @ [line_end]) = [line]"
proof (induction line)
  case (Cons c cs)
  then show ?case by (cases cs) (auto simp: line_end_def)
qed simp

lemma splitlines_nonempty: "s \<noteq> [] \<Longrightarrow> splitlines s \<noteq> []"
  by (cases s) (auto split: list.split)

lemma splitlines_append:
  "a = [] \<or> ord (last a) = 10 \<Longrightarrow> splitlines (a @ b) = splitlines a @ splitlines b"
proof (induction a rule: splitlines.induct)
  case (2 c cs)
  consider (lf) "ord c = 10" | (cr) "ord c = 13" | (other) "ord c \<noteq> 10" "ord c \<noteq> 13" by blast
  then show ?case
  proof cases
    case lf
    with "2.prems" have "cs = [] \<or> ord (last cs) = 10" by (auto split: if_splits)
    with "2.IH"(1) [OF lf] lf show ?thesis by simp
  next
    case cr
    with "2.prems" obtain d ds where cs: "cs = d # ds" by (cases cs) auto
    with "2.prems" have l: "ord d \<noteq> 10 \<Longrightarrow> ord (last cs) = 10" "ds = [] \<or> ord (last ds) = 10"
      by (auto split: if_splits)
    show ?thesis
    proof (cases "ord d = 10")
      case True
      with "2.IH"(2) [OF _ cr cs True l(2)] cr cs show ?thesis by simp
    next
      case False
      with "2.IH"(3) [OF _ cr cs False] l(1) cr cs show ?thesis by simp
    qed
  next
    case other
    with "2.prems" have cs: "cs \<noteq> []" "ord (last cs) = 10" by (auto split: if_splits)
    with "2.IH"(4) [OF other] have eq: "splitlines (cs @ b) = splitlines cs @ splitlines b" by simp
    obtain w ws where "splitlines cs = w # ws" using splitlines_nonempty [OF cs(1)] by (cases "splitlines cs") auto
    with eq other show ?thesis by simp
  qed
qed simp

section \<open>A line reads back\<close>

definition sorted_fields :: "audit_record \<Rightarrow> (string \<times> json) list" where
  "sorted_fields r =
     [(''disposition'', JStr (gw_disposition_text (au_disposition r))),
      (''entry_sha256'', JStr (au_entry r)),
      (''occurred_at'', JStr (au_occurred r)),
      (''operation'', JStr (operation_text (au_operation r))),
      (''payload_commitment'', JStr (au_payload r)),
      (''policy_sha256'', JStr (au_policy r)),
      (''previous_entry_sha256'', JStr (au_previous r)),
      (''privacy_key_id_sha256'', JStr (au_key_id r)),
      (''protocol'', JStr (protocol_text (au_protocol r))),
      (''reason_code'', JStr (au_reason r)),
      (''request_id_commitment'', JStr (au_request r)),
      (''schema_version'', JStr ''AgenticSecurityHarnessGatewayAudit.v1''),
      (''sequence'', JInt (au_sequence r)),
      (''subject_commitment'', JStr (au_subject r))]"

lemma sort_audit_doc: "sort_keys (audit_doc r) = JObj (sorted_fields r)"
  by (simp add: audit_doc_def unsigned_fields_def sorted_fields_def)

definition plain_record :: "audit_record \<Rightarrow> bool" where
  "plain_record r \<longleftrightarrow> mk_audit_record r = Inr r \<and> is_ascii (au_occurred r) \<and> au_sequence r < 1000000"

lemma disposition_text_ascii [simp]: "is_ascii (gw_disposition_text d)"
  by (cases d) simp_all

lemma operation_text_ascii [simp]: "is_ascii (operation_text d)"
  by (cases d) simp_all

lemma protocol_text_ascii [simp]: "is_ascii (protocol_text d)"
  by (cases d) simp_all

lemma enum_text_lengths:
  "length (gw_disposition_text d) \<le> 19" "length (operation_text p) \<le> 19" "length (protocol_text q) \<le> 19"
  subgoal by (cases d; simp)
  subgoal by (cases p; simp)
  subgoal by (cases q; simp)
  done

lemma mk_audit_record_Inr:
  "mk_audit_record r = Inr r' \<longleftrightarrow> r' = r \<and> 1 \<le> au_sequence r \<and> occurred_ok (au_occurred r)
     \<and> list_all sha256_text [au_request r, au_subject r, au_payload r, au_key_id r, au_policy r, au_previous r, au_entry r]
     \<and> safe_token (au_reason r)"
  by (auto simp: mk_audit_record_def raise_first_Inr_iff)

lemma plain_record_texts:
  assumes "plain_record r"
  shows "list_all (\<lambda>s. is_ascii s \<and> length s = 64)
      [au_request r, au_subject r, au_payload r, au_key_id r, au_policy r, au_previous r, au_entry r]"
    "is_ascii (au_occurred r) \<and> length (au_occurred r) = 20"
    "is_ascii (au_reason r) \<and> length (au_reason r) \<le> 128"
proof -
  show "list_all (\<lambda>s. is_ascii s \<and> length s = 64)
      [au_request r, au_subject r, au_payload r, au_key_id r, au_policy r, au_previous r, au_entry r]"
    using assms by (auto simp: plain_record_def mk_audit_record_Inr sha256_text_ascii) (auto simp: sha256_text_def)
  have "occurred_ok (au_occurred r)" "is_ascii (au_occurred r)"
    using assms by (auto simp: plain_record_def mk_audit_record_Inr)
  then show "is_ascii (au_occurred r) \<and> length (au_occurred r) = 20"
    unfolding occurred_ok_def using list_all2_lengthD by (fastforce simp: code_points_ascii)
  have "safe_token (au_reason r)" using assms by (auto simp: plain_record_def mk_audit_record_Inr)
  from safe_token_ascii [OF this] safe_token_length [OF this]
  show "is_ascii (au_reason r) \<and> length (au_reason r) \<le> 128" by blast
qed

lemma audit_fields_plain:
  assumes "plain_record r"
  shows "load_ok True (JObj (sorted_fields r))"
proof -
  have "digit_count (int_repr (au_sequence r)) \<le> int_digit_limit"
  proof -
    have "length (int_repr (au_sequence r)) \<le> 6"
      using assms int_repr_length [of "au_sequence r" 5] by (auto simp: plain_record_def mk_audit_record_Inr)
    then show ?thesis using digit_count_le [of "int_repr (au_sequence r)"] by (simp add: int_digit_limit_def)
  qed
  then show ?thesis
    using plain_record_texts [OF assms] by (simp add: sorted_fields_def str_ok_def)
qed

lemma load_ok_strict: "load_ok asc v \<Longrightarrow> json_ok (strict_hooks C) False v"
proof (induction v)
  case (JArr vs)
  then show ?case by (auto simp: list_all_iff)
next
  case (JObj kvs)
  then show ?case by (fastforce simp: list_all_iff strict_hooks_def str_ok_def)
qed (simp_all add: strict_hooks_def str_ok_def)

lemma render_str_False_ascii: "is_ascii s \<Longrightarrow> is_ascii (render_str False s)"
proof -
  assume "is_ascii s"
  then have "is_ascii (concat (map esc_byte s))"
    by (induction s) (auto simp: esc_byte_def u_escape_def short_escape_def hex_digit_def)
  then show ?thesis by (simp add: render_str_def)
qed

lemma render_False_ascii: "plain_json True v \<Longrightarrow> is_ascii (render fr False v)"
proof (induction v)
  case (JArr vs)
  then have "list_all is_ascii (map (render fr False) vs)" by (auto simp: list_all_iff)
  then show ?case using is_ascii_join by simp
next
  case (JObj kvs)
  then have "list_all is_ascii (map (\<lambda>(k, v). render_str False k @ '':'' @ render fr False v) kvs)"
    by (fastforce simp: list_all_iff str_ok_def render_str_False_ascii)
  then show ?case using is_ascii_join by simp
qed (auto simp: int_repr_ascii str_ok_def render_str_False_ascii)

lemma audit_line_render: "audit_line C r = render (float_repr C) False (JObj (sorted_fields r))"
  by (simp add: audit_line_def gw_json_def dumps_def sort_audit_doc)

lemma audit_line_text:
  assumes "plain_record r"
  shows "is_ascii (audit_line C r) \<and> list_all (\<lambda>c. 32 \<le> ord c) (audit_line C r) \<and> audit_line C r \<noteq> []"
proof -
  have "plain_json True (JObj (sorted_fields r))" using audit_fields_plain [OF assms] load_ok_plain by blast
  moreover have "plain_json False v" if "plain_json True v" for v
    using that
  proof (induction v)
    case (JArr vs)
    then show ?case by (auto simp: list_all_iff)
  next
    case (JObj kvs)
    then show ?case by (fastforce simp: list_all_iff str_ok_def)
  qed (simp_all add: str_ok_def)
  ultimately show ?thesis
    using render_False_ascii render_printable unfolding audit_line_render by fastforce
qed

lemma fields_bounded:
  assumes "plain_record r"
  shows "validate_json_value 0 (JObj (sorted_fields r)) = Inr ()"
proof -
  have "- (2 ^ 63) \<le> au_sequence r" "au_sequence r < 2 ^ 63"
    using assms by (auto simp: plain_record_def mk_audit_record_Inr)
  moreover have "length (gw_disposition_text d) \<le> 16384" "length (operation_text p) \<le> 16384"
    "length (protocol_text q) \<le> 16384" for d p q
    using enum_text_lengths(1) [of d] enum_text_lengths(2) [of p] enum_text_lengths(3) [of q] by linarith+
  ultimately show ?thesis
    using plain_record_texts [OF assms]
    by (simp add: validate_json_value.simps sorted_fields_def py_len_ascii encodable_ascii int64_ok_def)
qed

lemma strict_audit_line:
  assumes "plain_record r"
  shows "strict_json_object C (audit_line C r) = Inr (sorted_fields r)"
proof -
  have "loads (strict_hooks C) (audit_line C r) = Inr (JObj (sorted_fields r))"
    unfolding audit_line_render by (rule loads_render [OF load_ok_strict [OF audit_fields_plain [OF assms]]])
  then show ?thesis
    using audit_line_text [OF assms] fields_bounded [OF assms]
    by (simp add: strict_json_object_def utf8_valid_ascii)
qed

lemma parse_texts [simp]:
  "parse_protocol (protocol_text p) = Some p"
  "parse_operation (operation_text q) = Some q"
  "parse_disposition (gw_disposition_text d) = Some d"
  subgoal by (cases p; simp add: parse_protocol_def)
  subgoal by (cases q; simp add: parse_operation_def)
  subgoal by (cases d; simp add: parse_disposition_def)
  done

lemma audit_of_sorted_fields: "audit_of_fields (sorted_fields r) = Some r"
proof -
  have "set [''disposition'', ''entry_sha256'', ''occurred_at'', ''operation'', ''payload_commitment'', ''policy_sha256'',
      ''previous_entry_sha256'', ''privacy_key_id_sha256'', ''protocol'', ''reason_code'', ''request_id_commitment'',
      ''schema_version'', ''sequence'', ''subject_commitment''] = audit_keys"
    unfolding audit_keys_def by code_simp
  then have "obj_keys (sorted_fields r) = audit_keys"
    unfolding obj_keys_def set_map [symmetric] by (simp add: sorted_fields_def)
  then show ?thesis
    by (simp add: audit_of_fields_def) (simp add: get_text_def get_int_def obj_get_def sorted_fields_def)
qed

lemma render_str_safe_length: "safe_token s \<Longrightarrow> length (render_str False s) \<le> 130"
proof -
  assume t: "safe_token s"
  have "esc_byte c = [c]" if "safe_token_char c" for c
    using that by (auto simp: safe_token_char_def esc_byte_def short_escape_def is_lower_alpha_def is_digit_def)
  moreover have "list_all safe_token_char s" using t by (cases s) (auto simp: safe_token_char_def)
  ultimately have "concat (map esc_byte s) = s" by (induction s) auto
  with safe_token_length [OF t] show ?thesis by (simp add: render_str_def)
qed

lemma render_obj_length:
  assumes "\<And>k v. (k, v) \<in> set kvs \<Longrightarrow> length k \<le> 21 \<and> length (render fr False v) \<le> 386"
  shows "length (render fr False (JObj kvs)) \<le> 516 * length kvs + 2"
proof -
  have "length (member_text fr False kv) \<le> 515" if "kv \<in> set kvs" for kv
    using assms [of "fst kv" "snd kv"] that render_str_length [of "fst kv"] by (simp add: member_text_def)
  then have "sum_list (map (length \<circ> member_text fr False) kvs) \<le> 515 * length kvs"
    by (induction kvs) (auto intro!: add_mono)
  then show ?thesis
    unfolding render_obj by (simp add: length_join comp_def)
qed

lemma audit_line_length:
  assumes "plain_record r"
  shows "length (audit_line C r) \<le> 8192"
proof -
  have t: "length (render_str False s) \<le> 386" if "length s \<le> 64" for s
    using render_str_length [of s] that by linarith
  have "length (int_repr (au_sequence r)) \<le> 6"
    using assms int_repr_length [of "au_sequence r" 5] by (auto simp: plain_record_def mk_audit_record_Inr)
  moreover have "length (render_str False (au_reason r)) \<le> 386"
    using render_str_safe_length [of "au_reason r"] assms by (auto simp: plain_record_def mk_audit_record_Inr)
  moreover have "length (render_str False (gw_disposition_text d)) \<le> 386"
    "length (render_str False (operation_text p)) \<le> 386" "length (render_str False (protocol_text q)) \<le> 386" for d p q
    using enum_text_lengths(1) [of d] enum_text_lengths(2) [of p] enum_text_lengths(3) [of q] by (auto intro!: t)
  ultimately have "length k \<le> 21 \<and> length (render (float_repr C) False v) \<le> 386"
    if "(k, v) \<in> set (sorted_fields r)" for k v
    using that plain_record_texts [OF assms] t by (auto simp: sorted_fields_def)
  from render_obj_length [of "sorted_fields r", OF this]
  show ?thesis unfolding audit_line_render by (simp add: sorted_fields_def)
qed

lemma read_line_written:
  assumes "plain_record r" "audit_verify C r = Inr ()" "au_key_id r = sha256_hex C key"
    and "au_sequence r = int i" "au_previous r = previous"
  shows "read_line C key i previous (audit_line C r) = Inr r"
  using assms audit_line_length [OF assms(1)]
  by (simp add: read_line_def strict_audit_line audit_validate_def audit_of_sorted_fields plain_record_def)

interpretation strict_parse: hook_invariant "strict_hooks C" distinct_json for C
proof
  fix kvs v
  assume "list_all (\<lambda>kv. distinct_json (snd kv)) kvs" "h_pairs (strict_hooks C) kvs = Inr v"
  then show "distinct_json v" by (fastforce simp: strict_hooks_def list_all_iff split: if_splits)
qed (auto simp: strict_hooks_def split: if_splits)

lemma strict_json_distinct: "strict_json_object C raw = Inr kvs \<Longrightarrow> distinct_json (JObj kvs)"
proof -
  assume "strict_json_object C raw = Inr kvs"
  then have "loads (strict_hooks C) raw = Inr (JObj kvs)"
    by (auto simp: strict_json_object_def json_obj_case)
  then show ?thesis by (rule strict_parse.loads_invariant)
qed

section \<open>Verified files grow by lines\<close>

lemma read_lines_snoc:
  "read_lines C key i previous (ls @ [l]) =
     res_bind (read_lines C key i previous ls)
       (\<lambda>rs. res_bind (read_line C key (i + length ls) (if rs = [] then previous else au_entry (last rs)) l)
          (\<lambda>r. Inr (rs @ [r])))"
proof (induction ls arbitrary: i previous)
  case Nil
  show ?case by (cases "read_line C key i previous l") simp_all
next
  case (Cons k ls)
  show ?case
  proof (cases "read_line C key i previous k")
    case (Inr r)
    show ?thesis
    proof (cases "read_lines C key (Suc i) (au_entry r) ls")
      case (Inr rs)
      with Cons.IH [of "Suc i" "au_entry r"] \<open>read_line C key i previous k = Inr r\<close> show ?thesis
        by (cases "read_line C key (Suc (i + length ls)) (if rs = [] then au_entry r else au_entry (last rs)) l") auto
    next
      case (Inl e)
      with Cons.IH [of "Suc i" "au_entry r"] \<open>read_line C key i previous k = Inr r\<close> show ?thesis by simp
    qed
  qed simp
qed

lemma read_lines_length: "read_lines C key i previous ls = Inr rs \<Longrightarrow> length rs = length ls"
  by (induction ls arbitrary: i previous rs) auto

definition ledger_bytes :: "audit_ledger \<Rightarrow> string" where
  "ledger_bytes l = (case al_file l of None \<Rightarrow> [] | Some raw \<Rightarrow> raw)"

lemma read_records_Inr:
  "read_records C l = Inr rs \<longleftrightarrow>
     length (ledger_bytes l) \<le> max_audit_bytes \<and> (ledger_bytes l = [] \<or> ord (last (ledger_bytes l)) = 10)
     \<and> length (splitlines (ledger_bytes l)) \<le> max_audit_records
     \<and> read_lines C (al_key l) 1 zero_sha256 (splitlines (ledger_bytes l)) = Inr rs"
  by (auto simp: read_records_def ledger_bytes_def parse_ledger_def max_audit_bytes_def split: option.splits)

definition with_line :: "codec \<Rightarrow> audit_record \<Rightarrow> audit_ledger \<Rightarrow> audit_ledger" where
  "with_line C r l = l\<lparr>al_file := Some (ledger_bytes l @ audit_line C r @ [line_end])\<rparr>"

lemma with_line_simps [simp]:
  "ledger_bytes (with_line C r l) = ledger_bytes l @ audit_line C r @ [line_end]"
  "al_key (with_line C r l) = al_key l" "al_closed (with_line C r l) = al_closed l"
  by (simp_all add: with_line_def ledger_bytes_def)

definition next_of :: "audit_record list \<Rightarrow> audit_record \<Rightarrow> bool" where
  "next_of rs r \<longleftrightarrow> au_sequence r = int (length rs) + 1
     \<and> au_previous r = (if rs = [] then zero_sha256 else au_entry (last rs))"

lemma read_with_line:
  assumes "read_records C l = Inr rs" "plain_record r" "audit_verify C r = Inr ()" "au_key_id r = sha256_hex C (al_key l)"
    and "next_of rs r" "length (ledger_bytes (with_line C r l)) \<le> max_audit_bytes" "length rs < max_audit_records"
  shows "read_records C (with_line C r l) = Inr (rs @ [r])"
proof -
  let ?raw = "ledger_bytes l"
  have old: "?raw = [] \<or> ord (last ?raw) = 10" "read_lines C (al_key l) 1 zero_sha256 (splitlines ?raw) = Inr rs"
    using assms(1) unfolding read_records_Inr by blast+
  have t: "list_all (\<lambda>c. 32 \<le> ord c) (audit_line C r)" "audit_line C r \<noteq> []"
    using audit_line_text [OF assms(2)] by blast+
  have lines: "splitlines (?raw @ audit_line C r @ [line_end]) = splitlines ?raw @ [audit_line C r]"
    using splitlines_append [OF old(1)] splitlines_printable [OF t] by simp
  have "read_line C (al_key l) (1 + length (splitlines ?raw)) (if rs = [] then zero_sha256 else au_entry (last rs))
      (audit_line C r) = Inr r"
    by (rule read_line_written [OF assms(2,3,4)]) (use assms(5) read_lines_length [OF old(2)] in \<open>simp_all add: next_of_def\<close>)
  then have "read_lines C (al_key l) 1 zero_sha256 (splitlines ?raw @ [audit_line C r]) = Inr (rs @ [r])"
    by (simp add: read_lines_snoc old(2) [simplified])
  then show ?thesis
    using assms(6,7) read_lines_length [OF old(2)] unfolding read_records_Inr
    by (simp add: lines) (simp add: line_end_def)
qed

section \<open>What an append writes\<close>

text \<open>Digests print as 64 lower-case hex digits.\<close>

definition digests_hex :: "codec \<Rightarrow> bool" where
  "digests_hex C \<longleftrightarrow> (\<forall>s. sha256_text (sha256_hex C s)) \<and> (\<forall>k s. sha256_text (hmac_sha256_hex C k s))"

lemma commitment_hex: "digests_hex C \<Longrightarrow> commitment C key d v = Inr c \<Longrightarrow> sha256_text c"
  by (auto simp: commitment_def digests_hex_def)

lemma entry_digest_upd [simp]: "entry_digest C (r\<lparr>au_entry := x\<rparr>) = entry_digest C r"
  by (simp add: entry_digest_def unsigned_fields_def)

lemma record_for_facts:
  assumes "audit_record_for C key now rs e = Inr r"
  shows "mk_audit_record r = Inr r \<and> audit_verify C r = Inr () \<and> au_key_id r = sha256_hex C key \<and> next_of rs r
    \<and> au_occurred r = now \<and> au_protocol r = oe_protocol e \<and> au_operation r = oe_operation e
    \<and> au_policy r = oe_policy e \<and> au_disposition r = oe_verdict e \<and> au_reason r = oe_reason e"
  using assms
  by (auto simp: audit_record_for_def Let_def mk_audit_record_Inr next_of_def audit_verify_def)
    (simp_all add: entry_digest_def unsigned_fields_def)

lemma append_written:
  assumes "\<not> al_closed l" "read_records C l = Inr rs" "audit_record_for C (al_key l) now rs e = Inr r"
  shows "ledger_append C now e l = (with_line C r l, res_bind (read_records C (with_line C r l))
    (\<lambda>qs. res_bind (ensure (qs \<noteq> [] \<and> last qs = r) (ContractError ''gateway audit append verification failed''))
       (\<lambda>_. Inr r)))"
  using assms by (simp add: ledger_append_def Let_def with_line_def ledger_bytes_def)

lemma append_cases:
  assumes "ledger_append C now e l = (l', res)"
  obtains (refused) err where "l' = l" "res = Inl err"
    | (written) rs r where "\<not> al_closed l" "read_records C l = Inr rs" "audit_record_for C (al_key l) now rs e = Inr r"
        "l' = with_line C r l"
        "res = res_bind (read_records C l') (\<lambda>qs. res_bind (ensure (qs \<noteq> [] \<and> last qs = r)
           (ContractError ''gateway audit append verification failed'')) (\<lambda>_. Inr r))"
proof (cases "al_closed l")
  case True
  then have "l' = l" "res = Inl (ContractError ''gateway audit ledger is closed'')"
    using assms by (simp_all add: ledger_append_def)
  then show ?thesis by (rule refused)
next
  case open_: False
  show ?thesis
  proof (cases "read_records C l")
    case (Inl err)
    then have "l' = l" "res = Inl err" using assms open_ by (simp_all add: ledger_append_def)
    then show ?thesis by (rule refused)
  next
    case read: (Inr rs)
    show ?thesis
    proof (cases "audit_record_for C (al_key l) now rs e")
      case (Inl err)
      then have "l' = l" "res = Inl err" using assms open_ read by (simp_all add: ledger_append_def)
      then show ?thesis by (rule refused)
    next
      case (Inr r)
      note eq = append_written [OF open_ read Inr]
      have l': "l' = with_line C r l" using assms eq by simp
      have "res = res_bind (read_records C l') (\<lambda>qs. res_bind (ensure (qs \<noteq> [] \<and> last qs = r)
           (ContractError ''gateway audit append verification failed'')) (\<lambda>_. Inr r))"
        using assms eq by auto
      from written [OF open_ read Inr l' this] show ?thesis .
    qed
  qed
qed

lemma append_success:
  assumes "ledger_append C now e l = (l', Inr r)"
  shows "\<exists>rs. read_records C l = Inr rs \<and> audit_record_for C (al_key l) now rs e = Inr r \<and> l' = with_line C r l
    \<and> \<not> al_closed l"
  using assms
proof (cases rule: append_cases)
  case (written rs q)
  from written(5) have "q = r" by (auto simp: eq_commute [of "Inr r"])
  with written show ?thesis by blast
qed simp

text \<open>The error that only the limits of the file can cause.\<close>

lemma append_over_limit:
  assumes "read_records C l = Inr rs" "plain_record r"
    and "max_audit_bytes < length (ledger_bytes (with_line C r l)) \<or> max_audit_records \<le> length rs"
  shows "\<exists>e. read_records C (with_line C r l) = Inl e"
proof -
  have "splitlines (ledger_bytes (with_line C r l)) = splitlines (ledger_bytes l) @ [audit_line C r]"
    using assms(1) splitlines_append [of "ledger_bytes l"] audit_line_text [OF assms(2)] splitlines_printable
    unfolding read_records_Inr with_line_simps by metis
  moreover have "length (splitlines (ledger_bytes l)) = length rs"
    using assms(1) read_lines_length unfolding read_records_Inr by metis
  ultimately have "\<not> (length (ledger_bytes (with_line C r l)) \<le> max_audit_bytes
      \<and> length (splitlines (ledger_bytes (with_line C r l))) \<le> max_audit_records)"
    using assms(3) by auto
  then have "read_records C (with_line C r l) \<noteq> Inr qs" for qs
    unfolding read_records_Inr by blast
  then show ?thesis by (cases "read_records C (with_line C r l)") auto
qed

lemma record_for_plain:
  assumes "audit_record_for C key now rs e = Inr r" "is_ascii now" "length rs < max_audit_records + 1"
  shows "plain_record r"
  using record_for_facts [OF assms(1)] assms(2,3) by (auto simp: plain_record_def next_of_def max_audit_records_def)

section \<open>Chains of records\<close>

fun audit_chain :: "codec \<Rightarrow> string \<Rightarrow> nat \<Rightarrow> string \<Rightarrow> audit_record list \<Rightarrow> bool" where
  "audit_chain C key index previous [] \<longleftrightarrow> True"
| "audit_chain C key index previous (r # rs) \<longleftrightarrow>
     mk_audit_record r = Inr r \<and> au_entry r = entry_digest C r \<and> au_key_id r = sha256_hex C key
     \<and> au_sequence r = int index \<and> au_previous r = previous \<and> audit_chain C key (Suc index) (au_entry r) rs"

lemma read_line_Inr:
  assumes "read_line C key i previous line = Inr r"
  shows "audit_line C r = line \<and> mk_audit_record r = Inr r \<and> au_entry r = entry_digest C r
    \<and> au_key_id r = sha256_hex C key \<and> au_sequence r = int i \<and> au_previous r = previous"
  using assms
  by (auto simp: read_line_def audit_validate_def audit_verify_def mk_audit_record_Inr split: option.splits)

lemma read_lines_Inr:
  "read_lines C key i previous ls = Inr rs \<Longrightarrow> map (audit_line C) rs = ls \<and> audit_chain C key i previous rs"
  by (induction ls arbitrary: i previous rs) (auto dest: read_line_Inr)

lemma audit_chain_snoc:
  "audit_chain C key i previous (rs @ [r]) \<longleftrightarrow>
     audit_chain C key i previous rs \<and> mk_audit_record r = Inr r \<and> au_entry r = entry_digest C r
     \<and> au_key_id r = sha256_hex C key \<and> au_sequence r = int (i + length rs)
     \<and> au_previous r = (if rs = [] then previous else au_entry (last rs))"
  by (induction rs arbitrary: i previous) auto

interpretation gate: json_digest "\<lambda>C. sha256_domain C d" "\<lambda>C. domain_text C d" "plain_json False" for d
  by unfold_locales (auto simp: sha256_domain_def domain_text_def gw_json_def intro: dumps_inject)

lemma texts_inject [simp]:
  "gw_disposition_text a = gw_disposition_text b \<longleftrightarrow> a = b"
  "protocol_text p = protocol_text q \<longleftrightarrow> p = q"
  "operation_text x = operation_text y \<longleftrightarrow> x = y"
  by (metis parse_texts option.inject)+

lemma unsigned_inject:
  assumes "sort_keys (JObj (unsigned_fields r)) = sort_keys (JObj (unsigned_fields q))" "au_entry r = au_entry q"
  shows "r = q"
  using assms by (auto simp: unsigned_fields_def intro!: audit_record.equality)

lemma unsigned_plain: "plain_json False (JObj (unsigned_fields r))"
  by (simp add: unsigned_fields_def str_ok_def)

definition entry_texts :: "codec \<Rightarrow> audit_record list \<Rightarrow> string set" where
  "entry_texts C rs = (\<lambda>r. domain_text C entry_domain (JObj (unsigned_fields r))) ` set rs"

lemma entry_inject:
  assumes "inj_on (sha256_hex C) T" "entry_texts C [r, q] \<subseteq> T"
    and "au_entry r = entry_digest C r" "au_entry q = entry_digest C q" "au_entry r = au_entry q"
  shows "r = q"
proof (rule unsigned_inject [OF _ assms(5)])
  show "sort_keys (JObj (unsigned_fields r)) = sort_keys (JObj (unsigned_fields q))"
    by (rule gate.digest_binding_on [OF assms(1), of entry_domain])
      (use assms(2-5) in \<open>simp_all add: entry_texts_def entry_digest_def unsigned_plain del: plain_json.simps\<close>)
qed

text \<open>A chain is determined by the digest at its end.\<close>

lemma audit_chain_inject:
  assumes "audit_chain C key i previous rs" "audit_chain C key' i previous' qs"
    and "inj_on (sha256_hex C) T" "entry_texts C rs \<subseteq> T" "entry_texts C qs \<subseteq> T"
    and "rs \<noteq> []" "qs \<noteq> []" "au_entry (last rs) = au_entry (last qs)"
  shows "rs = qs"
  using assms
proof (induction rs arbitrary: qs rule: rev_induct)
  case (snoc r rs)
  obtain ps q where qs: "qs = ps @ [q]" using snoc.prems(7) by (cases qs rule: rev_cases) auto
  have t: "entry_texts C rs \<subseteq> T" "entry_texts C ps \<subseteq> T" "entry_texts C [r, q] \<subseteq> T"
    using snoc.prems(4,5) unfolding qs by (auto simp: entry_texts_def)
  have c: "audit_chain C key i previous rs" "audit_chain C key' i previous' ps"
    "au_entry r = entry_digest C r" "au_entry q = entry_digest C q" "au_entry r = au_entry q"
    "au_sequence r = int (i + length rs)" "au_sequence q = int (i + length ps)"
    using snoc.prems(1,2,8) unfolding qs audit_chain_snoc by simp_all
  have eq: "r = q" by (rule entry_inject [OF snoc.prems(3) t(3) c(3,4,5)])
  with c(6,7) have len: "length rs = length ps" by simp
  have "rs = ps"
  proof (cases "rs = []")
    case False
    with len have ne: "ps \<noteq> []" by auto
    have "au_entry (last rs) = au_entry (last ps)"
      using snoc.prems(1,2) False ne eq unfolding qs audit_chain_snoc by simp
    from snoc.IH [OF c(1,2) snoc.prems(3) t(1,2) False ne this] show ?thesis .
  qed (use len in simp)
  with eq show ?case unfolding qs by simp
qed simp

section \<open>The limits of the file\<close>

text \<open>The record of this append stays within both limits.\<close>

definition fits :: "codec \<Rightarrow> string \<Rightarrow> audit_event \<Rightarrow> audit_ledger \<Rightarrow> audit_record list \<Rightarrow> bool" where
  "fits C now e l rs \<longleftrightarrow> length rs < max_audit_records
     \<and> (case audit_record_for C (al_key l) now rs e of
          Inl _ \<Rightarrow> True
        | Inr r \<Rightarrow> length (ledger_bytes l @ audit_line C r @ [line_end]) \<le> max_audit_bytes)"

lemma fits_if_space:
  assumes "is_ascii now" "length rs < max_audit_records" "length (ledger_bytes l) + 8193 \<le> max_audit_bytes"
  shows "fits C now e l rs"
proof (cases "audit_record_for C (al_key l) now rs e")
  case (Inr r)
  with record_for_plain [OF Inr assms(1)] assms audit_line_length [of r C] show ?thesis
    by (simp add: fits_def)
qed (use assms(2) in \<open>simp add: fits_def\<close>)

end
