(* ===== verification/Gateway_Http.thy ===== *)
theory Gateway_Http
  imports Gateway_Ledger
begin

text \<open>
  \<open>GatewayEngine\<close> and the request handler: policy before dispatch, the audit append before the
  execution, and the two HTTP methods with every early return. A handler returns the new gateway and
  either the reply it writes or the exception that leaves it without a reply.
\<close>

section \<open>The engine\<close>

record gateway =
  gw_policy :: gateway_policy
  gw_ledger :: audit_ledger
  gw_executions :: nat

text \<open>What a request takes from outside: two random identifiers in hex, the clock as text and as seconds.\<close>

record gw_env =
  ge_request_hex :: string
  ge_call_hex :: string
  ge_now :: string
  ge_time :: int

definition record_operation ::
  "codec \<Rightarrow> gw_env \<Rightarrow> string \<Rightarrow> gw_protocol \<Rightarrow> gw_operation \<Rightarrow> string \<Rightarrow> json \<Rightarrow> string \<Rightarrow> gateway
   \<Rightarrow> gateway \<times> (gateway_error + unit)" where
  "record_operation C env rid proto op subject payload reason g =
     (let (l, res) = ledger_append C (ge_now env)
            \<lparr>oe_request = rid, oe_protocol = proto, oe_operation = op, oe_subject = subject, oe_payload = payload,
             oe_policy = policy_sha256 C (gw_policy g), oe_verdict = GwAllow, oe_reason = reason\<rparr> (gw_ledger g)
      in (g\<lparr>gw_ledger := l\<rparr>, res_bind res (\<lambda>_. Inr ())))"

definition result_version :: string where
  "result_version = ''AgenticSecurityHarnessSyntheticToolResult.v1''"

definition lookup_values :: "(string \<times> string) list" where
  "lookup_values = [(''gateway-mode'', ''loopback-synthetic''), (''project-status'', ''development-contour'')]"

definition execute_synthetic :: "codec \<Rightarrow> tool_call \<Rightarrow> gateway_error + json" where
  "execute_synthetic C c =
     (if tc_tool c = ''synthetic.sha256'' then
        (case obj_get (tc_args c) ''text'' of
           Some (JStr v) \<Rightarrow> Inr (JObj
             [(''schema_version'', JStr result_version), (''tool'', JStr (tc_tool c)), (''sha256'', JStr (sha256_hex C v))])
         | _ \<Rightarrow> Inl (LookupFailed ''text''))
      else if tc_tool c = ''synthetic.lookup'' then
        (case obj_get (tc_args c) ''key'' of
           Some (JStr k) \<Rightarrow>
             (case map_of lookup_values k of
                Some v \<Rightarrow> Inr (JObj
                  [(''schema_version'', JStr result_version), (''tool'', JStr (tc_tool c)), (''key'', JStr k), (''value'', JStr v)])
              | None \<Rightarrow> Inl (LookupFailed ''values''))
         | _ \<Rightarrow> Inl (LookupFailed ''key''))
      else Inl (ContractError ''policy allowed a tool without a synthetic executor''))"

definition call_tool ::
  "codec \<Rightarrow> gw_env \<Rightarrow> string \<Rightarrow> tool_call \<Rightarrow> gateway \<Rightarrow> gateway \<times> (gateway_error + gateway_decision \<times> json option)" where
  "call_tool C env rid c g =
     (case evaluate_gateway_tool_call C c (gw_policy g) of
        Inl e \<Rightarrow> (g, Inl e)
      | Inr d \<Rightarrow>
          (let (l, res) = ledger_append C (ge_now env)
                 \<lparr>oe_request = rid, oe_protocol = tc_protocol c, oe_operation = ToolCallOp, oe_subject = tc_tool c,
                  oe_payload = JObj (tc_args c), oe_policy = dn_policy d, oe_verdict = dn_disposition d,
                  oe_reason = dn_reason d\<rparr> (gw_ledger g);
               g' = g\<lparr>gw_ledger := l\<rparr>
           in case res of
                Inl e \<Rightarrow> (g', Inl e)
              | Inr _ \<Rightarrow>
                  if \<not> dn_permitted d then (g', Inr (d, None))
                  else (case execute_synthetic C c of
                          Inl e \<Rightarrow> (g', Inl e)
                        | Inr v \<Rightarrow> (g'\<lparr>gw_executions := Suc (gw_executions g)\<rparr>, Inr (d, Some v)))))"

section \<open>Requests and replies\<close>

text \<open>
  Header names and values are the texts the HTTP library delivers (decoded from ISO 8859-1), the body
  is what the connection still holds.
\<close>

record http_request =
  rq_path :: string
  rq_headers :: "(string \<times> string) list"
  rq_body :: string

record http_reply =
  rp_status :: nat
  rp_headers :: "(string \<times> string) list"
  rp_body :: string

definition header_get :: "http_request \<Rightarrow> string \<Rightarrow> string option" where
  "header_get q name = map_option snd (find (\<lambda>(k, v). lower k = lower name) (rq_headers q))"

text \<open>\<open>str.strip()\<close> on such a text: U+0085 and U+00A0 are white space beside the ASCII ones.\<close>

fun lstrip_latin :: "string \<Rightarrow> string" where
  "lstrip_latin [] = []"
| "lstrip_latin (c # r) =
     (if is_space c then lstrip_latin r
      else (case r of
              d # r' \<Rightarrow> if ord c = 194 \<and> (ord d = 133 \<or> ord d = 160) then lstrip_latin r' else c # r
            | [] \<Rightarrow> [c]))"

fun rstrip_latin_rev :: "string \<Rightarrow> string" where
  "rstrip_latin_rev [] = []"
| "rstrip_latin_rev (d # r) =
     (if is_space d then rstrip_latin_rev r
      else (case r of
              c # r' \<Rightarrow> if ord c = 194 \<and> (ord d = 133 \<or> ord d = 160) then rstrip_latin_rev r' else d # r
            | [] \<Rightarrow> [d]))"

definition strip_latin :: "string \<Rightarrow> string" where
  "strip_latin s = rev (rstrip_latin_rev (rev (lstrip_latin s)))"

text \<open>\<open>value.split(";", 1)[0].strip().lower()\<close>\<close>

definition media_type :: "string \<Rightarrow> string" where
  "media_type v = lower (strip_latin (hd (split_on (CHR '';'') v)))"

definition quoted :: "string \<Rightarrow> string" where
  "quoted s = [CHR 0x27] @ s @ [CHR 0x27]"

definition write_bytes :: "nat \<Rightarrow> string \<Rightarrow> string \<Rightarrow> http_reply" where
  "write_bytes status body ctype =
     \<lparr>rp_status = status,
      rp_headers =
        [(''Content-Type'', ctype),
         (''Content-Length'', nat_digits (length body)),
         (''Cache-Control'', ''no-store''),
         (''X-Content-Type-Options'', ''nosniff''),
         (''Content-Security-Policy'', ''default-src '' @ quoted ''none'' @ ''; style-src '' @ quoted ''unsafe-inline''),
         (''Referrer-Policy'', ''no-referrer''),
         (''Connection'', ''close'')],
      rp_body = body\<rparr>"

definition write_json :: "codec \<Rightarrow> nat \<Rightarrow> json \<Rightarrow> gateway_error + http_reply" where
  "write_json C status payload =
     res_bind (canonical_json_bytes C payload) (\<lambda>b. Inr (write_bytes status b ''application/json''))"

definition json_error :: "codec \<Rightarrow> nat \<Rightarrow> string \<Rightarrow> string \<Rightarrow> (string \<times> json) list \<Rightarrow> gateway_error + http_reply" where
  "json_error C status code rid data =
     write_json C status (JObj [(''error'', JObj
       ([(''code'', JStr code), (''message'', JStr ''request rejected''), (''request_id'', JStr rid)] @ data))])"

definition mcp_result :: "codec \<Rightarrow> json \<Rightarrow> json \<Rightarrow> gateway_error + http_reply" where
  "mcp_result C rpc result =
     write_json C 200 (JObj [(''jsonrpc'', JStr ''2.0''), (''id'', rpc), (''result'', result)])"

definition mcp_error ::
  "codec \<Rightarrow> json \<Rightarrow> int \<Rightarrow> string \<Rightarrow> string \<Rightarrow> nat \<Rightarrow> (string \<times> json) list \<Rightarrow> gateway_error + http_reply" where
  "mcp_error C rpc code message rid status data =
     write_json C status (JObj
       [(''jsonrpc'', JStr ''2.0''), (''id'', rpc),
        (''error'', JObj [(''code'', JInt code), (''message'', JStr message),
                          (''data'', JObj ([(''requestId'', JStr rid)] @ data))])])"

definition request_id :: "gw_env \<Rightarrow> string" where
  "request_id env = ''gw_'' @ ge_request_hex env"

section \<open>The bounded clean-up of a rejected body\<close>

text \<open>Only a rejected POST whose body was not read is drained.\<close>

definition drains :: "string \<Rightarrow> nat \<Rightarrow> bool \<Rightarrow> bool" where
  "drains command status consumed \<longleftrightarrow> command = ''POST'' \<and> 400 \<le> status \<and> \<not> consumed"

datatype read_event = Chunk string | StreamEnd | DeadlinePassed | ReadFailed

definition discard_budget :: "int \<Rightarrow> http_request \<Rightarrow> nat" where
  "discard_budget max_body q =
     (let budget = nat (min max_body 65536);
          len = (case header_get q ''Content-Length'' of None \<Rightarrow> [] | Some v \<Rightarrow> v)
      in if length len \<le> 10 \<and> len \<noteq> [] \<and> list_all is_digit len then min budget (nat_of_digits len) else budget)"

fun discard_body :: "nat \<Rightarrow> read_event list \<Rightarrow> nat" where
  "discard_body budget [] = 0"
| "discard_body budget (e # es) =
     (if budget = 0 then 0
      else (case e of
              Chunk s \<Rightarrow>
                (let n = length (take (min budget 8192) s)
                 in if n = 0 then 0 else n + discard_body (budget - n) es)
            | _ \<Rightarrow> 0))"

section \<open>Admission of a request\<close>

definition headers_safe :: "http_request \<Rightarrow> bool" where
  "headers_safe q \<longleftrightarrow>
     \<not> list_ex (\<lambda>(k, v). lower k \<in> {''authorization'', ''cookie'', ''proxy-authorization''}) (rq_headers q)"

definition mcp_origin_safe :: "nat \<Rightarrow> http_request \<Rightarrow> bool" where
  "mcp_origin_safe port q \<longleftrightarrow>
     (case header_get q ''Origin'' of
        None \<Rightarrow> True
      | Some o' \<Rightarrow> o' = ''http://127.0.0.1:'' @ nat_digits port \<or> o' = ''http://localhost:'' @ nat_digits port)"

definition read_json_body :: "codec \<Rightarrow> int \<Rightarrow> http_request \<Rightarrow> gateway_error + (string \<times> json) list" where
  "read_json_body C max_body q =
     (if header_get q ''Transfer-Encoding'' \<noteq> None then Inl (ContractError ''transfer_encoding_forbidden'')
      else if media_type (case header_get q ''Content-Type'' of None \<Rightarrow> [] | Some v \<Rightarrow> v) \<noteq> ''application/json''
      then Inl (ContractError ''application_json_required'')
      else (case header_get q ''Content-Length'' of
          None \<Rightarrow> Inl (ContractError ''valid_content_length_required'')
        | Some raw \<Rightarrow>
            if raw = [] \<or> \<not> list_all is_digit raw then Inl (ContractError ''valid_content_length_required'')
            else if length raw > int_digit_limit then Inl IntDigitsError
            else (let len = nat_of_digits raw
                  in if int len > max_body then Inl (ContractError ''request_body_limit_exceeded'')
                     else if length (take len (rq_body q)) \<noteq> len then Inl (ContractError ''incomplete_request_body'')
                     else strict_json_object C (take len (rq_body q)))))"

section \<open>Chat completions\<close>

text \<open>\<open>json.dumps(result, sort_keys=True)\<close>: the separators with a space.\<close>

fun render_spaced :: "(pyfloat \<Rightarrow> string) \<Rightarrow> bool \<Rightarrow> json \<Rightarrow> string" where
  "render_spaced fr asc (JArr vs) = ''['' @ join '', '' (map (render_spaced fr asc) vs) @ '']''"
| "render_spaced fr asc (JObj kvs) =
     ''{'' @ join '', '' (map (\<lambda>(k, v). render_str asc k @ '': '' @ render_spaced fr asc v) kvs) @ ''}''"
| "render_spaced fr asc v = render fr asc v"

definition chat_response :: "gw_env \<Rightarrow> string \<Rightarrow> string \<Rightarrow> string \<Rightarrow> json" where
  "chat_response env rid model content = JObj
     [(''id'', JStr rid), (''object'', JStr ''chat.completion''), (''created'', JInt (ge_time env)),
      (''model'', JStr model),
      (''choices'', JArr [JObj
         [(''index'', JInt 0),
          (''message'', JObj [(''role'', JStr ''assistant''), (''content'', JStr content)]),
          (''finish_reason'', JStr ''stop'')]]),
      (''usage'', JObj [(''prompt_tokens'', JInt 0), (''completion_tokens'', JInt 0), (''total_tokens'', JInt 0)])]"

definition chat_keys :: "string list" where
  "chat_keys = [''model'', ''messages'', ''tools'', ''tool_choice'', ''temperature'', ''stream'']"

definition tool_by_model :: "(string \<times> (string \<times> (string \<times> json) list)) list" where
  "tool_by_model =
     [(''ash-fake-tool-allow'', (''synthetic.lookup'', [(''key'', JStr ''project-status'')])),
      (''ash-fake-tool-deny'', (''system.shell'', [(''command'', JStr ''not-executed'')])),
      (''ash-fake-tool-approval'', (''external.send'', [(''destination'', JStr ''not-executed'')]))]"

definition finish_chat :: "codec \<Rightarrow> gw_env \<Rightarrow> string \<Rightarrow> string \<Rightarrow> gateway_decision \<times> json option \<Rightarrow> gateway_error + http_reply" where
  "finish_chat C env rid model dr =
     (let d = fst dr
      in case dn_disposition d of
           GwDeny \<Rightarrow> json_error C 403 (dn_reason d) rid []
         | GwApproval \<Rightarrow> res_bind (mk_approval_request d)
             (\<lambda>a. json_error C 409 (dn_reason d) rid
                [(''approval_request_sha256'', JStr (approval_sha256 C a)), (''approval_status'', JStr approval_status)])
         | GwAllow \<Rightarrow> write_json C 200 (chat_response env rid model
             (render_spaced (float_repr C) True (sort_keys (case snd dr of None \<Rightarrow> JNull | Some v \<Rightarrow> v)))))"

definition handle_chat ::
  "codec \<Rightarrow> gw_env \<Rightarrow> (string \<times> json) list \<Rightarrow> gateway \<Rightarrow> gateway \<times> (gateway_error + http_reply)" where
  "handle_chat C env payload g =
     (let rid = request_id env
      in if \<not> list_all (\<lambda>(k, v). k \<in> set chat_keys) payload
         then (g, json_error C 400 ''chat_contract_violation'' rid [])
         else (case obj_get payload ''model'' of
             Some (JStr model) \<Rightarrow>
               if obj_get payload ''stream'' \<notin> {None, Some (JBool False)}
               then (g, json_error C 400 ''streaming_not_supported'' rid [])
               else (case obj_get payload ''messages'' of
                   Some (JArr (m # ms)) \<Rightarrow>
                     (case validate_json_value 0 (JArr (m # ms)) of
                        Inl _ \<Rightarrow> (g, json_error C 400 ''messages_contract_violation'' rid [])
                      | Inr _ \<Rightarrow>
                          if model = ''ash-fake-safe'' then
                            (let (g', res) = record_operation C env rid OpenaiCompatible ChatCompletion model
                                   (JObj payload) ''synthetic_response_allowed'' g
                             in (g', res_bind res (\<lambda>_. write_json C 200 (chat_response env rid model ''Synthetic response.''))))
                          else (case map_of tool_by_model model of
                              None \<Rightarrow> (g, json_error C 400 ''unknown_synthetic_model'' rid [])
                            | Some (tool, args) \<Rightarrow>
                                (case mk_tool_call C \<lparr>tc_id = ''call:'' @ ge_call_hex env, tc_protocol = OpenaiCompatible,
                                        tc_tool = tool, tc_args = args\<rparr> of
                                   Inl e \<Rightarrow> (g, Inl e)
                                 | Inr c \<Rightarrow>
                                     (let (g', res) = call_tool C env rid c g
                                      in (g', res_bind res (finish_chat C env rid model))))))
                 | _ \<Rightarrow> (g, json_error C 400 ''messages_required'' rid []))
           | _ \<Rightarrow> (g, json_error C 400 ''chat_contract_violation'' rid [])))"

end
