(* ===== verification/Gateway_Mcp.thy ===== *)
theory Gateway_Mcp
  imports Gateway_Http
begin

text \<open>
  The MCP endpoint and the two HTTP methods of the request handler.
\<close>

section \<open>MCP requests\<close>

definition valid_rpc_id :: "json \<Rightarrow> bool" where
  "valid_rpc_id v =
     (case v of
        JNull \<Rightarrow> True
      | JBool b \<Rightarrow> False
      | JInt i \<Rightarrow> int64_ok i
      | JStr s \<Rightarrow> 0 < py_len s \<and> py_len s \<le> 128
      | _ \<Rightarrow> False)"

definition safe_mcp_identity :: "json \<Rightarrow> bool" where
  "safe_mcp_identity v =
     (case v of
        JStr s \<Rightarrow> s \<noteq> [] \<and> py_len s \<le> 128 \<and> list_all (\<lambda>n. 32 \<le> n \<and> n \<le> 126) (code_points s)
      | _ \<Rightarrow> False)"

definition mcp_protocol_version :: string where "mcp_protocol_version = ''2026-07-28''"
definition meta_protocol_version :: string where "meta_protocol_version = ''io.modelcontextprotocol/protocolVersion''"
definition meta_client_info :: string where "meta_client_info = ''io.modelcontextprotocol/clientInfo''"
definition meta_client_capabilities :: string where
  "meta_client_capabilities = ''io.modelcontextprotocol/clientCapabilities''"

definition string_schema :: "(string \<times> json) list \<Rightarrow> json" where
  "string_schema extra = JObj ((''type'', JStr ''string'') # extra)"

definition input_schema :: "string \<Rightarrow> json \<Rightarrow> json" where
  "input_schema field schema = JObj
     [(''type'', JStr ''object''), (''additionalProperties'', JBool False), (''required'', JArr [JStr field]),
      (''properties'', JObj [(field, schema)])]"

definition mcp_tool_catalog :: json where
  "mcp_tool_catalog = JArr
     [JObj [(''name'', JStr ''synthetic.lookup''),
            (''description'', JStr ''Return one fixed public gateway metadata value.''),
            (''inputSchema'', input_schema ''key''
               (string_schema [(''enum'', JArr [JStr ''gateway-mode'', JStr ''project-status''])]))],
      JObj [(''name'', JStr ''synthetic.sha256''),
            (''description'', JStr ''Return SHA-256 of a bounded in-memory synthetic string.''),
            (''inputSchema'', input_schema ''text'' (string_schema [(''maxLength'', JInt 4096)]))]]"

definition server_version :: string where "server_version = ''1.14.2''"

definition discover_result :: json where
  "discover_result = JObj
     [(''resultType'', JStr ''complete''),
      (''supportedVersions'', JArr [JStr mcp_protocol_version]),
      (''capabilities'', JObj [(''tools'', JObj [(''listChanged'', JBool False)])]),
      (''_meta'', JObj [(''io.modelcontextprotocol/serverInfo'',
         JObj [(''name'', JStr ''ash-runtime-gateway''), (''version'', JStr server_version)])]),
      (''instructions'', JStr ''Two deterministic synthetic tools; no external effects.''),
      (''ttlMs'', JInt 300000),
      (''cacheScope'', JStr ''public'')]"

definition list_result :: json where
  "list_result = JObj
     [(''resultType'', JStr ''complete''), (''tools'', mcp_tool_catalog), (''ttlMs'', JInt 300000),
      (''cacheScope'', JStr ''public'')]"

text \<open>The error of the transport check, if any: code, message, extra data.\<close>

definition header_mismatch :: "(int \<times> string \<times> (string \<times> json) list) option" where
  "header_mismatch = Some (-32020, ''header_mismatch'', [])"

definition invalid_metadata :: "(int \<times> string \<times> (string \<times> json) list) option" where
  "invalid_metadata = Some (-32602, ''invalid_request_metadata'', [])"

definition accept_types :: "http_request \<Rightarrow> string list" where
  "accept_types q = map media_type (split_on (CHR '','') (case header_get q ''Accept'' of None \<Rightarrow> [] | Some v \<Rightarrow> v))"

definition client_info_ok :: "json option \<Rightarrow> bool" where
  "client_info_ok v =
     (case v of
        Some (JObj kvs) \<Rightarrow> obj_keys kvs = {''name'', ''version''} \<and> list_all (\<lambda>(k, w). safe_mcp_identity w) kvs
      | _ \<Rightarrow> False)"

text \<open>The name in the body of a tool call, and the header that must repeat it.\<close>

definition name_header_ok :: "http_request \<Rightarrow> string \<Rightarrow> (string \<times> json) list \<Rightarrow> bool" where
  "name_header_ok q rpc_method params =
     (case (if rpc_method = ''tools/call'' then obj_get params ''name'' else None) of
        None \<Rightarrow> header_get q ''Mcp-Name'' = None
      | Some JNull \<Rightarrow> header_get q ''Mcp-Name'' = None
      | Some (JStr n) \<Rightarrow> header_get q ''Mcp-Name'' = Some n
      | Some _ \<Rightarrow> False)"

definition validate_mcp_transport ::
  "http_request \<Rightarrow> string \<Rightarrow> (string \<times> json) list \<Rightarrow> (int \<times> string \<times> (string \<times> json) list) option" where
  "validate_mcp_transport q rpc_method params =
     (if \<not> {''application/json'', ''text/event-stream''} \<subseteq> set (accept_types q) then header_mismatch
      else (case obj_get params ''_meta'' of
          Some (JObj meta) \<Rightarrow>
            if obj_keys meta \<noteq> {meta_protocol_version, meta_client_info, meta_client_capabilities} then invalid_metadata
            else (case obj_get meta meta_protocol_version of
                Some (JStr version) \<Rightarrow>
                  if header_get q ''MCP-Protocol-Version'' \<noteq> Some version \<or> header_get q ''Mcp-Method'' \<noteq> Some rpc_method
                  then header_mismatch
                  else if version \<noteq> mcp_protocol_version then
                    Some (-32022, ''unsupported_protocol_version'',
                      [(''supportedVersions'', JArr [JStr mcp_protocol_version]), (''requestedVersion'', JStr version)])
                  else if \<not> client_info_ok (obj_get meta meta_client_info) then invalid_metadata
                  else if obj_get meta meta_client_capabilities \<noteq> Some (JObj [])
                  then Some (-32602, ''unsupported_client_capabilities'', [])
                  else if \<not> name_header_ok q rpc_method params then header_mismatch
                  else None
              | _ \<Rightarrow> invalid_metadata)
        | _ \<Rightarrow> invalid_metadata))"

definition finish_mcp_call ::
  "codec \<Rightarrow> json \<Rightarrow> string \<Rightarrow> gateway_decision \<times> json option \<Rightarrow> gateway_error + http_reply" where
  "finish_mcp_call C rpc rid dr =
     (let d = fst dr;
          denied = (\<lambda>data. mcp_error C rpc (-32602) ''tool_call_denied'' rid 400
                      ((''gatewayReason'', JStr (dn_reason d)) # data))
      in case dn_disposition d of
           GwDeny \<Rightarrow> denied []
         | GwApproval \<Rightarrow> res_bind (mk_approval_request d)
             (\<lambda>a. denied [(''approvalRequestSha256'', JStr (approval_sha256 C a)), (''approvalStatus'', JStr approval_status)])
         | GwAllow \<Rightarrow> mcp_result C rpc (JObj
             [(''resultType'', JStr ''complete''),
              (''content'', JArr [JObj [(''type'', JStr ''text''),
                 (''text'', JStr (dumps (float_repr C) True (case snd dr of None \<Rightarrow> JNull | Some v \<Rightarrow> v)))]]),
              (''isError'', JBool False)]))"

definition without_meta :: "(string \<times> json) list \<Rightarrow> (string \<times> json) list" where
  "without_meta params = filter (\<lambda>(k, v). k \<noteq> ''_meta'') params"

definition invalid_params :: "codec \<Rightarrow> gw_env \<Rightarrow> json \<Rightarrow> gateway_error + http_reply" where
  "invalid_params C env rpc = mcp_error C rpc (-32602) ''invalid_params'' (request_id env) 400 []"

text \<open>\<open>server/discover\<close> and \<open>tools/list\<close> take no parameter beside the metadata and are recorded.\<close>

definition mcp_recorded ::
  "codec \<Rightarrow> gw_env \<Rightarrow> json \<Rightarrow> (string \<times> json) list \<Rightarrow> gw_operation \<Rightarrow> string \<Rightarrow> string \<Rightarrow> json \<Rightarrow> gateway
   \<Rightarrow> gateway \<times> (gateway_error + http_reply)" where
  "mcp_recorded C env rpc params op subject reason result g =
     (if without_meta params \<noteq> [] then (g, invalid_params C env rpc)
      else (let (g', res) = record_operation C env (request_id env) Mcp op subject (JObj params) reason g
            in (g', res_bind res (\<lambda>_. mcp_result C rpc result))))"

definition mcp_tools_call ::
  "codec \<Rightarrow> gw_env \<Rightarrow> json \<Rightarrow> (string \<times> json) list \<Rightarrow> gateway \<Rightarrow> gateway \<times> (gateway_error + http_reply)" where
  "mcp_tools_call C env rpc params g =
     (if obj_keys (without_meta params) \<noteq> {''name'', ''arguments''} then (g, invalid_params C env rpc)
      else (case (obj_get params ''name'', obj_get params ''arguments'') of
          (Some n, Some a) \<Rightarrow>
            (case tool_call_of_json C (''call:'' @ ge_call_hex env) Mcp n a of
               Inl _ \<Rightarrow> (g, invalid_params C env rpc)
             | Inr c \<Rightarrow>
                 (let (g', res) = call_tool C env (request_id env) c g
                  in (g', res_bind res (finish_mcp_call C rpc (request_id env)))))
        | _ \<Rightarrow> (g, invalid_params C env rpc)))"

definition mcp_method ::
  "codec \<Rightarrow> gw_env \<Rightarrow> json \<Rightarrow> string \<Rightarrow> (string \<times> json) list \<Rightarrow> gateway \<Rightarrow> gateway \<times> (gateway_error + http_reply)" where
  "mcp_method C env rpc rpc_method params g =
     (if rpc_method = ''server/discover'' then
        mcp_recorded C env rpc params McpDiscover ''server/discover'' ''synthetic_server_discovered'' discover_result g
      else if rpc_method = ''tools/list'' then
        mcp_recorded C env rpc params McpToolsList ''tools/list'' ''synthetic_tools_listed'' list_result g
      else if rpc_method = ''tools/call'' then mcp_tools_call C env rpc params g
      else (g, mcp_error C rpc (-32601) ''method_not_found'' (request_id env) 404 []))"

definition mcp_dispatch ::
  "codec \<Rightarrow> gw_env \<Rightarrow> http_request \<Rightarrow> json \<Rightarrow> string \<Rightarrow> json \<Rightarrow> gateway \<Rightarrow> gateway \<times> (gateway_error + http_reply)" where
  "mcp_dispatch C env q rpc rpc_method params g =
     (case params of
        JObj kvs \<Rightarrow>
          (case validate_mcp_transport q rpc_method kvs of
             Some (code, message, data) \<Rightarrow> (g, mcp_error C rpc code message (request_id env) 400 data)
           | None \<Rightarrow> mcp_method C env rpc rpc_method kvs g)
      | _ \<Rightarrow> (g, mcp_error C rpc (-32602) ''invalid_params'' (request_id env) 400 []))"

definition handle_mcp ::
  "codec \<Rightarrow> gw_env \<Rightarrow> http_request \<Rightarrow> (string \<times> json) list \<Rightarrow> gateway \<Rightarrow> gateway \<times> (gateway_error + http_reply)" where
  "handle_mcp C env q payload g =
     (let rpc = (case obj_get payload ''id'' of None \<Rightarrow> JNull | Some v \<Rightarrow> v);
          params = (case obj_get payload ''params'' of None \<Rightarrow> JObj [] | Some v \<Rightarrow> v);
          invalid_request = mcp_error C JNull (-32600) ''invalid_request'' (request_id env) 400 []
      in if \<not> list_all (\<lambda>(k, v). k \<in> {''jsonrpc'', ''id'', ''method'', ''params''}) payload then (g, invalid_request)
         else if obj_get payload ''jsonrpc'' \<noteq> Some (JStr ''2.0'') then (g, invalid_request)
         else (case obj_get payload ''method'' of
             Some (JStr rpc_method) \<Rightarrow>
               if \<not> valid_rpc_id rpc then (g, invalid_request)
               else mcp_dispatch C env q rpc rpc_method params g
           | _ \<Rightarrow> (g, invalid_request)))"

section \<open>POST\<close>

definition do_post ::
  "codec \<Rightarrow> gateway_config \<Rightarrow> gw_env \<Rightarrow> http_request \<Rightarrow> gateway \<Rightarrow> gateway \<times> (gateway_error + http_reply)" where
  "do_post C cfg env q g =
     (let rid = request_id env
      in if \<not> headers_safe q then (g, json_error C 400 ''credential_headers_forbidden'' rid [])
         else if rq_path q = ''/mcp'' \<and> \<not> mcp_origin_safe (nat (cf_port cfg)) q
         then (g, mcp_error C JNull (-32600) ''origin_forbidden'' rid 403 [])
         else (case read_json_body C (cf_max_body cfg) q of
             Inl (ContractError message) \<Rightarrow> (g, json_error C 400 message rid [])
           | Inl e \<Rightarrow> (g, Inl e)
           | Inr payload \<Rightarrow>
               if rq_path q = ''/v1/chat/completions'' then handle_chat C env payload g
               else if rq_path q = ''/mcp'' then handle_mcp C env q payload g
               else (g, json_error C 404 ''route_not_found'' rid [])))"

section \<open>GET\<close>

definition html_escape :: "string \<Rightarrow> string" where
  "html_escape s = concat (map (\<lambda>c.
     if c = CHR ''&'' then ''&amp;''
     else if c = CHR ''<'' then ''&lt;''
     else if c = CHR ''>'' then ''&gt;''
     else if c = CHR 0x22 then ''&quot;''
     else if c = CHR 0x27 then ''&#x27;''
     else [c]) s)"

definition dashboard_html :: "codec \<Rightarrow> audit_snapshot \<Rightarrow> gateway_policy \<Rightarrow> string" where
  "dashboard_html C s p =
     ''<!doctype html><html><head><meta charset=utf-8>''
     @ ''<meta name=viewport content='' @ quoted ''width=device-width,initial-scale=1'' @ ''>''
     @ ''<title>ASH Runtime Gateway</title>''
     @ ''<style>body{font:16px system-ui;max-width:800px;margin:3rem auto;padding:0 1rem}''
     @ ''table{border-collapse:collapse}td,th{border:1px solid #bbb;padding:.5rem}''
     @ ''code{overflow-wrap:anywhere}</style></head><body>''
     @ ''<h1>ASH Runtime Gateway</h1>''
     @ ''<p>Loopback synthetic development contour. No provider or production authority.</p>''
     @ ''<table><tr><th>Records</th><th>Allowed</th><th>Denied</th>''
     @ ''<th>Approval required</th></tr>''
     @ ''<tr><td>'' @ nat_digits (sn_records s) @ ''</td><td>'' @ nat_digits (sn_allow s) @ ''</td>''
     @ ''<td>'' @ nat_digits (sn_deny s) @ ''</td><td>'' @ nat_digits (sn_approval s) @ ''</td></tr></table>''
     @ ''<p>Verified audit head: <code>'' @ html_escape (sn_head s) @ ''</code></p>''
     @ ''<p>Active policy: <code>'' @ html_escape (policy_sha256 C p) @ ''</code></p>''
     @ ''<p>Approval requests are pending and non-executable; no grant endpoint is ''
     @ ''available in this contour.</p>''
     @ ''</body></html>''"

definition do_get ::
  "codec \<Rightarrow> gateway_config \<Rightarrow> gw_env \<Rightarrow> http_request \<Rightarrow> gateway \<Rightarrow> gateway_error + http_reply" where
  "do_get C cfg env q g =
     (let rid = request_id env
      in if \<not> headers_safe q then json_error C 400 ''credential_headers_forbidden'' rid []
         else if rq_path q = ''/healthz'' then
           write_json C 200 (JObj [(''status'', JStr ''ok''), (''mode'', JStr ''loopback-synthetic''), (''request_id'', JStr rid)])
         else if rq_path q = ''/readyz'' then
           res_bind (ledger_snapshot C (gw_ledger g)) (\<lambda>s. write_json C 200 (JObj
             [(''status'', JStr ''ready''), (''policy_sha256'', JStr (policy_sha256 C (gw_policy g))),
              (''audit_head_sha256'', JStr (sn_head s)), (''request_id'', JStr rid)]))
         else if rq_path q = ''/v1/gateway/audit'' then
           res_bind (ledger_snapshot C (gw_ledger g)) (\<lambda>s. write_json C 200 (snapshot_doc s))
         else if rq_path q = ''/v1/gateway/policy'' then
           write_json C 200 (policy_snapshot_doc C (gw_policy g))
         else if rq_path q = ''/dashboard'' \<and> cf_dashboard cfg then
           res_bind (ledger_snapshot C (gw_ledger g))
             (\<lambda>s. Inr (write_bytes 200 (dashboard_html C s (gw_policy g)) ''text/html; charset=utf-8''))
         else if rq_path q = ''/mcp'' then mcp_error C JNull (-32600) ''post_required'' rid 405 []
         else json_error C 404 ''route_not_found'' rid [])"

end
