(* ===== verification/Gateway_Properties.thy ===== *)
theory Gateway_Properties
  imports Gateway_Chain Gateway_Mcp
begin

text \<open>
  Properties of the gateway: the one policy that validates, the verdict on every call, what an
  append does to the log, what a log's head commits to, and what a reply says about the log.
\<close>

section \<open>The policy\<close>

lemma dict_eq_keys: "dict_eq d e \<Longrightarrow> fst ` set d = fst ` set e"
proof -
  have "fst ` set d \<subseteq> fst ` set e" if "dict_eq d e" for d e :: "(string \<times> 'a) list"
  proof
    fix k assume "k \<in> fst ` set d"
    then obtain v w where v: "(k, v) \<in> set d" "map_of d k = Some w"
      by (metis imageE map_of_eq_None_iff not_Some_eq prod.collapse)
    with that have "map_of e k = Some w" by (auto simp: dict_eq_def list_all_iff)
    then show "k \<in> fst ` set e" by (metis map_of_eq_None_iff option.distinct(1))
  qed
  moreover assume "dict_eq d e"
  moreover from this have "dict_eq e d" by (auto simp: dict_eq_def list_all_iff)
  ultimately show ?thesis by blast
qed

lemma dict_eq_map: "dict_eq d e \<Longrightarrow> map_of d = map_of e"
proof
  fix k assume eq: "dict_eq d e"
  show "map_of d k = map_of e k"
  proof (cases "k \<in> fst ` set d")
    case True
    with eq show ?thesis by (force simp: dict_eq_def list_all_iff)
  next
    case False
    with dict_eq_keys [OF eq] show ?thesis by (metis map_of_eq_None_iff)
  qed
qed

lemma alist_of_map: "distinct (map fst xs) \<Longrightarrow> map (\<lambda>k. (k, the (map_of xs k))) (map fst xs) = xs"
  unfolding map_map by (rule map_idI) (auto simp: map_of_is_SomeI)

lemma alist_eqI: "map fst xs = map fst ys \<Longrightarrow> distinct (map fst xs) \<Longrightarrow> map_of xs = map_of ys \<Longrightarrow> xs = ys"
  by (metis alist_of_map)

lemma rule_equality:
  "rule_entry r = rule_entry q \<Longrightarrow> (r :: tool_rule) = q"
  by (auto simp: rule_entry_def intro: tool_rule.equality)

lemma default_rules_entries: "map rule_entry (gp_rules default_gateway_policy) = expected_rules"
  by (simp add: default_gateway_policy_def rule_entry_def expected_rules_def)

lemma gateway_policy_accepted: "mk_gateway_policy (gp_rules default_gateway_policy) = Inr default_gateway_policy"
  unfolding mk_gateway_policy_def default_rules_entries
  by (simp add: raise_first_def dict_eq_def expected_rules_def default_gateway_policy_def)

text \<open>
  The closed policy. The default rules validate, and a list of rules that validates is the default
  one, rule by rule and in its order: no other policy can be put in force.
\<close>

theorem gateway_policy_closed:
  "mk_gateway_policy rules = Inr p \<longleftrightarrow> rules = gp_rules default_gateway_policy \<and> p = default_gateway_policy"
proof
  assume "mk_gateway_policy rules = Inr p"
  then have s: "sort (map tr_name rules) = map tr_name rules" "distinct (map tr_name rules)"
    and d: "dict_eq (map rule_entry rules) expected_rules" and p: "p = \<lparr>gp_rules = rules\<rparr>"
    by (auto simp: mk_gateway_policy_def raise_first_Inr_iff split: if_splits)
  have names: "map fst (map rule_entry rules) = map tr_name rules"
    by (simp add: rule_entry_def)
  have "sorted (map tr_name rules)" using sorted_sort [of "map tr_name rules"] s(1) by simp
  moreover have "set (map tr_name rules) = set (map fst expected_rules)"
    using dict_eq_keys [OF d] by (simp add: image_image rule_entry_def)
  moreover have "sorted (map fst expected_rules)" "distinct (map fst expected_rules)"
    by (simp_all add: expected_rules_def)
  ultimately have eq: "map tr_name rules = map fst expected_rules"
    using s(2) sorted_distinct_set_unique by blast
  have "map rule_entry rules = expected_rules"
    by (rule alist_eqI) (use eq s(2) names dict_eq_map [OF d] in simp_all)
  then have "map rule_entry rules = map rule_entry (gp_rules default_gateway_policy)"
    by (simp only: default_rules_entries)
  then have "rules = gp_rules default_gateway_policy"
    by (rule map_injective) (rule injI, rule rule_equality)
  then show "rules = gp_rules default_gateway_policy \<and> p = default_gateway_policy"
    using p by simp
next
  assume "rules = gp_rules default_gateway_policy \<and> p = default_gateway_policy"
  then show "mk_gateway_policy rules = Inr p" using gateway_policy_accepted by simp
qed

section \<open>The verdict on a call\<close>

text \<open>What the documentation of the gateway promises for each tool.\<close>

definition intended_verdict :: "tool_call \<Rightarrow> gw_disposition \<times> string" where
  "intended_verdict c =
     (if tc_tool c = ''external.send'' then (GwApproval, ''owner_approval_required'')
      else if tc_tool c = ''system.shell'' then (GwDeny, ''process_execution_denied'')
      else if tc_tool c = ''synthetic.sha256'' then
        (case tc_args c of
           [(k, JStr v)] \<Rightarrow> if k = ''text'' \<and> length v \<le> 4096 then (GwAllow, ''synthetic_tool_allowed'')
                            else (GwDeny, ''tool_arguments_denied'')
         | _ \<Rightarrow> (GwDeny, ''tool_arguments_denied''))
      else if tc_tool c = ''synthetic.lookup'' then
        (case tc_args c of
           [(k, JStr v)] \<Rightarrow> if k = ''key'' \<and> (v = ''gateway-mode'' \<or> v = ''project-status'') then (GwAllow, ''synthetic_tool_allowed'')
                            else (GwDeny, ''tool_arguments_denied'')
         | _ \<Rightarrow> (GwDeny, ''tool_arguments_denied''))
      else (GwDeny, ''unknown_tool_denied''))"

lemma single_key:
  assumes "distinct (map fst kvs)" "obj_keys kvs = {k}"
  obtains v where "kvs = [(k, v)]"
proof -
  have "length kvs = 1"
    using distinct_card [OF assms(1)] assms(2) by (simp add: obj_keys_def)
  then obtain kv where "kvs = [kv]" by (auto simp: length_Suc_conv)
  with assms(2) have "kvs = [(k, snd kv)]" by (cases kv) (simp add: obj_keys_def)
  then show ?thesis by (rule that)
qed

lemma single_key_args:
  "distinct (map fst args) \<Longrightarrow> obj_keys args \<noteq> {k} \<Longrightarrow>
     (case args of [(j, JStr v)] \<Rightarrow> if j = k \<and> P v then a else b | _ \<Rightarrow> b) = b"
  by (auto simp: obj_keys_def split: list.split json.split)

lemma builtin_arguments:
  assumes "distinct (map fst (tc_args c))"
  shows "intended_verdict c = (if tc_tool c = ''external.send'' then (GwApproval, ''owner_approval_required'')
      else if tc_tool c = ''system.shell'' then (GwDeny, ''process_execution_denied'')
      else if tc_tool c = ''synthetic.sha256'' \<or> tc_tool c = ''synthetic.lookup'' then
        (case validate_builtin_arguments c of None \<Rightarrow> (GwAllow, ''synthetic_tool_allowed'') | Some e \<Rightarrow> (GwDeny, e))
      else (GwDeny, ''unknown_tool_denied''))"
proof -
  consider (sha) "tc_tool c = ''synthetic.sha256''" | (lookup) "tc_tool c = ''synthetic.lookup''"
    | (other) "tc_tool c \<noteq> ''synthetic.sha256''" "tc_tool c \<noteq> ''synthetic.lookup''" by blast
  then show ?thesis
  proof cases
    case sha
    show ?thesis
    proof (cases "obj_keys (tc_args c) = {''text''}")
      case True
      obtain v where "tc_args c = [(''text'', v)]" using single_key [OF assms True] .
      with sha show ?thesis
        by (cases v) (simp_all add: intended_verdict_def validate_builtin_arguments_def obj_get_def obj_keys_def argument_error_def)
    next
      case False
      with sha single_key_args [OF assms False] show ?thesis
        by (simp add: intended_verdict_def validate_builtin_arguments_def argument_error_def)
    qed
  next
    case lookup
    show ?thesis
    proof (cases "obj_keys (tc_args c) = {''key''}")
      case True
      obtain v where "tc_args c = [(''key'', v)]" using single_key [OF assms True] .
      with lookup show ?thesis
        by (cases v) (simp_all add: intended_verdict_def validate_builtin_arguments_def obj_get_def obj_keys_def
          argument_error_def lookup_keys_def)
    next
      case False
      with lookup single_key_args [OF assms False] show ?thesis
        by (simp add: intended_verdict_def validate_builtin_arguments_def argument_error_def)
    qed
  qed (simp add: intended_verdict_def)
qed

lemma rule_verdict_default:
  "rule_verdict default_gateway_policy tool =
     (if tool = ''external.send'' then (GwApproval, EffExternal, ''owner_approval_required'')
      else if tool = ''system.shell'' then (GwDeny, EffProcess, ''process_execution_denied'')
      else if tool = ''synthetic.sha256'' \<or> tool = ''synthetic.lookup'' then (GwAllow, EffPure, ''synthetic_tool_allowed'')
      else (GwDeny, EffUnknown, ''unknown_tool_denied''))"
  by (auto simp: rule_verdict_def default_gateway_policy_def)

lemma builtin_error: "validate_builtin_arguments c = Some e \<Longrightarrow> e = argument_error"
  by (auto simp: validate_builtin_arguments_def split: if_splits option.splits json.splits)

lemma verdict_tokens:
  "safe_token ''owner_approval_required''" "safe_token ''process_execution_denied''" "safe_token ''synthetic_tool_allowed''"
  "safe_token ''unknown_tool_denied''" "safe_token ''tool_arguments_denied''"
  by code_simp+

lemma intended_reason_token: "safe_token (snd (intended_verdict c))"
  using verdict_tokens by (auto simp: intended_verdict_def split: list.split json.split)

lemma evaluation_default:
  assumes "digests_hex C" "distinct (map fst (tc_args c))"
  shows "\<exists>d. evaluate_gateway_tool_call C c default_gateway_policy = Inr d
    \<and> (dn_disposition d, dn_reason d) = intended_verdict c
    \<and> (dn_permitted d \<longleftrightarrow> fst (intended_verdict c) = GwAllow) \<and> (dn_disposition d = GwApproval \<longrightarrow> dn_effect d = EffExternal)"
proof -
  have sha: "sha256_text (sha256_domain C dom v)" "sha256_text (arguments_sha256 C c)" "sha256_text (policy_sha256 C p)" for dom v p
    using assms(1) by (simp_all add: digests_hex_def sha256_domain_def arguments_sha256_def policy_sha256_def gw_sha256_json_def)
  note tok = intended_reason_token [of c, unfolded builtin_arguments [OF assms(2)]]
  show ?thesis
    unfolding evaluate_gateway_tool_call_def rule_verdict_default builtin_arguments [OF assms(2)]
    using tok verdict_tokens
    by (auto simp: mk_gateway_decision_def raise_first_def sha split: option.splits if_splits)
qed

text \<open>
  The verdict. On a call with distinct argument names the evaluation under the closed policy never
  fails, and its disposition and reason are the documented ones: an unknown tool and the shell are denied,
  sending needs approval, the two synthetic tools run only on exactly their one bounded argument;
  execution is permitted for an allow and nothing else.
\<close>

theorem evaluation_is_intended:
  assumes "digests_hex C" "distinct (map fst (tc_args c))"
  shows "\<exists>d. evaluate_gateway_tool_call C c default_gateway_policy = Inr d
    \<and> (dn_disposition d, dn_reason d) = intended_verdict c
    \<and> (dn_permitted d \<longleftrightarrow> fst (intended_verdict c) = GwAllow) \<and> (dn_disposition d = GwApproval \<longrightarrow> dn_effect d = EffExternal)"
  using assms by (rule evaluation_default)

section \<open>The log\<close>

definition event_ok :: "codec \<Rightarrow> string \<Rightarrow> audit_event \<Rightarrow> bool" where
  "event_ok C now e \<longleftrightarrow> occurred_ok now \<and> is_ascii now \<and> encodable (oe_request e) \<and> encodable (oe_subject e)
     \<and> json_finite (oe_payload e) \<and> json_encodable (oe_payload e) \<and> sha256_text (oe_policy e) \<and> safe_token (oe_reason e)"

lemma chain_entries: "audit_chain C key i previous rs \<Longrightarrow> r \<in> set rs \<Longrightarrow> sha256_text (au_entry r)"
  by (induction rs arbitrary: i previous) (auto simp: mk_audit_record_Inr)

lemma record_for_exists:
  assumes "digests_hex C" "event_ok C now e" "read_records C l = Inr rs"
  shows "\<exists>r. audit_record_for C (al_key l) now rs e = Inr r"
proof -
  have h: "sha256_text (sha256_hex C s)" "sha256_text (hmac_sha256_hex C k s)" for k s
    using assms(1) by (simp_all add: digests_hex_def)
  have "audit_chain C (al_key l) 1 zero_sha256 rs"
    using assms(3) read_lines_Inr unfolding read_records_Inr by blast
  then have "rs \<noteq> [] \<Longrightarrow> sha256_text (au_entry (last rs))" using chain_entries by fastforce
  then show ?thesis
    using assms(2) by (auto simp: audit_record_for_def commitment_def canonical_json_bytes_def event_ok_def Let_def
        mk_audit_record_Inr entry_digest_def sha256_domain_def h)
qed

lemma append_with_room:
  assumes "digests_hex C" "event_ok C now e" "\<not> al_closed l" "read_records C l = Inr rs" "fits C now e l rs"
  shows "\<exists>r l'. ledger_append C now e l = (l', Inr r) \<and> read_records C l' = Inr (rs @ [r]) \<and> next_of rs r
    \<and> (\<exists>line. ledger_bytes l' = ledger_bytes l @ line) \<and> au_occurred r = now \<and> au_protocol r = oe_protocol e
    \<and> au_operation r = oe_operation e \<and> au_disposition r = oe_verdict e \<and> au_reason r = oe_reason e"
proof -
  obtain r where r: "audit_record_for C (al_key l) now rs e = Inr r"
    using record_for_exists [OF assms(1,2,4)] by blast
  note f = record_for_facts [OF r]
  have len: "length rs < max_audit_records" "length (ledger_bytes (with_line C r l)) \<le> max_audit_bytes"
    using assms(5) r by (simp_all add: fits_def)
  have p: "plain_record r" by (rule record_for_plain [OF r]) (use assms(2) len(1) in \<open>simp_all add: event_ok_def\<close>)
  have read: "read_records C (with_line C r l) = Inr (rs @ [r])"
    using f assms(4) len p by (intro read_with_line) simp_all
  then have "ledger_append C now e l = (with_line C r l, Inr r)"
    using append_written [OF assms(3,4) r] by simp
  with read f show ?thesis by auto
qed

text \<open>
  C19: the file implements an append-only list of records. On a ledger that verifies to \<open>rs\<close> and has
  room, an append with encodable arguments succeeds, and the file then verifies to \<open>rs\<close> followed by the
  new record, which has the next number, the digest of its predecessor, and the protocol, operation,
  verdict and reason of the call; the bytes before it are untouched.
\<close>

theorem append_extends_log:
  assumes "digests_hex C" "event_ok C now e" "\<not> al_closed l" "read_records C l = Inr rs" "fits C now e l rs"
  shows "\<exists>r l'. ledger_append C now e l = (l', Inr r) \<and> read_records C l' = Inr (rs @ [r]) \<and> next_of rs r
    \<and> (\<exists>line. ledger_bytes l' = ledger_bytes l @ line) \<and> au_occurred r = now \<and> au_protocol r = oe_protocol e
    \<and> au_operation r = oe_operation e \<and> au_disposition r = oe_verdict e \<and> au_reason r = oe_reason e"
  using assms by (rule append_with_room)

text \<open>
  C29: an append without room poisons the file. The line is written before the limits are checked: the
  call fails, the file has grown, and from then on it cannot be read, appended to or opened.
\<close>

theorem append_without_room_poisons:
  assumes "digests_hex C" "event_ok C now e" "\<not> al_closed l" "read_records C l = Inr rs" "\<not> fits C now e l rs"
  shows "\<exists>l' err. ledger_append C now e l = (l', Inl err) \<and> length (ledger_bytes l) < length (ledger_bytes l')
    \<and> read_records C l' = Inl err \<and> ledger_append C now e l' = (l', Inl err)
    \<and> snd (ledger_open C fresh \<lparr>ld_key = Some (al_key l), ld_file = al_file l', ld_locked = False\<rparr>) \<noteq> Inr l''"
proof -
  obtain r where r: "audit_record_for C (al_key l) now rs e = Inr r"
    using record_for_exists [OF assms(1,2,4)] by blast
  have "length rs \<le> max_audit_records"
    using assms(4) read_lines_length unfolding read_records_Inr by metis
  then have p: "plain_record r" by (intro record_for_plain [OF r]) (use assms(2) in \<open>simp_all add: event_ok_def\<close>)
  let ?l = "with_line C r l"
  have "max_audit_bytes < length (ledger_bytes ?l) \<or> max_audit_records \<le> length rs"
    using assms(5) r by (auto simp: fits_def)
  then obtain err where err: "read_records C ?l = Inl err"
    using append_over_limit [OF assms(4) p] by blast
  have "ledger_append C now e l = (?l, Inl err)"
    using append_written [OF assms(3,4) r] err by simp
  moreover have "ledger_append C now e ?l = (?l, Inl err)"
    using assms(3) err by (simp add: ledger_append_def)
  moreover have "read_records C \<lparr>al_key = al_key l, al_file = al_file ?l, al_closed = False\<rparr> = Inl err"
    using err by (simp add: read_records_def with_line_def)
  ultimately show ?thesis using err by (auto simp: ledger_open_def ledger_key_def ledger_lock_def Let_def)
qed

text \<open>
  C21: a head commits to the whole log. Two verified logs whose last records carry the same entry
  digest are equal, record by record and line by line, if the hash has no collision on their entries.
\<close>

theorem ledger_head_binds:
  assumes "read_records C l = Inr rs" "read_records C l' = Inr rs'" "rs \<noteq> []" "rs' \<noteq> []"
    and "au_entry (last rs) = au_entry (last rs')" "inj_on (sha256_hex C) (entry_texts C rs \<union> entry_texts C rs')"
  shows "rs = rs' \<and> splitlines (ledger_bytes l) = splitlines (ledger_bytes l')"
proof -
  have lines: "map (audit_line C) rs = splitlines (ledger_bytes l)" "audit_chain C (al_key l) 1 zero_sha256 rs"
    "map (audit_line C) rs' = splitlines (ledger_bytes l')" "audit_chain C (al_key l') 1 zero_sha256 rs'"
    using assms(1,2) read_lines_Inr unfolding read_records_Inr by blast+
  have "rs = rs'"
    by (rule audit_chain_inject [OF lines(2,4) assms(6) _ _ assms(3,4,5)]) simp_all
  with lines show ?thesis by simp
qed

section \<open>Policy, audit, effect\<close>

text \<open>The ledger of the second gateway is that of the first with one record more, of this verdict.\<close>

definition logged :: "codec \<Rightarrow> gw_disposition \<Rightarrow> gateway \<Rightarrow> gateway \<Rightarrow> bool" where
  "logged C d g g' \<longleftrightarrow> (\<exists>rs r. read_records C (gw_ledger g) = Inr rs \<and> gw_ledger g' = with_line C r (gw_ledger g)
     \<and> next_of rs r \<and> au_entry r = entry_digest C r \<and> au_disposition r = d)"

lemma append_logged:
  assumes "ledger_append C now e (gw_ledger g) = (gw_ledger g', Inr r)"
  shows "logged C (oe_verdict e) g g'"
proof -
  obtain rs where "read_records C (gw_ledger g) = Inr rs" "audit_record_for C (al_key (gw_ledger g)) now rs e = Inr r"
    "gw_ledger g' = with_line C r (gw_ledger g)"
    using append_success [OF assms] by blast
  then show ?thesis using record_for_facts unfolding logged_def by (fastforce simp: audit_verify_def)
qed

lemma record_operation_cases:
  assumes "record_operation C env rid proto op subject payload reason g = (g', res)"
  shows "gw_policy g' = gw_policy g \<and> gw_executions g' = gw_executions g
    \<and> (case res of Inl _ \<Rightarrow> True | Inr _ \<Rightarrow> logged C GwAllow g g')"
proof -
  let ?e = "\<lparr>oe_request = rid, oe_protocol = proto, oe_operation = op, oe_subject = subject, oe_payload = payload,
     oe_policy = policy_sha256 C (gw_policy g), oe_verdict = GwAllow, oe_reason = reason\<rparr>"
  obtain l r where l: "ledger_append C (ge_now env) ?e (gw_ledger g) = (l, r)" by fastforce
  then have g': "g' = g\<lparr>gw_ledger := l\<rparr>" "res = res_bind r (\<lambda>_. Inr ())"
    using assms by (auto simp: record_operation_def)
  show ?thesis
  proof (cases r)
    case (Inr a)
    then have "logged C (oe_verdict ?e) g g'" by (intro append_logged) (use l g' in simp)
    with g' Inr show ?thesis by simp
  qed (simp add: g')
qed

lemma execute_synthetic_allowed:
  assumes "intended_verdict c = (GwAllow, reason)"
  shows "\<exists>v. execute_synthetic C c = Inr v"
  using assms
  by (auto simp: intended_verdict_def execute_synthetic_def obj_get_def lookup_values_def
      split: if_splits list.splits json.splits)

lemma call_tool_effects:
  assumes "digests_hex C" "gw_policy g = default_gateway_policy" "distinct (map fst (tc_args c))"
    and "call_tool C env rid c g = (g', res)"
  shows "gw_policy g' = gw_policy g \<and>
    (case res of
       Inr (d, v) \<Rightarrow> (dn_disposition d, dn_reason d) = intended_verdict c \<and> logged C (dn_disposition d) g g'
         \<and> (v \<noteq> None \<longleftrightarrow> fst (intended_verdict c) = GwAllow)
         \<and> gw_executions g' = gw_executions g + (if fst (intended_verdict c) = GwAllow then 1 else 0)
         \<and> (dn_disposition d = GwApproval \<longrightarrow> dn_effect d \<noteq> EffPure)
     | Inl err \<Rightarrow> gw_executions g' = gw_executions g
         \<and> (\<exists>e. ledger_append C (ge_now env) e (gw_ledger g) = (gw_ledger g', Inl err)))"
proof -
  obtain d where d: "evaluate_gateway_tool_call C c default_gateway_policy = Inr d"
    "(dn_disposition d, dn_reason d) = intended_verdict c" "dn_permitted d \<longleftrightarrow> fst (intended_verdict c) = GwAllow"
    "dn_disposition d = GwApproval \<longrightarrow> dn_effect d = EffExternal"
    using evaluation_default [OF assms(1,3)] by blast
  define e where "e = \<lparr>oe_request = rid, oe_protocol = tc_protocol c, oe_operation = ToolCallOp, oe_subject = tc_tool c,
    oe_payload = JObj (tc_args c), oe_policy = dn_policy d, oe_verdict = dn_disposition d, oe_reason = dn_reason d\<rparr>"
  obtain l r where l: "ledger_append C (ge_now env) e (gw_ledger g) = (l, r)" by fastforce
  show ?thesis
  proof (cases r)
    case (Inl err)
    then have "g' = g\<lparr>gw_ledger := l\<rparr>" "res = Inl err"
      using assms(2,4) d(1) l by (auto simp: call_tool_def e_def Let_def)
    with l Inl show ?thesis by auto
  next
    case (Inr a)
    have log: "logged C (dn_disposition d) g h" if "gw_ledger h = l" for h
      using append_logged [of C "ge_now env" e g h a] l Inr that by (simp add: e_def)
    show ?thesis
    proof (cases "fst (intended_verdict c) = GwAllow")
      case True
      then obtain v where "execute_synthetic C c = Inr v" using execute_synthetic_allowed by (metis prod.collapse)
      then have "g' = g\<lparr>gw_ledger := l, gw_executions := Suc (gw_executions g)\<rparr>" "res = Inr (d, Some v)"
        using assms(2,4) d(1,3) l Inr True by (auto simp: call_tool_def e_def Let_def)
      with d True log show ?thesis by simp
    next
      case False
      then have "g' = g\<lparr>gw_ledger := l\<rparr>" "res = Inr (d, None)"
        using assms(2,4) d(1,3) l Inr by (auto simp: call_tool_def e_def Let_def)
      with d False log show ?thesis by simp
    qed
  qed
qed

text \<open>
  C15: policy, then audit, then effect. A tool call under the closed policy that returns has appended one
  record with its verdict and reason, the documented ones; it returns a result, and counts an
  execution, exactly when that verdict is an allow. A call that raises was stopped by its audit
  append and has executed nothing.
\<close>

theorem call_tool_audits_first:
  assumes "digests_hex C" "gw_policy g = default_gateway_policy" "distinct (map fst (tc_args c))"
    and "call_tool C env rid c g = (g', res)"
  shows "gw_policy g' = gw_policy g \<and>
    (case res of
       Inr (d, v) \<Rightarrow> (dn_disposition d, dn_reason d) = intended_verdict c \<and> logged C (dn_disposition d) g g'
         \<and> (v \<noteq> None \<longleftrightarrow> fst (intended_verdict c) = GwAllow)
         \<and> gw_executions g' = gw_executions g + (if fst (intended_verdict c) = GwAllow then 1 else 0)
         \<and> (dn_disposition d = GwApproval \<longrightarrow> dn_effect d \<noteq> EffPure)
     | Inl err \<Rightarrow> gw_executions g' = gw_executions g
         \<and> (\<exists>e. ledger_append C (ge_now env) e (gw_ledger g) = (gw_ledger g', Inl err)))"
  using assms by (rule call_tool_effects)

section \<open>Replies\<close>

text \<open>
  What a handler's outcome may be: a reply with status 200 goes with one more record, an allow; any
  other reply goes with no record or with a refusal, and with no execution.
\<close>

definition sound_outcome :: "codec \<Rightarrow> gateway \<Rightarrow> gateway \<times> (gateway_error + http_reply) \<Rightarrow> bool" where
  "sound_outcome C g out \<longleftrightarrow> gw_policy (fst out) = gw_policy g \<and>
     (case snd out of
        Inl _ \<Rightarrow> True
      | Inr reply \<Rightarrow>
          if rp_status reply = 200 then logged C GwAllow g (fst out)
          else gw_executions (fst out) = gw_executions g
            \<and> (gw_ledger (fst out) = gw_ledger g \<or> logged C GwDeny g (fst out) \<or> logged C GwApproval g (fst out)))"

lemma write_json_status: "write_json C status v = Inr reply \<Longrightarrow> rp_status reply = status"
  by (auto simp: write_json_def write_bytes_def)

lemma error_status:
  "json_error C status code rid data = Inr reply \<Longrightarrow> rp_status reply = status"
  "mcp_error C rpc c message rid status data = Inr reply \<Longrightarrow> rp_status reply = status"
  "mcp_result C rpc v = Inr reply \<Longrightarrow> rp_status reply = 200"
  by (auto simp: json_error_def mcp_error_def mcp_result_def dest: write_json_status)

lemma sound_errors [simp]:
  "status \<noteq> 200 \<Longrightarrow> sound_outcome C g (g, json_error C status code rid data)"
  "status \<noteq> 200 \<Longrightarrow> sound_outcome C g (g, mcp_error C rpc c message rid status data)"
  "sound_outcome C g (g, Inl e)"
  by (auto simp: sound_outcome_def error_status split: sum.split)

lemma sound_record:
  assumes "\<And>reply. finish = Inr reply \<Longrightarrow> rp_status reply = 200"
  shows "sound_outcome C g (let (g', res) = record_operation C env rid proto op subject payload reason g
    in (g', res_bind res (\<lambda>_. finish)))"
proof -
  obtain g' res where eq: "record_operation C env rid proto op subject payload reason g = (g', res)" by fastforce
  show ?thesis
    using record_operation_cases [OF eq] assms
    by (cases res) (auto simp: eq sound_outcome_def split: sum.split)
qed

lemma sound_call:
  assumes "digests_hex C" "gw_policy g = default_gateway_policy" "distinct (map fst (tc_args c))"
    and "call_tool C env rid c g = (g', res)"
    and "\<And>d v reply. finish (d, v) = Inr reply \<Longrightarrow> rp_status reply = 200 \<longleftrightarrow> dn_disposition d = GwAllow"
  shows "sound_outcome C g (g', res_bind res finish)"
proof (cases res)
  case (Inr dv)
  obtain d v where dv: "dv = (d, v)" by (cases dv)
  note f = call_tool_effects [OF assms(1-4)]
  show ?thesis
  proof (cases "finish (d, v)")
    case (Inr reply)
    have "fst (intended_verdict c) = dn_disposition d" using f \<open>res = Inr dv\<close> dv by (simp add: prod_eq_iff)
    with f \<open>res = Inr dv\<close> dv Inr assms(5) [OF Inr] show ?thesis
      by (cases "dn_disposition d") (auto simp: sound_outcome_def)
  qed (use f \<open>res = Inr dv\<close> dv in \<open>simp add: sound_outcome_def\<close>)
qed (use call_tool_effects [OF assms(1-4)] in \<open>simp add: sound_outcome_def\<close>)

lemma finish_chat_status:
  "finish_chat C env rid model (d, v) = Inr reply \<Longrightarrow> rp_status reply = 200 \<longleftrightarrow> dn_disposition d = GwAllow"
  by (auto simp: finish_chat_def Let_def dest!: error_status write_json_status split: gw_disposition.splits)

lemma finish_mcp_status:
  "finish_mcp_call C rpc rid (d, v) = Inr reply \<Longrightarrow> rp_status reply = 200 \<longleftrightarrow> dn_disposition d = GwAllow"
  by (auto simp: finish_mcp_call_def Let_def dest!: error_status split: gw_disposition.splits)

lemma mk_tool_call_Inr: "mk_tool_call C c = Inr c' \<Longrightarrow> c' = c"
  by (auto simp: mk_tool_call_def)

lemma tool_by_model_args: "map_of tool_by_model model = Some (tool, args) \<Longrightarrow> distinct (map fst args)"
  by (auto simp: tool_by_model_def split: if_splits)

lemma chat_call_sound:
  assumes "digests_hex C" "gw_policy g = default_gateway_policy"
    and "map_of tool_by_model model = Some (tool, args)"
    and "mk_tool_call C \<lparr>tc_id = cid, tc_protocol = proto, tc_tool = tool, tc_args = args\<rparr> = Inr c"
  shows "sound_outcome C g (case call_tool C env rid c g of (g', res) \<Rightarrow> (g', res_bind res (finish_chat C env rid model)))"
proof -
  obtain g' res where call: "call_tool C env rid c g = (g', res)" by fastforce
  have "distinct (map fst (tc_args c))" using mk_tool_call_Inr [OF assms(4)] tool_by_model_args [OF assms(3)] by simp
  from sound_call [OF assms(1,2) this call finish_chat_status]
  show ?thesis by (simp add: call)
qed

lemma handle_chat_sound:
  assumes "digests_hex C" "gw_policy g = default_gateway_policy"
  shows "sound_outcome C g (handle_chat C env payload g)"
proof -
  have safe: "sound_outcome C g (let (g', res) = record_operation C env rid OpenaiCompatible ChatCompletion model v reason g
      in (g', res_bind res (\<lambda>_. write_json C 200 w)))" for rid model v reason w
    by (rule sound_record) (rule write_json_status)
  show ?thesis
    unfolding handle_chat_def Let_def
    using safe [unfolded Let_def] chat_call_sound [OF assms]
    by (auto split: option.split json.split list.split sum.split)
qed

lemma get_distinct:
  assumes "distinct_json (JObj kvs)" "obj_get kvs k = Some v"
  shows "distinct_json v"
proof -
  have "(k, v) \<in> set kvs" using assms(2) map_of_SomeD unfolding obj_get_def by metis
  moreover have "list_all (\<lambda>(k, v). distinct_json v) kvs" using assms(1) by simp
  ultimately show ?thesis unfolding list_all_iff by blast
qed

lemma sound_invalid [simp]: "sound_outcome C g (g, invalid_params C env rpc)"
  by (simp add: invalid_params_def)

lemma mcp_recorded_sound: "sound_outcome C g (mcp_recorded C env rpc params op subject reason result g)"
proof (cases "without_meta params = []")
  case True
  then show ?thesis unfolding mcp_recorded_def by (simp only: if_False simp_thms) (rule sound_record, rule error_status(3))
qed (simp add: mcp_recorded_def)

lemma mcp_tools_call_sound:
  assumes "digests_hex C" "gw_policy g = default_gateway_policy" "distinct_json (JObj params)"
  shows "sound_outcome C g (mcp_tools_call C env rpc params g)"
proof -
  have call: "sound_outcome C g (case call_tool C env rid c g of (g', res) \<Rightarrow> (g', res_bind res (finish_mcp_call C rpc rid)))"
    if "tool_call_of_json C cid proto n a = Inr c" "distinct_json a" for cid proto n a c rid
  proof -
    obtain g' res where call: "call_tool C env rid c g = (g', res)" by fastforce
    have "distinct (map fst (tc_args c))"
      using that by (auto simp: tool_call_of_json_def split: json.splits dest!: mk_tool_call_Inr)
    from sound_call [OF assms(1,2) this call finish_mcp_status]
    show ?thesis by (simp add: call)
  qed
  show ?thesis
    unfolding mcp_tools_call_def Let_def
    using get_distinct [OF assms(3), of "''arguments''"] call
    by (cases "obj_get params ''name''"; cases "obj_get params ''arguments''") (auto split: sum.split)
qed

lemma mcp_method_sound:
  assumes "digests_hex C" "gw_policy g = default_gateway_policy" "distinct_json (JObj params)"
  shows "sound_outcome C g (mcp_method C env rpc rpc_method params g)"
  unfolding mcp_method_def using mcp_recorded_sound mcp_tools_call_sound [OF assms] by simp

lemma handle_mcp_sound:
  assumes "digests_hex C" "gw_policy g = default_gateway_policy" "distinct_json (JObj payload)"
  shows "sound_outcome C g (handle_mcp C env q payload g)"
proof -
  let ?params = "case obj_get payload ''params'' of None \<Rightarrow> JObj [] | Some v \<Rightarrow> v"
  have d: "distinct_json ?params"
    using get_distinct [OF assms(3), of "''params''"] by (cases "obj_get payload ''params''") auto
  have "sound_outcome C g (mcp_dispatch C env q rpc rpc_method params g)" if "distinct_json params" for rpc rpc_method params
  proof (cases params)
    case (JObj kvs)
    with that mcp_method_sound [OF assms(1,2), of kvs] show ?thesis
      by (simp add: mcp_dispatch_def split: option.split)
  qed (simp_all add: mcp_dispatch_def)
  from this [OF d] show ?thesis
    unfolding handle_mcp_def Let_def [of "mcp_error _ _ _ _ _ _ _"] Let_def [of "case_option _ _ _"]
    by (cases "obj_get payload ''method''") (simp_all split: json.split)
qed

lemma read_json_distinct: "read_json_body C n q = Inr payload \<Longrightarrow> distinct_json (JObj payload)"
  unfolding read_json_body_def Let_def by (auto split: if_splits option.splits simp del: distinct_json.simps dest: strict_json_distinct)

lemma do_post_sound:
  assumes "digests_hex C" "gw_policy g = default_gateway_policy"
  shows "sound_outcome C g (do_post C cfg env q g)"
proof (cases "read_json_body C (cf_max_body cfg) q")
  case (Inl e)
  then show ?thesis by (cases e) (simp_all add: do_post_def Let_def)
next
  case (Inr payload)
  then show ?thesis
    using handle_chat_sound [OF assms] handle_mcp_sound [OF assms read_json_distinct [OF Inr]]
    by (simp add: do_post_def Let_def)
qed

text \<open>
  C13: what a reply says about the log. A POST that is answered with status 200 has appended exactly
  one record, and its verdict is an allow; a POST answered with any other status has executed nothing and
  has appended nothing or one refusal. The policy never changes.
\<close>

theorem post_reply_matches_log:
  assumes "digests_hex C" "gw_policy g = default_gateway_policy" "do_post C cfg env q g = (g', Inr reply)"
  shows "gw_policy g' = default_gateway_policy \<and>
    (if rp_status reply = 200 then logged C GwAllow g g'
     else gw_executions g' = gw_executions g
       \<and> (gw_ledger g' = gw_ledger g \<or> logged C GwDeny g g' \<or> logged C GwApproval g g'))"
  using do_post_sound [OF assms(1,2), of cfg env q] assms(2,3) by (auto simp: sound_outcome_def split: if_splits)

end
