(* ===== verification/Gateway_Witnesses.thy ===== *)
theory Gateway_Witnesses
  imports Gateway_Properties
begin

text \<open>
  A concrete gateway, and every property of it applied to concrete requests; and what happens to a
  body that breaks a bound.
\<close>

definition sample_ledger :: audit_ledger where
  "sample_ledger = \<lparr>al_key = replicate 32 (CHR ''k''), al_file = None, al_closed = False\<rparr>"

definition sample_gateway :: gateway where
  "sample_gateway = \<lparr>gw_policy = default_gateway_policy, gw_ledger = sample_ledger, gw_executions = 0\<rparr>"

definition sample_env :: gw_env where
  "sample_env = \<lparr>ge_request_hex = ''00'', ge_call_hex = ''01'', ge_now = ''2026-01-01T00:00:00Z'', ge_time = 0\<rparr>"

definition sample_call :: tool_call where
  "sample_call = \<lparr>tc_id = ''call:01'', tc_protocol = Mcp, tc_tool = ''synthetic.lookup'',
     tc_args = [(''key'', JStr ''project-status'')]\<rparr>"

definition sample_config :: gateway_config where
  "sample_config = \<lparr>cf_host = LoopbackHost, cf_port = 8787, cf_audit_absolute = True, cf_max_body = 65536,
     cf_dashboard = True, cf_container = False\<rparr>"

definition sample_event :: audit_event where
  "sample_event = \<lparr>oe_request = ''r'', oe_protocol = Mcp, oe_operation = McpToolsList, oe_subject = ''tools/list'',
     oe_payload = JNull, oe_policy = zero_sha256, oe_verdict = GwAllow, oe_reason = ''ok''\<rparr>"

lemma sample_digests [simp]: "digests_hex sample_codec"
  using sample_sha256_text by (simp add: digests_hex_def) (simp add: sample_codec_def sha256_text_def hex_fixed_length hex_fixed_hex)

lemma sample_now: "occurred_ok ''2026-01-01T00:00:00Z''" "is_ascii ''2026-01-01T00:00:00Z''"
  by (simp_all add: occurred_ok_def code_points_ascii unicode_digit_def decimal_zeros_def)

lemma sample_event_ok: "event_ok sample_codec (ge_now sample_env) sample_event"
  using sample_now by (simp add: event_ok_def sample_event_def sample_env_def encodable_ascii is_lower_alpha_def safe_token_char_def)

lemma sample_read: "read_records sample_codec sample_ledger = Inr []"
  by (simp add: read_records_def sample_ledger_def)

lemma sample_fits: "fits sample_codec (ge_now sample_env) e sample_ledger []"
  using sample_now
  by (intro fits_if_space) (simp_all add: sample_env_def max_audit_records_def ledger_bytes_def sample_ledger_def max_audit_bytes_def)

definition chat_request :: "string \<Rightarrow> http_request" where
  "chat_request body = \<lparr>rq_path = ''/v1/chat/completions'',
     rq_headers = [(''Content-Type'', ''application/json''), (''Content-Length'', nat_digits (length body))], rq_body = body\<rparr>"

lemma map_res_Inl: "map_res f xs = Inl e \<Longrightarrow> \<exists>x \<in> set xs. f x = Inl e"
  by (induction xs) (auto simp: res_bind_Inl_iff)

lemma validate_no_contract: "validate_json_value d v \<noteq> Inl (ContractError m)"
proof (induction d v rule: validate_json_value.induct)
  case (1 d v)
  show ?case
  proof
    assume e: "validate_json_value d v = Inl (ContractError m)"
    then have d: "\<not> 12 < d" by (auto simp: validate_json_value.simps)
    show False
    proof (cases v)
      case (JArr vs)
      with e d have r: "length vs \<le> 256" "map_res (validate_json_value (Suc d)) vs = Inl (ContractError m)"
        by (auto simp: validate_json_value.simps [of d] res_bind_Inl_iff ensure_Inl_iff)
      from map_res_Inl [OF r(2)] obtain w where "w \<in> set vs" "validate_json_value (Suc d) w = Inl (ContractError m)"
        by blast
      with "1.IH"(1) [OF d JArr _ \<open>w \<in> set vs\<close>] r(1) show False by simp
    next
      case (JObj kvs)
      with e d have r: "length kvs \<le> 128" "map_res (\<lambda>(k, w). res_bind (ensure (k \<noteq> [] \<and> py_len k \<le> 128)
          (BoundError ''JSON object keys must be bounded non-empty strings'')) (\<lambda>_. validate_json_value (Suc d) w)) kvs
        = Inl (ContractError m)"
        by (auto simp: validate_json_value.simps [of d] res_bind_Inl_iff ensure_Inl_iff)
      from map_res_Inl [OF r(2)] obtain k w where kw: "(k, w) \<in> set kvs" "k \<noteq> [] \<and> py_len k \<le> 128"
        "validate_json_value (Suc d) w = Inl (ContractError m)"
        by (auto simp: res_bind_Inl_iff ensure_Inl_iff)
      with "1.IH"(2) [OF d JObj _ kw(1) refl] r(1) show False by simp
    qed (use e d in \<open>auto simp: validate_json_value.simps res_bind_Inl_iff ensure_Inl_iff\<close>)
  qed
qed

lemma chat_request_headers:
  "headers_safe (chat_request body)" "header_get (chat_request body) ''Transfer-Encoding'' = None"
  "header_get (chat_request body) ''Content-Type'' = Some ''application/json''"
  "header_get (chat_request body) ''Content-Length'' = Some (nat_digits (length body))"
  "media_type ''application/json'' = ''application/json''"
  by (simp_all add: headers_safe_def header_get_def chat_request_def media_type_def lower_def lower_char_def
      is_upper_alpha_def strip_latin_def is_space_def)

text \<open>
  A bound of the body is not a rejection. A well-formed body within the size limit whose value
  breaks a bound on nesting, strings, integers, arrays or objects leaves the POST handler as an
  exception: no reply is written, no record appended.
\<close>

theorem bound_violation_unanswered:
  assumes "load_ok False (JObj kvs)" "validate_json_value 0 (JObj kvs) = Inl e"
    and "body = render (float_repr C) False (JObj kvs)" "utf8_valid body"
    and "int (length body) \<le> cf_max_body cfg" "cf_max_body cfg \<le> 1048576"
  shows "do_post C cfg env (chat_request body) g = (g, Inl e)"
proof -
  have "loads (strict_hooks C) body = Inr (JObj kvs)"
    unfolding assms(3) by (rule loads_render [OF load_ok_strict [OF assms(1)]])
  then have parse: "strict_json_object C body = Inl e"
    using assms(2,4) by (simp add: strict_json_object_def)
  have "length body < 10 ^ Suc 6" using assms(5,6) by simp
  then have "length (nat_digits (length body)) \<le> 7" using nat_digits_length [of "length body" 6] by simp
  then have "read_json_body C (cf_max_body cfg) (chat_request body) = Inl e"
    unfolding read_json_body_def Let_def chat_request_headers option.case
    using parse assms(5) nat_digits_all_digits [of "length body"]
    by (simp add: int_digit_limit_def) (simp add: chat_request_def)
  moreover have "rq_path (chat_request body) \<noteq> ''/mcp''" by (simp add: chat_request_def)
  ultimately show ?thesis
    using validate_no_contract assms(2) chat_request_headers(1)
    by (cases e) (auto simp: do_post_def Let_def)
qed

definition nested :: "(string \<times> json) list" where
  "nested = [(''a'', ((\<lambda>v. JArr [v]) ^^ 13) JNull)]"

theorem bound_violation_unanswered_witness:
  "do_post sample_codec sample_config sample_env (chat_request (render (float_repr sample_codec) False (JObj nested))) sample_gateway
    = (sample_gateway, Inl (BoundError ''JSON nesting exceeds the gateway limit''))"
proof (rule bound_violation_unanswered [OF _ _ refl])
  show "load_ok False (JObj nested)" by (simp add: nested_def str_ok_def eval_nat_numeral)
  show "validate_json_value 0 (JObj nested) = Inl (BoundError ''JSON nesting exceeds the gateway limit'')"
    by (simp add: nested_def validate_json_value.simps py_len_ascii eval_nat_numeral)
  show "utf8_valid (render (float_repr sample_codec) False (JObj nested))"
    by (rule utf8_valid_ascii [OF render_False_ascii]) (simp add: nested_def str_ok_def eval_nat_numeral)
  show "int (length (render (float_repr sample_codec) False (JObj nested))) \<le> cf_max_body sample_config"
    by (simp add: nested_def sample_config_def eval_nat_numeral render_str_def esc_byte_def short_escape_def)
qed (simp add: sample_config_def)


theorem evaluation_is_intended_witness:
  "\<exists>d. evaluate_gateway_tool_call sample_codec sample_call default_gateway_policy = Inr d \<and> dn_permitted d"
  using evaluation_is_intended [of sample_codec sample_call]
  by (auto simp: sample_call_def intended_verdict_def)

theorem append_extends_log_witness:
  "\<exists>r l'. ledger_append sample_codec (ge_now sample_env) sample_event sample_ledger = (l', Inr r)
     \<and> read_records sample_codec l' = Inr [r]"
  using append_extends_log [OF sample_digests sample_event_ok _ sample_read sample_fits]
  by (auto simp: sample_ledger_def)

text \<open>Some readable ledger has no room: a run of appends that always had room would pass the record limit.\<close>

lemma some_ledger_full:
  "\<exists>l rs. \<not> al_closed l \<and> read_records sample_codec l = Inr rs
     \<and> \<not> fits sample_codec (ge_now sample_env) sample_event l rs"
proof (rule ccontr)
  assume "\<not> ?thesis"
  then have room: "fits sample_codec (ge_now sample_env) sample_event l rs"
    if "\<not> al_closed l" "read_records sample_codec l = Inr rs" for l rs
    using that by blast
  have "\<exists>l rs. \<not> al_closed l \<and> read_records sample_codec l = Inr rs \<and> length rs = n" for n
  proof (induction n)
    case 0
    show ?case using sample_read by (intro exI [of _ sample_ledger]) (simp add: sample_ledger_def)
  next
    case (Suc n)
    then obtain l rs where l: "\<not> al_closed l" "read_records sample_codec l = Inr rs" "length rs = n" by blast
    from append_with_room [OF sample_digests sample_event_ok l(1,2) room [OF l(1,2)]] obtain r l'
      where a: "ledger_append sample_codec (ge_now sample_env) sample_event l = (l', Inr r)"
        "read_records sample_codec l' = Inr (rs @ [r])" by blast
    then have "\<not> al_closed l'" using append_success [OF a(1)] l(1) by auto
    with a(2) l(3) show ?case by (intro exI [of _ l']) simp
  qed
  then obtain l rs where "read_records sample_codec l = Inr rs" "length rs = Suc max_audit_records" by blast
  then show False using read_lines_length unfolding read_records_Inr by (metis Suc_n_not_le_n)
qed

theorem append_without_room_poisons_witness:
  "\<exists>l l' err. (\<exists>rs. read_records sample_codec l = Inr rs)
     \<and> ledger_append sample_codec (ge_now sample_env) sample_event l = (l', Inl err) \<and> read_records sample_codec l' = Inl err"
proof -
  obtain l rs where l: "\<not> al_closed l" "read_records sample_codec l = Inr rs"
    "\<not> fits sample_codec (ge_now sample_env) sample_event l rs" using some_ledger_full by blast
  from append_without_room_poisons [OF sample_digests sample_event_ok l] l(2) show ?thesis by blast
qed

lemma splitlines_crlf:
  "list_all (\<lambda>c. 32 \<le> ord c) line \<Longrightarrow> line \<noteq> [] \<Longrightarrow> splitlines (line @ [char_of (13 :: nat), line_end]) = [line]"
proof (induction line)
  case (Cons c cs)
  then show ?case by (cases cs) (auto simp: line_end_def)
qed simp

text \<open>A log of one record, with two line endings.\<close>

theorem ledger_head_binds_witness:
  "\<exists>l l' rs. read_records sample_codec l = Inr rs \<and> read_records sample_codec l' = Inr rs
     \<and> ledger_bytes l \<noteq> ledger_bytes l' \<and> splitlines (ledger_bytes l) = splitlines (ledger_bytes l')"
proof -
  obtain r l where a: "ledger_append sample_codec (ge_now sample_env) sample_event sample_ledger = (l, Inr r)"
    "read_records sample_codec l = Inr [r]"
    using append_with_room [OF sample_digests sample_event_ok _ sample_read sample_fits]
    by (auto simp: sample_ledger_def)
  from append_success [OF a(1)] sample_read
  have l: "l = with_line sample_codec r sample_ledger"
    "audit_record_for sample_codec (al_key sample_ledger) (ge_now sample_env) [] sample_event = Inr r" by auto
  have p: "plain_record r"
    by (rule record_for_plain [OF l(2)]) (use sample_now in \<open>simp_all add: sample_env_def max_audit_records_def\<close>)
  let ?line = "audit_line sample_codec r"
  define l' where "l' = sample_ledger\<lparr>al_file := Some (?line @ [char_of (13 :: nat), line_end])\<rparr>"
  have t: "list_all (\<lambda>c. 32 \<le> ord c) ?line" "?line \<noteq> []" "length ?line \<le> 8192"
    using audit_line_text [OF p] audit_line_length [OF p] by blast+
  have bytes: "ledger_bytes l = ?line @ [line_end]" "ledger_bytes l' = ?line @ [char_of (13 :: nat), line_end]"
    by (simp_all add: l(1) l'_def) (simp_all add: ledger_bytes_def sample_ledger_def)
  have "read_lines sample_codec (al_key l) 1 zero_sha256 [?line] = Inr [r]"
    using a(2) splitlines_printable [OF t(1,2)] unfolding read_records_Inr bytes by simp
  then have read: "read_records sample_codec l' = Inr [r]"
    using splitlines_crlf [OF t(1,2)] t(3) unfolding read_records_Inr bytes
    by (simp add: l(1) l'_def max_audit_bytes_def max_audit_records_def) (simp add: line_end_def)
  have "inj_on (sha256_hex sample_codec) (entry_texts sample_codec [r] \<union> entry_texts sample_codec [r])"
    by (simp add: entry_texts_def)
  from ledger_head_binds [OF a(2) read _ _ _ this] a(2) read bytes show ?thesis
    by (intro exI [of _ l] exI [of _ l'] exI [of _ "[r]"]) simp
qed


lemma sample_append:
  assumes "event_ok sample_codec (ge_now sample_env) e"
  obtains l r where "ledger_append sample_codec (ge_now sample_env) e sample_ledger = (l, Inr r)"
  using append_with_room [OF sample_digests assms _ sample_read sample_fits] by (auto simp: sample_ledger_def)

lemma sample_policy_sha: "sha256_text (policy_sha256 sample_codec p)"
  using sample_digests by (simp add: policy_sha256_def gw_sha256_json_def digests_hex_def)

lemma sample_call_returns:
  "\<exists>g' d v. call_tool sample_codec sample_env ''gw_00'' sample_call sample_gateway = (g', Inr (d, v))"
proof -
  obtain d where d: "evaluate_gateway_tool_call sample_codec sample_call default_gateway_policy = Inr d"
    "(dn_disposition d, dn_reason d) = intended_verdict sample_call" "dn_permitted d"
    using evaluation_default [of sample_codec sample_call] by (auto simp: sample_call_def intended_verdict_def)
  have "sha256_text (dn_policy d)"
    using d(1) by (auto simp: evaluate_gateway_tool_call_def Let_def mk_gateway_decision_def raise_first_Inr_iff sample_policy_sha
      split: prod.splits)
  then have ok: "event_ok sample_codec (ge_now sample_env) \<lparr>oe_request = ''gw_00'', oe_protocol = tc_protocol sample_call,
      oe_operation = ToolCallOp, oe_subject = tc_tool sample_call, oe_payload = JObj (tc_args sample_call),
      oe_policy = dn_policy d, oe_verdict = dn_disposition d, oe_reason = dn_reason d\<rparr>"
    using sample_now intended_reason_token [of sample_call] d(2)
    by (simp add: event_ok_def sample_env_def sample_call_def encodable_ascii) (metis snd_conv)
  obtain l r where l: "ledger_append sample_codec (ge_now sample_env) \<lparr>oe_request = ''gw_00'', oe_protocol = tc_protocol sample_call,
      oe_operation = ToolCallOp, oe_subject = tc_tool sample_call, oe_payload = JObj (tc_args sample_call),
      oe_policy = dn_policy d, oe_verdict = dn_disposition d, oe_reason = dn_reason d\<rparr> sample_ledger = (l, Inr r)"
    using sample_append [OF ok] .
  obtain v where "execute_synthetic sample_codec sample_call = Inr v"
    by (simp add: execute_synthetic_def sample_call_def obj_get_def lookup_values_def)
  with d l show ?thesis by (auto simp: call_tool_def sample_gateway_def Let_def)
qed

theorem call_tool_audits_first_witness:
  "\<exists>g' d v. call_tool sample_codec sample_env ''gw_00'' sample_call sample_gateway = (g', Inr (d, Some v))
     \<and> gw_executions g' = 1 \<and> logged sample_codec GwAllow sample_gateway g'"
proof -
  obtain g' d v where c: "call_tool sample_codec sample_env ''gw_00'' sample_call sample_gateway = (g', Inr (d, v))"
    using sample_call_returns by blast
  have i: "intended_verdict sample_call = (GwAllow, ''synthetic_tool_allowed'')"
    by (simp add: intended_verdict_def sample_call_def)
  from call_tool_audits_first [OF sample_digests _ _ c] i c show ?thesis
    by (auto simp: sample_gateway_def sample_call_def)
qed

definition safe_chat :: "(string \<times> json) list" where
  "safe_chat = [(''model'', JStr ''ash-fake-safe''), (''messages'', JArr [JStr ''hi''])]"

lemma safe_chat_read:
  "read_json_body sample_codec 65536 (chat_request (render (float_repr sample_codec) False (JObj safe_chat))) = Inr safe_chat"
proof -
  have "load_ok False (JObj safe_chat)" by (simp add: safe_chat_def str_ok_def)
  then have "loads (strict_hooks sample_codec) (render (float_repr sample_codec) False (JObj safe_chat)) = Inr (JObj safe_chat)"
    by (intro loads_render load_ok_strict)
  moreover have "validate_json_value 0 (JObj safe_chat) = Inr ()"
    by (simp add: safe_chat_def validate_json_value.simps py_len_ascii encodable_ascii)
  moreover have "utf8_valid (render (float_repr sample_codec) False (JObj safe_chat))"
    by (rule utf8_valid_ascii [OF render_False_ascii]) (simp add: safe_chat_def str_ok_def)
  ultimately have "strict_json_object sample_codec (render (float_repr sample_codec) False (JObj safe_chat)) = Inr safe_chat"
    by (simp add: strict_json_object_def)
  moreover have "length (render (float_repr sample_codec) False (JObj safe_chat)) < 10 ^ Suc 2"
    by (simp add: safe_chat_def render_str_def esc_byte_def short_escape_def)
  moreover from this have "length (nat_digits (length (render (float_repr sample_codec) False (JObj safe_chat)))) \<le> 3"
    using nat_digits_length [of _ 2] by simp
  ultimately show ?thesis
    unfolding read_json_body_def Let_def chat_request_headers option.case
    using nat_digits_all_digits by (simp add: int_digit_limit_def) (simp add: chat_request_def)
qed

theorem post_reply_matches_log_witness:
  "\<exists>g' reply. do_post sample_codec sample_config sample_env
      (chat_request (render (float_repr sample_codec) False (JObj safe_chat))) sample_gateway = (g', Inr reply)
     \<and> rp_status reply = 200 \<and> logged sample_codec GwAllow sample_gateway g'"
proof -
  let ?q = "chat_request (render (float_repr sample_codec) False (JObj safe_chat))"
  have ok: "event_ok sample_codec (ge_now sample_env) \<lparr>oe_request = ''gw_00'', oe_protocol = OpenaiCompatible,
      oe_operation = ChatCompletion, oe_subject = ''ash-fake-safe'', oe_payload = JObj safe_chat,
      oe_policy = policy_sha256 sample_codec default_gateway_policy, oe_verdict = GwAllow, oe_reason = ''synthetic_response_allowed''\<rparr>"
    using sample_now sample_policy_sha
    by (simp add: event_ok_def sample_env_def safe_chat_def encodable_ascii is_lower_alpha_def safe_token_char_def)
  obtain l r where l: "ledger_append sample_codec (ge_now sample_env) \<lparr>oe_request = ''gw_00'', oe_protocol = OpenaiCompatible,
      oe_operation = ChatCompletion, oe_subject = ''ash-fake-safe'', oe_payload = JObj safe_chat,
      oe_policy = policy_sha256 sample_codec default_gateway_policy, oe_verdict = GwAllow, oe_reason = ''synthetic_response_allowed''\<rparr>
      sample_ledger = (l, Inr r)"
    using sample_append [OF ok] .
  have v: "validate_json_value 0 (JArr [JStr ''hi'']) = Inr ()"
    by (simp add: validate_json_value.simps encodable_ascii)
  have "\<exists>reply. write_json sample_codec 200 (chat_response sample_env ''gw_00'' ''ash-fake-safe'' ''Synthetic response.'') = Inr reply"
    by (simp add: write_json_def canonical_json_bytes_def chat_response_def encodable_ascii)
  moreover have "handle_chat sample_codec sample_env safe_chat sample_gateway =
      (sample_gateway\<lparr>gw_ledger := l\<rparr>,
       write_json sample_codec 200 (chat_response sample_env ''gw_00'' ''ash-fake-safe'' ''Synthetic response.''))"
    using l v
    by (simp add: handle_chat_def Let_def request_id_def)
      (simp add: sample_gateway_def safe_chat_def chat_keys_def obj_get_def sample_env_def record_operation_def)
  moreover have "do_post sample_codec sample_config sample_env ?q sample_gateway
      = handle_chat sample_codec sample_env safe_chat sample_gateway"
  proof -
    have "rq_path ?q = ''/v1/chat/completions''" by (simp add: chat_request_def)
    then show ?thesis
      using safe_chat_read chat_request_headers(1) by (simp add: do_post_def Let_def sample_config_def)
  qed
  ultimately obtain g' reply where p: "do_post sample_codec sample_config sample_env ?q sample_gateway = (g', Inr reply)"
    "write_json sample_codec 200 (chat_response sample_env ''gw_00'' ''ash-fake-safe'' ''Synthetic response.'') = Inr reply"
    by auto
  from p(2) have "rp_status reply = 200" by (rule write_json_status)
  with post_reply_matches_log [OF sample_digests _ p(1)] p show ?thesis by (simp add: sample_gateway_def)
qed

end
