(* ===== verification/Gateway_Files.thy ===== *)
theory Gateway_Files
  imports Gateway_Model
begin

text \<open>
  The file discipline of the gateway. The file system is outside the program and may change between two
  calls, so each function takes the answers it got, in the order it asked for them: what it
  returns is a function of those answers.
\<close>

section \<open>Answers of the file system\<close>

record file_stat =
  fs_dev :: int
  fs_ino :: int
  fs_size :: int
  fs_mtime :: int
  fs_regular :: bool
  fs_nlink :: nat

record path_view =
  pv_exists :: bool
  pv_link :: bool
  pv_dir :: bool

definition file_reference :: "file_stat \<Rightarrow> int \<times> int" where
  "file_reference s = (fs_dev s, fs_ino s)"

definition stat_identity :: "file_stat \<Rightarrow> int \<times> int \<times> int \<times> int" where
  "stat_identity s = (fs_dev s, fs_ino s, fs_size s, fs_mtime s)"

section \<open>Ancestors\<close>

text \<open>The views are of the path itself and then of its parents.\<close>

definition ancestor_error :: "bool \<Rightarrow> path_view \<Rightarrow> string option" where
  "ancestor_error itself v =
     (if \<not> pv_exists v then None
      else if pv_link v then Some ''gateway path must not traverse a link or reparse point''
      else if \<not> itself \<and> \<not> pv_dir v then Some ''gateway parent path must be a directory''
      else None)"

fun parents_error :: "path_view list \<Rightarrow> string option" where
  "parents_error [] = None"
| "parents_error (v # vs) = (case ancestor_error False v of Some e \<Rightarrow> Some e | None \<Rightarrow> parents_error vs)"

definition require_safe_ancestors :: "path_view list \<Rightarrow> gateway_error + unit" where
  "require_safe_ancestors vs =
     (case vs of
        [] \<Rightarrow> Inr ()
      | v # parents \<Rightarrow>
          (case ancestor_error True v of
             Some e \<Rightarrow> Inl (ContractError e)
           | None \<Rightarrow> (case parents_error parents of Some e \<Rightarrow> Inl (ContractError e) | None \<Rightarrow> Inr ())))"

text \<open>One look at a file: its ancestors, \<open>lstat\<close> (\<open>None\<close> when it fails) and whether it is a link.\<close>

record file_view =
  fv_ancestors :: "path_view list"
  fv_stat :: "file_stat option"
  fv_link :: bool

definition require_safe_file :: "string \<Rightarrow> file_view \<Rightarrow> gateway_error + unit" where
  "require_safe_file label v =
     res_bind (require_safe_ancestors (fv_ancestors v))
       (\<lambda>_. case fv_stat v of
              None \<Rightarrow> Inl (ContractError (label @ '' is unavailable''))
            | Some s \<Rightarrow> ensure (\<not> fv_link v \<and> fs_regular s \<and> fs_nlink s = 1)
                (ContractError (label @ '' must be a regular single-link file'')))"

section \<open>Reading\<close>

text \<open>\<open>os.read\<close> in pieces of at most 65536 bytes, up to one byte more than is allowed.\<close>

fun read_chunks :: "nat \<Rightarrow> string list \<Rightarrow> string" where
  "read_chunks remaining [] = []"
| "read_chunks remaining (c # cs) =
     (let d = take (min 65536 remaining) c
      in if d = [] then [] else d @ read_chunks (remaining - length d) cs)"

record read_trace =
  rt_first :: file_view
  rt_before :: file_stat
  rt_opened :: "file_stat option"
  rt_chunks :: "string list"
  rt_opened_after :: file_stat
  rt_last :: file_view
  rt_after :: file_stat

definition read_safe_file :: "string \<Rightarrow> nat \<Rightarrow> read_trace \<Rightarrow> gateway_error + string" where
  "read_safe_file label max_bytes t =
     res_bind (require_safe_file label (rt_first t))
     (\<lambda>_. case rt_opened t of
        None \<Rightarrow> Inl (ContractError (label @ '' could not be opened safely''))
      | Some opened \<Rightarrow>
          if \<not> fs_regular opened \<or> fs_nlink opened \<noteq> 1 \<or> file_reference (rt_before t) \<noteq> file_reference opened
          then Inl (ContractError (label @ '' changed before it was read''))
          else (let raw = read_chunks (max_bytes + 1) (rt_chunks t)
                in if length raw > max_bytes then Inl (ContractError (label @ '' exceeds its byte limit''))
                   else res_bind (require_safe_file label (rt_last t))
                     (\<lambda>_. if stat_identity (rt_before t) = stat_identity opened
                             \<and> stat_identity opened = stat_identity (rt_opened_after t)
                             \<and> stat_identity (rt_opened_after t) = stat_identity (rt_after t)
                          then Inr raw
                          else Inl (ContractError (label @ '' changed while it was read'')))))"

section \<open>The lock file and the audit directory\<close>

record open_trace =
  ot_first :: file_view
  ot_before :: file_stat
  ot_opened :: "file_stat option"
  ot_last :: file_view
  ot_after :: file_stat

definition open_safe_rw_file :: "string \<Rightarrow> open_trace \<Rightarrow> gateway_error + unit" where
  "open_safe_rw_file label t =
     res_bind (require_safe_file label (ot_first t))
     (\<lambda>_. case ot_opened t of
        None \<Rightarrow> Inl (LookupFailed ''os.open'')
      | Some opened \<Rightarrow>
          res_bind (require_safe_file label (ot_last t))
            (\<lambda>_. if \<not> fs_regular opened \<or> fs_nlink opened \<noteq> 1
                    \<or> \<not> (file_reference (ot_before t) = file_reference opened \<and> file_reference opened = file_reference (ot_after t))
                 then Inl (ContractError (label @ '' changed while it was opened''))
                 else Inr ()))"

text \<open>
  The audit directory: missing directories are made from the highest one down. The views are the
  ancestors seen first, the root, for a missing root the views of the missing paths up to the first
  existing one (\<open>None\<close> when the search ran out of parents), that one's ancestors, each directory as
  seen after \<open>mkdir\<close>, and the ancestors seen last.
\<close>

record directory_trace =
  dr_first :: "path_view list"
  dr_root :: path_view
  dr_anchor :: "path_view list option"
  dr_made :: "path_view list"
  dr_last :: "path_view list"

definition prepare_private_directory :: "directory_trace \<Rightarrow> gateway_error + unit" where
  "prepare_private_directory t =
     res_bind (require_safe_ancestors (dr_first t))
     (\<lambda>_. res_bind
        (if pv_exists (dr_root t) then
           ensure (\<not> pv_link (dr_root t) \<and> pv_dir (dr_root t)) (ContractError ''gateway audit root must be a real directory'')
         else (case dr_anchor t of
             None \<Rightarrow> Inl (ContractError ''gateway audit root has no existing ancestor'')
           | Some anchor \<Rightarrow>
               res_bind (require_safe_ancestors anchor)
                 (\<lambda>_. ensure (list_all (\<lambda>v. \<not> pv_link v \<and> pv_dir v) (dr_made t))
                    (ContractError ''gateway audit root creation was redirected''))))
        (\<lambda>_. require_safe_ancestors (dr_last t)))"

section \<open>The write of an append\<close>

text \<open>The file opened for appending, the look at the path after it, and the count \<open>os.write\<close> returned.\<close>

record write_trace =
  wt_opened :: file_stat
  wt_view :: file_view
  wt_after :: file_stat
  wt_written :: nat

definition append_write :: "string \<Rightarrow> write_trace \<Rightarrow> gateway_error + unit" where
  "append_write encoded t =
     res_bind (ensure (fs_regular (wt_opened t) \<and> fs_nlink (wt_opened t) = 1)
        (ContractError ''gateway audit ledger must be a regular single-link file''))
     (\<lambda>_. res_bind (require_safe_file ''gateway audit ledger'' (wt_view t))
     (\<lambda>_. res_bind (ensure (file_reference (wt_opened t) = file_reference (wt_after t))
        (ContractError ''gateway audit ledger path changed while it was opened''))
     (\<lambda>_. ensure (wt_written t = length encoded) (ContractError ''gateway audit append was incomplete''))))"

section \<open>What a successful read guarantees\<close>

lemma read_chunks_length: "length (read_chunks n cs) \<le> n"
proof (induction n cs rule: read_chunks.induct)
  case (2 n c cs)
  let ?d = "take (min 65536 n) c"
  show ?case
  proof (cases "?d = []")
    case False
    with "2.IH" [OF refl] have "length (read_chunks (n - length ?d) cs) \<le> n - length ?d" by blast
    moreover have "length ?d \<le> n" by simp
    ultimately show ?thesis using False by (simp add: Let_def del: length_take)
  qed (simp add: Let_def)
qed simp

text \<open>When no answer is longer than a piece and the total is allowed, everything is read up to an empty answer.\<close>

lemma read_chunks_all:
  "list_all (\<lambda>c. c \<noteq> [] \<and> length c \<le> 65536) cs \<Longrightarrow> length (concat cs) < n \<Longrightarrow> read_chunks n (cs @ [[]]) = concat cs"
proof (induction n cs rule: read_chunks.induct)
  case (2 n c cs)
  then have t: "take (min 65536 n) c = c" by simp
  from 2 have "c \<noteq> []" "length (concat cs) < n - length c" by auto
  with "2.IH" [OF refl] "2.prems" t show ?case by (simp add: Let_def)
qed simp

lemma require_safe_file_Inr:
  "require_safe_file label v = Inr u \<Longrightarrow>
     (\<exists>s. fv_stat v = Some s \<and> fs_regular s \<and> fs_nlink s = 1) \<and> \<not> fv_link v
     \<and> list_all (\<lambda>p. \<not> pv_exists p \<or> \<not> pv_link p) (fv_ancestors v)"
proof -
  have parents: "parents_error vs = None \<Longrightarrow> list_all (\<lambda>p. \<not> pv_exists p \<or> \<not> pv_link p) vs" for vs
    by (induction vs) (auto simp: ancestor_error_def split: option.splits if_splits)
  assume "require_safe_file label v = Inr u"
  then show ?thesis
    by (auto simp: require_safe_file_def require_safe_ancestors_def ancestor_error_def split: option.splits list.splits if_splits
        dest: parents)
qed

text \<open>
  A read returns one stable file. The text it returns is within the limit; the path was, before and
  after, a regular file with one link that is no link itself and is reached through none; the
  descriptor was that file, and device, inode, size and modification time are the same at all
  four looks.
\<close>

theorem safe_read_is_stable:
  assumes "read_safe_file label max_bytes t = Inr raw"
  shows "length raw \<le> max_bytes \<and> raw = read_chunks (max_bytes + 1) (rt_chunks t)
    \<and> (\<exists>opened. rt_opened t = Some opened \<and> fs_regular opened \<and> fs_nlink opened = 1
         \<and> stat_identity (rt_before t) = stat_identity opened \<and> stat_identity opened = stat_identity (rt_opened_after t)
         \<and> stat_identity (rt_opened_after t) = stat_identity (rt_after t))
    \<and> list_all (\<lambda>v. \<not> fv_link v \<and> pred_option (\<lambda>s. fs_regular s \<and> fs_nlink s = 1) (fv_stat v)
         \<and> list_all (\<lambda>p. \<not> (pv_exists p \<and> pv_link p)) (fv_ancestors v)) [rt_first t, rt_last t]"
proof -
  obtain opened where o': "rt_opened t = Some opened"
    using assms by (auto simp: read_safe_file_def split: option.splits)
  then have f: "require_safe_file label (rt_first t) = Inr ()" "require_safe_file label (rt_last t) = Inr ()"
    "fs_regular opened" "fs_nlink opened = 1" "raw = read_chunks (max_bytes + 1) (rt_chunks t)" "length raw \<le> max_bytes"
    "stat_identity (rt_before t) = stat_identity opened" "stat_identity opened = stat_identity (rt_opened_after t)"
    "stat_identity (rt_opened_after t) = stat_identity (rt_after t)"
    using assms by (auto simp: read_safe_file_def Let_def split: if_splits)
  from require_safe_file_Inr [OF f(1)] require_safe_file_Inr [OF f(2)] f o' show ?thesis
    by (auto simp: list_all_iff)
qed

definition sample_stat :: file_stat where
  "sample_stat = \<lparr>fs_dev = 1, fs_ino = 7, fs_size = 2, fs_mtime = 3, fs_regular = True, fs_nlink = 1\<rparr>"

definition sample_view :: file_view where
  "sample_view = \<lparr>fv_ancestors = [\<lparr>pv_exists = True, pv_link = False, pv_dir = False\<rparr>,
     \<lparr>pv_exists = True, pv_link = False, pv_dir = True\<rparr>], fv_stat = Some sample_stat, fv_link = False\<rparr>"

definition sample_trace :: read_trace where
  "sample_trace = \<lparr>rt_first = sample_view, rt_before = sample_stat, rt_opened = Some sample_stat, rt_chunks = [''ab'', []],
     rt_opened_after = sample_stat, rt_last = sample_view, rt_after = sample_stat\<rparr>"

theorem safe_read_is_stable_witness:
  "read_safe_file ''f'' 8 sample_trace = Inr ''ab'' \<and> ''ab'' = read_chunks 9 (rt_chunks sample_trace)"
proof -
  have r: "read_safe_file ''f'' 8 sample_trace = Inr ''ab''"
    by (simp add: read_safe_file_def require_safe_file_def require_safe_ancestors_def ancestor_error_def sample_trace_def
        sample_view_def sample_stat_def file_reference_def stat_identity_def Let_def)
  from safe_read_is_stable [OF r] r show ?thesis by simp
qed

end
