(* ===== verification/Covering.thy ===== *)
theory Covering
  imports Codec "HOL-Library.Product_Lexorder"
begin

text \<open>
  The constrained pairwise design of \<open>covering_array.py\<close>: the feasible combinations of the
  scenario factors, the greedy selection that covers every feasible pair of levels, and the
  rows it returns. The selection loop always ends, never reaches its \<open>RuntimeError\<close>, and
  every row it keeps adds a pair.
\<close>

section \<open>Factors and rows\<close>

type_synonym candidate = "(string \<times> string) list"
type_synonym level_pair = "string \<times> string \<times> string \<times> string"

datatype shadow_disposition = Observe | Challenge | Abstain

record design_row =
  dr_case_id :: string
  dr_factors :: candidate
  dr_family :: string
  dr_disposition :: shadow_disposition

definition default_factors :: "(string \<times> string list) list" where
  "default_factors =
    [(''source'', [''model'', ''tool'', ''retrieval'', ''memory'', ''sensor'']),
     (''transition'', [''summarize'', ''merge'', ''delegate'', ''invoke'', ''replay'']),
     (''topology'', [''single'', ''linear_chain'', ''fan_out'', ''fan_in'', ''multi_session'']),
     (''timing'', [''immediate'', ''stale'', ''replayed'', ''low_and_slow'']),
     (''guard_state'', [''bounded'', ''incomplete'', ''degraded'', ''forged_telemetry'']),
     (''boundary_relation'', [''non_expanding'', ''expansion_attempt''])]"

text \<open>\<open>row[name]\<close>: every row is a combination of all six names, so no lookup fails.\<close>

definition level :: "candidate \<Rightarrow> string \<Rightarrow> string" where
  "level row name = (case map_of row name of Some v \<Rightarrow> v | None \<Rightarrow> [])"

definition is_valid :: "candidate \<Rightarrow> bool" where
  "is_valid row =
     (let transition = level row ''transition''; topology = level row ''topology'';
          timing = level row ''timing''; source = level row ''source''
      in if transition = ''merge'' \<and> topology \<noteq> ''fan_in'' then False
         else if topology = ''fan_in'' \<and> transition \<noteq> ''merge'' then False
         else if transition = ''delegate'' \<and> topology = ''single'' then False
         else if timing = ''replayed'' \<and> transition \<noteq> ''replay'' then False
         else if transition = ''replay'' \<and> timing \<notin> {''replayed'', ''stale''} then False
         else if source = ''sensor'' \<and> transition \<in> {''delegate'', ''replay''} then False
         else True)"

fun row_pairs :: "candidate \<Rightarrow> level_pair set" where
  "row_pairs [] = {}"
| "row_pairs ((n, v) # rest) = (\<lambda>(n', v'). (n, v, n', v')) ` set rest \<union> row_pairs rest"

definition row_family :: "candidate \<Rightarrow> string" where
  "row_family row =
     (if level row ''guard_state'' \<in> {''incomplete'', ''forged_telemetry''} then ''T19''
      else if level row ''source'' = ''memory'' then ''T04''
      else if level row ''source'' = ''sensor'' then ''T16''
      else if level row ''transition'' = ''replay'' then ''T23''
      else if level row ''transition'' = ''delegate'' then ''T06''
      else if level row ''topology'' \<in> {''fan_out'', ''fan_in''} then ''T20''
      else ''T02'')"

definition row_disposition :: "candidate \<Rightarrow> shadow_disposition" where
  "row_disposition row =
     (if level row ''guard_state'' \<in> {''incomplete'', ''degraded'', ''forged_telemetry''} then Abstain
      else if level row ''boundary_relation'' = ''expansion_attempt'' then Challenge
      else Observe)"

section \<open>The greedy cover\<close>

text \<open>The loops over \<open>itertools.product\<close>, in its order.\<close>

definition feasible_candidates :: "candidate list" where
  "feasible_candidates =
     filter is_valid (map (zip (map fst default_factors)) (product_lists (map snd default_factors)))"

definition feasible_pair_universe :: "level_pair set" where
  "feasible_pair_universe = \<Union> (row_pairs ` set feasible_candidates)"

text \<open>The key \<open>(len(candidate_pairs[candidate] & uncovered), candidate)\<close>.\<close>

definition gain_key :: "level_pair set \<Rightarrow> candidate \<Rightarrow> nat \<times> candidate" where
  "gain_key uncovered row = (card (row_pairs row \<inter> uncovered), row)"

definition gain_less :: "level_pair set \<Rightarrow> candidate \<Rightarrow> candidate \<Rightarrow> bool" where
  "gain_less uncovered a b \<longleftrightarrow> gain_key uncovered a < gain_key uncovered b"

text \<open>\<open>max\<close> of no candidate raises a \<open>ValueError\<close>.\<close>

datatype cover_error = EmptyMax | CannotCover

function cover_loop :: "candidate list \<Rightarrow> level_pair set \<Rightarrow> candidate list \<Rightarrow> cover_error + candidate list"
  where
  "cover_loop candidates uncovered selected =
     (if uncovered = {} then Inr selected
      else case candidates of
        [] \<Rightarrow> Inl EmptyMax
      | c # cs \<Rightarrow>
          (let best = max_by (gain_less uncovered) c cs;
               newly_covered = row_pairs best \<inter> uncovered
           in if newly_covered = {} then Inl CannotCover
              else cover_loop (remove1 best candidates) (uncovered - newly_covered)
                     (selected @ [best])))"
  by pat_completeness auto
termination
proof (relation "measure (\<lambda>(candidates, _, _). length candidates)", goal_cases)
  case (2 candidates uncovered selected c cs best newly)
  then have "best \<in> set (c # cs)" using max_by_in by metis
  then have "length (remove1 best (c # cs)) < length (c # cs)"
    by (metis length_remove1 length_greater_0_conv diff_less list.distinct(1) One_nat_def zero_less_one)
  with 2 show ?case by simp
qed simp

declare cover_loop.simps [simp del]

definition design_row_of :: "codec \<Rightarrow> candidate \<Rightarrow> design_row" where
  "design_row_of C candidate =
     \<lparr>dr_case_id = ''ca2-'' @ take 16 (sha256_hex C
        (dumps (float_repr C) True (JObj (map (\<lambda>(n, v). (n, JStr v)) candidate)))),
      dr_factors = candidate,
      dr_family = row_family candidate,
      dr_disposition = row_disposition candidate\<rparr>"

definition generate_default_pairwise_design :: "codec \<Rightarrow> cover_error + design_row list" where
  "generate_default_pairwise_design C =
     (let candidates = feasible_candidates;
          uncovered = \<Union> (row_pairs ` set candidates)
      in res_bind (cover_loop candidates uncovered [])
           (\<lambda>selected. Inr (map (design_row_of C) selected)))"

section \<open>The loop ends with a cover\<close>

lemma finite_row_pairs [simp]: "finite (row_pairs row)"
  by (induction row rule: row_pairs.induct) auto

interpretation gain_order: key_order "gain_less uncovered" for uncovered
  by unfold_locales (auto simp: gain_less_def)

lemma gain_less_card:
  "\<not> gain_less uncovered a b \<Longrightarrow>
     card (row_pairs b \<inter> uncovered) \<le> card (row_pairs a \<inter> uncovered)"
  by (auto simp: gain_less_def gain_key_def not_less)

text \<open>A pair that some candidate still covers makes the best candidate cover one.\<close>

lemma best_covers:
  assumes "uncovered \<noteq> {}" "uncovered \<subseteq> \<Union> (row_pairs ` set (c # cs))"
  shows "row_pairs (max_by (gain_less uncovered) c cs) \<inter> uncovered \<noteq> {}"
proof -
  let ?best = "max_by (gain_less uncovered) c cs"
  from assms obtain r where r: "r \<in> set (c # cs)" "row_pairs r \<inter> uncovered \<noteq> {}" by blast
  have "card (row_pairs r \<inter> uncovered) \<le> card (row_pairs ?best \<inter> uncovered)"
    by (rule gain_less_card [OF gain_order.greatest [OF r(1)]])
  moreover have "0 < card (row_pairs r \<inter> uncovered)" using r(2) by (simp add: card_gt_0_iff)
  ultimately show ?thesis by auto
qed

text \<open>Every selected row covers a pair that no earlier one does.\<close>

fun each_adds :: "level_pair set \<Rightarrow> candidate list \<Rightarrow> bool" where
  "each_adds covered [] = True"
| "each_adds covered (r # rs) = (\<not> row_pairs r \<subseteq> covered \<and> each_adds (covered \<union> row_pairs r) rs)"

lemma each_adds_snoc:
  "each_adds covered (rs @ [r]) \<longleftrightarrow>
     each_adds covered rs \<and> \<not> row_pairs r \<subseteq> covered \<union> \<Union> (row_pairs ` set rs)"
  by (induction rs arbitrary: covered) (auto simp: Un_assoc)

lemma each_adds_distinct: "each_adds covered rs \<Longrightarrow> distinct rs"
proof (induction rs rule: rev_induct)
  case (snoc r rs)
  then show ?case by (auto simp: each_adds_snoc)
qed simp

lemma set_subset_remove1: "set xs \<subseteq> insert x (set (remove1 x xs))"
  by (induction xs) auto

lemma cover_loop_covers:
  assumes "uncovered \<subseteq> \<Union> (row_pairs ` set candidates)"
    and "U = uncovered \<union> \<Union> (row_pairs ` set selected)" "uncovered \<inter> \<Union> (row_pairs ` set selected) = {}"
    and "set candidates \<union> set selected \<subseteq> A" "each_adds {} selected" "\<Union> (row_pairs ` A) = U"
  shows "\<exists>rs. cover_loop candidates uncovered selected = Inr rs \<and> set rs \<subseteq> A
    \<and> \<Union> (row_pairs ` set rs) = U \<and> each_adds {} rs"
  using assms
proof (induction candidates uncovered selected rule: cover_loop.induct)
  case (1 candidates uncovered selected)
  show ?case
  proof (cases "uncovered = {}")
    case True
    with "1.prems" show ?thesis by (simp add: cover_loop.simps [of candidates])
  next
    case False
    with "1.prems"(1) obtain c cs where cs: "candidates = c # cs" by (cases candidates) auto
    define best where "best = max_by (gain_less uncovered) c cs"
    let ?new = "row_pairs best \<inter> uncovered"
    have new: "?new \<noteq> {}"
      using best_covers [OF False] "1.prems"(1) unfolding cs best_def by blast
    have best: "best \<in> set candidates" unfolding cs best_def by (rule max_by_in)
    have "set candidates \<subseteq> insert best (set (remove1 best candidates))"
      by (rule set_subset_remove1)
    with "1.prems"(1) have sub: "uncovered - ?new \<subseteq> \<Union> (row_pairs ` set (remove1 best candidates))"
      by blast
    have "\<exists>rs. cover_loop (remove1 best candidates) (uncovered - ?new) (selected @ [best]) = Inr rs
      \<and> set rs \<subseteq> A \<and> \<Union> (row_pairs ` set rs) = U \<and> each_adds {} rs"
    proof (rule "1.IH" [OF False cs best_def refl new sub])
      show "U = (uncovered - ?new) \<union> \<Union> (row_pairs ` set (selected @ [best]))"
        using "1.prems"(2,4,6) best by auto
      show "each_adds {} (selected @ [best])"
        using "1.prems"(3,5) new by (auto simp: each_adds_snoc)
      show "set (remove1 best candidates) \<union> set (selected @ [best]) \<subseteq> A"
        using "1.prems"(4) best set_remove1_subset [of best candidates] by auto
      show "(uncovered - ?new) \<inter> \<Union> (row_pairs ` set (selected @ [best])) = {}"
        using "1.prems"(3) by auto
    qed (rule "1.prems"(6))
    moreover have "cover_loop candidates uncovered selected
        = cover_loop (remove1 best candidates) (uncovered - ?new) (selected @ [best])"
      using False new unfolding cs best_def by (simp add: cover_loop.simps [of "c # cs"] Let_def)
    ultimately show ?thesis by simp
  qed
qed

text \<open>
  C36: Termination of the selection loop of the pairwise design: it returns rows for the default
  factors, never raising from the empty \<open>max\<close> or the \<open>RuntimeError\<close>; the pairs of the
  returned rows are exactly the feasible pairs, every row is a feasible combination, and every
  row covers a pair that no row before it covers (so no row is repeated).
\<close>

theorem pairwise_design_covers:
  "\<exists>rows. generate_default_pairwise_design C = Inr rows
     \<and> \<Union> (row_pairs ` set (map dr_factors rows)) = feasible_pair_universe
     \<and> set (map dr_factors rows) \<subseteq> set feasible_candidates
     \<and> each_adds {} (map dr_factors rows) \<and> distinct rows"
proof -
  have U: "\<Union> (row_pairs ` set feasible_candidates) = feasible_pair_universe"
    by (simp add: feasible_pair_universe_def)
  from cover_loop_covers [of feasible_pair_universe feasible_candidates feasible_pair_universe
      "[]" "set feasible_candidates"] U
  obtain rs where rs: "cover_loop feasible_candidates feasible_pair_universe [] = Inr rs"
    "set rs \<subseteq> set feasible_candidates" "\<Union> (row_pairs ` set rs) = feasible_pair_universe"
    "each_adds {} rs"
    by auto
  have factors: "map dr_factors (map (design_row_of C) rs) = rs"
    by (simp add: design_row_of_def comp_def)
  then have "distinct (map (design_row_of C) rs)"
    using each_adds_distinct [OF rs(4)] by (metis distinct_map)
  moreover have "generate_default_pairwise_design C = Inr (map (design_row_of C) rs)"
    by (simp only: generate_default_pairwise_design_def Let_def U rs(1) res_bind_simps)
  ultimately show ?thesis using rs(2-4) factors by (metis (no_types, lifting))
qed

end
