(* ===== verification/Attestation.thy ===== *)
theory Attestation
  imports Codec
begin

text \<open>
  The release policy of \<open>attestation_policy.py\<close> over the JSON that the signature verifier
  printed: the issues of one verification entry in the order the code appends them, and the
  verdict over all entries. The payload is the value \<open>json.loads\<close> returned, so a mapping is an
  object, a sequence is an array, and a missing key is \<open>null\<close>.
\<close>

section \<open>Python's views of a JSON value\<close>

definition as_mapping :: "json \<Rightarrow> (string \<times> json) list option" where
  "as_mapping v = (case v of JObj kvs \<Rightarrow> Some kvs | _ \<Rightarrow> None)"

definition as_sequence :: "json \<Rightarrow> json list option" where
  "as_sequence v = (case v of JArr vs \<Rightarrow> Some vs | _ \<Rightarrow> None)"

text \<open>\<open>row.get(key)\<close>\<close>

definition get :: "(string \<times> json) list \<Rightarrow> string \<Rightarrow> json" where
  "get row k = (case obj_get row k of Some v \<Rightarrow> v | None \<Rightarrow> JNull)"

text \<open>\<open>_mapping(row.get(key)) if row else None\<close>: an empty mapping is falsy.\<close>

definition get_mapping :: "(string \<times> json) list option \<Rightarrow> string \<Rightarrow> (string \<times> json) list option" where
  "get_mapping row k = (case row of None \<Rightarrow> None
     | Some kvs \<Rightarrow> if kvs = [] then None else as_mapping (get kvs k))"

definition get_is :: "(string \<times> json) list option \<Rightarrow> string \<Rightarrow> string \<Rightarrow> bool" where
  "get_is row k text \<longleftrightarrow> (case row of None \<Rightarrow> False | Some kvs \<Rightarrow> get kvs k = JStr text)"

section \<open>The policy\<close>

definition slsa_provenance_v1 :: string where
  "slsa_provenance_v1 = ''https://slsa.dev/provenance/v1''"

definition github_workflow_build_type :: string where
  "github_workflow_build_type = ''https://actions.github.io/buildtypes/workflow/v1''"

definition in_toto_statement_v1 :: string where
  "in_toto_statement_v1 = ''https://in-toto.io/Statement/v1''"

text \<open>The keyword arguments.\<close>

record release_policy =
  rp_repository :: string
  rp_workflow_path :: string
  rp_source_ref :: string
  rp_source_digest :: string
  rp_subject_sha256 :: string

definition repo_url :: "release_policy \<Rightarrow> string" where
  "repo_url P = ''https://github.com/'' @ rp_repository P"

text \<open>
  \<open>str(value).lower()\<close>: \<open>str\<close> of a value that is not text and the Unicode lower-casing are
  parameters of the entry check, as one function of the JSON value.
\<close>

definition subject_matches :: "(json \<Rightarrow> string) \<Rightarrow> release_policy \<Rightarrow> json \<Rightarrow> bool" where
  "subject_matches str_lower P subject =
     (case get_mapping (as_mapping subject) ''digest'' of
        None \<Rightarrow> False
      | Some digest \<Rightarrow> digest \<noteq> []
          \<and> str_lower (case obj_get digest ''sha256'' of Some v \<Rightarrow> v | None \<Rightarrow> JStr [])
              = rp_subject_sha256 P)"

definition dependency_matches :: "release_policy \<Rightarrow> json \<Rightarrow> bool" where
  "dependency_matches P dependency =
     (let row = as_mapping dependency; digest = get_mapping row ''digest''
      in (case row of None \<Rightarrow> False | Some kvs \<Rightarrow> kvs \<noteq> [])
         \<and> get_is row ''uri'' (''git+'' @ repo_url P @ ''@'' @ rp_source_ref P)
         \<and> (case digest of None \<Rightarrow> False | Some kvs \<Rightarrow> kvs \<noteq> [])
         \<and> get_is digest ''gitCommit'' (rp_source_digest P))"

definition any_of :: "(json \<Rightarrow> bool) \<Rightarrow> json \<Rightarrow> bool" where
  "any_of p v = (case as_sequence v of None \<Rightarrow> False | Some vs \<Rightarrow> list_ex p vs)"

definition issue :: "bool \<Rightarrow> string \<Rightarrow> string list" where
  "issue ok text = (if ok then [] else [text])"

definition statement_issues ::
  "(json \<Rightarrow> string) \<Rightarrow> release_policy \<Rightarrow> (string \<times> json) list \<Rightarrow> string list" where
  "statement_issues str_lower P statement =
     issue (get statement ''_type'' = JStr in_toto_statement_v1) ''statement type is not in-toto Statement v1''
     @ issue (get statement ''predicateType'' = JStr slsa_provenance_v1) ''predicate type is not SLSA provenance v1''
     @ issue (any_of (subject_matches str_lower P) (get statement ''subject''))
         ''attested subject digest does not match the artifact''"

definition expected_workflow :: "release_policy \<Rightarrow> (string \<times> string) list" where
  "expected_workflow P =
     [(''repository'', repo_url P), (''path'', rp_workflow_path P), (''ref'', rp_source_ref P)]"

definition workflow_matches :: "release_policy \<Rightarrow> (string \<times> json) list option \<Rightarrow> bool" where
  "workflow_matches P workflow =
     (case workflow of None \<Rightarrow> False
      | Some kvs \<Rightarrow> obj_keys kvs = fst ` set (expected_workflow P)
          \<and> list_all (\<lambda>(k, v). get kvs k = JStr v) (expected_workflow P))"

definition predicate_issues ::
  "release_policy \<Rightarrow> (string \<times> json) list \<Rightarrow> (string \<times> json) list \<Rightarrow> string list" where
  "predicate_issues P build_definition run_details =
     (let external = as_mapping (get build_definition ''externalParameters'');
          workflow = get_mapping external ''workflow'';
          github = get_mapping (as_mapping (get build_definition ''internalParameters'')) ''github'';
          builder = as_mapping (get run_details ''builder'')
      in issue (get build_definition ''buildType'' = JStr github_workflow_build_type)
           ''unexpected SLSA build type''
         @ issue (case external of None \<Rightarrow> False | Some kvs \<Rightarrow> obj_keys kvs = {''workflow''})
             ''unexpected SLSA external parameters''
         @ issue (workflow_matches P workflow)
             ''workflow repository/path/ref does not match release policy''
         @ issue (get_is github ''event_name'' ''push'')
             ''attestation was not produced by a push event''
         @ issue (get_is github ''runner_environment'' ''github-hosted'')
             ''attestation was not produced on a GitHub-hosted runner''
         @ issue (any_of (dependency_matches P) (get build_definition ''resolvedDependencies''))
             ''resolved source ref/digest does not match the release source''
         @ issue (get_is builder ''id''
               (repo_url P @ ''/'' @ rp_workflow_path P @ ''@'' @ rp_source_ref P))
             ''builder identity does not match the release workflow'')"

definition entry_issues :: "(json \<Rightarrow> string) \<Rightarrow> release_policy \<Rightarrow> json \<Rightarrow> string list" where
  "entry_issues str_lower P entry =
     (case as_mapping entry of
        None \<Rightarrow> [''verification entry is not an object'']
      | Some row \<Rightarrow>
     (case as_mapping (get row ''verificationResult'') of
        None \<Rightarrow> [''verificationResult is missing'']
      | Some result \<Rightarrow>
          issue (case as_sequence (get result ''verifiedTimestamps'') of None \<Rightarrow> False | Some ts \<Rightarrow> ts \<noteq> [])
            ''verified transparency/timestamp evidence is missing''
          @ (case as_mapping (get result ''statement'') of
               None \<Rightarrow> [''verified statement is missing'']
             | Some statement \<Rightarrow>
                 statement_issues str_lower P statement
                 @ (let predicate = as_mapping (get statement ''predicate'')
                    in case (get_mapping predicate ''buildDefinition'', get_mapping predicate ''runDetails'') of
                         (Some build_definition, Some run_details) \<Rightarrow>
                           predicate_issues P build_definition run_details
                       | _ \<Rightarrow> [''SLSA buildDefinition or runDetails is missing'']))))"

text \<open>
  \<open>enumerate\<close> of the failures; an empty list means the release is accepted.
\<close>

fun numbered :: "nat \<Rightarrow> string list list \<Rightarrow> string list" where
  "numbered i [] = []"
| "numbered i (issues # rest) =
     map (\<lambda>t. ''attestation['' @ int_repr (int i) @ '']: '' @ t) issues @ numbered (Suc i) rest"

definition validate_verification_results ::
  "(json \<Rightarrow> string) \<Rightarrow> release_policy \<Rightarrow> json \<Rightarrow> string list" where
  "validate_verification_results str_lower P payload =
     (case as_sequence payload of
        None \<Rightarrow> [''verification output contains no attestations'']
      | Some rows \<Rightarrow>
          if rows = [] then [''verification output contains no attestations'']
          else
            (let failures = map (entry_issues str_lower P) rows
             in if list_ex (\<lambda>issues. issues = []) failures then [] else numbered 0 failures))"

section \<open>What acceptance means\<close>

text \<open>
  The abstract policy: every required fact, said once, of one entry.
\<close>

fun path :: "json \<Rightarrow> string list \<Rightarrow> json option" where
  "path v [] = Some v"
| "path v (k # ks) = (case v of JObj kvs \<Rightarrow>
       (case obj_get kvs k of Some w \<Rightarrow> path w ks | None \<Rightarrow> None) | _ \<Rightarrow> None)"

definition attests :: "(json \<Rightarrow> string) \<Rightarrow> release_policy \<Rightarrow> json \<Rightarrow> bool" where
  "attests str_lower P entry \<longleftrightarrow>
     (let fact = (\<lambda>ks. path entry (''verificationResult'' # ks));
          build = (\<lambda>ks. fact ([''statement'', ''predicate'', ''buildDefinition''] @ ks));
          url = ''https://github.com/'' @ rp_repository P
      in (\<exists>t ts. fact [''verifiedTimestamps''] = Some (JArr (t # ts)))
       \<and> fact [''statement'', ''_type''] = Some (JStr ''https://in-toto.io/Statement/v1'')
       \<and> fact [''statement'', ''predicateType''] = Some (JStr ''https://slsa.dev/provenance/v1'')
       \<and> (\<exists>ss s. fact [''statement'', ''subject''] = Some (JArr ss) \<and> s \<in> set ss
             \<and> subject_matches str_lower P s)
       \<and> build [''buildType''] = Some (JStr ''https://actions.github.io/buildtypes/workflow/v1'')
       \<and> (\<exists>kvs. build [''externalParameters''] = Some (JObj kvs) \<and> fst ` set kvs = {''workflow''})
       \<and> (\<exists>kvs. build [''externalParameters'', ''workflow''] = Some (JObj kvs)
             \<and> fst ` set kvs = {''repository'', ''path'', ''ref''}
             \<and> map_of kvs ''repository'' = Some (JStr url)
             \<and> map_of kvs ''path'' = Some (JStr (rp_workflow_path P))
             \<and> map_of kvs ''ref'' = Some (JStr (rp_source_ref P)))
       \<and> build [''internalParameters'', ''github'', ''event_name''] = Some (JStr ''push'')
       \<and> build [''internalParameters'', ''github'', ''runner_environment''] = Some (JStr ''github-hosted'')
       \<and> (\<exists>ds d. build [''resolvedDependencies''] = Some (JArr ds) \<and> d \<in> set ds
             \<and> path d [''uri''] = Some (JStr (''git+'' @ url @ ''@'' @ rp_source_ref P))
             \<and> path d [''digest'', ''gitCommit''] = Some (JStr (rp_source_digest P)))
       \<and> fact [''statement'', ''predicate'', ''runDetails'', ''builder'', ''id'']
           = Some (JStr (url @ ''/'' @ rp_workflow_path P @ ''@'' @ rp_source_ref P)))"

section \<open>The command\<close>

text \<open>
  \<open>main\<close>: the two files are what reading them gave, \<open>Inl\<close> the class name of the exception.
  The result is the exit code and the printed lines.
\<close>

definition load_error_name :: "load_error \<Rightarrow> string" where
  "load_error_name e = (case e of JsonDecodeError \<Rightarrow> ''JSONDecodeError'' | IntTooLong \<Rightarrow> ''ValueError'')"

definition read_payload :: "codec \<Rightarrow> string + string \<Rightarrow> string + json" where
  "read_payload C file =
     res_bind file (\<lambda>raw.
     res_bind (ensure (utf8_valid raw) ''UnicodeDecodeError'') (\<lambda>_.
     map_err load_error_name (loads (default_hooks C) raw)))"

definition artifact_sha256 :: "codec \<Rightarrow> string + string \<Rightarrow> string + string" where
  "artifact_sha256 C file = res_bind file (\<lambda>raw. Inr (sha256_hex C raw))"

definition attestation_main ::
  "codec \<Rightarrow> (json \<Rightarrow> string) \<Rightarrow> release_policy \<Rightarrow> string \<Rightarrow> string + string \<Rightarrow> string + string
     \<Rightarrow> int \<times> string list" where
  "attestation_main C str_lower P artifact_name verification_json artifact =
     (let issues =
        res_bind (read_payload C verification_json) (\<lambda>payload.
        res_bind (artifact_sha256 C artifact) (\<lambda>digest.
        Inr (validate_verification_results str_lower (P\<lparr>rp_subject_sha256 := digest\<rparr>) payload)))
      in case issues of
           Inl name \<Rightarrow> (2, [''release attestation policy error: '' @ name])
         | Inr ts \<Rightarrow> if ts \<noteq> [] then (1, map (\<lambda>t. ''release attestation policy failure: '' @ t) ts)
             else (0, [''release attestation policy accepted: '' @ artifact_name]))"

section \<open>The checks decide the policy\<close>

lemma issue_Nil_iff [simp]: "issue ok text = [] \<longleftrightarrow> ok"
  by (simp add: issue_def)

lemma get_JStr_iff [simp]: "get row k = JStr t \<longleftrightarrow> obj_get row k = Some (JStr t)"
  by (auto simp: get_def split: option.splits)

lemma get_is_iff: "get_is row k t \<longleftrightarrow> (\<exists>kvs. row = Some kvs \<and> obj_get kvs k = Some (JStr t))"
  by (auto simp: get_is_def split: option.splits)

lemma as_mapping_Some_iff [simp]: "as_mapping v = Some kvs \<longleftrightarrow> v = JObj kvs"
  by (auto simp: as_mapping_def split: json.splits)

lemma as_mapping_simps [simp]:
  "as_mapping (JObj kvs) = Some kvs"
  by (simp add: as_mapping_def)

lemma as_sequence_Some_iff [simp]: "as_sequence v = Some vs \<longleftrightarrow> v = JArr vs"
  by (auto simp: as_sequence_def split: json.splits)

lemma get_JObj_iff [simp]: "get row k = JObj kvs \<longleftrightarrow> obj_get row k = Some (JObj kvs)"
  by (auto simp: get_def split: option.splits)

lemma get_JArr_iff [simp]: "get row k = JArr vs \<longleftrightarrow> obj_get row k = Some (JArr vs)"
  by (auto simp: get_def split: option.splits)

lemma get_mapping_Some_iff [simp]:
  "get_mapping row k = Some m \<longleftrightarrow> (\<exists>kvs. row = Some kvs \<and> obj_get kvs k = Some (JObj m))"
  by (auto simp: get_mapping_def obj_get_def split: option.splits)

lemma any_of_iff: "any_of p (get row k) \<longleftrightarrow> (\<exists>vs v. obj_get row k = Some (JArr vs) \<and> v \<in> set vs \<and> p v)"
  by (auto simp: any_of_def list_ex_iff split: option.splits)
    (metis as_sequence_Some_iff get_JArr_iff option.distinct(1))+

lemma path_one [simp]:
  "path v [k] = Some w \<longleftrightarrow> (\<exists>kvs. v = JObj kvs \<and> obj_get kvs k = Some w)"
  by (auto split: json.splits option.splits)

lemma path_two [simp]:
  "path v (k # k' # ks) = Some w \<longleftrightarrow>
     (\<exists>kvs m. v = JObj kvs \<and> obj_get kvs k = Some (JObj m) \<and> path (JObj m) (k' # ks) = Some w)"
  by (auto split: json.splits option.splits)

declare path.simps(2) [simp del]

lemma case_nonempty_iff:
  "(case m of None \<Rightarrow> False | Some kvs \<Rightarrow> kvs \<noteq> []) \<longleftrightarrow> (\<exists>kvs. m = Some kvs \<and> kvs \<noteq> [])"
  by (cases m) auto

lemma dependency_matches_iff:
  "dependency_matches P d \<longleftrightarrow>
     path d [''uri''] = Some (JStr (''git+'' @ repo_url P @ ''@'' @ rp_source_ref P))
     \<and> path d [''digest'', ''gitCommit''] = Some (JStr (rp_source_digest P))"
proof -
  have ne: "obj_get kvs k = Some v \<Longrightarrow> kvs \<noteq> []" for kvs k and v :: json
    by (auto simp: obj_get_def)
  show ?thesis
    unfolding dependency_matches_def Let_def case_nonempty_iff get_is_iff
    by (auto dest: ne)
qed

lemma workflow_matches_iff:
  "workflow_matches P (Some kvs) \<longleftrightarrow> obj_keys kvs = {''repository'', ''path'', ''ref''}
     \<and> obj_get kvs ''repository'' = Some (JStr (repo_url P))
     \<and> obj_get kvs ''path'' = Some (JStr (rp_workflow_path P))
     \<and> obj_get kvs ''ref'' = Some (JStr (rp_source_ref P))"
  by (simp add: workflow_matches_def expected_workflow_def)

lemma workflow_matches_None [simp]: "\<not> workflow_matches P None"
  by (simp add: workflow_matches_def)

lemma external_keys_iff:
  "(case as_mapping v of None \<Rightarrow> False | Some kvs \<Rightarrow> obj_keys kvs = K) \<longleftrightarrow>
     (\<exists>kvs. v = JObj kvs \<and> obj_keys kvs = K)"
  by (auto simp: as_mapping_def split: json.splits)

lemma any_workflow_iff:
  "workflow_matches P (get_mapping ext k) \<longleftrightarrow>
     (\<exists>kvs w. ext = Some kvs \<and> obj_get kvs k = Some (JObj w) \<and> workflow_matches P (Some w))"
proof (cases "get_mapping ext k")
  case (Some w)
  moreover from Some have "\<exists>kvs. ext = Some kvs \<and> obj_get kvs k = Some (JObj w)" by simp
  ultimately show ?thesis by (auto simp del: get_mapping_Some_iff)
next
  case None
  then have "\<nexists>kvs w. ext = Some kvs \<and> obj_get kvs k = Some (JObj w)"
    using get_mapping_Some_iff [of ext k] by fastforce
  with None show ?thesis by auto
qed

lemma predicate_issues_Nil_iff:
  "predicate_issues P build run = [] \<longleftrightarrow>
     path (JObj build) [''buildType''] = Some (JStr github_workflow_build_type)
     \<and> (\<exists>kvs. path (JObj build) [''externalParameters''] = Some (JObj kvs) \<and> obj_keys kvs = {''workflow''})
     \<and> (\<exists>kvs. path (JObj build) [''externalParameters'', ''workflow''] = Some (JObj kvs)
          \<and> workflow_matches P (Some kvs))
     \<and> path (JObj build) [''internalParameters'', ''github'', ''event_name''] = Some (JStr ''push'')
     \<and> path (JObj build) [''internalParameters'', ''github'', ''runner_environment'']
         = Some (JStr ''github-hosted'')
     \<and> (\<exists>ds d. path (JObj build) [''resolvedDependencies''] = Some (JArr ds) \<and> d \<in> set ds
          \<and> dependency_matches P d)
     \<and> path (JObj run) [''builder'', ''id'']
         = Some (JStr (repo_url P @ ''/'' @ rp_workflow_path P @ ''@'' @ rp_source_ref P))"
  unfolding predicate_issues_def Let_def append_is_Nil_conv issue_Nil_iff external_keys_iff
    get_is_iff any_of_iff any_workflow_iff
  by (simp del: append.simps) (intro conj_cong; blast)

lemma statement_issues_Nil_iff:
  "statement_issues f P st = [] \<longleftrightarrow>
     path (JObj st) [''_type''] = Some (JStr in_toto_statement_v1)
     \<and> path (JObj st) [''predicateType''] = Some (JStr slsa_provenance_v1)
     \<and> (\<exists>ss s. path (JObj st) [''subject''] = Some (JArr ss) \<and> s \<in> set ss \<and> subject_matches f P s)"
  unfolding statement_issues_def append_is_Nil_conv issue_Nil_iff any_of_iff by simp

lemma entry_issues_Nil_iff:
  "entry_issues f P entry = [] \<longleftrightarrow>
     (\<exists>result st build run. path entry [''verificationResult''] = Some (JObj result)
        \<and> (\<exists>t ts. path (JObj result) [''verifiedTimestamps''] = Some (JArr (t # ts)))
        \<and> path (JObj result) [''statement''] = Some (JObj st)
        \<and> path (JObj st) [''predicate'', ''buildDefinition''] = Some (JObj build)
        \<and> path (JObj st) [''predicate'', ''runDetails''] = Some (JObj run)
        \<and> statement_issues f P st = [] \<and> predicate_issues P build run = [])"
proof -
  have opt: "(case m of None \<Rightarrow> [t] | Some x \<Rightarrow> g x) = [] \<longleftrightarrow> (\<exists>x. m = Some x \<and> g x = [])"
    for m :: "(string \<times> json) list option" and t :: string and g
    by (cases m) auto
  have two: "(case (m, n) of (Some x, Some y) \<Rightarrow> g x y | _ \<Rightarrow> [t]) = [] \<longleftrightarrow>
      (\<exists>x y. m = Some x \<and> n = Some y \<and> g x y = [])"
    for m n :: "(string \<times> json) list option" and t :: string and g
    by (cases m; cases n) auto
  have ts: "(case as_sequence (get result k) of None \<Rightarrow> False | Some ts \<Rightarrow> ts \<noteq> []) \<longleftrightarrow>
      (\<exists>t ts. obj_get result k = Some (JArr (t # ts)))" for result k
    by (auto simp: as_sequence_def get_def neq_Nil_conv split: json.splits option.splits)
  show ?thesis
    unfolding entry_issues_def Let_def opt two append_is_Nil_conv issue_Nil_iff ts
    by simp blast
qed

lemma path_step: "path v [k] = Some (JObj m) \<Longrightarrow> path v (k # ks) = path (JObj m) ks"
  by (cases v) (auto simp: path.simps(2) split: option.splits)

lemma attests_iff: "attests f P entry \<longleftrightarrow> entry_issues f P entry = []"
proof -
  have here: "attests f P entry \<longleftrightarrow> statement_issues f P st = [] \<and> predicate_issues P build run = []
      \<and> (\<exists>t ts. path (JObj result) [''verifiedTimestamps''] = Some (JArr (t # ts)))"
    if p: "path entry [''verificationResult''] = Some (JObj result)"
      "path (JObj result) [''statement''] = Some (JObj st)"
      "path (JObj st) [''predicate'', ''buildDefinition''] = Some (JObj build)"
      "path (JObj st) [''predicate'', ''runDetails''] = Some (JObj run)" for result st build run
  proof -
    from p(3) obtain pr where pr: "path (JObj st) [''predicate''] = Some (JObj pr)"
      "path (JObj pr) [''buildDefinition''] = Some (JObj build)" by auto
    with p(4) have run: "path (JObj pr) [''runDetails''] = Some (JObj run)" by auto
    have eqs: "path entry (''verificationResult'' # ks) = path (JObj result) ks"
      "path (JObj result) (''statement'' # ks) = path (JObj st) ks"
      "path (JObj st) (''predicate'' # ''buildDefinition'' # ks) = path (JObj build) ks"
      "path (JObj st) (''predicate'' # ''runDetails'' # ks) = path (JObj run) ks" for ks
      by (simp_all only: path_step [OF p(1)] path_step [OF p(2)] path_step [OF pr(1)]
          path_step [OF pr(2)] path_step [OF run])
    show ?thesis
      unfolding attests_def statement_issues_Nil_iff predicate_issues_Nil_iff Let_def append_Cons append_Nil eqs
        dependency_matches_iff workflow_matches_iff in_toto_statement_v1_def slsa_provenance_v1_def
        github_workflow_build_type_def repo_url_def obj_keys_def obj_get_def
      by (intro iffI; elim conjE; intro conjI; assumption)
  qed
  have paths: "\<exists>result st build run. path entry [''verificationResult''] = Some (JObj result)
      \<and> path (JObj result) [''statement''] = Some (JObj st)
      \<and> path (JObj st) [''predicate'', ''buildDefinition''] = Some (JObj build)
      \<and> path (JObj st) [''predicate'', ''runDetails''] = Some (JObj run)" if "attests f P entry"
  proof -
    note facts = that [unfolded attests_def Let_def append_Cons append_Nil]
    have "\<exists>w. path entry [''verificationResult'', ''statement'', ''predicate'', ''buildDefinition'',
        ''buildType''] = Some w"
      using facts by (elim conjE) (rule exI, assumption)
    moreover have "\<exists>w. path entry [''verificationResult'', ''statement'', ''predicate'',
        ''runDetails'', ''builder'', ''id''] = Some w"
      using facts by (elim conjE) (rule exI, assumption)
    ultimately show ?thesis by auto
  qed
  show ?thesis
    unfolding entry_issues_Nil_iff using here paths by blast
qed

lemma numbered_Nil_iff: "numbered i fs = [] \<longleftrightarrow> list_all (\<lambda>f. f = []) fs"
  by (induction i fs rule: numbered.induct) auto

lemma validate_Nil_iff:
  "validate_verification_results f P payload = [] \<longleftrightarrow>
     (\<exists>vs e. payload = JArr vs \<and> e \<in> set vs \<and> attests f P e)"
proof (cases payload)
  case (JArr vs)
  then show ?thesis
    by (cases vs) (auto simp: validate_verification_results_def as_sequence_def Let_def
        numbered_Nil_iff attests_iff list_ex_iff image_iff)
qed (auto simp: validate_verification_results_def as_sequence_def)

section \<open>A release\<close>

definition sample_release_policy :: release_policy where
  "sample_release_policy = \<lparr>rp_repository = ''o/r'', rp_workflow_path = ''w.yml'', rp_source_ref = ''v1'',
     rp_source_digest = ''c0'', rp_subject_sha256 = ''ab''\<rparr>"

definition str_lower_sample :: "json \<Rightarrow> string" where
  "str_lower_sample v = (case v of JStr s \<Rightarrow> lower s | _ \<Rightarrow> [])"

definition sample_attestation :: "string \<Rightarrow> json" where
  "sample_attestation event = JObj [(''verificationResult'', JObj [
     (''verifiedTimestamps'', JArr [JNull]),
     (''statement'', JObj [
       (''_type'', JStr in_toto_statement_v1), (''predicateType'', JStr slsa_provenance_v1),
       (''subject'', JArr [JNull, JObj [(''digest'', JObj [(''sha256'', JStr ''AB'')])]]),
       (''predicate'', JObj [
         (''buildDefinition'', JObj [
           (''buildType'', JStr github_workflow_build_type),
           (''externalParameters'', JObj [(''workflow'', JObj [(''repository'', JStr (repo_url sample_release_policy)),
              (''path'', JStr ''w.yml''), (''ref'', JStr ''v1'')])]),
           (''internalParameters'', JObj [(''github'', JObj [(''event_name'', JStr event),
              (''runner_environment'', JStr ''github-hosted'')])]),
           (''resolvedDependencies'', JArr [JObj [
              (''uri'', JStr (''git+'' @ repo_url sample_release_policy @ ''@v1'')),
              (''digest'', JObj [(''gitCommit'', JStr ''c0'')])]])]),
         (''runDetails'', JObj [(''builder'', JObj [
            (''id'', JStr (repo_url sample_release_policy @ ''/w.yml@v1''))])])])])])]"

lemma sample_release_accepted:
  "validate_verification_results str_lower_sample sample_release_policy
     (JArr [sample_attestation ''schedule'', sample_attestation ''push'']) = []"
  by code_simp

lemma sample_release_refused:
  "validate_verification_results str_lower_sample sample_release_policy (JArr [sample_attestation ''schedule''])
     = [''attestation[0]: attestation was not produced by a push event'']"
  by code_simp

section \<open>Properties\<close>

text \<open>
  C35: The command exits with 0 exactly when the verification output is readable UTF-8, is a JSON
  array, and some entry of it states every fact of the release policy for the SHA-256 of the
  artifact: timestamps, statement and predicate types, the subject digest, build type, the
  workflow and nothing beside it, a push event on a hosted runner, the source commit and the
  builder. It exits with 2 exactly when a file cannot be read or the output does not parse.
\<close>

theorem release_accepted_iff:
  "(fst (attestation_main C str_lower P name verification_json artifact) = 0 \<longleftrightarrow>
      (\<exists>raw vs e bytes. verification_json = Inr raw \<and> utf8_valid raw
         \<and> loads (default_hooks C) raw = Inr (JArr vs) \<and> artifact = Inr bytes
         \<and> e \<in> set vs \<and> attests str_lower (P\<lparr>rp_subject_sha256 := sha256_hex C bytes\<rparr>) e))
   \<and> (fst (attestation_main C str_lower P name verification_json artifact) = 2 \<longleftrightarrow>
      (\<nexists>payload bytes. read_payload C verification_json = Inr payload \<and> artifact = Inr bytes))"
proof (cases "read_payload C verification_json")
  case (Inl e)
  then have "\<nexists>raw vs. verification_json = Inr raw \<and> utf8_valid raw
      \<and> loads (default_hooks C) raw = Inr (JArr vs)"
    by (auto simp: read_payload_def)
  with Inl show ?thesis by (auto simp: attestation_main_def)
next
  case (Inr payload)
  then obtain raw where raw: "verification_json = Inr raw" "utf8_valid raw"
    "loads (default_hooks C) raw = Inr payload"
    by (auto simp: read_payload_def)
  show ?thesis
  proof (cases artifact)
    case (Inl e)
    with Inr show ?thesis by (auto simp: attestation_main_def artifact_sha256_def)
  next
    case (Inr bytes)
    let ?ts = "validate_verification_results str_lower (P\<lparr>rp_subject_sha256 := sha256_hex C bytes\<rparr>) payload"
    from Inr \<open>read_payload _ _ = _\<close> have "attestation_main C str_lower P name verification_json artifact
        = (if ?ts \<noteq> [] then (1, map (\<lambda>t. ''release attestation policy failure: '' @ t) ?ts)
           else (0, [''release attestation policy accepted: '' @ name]))"
      by (simp add: attestation_main_def artifact_sha256_def)
    with raw Inr \<open>read_payload _ _ = _\<close> validate_Nil_iff [of str_lower _ payload]
    show ?thesis by auto
  qed
qed

end
