(* ===== verification/Quarantine_Model.thy ===== *)
theory Quarantine_Model
  imports Gateway_Model
begin

text \<open>
  The admission contract of \<open>quarantine_connector.py\<close>: profiles and their registry, the decoding of
  candidate bytes under one profile, the envelope and the verdict, and the bridge to a Gateway
  tool call. A constructor returns its record or the error its pydantic model raises. The Unicode
  case folding of keys and the recursion limit of the JSON parser are parameters.
\<close>

section \<open>Errors and parameters\<close>

text \<open>\<open>QuarantineConnectorError\<close>, \<open>QuarantineGatewayCompositionError\<close>, a pydantic \<open>ValidationError\<close>.\<close>

datatype quarantine_error = ConnectorError string | CompositionError string | Invalid string

text \<open>
  \<open>qe_normal\<close> keeps the alphanumeric characters of \<open>key.casefold()\<close>; \<open>qe_deep\<close> says that
  \<open>json.loads\<close> raises a \<open>RecursionError\<close> on a text.
\<close>

record quarantine_env =
  qe_codec :: codec
  qe_normal :: "string \<Rightarrow> string"
  qe_deep :: "string \<Rightarrow> bool"

definition max_quarantine_input :: int where "max_quarantine_input = 65536"
definition max_quarantine_arguments :: nat where "max_quarantine_arguments = 16384"

definition forbidden_authority_keys :: "string list" where
  "forbidden_authority_keys =
     [''allow'', ''approval'', ''approval_id'', ''authority'', ''capabilities'', ''capability'',
      ''capability_token'', ''effect'', ''endpoint'', ''executor'', ''policy'', ''policy_id'',
      ''permission'', ''permissions'', ''principal'', ''role'', ''route'', ''token'', ''tool'',
      ''tool_definition'', ''tool_name'', ''tools'']"

definition semantic_context_keys :: "string list" where
  "semantic_context_keys =
     [''context'', ''history'', ''messages'', ''session'', ''state'', ''transport_context'']"

section \<open>Profiles\<close>

record qc_binding =
  qb_capability :: string
  qb_protocol :: gw_protocol
  qb_tool :: string
  qb_allowed :: "string list"
  qb_required :: "string list"

definition mk_binding :: "qc_binding \<Rightarrow> quarantine_error + qc_binding" where
  "mk_binding b = raise_first
     [(\<not> safe_token (qb_capability b), Invalid ''capability_id''),
      (\<not> safe_token (qb_tool b), Invalid ''gateway_tool_name''),
      (qb_allowed b \<noteq> sorted_list_of_set (set (qb_allowed b)),
        Invalid ''allowed argument keys must be sorted and unique''),
      (qb_required b \<noteq> sorted_list_of_set (set (qb_required b)),
        Invalid ''required argument keys must be sorted and unique''),
      (\<not> set (qb_required b) \<subseteq> set (qb_allowed b), Invalid ''required argument keys must be allowed''),
      (list_ex (\<lambda>k. \<not> safe_token k) (qb_allowed b), Invalid ''argument keys must be safe tokens'')] b"

datatype context_mode = ContextForbidden | ContextRequired

fun context_mode_text :: "context_mode \<Rightarrow> string" where
  "context_mode_text ContextForbidden = ''forbidden''"
| "context_mode_text ContextRequired = ''required''"

record qc_bounds =
  bd_depth :: int
  bd_string :: int
  bd_items :: int
  bd_fields :: int

record qc_profile =
  qp_id :: string
  qp_version :: string
  qp_context :: context_mode
  qp_max_input :: int
  qp_bounds :: qc_bounds
  qp_capabilities :: "qc_binding list"

definition between :: "int \<Rightarrow> int \<Rightarrow> int \<Rightarrow> bool" where
  "between lo hi i \<longleftrightarrow> lo \<le> i \<and> i \<le> hi"

definition mk_profile :: "qc_profile \<Rightarrow> quarantine_error + qc_profile" where
  "mk_profile p =
     (let b = qp_bounds p; identities = map qb_capability (qp_capabilities p)
      in raise_first
     [(\<not> safe_token (qp_id p), Invalid ''profile_id''),
      (\<not> safe_token (qp_version p), Invalid ''profile_version''),
      (\<not> between 128 max_quarantine_input (qp_max_input p), Invalid ''max_input_bytes''),
      (\<not> between 1 12 (bd_depth b), Invalid ''max_depth''),
      (\<not> between 1 16384 (bd_string b), Invalid ''max_string_bytes''),
      (\<not> between 1 256 (bd_items b), Invalid ''max_collection_items''),
      (\<not> between 1 256 (bd_fields b), Invalid ''max_object_fields''),
      (32 < length (qp_capabilities p), Invalid ''capabilities''),
      (sort identities \<noteq> identities \<or> \<not> distinct identities,
        Invalid ''profile capabilities must be sorted and unique'')] p)"

definition binding_doc :: "qc_binding \<Rightarrow> json" where
  "binding_doc b = JObj
     [(''schema_version'', JStr ''AgenticSecurityHarnessQuarantineCapabilityBinding.v1''),
      (''capability_id'', JStr (qb_capability b)),
      (''gateway_protocol'', JStr (protocol_text (qb_protocol b))),
      (''gateway_tool_name'', JStr (qb_tool b)),
      (''allowed_argument_keys'', JArr (map JStr (qb_allowed b))),
      (''required_argument_keys'', JArr (map JStr (qb_required b)))]"

definition profile_doc :: "qc_profile \<Rightarrow> json" where
  "profile_doc p = JObj
     [(''schema_version'', JStr ''AgenticSecurityHarnessProviderAdapterProfile.v1''),
      (''profile_id'', JStr (qp_id p)),
      (''profile_version'', JStr (qp_version p)),
      (''representation'', JStr ''canonical_json''),
      (''context_mode'', JStr (context_mode_text (qp_context p))),
      (''max_input_bytes'', JInt (qp_max_input p)),
      (''max_depth'', JInt (bd_depth (qp_bounds p))),
      (''max_string_bytes'', JInt (bd_string (qp_bounds p))),
      (''max_collection_items'', JInt (bd_items (qp_bounds p))),
      (''max_object_fields'', JInt (bd_fields (qp_bounds p))),
      (''capabilities'', JArr (map binding_doc (qp_capabilities p)))]"

definition profile_sha256 :: "codec \<Rightarrow> qc_profile \<Rightarrow> string" where
  "profile_sha256 C p = sha256_domain C ''ash-quarantine-profile-v1'' (profile_doc p)"

definition profile_capability :: "qc_profile \<Rightarrow> string \<Rightarrow> qc_binding option" where
  "profile_capability p capability = find (\<lambda>b. qb_capability b = capability) (qp_capabilities p)"

record qc_registry =
  qr_profiles :: "qc_profile list"

definition mk_registry :: "qc_profile list \<Rightarrow> quarantine_error + qc_registry" where
  "mk_registry profiles =
     (let identities = map (\<lambda>p. (qp_id p, qp_version p)) profiles
      in raise_first
     [(\<not> (1 \<le> length profiles \<and> length profiles \<le> 64), Invalid ''profiles''),
      (\<not> sorted_wrt (\<lambda>a b. fst a < fst b \<or> fst a = fst b \<and> snd a \<le> snd b) identities
          \<or> \<not> distinct identities,
        Invalid ''registry profiles must be sorted and unique'')] \<lparr>qr_profiles = profiles\<rparr>)"

definition select_exact :: "qc_registry \<Rightarrow> string \<Rightarrow> string \<Rightarrow> qc_profile option" where
  "select_exact r pid version = find (\<lambda>p. qp_id p = pid \<and> qp_version p = version) (qr_profiles r)"

definition registry_sha256 :: "codec \<Rightarrow> qc_registry \<Rightarrow> string" where
  "registry_sha256 C r = sha256_domain C ''ash-quarantine-profile-registry-v1'' (JObj
     [(''schema_version'', JStr ''AgenticSecurityHarnessProviderAdapterProfileRegistry.v1''),
      (''profiles'', JArr (map profile_doc (qr_profiles r)))])"

section \<open>Bounded JSON\<close>

definition utf8_length :: "string \<Rightarrow> quarantine_error + nat" where
  "utf8_length s =
     (if encodable s then Inr (length s)
      else Inl (ConnectorError ''JSON string contains an invalid Unicode scalar''))"

definition text_fits :: "qc_bounds \<Rightarrow> string \<Rightarrow> string \<Rightarrow> quarantine_error + unit" where
  "text_fits b message s =
     res_bind (utf8_length s) (\<lambda>n. ensure (int n \<le> bd_string b) (ConnectorError message))"

fun bounded_json :: "qc_bounds \<Rightarrow> nat \<Rightarrow> json \<Rightarrow> quarantine_error + unit" where
  "bounded_json b d v =
     (if bd_depth b < int d then Inl (ConnectorError ''JSON depth exceeds the selected profile'')
      else (case v of
          JNull \<Rightarrow> Inr ()
        | JBool x \<Rightarrow> Inr ()
        | JStr s \<Rightarrow> text_fits b ''JSON string exceeds the selected profile'' s
        | JInt i \<Rightarrow> ensure (int64_ok i) (ConnectorError ''JSON integer exceeds signed 64-bit range'')
        | JFloat x \<Rightarrow> ensure (json_finite (JFloat x)) (ConnectorError ''JSON number is non-finite'')
        | JArr vs \<Rightarrow>
            res_bind (ensure (int (length vs) \<le> bd_items b)
                (ConnectorError ''JSON array exceeds the selected profile''))
              (\<lambda>_. res_bind (map_res (bounded_json b (Suc d)) vs) (\<lambda>_. Inr ()))
        | JObj kvs \<Rightarrow>
            res_bind (ensure (int (length kvs) \<le> bd_fields b)
                (ConnectorError ''JSON object exceeds the selected profile''))
              (\<lambda>_. res_bind (map_res (\<lambda>(k, w).
                   res_bind (text_fits b ''JSON key exceeds the selected profile'' k)
                     (\<lambda>_. bounded_json b (Suc d) w)) kvs) (\<lambda>_. Inr ()))))"

declare bounded_json.simps [simp del]

fun contains_forbidden_key :: "(string \<Rightarrow> string) \<Rightarrow> json \<Rightarrow> bool" where
  "contains_forbidden_key normal (JObj kvs) \<longleftrightarrow>
     list_ex (\<lambda>(k, v). normal k \<in> normal ` set forbidden_authority_keys) kvs
     \<or> list_ex (\<lambda>(k, v). contains_forbidden_key normal v) kvs"
| "contains_forbidden_key normal (JArr vs) \<longleftrightarrow> list_ex (contains_forbidden_key normal) vs"
| "contains_forbidden_key normal _ \<longleftrightarrow> False"

definition quarantine_bytes :: "codec \<Rightarrow> json \<Rightarrow> quarantine_error + string" where
  "quarantine_bytes C v =
     map_err (\<lambda>_. ConnectorError ''value is not canonical JSON'') (canonical_json_bytes C v)"

definition input_sha256 :: "codec \<Rightarrow> string \<Rightarrow> string" where
  "input_sha256 C payload = sha256_hex C (''ash-quarantine-input-v1'' @ [CHR 0x00] @ payload)"

section \<open>Requests, envelopes, verdicts\<close>

record context_binding =
  cb_profile :: string
  cb_version :: string
  cb_session :: string
  cb_endpoint :: string

definition context_schema :: string where
  "context_schema = ''AgenticSecurityHarnessQuarantineContextBinding.v1''"

definition qc_context_doc :: "context_binding \<Rightarrow> json" where
  "qc_context_doc c = JObj
     [(''schema_version'', JStr context_schema), (''profile_id'', JStr (cb_profile c)),
      (''profile_version'', JStr (cb_version c)), (''session_sha256'', JStr (cb_session c)),
      (''endpoint_sha256'', JStr (cb_endpoint c))]"

text \<open>\<open>isinstance(value, str)\<close> and \<open>type(value) is dict\<close> of a looked-up value.\<close>

definition text_at :: "(string \<times> json) list \<Rightarrow> string \<Rightarrow> string option" where
  "text_at kvs k = (case obj_get kvs k of Some (JStr s) \<Rightarrow> Some s | _ \<Rightarrow> None)"

definition object_at :: "(string \<times> json) list \<Rightarrow> string \<Rightarrow> (string \<times> json) list option" where
  "object_at kvs k = (case obj_get kvs k of Some (JObj m) \<Rightarrow> Some m | _ \<Rightarrow> None)"

lemma text_at_Some [simp]: "text_at kvs k = Some s \<longleftrightarrow> obj_get kvs k = Some (JStr s)"
  by (auto simp: text_at_def split: option.splits json.splits)

lemma object_at_Some [simp]: "object_at kvs k = Some m \<longleftrightarrow> obj_get kvs k = Some (JObj m)"
  by (auto simp: object_at_def split: option.splits json.splits)

text \<open>\<open>QuarantineContextBindingV1.model_validate\<close>: the schema version may be left out.\<close>

definition context_of_json :: "json \<Rightarrow> context_binding option" where
  "context_of_json v =
     (case v of
        JObj kvs \<Rightarrow>
          (if obj_keys kvs \<subseteq> {''schema_version'', ''profile_id'', ''profile_version'',
                 ''session_sha256'', ''endpoint_sha256''}
              \<and> (obj_get kvs ''schema_version'' = None
                 \<or> obj_get kvs ''schema_version'' = Some (JStr context_schema))
           then (case (text_at kvs ''profile_id'', text_at kvs ''profile_version'',
                       text_at kvs ''session_sha256'', text_at kvs ''endpoint_sha256'') of
                   (Some p, Some w, Some s, Some e) \<Rightarrow>
                     if safe_token p \<and> safe_token w \<and> sha256_text s \<and> sha256_text e
                     then Some \<lparr>cb_profile = p, cb_version = w, cb_session = s, cb_endpoint = e\<rparr>
                     else None
                 | _ \<Rightarrow> None)
           else None)
      | _ \<Rightarrow> None)"

record capability_request =
  cr_profile :: string
  cr_version :: string
  cr_request :: string
  cr_capability :: string
  cr_args :: "(string \<times> json) list"

definition request_bounds :: qc_bounds where
  "request_bounds = \<lparr>bd_depth = 12, bd_string = 16384, bd_items = 256, bd_fields = 256\<rparr>"

definition mk_request :: "codec \<Rightarrow> capability_request \<Rightarrow> quarantine_error + capability_request" where
  "mk_request C r =
     res_bind (ensure (list_all safe_token [cr_profile r, cr_version r, cr_request r, cr_capability r])
         (Invalid ''safe token''))
       (\<lambda>_. map_err (\<lambda>_. Invalid ''arguments'')
         (res_bind (bounded_json request_bounds 0 (JObj (cr_args r)))
           (\<lambda>_. res_bind (quarantine_bytes C (JObj (cr_args r)))
             (\<lambda>encoded. res_bind (ensure (length encoded \<le> max_quarantine_arguments)
                  (ConnectorError ''capability arguments exceed the connector limit''))
               (\<lambda>_. Inr r)))))"

definition request_doc :: "capability_request \<Rightarrow> json" where
  "request_doc r = JObj
     [(''schema_version'', JStr ''AgenticSecurityHarnessCapabilityRequest.v1''),
      (''profile_id'', JStr (cr_profile r)), (''profile_version'', JStr (cr_version r)),
      (''request_id'', JStr (cr_request r)), (''capability_id'', JStr (cr_capability r)),
      (''arguments'', JObj (cr_args r))]"

definition request_sha256 :: "codec \<Rightarrow> capability_request \<Rightarrow> string" where
  "request_sha256 C r = sha256_domain C ''ash-quarantine-capability-request-v1'' (request_doc r)"

datatype representation_kind = NoRequest | CapabilityRequest

fun kind_text :: "representation_kind \<Rightarrow> string" where
  "kind_text NoRequest = ''no_request''"
| "kind_text CapabilityRequest = ''capability_request''"

record model_envelope =
  me_profile :: string
  me_version :: string
  me_kind :: representation_kind
  me_input :: string
  me_profile_sha :: string
  me_context :: "context_binding option"
  me_request :: "capability_request option"

definition mk_envelope :: "model_envelope \<Rightarrow> quarantine_error + model_envelope" where
  "mk_envelope e = raise_first
     [(\<not> list_all safe_token [me_profile e, me_version e], Invalid ''safe token''),
      (\<not> list_all sha256_text [me_input e, me_profile_sha e], Invalid ''sha256''),
      (me_kind e = NoRequest \<and> me_request e \<noteq> None,
        Invalid ''no-request envelope cannot contain a capability request''),
      (me_kind e = CapabilityRequest \<and> me_request e = None,
        Invalid ''capability-request envelope requires a request''),
      (case me_request e of None \<Rightarrow> False
        | Some r \<Rightarrow> cr_profile r \<noteq> me_profile e \<or> cr_version r \<noteq> me_version e,
        Invalid ''capability request profile identity drifted''),
      (case me_context e of None \<Rightarrow> False
        | Some c \<Rightarrow> cb_profile c \<noteq> me_profile e \<or> cb_version c \<noteq> me_version e,
        Invalid ''context binding profile identity drifted'')] e"

definition wire_schema :: string where
  "wire_schema = ''AgenticSecurityHarnessModelEnvelope.v1''"

definition representation_doc :: "model_envelope \<Rightarrow> json" where
  "representation_doc e = JObj
     ((''kind'', JStr (kind_text (me_kind e)))
      # (case me_request e of None \<Rightarrow> []
         | Some r \<Rightarrow> [(''arguments'', JObj (cr_args r)), (''capability_id'', JStr (cr_capability r)),
             (''request_id'', JStr (cr_request r))]))"

definition input_doc :: "model_envelope \<Rightarrow> json" where
  "input_doc e = JObj
     ([(''profile_id'', JStr (me_profile e)), (''profile_version'', JStr (me_version e)),
       (''representation'', representation_doc e), (''schema_version'', JStr wire_schema)]
      @ (case me_context e of None \<Rightarrow> [] | Some c \<Rightarrow> [(''context_binding'', qc_context_doc c)]))"

definition canonical_input_bytes :: "codec \<Rightarrow> model_envelope \<Rightarrow> quarantine_error + string" where
  "canonical_input_bytes C e = quarantine_bytes C (input_doc e)"

definition opt_doc :: "('a \<Rightarrow> json) \<Rightarrow> 'a option \<Rightarrow> json" where
  "opt_doc f x = (case x of None \<Rightarrow> JNull | Some a \<Rightarrow> f a)"

definition envelope_doc :: "model_envelope \<Rightarrow> json" where
  "envelope_doc e = JObj
     [(''schema_version'', JStr wire_schema), (''profile_id'', JStr (me_profile e)),
      (''profile_version'', JStr (me_version e)),
      (''representation_kind'', JStr (kind_text (me_kind e))),
      (''input_sha256'', JStr (me_input e)), (''profile_sha256'', JStr (me_profile_sha e)),
      (''context_binding'', opt_doc qc_context_doc (me_context e)),
      (''capability_request'', opt_doc request_doc (me_request e))]"

definition envelope_sha256 :: "codec \<Rightarrow> model_envelope \<Rightarrow> string" where
  "envelope_sha256 C e = sha256_domain C ''ash-quarantine-model-envelope-v1'' (envelope_doc e)"

datatype qc_disposition = Admit | Reject | Inconclusive

fun qc_disposition_text :: "qc_disposition \<Rightarrow> string" where
  "qc_disposition_text Admit = ''admit''"
| "qc_disposition_text Reject = ''reject''"
| "qc_disposition_text Inconclusive = ''inconclusive''"

record qc_verdict =
  qv_disposition :: qc_disposition
  qv_reason :: string
  qv_profile :: string
  qv_version :: string
  qv_input :: "string option"
  qv_profile_sha :: "string option"
  qv_envelope :: "model_envelope option"
  qv_request :: "capability_request option"

definition opt_sha :: "string option \<Rightarrow> bool" where
  "opt_sha x = (case x of None \<Rightarrow> True | Some s \<Rightarrow> sha256_text s)"

text \<open>The two requests compared are one object wherever a verdict is built.\<close>

definition mk_verdict :: "qc_verdict \<Rightarrow> quarantine_error + qc_verdict" where
  "mk_verdict v =
     res_bind (ensure (list_all safe_token [qv_reason v, qv_profile v, qv_version v]) (Invalid ''safe token''))
     (\<lambda>_. res_bind (ensure (opt_sha (qv_input v) \<and> opt_sha (qv_profile_sha v)) (Invalid ''sha256''))
     (\<lambda>_.
       if qv_disposition v \<noteq> Admit then
         (if qv_envelope v \<noteq> None \<or> qv_request v \<noteq> None
          then Inl (Invalid ''non-admit verdict cannot retain admitted objects'') else Inr v)
       else (case (qv_envelope v, qv_profile_sha v, qv_input v) of
           (Some e, Some p, Some i) \<Rightarrow>
             if me_profile e \<noteq> qv_profile v \<or> me_version e \<noteq> qv_version v \<or> me_profile_sha e \<noteq> p
                \<or> me_input e \<noteq> i \<or> me_request e \<noteq> qv_request v
             then Inl (Invalid ''admit verdict commitments drifted'') else Inr v
         | _ \<Rightarrow> Inl (Invalid ''admit verdict requires profile, input, and envelope commitments''))))"

definition verdict_doc :: "qc_verdict \<Rightarrow> json" where
  "verdict_doc v = JObj
     [(''schema_version'', JStr ''AgenticSecurityHarnessQuarantineVerdict.v1''),
      (''disposition'', JStr (qc_disposition_text (qv_disposition v))),
      (''reason_code'', JStr (qv_reason v)), (''selected_profile_id'', JStr (qv_profile v)),
      (''selected_profile_version'', JStr (qv_version v)),
      (''input_sha256'', opt_doc JStr (qv_input v)),
      (''profile_sha256'', opt_doc JStr (qv_profile_sha v)),
      (''envelope'', opt_doc envelope_doc (qv_envelope v)),
      (''capability_request'', opt_doc request_doc (qv_request v)),
      (''operational_authority'', JStr ''none'')]"

definition verdict_sha256 :: "codec \<Rightarrow> qc_verdict \<Rightarrow> string" where
  "verdict_sha256 C v = sha256_domain C ''ash-quarantine-verdict-v1'' (verdict_doc v)"

end
