(* ===== verification/Quarantine.thy ===== *)
theory Quarantine
  imports Quarantine_Model Json_Hooks
begin

text \<open>
  The operations of \<open>quarantine_connector.py\<close> and \<open>quarantine_gateway_composition.py\<close>: decoding the
  candidate bytes, normalising them to an envelope, the verdict, the bridge to a Gateway call and
  the composition with the Gateway's policy decision, as the code orders their checks.
\<close>

section \<open>Decoding\<close>

text \<open>
  An \<open>_InputViolation\<close> with its reason code becomes a rejection; any other exception leaves the
  evaluation.
\<close>

datatype violation = InputViolation string | Escapes quarantine_error

datatype load_failure = DuplicateKey | MalformedJson

definition load_violation :: "load_failure \<Rightarrow> violation" where
  "load_violation e = (case e of DuplicateKey \<Rightarrow> InputViolation ''duplicate_json_key''
     | MalformedJson \<Rightarrow> InputViolation ''malformed_json'')"

definition quarantine_hooks :: "codec \<Rightarrow> load_failure hooks" where
  "quarantine_hooks C =
     \<lparr>h_pairs = (\<lambda>kvs. if distinct (map fst kvs) then Inr (JObj kvs) else Inl DuplicateKey),
      h_const = (\<lambda>t. Inl MalformedJson),
      h_int = (\<lambda>t. if digit_count t > int_digit_limit \<or> \<not> int64_ok (int_of_text t) then Inl MalformedJson
                   else Inr (JInt (int_of_text t))),
      h_float = (\<lambda>t. if json_finite (JFloat (float_of_text C t)) then Inr (JFloat (float_of_text C t))
                     else Inl MalformedJson),
      h_syntax = MalformedJson\<rparr>"

definition decode_canonical_root ::
  "quarantine_env \<Rightarrow> qc_profile \<Rightarrow> string \<Rightarrow> violation + (string \<times> json) list" where
  "decode_canonical_root E P payload =
     (let C = qe_codec E
      in res_bind (ensure (utf8_valid payload) (InputViolation ''malformed_utf8'')) (\<lambda>_.
         res_bind (if qe_deep E payload then Inl (InputViolation ''malformed_json'')
                   else map_err load_violation (loads (quarantine_hooks C) payload)) (\<lambda>v.
         case v of
           JObj kvs \<Rightarrow>
             res_bind (map_err (\<lambda>_. InputViolation ''profile_bounds_exceeded'')
                         (bounded_json (qp_bounds P) 0 v)) (\<lambda>_.
             res_bind (map_err Escapes (quarantine_bytes C v)) (\<lambda>bytes.
             res_bind (ensure (bytes = payload) (InputViolation ''noncanonical_json'')) (\<lambda>_.
             res_bind (ensure (\<not> contains_forbidden_key (qe_normal E) v)
                         (InputViolation ''authority_claim_forbidden'')) (\<lambda>_.
             res_bind (ensure (obj_keys kvs \<inter> set semantic_context_keys = {})
                         (InputViolation ''semantic_context_unbound'')) (\<lambda>_.
             Inr kvs)))))
         | _ \<Rightarrow> Inl (InputViolation ''root_type_invalid''))))"

section \<open>Normalising\<close>

definition allowed_root :: "qc_profile \<Rightarrow> string set" where
  "allowed_root P =
     {''profile_id'', ''profile_version'', ''representation'', ''schema_version''}
     \<union> (if qp_context P = ContextRequired then {''context_binding''} else {})"

text \<open>The subscript \<open>root["context_binding"]\<close> follows the check of the keys.\<close>

definition root_context ::
  "qc_profile \<Rightarrow> (string \<times> json) list \<Rightarrow> violation + context_binding option" where
  "root_context P doc =
     (if qp_context P = ContextForbidden then Inr None
      else case obj_get doc ''context_binding'' of
             None \<Rightarrow> Inl (Escapes (ConnectorError ''KeyError''))
           | Some v \<Rightarrow>
               (case context_of_json v of
                  None \<Rightarrow> Inl (InputViolation ''context_binding_invalid'')
                | Some c \<Rightarrow>
                    if cb_profile c \<noteq> qp_id P \<or> cb_version c \<noteq> qp_version P
                    then Inl (InputViolation ''context_binding_mismatch'') else Inr (Some c)))"

definition bound_request ::
  "codec \<Rightarrow> qc_profile \<Rightarrow> string \<Rightarrow> string \<Rightarrow> (string \<times> json) list \<Rightarrow> violation + capability_request" where
  "bound_request C P capability request args =
     (case profile_capability P capability of
        None \<Rightarrow> Inl (InputViolation ''capability_not_registered'')
      | Some b \<Rightarrow>
          res_bind (ensure (set (qb_required b) \<subseteq> obj_keys args \<and> obj_keys args \<subseteq> set (qb_allowed b))
             (InputViolation ''capability_arguments_invalid'')) (\<lambda>_.
          map_err (\<lambda>_. InputViolation ''representation_type_invalid'')
            (mk_request C \<lparr>cr_profile = qp_id P, cr_version = qp_version P, cr_request = request,
               cr_capability = capability, cr_args = args\<rparr>)))"

definition root_request ::
  "codec \<Rightarrow> qc_profile \<Rightarrow> (string \<times> json) list \<Rightarrow> violation + capability_request" where
  "root_request C P rep =
     res_bind (ensure (obj_keys rep = {''arguments'', ''capability_id'', ''kind'', ''request_id''})
        (InputViolation ''representation_shape_invalid'')) (\<lambda>_.
     case (text_at rep ''capability_id'', text_at rep ''request_id'', object_at rep ''arguments'') of
       (Some capability, Some request, Some args) \<Rightarrow> bound_request C P capability request args
     | _ \<Rightarrow> Inl (InputViolation ''representation_type_invalid''))"

definition root_representation ::
  "codec \<Rightarrow> qc_profile \<Rightarrow> (string \<times> json) list \<Rightarrow> violation + (representation_kind \<times> capability_request option)"
  where
  "root_representation C P doc =
     (case object_at doc ''representation'' of
        Some kvs \<Rightarrow>
          (if text_at kvs ''kind'' = Some ''no_request'' then
             (if obj_keys kvs \<noteq> {''kind''} then Inl (InputViolation ''representation_shape_invalid'')
              else Inr (NoRequest, None))
           else if text_at kvs ''kind'' = Some ''capability_request'' then
             res_bind (root_request C P kvs) (\<lambda>r. Inr (CapabilityRequest, Some r))
           else Inl (InputViolation ''representation_kind_invalid''))
      | None \<Rightarrow> Inl (InputViolation ''representation_type_invalid''))"

definition normalize_envelope ::
  "codec \<Rightarrow> qc_profile \<Rightarrow> string \<Rightarrow> (string \<times> json) list \<Rightarrow> violation + model_envelope" where
  "normalize_envelope C P digest doc =
     res_bind (ensure (obj_keys doc = allowed_root P)
        (InputViolation (if qp_context P = ContextRequired \<and> ''context_binding'' \<notin> obj_keys doc
           then ''context_binding_required'' else ''outer_shape_invalid''))) (\<lambda>_.
     res_bind (ensure (obj_get doc ''schema_version'' = Some (JStr wire_schema))
        (InputViolation ''schema_version_mismatch'')) (\<lambda>_.
     res_bind (ensure (obj_get doc ''profile_id'' = Some (JStr (qp_id P))
          \<and> obj_get doc ''profile_version'' = Some (JStr (qp_version P)))
        (InputViolation ''profile_identity_mismatch'')) (\<lambda>_.
     res_bind (root_context P doc) (\<lambda>context.
     res_bind (root_representation C P doc) (\<lambda>(kind, request).
     res_bind (map_err (\<lambda>_. InputViolation ''representation_invalid'')
        (mk_envelope \<lparr>me_profile = qp_id P, me_version = qp_version P, me_kind = kind, me_input = digest,
           me_profile_sha = profile_sha256 C P, me_context = context, me_request = request\<rparr>)) (\<lambda>envelope.
     res_bind (map_err Escapes (canonical_input_bytes C envelope)) (\<lambda>rebuilt.
     res_bind (map_err Escapes (quarantine_bytes C (JObj doc))) (\<lambda>bytes.
     res_bind (ensure (rebuilt = bytes) (InputViolation ''representation_preservation_failed'')) (\<lambda>_.
     Inr envelope)))))))))"

section \<open>Evaluation\<close>

text \<open>A payload that is not exactly \<open>bytes\<close> is \<open>None\<close>.\<close>

definition bounded_input_sha256 :: "codec \<Rightarrow> string option \<Rightarrow> string option" where
  "bounded_input_sha256 C payload =
     (case payload of None \<Rightarrow> None
      | Some raw \<Rightarrow> if raw = [] \<or> max_quarantine_input < int (length raw) then None
                    else Some (input_sha256 C raw))"

definition reject_input ::
  "codec \<Rightarrow> qc_profile \<Rightarrow> string \<Rightarrow> string option \<Rightarrow> quarantine_error + qc_verdict" where
  "reject_input C P reason digest = mk_verdict
     \<lparr>qv_disposition = Reject, qv_reason = reason, qv_profile = qp_id P, qv_version = qp_version P,
      qv_input = digest, qv_profile_sha = Some (profile_sha256 C P), qv_envelope = None,
      qv_request = None\<rparr>"

definition admit_envelope :: "codec \<Rightarrow> qc_profile \<Rightarrow> string \<Rightarrow> model_envelope \<Rightarrow> quarantine_error + qc_verdict"
  where
  "admit_envelope C P digest envelope = mk_verdict
     \<lparr>qv_disposition = Admit,
      qv_reason = (if me_request envelope \<noteq> None then ''admitted_capability_request''
                   else ''admitted_no_request''),
      qv_profile = qp_id P, qv_version = qp_version P, qv_input = Some digest,
      qv_profile_sha = Some (profile_sha256 C P), qv_envelope = Some envelope,
      qv_request = me_request envelope\<rparr>"

definition decide_input :: "quarantine_env \<Rightarrow> qc_profile \<Rightarrow> string \<Rightarrow> quarantine_error + qc_verdict" where
  "decide_input E P raw =
     (let C = qe_codec E; digest = input_sha256 C raw
      in case res_bind (decode_canonical_root E P raw) (normalize_envelope C P digest) of
           Inl (InputViolation reason) \<Rightarrow> reject_input C P reason (Some digest)
         | Inl (Escapes e) \<Rightarrow> Inl e
         | Inr envelope \<Rightarrow> admit_envelope C P digest envelope)"

definition evaluate_quarantine_input ::
  "quarantine_env \<Rightarrow> qc_registry \<Rightarrow> string \<Rightarrow> string \<Rightarrow> string option \<Rightarrow> quarantine_error + qc_verdict"
  where
  "evaluate_quarantine_input E R pid version payload =
     (let C = qe_codec E
      in if \<not> safe_token pid \<or> \<not> safe_token version
         then Inl (ConnectorError ''selected profile identity must use safe tokens'')
         else case select_exact R pid version of
           None \<Rightarrow> mk_verdict
             \<lparr>qv_disposition = Inconclusive, qv_reason = ''profile_not_registered'', qv_profile = pid,
              qv_version = version, qv_input = bounded_input_sha256 C payload, qv_profile_sha = None,
              qv_envelope = None, qv_request = None\<rparr>
         | Some P \<Rightarrow>
             (case payload of
                None \<Rightarrow> reject_input C P ''input_type_invalid'' None
              | Some raw \<Rightarrow>
                  if raw = [] then reject_input C P ''input_empty'' None
                  else if qp_max_input P < int (length raw) then reject_input C P ''input_oversized'' None
                  else decide_input E P raw))"

section \<open>The bridge\<close>

record qc_bridge =
  br_envelope :: string
  br_request :: string
  br_profile :: string
  br_call :: tool_call

definition mk_bridge :: "qc_bridge \<Rightarrow> quarantine_error + qc_bridge" where
  "mk_bridge b = raise_first
     [(\<not> list_all sha256_text [br_envelope b, br_request b, br_profile b], Invalid ''sha256'')] b"

definition bridge_sha256 :: "codec \<Rightarrow> qc_bridge \<Rightarrow> string" where
  "bridge_sha256 C b = sha256_domain C ''ash-quarantine-gateway-bridge-v1'' (JObj
     [(''schema_version'', JStr ''AgenticSecurityHarnessQuarantineGatewayBridge.v1''),
      (''envelope_sha256'', JStr (br_envelope b)),
      (''capability_request_sha256'', JStr (br_request b)),
      (''profile_sha256'', JStr (br_profile b)),
      (''gateway_call'', JObj
         [(''call_id'', JStr (tc_id (br_call b))),
          (''protocol'', JStr (protocol_text (tc_protocol (br_call b)))),
          (''tool_name'', JStr (tc_tool (br_call b))),
          (''arguments'', JObj (tc_args (br_call b)))]),
      (''operational_authority'', JStr ''none'')])"

definition bridged_call :: "codec \<Rightarrow> qc_binding \<Rightarrow> capability_request \<Rightarrow> tool_call" where
  "bridged_call C b r =
     \<lparr>tc_id = ''quarantine:'' @ request_sha256 C r, tc_protocol = qb_protocol b, tc_tool = qb_tool b,
      tc_args = cr_args r\<rparr>"

definition bridge_quarantine_admission ::
  "codec \<Rightarrow> qc_verdict \<Rightarrow> qc_registry \<Rightarrow> quarantine_error + qc_bridge option" where
  "bridge_quarantine_admission C v R =
     (case (qv_disposition v, qv_envelope v) of
        (Admit, Some e) \<Rightarrow>
          (case qv_request v of
             None \<Rightarrow> Inr None
           | Some r \<Rightarrow>
               (case select_exact R (qv_profile v) (qv_version v) of
                  None \<Rightarrow> Inl (ConnectorError ''selected profile registry commitment drifted'')
                | Some P \<Rightarrow>
                    if Some (profile_sha256 C P) \<noteq> qv_profile_sha v
                    then Inl (ConnectorError ''selected profile registry commitment drifted'')
                    else (case profile_capability P (cr_capability r) of
                        None \<Rightarrow> Inl (ConnectorError ''admitted capability binding drifted'')
                      | Some b \<Rightarrow>
                          res_bind (map_err (\<lambda>_. Invalid ''gateway_call'') (mk_tool_call C (bridged_call C b r)))
                          (\<lambda>call. res_bind (mk_bridge
                             \<lparr>br_envelope = envelope_sha256 C e, br_request = request_sha256 C r,
                              br_profile = profile_sha256 C P, br_call = call\<rparr>) (\<lambda>br. Inr (Some br))))))
      | _ \<Rightarrow> Inl (ConnectorError ''only an admit verdict may reach the bridge''))"

section \<open>Composition with the Gateway\<close>

record qc_composition =
  cm_registry :: string
  cm_verdict :: string
  cm_disposition :: qc_disposition
  cm_reason :: string
  cm_profile :: string
  cm_version :: string
  cm_input :: "string option"
  cm_profile_sha :: "string option"
  cm_envelope :: "string option"
  cm_request :: "string option"
  cm_bridge :: "string option"
  cm_decision_sha :: "string option"
  cm_decision :: "gateway_decision option"
  cm_evaluated :: bool

definition gateway_decision_sha256 :: "codec \<Rightarrow> gateway_decision \<Rightarrow> string" where
  "gateway_decision_sha256 C d = sha256_domain C ''ash-quarantine-gateway-decision-link-v1'' (JObj
     [(''schema_version'', JStr ''AgenticSecurityHarnessGatewayDecision.v1''),
      (''call_id_sha256'', JStr (dn_call d)), (''tool_name_sha256'', JStr (dn_tool d)),
      (''arguments_sha256'', JStr (dn_args d)), (''policy_sha256'', JStr (dn_policy d)),
      (''disposition'', JStr (gw_disposition_text (dn_disposition d))),
      (''reason_code'', JStr (dn_reason d)), (''effect'', JStr (effect_text (dn_effect d))),
      (''execution_permitted'', JBool (dn_permitted d))])"

definition mk_composition :: "codec \<Rightarrow> qc_composition \<Rightarrow> quarantine_error + qc_composition" where
  "mk_composition C c =
     res_bind (ensure (list_all sha256_text [cm_registry c, cm_verdict c]
         \<and> list_all safe_token [cm_reason c, cm_profile c, cm_version c]
         \<and> list_all opt_sha [cm_input c, cm_profile_sha c, cm_envelope c, cm_request c, cm_bridge c,
              cm_decision_sha c]) (Invalid ''field''))
     (\<lambda>_.
       let linked = cm_bridge c \<noteq> None \<or> cm_decision_sha c \<noteq> None \<or> cm_decision c \<noteq> None
       in raise_first
        (if cm_disposition c \<noteq> Admit then
           [(cm_envelope c \<noteq> None, Invalid ''non-admit composition cannot retain an envelope''),
            (cm_request c \<noteq> None \<or> linked, Invalid ''non-admit composition cannot retain Gateway linkage''),
            (cm_evaluated c, Invalid ''non-admit composition cannot evaluate the Gateway'')]
         else
           (cm_input c = None \<or> cm_profile_sha c = None \<or> cm_envelope c = None,
              Invalid ''admit composition requires input, profile, and envelope commitments'')
           # (if cm_request c = None then
                [(linked \<or> cm_evaluated c, Invalid ''admitted no-request composition cannot evaluate the Gateway'')]
              else
                [(cm_bridge c = None \<or> cm_decision_sha c = None \<or> cm_decision c = None \<or> \<not> cm_evaluated c,
                    Invalid ''admitted capability request requires one Gateway decision''),
                 (cm_decision_sha c \<noteq> map_option (gateway_decision_sha256 C) (cm_decision c),
                    Invalid ''Gateway decision commitment drifted'')])) c)"

definition outcome_identity :: "codec \<Rightarrow> qc_registry \<Rightarrow> qc_verdict \<Rightarrow> qc_composition" where
  "outcome_identity C R v =
     \<lparr>cm_registry = registry_sha256 C R, cm_verdict = verdict_sha256 C v,
      cm_disposition = qv_disposition v, cm_reason = qv_reason v, cm_profile = qv_profile v,
      cm_version = qv_version v, cm_input = qv_input v, cm_profile_sha = qv_profile_sha v,
      cm_envelope = None, cm_request = None, cm_bridge = None, cm_decision_sha = None,
      cm_decision = None, cm_evaluated = False\<rparr>"

definition compose_quarantine_gateway ::
  "quarantine_env \<Rightarrow> qc_registry \<Rightarrow> string \<Rightarrow> string \<Rightarrow> string option \<Rightarrow> gateway_policy
     \<Rightarrow> quarantine_error + qc_composition" where
  "compose_quarantine_gateway E R pid version payload policy =
     (let C = qe_codec E
      in res_bind (evaluate_quarantine_input E R pid version payload) (\<lambda>v.
         let common = outcome_identity C R v
         in if qv_disposition v \<noteq> Admit then mk_composition C common
            else case qv_envelope v of
                None \<Rightarrow> Inl (CompositionError ''admit verdict lost its envelope'')
              | Some e \<Rightarrow>
                  (let admitted = common\<lparr>cm_envelope := Some (envelope_sha256 C e)\<rparr>
                   in case qv_request v of
                        None \<Rightarrow> mk_composition C admitted
                      | Some r \<Rightarrow>
                          res_bind (bridge_quarantine_admission C v R) (\<lambda>bridge.
                          case bridge of
                            None \<Rightarrow> Inl (CompositionError ''admitted request did not create a bridge'')
                          | Some b \<Rightarrow>
                              res_bind (map_err (\<lambda>_. Invalid ''gateway decision'')
                                 (evaluate_gateway_tool_call C (br_call b) policy)) (\<lambda>d.
                              mk_composition C (admitted\<lparr>cm_request := Some (request_sha256 C r),
                                 cm_bridge := Some (bridge_sha256 C b),
                                 cm_decision_sha := Some (gateway_decision_sha256 C d),
                                 cm_decision := Some d, cm_evaluated := True\<rparr>))))))"

end
