(* ===== verification/Quarantine_Properties.thy ===== *)
theory Quarantine_Properties
  imports Quarantine Gateway_Chain
begin

text \<open>
  What the quarantine connector guarantees: it answers every byte string, an admitted payload is
  exactly the canonical form of its envelope, nothing in it claims authority, and the composition
  consults the Gateway's policy for admitted requests only.
\<close>

section \<open>Values within bounds can be serialised\<close>

lemma map_res_mem: "map_res f xs = Inr ys \<Longrightarrow> x \<in> set xs \<Longrightarrow> \<exists>y. f x = Inr y"
  by (induction xs arbitrary: ys) auto

lemma text_fits_encodable: "text_fits b m s = Inr u \<Longrightarrow> encodable s"
  by (auto simp: text_fits_def utf8_length_def split: if_splits)

lemma bounded_json_serialisable:
  "bounded_json b d v = Inr u \<Longrightarrow> json_finite v \<and> json_encodable v"
proof (induction v arbitrary: d u)
  case (JArr vs)
  then have "\<exists>y. bounded_json b (Suc d) w = Inr y" if "w \<in> set vs" for w
    using map_res_mem [OF _ that, of "bounded_json b (Suc d)"]
    by (fastforce simp: bounded_json.simps [of b d] split: if_splits)
  with JArr.IH show ?case by (fastforce simp: list_all_iff)
next
  case (JObj kvs)
  let ?f = "\<lambda>(k, w). res_bind (text_fits b ''JSON key exceeds the selected profile'' k)
                (\<lambda>_. bounded_json b (Suc d) w)"
  from JObj.prems obtain ys where "map_res ?f kvs = Inr ys"
    by (auto simp: bounded_json.simps [of b d] split: if_splits)
  then have "\<exists>y. ?f kv = Inr y" if "kv \<in> set kvs" for kv
    by (rule map_res_mem [OF _ that])
  then have "\<exists>u. text_fits b ''JSON key exceeds the selected profile'' k = Inr u \<and> bounded_json b (Suc d) w = Inr ()"
    if "(k, w) \<in> set kvs" for k w
    using that by fastforce
  with JObj.IH text_fits_encodable show ?case by (fastforce simp: list_all_iff)
next
  case (JStr s)
  then show ?case
    by (auto simp: bounded_json.simps [of b d] split: if_splits dest: text_fits_encodable)
next
  case (JFloat x)
  then show ?case by (cases x) (simp_all add: bounded_json.simps [of b d] split: if_splits)
qed simp_all

lemma quarantine_bytes_Inr:
  "json_finite v \<Longrightarrow> json_encodable v \<Longrightarrow> quarantine_bytes C v = Inr (gw_json C v)"
  by (simp add: quarantine_bytes_def canonical_json_bytes_def)

lemma quarantine_bytes_Inr_iff:
  "quarantine_bytes C v = Inr b \<longleftrightarrow> json_finite v \<and> json_encodable v \<and> b = gw_json C v"
  by (auto simp: quarantine_bytes_def canonical_json_bytes_def)

section \<open>The parser of candidate bytes\<close>

interpretation quarantine_parse: hook_invariant "quarantine_hooks C" distinct_json for C
proof
  fix kvs v
  assume "list_all (\<lambda>kv. distinct_json (snd kv)) kvs" "h_pairs (quarantine_hooks C) kvs = Inr v"
  then show "distinct_json v" by (fastforce simp: quarantine_hooks_def list_all_iff split: if_splits)
qed (auto simp: quarantine_hooks_def split: if_splits)

text \<open>The facts a decoded root carries.\<close>

definition decoded :: "quarantine_env \<Rightarrow> qc_profile \<Rightarrow> string \<Rightarrow> (string \<times> json) list \<Rightarrow> bool" where
  "decoded E P raw kvs \<longleftrightarrow>
     utf8_valid raw \<and> \<not> qe_deep E raw
     \<and> loads (quarantine_hooks (qe_codec E)) raw = Inr (JObj kvs)
     \<and> bounded_json (qp_bounds P) 0 (JObj kvs) = Inr ()
     \<and> quarantine_bytes (qe_codec E) (JObj kvs) = Inr raw
     \<and> \<not> contains_forbidden_key (qe_normal E) (JObj kvs)
     \<and> obj_keys kvs \<inter> set semantic_context_keys = {}"

lemma decode_Inr_iff: "decode_canonical_root E P raw = Inr kvs \<longleftrightarrow> decoded E P raw kvs"
  by (auto simp: decode_canonical_root_def decoded_def Let_def json_obj_case if_Inl_Inr)

text \<open>A violation the evaluation turns into a rejection.\<close>

definition answered :: "violation + 'a \<Rightarrow> bool" where
  "answered m \<longleftrightarrow> (case m of Inl (InputViolation r) \<Rightarrow> safe_token r | Inl (Escapes _) \<Rightarrow> False | Inr _ \<Rightarrow> True)"

lemma answered_simps [simp]:
  "answered (Inr a)" "answered (Inl (InputViolation r)) = safe_token r" "\<not> answered (Inl (Escapes e))"
  by (simp_all add: answered_def)

lemma answered_bind:
  assumes "answered m" "\<And>a. m = Inr a \<Longrightarrow> answered (f a)"
  shows "answered (res_bind m f)"
  using assms by (cases m) (auto simp: answered_def split: violation.splits)

lemma answered_ensure: "safe_token r \<Longrightarrow> answered (ensure b (InputViolation r))"
  by (cases b) simp_all

lemma answered_map_err: "safe_token r \<Longrightarrow> answered (map_err (\<lambda>_. InputViolation r) m)"
  by (cases m) simp_all

lemma reason_tokens [simp]:
  "safe_token ''malformed_utf8''" "safe_token ''malformed_json''" "safe_token ''duplicate_json_key''"
  "safe_token ''profile_bounds_exceeded''" "safe_token ''noncanonical_json''"
  "safe_token ''authority_claim_forbidden''" "safe_token ''semantic_context_unbound''"
  "safe_token ''root_type_invalid''" "safe_token ''context_binding_required''"
  "safe_token ''outer_shape_invalid''" "safe_token ''schema_version_mismatch''"
  "safe_token ''profile_identity_mismatch''" "safe_token ''context_binding_invalid''"
  "safe_token ''context_binding_mismatch''" "safe_token ''representation_type_invalid''"
  "safe_token ''representation_shape_invalid''" "safe_token ''capability_not_registered''"
  "safe_token ''capability_arguments_invalid''" "safe_token ''representation_kind_invalid''"
  "safe_token ''representation_invalid''" "safe_token ''representation_preservation_failed''"
  "safe_token ''input_type_invalid''" "safe_token ''input_empty''" "safe_token ''input_oversized''"
  "safe_token ''profile_not_registered''" "safe_token ''admitted_capability_request''"
  "safe_token ''admitted_no_request''"
  by code_simp+

declare safe_token.simps [simp del]

lemma decode_answered: "answered (decode_canonical_root E P raw)"
proof -
  let ?C = "qe_codec E"
  have load: "answered (if qe_deep E raw then Inl (InputViolation ''malformed_json'')
      else map_err load_violation (loads (quarantine_hooks ?C) raw))"
    by (cases "loads (quarantine_hooks ?C) raw")
      (auto simp: load_violation_def split: load_failure.splits)
  have root: "answered (case v of JObj kvs \<Rightarrow>
             res_bind (map_err (\<lambda>_. InputViolation ''profile_bounds_exceeded'')
                         (bounded_json (qp_bounds P) 0 v)) (\<lambda>_.
             res_bind (map_err Escapes (quarantine_bytes ?C v)) (\<lambda>bytes.
             res_bind (ensure (bytes = raw) (InputViolation ''noncanonical_json'')) (\<lambda>_.
             res_bind (ensure (\<not> contains_forbidden_key (qe_normal E) v)
                         (InputViolation ''authority_claim_forbidden'')) (\<lambda>_.
             res_bind (ensure (obj_keys kvs \<inter> set semantic_context_keys = {})
                         (InputViolation ''semantic_context_unbound'')) (\<lambda>_.
             Inr kvs)))))
         | _ \<Rightarrow> Inl (InputViolation ''root_type_invalid''))" for v
  proof (cases v)
    case (JObj kvs)
    have bytes: "answered (map_err Escapes (quarantine_bytes ?C v))"
      if "map_err (\<lambda>_. InputViolation ''profile_bounds_exceeded'') (bounded_json (qp_bounds P) 0 v) = Inr u" for u
      using that bounded_json_serialisable [of "qp_bounds P" 0 v u] quarantine_bytes_Inr [of v ?C] by simp
    show ?thesis
      unfolding JObj json.case
      by (intro answered_bind answered_map_err answered_ensure bytes [unfolded JObj]) simp_all
  qed simp_all
  show ?thesis
    unfolding decode_canonical_root_def Let_def
    by (intro answered_bind answered_ensure load root) simp_all
qed

section \<open>Normalising\<close>

lemma context_of_json_Some:
  "context_of_json v = Some c \<Longrightarrow> safe_token (cb_profile c) \<and> safe_token (cb_version c)
     \<and> sha256_text (cb_session c) \<and> sha256_text (cb_endpoint c)"
  by (auto simp: context_of_json_def split: json.splits option.splits if_splits)

lemma serialisable_context:
  "context_of_json v = Some c \<Longrightarrow> json_finite (qc_context_doc c) \<and> json_encodable (qc_context_doc c)"
  using context_of_json_Some [of v c]
  by (simp add: qc_context_doc_def context_schema_def encodable_ascii safe_token_ascii sha256_text_ascii)

lemma root_context_answered:
  "obj_keys kvs = allowed_root P \<Longrightarrow> answered (root_context P kvs)"
proof -
  assume keys: "obj_keys kvs = allowed_root P"
  show ?thesis
  proof (cases "qp_context P")
    case ContextForbidden
    then show ?thesis by (simp add: root_context_def)
  next
    case ContextRequired
    with keys have "''context_binding'' \<in> obj_keys kvs" by (simp add: allowed_root_def)
    then obtain v where "obj_get kvs ''context_binding'' = Some v"
      by (auto simp: obj_keys_def obj_get_def dest: weak_map_of_SomeI)
    with ContextRequired show ?thesis by (simp add: root_context_def split: option.split)
  qed
qed

lemma bound_request_answered: "answered (bound_request C P capability request args)"
  unfolding bound_request_def
  by (cases "profile_capability P capability")
    (simp_all only: option.case answered_simps reason_tokens answered_bind answered_ensure answered_map_err)

lemma root_request_answered: "answered (root_request C P rep)"
proof -
  have "answered (case (t, u, v) of (Some capability, Some request, Some args) \<Rightarrow>
      bound_request C P capability request args | _ \<Rightarrow> Inl (InputViolation ''representation_type_invalid''))"
    for t u v
    by (cases t; cases u; cases v)
      (simp_all only: prod.case option.case answered_simps reason_tokens bound_request_answered)
  then show ?thesis
    unfolding root_request_def by (intro answered_bind answered_ensure) (simp_all only: reason_tokens)
qed

lemma root_representation_answered: "answered (root_representation C P doc)"
  using root_request_answered
  by (auto simp: root_representation_def split: option.splits intro!: answered_bind)

text \<open>The facts a request in an envelope carries.\<close>

definition request_ok :: "codec \<Rightarrow> qc_profile \<Rightarrow> capability_request \<Rightarrow> bool" where
  "request_ok C P r \<longleftrightarrow>
     (case profile_capability P (cr_capability r) of None \<Rightarrow> False
      | Some b \<Rightarrow> set (qb_required b) \<subseteq> obj_keys (cr_args r) \<and> obj_keys (cr_args r) \<subseteq> set (qb_allowed b))
     \<and> safe_token (cr_request r) \<and> safe_token (cr_capability r)
     \<and> cr_profile r = qp_id P \<and> cr_version r = qp_version P
     \<and> bounded_json request_bounds 0 (JObj (cr_args r)) = Inr ()
     \<and> length (gw_json C (JObj (cr_args r))) \<le> max_quarantine_arguments"

lemma request_ok_binding:
  "request_ok C P r \<Longrightarrow> \<exists>b. profile_capability P (cr_capability r) = Some b
     \<and> set (qb_required b) \<subseteq> obj_keys (cr_args r) \<and> obj_keys (cr_args r) \<subseteq> set (qb_allowed b)"
  by (auto simp: request_ok_def split: option.splits)

lemma mk_request_Inr:
  "mk_request C r = Inr r' \<Longrightarrow> r' = r \<and> safe_token (cr_request r) \<and> safe_token (cr_capability r)
     \<and> bounded_json request_bounds 0 (JObj (cr_args r)) = Inr ()
     \<and> length (gw_json C (JObj (cr_args r))) \<le> max_quarantine_arguments"
  by (auto simp: mk_request_def quarantine_bytes_Inr_iff)

lemma bound_request_ok:
  assumes "bound_request C P capability request args = Inr r"
  shows "request_ok C P r \<and> cr_args r = args"
proof -
  from assms obtain b where b: "profile_capability P capability = Some b"
    by (cases "profile_capability P capability") (simp_all add: bound_request_def)
  let ?r = "\<lparr>cr_profile = qp_id P, cr_version = qp_version P, cr_request = request,
      cr_capability = capability, cr_args = args\<rparr>"
  from assms b have sub: "set (qb_required b) \<subseteq> obj_keys args" "obj_keys args \<subseteq> set (qb_allowed b)"
    and mk: "mk_request C ?r = Inr r" by (simp_all add: bound_request_def)
  from mk_request_Inr [OF mk] b sub show ?thesis by (simp add: request_ok_def)
qed

lemma root_request_ok:
  assumes "root_request C P rep = Inr r"
  shows "request_ok C P r \<and> obj_get rep ''arguments'' = Some (JObj (cr_args r))"
proof -
  have "(case (t, u, v) of (Some capability, Some request, Some args) \<Rightarrow>
      bound_request C P capability request args | _ \<Rightarrow> Inl e) = Inr r \<longleftrightarrow>
      (\<exists>c q a. t = Some c \<and> u = Some q \<and> v = Some a \<and> bound_request C P c q a = Inr r)" for t u v e
    by (cases t; cases u; cases v) simp_all
  with assms obtain c q a where "object_at rep ''arguments'' = Some a" "bound_request C P c q a = Inr r"
    unfolding root_request_def by (auto simp only: res_bind_Inr_iff ensure_Inr_iff)
  then show ?thesis using bound_request_ok by simp
qed

lemma root_representation_ok:
  assumes "root_representation C P doc = Inr (kind, request)"
  shows "kind = NoRequest \<and> request = None \<or> kind = CapabilityRequest \<and> (\<exists>kvs r. request = Some r
     \<and> obj_get doc ''representation'' = Some (JObj kvs) \<and> root_request C P kvs = Inr r)"
  using assms by (auto simp: root_representation_def split: option.splits if_splits)

lemma root_context_ok:
  assumes "root_context P doc = Inr c"
  shows "c = None \<or> (\<exists>d v. c = Some d \<and> context_of_json v = Some d \<and> cb_profile d = qp_id P \<and> cb_version d = qp_version P)"
proof (cases "qp_context P = ContextForbidden")
  case True
  with assms show ?thesis by (simp add: root_context_def)
next
  case False
  with assms obtain v where v: "obj_get doc ''context_binding'' = Some v"
    by (cases "obj_get doc ''context_binding''") (simp_all add: root_context_def)
  with assms False obtain d where "context_of_json v = Some d"
    by (cases "context_of_json v") (simp_all add: root_context_def)
  with assms False v have "c = Some d" "cb_profile d = qp_id P" "cb_version d = qp_version P"
    by (auto simp: root_context_def split: if_splits)
  with \<open>context_of_json v = Some d\<close> show ?thesis by blast
qed

text \<open>The facts an envelope carries before it is compared with the candidate bytes.\<close>

definition envelope_ok :: "codec \<Rightarrow> qc_profile \<Rightarrow> model_envelope \<Rightarrow> bool" where
  "envelope_ok C P e \<longleftrightarrow> me_profile e = qp_id P \<and> me_version e = qp_version P
     \<and> (me_context e = None \<or> (\<exists>d v. me_context e = Some d \<and> context_of_json v = Some d))
     \<and> (me_request e = None \<or> (\<exists>r. me_request e = Some r \<and> request_ok C P r))"

lemma args_serialisable:
  "request_ok C P r \<Longrightarrow> json_finite (JObj (cr_args r)) \<and> json_encodable (JObj (cr_args r))"
  unfolding request_ok_def using bounded_json_serialisable by blast

lemma kind_text_ascii [simp]: "is_ascii (kind_text k)"
  by (cases k) simp_all

lemma wire_schema_ascii [simp]: "is_ascii wire_schema"
  by (simp add: wire_schema_def)

lemma field_names_encodable [simp]:
  "encodable ''arguments''" "encodable ''capability_id''" "encodable ''request_id''" "encodable ''kind''"
  "encodable ''profile_id''" "encodable ''profile_version''" "encodable ''representation''"
  "encodable ''schema_version''" "encodable ''context_binding''"
  by (simp_all add: encodable_ascii)

lemma representation_serialisable:
  assumes "envelope_ok C P e"
  shows "json_finite (representation_doc e) \<and> json_encodable (representation_doc e)"
proof (cases "me_request e")
  case None
  then show ?thesis by (simp add: representation_doc_def encodable_ascii)
next
  case (Some r)
  with assms have ok: "request_ok C P r" by (simp add: envelope_ok_def)
  then have tokens: "encodable (cr_capability r)" "encodable (cr_request r)"
    by (simp_all add: request_ok_def encodable_ascii safe_token_ascii)
  from args_serialisable [OF ok] tokens Some show ?thesis
    by (simp add: representation_doc_def encodable_ascii del: json_finite.simps(2,3) json_encodable.simps(3))
      (simp add: encodable_ascii)
qed

lemma envelope_serialisable:
  assumes "envelope_ok C P e" "safe_token (qp_id P)" "safe_token (qp_version P)"
  shows "canonical_input_bytes C e = Inr (gw_json C (input_doc e))"
proof -
  have tokens: "encodable (me_profile e)" "encodable (me_version e)"
    using assms by (simp_all add: envelope_ok_def encodable_ascii safe_token_ascii)
  have "json_finite (input_doc e) \<and> json_encodable (input_doc e)"
  proof (cases "me_context e")
    case None
    with representation_serialisable [OF assms(1)] tokens show ?thesis
      by (simp add: input_doc_def encodable_ascii)
  next
    case (Some d)
    with assms(1) obtain v where "context_of_json v = Some d" by (auto simp: envelope_ok_def)
    from serialisable_context [OF this] Some representation_serialisable [OF assms(1)] tokens
    show ?thesis by (simp add: input_doc_def encodable_ascii)
  qed
  then show ?thesis by (simp add: canonical_input_bytes_def quarantine_bytes_Inr)
qed

lemma assembled_envelope_ok:
  assumes "root_context P doc = Inr ctx" "root_representation C P doc = Inr (kind, request)"
  shows "envelope_ok C P \<lparr>me_profile = qp_id P, me_version = qp_version P, me_kind = kind, me_input = digest,
     me_profile_sha = psha, me_context = ctx, me_request = request\<rparr>"
  using root_context_ok [OF assms(1)] root_representation_ok [OF assms(2)] root_request_ok
  by (fastforce simp: envelope_ok_def)

lemma mk_envelope_Inr: "mk_envelope e = Inr e' \<Longrightarrow> e' = e"
  by (auto simp: mk_envelope_def raise_first_Inr_iff)

lemma normalize_Inr:
  assumes "normalize_envelope C P digest doc = Inr e"
  shows "envelope_ok C P e \<and> me_input e = digest \<and> me_profile_sha e = profile_sha256 C P
    \<and> canonical_input_bytes C e = quarantine_bytes C (JObj doc)
    \<and> (\<forall>r. me_request e = Some r \<longrightarrow> (\<exists>kvs. obj_get doc ''representation'' = Some (JObj kvs)
          \<and> obj_get kvs ''arguments'' = Some (JObj (cr_args r))))"
proof -
  from assms obtain ctx kind request where
    ctx: "root_context P doc = Inr ctx" and rep: "root_representation C P doc = Inr (kind, request)"
    and bytes: "canonical_input_bytes C e = quarantine_bytes C (JObj doc)"
    and e: "e = \<lparr>me_profile = qp_id P, me_version = qp_version P, me_kind = kind, me_input = digest,
       me_profile_sha = profile_sha256 C P, me_context = ctx, me_request = request\<rparr>"
    unfolding normalize_envelope_def by (auto dest: mk_envelope_Inr)
  have "\<exists>kvs. obj_get doc ''representation'' = Some (JObj kvs) \<and> obj_get kvs ''arguments'' = Some (JObj (cr_args r))"
    if "request = Some r" for r
    using root_representation_ok [OF rep] that root_request_ok by blast
  with assembled_envelope_ok [OF ctx rep] bytes show ?thesis by (simp add: e)
qed

lemma normalize_answered:
  assumes "json_finite (JObj doc)" "json_encodable (JObj doc)" "safe_token (qp_id P)" "safe_token (qp_version P)"
  shows "answered (normalize_envelope C P digest doc)"
proof -
  have escape: "answered (map_err Escapes m)" if "m = Inr (a :: string)" for m a
    using that by simp
  have bytes: "answered (map_err Escapes (quarantine_bytes C (JObj doc)))"
    by (rule escape [OF quarantine_bytes_Inr [OF assms(1,2)]])
  have rest: "answered (case x of (kind, request) \<Rightarrow>
     res_bind (map_err (\<lambda>_. InputViolation ''representation_invalid'')
        (mk_envelope \<lparr>me_profile = qp_id P, me_version = qp_version P, me_kind = kind, me_input = digest,
           me_profile_sha = profile_sha256 C P, me_context = ctx, me_request = request\<rparr>)) (\<lambda>envelope.
     res_bind (map_err Escapes (canonical_input_bytes C envelope)) (\<lambda>rebuilt.
     res_bind (map_err Escapes (quarantine_bytes C (JObj doc))) (\<lambda>bytes.
     res_bind (ensure (rebuilt = bytes) (InputViolation ''representation_preservation_failed'')) (\<lambda>_.
     Inr envelope)))))"
    if "root_context P doc = Inr ctx" "root_representation C P doc = Inr x" for ctx x
  proof (cases x)
    case (Pair kind request)
    let ?e = "\<lparr>me_profile = qp_id P, me_version = qp_version P, me_kind = kind, me_input = digest,
       me_profile_sha = profile_sha256 C P, me_context = ctx, me_request = request\<rparr>"
    from that Pair have "envelope_ok C P ?e" by (simp add: assembled_envelope_ok)
    then have ser: "answered (map_err Escapes (canonical_input_bytes C ?e))"
      by (rule escape [OF envelope_serialisable [OF _ assms(3,4)]])
    have "answered (map_err Escapes (canonical_input_bytes C a))"
      if "map_err (\<lambda>_. InputViolation ''representation_invalid'') (mk_envelope ?e) = Inr a" for a
      using that ser mk_envelope_Inr [of ?e a] by (simp del: answered_simps)
    then show ?thesis
      unfolding Pair prod.case
      by (intro answered_bind answered_map_err answered_ensure bytes) (simp_all only: answered_simps reason_tokens)
  qed
  show ?thesis
    unfolding normalize_envelope_def
  proof (intro answered_bind answered_ensure)
    fix u :: unit
    assume keys: "ensure (obj_keys doc = allowed_root P) (InputViolation (if qp_context P = ContextRequired
        \<and> ''context_binding'' \<notin> obj_keys doc then ''context_binding_required'' else ''outer_shape_invalid'')) = Inr u"
    then show "answered (root_context P doc)" by (intro root_context_answered) (simp only: ensure_Inr_iff)
  qed (use root_representation_answered rest in simp_all)
qed

section \<open>Every input is answered\<close>

text \<open>A registry whose profiles and bindings went through their constructors.\<close>

definition registry_ok :: "qc_registry \<Rightarrow> bool" where
  "registry_ok R \<longleftrightarrow> mk_registry (qr_profiles R) = Inr R
     \<and> list_all (\<lambda>p. mk_profile p = Inr p \<and> list_all (\<lambda>b. mk_binding b = Inr b) (qp_capabilities p))
         (qr_profiles R)"

lemma select_exact_Some:
  "select_exact R pid version = Some P \<Longrightarrow> P \<in> set (qr_profiles R) \<and> qp_id P = pid \<and> qp_version P = version"
  by (auto simp: select_exact_def find_Some_iff)

lemma sha_texts [simp]:
  assumes "digests_hex C"
  shows "sha256_text (input_sha256 C raw)" "sha256_text (sha256_domain C d v)" "sha256_text (profile_sha256 C P)"
    "sha256_text (request_sha256 C r)" "sha256_text (envelope_sha256 C e)" "sha256_text (bridge_sha256 C b)"
    "sha256_text (verdict_sha256 C w)" "sha256_text (registry_sha256 C R)" "sha256_text (gateway_decision_sha256 C x)"
  using assms by (simp_all add: digests_hex_def input_sha256_def sha256_domain_def profile_sha256_def
      request_sha256_def envelope_sha256_def bridge_sha256_def verdict_sha256_def registry_sha256_def
      gateway_decision_sha256_def)

text \<open>The verdict the evaluation of registered bytes builds.\<close>

definition refusal :: "codec \<Rightarrow> qc_profile \<Rightarrow> string \<Rightarrow> string option \<Rightarrow> qc_verdict" where
  "refusal C P reason digest = \<lparr>qv_disposition = Reject, qv_reason = reason, qv_profile = qp_id P,
     qv_version = qp_version P, qv_input = digest, qv_profile_sha = Some (profile_sha256 C P),
     qv_envelope = None, qv_request = None\<rparr>"

lemma reject_input_Inr:
  assumes "digests_hex C" "safe_token (qp_id P)" "safe_token (qp_version P)" "safe_token reason" "opt_sha digest"
  shows "reject_input C P reason digest = Inr (refusal C P reason digest)"
  using assms by (simp add: reject_input_def mk_verdict_def refusal_def opt_sha_def [of "Some _"])

definition admission :: "codec \<Rightarrow> qc_profile \<Rightarrow> string \<Rightarrow> model_envelope \<Rightarrow> qc_verdict" where
  "admission C P raw e = \<lparr>qv_disposition = Admit,
      qv_reason = (if me_request e \<noteq> None then ''admitted_capability_request'' else ''admitted_no_request''),
      qv_profile = qp_id P, qv_version = qp_version P, qv_input = Some (input_sha256 C raw),
      qv_profile_sha = Some (profile_sha256 C P), qv_envelope = Some e, qv_request = me_request e\<rparr>"

lemma admit_envelope_Inr:
  assumes "digests_hex C" "safe_token (qp_id P)" "safe_token (qp_version P)" "envelope_ok C P e"
    and "me_input e = input_sha256 C raw" "me_profile_sha e = profile_sha256 C P"
  shows "admit_envelope C P (input_sha256 C raw) e = Inr (admission C P raw e)"
  using assms by (simp add: admit_envelope_def mk_verdict_def admission_def opt_sha_def envelope_ok_def)

lemma decide_input_Inr:
  assumes "digests_hex (qe_codec E)" "safe_token (qp_id P)" "safe_token (qp_version P)"
  shows "(\<exists>reason. safe_token reason
        \<and> decide_input E P raw = Inr (refusal (qe_codec E) P reason (Some (input_sha256 (qe_codec E) raw))))
     \<or> (\<exists>doc e. decoded E P raw doc
        \<and> normalize_envelope (qe_codec E) P (input_sha256 (qe_codec E) raw) doc = Inr e
        \<and> decide_input E P raw = Inr (admission (qe_codec E) P raw e))"
proof -
  let ?C = "qe_codec E"
  let ?m = "res_bind (decode_canonical_root E P raw) (normalize_envelope ?C P (input_sha256 ?C raw))"
  have ser: "json_finite (JObj doc)" "json_encodable (JObj doc)" if "decode_canonical_root E P raw = Inr doc" for doc
    using that bounded_json_serialisable by (auto simp: decode_Inr_iff decoded_def simp del: json_finite.simps json_encodable.simps)
  have "answered ?m"
    by (rule answered_bind [OF decode_answered normalize_answered [OF ser assms(2,3)]])
  then consider (bad) reason where "?m = Inl (InputViolation reason)" "safe_token reason"
    | (good) e where "?m = Inr e"
    by (cases ?m) (auto simp: answered_def split: violation.splits)
  then show ?thesis
  proof cases
    case bad
    then show ?thesis
      using reject_input_Inr [OF assms bad(2), of "Some (input_sha256 ?C raw)"] assms(1)
      by (auto simp: decide_input_def Let_def opt_sha_def)
  next
    case good
    then obtain doc where doc: "decoded E P raw doc" "normalize_envelope ?C P (input_sha256 ?C raw) doc = Inr e"
      by (auto simp: decode_Inr_iff)
    with normalize_Inr [OF doc(2)] good admit_envelope_Inr [OF assms, of e raw] show ?thesis
      by (auto simp: decide_input_def Let_def)
  qed
qed

lemma mk_profile_tokens: "mk_profile p = Inr q \<Longrightarrow> safe_token (qp_id p) \<and> safe_token (qp_version p)"
  by (simp add: mk_profile_def Let_def raise_first_Inr_iff split: if_splits)

lemma registered_tokens:
  assumes "registry_ok R" "select_exact R pid version = Some P"
  shows "safe_token (qp_id P)" "safe_token (qp_version P)"
proof -
  from assms select_exact_Some [OF assms(2)] have "mk_profile P = Inr P"
    by (auto simp: registry_ok_def list_all_iff)
  from mk_profile_tokens [OF this] show "safe_token (qp_id P)" "safe_token (qp_version P)" by simp_all
qed

text \<open>All outcomes of the evaluation.\<close>

lemma evaluate_cases:
  assumes "digests_hex (qe_codec E)" "registry_ok R" "safe_token pid" "safe_token version"
  shows "(\<exists>v. evaluate_quarantine_input E R pid version payload = Inr v \<and> qv_disposition v \<noteq> Admit
        \<and> qv_envelope v = None \<and> qv_request v = None
        \<and> (qv_disposition v = Inconclusive \<longleftrightarrow> select_exact R pid version = None))
     \<or> (\<exists>P raw doc e. select_exact R pid version = Some P \<and> payload = Some raw
        \<and> int (length raw) \<le> qp_max_input P \<and> decoded E P raw doc
        \<and> normalize_envelope (qe_codec E) P (input_sha256 (qe_codec E) raw) doc = Inr e
        \<and> evaluate_quarantine_input E R pid version payload = Inr (admission (qe_codec E) P raw e))"
proof (cases "select_exact R pid version")
  case None
  have "opt_sha (bounded_input_sha256 (qe_codec E) payload)"
    using assms(1) by (auto simp: bounded_input_sha256_def opt_sha_def split: option.splits)
  with None assms show ?thesis
    by (simp add: evaluate_quarantine_input_def Let_def mk_verdict_def opt_sha_def [of None])
next
  case (Some P)
  note tokens = registered_tokens [OF assms(2) Some]
  have refuse: "reject_input (qe_codec E) P reason None = Inr (refusal (qe_codec E) P reason None)"
    if "safe_token reason" for reason
    by (rule reject_input_Inr [OF assms(1) tokens that]) (simp add: opt_sha_def)
  show ?thesis
  proof (cases "payload = None \<or> payload = Some [] \<or> (\<exists>raw. payload = Some raw \<and> qp_max_input P < int (length raw))")
    case True
    then show ?thesis
      using Some assms(3,4)
      by (auto simp: evaluate_quarantine_input_def Let_def refuse refusal_def simp del: safe_token.simps)
  next
    case False
    then obtain raw where raw: "payload = Some raw" "raw \<noteq> []" "int (length raw) \<le> qp_max_input P"
      by (cases payload) auto
    have "evaluate_quarantine_input E R pid version payload = decide_input E P raw"
      using Some raw assms(3,4) by (simp add: evaluate_quarantine_input_def Let_def)
    with decide_input_Inr [OF assms(1) tokens, of raw] Some raw show ?thesis
      by (auto simp: refusal_def)
  qed
qed

section \<open>Nothing admitted claims authority\<close>

lemma forbidden_member:
  assumes "\<not> contains_forbidden_key normal (JObj kvs)" "obj_get kvs k = Some v"
  shows "\<not> contains_forbidden_key normal v"
proof -
  from assms(2) have "(k, v) \<in> set kvs" by (auto simp: obj_get_def dest: map_of_SomeD)
  with assms(1) show ?thesis by (auto simp: list_ex_iff)
qed

lemma distinct_member:
  assumes "distinct_json (JObj kvs)" "obj_get kvs k = Some v"
  shows "distinct_json v"
proof -
  from assms(2) have "(k, v) \<in> set kvs" by (auto simp: obj_get_def dest: map_of_SomeD)
  with assms(1) show ?thesis by (auto simp: list_all_iff)
qed

text \<open>What holds of the envelope of admitted bytes.\<close>

definition admitted :: "quarantine_env \<Rightarrow> qc_profile \<Rightarrow> string \<Rightarrow> model_envelope \<Rightarrow> bool" where
  "admitted E P raw e \<longleftrightarrow>
     canonical_input_bytes (qe_codec E) e = Inr raw
     \<and> me_input e = input_sha256 (qe_codec E) raw \<and> me_profile_sha e = profile_sha256 (qe_codec E) P
     \<and> (case me_request e of None \<Rightarrow> True
        | Some r \<Rightarrow> request_ok (qe_codec E) P r \<and> distinct_json (JObj (cr_args r))
            \<and> \<not> contains_forbidden_key (qe_normal E) (JObj (cr_args r)))"

lemma normalized_admitted:
  assumes "decoded E P raw doc" "normalize_envelope (qe_codec E) P (input_sha256 (qe_codec E) raw) doc = Inr e"
  shows "admitted E P raw e"
proof -
  note n = normalize_Inr [OF assms(2)]
  from assms(1) have bytes: "quarantine_bytes (qe_codec E) (JObj doc) = Inr raw"
    and clean: "\<not> contains_forbidden_key (qe_normal E) (JObj doc)"
    and load: "loads (quarantine_hooks (qe_codec E)) raw = Inr (JObj doc)"
    by (simp_all add: decoded_def)
  have "request_ok (qe_codec E) P r \<and> distinct_json (JObj (cr_args r))
      \<and> \<not> contains_forbidden_key (qe_normal E) (JObj (cr_args r))" if r: "me_request e = Some r" for r
  proof -
    from n r obtain kvs where kvs: "obj_get doc ''representation'' = Some (JObj kvs)"
      "obj_get kvs ''arguments'' = Some (JObj (cr_args r))" by blast
    from n r have "request_ok (qe_codec E) P r" by (simp add: envelope_ok_def)
    moreover have "distinct_json (JObj (cr_args r))"
      by (rule distinct_member [OF distinct_member [OF quarantine_parse.loads_invariant [OF load]]]) (rule kvs)+
    moreover have "\<not> contains_forbidden_key (qe_normal E) (JObj (cr_args r))"
      by (rule forbidden_member [OF forbidden_member [OF clean]]) (rule kvs)+
    ultimately show ?thesis by blast
  qed
  with n bytes show ?thesis unfolding admitted_def by (auto split: option.splits)
qed

lemma admitted_evaluation:
  assumes "digests_hex (qe_codec E)" "registry_ok R" "safe_token pid" "safe_token version"
    and "evaluate_quarantine_input E R pid version payload = Inr v" "qv_disposition v = Admit"
  shows "\<exists>P raw e. select_exact R pid version = Some P \<and> payload = Some raw \<and> raw \<noteq> []
    \<and> int (length raw) \<le> qp_max_input P \<and> \<not> qe_deep E raw \<and> admitted E P raw e
    \<and> v = admission (qe_codec E) P raw e"
proof -
  from evaluate_cases [OF assms(1-4), of payload] assms(5,6) obtain P raw doc e where
    *: "select_exact R pid version = Some P" "payload = Some raw" "int (length raw) \<le> qp_max_input P"
      "decoded E P raw doc" "normalize_envelope (qe_codec E) P (input_sha256 (qe_codec E) raw) doc = Inr e"
      "v = admission (qe_codec E) P raw e" by auto
  have "raw \<noteq> []"
  proof
    assume "raw = []"
    with *(4) show False by (auto simp: decoded_def quarantine_bytes_Inr_iff gw_json_def dumps_def)
  qed
  with * normalized_admitted [OF *(4,5)] show ?thesis by (auto simp: decoded_def)
qed

section \<open>The composition with the Gateway's policy\<close>

text \<open>A policy whose rules went through their constructor.\<close>

definition policy_ok :: "gateway_policy \<Rightarrow> bool" where
  "policy_ok p \<longleftrightarrow> list_all (\<lambda>r. mk_tool_rule r = Inr r) (gp_rules p)"

lemma default_policy_ok: "policy_ok default_gateway_policy"
  by code_simp

lemma verdict_reason_token:
  assumes "policy_ok p" "rule_verdict p tool = (disp, eff, reason)"
  shows "safe_token reason"
proof (cases "find (\<lambda>r. tr_name r = tool) (gp_rules p)")
  case None
  have "safe_token ''unknown_tool_denied''" by code_simp
  with None assms(2) show ?thesis by (auto simp: rule_verdict_def)
next
  case (Some r)
  then have "r \<in> set (gp_rules p)" by (auto simp: find_Some_iff)
  with assms(1) have "mk_tool_rule r = Inr r" by (simp add: policy_ok_def list_all_iff)
  then have "safe_token (tr_reason r)" by (simp add: mk_tool_rule_def raise_first_Inr_iff split: if_splits)
  with Some assms(2) show ?thesis by (auto simp: rule_verdict_def)
qed

lemma builtin_reason_token: "validate_builtin_arguments c = Some t \<Longrightarrow> safe_token t"
proof -
  assume "validate_builtin_arguments c = Some t"
  then have "t = argument_error"
    by (auto simp: validate_builtin_arguments_def split: if_splits option.splits json.splits)
  moreover have "safe_token argument_error" by code_simp
  ultimately show ?thesis by simp
qed

lemma evaluation_decides:
  assumes "digests_hex C" "policy_ok p"
  shows "\<exists>d. evaluate_gateway_tool_call C c p = Inr d"
proof -
  obtain disp eff reason where v: "rule_verdict p (tc_tool c) = (disp, eff, reason)"
    by (metis prod_cases3)
  have sha: "sha256_text (arguments_sha256 C c)" "sha256_text (policy_sha256 C p)"
    using assms(1) by (simp_all add: arguments_sha256_def policy_sha256_def gw_sha256_json_def digests_hex_def)
  show ?thesis
    using verdict_reason_token [OF assms(2) v] builtin_reason_token [of c] sha assms(1)
    by (auto simp: evaluate_gateway_tool_call_def v mk_gateway_decision_def raise_first_def
        split: option.splits prod.splits if_splits)
qed

text \<open>An admitted request reaches the bridge with its binding.\<close>

lemma bridge_admission:
  assumes "digests_hex C" "select_exact R (qp_id P) (qp_version P) = Some P"
    and "me_request e = Some r" "profile_capability P (cr_capability r) = Some b"
  shows "bridge_quarantine_admission C (admission C P raw e) R =
    map_err (\<lambda>_. Invalid ''gateway_call'') (res_bind (mk_tool_call C (bridged_call C b r)) (\<lambda>call.
      Inr (Some \<lparr>br_envelope = envelope_sha256 C e, br_request = request_sha256 C r,
        br_profile = profile_sha256 C P, br_call = call\<rparr>)))"
proof -
  have mk: "mk_bridge \<lparr>br_envelope = envelope_sha256 C e, br_request = request_sha256 C r,
      br_profile = profile_sha256 C P, br_call = call\<rparr> = Inr \<lparr>br_envelope = envelope_sha256 C e,
      br_request = request_sha256 C r, br_profile = profile_sha256 C P, br_call = call\<rparr>" for call
    using assms(1) by (simp add: mk_bridge_def raise_first_def)
  show ?thesis
    using assms(2-4)
    by (cases "mk_tool_call C (bridged_call C b r)")
      (simp_all add: bridge_quarantine_admission_def admission_def mk)
qed

lemma composition_tokens:
  assumes "digests_hex C" "safe_token (qv_reason v)" "safe_token (qv_profile v)" "safe_token (qv_version v)"
    and "opt_sha (qv_input v)" "opt_sha (qv_profile_sha v)"
  shows "qv_disposition v \<noteq> Admit \<Longrightarrow> mk_composition C (outcome_identity C R v) = Inr (outcome_identity C R v)"
  using assms by (simp add: mk_composition_def outcome_identity_def opt_sha_def [of None] raise_first_def)

lemma mk_verdict_tokens:
  "mk_verdict x = Inr v \<Longrightarrow> safe_token (qv_reason v) \<and> safe_token (qv_profile v) \<and> safe_token (qv_version v)
     \<and> opt_sha (qv_input v) \<and> opt_sha (qv_profile_sha v)"
proof -
  assume mk: "mk_verdict x = Inr v"
  then have "v = x" by (auto simp: mk_verdict_def split: if_splits option.splits)
  with mk show ?thesis by (auto simp: mk_verdict_def)
qed

lemma evaluate_tokens:
  assumes "evaluate_quarantine_input E R pid version payload = Inr v"
  shows "safe_token (qv_reason v) \<and> safe_token (qv_profile v) \<and> safe_token (qv_version v)
     \<and> opt_sha (qv_input v) \<and> opt_sha (qv_profile_sha v)"
proof -
  have "\<exists>x. mk_verdict x = Inr v"
    using assms by (auto simp: evaluate_quarantine_input_def decide_input_def reject_input_def
        admit_envelope_def Let_def split: if_splits option.splits sum.splits violation.splits)
  then show ?thesis using mk_verdict_tokens by blast
qed

lemma tool_call_unchanged: "mk_tool_call C c = Inr c' \<Longrightarrow> c' = c"
  by (auto simp: mk_tool_call_def)

text \<open>The outcome that composes an admitted request with its decision.\<close>

definition decided_outcome ::
  "codec \<Rightarrow> qc_registry \<Rightarrow> qc_verdict \<Rightarrow> model_envelope \<Rightarrow> capability_request \<Rightarrow> qc_bridge \<Rightarrow> gateway_decision
     \<Rightarrow> qc_composition" where
  "decided_outcome C R v e r br d =
     (outcome_identity C R v)\<lparr>cm_envelope := Some (envelope_sha256 C e), cm_request := Some (request_sha256 C r),
        cm_bridge := Some (bridge_sha256 C br), cm_decision_sha := Some (gateway_decision_sha256 C d),
        cm_decision := Some d, cm_evaluated := True\<rparr>"

definition bridged_outcome ::
  "codec \<Rightarrow> qc_registry \<Rightarrow> qc_verdict \<Rightarrow> gateway_policy \<Rightarrow> qc_profile \<Rightarrow> qc_binding \<Rightarrow> model_envelope
     \<Rightarrow> capability_request \<Rightarrow> quarantine_error + qc_composition" where
  "bridged_outcome C R v p P b e r =
        (case mk_tool_call C (bridged_call C b r) of
           Inl _ \<Rightarrow> Inl (Invalid ''gateway_call'')
         | Inr call \<Rightarrow>
             (case evaluate_gateway_tool_call C call p of
                Inl _ \<Rightarrow> Inl (Invalid ''gateway decision'')
              | Inr d \<Rightarrow> Inr (decided_outcome C R v e r
                  \<lparr>br_envelope = envelope_sha256 C e, br_request = request_sha256 C r,
                   br_profile = profile_sha256 C P, br_call = call\<rparr> d)))"

lemma bridged_outcome_Inl:
  assumes "digests_hex C" "policy_ok p"
  shows "(\<exists>err. bridged_outcome C R v p P b e r = Inl err) \<longleftrightarrow> (\<exists>err. mk_tool_call C (bridged_call C b r) = Inl err)"
proof (cases "mk_tool_call C (bridged_call C b r)")
  case (Inr call)
  obtain d where "evaluate_gateway_tool_call C call p = Inr d"
    using evaluation_decides [OF assms] by blast
  with Inr show ?thesis by (simp add: bridged_outcome_def)
qed (simp add: bridged_outcome_def)

text \<open>Composition when nothing is requested, and when an admitted request is bridged.\<close>

lemma compose_without_request:
  assumes "digests_hex (qe_codec E)" "registry_ok R" "safe_token pid" "safe_token version"
    and "evaluate_quarantine_input E R pid version payload = Inr v" "qv_request v = None"
  shows "\<exists>c. compose_quarantine_gateway E R pid version payload p = Inr c \<and> cm_decision c = None
    \<and> \<not> cm_evaluated c \<and> cm_request c = None \<and> cm_verdict c = verdict_sha256 (qe_codec E) v
    \<and> cm_disposition c = qv_disposition v"
proof (cases "qv_disposition v = Admit")
  case False
  with evaluate_tokens [OF assms(5)] composition_tokens [OF assms(1)] assms(5) show ?thesis
    by (simp add: compose_quarantine_gateway_def Let_def outcome_identity_def)
next
  case True
  from admitted_evaluation [OF assms(1-5) True] obtain P raw e where
    e: "v = admission (qe_codec E) P raw e" by blast
  let ?C = "qe_codec E"
  let ?c = "(outcome_identity ?C R v)\<lparr>cm_envelope := Some (envelope_sha256 ?C e)\<rparr>"
  have "mk_composition ?C ?c = Inr ?c"
    using evaluate_tokens [OF assms(5)] assms(1) True e
    by (simp add: mk_composition_def outcome_identity_def opt_sha_def admission_def raise_first_def)
  with True e assms(5,6) have "compose_quarantine_gateway E R pid version payload p = Inr ?c"
    by (simp add: compose_quarantine_gateway_def Let_def admission_def)
  then show ?thesis by (simp add: outcome_identity_def)
qed

lemma compose_with_request:
  assumes "digests_hex (qe_codec E)" "registry_ok R" "safe_token pid" "safe_token version" "policy_ok p"
    and "evaluate_quarantine_input E R pid version payload = Inr v" "qv_request v = Some r"
  shows "\<exists>P b e. select_exact R pid version = Some P \<and> profile_capability P (cr_capability r) = Some b
    \<and> qv_envelope v = Some e \<and> distinct_json (JObj (cr_args r))
    \<and> compose_quarantine_gateway E R pid version payload p =
        bridged_outcome (qe_codec E) R v p P b e r"
proof -
  let ?C = "qe_codec E"
  have admit: "qv_disposition v = Admit"
    using evaluate_cases [OF assms(1-4), of payload] assms(6,7) by (auto simp: admission_def)
  from admitted_evaluation [OF assms(1-4,6) admit] obtain P raw e where
    P: "select_exact R pid version = Some P" and e: "admitted E P raw e" "v = admission ?C P raw e" by blast
  from e assms(7) have r: "me_request e = Some r" by (simp add: admission_def)
  with e(1) obtain b where b: "profile_capability P (cr_capability r) = Some b"
    and dj: "distinct_json (JObj (cr_args r))" by (auto simp: admitted_def dest: request_ok_binding)
  have P': "select_exact R (qp_id P) (qp_version P) = Some P"
    using P select_exact_Some [OF P] by simp
  have mk: "mk_composition ?C (decided_outcome ?C R v e r br d) = Inr (decided_outcome ?C R v e r br d)" for br d
    using evaluate_tokens [OF assms(6)] assms(1) admit e(2)
    by (simp add: mk_composition_def decided_outcome_def outcome_identity_def opt_sha_def admission_def raise_first_def)
  have env: "qv_envelope v = Some e" using e(2) by (simp add: admission_def)
  show ?thesis
  proof (intro exI conjI)
    show "compose_quarantine_gateway E R pid version payload p = bridged_outcome ?C R v p P b e r"
      using bridge_admission [OF assms(1) P' r b, of raw] mk admit env assms(6,7) e(2)
      by (auto simp: compose_quarantine_gateway_def Let_def decided_outcome_def bridged_outcome_def split: sum.splits)
  qed (use P b env dj in simp_all)
qed

section \<open>Claims\<close>

text \<open>
  The quarantine evaluation never raises on untrusted input. With a registry that went through its
  constructors and a well-formed profile identity, every payload (bytes or not) yields a verdict;
  it is inconclusive exactly when the profile is not registered, and a verdict that does not admit
  carries no envelope and no request.
\<close>

theorem quarantine_answers_every_input:
  assumes "digests_hex (qe_codec E)" "registry_ok R" "safe_token pid" "safe_token version"
  shows "\<exists>v. evaluate_quarantine_input E R pid version payload = Inr v
    \<and> (qv_disposition v = Inconclusive \<longleftrightarrow> select_exact R pid version = None)
    \<and> (qv_disposition v = Admit \<or> qv_envelope v = None \<and> qv_request v = None)"
  using evaluate_cases [OF assms, of payload]
  by (elim disjE exE conjE) (simp_all add: admission_def)

text \<open>
  C31: Admitted bytes are exactly the canonical form of the admitted envelope: nothing the model wrote
  is dropped, reordered or reinterpreted. The verdict commits to those bytes and to the selected
  profile, the bytes are within the profile's limit, and a request names a registered capability
  with its required arguments and no others, none of whose keys, at any depth, normalises to a word
  that claims authority.
\<close>

theorem admitted_input_is_canonical:
  assumes "digests_hex (qe_codec E)" "registry_ok R" "safe_token pid" "safe_token version"
    and "evaluate_quarantine_input E R pid version payload = Inr v" "qv_disposition v = Admit"
  shows "\<exists>P raw e. select_exact R pid version = Some P \<and> payload = Some raw
    \<and> int (length raw) \<le> qp_max_input P \<and> qv_envelope v = Some e \<and> qv_request v = me_request e
    \<and> canonical_input_bytes (qe_codec E) e = Inr raw
    \<and> qv_input v = Some (input_sha256 (qe_codec E) raw)
    \<and> qv_profile_sha v = Some (profile_sha256 (qe_codec E) P)
    \<and> (case me_request e of None \<Rightarrow> True
       | Some r \<Rightarrow> \<not> contains_forbidden_key (qe_normal E) (JObj (cr_args r))
           \<and> (\<exists>b. profile_capability P (cr_capability r) = Some b
                \<and> set (qb_required b) \<subseteq> obj_keys (cr_args r)
                \<and> obj_keys (cr_args r) \<subseteq> set (qb_allowed b)))"
proof -
  from admitted_evaluation [OF assms] obtain P raw e where
    *: "select_exact R pid version = Some P" "payload = Some raw" "int (length raw) \<le> qp_max_input P"
      "admitted E P raw e" "v = admission (qe_codec E) P raw e" by blast
  show ?thesis
    by (rule exI [of _ P], rule exI [of _ raw], rule exI [of _ e])
      (use * in \<open>auto simp: admission_def admitted_def dest: request_ok_binding split: option.splits\<close>)
qed

text \<open>
  C33: The composition asks the Gateway's policy about an admitted request and about nothing else. A
  composition that returns carries the connector's verdict; it holds a decision exactly when the
  verdict has a request, and the decision is the policy's evaluation of the call that the registered
  binding of that request's capability determines, on the admitted arguments.
\<close>

theorem composition_follows_policy:
  assumes "digests_hex (qe_codec E)" "registry_ok R" "safe_token pid" "safe_token version" "policy_ok p"
    and "compose_quarantine_gateway E R pid version payload p = Inr c"
  shows "\<exists>v. evaluate_quarantine_input E R pid version payload = Inr v
    \<and> cm_disposition c = qv_disposition v \<and> cm_verdict c = verdict_sha256 (qe_codec E) v
    \<and> (cm_evaluated c \<longleftrightarrow> qv_request v \<noteq> None)
    \<and> (case qv_request v of None \<Rightarrow> cm_decision c = None
       | Some r \<Rightarrow> \<exists>P b d. select_exact R pid version = Some P
           \<and> profile_capability P (cr_capability r) = Some b
           \<and> evaluate_gateway_tool_call (qe_codec E) (bridged_call (qe_codec E) b r) p = Inr d
           \<and> cm_decision c = Some d)"
proof -
  from evaluate_cases [OF assms(1-4), of payload] obtain v where
    v: "evaluate_quarantine_input E R pid version payload = Inr v" by blast
  show ?thesis
  proof (cases "qv_request v")
    case None
    from compose_without_request [OF assms(1-4) v None, of p] v None assms(6) show ?thesis by auto
  next
    case (Some r)
    from compose_with_request [OF assms(1-5) v Some] obtain P b e where
      P: "select_exact R pid version = Some P" "profile_capability P (cr_capability r) = Some b"
      and c: "compose_quarantine_gateway E R pid version payload p = bridged_outcome (qe_codec E) R v p P b e r"
      by blast
    with assms(6) have c: "bridged_outcome (qe_codec E) R v p P b e r = Inr c" by simp
    then obtain call where call: "mk_tool_call (qe_codec E) (bridged_call (qe_codec E) b r) = Inr call"
      by (cases "mk_tool_call (qe_codec E) (bridged_call (qe_codec E) b r)") (simp_all add: bridged_outcome_def)
    obtain d where d: "evaluate_gateway_tool_call (qe_codec E) call p = Inr d"
      using evaluation_decides [OF assms(1,5)] by blast
    from c call d tool_call_unchanged [OF call] P v Some show ?thesis
      by (auto simp: bridged_outcome_def decided_outcome_def outcome_identity_def)
  qed
qed

text \<open>
  C34: Candidate bytes can make the composition raise. It raises exactly when the admitted arguments
  exceed the bounds of a Gateway tool call, which are narrower than the connector's: an empty or
  long nested key, more than 128 fields, a double beyond the Gateway's range.
\<close>

theorem composition_raises_iff:
  assumes "digests_hex (qe_codec E)" "registry_ok R" "safe_token pid" "safe_token version" "policy_ok p"
  shows "(\<exists>err. compose_quarantine_gateway E R pid version payload p = Inl err) \<longleftrightarrow>
    (\<exists>v r P b err. evaluate_quarantine_input E R pid version payload = Inr v \<and> qv_request v = Some r
       \<and> select_exact R pid version = Some P \<and> profile_capability P (cr_capability r) = Some b
       \<and> mk_tool_call (qe_codec E) (bridged_call (qe_codec E) b r) = Inl err)"
proof -
  from evaluate_cases [OF assms(1-4), of payload] obtain v where
    v: "evaluate_quarantine_input E R pid version payload = Inr v" by blast
  show ?thesis
  proof (cases "qv_request v")
    case None
    from compose_without_request [OF assms(1-4) v None, of p] v None show ?thesis by auto
  next
    case (Some r)
    from compose_with_request [OF assms(1-5) v Some] obtain P b e where
      P: "select_exact R pid version = Some P" "profile_capability P (cr_capability r) = Some b"
      and c: "compose_quarantine_gateway E R pid version payload p = bridged_outcome (qe_codec E) R v p P b e r"
      by blast
    show ?thesis unfolding c bridged_outcome_Inl [OF assms(1,5)] using v Some P by auto
  qed
qed

end
