(* ===== verification/Quarantine_Roundtrip.thy ===== *)
theory Quarantine_Roundtrip
  imports Quarantine_Properties
begin

text \<open>
  The other direction of admission: the canonical bytes of a float-free envelope that conforms to a
  registered profile are admitted, and the envelope comes back unchanged.
\<close>

section \<open>Values the connector's parser reads back\<close>

fun wire_json :: "json \<Rightarrow> bool" where
  "wire_json (JInt i) \<longleftrightarrow> int64_ok i"
| "wire_json (JFloat x) \<longleftrightarrow> False"
| "wire_json (JArr vs) \<longleftrightarrow> list_all wire_json vs"
| "wire_json (JObj kvs) \<longleftrightarrow> distinct (map fst kvs) \<and> list_all (\<lambda>(k, v). wire_json v) kvs"
| "wire_json _ \<longleftrightarrow> True"

lemma int64_digits:
  assumes "int64_ok i"
  shows "digit_count (int_repr i) \<le> int_digit_limit"
proof -
  have "length (nat_digits (nat j)) \<le> Suc 19" if "j \<le> 2 ^ 63" for j :: int
    by (rule nat_digits_length) (use that in simp)
  from this [of i] this [of "- i"] assms have "length (int_repr i) \<le> 21"
    by (auto simp: int_repr_def int64_ok_def)
  with digit_count_le [of "int_repr i"] show ?thesis by (simp add: int_digit_limit_def)
qed

lemma wire_json_ok: "wire_json v \<Longrightarrow> json_ok (quarantine_hooks C) False v"
proof (induction v)
  case (JInt i)
  then show ?case using int64_digits [of i] by (simp add: quarantine_hooks_def)
next
  case (JArr vs)
  then show ?case by (auto simp: list_all_iff)
next
  case (JObj kvs)
  then show ?case by (fastforce simp: list_all_iff quarantine_hooks_def str_ok_def)
qed (simp_all add: str_ok_def)

lemma loads_wire:
  assumes "wire_json v" "sort_keys v = v"
  shows "loads (quarantine_hooks C) (gw_json C v) = Inr v"
  using loads_render [OF wire_json_ok [OF assms(1)]] assms(2) by (simp add: gw_json_def dumps_def)

section \<open>The canonical document of an envelope\<close>

definition representation_members :: "model_envelope \<Rightarrow> (string \<times> json) list" where
  "representation_members e =
     (case me_request e of
        None \<Rightarrow> [(''kind'', JStr (kind_text (me_kind e)))]
      | Some r \<Rightarrow> [(''arguments'', JObj (cr_args r)), (''capability_id'', JStr (cr_capability r)),
          (''kind'', JStr (kind_text (me_kind e))), (''request_id'', JStr (cr_request r))])"

definition context_members :: "context_binding \<Rightarrow> (string \<times> json) list" where
  "context_members c =
     [(''endpoint_sha256'', JStr (cb_endpoint c)), (''profile_id'', JStr (cb_profile c)),
      (''profile_version'', JStr (cb_version c)), (''schema_version'', JStr context_schema),
      (''session_sha256'', JStr (cb_session c))]"

definition input_members :: "model_envelope \<Rightarrow> (string \<times> json) list" where
  "input_members e =
     (case me_context e of None \<Rightarrow> [] | Some c \<Rightarrow> [(''context_binding'', JObj (context_members c))])
     @ [(''profile_id'', JStr (me_profile e)), (''profile_version'', JStr (me_version e)),
        (''representation'', JObj (representation_members e)), (''schema_version'', JStr wire_schema)]"

definition sorted_args :: "model_envelope \<Rightarrow> bool" where
  "sorted_args e \<longleftrightarrow> (case me_request e of None \<Rightarrow> True
     | Some r \<Rightarrow> sort_keys (JObj (cr_args r)) = JObj (cr_args r) \<and> wire_json (JObj (cr_args r)))"

lemma sort_representation:
  assumes "sorted_args e"
  shows "sort_keys (representation_doc e) = JObj (representation_members e)"
proof (cases "me_request e")
  case None
  then show ?thesis by (simp add: representation_doc_def representation_members_def)
next
  case (Some r)
  with assms have args: "sort_keys (JObj (cr_args r)) = JObj (cr_args r)" by (simp add: sorted_args_def)
  have "sort_keys (JObj [(k1, JStr a), (k2, JObj args), (k3, JStr b), (k4, JStr c)])
      = JObj (sort_key fst [(k1, JStr a), (k2, sort_keys (JObj args)), (k3, JStr b), (k4, JStr c)])"
    for k1 k2 k3 k4 a b c args by simp
  with Some args show ?thesis
    by (simp add: representation_doc_def representation_members_def del: sort_keys.simps(2))
qed

lemma sort_context: "sort_keys (qc_context_doc c) = JObj (context_members c)"
  by (simp add: qc_context_doc_def context_members_def)

lemma sort_input:
  assumes "sorted_args e"
  shows "sort_keys (input_doc e) = JObj (input_members e)"
  using sort_representation [OF assms] sort_context
  by (cases "me_context e") (simp_all add: input_doc_def input_members_def)

lemma sorted_input:
  assumes "sorted_args e"
  shows "sort_keys (JObj (input_members e)) = JObj (input_members e)"
  using sort_input [OF assms] sort_keys_idem [of "input_doc e"] by simp

lemma wire_input:
  assumes "sorted_args e"
  shows "wire_json (JObj (input_members e))"
proof -
  have "wire_json (JObj (representation_members e))"
    using assms by (simp add: representation_members_def sorted_args_def split: option.splits)
  moreover have "wire_json (JObj (context_members c))" for c
    by (simp add: context_members_def)
  ultimately show ?thesis
    by (simp add: input_members_def split: option.splits)
qed

lemma input_text: "sorted_args e \<Longrightarrow> gw_json C (input_doc e) = gw_json C (JObj (input_members e))"
  by (simp only: gw_json_def dumps_def sort_input sorted_input)

section \<open>A conforming envelope is admitted\<close>

definition conforms :: "codec \<Rightarrow> qc_profile \<Rightarrow> string \<Rightarrow> model_envelope \<Rightarrow> bool" where
  "conforms C P raw e \<longleftrightarrow>
     me_profile e = qp_id P \<and> me_version e = qp_version P
     \<and> me_input e = input_sha256 C raw \<and> me_profile_sha e = profile_sha256 C P
     \<and> (case me_context e of None \<Rightarrow> qp_context P = ContextForbidden
        | Some c \<Rightarrow> qp_context P = ContextRequired \<and> cb_profile c = qp_id P \<and> cb_version c = qp_version P
            \<and> sha256_text (cb_session c) \<and> sha256_text (cb_endpoint c))
     \<and> (case me_request e of None \<Rightarrow> me_kind e = NoRequest
        | Some r \<Rightarrow> me_kind e = CapabilityRequest \<and> request_ok C P r)
     \<and> sorted_args e"

lemma context_members_parse:
  "safe_token (cb_profile c) \<Longrightarrow> safe_token (cb_version c) \<Longrightarrow> sha256_text (cb_session c)
     \<Longrightarrow> sha256_text (cb_endpoint c) \<Longrightarrow> context_of_json (JObj (context_members c)) = Some c"
  by (simp add: context_of_json_def context_members_def obj_get_def obj_keys_def text_at_def)

lemma input_members_get:
  "obj_get (input_members e) ''schema_version'' = Some (JStr wire_schema)"
  "obj_get (input_members e) ''profile_id'' = Some (JStr (me_profile e))"
  "obj_get (input_members e) ''profile_version'' = Some (JStr (me_version e))"
  "obj_get (input_members e) ''representation'' = Some (JObj (representation_members e))"
  "obj_get (input_members e) ''context_binding'' = map_option (\<lambda>c. JObj (context_members c)) (me_context e)"
  by (simp_all add: input_members_def obj_get_def split: option.splits)

lemma input_members_keys:
  assumes "conforms C P raw e"
  shows "obj_keys (input_members e) = allowed_root P"
    "obj_keys (input_members e) \<inter> set semantic_context_keys = {}"
  using assms
  by (auto simp: conforms_def input_members_def obj_keys_def allowed_root_def semantic_context_keys_def
      split: option.splits)

lemma root_context_parse:
  assumes "conforms C P raw e" "safe_token (qp_id P)" "safe_token (qp_version P)"
  shows "root_context P (input_members e) = Inr (me_context e)"
proof (cases "me_context e")
  case None
  with assms(1) show ?thesis by (simp add: root_context_def conforms_def)
next
  case (Some c)
  with assms have "context_of_json (JObj (context_members c)) = Some c"
    by (intro context_members_parse) (simp_all add: conforms_def)
  with Some assms(1) show ?thesis by (simp add: root_context_def input_members_get conforms_def)
qed

lemma mk_request_ok:
  assumes "request_ok C P r" "safe_token (qp_id P)" "safe_token (qp_version P)"
  shows "mk_request C r = Inr r"
  using assms args_serialisable [OF assms(1)] quarantine_bytes_Inr [of "JObj (cr_args r)" C]
  by (simp add: mk_request_def request_ok_def)

lemma root_representation_parse:
  assumes "conforms C P raw e" "safe_token (qp_id P)" "safe_token (qp_version P)"
  shows "root_representation C P (input_members e) = Inr (me_kind e, me_request e)"
proof (cases "me_request e")
  case None
  with assms(1) have "me_kind e = NoRequest" by (simp add: conforms_def)
  with None have "text_at (representation_members e) ''kind'' = Some ''no_request''"
    "obj_keys (representation_members e) = {''kind''}"
    by (simp_all add: representation_members_def obj_get_def obj_keys_def)
  with None \<open>me_kind e = NoRequest\<close> show ?thesis
    by (simp add: root_representation_def object_at_def input_members_get del: text_at_Some)
next
  case (Some r)
  with assms(1) have r: "request_ok C P r" and kind: "me_kind e = CapabilityRequest"
    by (simp_all add: conforms_def)
  let ?kvs = "representation_members e"
  have get: "text_at ?kvs ''kind'' = Some ''capability_request''" "text_at ?kvs ''capability_id'' = Some (cr_capability r)"
    "text_at ?kvs ''request_id'' = Some (cr_request r)" "object_at ?kvs ''arguments'' = Some (cr_args r)"
    "obj_keys ?kvs = {''arguments'', ''capability_id'', ''kind'', ''request_id''}"
    using Some kind by (auto simp: representation_members_def text_at_def object_at_def obj_get_def obj_keys_def)
  have "bound_request C P (cr_capability r) (cr_request r) (cr_args r) = Inr r"
  proof -
    have same: "\<lparr>cr_profile = qp_id P, cr_version = qp_version P, cr_request = cr_request r,
        cr_capability = cr_capability r, cr_args = cr_args r\<rparr> = r"
      using r by (simp add: request_ok_def)
    from r obtain b where "profile_capability P (cr_capability r) = Some b"
      "set (qb_required b) \<subseteq> obj_keys (cr_args r)" "obj_keys (cr_args r) \<subseteq> set (qb_allowed b)"
      using request_ok_binding by blast
    then show ?thesis
      using mk_request_ok [OF r assms(2,3)] by (simp add: bound_request_def same)
  qed
  then have "root_request C P ?kvs = Inr r" by (simp add: root_request_def get del: text_at_Some object_at_Some)
  then show ?thesis
    using Some kind get(1) by (simp add: root_representation_def object_at_def input_members_get del: text_at_Some)
qed

lemma normalize_conforming:
  assumes "conforms C P raw e" "digests_hex C" "safe_token (qp_id P)" "safe_token (qp_version P)"
    and bounded: "bounded_json (qp_bounds P) 0 (JObj (input_members e)) = Inr ()"
  shows "normalize_envelope C P (input_sha256 C raw) (input_members e) = Inr e"
proof -
  have env: "\<lparr>me_profile = qp_id P, me_version = qp_version P, me_kind = me_kind e, me_input = input_sha256 C raw,
      me_profile_sha = profile_sha256 C P, me_context = me_context e, me_request = me_request e\<rparr> = e"
    using assms(1) by (simp add: conforms_def)
  have ok: "envelope_ok C P e"
    using assembled_envelope_ok [OF root_context_parse [OF assms(1,3,4)] root_representation_parse [OF assms(1,3,4)],
        of "input_sha256 C raw" "profile_sha256 C P"] by (simp add: env)
  have mk: "mk_envelope e = Inr e"
    using assms by (auto simp: mk_envelope_def raise_first_def conforms_def request_ok_def split: option.splits)
  have ser: "canonical_input_bytes C e = Inr (gw_json C (input_doc e))"
    by (rule envelope_serialisable [OF ok assms(3,4)])
  have sorted: "sorted_args e" using assms(1) by (simp add: conforms_def)
  have bytes: "quarantine_bytes C (JObj (input_members e)) = Inr (gw_json C (input_doc e))"
    using quarantine_bytes_Inr bounded_json_serialisable [OF bounded] input_text [OF sorted] by simp
  have head: "obj_keys (input_members e) = allowed_root P"
    "me_profile e = qp_id P" "me_version e = qp_version P"
    using input_members_keys [OF assms(1)] assms(1) by (simp_all add: conforms_def)
  show ?thesis
    unfolding normalize_envelope_def input_members_get root_context_parse [OF assms(1,3,4)]
      root_representation_parse [OF assms(1,3,4)] res_bind_simps prod.case env mk map_err_simps ser bytes head
    by simp
qed

lemma evaluate_conforming:
  assumes "digests_hex (qe_codec E)" "registry_ok R" "select_exact R pid version = Some P"
    and "conforms (qe_codec E) P raw e" "raw = gw_json (qe_codec E) (input_doc e)"
    and "utf8_valid raw" "\<not> qe_deep E raw" "int (length raw) \<le> qp_max_input P"
    and "bounded_json (qp_bounds P) 0 (JObj (input_members e)) = Inr ()"
    and "\<not> contains_forbidden_key (qe_normal E) (JObj (input_members e))"
  shows "evaluate_quarantine_input E R pid version (Some raw) = Inr (admission (qe_codec E) P raw e)"
proof -
  let ?C = "qe_codec E" and ?m = "input_members e"
  note tokens = registered_tokens [OF assms(2,3)]
  have sorted: "sorted_args e" using assms(4) by (simp add: conforms_def)
  have raw: "raw = gw_json ?C (JObj ?m)" using assms(5) input_text [OF sorted] by simp
  have load: "loads (quarantine_hooks ?C) raw = Inr (JObj ?m)"
    unfolding raw by (rule loads_wire [OF wire_input [OF sorted] sorted_input [OF sorted]])
  have bytes: "quarantine_bytes ?C (JObj ?m) = Inr raw"
    using bounded_json_serialisable [OF assms(9)] raw quarantine_bytes_Inr by simp
  have "decoded E P raw ?m"
    unfolding decoded_def using load bytes assms input_members_keys(2) [OF assms(4)] by blast
  then have "decode_canonical_root E P raw = Inr ?m" by (simp add: decode_Inr_iff)
  moreover note normalize_conforming [OF assms(4,1) tokens assms(9)]
  moreover have "envelope_ok ?C P e"
    using normalize_Inr [OF normalize_conforming [OF assms(4,1) tokens assms(9)]] by blast
  ultimately have decide: "decide_input E P raw = Inr (admission ?C P raw e)"
    using admit_envelope_Inr [OF assms(1) tokens] assms(4)
    by (simp add: decide_input_def Let_def conforms_def)
  have "raw \<noteq> []" by (simp add: raw gw_json_def dumps_def)
  moreover have "safe_token pid" "safe_token version"
    using tokens select_exact_Some [OF assms(3)] by simp_all
  ultimately show ?thesis
    using decide assms(3,8) by (simp add: evaluate_quarantine_input_def Let_def)
qed

text \<open>
  C32: Admission is complete on canonical input. The canonical bytes of an envelope that conforms to a
  registered profile (identity, commitments, context as the profile's mode demands, a registered
  capability with its required keys, integers of 64 bits and no floats), within the profile's
  bounds, naming no authority, are admitted, and the verdict holds that envelope unchanged.
\<close>

theorem canonical_envelope_round_trip:
  assumes "digests_hex (qe_codec E)" "registry_ok R" "select_exact R pid version = Some P"
    and "conforms (qe_codec E) P raw e" "raw = gw_json (qe_codec E) (input_doc e)"
    and "utf8_valid raw" "\<not> qe_deep E raw" "int (length raw) \<le> qp_max_input P"
    and "bounded_json (qp_bounds P) 0 (JObj (input_members e)) = Inr ()"
    and "\<not> contains_forbidden_key (qe_normal E) (JObj (input_members e))"
  shows "evaluate_quarantine_input E R pid version (Some raw) = Inr (admission (qe_codec E) P raw e)"
  by (rule evaluate_conforming [OF assms])

end
