(* ===== verification/Quarantine_Witnesses.thy ===== *)
theory Quarantine_Witnesses
  imports Quarantine_Roundtrip
begin

text \<open>
  A registry with one profile and one capability, a request that is admitted and decided, and a
  request that is admitted but that no Gateway call can carry.
\<close>

definition constant_codec :: codec where
  "constant_codec = sample_codec\<lparr>sha256_hex := (\<lambda>_. zero_sha256), hmac_sha256_hex := (\<lambda>_ _. zero_sha256)\<rparr>"

definition quarantine_sample_env :: quarantine_env where
  "quarantine_sample_env = \<lparr>qe_codec = constant_codec, qe_normal = lower, qe_deep = (\<lambda>_. False)\<rparr>"

definition sample_registry :: qc_registry where
  "sample_registry = \<lparr>qr_profiles = [
     \<lparr>qp_id = ''p'', qp_version = ''1'', qp_context = ContextForbidden, qp_max_input = 16384,
      qp_bounds = \<lparr>bd_depth = 8, bd_string = 4096, bd_items = 64, bd_fields = 32\<rparr>,
      qp_capabilities = [\<lparr>qb_capability = ''c'', qb_protocol = Mcp, qb_tool = ''synthetic.sha256'',
        qb_allowed = [''text''], qb_required = [''text'']\<rparr>]\<rparr>]\<rparr>"

definition sample_profile :: qc_profile where
  "sample_profile = hd (qr_profiles sample_registry)"

definition sample_request_of :: "json \<Rightarrow> capability_request" where
  "sample_request_of arg = \<lparr>cr_profile = ''p'', cr_version = ''1'', cr_request = ''r'', cr_capability = ''c'',
     cr_args = [(''text'', arg)]\<rparr>"

definition sample_model_envelope :: "json \<Rightarrow> model_envelope" where
  "sample_model_envelope arg = \<lparr>me_profile = ''p'', me_version = ''1'', me_kind = CapabilityRequest,
     me_input = zero_sha256, me_profile_sha = zero_sha256, me_context = None,
     me_request = Some (sample_request_of arg)\<rparr>"

definition sample_bytes :: "json \<Rightarrow> string" where
  "sample_bytes arg = gw_json constant_codec (input_doc (sample_model_envelope arg))"

lemma sample_env_digests: "digests_hex (qe_codec quarantine_sample_env)"
  by (simp add: quarantine_sample_env_def constant_codec_def digests_hex_def)

lemma sample_registry_ok: "registry_ok sample_registry"
  by code_simp

lemma sample_select: "select_exact sample_registry ''p'' ''1'' = Some sample_profile"
  by code_simp

text \<open>An argument, and one with an empty nested key, which the connector admits.\<close>

definition text_argument :: json where "text_argument = JStr ''x''"
definition nested_argument :: json where "nested_argument = JObj [([], JNull)]"

lemma sample_bytes_render:
  assumes "sort_keys arg = arg" "wire_json arg"
  shows "sample_bytes arg = render (float_repr constant_codec) False (JObj (input_members (sample_model_envelope arg)))"
proof -
  have sorted: "sorted_args (sample_model_envelope arg)"
    using assms by (simp add: sorted_args_def sample_model_envelope_def sample_request_of_def)
  show ?thesis
    using input_text [OF sorted, of constant_codec] sorted_input [OF sorted]
    by (simp only: sample_bytes_def gw_json_def dumps_def)
qed

lemma esc_byte_simple:
  assumes "32 \<le> ord c" "c \<noteq> CHR 0x22" "c \<noteq> CHR 0x5C"
  shows "esc_byte c = [c]"
proof -
  have "ord c \<noteq> 34" "ord c \<noteq> 92"
    using assms(2,3) ord_inject [of c "CHR 0x22"] ord_inject [of c "CHR 0x5C"] by (simp_all add: ord_def)
  with assms(1) show ?thesis by (simp add: esc_byte_def short_escape_def)
qed

lemmas sample_render_simps = sample_bytes_render input_members_def representation_members_def
  sample_model_envelope_def sample_request_of_def render_str_def esc_byte_simple wire_schema_def

lemma sample_bytes_fit:
  "is_ascii (sample_bytes text_argument) \<and> int (length (sample_bytes text_argument)) \<le> 16384"
  "is_ascii (sample_bytes nested_argument) \<and> int (length (sample_bytes nested_argument)) \<le> 16384"
  by (simp_all add: sample_render_simps text_argument_def nested_argument_def)

lemma constant_sha [simp]: "sha256_hex constant_codec t = zero_sha256"
  by (simp add: constant_codec_def)

lemma sample_request_ok:
  "request_ok constant_codec sample_profile (sample_request_of text_argument)"
  "request_ok constant_codec sample_profile (sample_request_of nested_argument)"
  by (simp_all add: request_ok_def profile_capability_def sample_profile_def sample_registry_def
      sample_request_of_def obj_keys_def bounded_json.simps request_bounds_def text_fits_def utf8_length_def
      encodable_ascii gw_json_def dumps_def render_str_def esc_byte_simple max_quarantine_arguments_def
      text_argument_def nested_argument_def)
    (simp_all add: safe_token.simps safe_token_char_def is_lower_alpha_def)

lemma sample_input_bounded:
  "bounded_json (qp_bounds sample_profile) 0 (JObj (input_members (sample_model_envelope text_argument))) = Inr ()"
  "bounded_json (qp_bounds sample_profile) 0 (JObj (input_members (sample_model_envelope nested_argument))) = Inr ()"
  by (simp_all add: bounded_json.simps text_fits_def utf8_length_def encodable_ascii input_members_def
      representation_members_def sample_model_envelope_def sample_request_of_def wire_schema_def
      sample_profile_def sample_registry_def text_argument_def nested_argument_def)

lemma sample_input_clean:
  "\<not> contains_forbidden_key lower (JObj (input_members (sample_model_envelope text_argument)))"
  "\<not> contains_forbidden_key lower (JObj (input_members (sample_model_envelope nested_argument)))"
  by (simp_all add: forbidden_authority_keys_def lower_def lower_char_def is_upper_alpha_def input_members_def
      representation_members_def sample_model_envelope_def sample_request_of_def
      text_argument_def nested_argument_def)

lemma sample_conforms:
  "conforms constant_codec sample_profile (sample_bytes text_argument) (sample_model_envelope text_argument)"
  "conforms constant_codec sample_profile (sample_bytes nested_argument) (sample_model_envelope nested_argument)"
  using sample_request_ok
  by (simp_all add: conforms_def sample_model_envelope_def sorted_args_def sample_profile_def sample_registry_def
      input_sha256_def profile_sha256_def sha256_domain_def)
    (simp_all add: sample_request_of_def text_argument_def nested_argument_def)

lemma sample_admitted:
  "evaluate_quarantine_input quarantine_sample_env sample_registry ''p'' ''1'' (Some (sample_bytes text_argument))
     = Inr (admission constant_codec sample_profile (sample_bytes text_argument) (sample_model_envelope text_argument))"
  "evaluate_quarantine_input quarantine_sample_env sample_registry ''p'' ''1'' (Some (sample_bytes nested_argument))
     = Inr (admission constant_codec sample_profile (sample_bytes nested_argument) (sample_model_envelope nested_argument))"
proof -
  have env: "qe_codec quarantine_sample_env = constant_codec" "qe_normal quarantine_sample_env = lower" "\<not> qe_deep quarantine_sample_env t" for t
    by (simp_all add: quarantine_sample_env_def)
  have max: "qp_max_input sample_profile = 16384"
    by (simp add: sample_profile_def sample_registry_def)
  note facts = sample_env_digests sample_registry_ok sample_select
  show "evaluate_quarantine_input quarantine_sample_env sample_registry ''p'' ''1'' (Some (sample_bytes text_argument))
     = Inr (admission constant_codec sample_profile (sample_bytes text_argument) (sample_model_envelope text_argument))"
    by (rule evaluate_conforming [OF facts, unfolded env, OF sample_conforms(1)])
      (use sample_bytes_fit(1) sample_input_bounded(1) sample_input_clean(1) in
        \<open>simp_all only: env max utf8_valid_ascii sample_bytes_def not_False_eq_True\<close>)
  show "evaluate_quarantine_input quarantine_sample_env sample_registry ''p'' ''1'' (Some (sample_bytes nested_argument))
     = Inr (admission constant_codec sample_profile (sample_bytes nested_argument) (sample_model_envelope nested_argument))"
    by (rule evaluate_conforming [OF facts, unfolded env, OF sample_conforms(2)])
      (use sample_bytes_fit(2) sample_input_bounded(2) sample_input_clean(2) in
        \<open>simp_all only: env max utf8_valid_ascii sample_bytes_def not_False_eq_True\<close>)
qed

section \<open>Witnesses\<close>

lemma sample_tokens: "safe_token ''p''" "safe_token ''1''"
  by code_simp+

lemma sample_codec_eq: "qe_codec quarantine_sample_env = constant_codec"
  by (simp add: quarantine_sample_env_def)

lemmas sample_facts = sample_env_digests sample_registry_ok sample_tokens

theorem quarantine_answers_every_input_witness:
  "\<exists>v. evaluate_quarantine_input quarantine_sample_env sample_registry ''p'' ''1'' None = Inr v
    \<and> qv_disposition v \<noteq> Inconclusive \<and> (qv_disposition v = Admit \<or> qv_envelope v = None)"
  using quarantine_answers_every_input [OF sample_facts, of None] sample_select by auto

theorem admitted_input_is_canonical_witness:
  "\<exists>e. canonical_input_bytes constant_codec e = Inr (sample_bytes text_argument)
    \<and> me_request e = Some (sample_request_of text_argument)"
proof -
  from admitted_input_is_canonical [OF sample_facts sample_admitted(1)] obtain e where
    "canonical_input_bytes constant_codec e = Inr (sample_bytes text_argument)"
    "qv_request (admission constant_codec sample_profile (sample_bytes text_argument)
       (sample_model_envelope text_argument)) = me_request e"
    by (auto simp: sample_codec_eq admission_def)
  then show ?thesis by (auto simp: admission_def sample_model_envelope_def)
qed

theorem canonical_envelope_round_trip_witness:
  "evaluate_quarantine_input quarantine_sample_env sample_registry ''p'' ''1'' (Some (sample_bytes text_argument))
     = Inr (admission constant_codec sample_profile (sample_bytes text_argument) (sample_model_envelope text_argument))"
  by (rule canonical_envelope_round_trip [OF sample_env_digests sample_registry_ok sample_select,
        unfolded sample_codec_eq, OF sample_conforms(1)])
    (use sample_bytes_fit(1) sample_input_bounded(1) sample_input_clean(1) in
      \<open>simp_all add: quarantine_sample_env_def utf8_valid_ascii sample_profile_def sample_registry_def sample_bytes_def\<close>)

definition sample_binding :: qc_binding where
  "sample_binding = hd (qp_capabilities sample_profile)"

lemma sample_capability: "profile_capability sample_profile ''c'' = Some sample_binding"
  by code_simp

lemma sample_bridged_call:
  "mk_tool_call constant_codec (bridged_call constant_codec sample_binding (sample_request_of text_argument))
     = Inr (bridged_call constant_codec sample_binding (sample_request_of text_argument))"
  "mk_tool_call constant_codec (bridged_call constant_codec sample_binding (sample_request_of nested_argument))
     = Inl (ValidationError ''arguments'')"
proof -
  have id: "safe_token (''quarantine:'' @ zero_sha256)" by code_simp
  have tool: "safe_token ''synthetic.sha256''" by code_simp
  have call: "bridged_call constant_codec sample_binding (sample_request_of arg) =
      \<lparr>tc_id = ''quarantine:'' @ zero_sha256, tc_protocol = Mcp, tc_tool = ''synthetic.sha256'',
       tc_args = [(''text'', arg)]\<rparr>" for arg
    by (simp add: bridged_call_def request_sha256_def sha256_domain_def sample_binding_def sample_profile_def
        sample_registry_def sample_request_of_def)
  show "mk_tool_call constant_codec (bridged_call constant_codec sample_binding (sample_request_of text_argument))
     = Inr (bridged_call constant_codec sample_binding (sample_request_of text_argument))"
    unfolding call using id tool
    by (simp add: mk_tool_call_def validate_json_value.simps text_argument_def encodable_ascii py_len_ascii
        canonical_json_bytes_def gw_json_def dumps_def render_str_def esc_byte_simple arguments_limit_def
        del: safe_token.simps)
  show "mk_tool_call constant_codec (bridged_call constant_codec sample_binding (sample_request_of nested_argument))
     = Inl (ValidationError ''arguments'')"
    unfolding call using id tool
    by (simp add: mk_tool_call_def validate_json_value.simps nested_argument_def encodable_ascii py_len_ascii
        del: safe_token.simps)
qed

lemma admission_fields [simp]:
  "qv_request (admission C P raw (sample_model_envelope arg)) = Some (sample_request_of arg)"
  "cr_capability (sample_request_of arg) = ''c''"
  by (simp_all add: admission_def sample_model_envelope_def sample_request_of_def)

theorem composition_raises_iff_witness:
  "\<exists>err. compose_quarantine_gateway quarantine_sample_env sample_registry ''p'' ''1'' (Some (sample_bytes nested_argument))
     default_gateway_policy = Inl err"
  unfolding composition_raises_iff [OF sample_facts default_policy_ok]
  using sample_admitted(2) sample_select sample_capability sample_bridged_call(2)
  by (simp add: sample_codec_eq)

theorem composition_follows_policy_witness:
  "\<exists>c d. compose_quarantine_gateway quarantine_sample_env sample_registry ''p'' ''1'' (Some (sample_bytes text_argument))
       default_gateway_policy = Inr c
     \<and> evaluate_gateway_tool_call constant_codec
         (bridged_call constant_codec sample_binding (sample_request_of text_argument)) default_gateway_policy = Inr d
     \<and> cm_decision c = Some d"
proof -
  let ?compose = "compose_quarantine_gateway quarantine_sample_env sample_registry ''p'' ''1''
      (Some (sample_bytes text_argument)) default_gateway_policy"
  from compose_with_request [OF sample_facts default_policy_ok sample_admitted(1) admission_fields(1)]
  obtain e where "?compose = bridged_outcome constant_codec sample_registry
      (admission constant_codec sample_profile (sample_bytes text_argument) (sample_model_envelope text_argument))
      default_gateway_policy sample_profile sample_binding e (sample_request_of text_argument)"
    using sample_select sample_capability by (auto simp: sample_codec_eq)
  moreover obtain d where "evaluate_gateway_tool_call constant_codec
      (bridged_call constant_codec sample_binding (sample_request_of text_argument)) default_gateway_policy = Inr d"
    using evaluation_decides [OF sample_env_digests default_policy_ok] by (auto simp: sample_codec_eq)
  ultimately obtain c where c: "?compose = Inr c"
    using sample_bridged_call(1) by (simp add: bridged_outcome_def)
  from composition_follows_policy [OF sample_facts default_policy_ok c] sample_admitted(1) sample_select
    sample_capability c show ?thesis
    by (auto simp: sample_codec_eq)
qed

end
