(* ===== verification/Workspace_Files.thy ===== *)
theory Workspace_Files
  imports Codec
begin

text \<open>
  \<open>_workspace_files.py\<close> and \<open>_read_file\<close> of \<open>workspace_writer.py\<close>: bounded, create-only writes to the configured
  files of one directory. The file system maps absolute paths to entries; an operation gets it as an
  argument and returns the files it created, in order, so that an interruption is a prefix of them.
  What the operating system may answer instead of succeeding is an argument as well.
\<close>

section \<open>The file system\<close>

text \<open>
  A regular file with one link and its bytes, or anything else (a link, a directory, a file that changes
  under the reader). \<open>FsExists\<close> and \<open>FsNotFound\<close> are the subclasses of \<open>OSError\<close> that callers tell apart.
\<close>

datatype fs_error = FsValue string | FsExists | FsNotFound | FsOs

datatype fs_entry = Regular string | Irregular

type_synonym file_system = "string \<Rightarrow> fs_entry option"

type_synonym creation = "string \<times> string"

definition create :: "file_system \<Rightarrow> creation \<Rightarrow> file_system" where
  "create F c = F(fst c \<mapsto> Regular (snd c))"

definition create_all :: "file_system \<Rightarrow> creation list \<Rightarrow> file_system" where
  "create_all F cs = foldl create F cs"

lemma create_all_simps [simp]:
  "create_all F [] = F"
  "create_all F (c # cs) = create_all (create F c) cs"
  "create_all F (cs @ ds) = create_all (create_all F cs) ds"
  by (simp_all add: create_all_def)

text \<open>\<open>_read_file\<close>: a bounded read of an ordinary file that does not change meanwhile.\<close>

definition read_file :: "file_system \<Rightarrow> string \<Rightarrow> int \<Rightarrow> fs_error + string" where
  "read_file F path limit =
     (case F path of
        None \<Rightarrow> Inl FsNotFound
      | Some Irregular \<Rightarrow> Inl (FsValue ''expected a unique regular file'')
      | Some (Regular raw) \<Rightarrow>
          if int (length raw) > limit then Inl (FsValue ''file identity or size rejected'') else Inr raw)"

lemma read_file_Inr: "read_file F path limit = Inr raw \<longleftrightarrow> F path = Some (Regular raw) \<and> int (length raw) \<le> limit"
  by (auto simp: read_file_def split: option.splits fs_entry.splits)

section \<open>Names\<close>

text \<open>\<open>[A-Za-z][A-Za-z0-9_-]{0,63}\<close>\<close>

definition alias_char :: "char \<Rightarrow> bool" where
  "alias_char c \<longleftrightarrow> is_lower_alpha c \<or> is_upper_alpha c \<or> is_digit c \<or> c = CHR ''_'' \<or> c = CHR ''-''"

fun alias_text :: "string \<Rightarrow> bool" where
  "alias_text [] = False"
| "alias_text (c # cs) \<longleftrightarrow> (is_lower_alpha c \<or> is_upper_alpha c) \<and> list_all alias_char cs \<and> length cs \<le> 63"

lemma alias_text_chars: "alias_text s \<Longrightarrow> s \<noteq> [] \<and> list_all alias_char s"
  by (cases s) (auto simp: alias_char_def)

lemma alias_text_ascii: "alias_text s \<Longrightarrow> is_ascii s"
proof -
  assume "alias_text s"
  then have "list_all alias_char s" using alias_text_chars by blast
  then show ?thesis
    by (auto simp: is_ascii_def list_all_iff alias_char_def is_lower_alpha_def is_upper_alpha_def is_digit_def)
qed

text \<open>The reserved device names of Windows, in any case; a digit may also be a superscript 1, 2 or 3.\<close>

definition device_digits :: "string list" where
  "device_digits = map (\<lambda>c. [c]) ''123456789'' @ map (\<lambda>c. [CHR 0xC2, c]) [CHR 0xB9, CHR 0xB2, CHR 0xB3]"

definition windows_device :: "string \<Rightarrow> bool" where
  "windows_device stem \<longleftrightarrow>
     lower stem \<in> set ([''con'', ''prn'', ''aux'', ''nul''] @ map ((@) ''com'') device_digits @ map ((@) ''lpt'') device_digits)"

definition windows_invalid :: string where
  "windows_invalid = ''<>:/|?*'' @ [CHR 0x22, CHR 0x5C]"

definition filename_ok :: "string \<Rightarrow> bool" where
  "filename_ok f \<longleftrightarrow>
     f \<noteq> [] \<and> f \<noteq> ''.'' \<and> f \<noteq> ''..'' \<and> last f \<noteq> CHR ''.'' \<and> last f \<noteq> CHR '' ''
     \<and> list_all (\<lambda>c. c \<notin> set windows_invalid \<and> \<not> ord c < 32) f \<and> encodable f
     \<and> \<not> windows_device (takeWhile (\<lambda>c. c \<noteq> CHR ''.'') f) \<and> length f \<le> 255"

definition validate_filename :: "string \<Rightarrow> fs_error + unit" where
  "validate_filename f = ensure (filename_ok f) (FsValue ''target must be one portable filename'')"

section \<open>\<open>WorkspaceFiles\<close>\<close>

record workspace_files =
  wf_root :: string
  wf_targets :: "(string \<times> string) list"
  wf_max :: int
  wf_created :: "string list"
  wf_seen :: "string list"
  wf_closed :: bool
  wf_failed :: bool

text \<open>
  The loop over the targets: aliases and file names must not collide when case is ignored. \<open>casefold\<close> is
  \<open>str.casefold\<close>; an alias is ASCII, where it is \<open>lower\<close>.
\<close>

fun check_targets :: "(string \<Rightarrow> string) \<Rightarrow> (string \<times> string) list \<Rightarrow> string list \<Rightarrow> string list \<Rightarrow> fs_error + unit" where
  "check_targets casefold [] aliases names = Inr ()"
| "check_targets casefold ((a, f) # rest) aliases names =
     res_bind (ensure (alias_text a) (FsValue ''target alias must be simple ASCII'')) (\<lambda>_.
     res_bind (validate_filename f) (\<lambda>_.
     res_bind (ensure (lower a \<notin> set aliases) (FsValue ''target aliases collide ignoring case'')) (\<lambda>_.
     res_bind (ensure (casefold f \<notin> set names) (FsValue ''target filenames collide ignoring case'')) (\<lambda>_.
     check_targets casefold rest (lower a # aliases) (casefold f # names)))))"

text \<open>\<open>root_error\<close> is what \<open>_checked_directory(root)\<close> raises, if anything.\<close>

definition open_files :: "(string \<Rightarrow> string) \<Rightarrow> fs_error option \<Rightarrow> string \<Rightarrow> (string \<times> string) list \<Rightarrow> int
    \<Rightarrow> fs_error + workspace_files" where
  "open_files casefold root_error dir targets max_bytes =
     res_bind (ensure (starts_with dir ''/'') (FsValue ''root must be an absolute Path'')) (\<lambda>_.
     res_bind (ensure (1 \<le> max_bytes \<and> max_bytes \<le> 1048576) (FsValue ''max_bytes must be between 1 and 1048576'')) (\<lambda>_.
     res_bind (ensure (targets \<noteq> []) (FsValue ''targets must be a nonempty mapping'')) (\<lambda>_.
     res_bind (check_targets casefold targets [] []) (\<lambda>_.
     case root_error of
       Some e \<Rightarrow> Inl e
     | None \<Rightarrow> Inr \<lparr>wf_root = dir, wf_targets = targets, wf_max = max_bytes, wf_created = [], wf_seen = [],
                   wf_closed = False, wf_failed = False\<rparr>))))"

definition join_path :: "string \<Rightarrow> string \<Rightarrow> string" where
  "join_path dir f = dir @ ''/'' @ f"

definition target_path :: "workspace_files \<Rightarrow> string \<Rightarrow> string" where
  "target_path w a = join_path (wf_root w) (the (map_of (wf_targets w) a))"

text \<open>
  How an exclusive create can go wrong: before the file exists, or after it, leaving a prefix of the
  content behind.
\<close>

datatype create_fault = NoFault | BeforeCreate | AfterCreate nat

definition write_once :: "codec \<Rightarrow> workspace_files \<Rightarrow> string \<Rightarrow> string \<Rightarrow> file_system \<Rightarrow> create_fault
    \<Rightarrow> workspace_files \<times> creation list \<times> (fs_error + string \<times> int \<times> string)" where
  "write_once C w a content F fault =
     (if a \<notin> fst ` set (wf_targets w) then (w, [], Inl (FsValue ''unknown target alias''))
      else if int (length content) > wf_max w then (w, [], Inl (FsValue ''content exceeds configured byte limit''))
      else if wf_closed w \<or> wf_failed w then (w, [], Inl (FsValue ''workspace files are closed or failed''))
      else if a \<in> set (wf_seen w) then (w, [], Inl (FsValue ''target alias already consumed''))
      else
        let w1 = w\<lparr>wf_seen := a # wf_seen w\<rparr>;
            path = target_path w a
        in if fault = BeforeCreate then (w1\<lparr>wf_failed := True\<rparr>, [], Inl FsOs)
           else if F path \<noteq> None then (w1\<lparr>wf_failed := True\<rparr>, [], Inl FsExists)
           else let w2 = w1\<lparr>wf_created := a # wf_created w1\<rparr>
                in case fault of
                     AfterCreate n \<Rightarrow> (w2\<lparr>wf_failed := True\<rparr>, [(path, take n content)], Inl FsOs)
                   | _ \<Rightarrow> (w2, [(path, content)], Inr (a, int (length content), sha256_hex C content)))"

text \<open>\<open>answer\<close> is what the descriptor gives back, \<open>None\<close> when a check of identities or a system call fails.\<close>

definition readback_sha :: "codec \<Rightarrow> workspace_files \<Rightarrow> string \<Rightarrow> string option \<Rightarrow> fs_error + string \<times> int \<times> string" where
  "readback_sha C w a answer =
     res_bind (ensure (\<not> wf_closed w \<and> \<not> wf_failed w) (FsValue ''workspace files are closed or failed'')) (\<lambda>_.
     res_bind (ensure (a \<in> set (wf_created w)) (FsValue ''target alias has no completed write'')) (\<lambda>_.
     case answer of
       None \<Rightarrow> Inl FsOs
     | Some data \<Rightarrow>
         if int (length data) > wf_max w then Inl (FsValue ''workspace file changed during readback'')
         else Inr (a, int (length data), sha256_hex C data)))"

definition close_files :: "workspace_files \<Rightarrow> workspace_files" where
  "close_files w = w\<lparr>wf_closed := True\<rparr>"

section \<open>What a write does\<close>

text \<open>Every file it creates is new; a failure is final for the broker.\<close>

lemma write_once_cases:
  assumes "write_once C w a content F fault = (w', cs, r)"
  shows "cs = [] \<or> F (target_path w a) = None \<and> (\<exists>n. cs = [(target_path w a, take n content)])"
    and "r = Inr (b, n, h) \<Longrightarrow> cs = [(target_path w a, content)] \<and> b = a \<and> n = int (length content)
           \<and> h = sha256_hex C content \<and> \<not> wf_failed w \<and> \<not> wf_closed w \<and> a \<notin> set (wf_seen w)
           \<and> wf_failed w' = False \<and> wf_closed w' = False \<and> a \<in> set (wf_created w') \<and> wf_max w' = wf_max w"
    and "wf_root w' = wf_root w \<and> wf_targets w' = wf_targets w \<and> wf_max w' = wf_max w \<and> wf_closed w' = wf_closed w"
    and "wf_failed w \<Longrightarrow> cs = []"
proof -
  have whole: "\<exists>n. content = take n content" by (rule exI [of _ "length content"]) simp
  show "cs = [] \<or> F (target_path w a) = None \<and> (\<exists>n. cs = [(target_path w a, take n content)])"
    using assms whole
    by (cases fault) (auto simp: write_once_def Let_def split: if_splits)
  show "r = Inr (b, n, h) \<Longrightarrow> cs = [(target_path w a, content)] \<and> b = a \<and> n = int (length content)
           \<and> h = sha256_hex C content \<and> \<not> wf_failed w \<and> \<not> wf_closed w \<and> a \<notin> set (wf_seen w)
           \<and> wf_failed w' = False \<and> wf_closed w' = False \<and> a \<in> set (wf_created w') \<and> wf_max w' = wf_max w"
    using assms by (cases fault) (auto simp: write_once_def Let_def split: if_splits)
  show "wf_root w' = wf_root w \<and> wf_targets w' = wf_targets w \<and> wf_max w' = wf_max w \<and> wf_closed w' = wf_closed w"
    using assms by (cases fault) (auto simp: write_once_def Let_def split: if_splits)
  show "wf_failed w \<Longrightarrow> cs = []"
    using assms by (cases fault) (auto simp: write_once_def Let_def split: if_splits)
qed

lemma readback_sha_Inr:
  "readback_sha C w a answer = Inr (b, n, h) \<longleftrightarrow>
     \<not> wf_closed w \<and> \<not> wf_failed w \<and> a \<in> set (wf_created w)
     \<and> (\<exists>data. answer = Some data \<and> int (length data) \<le> wf_max w \<and> b = a \<and> n = int (length data) \<and> h = sha256_hex C data)"
  by (auto simp: readback_sha_def split: option.splits)

end
