(* ===== verification/Wire_Json.thy ===== *)
theory Wire_Json
  imports Json_Hooks
begin

text \<open>
  \<open>_json\<close> and \<open>_json_values\<close> of \<open>ollama_quarantine_adapter.py\<close>: the strict reader of untrusted JSON objects that the
  local model adapter and the guarded workspace share. Every failure is a \<open>ValueError\<close>; the depth is
  bounded before parsing, so that the recursion limit of the parser is not reached.
\<close>

datatype wire_error = WireError string

section \<open>Nesting\<close>

text \<open>\<open>quoted\<close> and \<open>escaped\<close> are the scanner's state; 34 is the quote and 92 the backslash.\<close>

fun depth_bounded :: "bool \<Rightarrow> bool \<Rightarrow> int \<Rightarrow> string \<Rightarrow> bool" where
  "depth_bounded quoted escaped depth [] = True"
| "depth_bounded quoted escaped depth (c # cs) =
     (let byte = ord c
      in if quoted then
           (if escaped then depth_bounded True False depth cs
            else if byte = 92 then depth_bounded True True depth cs
            else if byte = 34 then depth_bounded False False depth cs
            else depth_bounded True False depth cs)
         else if byte = 34 then depth_bounded True escaped depth cs
         else if byte = 91 \<or> byte = 123 then depth + 1 \<le> 12 \<and> depth_bounded False escaped (depth + 1) cs
         else if byte = 93 \<or> byte = 125 then depth_bounded False escaped (depth - 1) cs
         else depth_bounded False escaped depth cs)"

section \<open>Reading\<close>

definition wire_hooks :: "codec \<Rightarrow> wire_error hooks" where
  "wire_hooks C =
     \<lparr>h_pairs = (\<lambda>kvs. if distinct (map fst kvs) then Inr (JObj kvs) else Inl (WireError ''duplicate JSON key'')),
      h_const = (\<lambda>t. Inl (WireError ''nonfinite JSON number'')),
      h_int = (\<lambda>t. if digit_count t > int_digit_limit then Inl (WireError ''integer digits'') else Inr (JInt (int_of_text t))),
      h_float = (\<lambda>t. Inr (JFloat (float_of_text C t))),
      h_syntax = WireError ''JSON syntax''\<rparr>"

fun json_values_ok :: "json \<Rightarrow> bool" where
  "json_values_ok (JObj kvs) \<longleftrightarrow> length kvs \<le> 256 \<and> list_all (\<lambda>(k, v). encodable k \<and> json_values_ok v) kvs"
| "json_values_ok (JArr vs) \<longleftrightarrow> length vs \<le> 16384 \<and> list_all json_values_ok vs"
| "json_values_ok (JStr s) \<longleftrightarrow> encodable s"
| "json_values_ok (JFloat x) \<longleftrightarrow> (case x of PyFin _ \<Rightarrow> True | PyNegZero \<Rightarrow> True | _ \<Rightarrow> False)"
| "json_values_ok (JInt i) \<longleftrightarrow> \<bar>i\<bar> \<le> 2 ^ 63 - 1"
| "json_values_ok _ \<longleftrightarrow> True"

definition wire_object :: "codec \<Rightarrow> string \<Rightarrow> int \<Rightarrow> wire_error + (string \<times> json) list" where
  "wire_object C raw limit =
     res_bind (ensure (0 < int (length raw) \<and> int (length raw) \<le> limit) (WireError ''JSON byte limit'')) (\<lambda>_.
     res_bind (ensure (depth_bounded False False 0 raw) (WireError ''JSON depth limit'')) (\<lambda>_.
     res_bind (ensure (utf8_valid raw) (WireError ''JSON encoding'')) (\<lambda>_.
     res_bind (loads (wire_hooks C) raw)
       (\<lambda>v. case v of
              JObj kvs \<Rightarrow> if json_values_ok v then Inr kvs else Inl (WireError ''JSON value limit'')
            | _ \<Rightarrow> Inl (WireError ''JSON object required'')))))"

section \<open>What has been read\<close>

interpretation wire_parse: hook_invariant "wire_hooks C" distinct_json for C
proof
  fix kvs v
  assume "list_all (\<lambda>kv. distinct_json (snd kv)) kvs" "h_pairs (wire_hooks C) kvs = Inr v"
  then show "distinct_json v" by (fastforce simp: wire_hooks_def list_all_iff split: if_splits)
qed (auto simp: wire_hooks_def split: if_splits)

lemma wire_object_Inr:
  assumes "wire_object C raw limit = Inr kvs"
  shows "raw \<noteq> []" "int (length raw) \<le> limit" "depth_bounded False False 0 raw" "utf8_valid raw"
    "loads (wire_hooks C) raw = Inr (JObj kvs)" "json_values_ok (JObj kvs)" "distinct (map fst kvs)"
proof -
  from assms obtain v where v: "loads (wire_hooks C) raw = Inr v"
    and m: "(case v of JObj kvs \<Rightarrow> if json_values_ok v then Inr kvs else Inl (WireError ''JSON value limit'')
        | _ \<Rightarrow> Inl (WireError ''JSON object required'')) = Inr kvs"
    and g: "raw \<noteq> []" "int (length raw) \<le> limit" "depth_bounded False False 0 raw" "utf8_valid raw"
    by (auto simp: wire_object_def)
  from m have o: "v = JObj kvs" "json_values_ok (JObj kvs)"
    by (cases v; simp split: if_splits)+
  with v wire_parse.loads_invariant [OF v] g show "raw \<noteq> []" "int (length raw) \<le> limit" "depth_bounded False False 0 raw"
    "utf8_valid raw" "loads (wire_hooks C) raw = Inr (JObj kvs)" "json_values_ok (JObj kvs)" "distinct (map fst kvs)"
    by simp_all
qed

text \<open>Float-free values with distinct keys and small integers are read back from their rendering.\<close>

fun wire_safe :: "json \<Rightarrow> bool" where
  "wire_safe (JInt i) \<longleftrightarrow> \<bar>i\<bar> \<le> 2 ^ 63 - 1"
| "wire_safe (JFloat x) \<longleftrightarrow> False"
| "wire_safe (JStr s) \<longleftrightarrow> encodable s"
| "wire_safe (JArr vs) \<longleftrightarrow> length vs \<le> 16384 \<and> list_all wire_safe vs"
| "wire_safe (JObj kvs) \<longleftrightarrow> length kvs \<le> 256 \<and> distinct (map fst kvs) \<and> list_all (\<lambda>(k, v). encodable k \<and> wire_safe v) kvs"
| "wire_safe _ \<longleftrightarrow> True"

lemma wire_safe_values: "wire_safe v \<Longrightarrow> json_values_ok v"
proof (induction v)
  case (JArr vs)
  then show ?case by (auto simp: list_all_iff)
next
  case (JObj kvs)
  then show ?case by (fastforce simp: list_all_iff)
qed simp_all

lemma int_digits_63:
  assumes "\<bar>i\<bar> \<le> 2 ^ 63 - 1"
  shows "digit_count (int_repr i) \<le> int_digit_limit"
proof -
  have "length (nat_digits (nat j)) \<le> Suc 19" if "j \<le> 2 ^ 63" for j :: int
    by (rule nat_digits_length) (use that in simp)
  from this [of i] this [of "- i"] assms have "length (int_repr i) \<le> 21"
    by (auto simp: int_repr_def)
  with digit_count_le [of "int_repr i"] show ?thesis by (simp add: int_digit_limit_def)
qed

lemma wire_safe_ok: "wire_safe v \<Longrightarrow> json_ok (wire_hooks C) False v"
proof (induction v)
  case (JInt i)
  then show ?case using int_digits_63 [of i] by (simp add: wire_hooks_def)
next
  case (JArr vs)
  then show ?case by (auto simp: list_all_iff)
next
  case (JObj kvs)
  then show ?case by (fastforce simp: list_all_iff wire_hooks_def str_ok_def)
qed (simp_all add: str_ok_def)

lemma wire_safe_sort: "wire_safe v \<Longrightarrow> wire_safe (sort_keys v)"
proof (induction v)
  case (JArr vs)
  then show ?case by (auto simp: list_all_iff)
next
  case (JObj kvs)
  let ?m = "map (\<lambda>(k, v). (k, sort_keys v)) kvs"
  have "distinct (map fst ?m)" using JObj.prems by (simp only: wire_safe.simps map_fst_sort_keys)
  then have "distinct (map fst (sort_key fst ?m))" by (simp only: distinct_map distinct_sort set_sort)
  then show ?case using JObj by (fastforce simp: list_all_iff)
qed simp_all

lemma loads_wire_safe: "wire_safe v \<Longrightarrow> loads (wire_hooks C) (dumps fr False v) = Inr (sort_keys v)"
  by (simp add: dumps_def loads_render wire_safe_ok wire_safe_sort)

section \<open>Python's equality of parsed values\<close>

text \<open>Numbers compare by value, booleans are numbers, dictionaries compare without regard to order.\<close>

fun json_number :: "json \<Rightarrow> pyfloat option" where
  "json_number (JBool b) = Some (PyFin (if b then 1 else 0))"
| "json_number (JInt i) = Some (PyFin (of_int i))"
| "json_number (JFloat x) = Some (if x = PyNegZero then PyFin 0 else x)"
| "json_number _ = None"

function py_eq :: "json \<Rightarrow> json \<Rightarrow> bool" where
  "py_eq v w =
     (case v of
        JNull \<Rightarrow> w = JNull
      | JStr s \<Rightarrow> w = JStr s
      | JArr vs \<Rightarrow>
          (case w of
             JArr ws \<Rightarrow> length vs = length ws \<and> list_all (\<lambda>(x, y). py_eq x y) (zip vs ws)
           | _ \<Rightarrow> False)
      | JObj kvs \<Rightarrow>
          (case w of
             JObj kws \<Rightarrow> length kvs = length kws
               \<and> list_all (\<lambda>(k, x). case obj_get kws k of None \<Rightarrow> False | Some y \<Rightarrow> py_eq x y) kvs
           | _ \<Rightarrow> False)
      | _ \<Rightarrow> (case json_number w of None \<Rightarrow> False | Some y \<Rightarrow> y \<noteq> PyNaN \<and> json_number v = Some y))"
  by pat_completeness auto
termination
proof (relation "measure (\<lambda>(v, w :: json). size v)")
  fix v w x y :: json and vs ws p
  assume "v = JArr vs" "p \<in> set (zip vs ws)" "(x, y) = p"
  then have "x \<in> set vs" by (metis set_zip_leftD)
  with \<open>v = JArr vs\<close> show "((x, y), v, w) \<in> measure (\<lambda>(v, w :: json). size v)"
    by (auto dest: size_list_estimation' [where f = size, OF _ order_refl])
next
  fix v w x y :: json and kvs kws p k
  assume "v = JObj kvs" "p \<in> set kvs" "(k, x) = p"
  then have "size x \<le> size_list (size_prod (\<lambda>_. 0) size) kvs"
    by (auto intro: size_list_estimation')
  with \<open>v = JObj kvs\<close> show "((x, y), v, w) \<in> measure (\<lambda>(v, w :: json). size v)" by simp
qed auto

declare py_eq.simps [simp del]

lemma py_eq_leaf:
  "py_eq JNull w \<longleftrightarrow> w = JNull"
  "py_eq (JStr s) w \<longleftrightarrow> w = JStr s"
  by (simp_all add: py_eq.simps [of JNull] py_eq.simps [of "JStr s"])

lemma wire_safe_distinct: "wire_safe (JObj kvs) \<Longrightarrow> distinct (map fst kvs)"
  by simp

lemma py_eq_sort: "wire_safe v \<Longrightarrow> py_eq (sort_keys v) v"
proof (induction v)
  case (JArr vs)
  then have "py_eq (sort_keys x) x" if "x \<in> set vs" for x
    using that by (auto simp: list_all_iff)
  then have "list_all (\<lambda>(x, y). py_eq x y) (zip (map sort_keys vs) vs)"
    by (auto simp: list_all_iff zip_map1 dest: set_zip_leftD elim: in_set_zipE) (metis zip_same)
  then show ?case by (simp add: py_eq.simps [of "JArr (map sort_keys vs)"])
next
  case (JObj kvs)
  let ?s = "sort_key fst (map (\<lambda>(k, v). (k, sort_keys v)) kvs)"
  have "case p of (k, x) \<Rightarrow> case obj_get kvs k of None \<Rightarrow> False | Some y \<Rightarrow> py_eq x y" if p: "p \<in> set ?s" for p
  proof -
    from p obtain k y where y: "(k, y) \<in> set kvs" "p = (k, sort_keys y)" by auto
    with JObj.prems have "obj_get kvs k = Some y" by (simp add: obj_get_def)
    moreover from y JObj.prems have "wire_safe y" by (auto simp: list_all_iff)
    ultimately show ?thesis using JObj.IH [OF y(1)] y(2) by simp
  qed
  then have "list_all (\<lambda>(k, x). case obj_get kvs k of None \<Rightarrow> False | Some y \<Rightarrow> py_eq x y) ?s"
    unfolding list_all_iff by blast
  then show ?case by (simp add: py_eq.simps [of "JObj ?s"])
qed (simp_all add: py_eq.simps)

end
