(* ===== verification/Workspace_Policy.thy ===== *)
theory Workspace_Policy
  imports Workspace_Files Wire_Json Guard_Eval
begin

text \<open>
  The host's policy of \<open>workspace_writer.py\<close> and \<open>_decide\<close>, which builds the action, the grant, the consent and
  the context for one proposed text and asks the runtime guard.
\<close>

section \<open>Errors and canonical documents\<close>

text \<open>A \<open>ValueError\<close> (pydantic's \<open>ValidationError\<close> is one), a \<open>TypeError\<close>, an \<open>OSError\<close>.\<close>

datatype ws_error = WsValue string | WsType string | WsOs

fun ws_of_fs :: "fs_error \<Rightarrow> ws_error" where
  "ws_of_fs (FsValue m) = WsValue m"
| "ws_of_fs _ = WsOs"

fun ws_of_guard :: "guard_error \<Rightarrow> ws_error" where
  "ws_of_guard (ValidationError m) = WsValue m"

fun ws_of_wire :: "wire_error \<Rightarrow> ws_error" where
  "ws_of_wire (WireError m) = WsValue m"

definition ws_json :: "codec \<Rightarrow> json \<Rightarrow> string" where
  "ws_json C v = dumps (float_repr C) False v"

definition ws_canonical :: "codec \<Rightarrow> json \<Rightarrow> ws_error + string" where
  "ws_canonical C v =
     res_bind (ensure (json_finite v) (WsValue ''Out of range float values are not JSON compliant'')) (\<lambda>_.
     res_bind (ensure (json_encodable v) (WsValue ''surrogates not allowed'')) (\<lambda>_. Inr (ws_json C v)))"

definition ws_sha :: "codec \<Rightarrow> string \<Rightarrow> string" where
  "ws_sha C raw = sha256_hex C raw"

definition ws_version :: string where
  "ws_version = ''ash.workspace-write.v1''"

section \<open>The policy\<close>

record ws_policy =
  wp_dir :: string
  wp_outputs :: "(string \<times> string) list"
  wp_max_bytes :: int
  wp_max_proposals :: int
  wp_class :: string
  wp_restrictions :: "string option"
  wp_expires :: "datetime option"

definition ws_data_classes :: "string list" where
  "ws_data_classes = [''public'', ''synthetic'', ''sanitized'', ''restricted'', ''private'']"

definition reserved_name :: "string \<Rightarrow> bool" where
  "reserved_name f \<longleftrightarrow> starts_with (lower f) ''.ash-''"

fun pair_error :: "(string \<times> string) list \<Rightarrow> string option" where
  "pair_error [] = None"
| "pair_error ((a, f) # rest) =
     (if \<not> alias_text a then Some ''invalid output alias''
      else if reserved_name f then Some ''invalid or reserved output filename''
      else pair_error rest)"

text \<open>\<open>WorkspacePolicy.__post_init__\<close>; \<open>abspath\<close> is \<open>os.path.abspath\<close>. An expiry is kept in UTC.\<close>

definition mk_ws_policy :: "(string \<Rightarrow> string) \<Rightarrow> ws_policy \<Rightarrow> ws_error + ws_policy" where
  "mk_ws_policy abspath p =
     res_bind (raise_first
       [(\<not> starts_with (wp_dir p) ''/'', WsValue ''output_dir must be an absolute Path''),
        (wp_outputs p = [] \<or> length (wp_outputs p) > 32, WsValue ''outputs must be 1..32 immutable alias/filename pairs''),
        (\<not> distinct (map fst (wp_outputs p)), WsValue ''duplicate output alias''),
        (pair_error (wp_outputs p) \<noteq> None, WsValue (the (pair_error (wp_outputs p)))),
        (\<not> (1 \<le> wp_max_bytes p \<and> wp_max_bytes p \<le> 65536), WsValue ''max_bytes must be 1..65536''),
        (\<not> (1 \<le> wp_max_proposals p \<and> wp_max_proposals p \<le> 32), WsValue ''max_proposals must be 1..32''),
        (wp_class p \<notin> set ws_data_classes, WsValue ''unsupported host data classification''),
        (\<not> pred_option sha256_text (wp_restrictions p), WsValue ''invalid source restrictions binding''),
        (wp_expires p \<noteq> None \<and> (\<not> pred_option dt_aware (wp_expires p) \<or> wp_restrictions p = None),
         WsValue ''bound aware source expiry required'')] ())
       (\<lambda>_. Inr (p\<lparr>wp_dir := abspath (wp_dir p), wp_expires := map_option (\<lambda>t. t\<lparr>dt_offset := Some 0\<rparr>) (wp_expires p)\<rparr>))"

text \<open>\<open>load\<close>: the JSON configuration \<open>raw\<close> read from a file of directory \<open>parent\<close>.\<close>

definition policy_fields :: "string list" where
  "policy_fields = [''schema_version'', ''output_dir'', ''outputs'', ''max_bytes'', ''max_proposals'', ''data_class'']"

fun text_pairs :: "(string \<times> json) list \<Rightarrow> (string \<times> string) list option" where
  "text_pairs [] = Some []"
| "text_pairs ((a, JStr f) # rest) = map_option (Cons (a, f)) (text_pairs rest)"
| "text_pairs _ = None"

definition int_or :: "json option \<Rightarrow> int \<Rightarrow> int option" where
  "int_or x d = (case x of None \<Rightarrow> Some d | Some (JInt i) \<Rightarrow> Some i | Some _ \<Rightarrow> None)"

text \<open>A list or an object is not hashable, so that looking for it in the set of classes is a \<open>TypeError\<close>.\<close>

fun class_of_json :: "json option \<Rightarrow> ws_error + string" where
  "class_of_json None = Inr ''private''"
| "class_of_json (Some (JStr c)) = Inr c"
| "class_of_json (Some (JArr vs)) = Inl (WsType ''unhashable type'')"
| "class_of_json (Some (JObj kvs)) = Inl (WsType ''unhashable type'')"
| "class_of_json (Some v) = Inl (WsValue ''unsupported host data classification'')"

definition load_ws_policy :: "codec \<Rightarrow> (string \<Rightarrow> string) \<Rightarrow> string \<Rightarrow> string \<Rightarrow> ws_error + ws_policy" where
  "load_ws_policy C abspath parent raw =
     res_bind (map_err ws_of_wire (wire_object C raw 16384)) (\<lambda>kvs.
     if \<not> fst ` set kvs \<subseteq> set policy_fields \<or> obj_get kvs ''schema_version'' \<noteq> Some (JStr ws_version)
     then Inl (WsValue ''invalid workspace policy'')
     else
       (case (obj_get kvs ''output_dir'', obj_get kvs ''outputs'') of
          (Some (JStr dir), Some (JObj outs)) \<Rightarrow>
            (case (text_pairs outs, int_or (obj_get kvs ''max_bytes'') 65536, int_or (obj_get kvs ''max_proposals'') 8) of
               (Some pairs, Some bytes, Some proposals) \<Rightarrow>
                 (let cls = class_of_json (obj_get kvs ''data_class'')
                  in res_bind (mk_ws_policy abspath
                       \<lparr>wp_dir = (if starts_with dir ''/'' then dir else join_path parent dir), wp_outputs = pairs,
                        wp_max_bytes = bytes, wp_max_proposals = proposals,
                        wp_class = (case cls of Inr c \<Rightarrow> c | Inl e \<Rightarrow> ''private''),
                        wp_restrictions = None, wp_expires = None\<rparr>)
                     (\<lambda>q. res_bind cls (\<lambda>c. Inr q)))
             | _ \<Rightarrow> Inl (WsValue ''a field has the wrong type''))
        | _ \<Rightarrow> Inl (WsValue ''invalid workspace policy'')))"

definition ws_policy_doc :: "codec \<Rightarrow> ws_policy \<Rightarrow> json" where
  "ws_policy_doc C p = JObj
     ([(''schema_version'', JStr ws_version),
       (''output_dir'', JStr (wp_dir p)),
       (''outputs'', JObj (map (\<lambda>(a, f). (a, JStr f)) (wp_outputs p))),
       (''max_bytes'', JInt (wp_max_bytes p)),
       (''max_proposals'', JInt (wp_max_proposals p)),
       (''data_class'', JStr (wp_class p))]
      @ (case wp_restrictions p of None \<Rightarrow> [] | Some r \<Rightarrow> [(''source_restrictions_sha256'', JStr r)])
      @ (case wp_expires p of None \<Rightarrow> [] | Some t \<Rightarrow> [(''source_expires_at'', JStr (iso_utc C t))]))"

definition ws_policy_sha256 :: "codec \<Rightarrow> ws_policy \<Rightarrow> string" where
  "ws_policy_sha256 C p = ws_sha C (ws_json C (ws_policy_doc C p))"

definition output_names :: "ws_policy \<Rightarrow> string list" where
  "output_names p = map fst (wp_outputs p)"

definition output_path :: "ws_policy \<Rightarrow> string \<Rightarrow> string" where
  "output_path p a = join_path (wp_dir p) (the (map_of (wp_outputs p) a))"

section \<open>The decision\<close>

definition seconds_later :: "int \<Rightarrow> datetime \<Rightarrow> datetime" where
  "seconds_later n t = t\<lparr>dt_instant := dt_instant t + n * 1000000\<rparr>"

definition decide_envelope :: "codec \<Rightarrow> ws_policy \<Rightarrow> string \<Rightarrow> string \<Rightarrow> string \<Rightarrow> datetime \<Rightarrow> runtime_envelope" where
  "decide_envelope C p content call session now =
     \<lparr>de_class = wp_class p, de_recipients = [], de_purpose = [''local_text_output''], de_store = True,
      de_forward = False, de_ttl = Some 60, de_confirm = False,
      de_source = ''trusted_application_configuration'', de_mutable = False,
      re_receipt = ws_sha C (''class:'' @ session @ '':'' @ call @ '':'' @ ws_sha C content),
      re_content = ws_sha C content, re_policy = ws_policy_sha256 C p, re_root = ''workspace-host'',
      re_checked_at = seconds_later (- 1) now, re_expires_at = seconds_later 60 now, re_verification = Verified\<rparr>"

definition decide_target :: "codec \<Rightarrow> ws_policy \<Rightarrow> string \<Rightarrow> string" where
  "decide_target C p a = ''local://workspace/'' @ ws_policy_sha256 C p @ ''/'' @ a"

definition decide_action :: "codec \<Rightarrow> ws_policy \<Rightarrow> string \<Rightarrow> string \<Rightarrow> string \<Rightarrow> string \<Rightarrow> datetime \<Rightarrow> runtime_envelope
    \<Rightarrow> action_envelope" where
  "decide_action C p a content call session now e =
     \<lparr>ae_id = call, ae_actor = ''workspace-agent'', ae_session = ws_sha C session,
      ae_sponsor = ws_sha C ''workspace-host'', ae_chain = ws_sha C call, ae_type = FilesystemWrite,
      ae_effect = None, ae_target = decide_target C p a, ae_purpose = ''local_text_output'',
      ae_scopes = [''workspace:create''], ae_data = e, ae_content = ws_sha C content,
      ae_policy = ws_policy_sha256 C p, ae_created_at = seconds_later (- 1) now,
      ae_expires_at = seconds_later 60 now, ae_provider = None, ae_destination = None, ae_route = None,
      ae_model = None, ae_region = None, ae_requests = 0, ae_max_cost = 0, ae_handoff = None, ae_tool = None,
      ae_depth = 0\<rparr>"

definition decide_capability :: "codec \<Rightarrow> ws_policy \<Rightarrow> string \<Rightarrow> datetime \<Rightarrow> action_envelope \<Rightarrow> capability_grant" where
  "decide_capability C p call now act =
     \<lparr>cg_id = ''grant:'' @ call, cg_issuer = ''workspace-host'', cg_subject = ''workspace-agent'',
      cg_scopes = [''workspace:create''], cg_targets = [ae_target act], cg_purpose = ''local_text_output'',
      cg_issued_at = seconds_later (- 1) now, cg_expires_at = seconds_later 60 now, cg_can_delegate = False,
      cg_depth = 0, cg_max_depth = 0, cg_policy = ws_policy_sha256 C p,
      cg_receipt = ws_sha C (''grant:'' @ action_digest C act), cg_action_digest = action_digest C act,
      cg_root = ''workspace-host'', cg_nonce = ws_sha C (''grant:'' @ call), cg_max_uses = 1, cg_uses = 0,
      cg_revoked = False, cg_verification = Verified\<rparr>"

definition decide_consent :: "codec \<Rightarrow> ws_policy \<Rightarrow> string \<Rightarrow> datetime \<Rightarrow> action_envelope \<Rightarrow> consent_receipt" where
  "decide_consent C p call now act =
     \<lparr>cr_id = ''consent:'' @ call, cr_action_id = call, cr_actor_id = ''workspace-agent'',
      cr_action_digest = action_digest C act, cr_policy = ws_policy_sha256 C p,
      cr_receipt = ws_sha C (''consent:'' @ action_digest C act), cr_root = ''workspace-host'',
      cr_nonce = ws_sha C (''consent:'' @ call), cr_issued_at = seconds_later (- 1) now,
      cr_expires_at = seconds_later 60 now, cr_approved = True, cr_verification = Verified\<rparr>"

definition decide_context :: "codec \<Rightarrow> ws_policy \<Rightarrow> datetime \<Rightarrow> runtime_envelope \<Rightarrow> capability_grant list \<Rightarrow> consent_receipt list
    \<Rightarrow> guard_context" where
  "decide_context C p now e grants consents =
     \<lparr>gc_evaluated_at = now, gc_policy_version = ws_version, gc_policy = ws_policy_sha256 C p,
      gc_capabilities = grants, gc_consents = consents, gc_policies = [], gc_usages = [], gc_reservations = [],
      gc_requests_used = 0, gc_cost_used = 0, gc_previous_hash = zero_sha256, gc_seen_digests = [],
      gc_seen_ids = [], gc_authority_roots = [''workspace-host''], gc_consent_roots = [''workspace-host''],
      gc_handoff_roots = [''unused-handoff''], gc_budget_roots = [''unused-budget''],
      gc_classifier_roots = [''workspace-host''], gc_tool_roots = [''unused-tool''],
      gc_provider_roots = [''unused-provider''], gc_classifications = [classification_binding C e],
      gc_handoffs = [], gc_tools = [], gc_verifier = True\<rparr>"

definition decide_text :: "codec \<Rightarrow> ws_policy \<Rightarrow> string \<Rightarrow> string \<Rightarrow> string \<Rightarrow> string \<Rightarrow> datetime \<Rightarrow> ws_error + guard_decision" where
  "decide_text C p a content call session now =
     map_err ws_of_guard
       (res_bind (mk_runtime_envelope (decide_envelope C p content call session now)) (\<lambda>e.
        res_bind (mk_action (decide_action C p a content call session now e)) (\<lambda>act.
        res_bind (mk_capability_grant (decide_capability C p call now act)) (\<lambda>grant.
        res_bind (mk_consent_receipt (decide_consent C p call now act)) (\<lambda>consent.
        let allowed = a \<in> set (output_names p)
        in res_bind (mk_guard_context (decide_context C p now e (if allowed then [grant] else [])
                       (if allowed then [consent] else []))) (\<lambda>c.
           Inr (evaluate_action C act c)))))))"

end
