(* ===== verification/Workspace_Writer.thy ===== *)
theory Workspace_Writer
  imports Workspace_Policy
begin

text \<open>
  \<open>GuardedWorkspace\<close> and \<open>verify_workspace_output\<close> of \<open>workspace_writer.py\<close>. An instance is a record; \<open>submit\<close> takes the
  answers of its environment (clock, faults, the readback), the file system and one proposal, and returns
  the new instance, the files it created in order, and the result it hands back.
\<close>

section \<open>An instance\<close>

text \<open>\<open>gws_same\<close>: the policy attribute is still the object that the instance was opened with.\<close>

record guarded_workspace =
  gws_policy :: ws_policy
  gws_session :: string
  gws_same :: bool
  gws_opened_policy :: ws_policy
  gws_opened_sha :: string
  gws_opened_session :: string
  gws_files :: workspace_files
  gws_audit :: workspace_files
  gws_audit_names :: "(string \<times> string) list"
  gws_attempts :: int
  gws_closed :: bool
  gws_fenced :: bool
  gws_failed :: bool

text \<open>The format \<open>02d\<close>.\<close>

definition two_digits :: "nat \<Rightarrow> string" where
  "two_digits n = (if n < 10 then CHR ''0'' # nat_digits n else nat_digits n)"

definition audit_key :: "string \<Rightarrow> nat \<Rightarrow> string" where
  "audit_key phase n = phase @ nat_digits n"

definition audit_file :: "string \<Rightarrow> nat \<Rightarrow> string \<Rightarrow> string" where
  "audit_file session n phase = ''.ash-'' @ session @ ''-'' @ two_digits n @ ''-'' @ phase @ ''.json''"

definition audit_targets :: "string \<Rightarrow> nat \<Rightarrow> (string \<times> string) list" where
  "audit_targets session limit =
     concat (map (\<lambda>n. map (\<lambda>phase. (audit_key phase n, audit_file session n phase)) [''intent'', ''result'']) [1..<Suc limit])"

text \<open>
  \<open>__init__\<close> for the session that \<open>uuid4().hex\<close> returned. The two directory checks may raise; a failure of
  the second closes the first, which leaves nothing behind.
\<close>

definition open_workspace :: "codec \<Rightarrow> (string \<Rightarrow> string) \<Rightarrow> fs_error option \<Rightarrow> fs_error option \<Rightarrow> ws_policy \<Rightarrow> string
    \<Rightarrow> ws_error + guarded_workspace" where
  "open_workspace C casefold root1 root2 p session =
     res_bind (map_err ws_of_fs (ensure (json_encodable (ws_policy_doc C p)) (FsValue ''surrogates not allowed''))) (\<lambda>_.
     res_bind (map_err ws_of_fs (open_files casefold root1 (wp_dir p) (wp_outputs p) (wp_max_bytes p))) (\<lambda>files.
     let names = audit_targets session (nat (wp_max_proposals p))
     in res_bind (map_err ws_of_fs (open_files casefold root2 (wp_dir p) names 16384)) (\<lambda>audit.
     Inr \<lparr>gws_policy = p, gws_session = session, gws_same = True, gws_opened_policy = p,
          gws_opened_sha = ws_policy_sha256 C p, gws_opened_session = session, gws_files = files, gws_audit = audit,
          gws_audit_names = names, gws_attempts = 0, gws_closed = False, gws_fenced = False, gws_failed = False\<rparr>)))"

definition identity_matches :: "codec \<Rightarrow> guarded_workspace \<Rightarrow> bool" where
  "identity_matches C g \<longleftrightarrow> gws_same g \<and> ws_policy_sha256 C (gws_policy g) = gws_opened_sha g
     \<and> gws_session g = gws_opened_session g"

section \<open>Tools bound to one artifact\<close>

text \<open>The checks of \<open>bind_text_tool\<close>, and the proposal that the bound function submits for a text (\<open>None\<close>: no text).\<close>

definition bind_text_tool :: "codec \<Rightarrow> guarded_workspace \<Rightarrow> string \<Rightarrow> guarded_workspace \<times> (ws_error + unit)" where
  "bind_text_tool C g a =
     (if a \<notin> set (output_names (gws_opened_policy g)) then (g, Inl (WsValue ''artifact is not in host policy''))
      else if gws_closed g \<or> gws_failed g then (g, Inl (WsValue ''workspace is unavailable''))
      else if \<not> identity_matches C g then (g\<lparr>gws_failed := True\<rparr>, Inl (WsValue ''workspace_identity_changed''))
      else (g, Inr ()))"

definition write_proposal :: "string \<Rightarrow> string \<Rightarrow> json" where
  "write_proposal a content = JObj
     [(''operation'', JStr ''write_text''), (''artifact'', JStr a), (''content'', JStr content)]"

definition text_tool_proposal :: "codec \<Rightarrow> guarded_workspace \<Rightarrow> string \<Rightarrow> string option \<Rightarrow> string" where
  "text_tool_proposal C g a content =
     (case content of
        None \<Rightarrow> []
      | Some t \<Rightarrow>
          if int (py_len t) \<le> wp_max_bytes (gws_opened_policy g)
          then (case ws_canonical C (write_proposal a t) of Inr raw \<Rightarrow> raw | Inl _ \<Rightarrow> [])
          else [])"

section \<open>One proposal\<close>

definition decision_members :: "codec \<Rightarrow> guard_decision \<Rightarrow> (string \<times> json) list" where
  "decision_members C d =
     (let e = gd_evidence d
      in [(''disposition'', JStr (disposition_text (gd_disposition d))),
          (''reason_codes'', texts_json (gd_reasons d)),
          (''owner_gate_required'', JBool (gd_owner_gate d)),
          (''evidence'', JObj
            [(''schema_version'', JStr ''runtime-guard-evidence-v0.1''),
             (''action_id_hash'', JStr (ev_action_id_hash e)),
             (''action_digest'', JStr (ev_action_digest e)),
             (''content_sha256'', JStr (ev_content e)),
             (''context_digest'', JStr (ev_context_digest e)),
             (''policy_sha256'', JStr (ev_policy e)),
             (''policy_version'', JStr (ev_policy_version e)),
             (''disposition'', JStr (disposition_text (ev_disposition e))),
             (''reason_codes'', texts_json (ev_reasons e)),
             (''evaluated_at'', JStr (dt_json C (ev_evaluated_at e))),
             (''previous_hash'', JStr (ev_previous_hash e)),
             (''origin_authentication'', JStr ''unverified''),
             (''trusted_time'', JStr ''not_recorded''),
             (''receipt_kind'', JStr ''decision_only''),
             (''decision_hash'', JStr (ev_decision_hash e))])])"

text \<open>What the environment answers during one call.\<close>

record submit_env =
  se_now :: datetime
  se_intent :: create_fault
  se_later :: datetime
  se_output :: create_fault
  se_readback :: "string option"
  se_result :: create_fault

definition call_name :: "string \<Rightarrow> nat \<Rightarrow> string" where
  "call_name session n = session @ '':'' @ nat_digits n"

definition dict_update :: "(string \<times> json) list \<Rightarrow> (string \<times> json) list \<Rightarrow> (string \<times> json) list" where
  "dict_update d kvs = foldl (\<lambda>d (k, v). dict_set d k v) d kvs"

definition proposal_limit :: "ws_policy \<Rightarrow> int" where
  "proposal_limit p = wp_max_bytes p * 6 + 1024"

definition first_result :: "codec \<Rightarrow> guarded_workspace \<Rightarrow> nat \<Rightarrow> string \<Rightarrow> (string \<times> json) list" where
  "first_result C g n proposal =
     [(''schema_version'', JStr ws_version),
      (''session_id'', JStr (gws_session g)),
      (''call_id'', JStr (call_name (gws_session g) n)),
      (''policy_sha256'', JStr (ws_policy_sha256 C (gws_policy g))),
      (''proposal_sha256'', if int (length proposal) \<le> proposal_limit (gws_policy g) then JStr (ws_sha C proposal) else JNull),
      (''applied'', JBool False),
      (''effect'', JStr ''none''),
      (''reason'', JStr ''proposal_rejected''),
      (''receipt_complete'', JBool False)]"

text \<open>The artifact and the bytes of a proposal of the required shape.\<close>

definition proposal_content :: "codec \<Rightarrow> ws_policy \<Rightarrow> string \<Rightarrow> ws_error + string \<times> string" where
  "proposal_content C p proposal =
     res_bind (map_err ws_of_wire (wire_object C proposal (proposal_limit p))) (\<lambda>kvs.
     if obj_keys kvs \<noteq> {''operation'', ''artifact'', ''content''} \<or> obj_get kvs ''operation'' \<noteq> Some (JStr ''write_text'')
     then Inl (WsValue ''proposal shape rejected'')
     else
       (case (obj_get kvs ''artifact'', obj_get kvs ''content'') of
          (Some (JStr a), Some (JStr t)) \<Rightarrow>
            if \<not> alias_text a then Inl (WsValue ''proposal shape rejected'')
            else if \<not> encodable t then Inl (WsValue ''surrogates not allowed'')
            else if t = [] \<or> int (length t) > wp_max_bytes p \<or> CHR 0x00 \<in> set t
            then Inl (WsValue ''text content rejected'')
            else Inr (a, t)
        | _ \<Rightarrow> Inl (WsValue ''proposal shape rejected'')))"

text \<open>The result after the policy decision, and the text that may be written.\<close>

definition judged_members :: "codec \<Rightarrow> string \<Rightarrow> string \<Rightarrow> guard_decision \<Rightarrow> (string \<times> json) list" where
  "judged_members C a t d =
     [(''artifact'', JStr a), (''bytes'', JInt (int (length t))), (''content_sha256'', JStr (ws_sha C t)),
      (''decision'', JObj (decision_members C d)), (''reason'', JStr ''guard_rejected'')]"

definition judge_proposal :: "codec \<Rightarrow> submit_env \<Rightarrow> guarded_workspace \<Rightarrow> nat \<Rightarrow> string
    \<Rightarrow> (string \<times> json) list \<times> (string \<times> string) option" where
  "judge_proposal C env g n proposal =
     (let base = first_result C g n proposal
      in case proposal_content C (gws_policy g) proposal of
           Inl _ \<Rightarrow> (base, None)
         | Inr (a, t) \<Rightarrow>
             (case decide_text C (gws_policy g) a t (call_name (gws_session g) n) (gws_session g) (se_now env) of
                Inl _ \<Rightarrow> (base, None)
              | Inr d \<Rightarrow> (dict_update base (judged_members C a t d), if gd_disposition d = Allow then Some (a, t) else None)))"

text \<open>\<open>write_once\<close> of the audit files: the canonical document and a line feed.\<close>

definition write_audit :: "codec \<Rightarrow> guarded_workspace \<Rightarrow> string \<Rightarrow> json \<Rightarrow> file_system \<Rightarrow> create_fault
    \<Rightarrow> guarded_workspace \<times> creation list \<times> bool" where
  "write_audit C g key doc F fault =
     (case ws_canonical C doc of
        Inl _ \<Rightarrow> (g\<lparr>gws_failed := True\<rparr>, [], False)
      | Inr raw \<Rightarrow>
          (case write_once C (gws_audit g) key (raw @ [CHR 0x0A]) F fault of
             (w, cs, Inl _) \<Rightarrow> (g\<lparr>gws_audit := w, gws_failed := True\<rparr>, cs, False)
           | (w, cs, Inr _) \<Rightarrow> (g\<lparr>gws_audit := w\<rparr>, cs, True)))"

definition source_expired :: "ws_policy \<Rightarrow> datetime \<Rightarrow> bool" where
  "source_expired p now = (case wp_expires p of None \<Rightarrow> False | Some t \<Rightarrow> dt_le t now)"

text \<open>The effect: the exclusive create and the readback through the retained descriptor.\<close>

definition perform_write :: "codec \<Rightarrow> submit_env \<Rightarrow> guarded_workspace \<Rightarrow> string \<Rightarrow> string \<Rightarrow> file_system \<Rightarrow> (string \<times> json) list
    \<Rightarrow> guarded_workspace \<times> creation list \<times> (string \<times> json) list" where
  "perform_write C env g a t F result =
     (case write_once C (gws_files g) a t F (se_output env) of
        (w, cs, Inl FsExists) \<Rightarrow>
          (g\<lparr>gws_files := w, gws_failed := True\<rparr>, cs,
           dict_update result [(''reason'', JStr ''target_already_exists''), (''effect'', JStr ''none'')])
      | (w, cs, Inl _) \<Rightarrow>
          (g\<lparr>gws_files := w, gws_failed := True\<rparr>, cs,
           dict_update result [(''reason'', JStr ''output_unavailable''), (''effect'', JStr ''unknown_inspect_output'')])
      | (w, cs, Inr written) \<Rightarrow>
          if readback_sha C w a (se_readback env) = Inr written
          then (g\<lparr>gws_files := w\<rparr>, cs,
                dict_update result [(''applied'', JBool True), (''effect'', JStr ''created''), (''reason'', JStr ''write_completed''),
                  (''output_sha256'', JStr (snd (snd written)))])
          else (g\<lparr>gws_files := w, gws_failed := True\<rparr>, cs,
                dict_update result [(''reason'', JStr ''output_unavailable''), (''effect'', JStr ''unknown_inspect_output'')]))"

definition effect_stage :: "codec \<Rightarrow> submit_env \<Rightarrow> guarded_workspace \<Rightarrow> (string \<times> string) option \<Rightarrow> file_system
    \<Rightarrow> (string \<times> json) list \<Rightarrow> guarded_workspace \<times> creation list \<times> (string \<times> json) list" where
  "effect_stage C env g writable F result =
     (case writable of
        None \<Rightarrow> (g, [], result)
      | Some (a, t) \<Rightarrow>
          if source_expired (gws_policy g) (se_later env)
          then (g, [], dict_set result ''reason'' (JStr ''source_expired''))
          else perform_write C env g a t F result)"

definition result_stage :: "codec \<Rightarrow> submit_env \<Rightarrow> guarded_workspace \<Rightarrow> nat \<Rightarrow> file_system \<Rightarrow> (string \<times> json) list
    \<Rightarrow> guarded_workspace \<times> creation list \<times> (string \<times> json) list" where
  "result_stage C env g n F result =
     (let final = dict_update result [(''receipt_complete'', JBool True),
            (''receipt'', JStr (the (map_of (gws_audit_names g) (audit_key ''result'' n))))]
      in case write_audit C g (audit_key ''result'' n) (JObj final) F (se_result env) of
           (g', cs, True) \<Rightarrow> (g', cs, final)
         | (g', cs, False) \<Rightarrow>
             (g', cs, dict_update final [(''reason'', JStr ''result_storage_unavailable''), (''receipt_complete'', JBool False)]))"

definition refused_result :: "string \<Rightarrow> (string \<times> json) list" where
  "refused_result reason = [(''applied'', JBool False), (''reason'', JStr reason), (''effect'', JStr ''none'')]"

text \<open>\<open>_submit\<close>\<close>

definition ws_submit :: "codec \<Rightarrow> submit_env \<Rightarrow> guarded_workspace \<Rightarrow> file_system \<Rightarrow> string
    \<Rightarrow> guarded_workspace \<times> creation list \<times> (string \<times> json) list" where
  "ws_submit C env g F proposal =
     (if gws_closed g \<or> gws_failed g then (g, [], refused_result ''session_unavailable'')
      else if \<not> identity_matches C g
      then (g\<lparr>gws_failed := True\<rparr>, [], refused_result ''workspace_identity_changed'')
      else if gws_attempts g \<ge> wp_max_proposals (gws_policy g)
      then (g, [], refused_result ''proposal_budget_exhausted'')
      else
        let n = nat (gws_attempts g + 1);
            g0 = g\<lparr>gws_attempts := gws_attempts g + 1\<rparr>;
            (result, writable) = judge_proposal C env g0 n proposal;
            intent = dict_update result [(''phase'', JStr ''intent''), (''write_authorized'', JBool (writable \<noteq> None))]
        in case write_audit C g0 (audit_key ''intent'' n) (JObj intent) F (se_intent env) of
             (g1, cs1, False) \<Rightarrow> (g1, cs1, dict_set result ''reason'' (JStr ''intent_storage_unavailable''))
           | (g1, cs1, True) \<Rightarrow>
               (case effect_stage C env g1 writable (create_all F cs1) result of
                  (g2, cs2, result2) \<Rightarrow>
                    (case result_stage C env g2 n (create_all F (cs1 @ cs2)) result2 of
                       (g3, cs3, result3) \<Rightarrow> (g3, cs1 @ cs2 @ cs3, result3))))"

text \<open>\<open>submit\<close> adds the measured times to the result.\<close>

definition submit_text :: "codec \<Rightarrow> submit_env \<Rightarrow> json \<Rightarrow> guarded_workspace \<Rightarrow> file_system \<Rightarrow> string
    \<Rightarrow> guarded_workspace \<times> creation list \<times> (string \<times> json) list" where
  "submit_text C env timing g F proposal =
     (case ws_submit C env g F proposal of (g', cs, result) \<Rightarrow> (g', cs, dict_set result ''timing_ms'' timing))"

section \<open>Closing\<close>

definition close_workspace :: "guarded_workspace \<Rightarrow> guarded_workspace" where
  "close_workspace g =
     (if gws_closed g then g
      else g\<lparr>gws_closed := True, gws_files := close_files (gws_files g), gws_audit := close_files (gws_audit g), gws_fenced := True\<rparr>)"

definition closure_record :: "codec \<Rightarrow> guarded_workspace \<Rightarrow> ws_error + (string \<times> json) list" where
  "closure_record C g =
     (if \<not> gws_closed g \<or> \<not> gws_fenced g \<or> \<not> identity_matches C g
         \<or> \<not> (0 \<le> gws_attempts g \<and> gws_attempts g \<le> wp_max_proposals (gws_opened_policy g))
      then Inl (WsValue ''workspace closure is not fenced'')
      else Inr [(''schema_version'', JStr ''ash.workspace-session-closed.v1''),
                (''session_id'', JStr (gws_opened_session g)),
                (''policy_sha256'', JStr (gws_opened_sha g)),
                (''attempts'', JInt (gws_attempts g)),
                (''closed'', JBool True),
                (''replay_allowed'', JBool False)])"

section \<open>Checking a receipt\<close>

text \<open>
  \<open>GuardDecision.model_validate\<close> on parsed JSON, for typed input: unknown fields are refused, fields with a
  default may be missing. \<open>parse_time\<close> is pydantic's reading of a timestamp.
\<close>

definition disposition_of_text :: "string \<Rightarrow> disposition option" where
  "disposition_of_text s = find (\<lambda>d. disposition_text d = s) [Allow, Redact, Block, AskUser, SandboxOnly, LogOnly]"

definition get_str :: "(string \<times> json) list \<Rightarrow> string \<Rightarrow> string option" where
  "get_str kvs k = (case obj_get kvs k of Some (JStr s) \<Rightarrow> Some s | _ \<Rightarrow> None)"

definition get_sha :: "(string \<times> json) list \<Rightarrow> string \<Rightarrow> string option" where
  "get_sha kvs k = (case get_str kvs k of Some s \<Rightarrow> if sha256_text s then Some s else None | None \<Rightarrow> None)"

definition get_disposition :: "(string \<times> json) list \<Rightarrow> string \<Rightarrow> disposition option" where
  "get_disposition kvs k = Option.bind (get_str kvs k) disposition_of_text"

fun texts_of_json :: "json list \<Rightarrow> string list option" where
  "texts_of_json [] = Some []"
| "texts_of_json (JStr s # vs) = map_option (Cons s) (texts_of_json vs)"
| "texts_of_json _ = None"

definition get_texts :: "(string \<times> json) list \<Rightarrow> string \<Rightarrow> string list option" where
  "get_texts kvs k = (case obj_get kvs k of Some (JArr vs) \<Rightarrow> texts_of_json vs | _ \<Rightarrow> None)"

definition literal_or_missing :: "(string \<times> json) list \<Rightarrow> string \<Rightarrow> string \<Rightarrow> bool" where
  "literal_or_missing kvs k s \<longleftrightarrow> obj_get kvs k = None \<or> obj_get kvs k = Some (JStr s)"

definition evidence_fields :: "string list" where
  "evidence_fields =
     [''schema_version'', ''action_id_hash'', ''action_digest'', ''content_sha256'', ''context_digest'', ''policy_sha256'',
      ''policy_version'', ''disposition'', ''reason_codes'', ''evaluated_at'', ''previous_hash'', ''origin_authentication'',
      ''trusted_time'', ''receipt_kind'', ''decision_hash'']"

definition evidence_literals_ok :: "(string \<times> json) list \<Rightarrow> bool" where
  "evidence_literals_ok kvs \<longleftrightarrow> obj_keys kvs \<subseteq> set evidence_fields
     \<and> literal_or_missing kvs ''schema_version'' ''runtime-guard-evidence-v0.1''
     \<and> literal_or_missing kvs ''origin_authentication'' ''unverified''
     \<and> literal_or_missing kvs ''trusted_time'' ''not_recorded''
     \<and> literal_or_missing kvs ''receipt_kind'' ''decision_only''"

definition evidence_of_json :: "(json \<Rightarrow> datetime option) \<Rightarrow> json \<Rightarrow> evidence_receipt option" where
  "evidence_of_json parse_time v =
     (case v of
        JObj kvs \<Rightarrow>
          if \<not> evidence_literals_ok kvs then None
          else
            Option.bind (get_sha kvs ''action_id_hash'') (\<lambda>i.
            Option.bind (get_sha kvs ''action_digest'') (\<lambda>ad.
            Option.bind (get_sha kvs ''content_sha256'') (\<lambda>cs.
            Option.bind (get_sha kvs ''context_digest'') (\<lambda>cd.
            Option.bind (get_sha kvs ''policy_sha256'') (\<lambda>ps.
            Option.bind (get_str kvs ''policy_version'') (\<lambda>pv.
            Option.bind (get_disposition kvs ''disposition'') (\<lambda>di.
            Option.bind (get_texts kvs ''reason_codes'') (\<lambda>rc.
            Option.bind (Option.bind (obj_get kvs ''evaluated_at'') parse_time) (\<lambda>at_time.
            Option.bind (get_sha kvs ''previous_hash'') (\<lambda>ph.
            Option.bind (get_sha kvs ''decision_hash'') (\<lambda>dh.
            if pv = [] then None
            else Some \<lparr>ev_action_id_hash = i, ev_action_digest = ad, ev_content = cs, ev_context_digest = cd,
                   ev_policy = ps, ev_policy_version = pv, ev_disposition = di, ev_reasons = rc,
                   ev_evaluated_at = at_time, ev_previous_hash = ph, ev_decision_hash = dh\<rparr>)))))))))))
      | _ \<Rightarrow> None)"

definition decision_of_json :: "(json \<Rightarrow> datetime option) \<Rightarrow> json \<Rightarrow> guard_decision option" where
  "decision_of_json parse_time v =
     (case v of
        JObj kvs \<Rightarrow>
          if \<not> obj_keys kvs \<subseteq> {''disposition'', ''reason_codes'', ''owner_gate_required'', ''evidence''} then None
          else
            Option.bind (get_disposition kvs ''disposition'') (\<lambda>di.
            Option.bind (get_texts kvs ''reason_codes'') (\<lambda>rc.
            Option.bind (case obj_get kvs ''owner_gate_required'' of Some (JBool b) \<Rightarrow> Some b | _ \<Rightarrow> None) (\<lambda>og.
            Option.bind (Option.bind (obj_get kvs ''evidence'') (evidence_of_json parse_time)) (\<lambda>ev.
            Some \<lparr>gd_disposition = di, gd_reasons = rc, gd_owner_gate = og, gd_evidence = ev\<rparr>))))
      | _ \<Rightarrow> None)"

definition lower_hex32 :: "string \<Rightarrow> bool" where
  "lower_hex32 s \<longleftrightarrow> length s = 32 \<and> list_all is_lower_hex s"

text \<open>The index of a call name of session \<open>sid\<close>: \<open>[1-9][0-9]?\<close> after the session and a colon.\<close>

definition call_index :: "string \<Rightarrow> string \<Rightarrow> nat option" where
  "call_index sid call =
     (let digits = drop (length sid + 1) call
      in if starts_with call (sid @ '':'') \<and> digits \<noteq> [] \<and> length digits \<le> 2 \<and> list_all is_digit digits
            \<and> hd digits \<noteq> CHR ''0''
         then Some (nat_of_digits digits) else None)"

definition receipt_keys :: "string list" where
  "receipt_keys = [''artifact'', ''bytes'', ''content_sha256'', ''decision'', ''call_id'', ''session_id'', ''policy_sha256'',
     ''proposal_sha256'']"

text \<open>The first test: the fields of a successful write under this policy.\<close>

definition receipt_success :: "codec \<Rightarrow> (json \<Rightarrow> datetime option) \<Rightarrow> ws_policy \<Rightarrow> (string \<times> json) list \<Rightarrow> bool" where
  "receipt_success C parse_time p r \<longleftrightarrow>
     (case Option.bind (obj_get r ''decision'') (decision_of_json parse_time) of
        None \<Rightarrow> False
      | Some d \<Rightarrow>
          obj_get r ''schema_version'' = Some (JStr ws_version)
          \<and> obj_get r ''policy_sha256'' = Some (JStr (ws_policy_sha256 C p))
          \<and> obj_get r ''applied'' = Some (JBool True) \<and> obj_get r ''receipt_complete'' = Some (JBool True)
          \<and> obj_get r ''effect'' = Some (JStr ''created'') \<and> obj_get r ''reason'' = Some (JStr ''write_completed'')
          \<and> gd_disposition d = Allow \<and> ev_policy (gd_evidence d) = ws_policy_sha256 C p
          \<and> obj_get r ''content_sha256'' = Some (JStr (ev_content (gd_evidence d)))
          \<and> (case obj_get r ''bytes'' of Some (JInt i) \<Rightarrow> True | _ \<Rightarrow> False)
          \<and> (case get_str r ''artifact'' of Some a \<Rightarrow> a \<in> set (output_names p) | None \<Rightarrow> False))"

text \<open>The intent repeats the result: a key missing in the intent reads as \<open>None\<close>, one missing in the result raises.\<close>

definition intent_matches :: "(string \<times> json) list \<Rightarrow> (string \<times> json) list \<Rightarrow> bool" where
  "intent_matches intent r \<longleftrightarrow>
     obj_get intent ''phase'' = Some (JStr ''intent'') \<and> obj_get intent ''write_authorized'' = Some (JBool True)
     \<and> list_all (\<lambda>k. case obj_get r k of None \<Rightarrow> False
                   | Some y \<Rightarrow> py_eq (case obj_get intent k of None \<Rightarrow> JNull | Some x \<Rightarrow> x) y) receipt_keys"

definition wire_file :: "codec \<Rightarrow> file_system \<Rightarrow> string \<Rightarrow> (string \<times> json) list option" where
  "wire_file C F path =
     (case read_file F path 16384 of
        Inl _ \<Rightarrow> None
      | Inr raw \<Rightarrow> (case wire_object C raw 16384 of Inl _ \<Rightarrow> None | Inr kvs \<Rightarrow> Some kvs))"

text \<open>The output on disk is the one the receipt speaks of.\<close>

definition output_matches :: "codec \<Rightarrow> ws_policy \<Rightarrow> file_system \<Rightarrow> string \<Rightarrow> (string \<times> json) list \<Rightarrow> (string \<times> int \<times> string) option" where
  "output_matches C p F a r =
     (case read_file F (output_path p a) (wp_max_bytes p) of
        Inl _ \<Rightarrow> None
      | Inr raw \<Rightarrow>
          if obj_get r ''output_sha256'' = Some (JStr (ws_sha C raw)) \<and> obj_get r ''content_sha256'' = Some (JStr (ws_sha C raw))
             \<and> obj_get r ''bytes'' = Some (JInt (int (length raw)))
          then Some (a, int (length raw), ws_sha C raw) else None)"

text \<open>
  \<open>verify_workspace_output\<close>: the artifact, its length and digest when the receipt holds; every failure is
  the one negative answer (\<open>None\<close>). \<open>policy_check\<close> is whether \<open>policy.check()\<close> returns.
\<close>

definition verify_workspace_output :: "codec \<Rightarrow> (json \<Rightarrow> datetime option) \<Rightarrow> bool \<Rightarrow> ws_policy \<Rightarrow> file_system \<Rightarrow> string
    \<Rightarrow> (string \<times> int \<times> string) option" where
  "verify_workspace_output C parse_time policy_check p F receipt =
     (if \<not> policy_check then None
      else
        Option.bind (wire_file C F receipt) (\<lambda>r.
        if \<not> receipt_success C parse_time p r then None
        else
          Option.bind (get_str r ''artifact'') (\<lambda>a.
          Option.bind (get_str r ''session_id'') (\<lambda>sid.
          Option.bind (get_str r ''call_id'') (\<lambda>call.
          Option.bind (if lower_hex32 sid then call_index sid call else None) (\<lambda>n.
          if int n > wp_max_proposals p \<or> obj_get r ''receipt'' \<noteq> Some (JStr (audit_file sid n ''result''))
             \<or> receipt \<noteq> join_path (wp_dir p) (audit_file sid n ''result'')
          then None
          else
            Option.bind (wire_file C F (join_path (wp_dir p) (audit_file sid n ''intent''))) (\<lambda>intent.
            if intent_matches intent r then output_matches C p F a r else None)))))))"

end
