(* ===== verification/Workspace_Decide.thy ===== *)
theory Workspace_Decide
  imports Workspace_Policy Guard_Properties
begin

text \<open>
  What the runtime guard says to the action that \<open>_decide\<close> builds: it validates, and it is allowed exactly when
  the artifact is one of the configured outputs.
\<close>

section \<open>The target\<close>

definition path_char :: "char \<Rightarrow> bool" where
  "path_char c \<longleftrightarrow> alias_char c \<or> c = CHR ''/''"

lemma path_char_facts:
  assumes "path_char c"
  shows "ord c < 128" "\<not> ord c < 32" "c \<noteq> CHR ''%''" "c \<noteq> CHR ''#''" "c \<noteq> CHR ''?''" "c \<noteq> CHR '':''" "c \<noteq> CHR ''.''"
    "c \<noteq> CHR 0x5C" "\<not> is_space c" "ord c \<noteq> 42" "ord c \<noteq> 63" "ord c \<noteq> 91"
  using assms by (auto simp: path_char_def alias_char_def is_lower_alpha_def is_upper_alpha_def is_digit_def is_space_def ord_def)

lemma alias_char_no_slash: "alias_char c \<Longrightarrow> c \<noteq> CHR ''/''"
  by (auto simp: alias_char_def is_lower_alpha_def is_upper_alpha_def is_digit_def)

lemma hex_alias_char: "is_lower_hex c \<Longrightarrow> alias_char c"
  by (auto simp: is_lower_hex_def alias_char_def is_lower_alpha_def)

lemma partition3_local:
  "partition3 ''://'' (''local://'' @ r) = (''local'', True, r)"
  by simp

definition local_url :: "string \<Rightarrow> split_url" where
  "local_url r = \<lparr>su_scheme = ''local'', su_netloc = ''workspace'', su_path = CHR ''/'' # r, su_query = [], su_fragment = []\<rparr>"

lemma partition1_absent: "d \<notin> set s \<Longrightarrow> partition1 d s = (s, False, [])"
proof -
  assume "d \<notin> set s"
  then have "takeWhile (\<lambda>c. c \<noteq> d) s = s" "dropWhile (\<lambda>c. c \<noteq> d) s = []"
    by (auto simp: takeWhile_eq_all_conv dropWhile_eq_Nil_conv)
  with \<open>d \<notin> set s\<close> show ?thesis unfolding partition1_def by (simp del: dropWhile_eq_Nil_conv)
qed

lemma urlsplit_local:
  assumes "list_all path_char r"
  shows "urlsplit (''local://workspace/'' @ r) = Some (local_url r)"
proof -
  have scheme: "split_scheme (''local://workspace/'' @ r) = (''local'', ''//workspace/'' @ r)"
    by (simp add: split_scheme_def partition1_def lower_def lower_char_def scheme_char_def is_lower_alpha_def is_upper_alpha_def)
  have absent: "CHR ''#'' \<notin> set (CHR ''/'' # r)" "CHR ''?'' \<notin> set (CHR ''/'' # r)"
    using assms path_char_facts(4,5) [of "CHR ''#''"] path_char_facts(4,5) [of "CHR ''?''"] by (auto simp: list_all_iff)
  show ?thesis
    using partition1_absent [OF absent(1)] partition1_absent [OF absent(2)]
    unfolding urlsplit_def scheme by (simp add: local_url_def netloc_brackets_ok_def)
qed

lemma local_url_parts:
  "\<not> has_userinfo (local_url r)" "url_port (local_url r) = Some None" "url_host (local_url r) = Some ''workspace''"
  by (simp_all add: has_userinfo_def url_port_def url_host_def host_port_def local_url_def rpartition1_def partition1_def
      lower_def lower_char_def is_upper_alpha_def)

lemma split_on_not_Nil: "split_on d s \<noteq> []"
  by (induction s) (auto split: list.splits)

lemma split_on_chars: "d \<notin> set w \<Longrightarrow> split_on d (w @ s) = (case split_on d s of [] \<Rightarrow> [w] | v # vs \<Rightarrow> (w @ v) # vs)"
proof (induction w)
  case (Cons c w)
  then show ?case by (cases "split_on d s") auto
qed (cases "split_on d s"; simp add: split_on_not_Nil)

lemma contains_slashes:
  assumes "CHR ''/'' \<notin> set w"
  shows "contains_sub (w @ s) ''//'' \<longleftrightarrow> contains_sub s ''//''"
  using assms by (induction w) auto

lemma canonical_local:
  assumes "list_all alias_char h" "list_all alias_char a" "h \<noteq> []" "a \<noteq> []"
  shows "canonical_target (''local://workspace/'' @ h @ ''/'' @ a) = Some (local_url (h @ ''/'' @ a))"
proof -
  let ?r = "h @ ''/'' @ a"
  have r: "list_all path_char ?r" using assms by (auto simp: path_char_def list_all_iff)
  have chars: "is_ascii (''local://workspace/'' @ ?r)" "\<not> list_ex (\<lambda>c. ord c < 32) (''local://workspace/'' @ ?r)"
    "CHR ''%'' \<notin> set (''local://workspace/'' @ ?r)"
    using r path_char_facts(1-3) by (auto simp: list_all_iff list_ex_iff is_ascii_def)
  have slash: "CHR ''/'' \<notin> set h" "CHR ''/'' \<notin> set a"
    using assms(1,2) alias_char_no_slash by (auto simp: list_all_iff)
  have dots: "CHR ''.'' \<notin> set h" "CHR ''.'' \<notin> set a"
    using r path_char_facts(7) by (auto simp: list_all_iff)
  have parts: "split_on (CHR ''/'') (CHR ''/'' # ?r) = [[], h, a]"
    using slash split_on_chars [OF slash(1), of "''/'' @ a"] split_on_chars [OF slash(2), of "[]"] by simp
  obtain hc ht where h: "h = hc # ht" using assms(3) by (cases h) auto
  obtain ac at' where a: "a = ac # at'" using assms(4) by (cases a) auto
  have nodouble: "\<not> contains_sub (CHR ''/'' # ?r) ''//''"
  proof -
    have "hc \<noteq> CHR ''/''" "ac \<noteq> CHR ''/''" using slash h a by auto
    moreover have "\<not> contains_sub a ''//''" using contains_slashes [OF slash(2), of "[]"] by simp
    moreover have "contains_sub (h @ ''/'' @ a) ''//'' \<longleftrightarrow> contains_sub (''/'' @ a) ''//''" by (rule contains_slashes [OF slash(1)])
    ultimately show ?thesis using h a by simp
  qed
  have dd: "\<not> list_ex (\<lambda>p. p = ''.'' \<or> p = ''..'') [[], h, a]" using dots by auto
  have host: "\<not> ends_with_char ''workspace'' (CHR ''.'')" by (simp add: ends_with_char_def)
  have auth: "takeWhile (\<lambda>c. c \<noteq> CHR ''/'') (''workspace/'' @ ?r) = ''workspace''" by simp
  have p3: "partition3 ''://'' (''local://workspace/'' @ ?r) = (''local'', True, ''workspace/'' @ ?r)" by simp
  have low: "lower ''local'' = ''local''" "lower ''workspace'' = ''workspace''"
    by (simp_all add: lower_def lower_char_def is_upper_alpha_def)
  show ?thesis
    unfolding canonical_target_def urlsplit_local [OF r]
    using chars nodouble dd
    by (simp only: if_False if_True option.case p3 prod.case Let_def auth low local_url_parts parts host
        local_url_def split_url.simps local_url_parts [unfolded local_url_def]) simp
qed

section \<open>The action validates\<close>

text \<open>What the constructor of the policy and the caller establish.\<close>

definition decide_ready :: "codec \<Rightarrow> ws_policy \<Rightarrow> string \<Rightarrow> string \<Rightarrow> datetime \<Rightarrow> bool" where
  "decide_ready C p a call now \<longleftrightarrow>
     hash_ok C \<and> wp_class p \<in> set ws_data_classes \<and> alias_text a \<and> call \<noteq> [] \<and> is_ascii call \<and> dt_aware now"

lemma ws_sha_text [simp]: "hash_ok C \<Longrightarrow> sha256_text (ws_sha C s)"
  by (simp add: ws_sha_def)

lemma ws_policy_sha_text [simp]: "hash_ok C \<Longrightarrow> sha256_text (ws_policy_sha256 C p)"
  by (simp add: ws_policy_sha256_def)

lemma action_digest_sha [simp]: "hash_ok C \<Longrightarrow> sha256_text (action_digest C a)"
  by (simp add: action_digest_def sha256_json_def)

lemma later_simps [simp]:
  "dt_aware (seconds_later n t) \<longleftrightarrow> dt_aware t"
  "dt_instant (seconds_later n t) = dt_instant t + n * 1000000"
  by (simp_all add: dt_aware_def seconds_later_def)

lemma text_field_ascii: "s \<noteq> [] \<Longrightarrow> is_ascii s \<Longrightarrow> text_field s"
  by (simp add: text_field_def utf8_valid_ascii)

lemma utf8_valid_literals [simp]:
  "utf8_valid ''local_text_output''" "utf8_valid ''trusted_application_configuration''" "utf8_valid ''workspace:create''"
  "utf8_valid ''workspace-host''" "utf8_valid ''unused-handoff''" "utf8_valid ''unused-budget''"
  "utf8_valid ''unused-tool''" "utf8_valid ''unused-provider''"
  by (simp_all add: utf8_valid_ascii)

lemma text_field_literals [simp]:
  "text_field ''workspace-host''" "text_field ''workspace-agent''" "text_field ''local_text_output''" "text_field ws_version"
  by (simp_all add: text_field_ascii ws_version_def)

lemma decide_envelope_valid:
  assumes "decide_ready C p a call now"
  shows "mk_runtime_envelope (decide_envelope C p content call session now)
    = Inr (decide_envelope C p content call session now)"
proof -
  have "wp_class p \<in> set guard_data_classes"
    using assms by (auto simp: decide_ready_def ws_data_classes_def guard_data_classes_def)
  with assms show ?thesis
    by (simp add: mk_runtime_envelope_def decide_envelope_def raise_first_def require_aware_def decide_ready_def dt_le_def)
qed

lemma decide_target_facts:
  assumes "decide_ready C p a call now"
  shows "canonical_target (decide_target C p a) = Some (local_url (ws_policy_sha256 C p @ ''/'' @ a))"
    and "is_ascii (decide_target C p a)" and "\<not> target_strip_changes (decide_target C p a)"
    and "CHR 0x5C \<notin> set (decide_target C p a)" and "fnmatchcase (decide_target C p a) (decide_target C p a)"
proof -
  let ?h = "ws_policy_sha256 C p"
  from assms have sha: "sha256_text ?h" by (simp add: decide_ready_def)
  then have h: "list_all alias_char ?h" "?h \<noteq> []" by (auto simp: sha256_text_def list_all_iff intro: hex_alias_char)
  from assms have a: "list_all alias_char a" "a \<noteq> []" using alias_text_chars by (auto simp: decide_ready_def)
  show "canonical_target (decide_target C p a) = Some (local_url (?h @ ''/'' @ a))"
    unfolding decide_target_def by (rule canonical_local [OF h(1) a(1) h(2) a(2)])
  have pc: "list_all path_char (?h @ ''/'' @ a)" using h a by (auto simp: path_char_def list_all_iff)
  show asc: "is_ascii (decide_target C p a)"
    using sha256_text_ascii [OF sha] assms by (simp add: decide_target_def decide_ready_def alias_text_ascii)
  show "CHR 0x5C \<notin> set (decide_target C p a)"
    using pc path_char_facts(8) by (auto simp: decide_target_def list_all_iff)
  have "\<not> is_space (last (?h @ ''/'' @ a))"
    using pc path_char_facts(9) a(2) last_in_set [of "?h @ ''/'' @ a"] by (auto simp: list_all_iff)
  then have "strip (decide_target C p a) = decide_target C p a"
    using a(2) by (cases a rule: rev_cases) (auto simp: strip_def decide_target_def is_space_def)
  then show "\<not> target_strip_changes (decide_target C p a)" by (simp add: target_strip_changes_def)
  have "plain_pattern (map ord (decide_target C p a))"
    using pc path_char_facts(10-12) by (auto simp: plain_pattern_def decide_target_def list_all_iff)
  with asc show "fnmatchcase (decide_target C p a) (decide_target C p a)"
    by (simp add: fnmatch_plain code_points_ascii)
qed

lemma decide_action_valid:
  assumes "decide_ready C p a call now"
  shows "mk_action (decide_action C p a content call session now e) = Inr (decide_action C p a content call session now e)"
proof -
  let ?act = "decide_action C p a content call session now e"
  note t = decide_target_facts [OF assms]
  have r: "hash_ok C" "text_field call" "dt_aware now"
    using assms by (auto simp: decide_ready_def text_field_ascii)
  have target: "ae_target ?act = decide_target C p a" by (simp add: decide_action_def)
  have tf: "text_field (decide_target C p a)" using t(2) by (simp add: text_field_ascii decide_target_def)
  have fields: "action_fields_ok ?act"
    using r tf by (simp add: action_fields_ok_def decide_action_def texts_field_def)
  have times: "require_aware [ae_created_at ?act, ae_expires_at ?act]" "\<not> dt_le (ae_expires_at ?act) (ae_created_at ?act)"
    using r by (simp_all add: require_aware_def decide_action_def dt_le_def)
  have eff: "effective_action ?act = FilesystemWrite" by (simp add: effective_action_def decide_action_def)
  have shape: "raise_first (action_shape_errors ?act (local_url q)) ?act = Inr ?act" for q
    by (simp add: raise_first_def action_shape_errors_def eff Let_def egress_actions_def external_target_schemes_def
        local_target_schemes_def local_url_def) (simp add: decide_action_def)
  show ?thesis
    unfolding mk_action_def target t(1) using fields times t(3,4) by (simp add: raise_first_def [of "_ # _"] shape target)
qed

lemma decide_grants_valid:
  fixes content session e
  assumes "decide_ready C p a call now"
  defines "act \<equiv> decide_action C p a content call session now e"
  shows "mk_capability_grant (decide_capability C p call now act) = Inr (decide_capability C p call now act)"
    and "mk_consent_receipt (decide_consent C p call now act) = Inr (decide_consent C p call now act)"
proof -
  have r: "hash_ok C" "call \<noteq> []" "is_ascii call" "dt_aware now"
    using assms by (auto simp: decide_ready_def)
  have ids: "text_field (''grant:'' @ call)" "text_field (''consent:'' @ call)" "text_field call"
    using r by (simp_all add: text_field_ascii)
  have tg: "utf8_valid (ae_target act)"
    using decide_target_facts(2) [OF assms(1)] by (simp add: act_def decide_action_def utf8_valid_ascii)
  show "mk_capability_grant (decide_capability C p call now act) = Inr (decide_capability C p call now act)"
    using r ids tg
    by (simp add: mk_capability_grant_def decide_capability_def raise_first_def require_aware_def texts_field_def dt_le_def)
  show "mk_consent_receipt (decide_consent C p call now act) = Inr (decide_consent C p call now act)"
    using r ids by (simp add: mk_consent_receipt_def decide_consent_def raise_first_def require_aware_def dt_le_def)
qed

lemma decide_context_valid:
  assumes "hash_ok C" "dt_aware now" "gs = [] \<or> gs = [g]" "cs = [] \<or> cs = [k]"
  shows "mk_guard_context (decide_context C p now e gs cs) = Inr (decide_context C p now e gs cs)"
proof -
  have sha: "sha256_text (classification_binding C e)"
    using assms(1) by (simp add: classification_binding_def sha256_json_def)
  show ?thesis
    using assms sha
    by (auto simp: mk_guard_context_def decide_context_def raise_first_def require_aware_def texts_field_def
        require_unique_def utf8_valid_ascii sha256_text_ascii)
qed

section \<open>The guard's answer\<close>

definition decided_action :: "codec \<Rightarrow> ws_policy \<Rightarrow> string \<Rightarrow> string \<Rightarrow> string \<Rightarrow> string \<Rightarrow> datetime \<Rightarrow> action_envelope" where
  "decided_action C p a content call session now =
     decide_action C p a content call session now (decide_envelope C p content call session now)"

definition decided_context :: "codec \<Rightarrow> ws_policy \<Rightarrow> string \<Rightarrow> string \<Rightarrow> string \<Rightarrow> string \<Rightarrow> datetime \<Rightarrow> guard_context" where
  "decided_context C p a content call session now =
     (let act = decided_action C p a content call session now; allowed = a \<in> set (output_names p)
      in decide_context C p now (decide_envelope C p content call session now)
           (if allowed then [decide_capability C p call now act] else [])
           (if allowed then [decide_consent C p call now act] else []))"

lemma decide_text_evaluates:
  assumes "decide_ready C p a call now"
  shows "decide_text C p a content call session now
    = Inr (evaluate_action C (decided_action C p a content call session now) (decided_context C p a content call session now))"
proof -
  have r: "hash_ok C" "dt_aware now" using assms by (auto simp: decide_ready_def)
  show ?thesis
    unfolding decide_text_def decided_action_def decided_context_def Let_def
    using decide_envelope_valid [OF assms, of content session] decide_action_valid [OF assms, of content session]
      decide_grants_valid [OF assms, of content session] decide_context_valid [OF r]
    by (cases "a \<in> set (output_names p)") simp_all
qed

lemma decided_reasons_allowed:
  assumes "decide_ready C p a call now" "a \<in> set (output_names p)"
  shows "action_reasons C (decided_action C p a content call session now) (decided_context C p a content call session now) = []"
proof -
  let ?a = "decided_action C p a content call session now" and ?c = "decided_context C p a content call session now"
  let ?g = "decide_capability C p call now ?a" and ?k = "decide_consent C p call now ?a"
  have ctx: "gc_capabilities ?c = [?g]" "gc_consents ?c = [?k]"
    using assms(2) by (simp_all add: decided_context_def decide_context_def Let_def)
  have cap: "has_capability C ?a ?c"
    using decide_target_facts(5) [OF assms(1)]
    by (simp add: has_capability_def ctx grant_covers_def, simp add: decide_capability_def decided_context_def decide_context_def
        decided_action_def decide_action_def Let_def dt_le_def)
  have con: "has_consent C ?a ?c"
    by (simp add: has_consent_def ctx consent_covers_def, simp add: decide_consent_def decided_context_def decide_context_def
        decided_action_def decide_action_def Let_def dt_le_def)
  have cls: "wp_class p \<noteq> ''secret''"
    using assms(1) by (auto simp: decide_ready_def ws_data_classes_def)
  have cok: "classification_ok C ?a ?c"
    by (simp add: classification_ok_def decided_action_def decide_action_def decided_context_def decide_context_def
        decide_envelope_def Let_def dt_le_def)
  show ?thesis
    unfolding action_reasons_Nil
    using cap con cls cok
    by (simp add: decided_action_def decide_action_def decided_context_def decide_context_def decide_envelope_def Let_def
        dt_le_def ttl_expired_def effective_action_def)
qed

lemma decided_reasons_refused:
  assumes "a \<notin> set (output_names p)"
  shows "''capability_missing_or_invalid'' \<in> set (action_reasons C (decided_action C p a content call session now)
    (decided_context C p a content call session now))"
  using assms
  by (simp add: action_reasons_def Let_def decided_context_def decide_context_def has_capability_def flag_def,
      simp add: decided_action_def decide_action_def)

lemma decided_not_gated: "effective_action (decided_action C p a content call session now) = FilesystemWrite"
  by (simp add: effective_action_def decided_action_def decide_action_def)

lemma decide_text_answer:
  assumes "decide_ready C p a call now"
  obtains d where "decide_text C p a content call session now = Inr d"
    and "gd_disposition d = (if a \<in> set (output_names p) then Allow else Block)"
    and "ev_content (gd_evidence d) = ws_sha C content" "ev_policy (gd_evidence d) = ws_policy_sha256 C p"
    and "ev_disposition (gd_evidence d) = gd_disposition d" "gd_owner_gate d = False"
    and "gd_reasons d = ev_reasons (gd_evidence d)" "ev_evaluated_at (gd_evidence d) = now"
proof -
  let ?a = "decided_action C p a content call session now" and ?c = "decided_context C p a content call session now"
  let ?d = "evaluate_action C ?a ?c"
  have disp: "gd_disposition ?d = (if a \<in> set (output_names p) then Allow else Block)"
  proof (cases "a \<in> set (output_names p)")
    case True
    show ?thesis
      unfolding evaluate_action_def Let_def decided_reasons_allowed [OF assms True]
      using True by (simp add: choose_disposition_def decided_not_gated owner_gate_actions_def)
        (simp add: decided_action_def decide_action_def)
  next
    case False
    then show ?thesis
      using decided_reasons_refused [OF False, of C content call session now]
      by (auto simp: evaluate_action_def Let_def choose_disposition_def decided_not_gated owner_gate_actions_def)
  qed
  show ?thesis
  proof (rule that [OF decide_text_evaluates [OF assms] disp])
  qed (simp_all add: evaluate_action_def Let_def issue_receipt_def decided_not_gated owner_gate_actions_def,
       simp_all add: decided_action_def decide_action_def decided_context_def decide_context_def Let_def)
qed

end
