(* ===== verification/Workspace_Submit.thy ===== *)
theory Workspace_Submit
  imports Workspace_Writer Workspace_Decide
begin

text \<open>
  What one call of \<open>submit\<close> does to the files: every stage of it, what the stages keep of an opened
  workspace, and the order in which the files appear.
\<close>

section \<open>An opened workspace\<close>

text \<open>
  What \<open>__init__\<close> establishes and every call keeps. Policies are frozen, so that the same object is the same
  policy.
\<close>

definition workspace_ok :: "guarded_workspace \<Rightarrow> bool" where
  "workspace_ok g \<longleftrightarrow>
     (let p = gws_opened_policy g; targets = audit_targets (gws_opened_session g) (nat (wp_max_proposals p))
      in wf_root (gws_files g) = wp_dir p \<and> wf_targets (gws_files g) = wp_outputs p \<and> wf_max (gws_files g) = wp_max_bytes p
         \<and> wf_root (gws_audit g) = wp_dir p \<and> wf_targets (gws_audit g) = targets \<and> wf_max (gws_audit g) = 16384
         \<and> gws_audit_names g = targets
         \<and> (gws_same g \<longrightarrow> gws_policy g = p)
         \<and> 0 \<le> gws_attempts g \<and> gws_attempts g \<le> wp_max_proposals p)"

lemma open_workspace_ok:
  assumes "open_workspace C casefold root1 root2 p session = Inr g" "0 \<le> wp_max_proposals p"
  shows "workspace_ok g" "gws_policy g = p" "gws_opened_policy g = p" "gws_session g = session"
    "gws_opened_session g = session" "gws_attempts g = 0" "identity_matches C g"
    "\<not> gws_closed g" "\<not> gws_failed g" "wf_seen (gws_files g) = []" "wf_seen (gws_audit g) = []"
  using assms
  by (auto simp: open_workspace_def open_files_def workspace_ok_def identity_matches_def Let_def map_err_Inr_iff
      split: option.splits)

definition audit_path :: "ws_policy \<Rightarrow> string \<Rightarrow> nat \<Rightarrow> string \<Rightarrow> string" where
  "audit_path p session n phase = join_path (wp_dir p) (audit_file session n phase)"

lemma nat_digits_inject [simp]: "nat_digits m = nat_digits n \<longleftrightarrow> m = n"
  using nat_of_digits_nat_digits by metis

lemma audit_key_inject [simp]:
  "audit_key ''intent'' m = audit_key ''intent'' n \<longleftrightarrow> m = n"
  "audit_key ''result'' m = audit_key ''result'' n \<longleftrightarrow> m = n"
  "audit_key ''intent'' m \<noteq> audit_key ''result'' n" "audit_key ''result'' m \<noteq> audit_key ''intent'' n"
  by (simp_all add: audit_key_def)

lemma audit_targets_Suc:
  "audit_targets session (Suc k) = audit_targets session k @
     [(audit_key ''intent'' (Suc k), audit_file session (Suc k) ''intent''),
      (audit_key ''result'' (Suc k), audit_file session (Suc k) ''result'')]"
  by (simp add: audit_targets_def)

lemma audit_targets_lookup:
  assumes "1 \<le> n" "n \<le> limit" "phase = ''intent'' \<or> phase = ''result''"
  shows "map_of (audit_targets session limit) (audit_key phase n) = Some (audit_file session n phase)"
  using assms
proof (induction limit)
  case (Suc k)
  have fresh: "map_of (audit_targets session m) (audit_key phase n) = None" if "m < n" for m
    using that assms(3) by (induction m) (auto simp: audit_targets_Suc map_add_def, auto simp: audit_targets_def)
  show ?case
  proof (cases "n = Suc k")
    case True
    with fresh [of k] assms(3) show ?thesis by (auto simp: audit_targets_Suc map_add_def)
  next
    case False
    with Suc show ?thesis by (auto simp: audit_targets_Suc map_add_def)
  qed
qed simp

section \<open>The stages\<close>

lemma write_audit_cases:
  assumes "write_audit C g key doc F fault = (g', cs, ok)"
  shows "ok \<Longrightarrow> cs = [(target_path (gws_audit g) key, ws_json C doc @ [CHR 0x0A])] \<and> F (target_path (gws_audit g) key) = None
      \<and> int (length (ws_json C doc @ [CHR 0x0A])) \<le> wf_max (gws_audit g)"
    and "cs = [] \<or> F (target_path (gws_audit g) key) = None
      \<and> (\<exists>k. cs = [(target_path (gws_audit g) key, take k (ws_json C doc @ [CHR 0x0A]))])"
    and "workspace_ok g \<Longrightarrow> workspace_ok g'"
    and "g' = g\<lparr>gws_audit := gws_audit g', gws_failed := gws_failed g'\<rparr>" "gws_failed g' = (\<not> ok \<or> gws_failed g)"
proof -
  let ?raw = "ws_json C doc @ [CHR 0x0A]"
  obtain w ds r where w: "write_once C (gws_audit g) key ?raw F fault = (w, ds, r)"
    by (cases "write_once C (gws_audit g) key ?raw F fault") auto
  note o = write_once_cases [OF w]
  have whole: "r = Inr x \<Longrightarrow> F (target_path (gws_audit g) key) = None \<and> int (length ?raw) \<le> wf_max (gws_audit g)" for x
    using w by (cases fault) (auto simp: write_once_def Let_def split: if_splits)
  consider (unencodable) "cs = []" "g' = g\<lparr>gws_failed := True\<rparr>" "\<not> ok"
    | (failed) e where "r = Inl e" "cs = ds" "g' = g\<lparr>gws_audit := w, gws_failed := True\<rparr>" "\<not> ok"
    | (written) b m h where "r = Inr (b, m, h)" "cs = ds" "g' = g\<lparr>gws_audit := w\<rparr>" "ok"
    using assms w by (cases r) (auto simp: write_audit_def ws_canonical_def res_bind_def ensure_def split: if_splits)
  note c = this
  show "cs = [(target_path (gws_audit g) key, ?raw)] \<and> F (target_path (gws_audit g) key) = None
      \<and> int (length ?raw) \<le> wf_max (gws_audit g)" if ok
    using c that whole o(2) by cases auto
  show "cs = [] \<or> F (target_path (gws_audit g) key) = None \<and> (\<exists>k. cs = [(target_path (gws_audit g) key, take k ?raw)])"
    using c o(1) by cases auto
  show "workspace_ok g'" if "workspace_ok g"
    using c that o(3) by cases (auto simp: workspace_ok_def Let_def)
  show "g' = g\<lparr>gws_audit := gws_audit g', gws_failed := gws_failed g'\<rparr>"
    using c by cases simp_all
  show "gws_failed g' = (\<not> ok \<or> gws_failed g)" using c by cases auto
qed

text \<open>Fields of a result: \<open>obj_get\<close> after \<open>dict_set\<close>.\<close>

lemma obj_get_dict_set: "obj_get (dict_set d k v) k' = (if k' = k then Some v else obj_get d k')"
  by (induction d k v rule: dict_set.induct) (auto simp: obj_get_def)

lemma obj_get_dict_update:
  "obj_get (dict_update d kvs) k = (case obj_get (rev kvs) k of None \<Rightarrow> obj_get d k | Some v \<Rightarrow> Some v)"
proof (induction kvs arbitrary: d)
  case Nil
  then show ?case by (simp add: dict_update_def obj_get_def)
next
  case (Cons x kvs)
  obtain k1 v1 where x: "x = (k1, v1)" by (cases x)
  have "dict_update d (x # kvs) = dict_update (dict_set d k1 v1) kvs" by (simp add: dict_update_def x)
  with Cons.IH [of "dict_set d k1 v1"] show ?case
    by (auto simp: x obj_get_dict_set [unfolded obj_get_def] obj_get_def map_add_def split: option.splits)
qed

lemma judge_proposal_cases:
  assumes "judge_proposal C env g n proposal = (result, writable)"
  shows "obj_get result ''applied'' = Some (JBool False)" "obj_get result ''receipt_complete'' = Some (JBool False)"
    and "writable = Some (a, t) \<Longrightarrow> \<exists>d. proposal_content C (gws_policy g) proposal = Inr (a, t)
      \<and> decide_text C (gws_policy g) a t (call_name (gws_session g) n) (gws_session g) (se_now env) = Inr d
      \<and> gd_disposition d = Allow \<and> result = dict_update (first_result C g n proposal) (judged_members C a t d)"
proof -
  have f: "obj_get (first_result C g n proposal) ''applied'' = Some (JBool False)"
    "obj_get (first_result C g n proposal) ''receipt_complete'' = Some (JBool False)"
    by (simp_all add: first_result_def obj_get_def)
  have j: "obj_get (rev (judged_members C a t d)) ''applied'' = None" "obj_get (rev (judged_members C a t d)) ''receipt_complete'' = None"
    for a t d by (simp_all add: judged_members_def obj_get_def)
  show "obj_get result ''applied'' = Some (JBool False)" "obj_get result ''receipt_complete'' = Some (JBool False)"
    using assms f j by (auto simp: judge_proposal_def Let_def obj_get_dict_update split: sum.splits prod.splits)
  show "writable = Some (a, t) \<Longrightarrow> \<exists>d. proposal_content C (gws_policy g) proposal = Inr (a, t)
      \<and> decide_text C (gws_policy g) a t (call_name (gws_session g) n) (gws_session g) (se_now env) = Inr d
      \<and> gd_disposition d = Allow \<and> result = dict_update (first_result C g n proposal) (judged_members C a t d)"
    using assms by (auto simp: judge_proposal_def Let_def split: sum.splits prod.splits if_splits)
qed

lemma write_once_target:
  assumes "write_once C w a content F fault = (w', cs, r)" "cs \<noteq> []"
  shows "a \<in> fst ` set (wf_targets w)" "int (length content) \<le> wf_max w"
  using assms by (auto simp: write_once_def split: if_splits)

lemma perform_write_cases:
  assumes "perform_write C env g a t F result = (g', cs, result2)"
  shows "cs = [] \<or> F (target_path (gws_files g) a) = None \<and> a \<in> fst ` set (wf_targets (gws_files g))
      \<and> int (length t) \<le> wf_max (gws_files g) \<and> (\<exists>k. cs = [(target_path (gws_files g) a, take k t)])"
    and "obj_get result2 ''applied'' \<noteq> obj_get result ''applied'' \<Longrightarrow> cs = [(target_path (gws_files g) a, t)]
      \<and> gws_failed g' = gws_failed g \<and> result2 = dict_update result [(''applied'', JBool True), (''effect'', JStr ''created''),
          (''reason'', JStr ''write_completed''), (''output_sha256'', JStr (sha256_hex C t))]"
    and "obj_get result2 ''receipt_complete'' = obj_get result ''receipt_complete''"
    and "g' = g\<lparr>gws_files := gws_files g', gws_failed := gws_failed g'\<rparr>" "workspace_ok g \<Longrightarrow> workspace_ok g'"
proof -
  obtain w ds r where w: "write_once C (gws_files g) a t F (se_output env) = (w, ds, r)"
    by (cases "write_once C (gws_files g) a t F (se_output env)") auto
  note o = write_once_cases [OF w] and tgt = write_once_target [OF w]
  let ?done = "[(''applied'', JBool True), (''effect'', JStr ''created''), (''reason'', JStr ''write_completed''),
    (''output_sha256'', JStr (sha256_hex C t))]"
  consider (bad) x where "cs = ds" "g' = g\<lparr>gws_files := w, gws_failed := True\<rparr>"
      "result2 = dict_update result [(''reason'', JStr x), (''effect'', JStr ''none'')]
       \<or> result2 = dict_update result [(''reason'', JStr x), (''effect'', JStr ''unknown_inspect_output'')]"
    | (written) b m h where "r = Inr (b, m, h)" "cs = ds" "g' = g\<lparr>gws_files := w\<rparr>" "result2 = dict_update result ?done"
  proof (cases r)
    case (Inl e)
    with assms w bad show ?thesis by (cases e) (auto simp: perform_write_def)
  next
    case (Inr x)
    obtain b m h where x: "x = (b, m, h)" by (cases x)
    have "h = sha256_hex C t" using o(2) Inr x by blast
    with assms w Inr x bad written show ?thesis by (auto simp: perform_write_def split: if_splits)
  qed
  note c = this
  show "cs = [] \<or> F (target_path (gws_files g) a) = None \<and> a \<in> fst ` set (wf_targets (gws_files g))
      \<and> int (length t) \<le> wf_max (gws_files g) \<and> (\<exists>k. cs = [(target_path (gws_files g) a, take k t)])"
    using c o(1) tgt by cases auto
  show "cs = [(target_path (gws_files g) a, t)] \<and> gws_failed g' = gws_failed g \<and> result2 = dict_update result ?done"
    if "obj_get result2 ''applied'' \<noteq> obj_get result ''applied''"
    using c that o(2) by cases (auto simp: obj_get_dict_update obj_get_def [of "[_, _]"])
  show "obj_get result2 ''receipt_complete'' = obj_get result ''receipt_complete''"
    using c by cases (auto simp: obj_get_dict_update obj_get_def [of "_ # _"])
  show "g' = g\<lparr>gws_files := gws_files g', gws_failed := gws_failed g'\<rparr>"
    using c by cases simp_all
  show "workspace_ok g'" if "workspace_ok g"
    using c that o(3) by cases (auto simp: workspace_ok_def Let_def)
qed

text \<open>The effect and the result file.\<close>

lemma effect_stage_cases:
  assumes "effect_stage C env g writable F result = (g', cs, result2)" "obj_get result ''applied'' = Some (JBool False)"
  shows "cs = [] \<or> (\<exists>a t k. writable = Some (a, t) \<and> F (target_path (gws_files g) a) = None
      \<and> a \<in> fst ` set (wf_targets (gws_files g)) \<and> int (length t) \<le> wf_max (gws_files g)
      \<and> cs = [(target_path (gws_files g) a, take k t)])"
    and "obj_get result2 ''applied'' = Some (JBool False) \<or> (\<exists>a t. writable = Some (a, t)
      \<and> cs = [(target_path (gws_files g) a, t)] \<and> gws_failed g' = gws_failed g
      \<and> result2 = dict_update result [(''applied'', JBool True), (''effect'', JStr ''created''),
          (''reason'', JStr ''write_completed''), (''output_sha256'', JStr (sha256_hex C t))])"
    and "obj_get result2 ''receipt_complete'' = obj_get result ''receipt_complete''"
    and "g' = g\<lparr>gws_files := gws_files g', gws_failed := gws_failed g'\<rparr>" "workspace_ok g \<Longrightarrow> workspace_ok g'"
proof -
  consider (idle) "cs = []" "g' = g" "result2 = result \<or> result2 = dict_set result ''reason'' (JStr ''source_expired'')"
    | (perform) a t where "writable = Some (a, t)" "perform_write C env g a t F result = (g', cs, result2)"
    using assms(1) by (auto simp: effect_stage_def split: option.splits if_splits)
  note c = this
  show "cs = [] \<or> (\<exists>a t k. writable = Some (a, t) \<and> F (target_path (gws_files g) a) = None
      \<and> a \<in> fst ` set (wf_targets (gws_files g)) \<and> int (length t) \<le> wf_max (gws_files g)
      \<and> cs = [(target_path (gws_files g) a, take k t)])"
    using c
  proof cases
    case (perform a t)
    with perform_write_cases(1) [OF perform(2)] show ?thesis by blast
  qed simp
  show "obj_get result2 ''applied'' = Some (JBool False) \<or> (\<exists>a t. writable = Some (a, t)
      \<and> cs = [(target_path (gws_files g) a, t)] \<and> gws_failed g' = gws_failed g
      \<and> result2 = dict_update result [(''applied'', JBool True), (''effect'', JStr ''created''),
          (''reason'', JStr ''write_completed''), (''output_sha256'', JStr (sha256_hex C t))])"
    using c
  proof cases
    case (perform a t)
    with perform_write_cases(2) [OF perform(2)] assms(2) show ?thesis by metis
  qed (use assms(2) in \<open>auto simp: obj_get_dict_set\<close>)
  show "obj_get result2 ''receipt_complete'' = obj_get result ''receipt_complete''"
    using c by cases (auto simp: obj_get_dict_set dest: perform_write_cases(3))
  show "g' = g\<lparr>gws_files := gws_files g', gws_failed := gws_failed g'\<rparr>"
    using c by cases (simp, metis perform_write_cases(4))
  show "workspace_ok g'" if "workspace_ok g"
    using c that by cases (auto dest: perform_write_cases(5))
qed

definition final_members :: "(string \<times> json) list \<Rightarrow> string \<Rightarrow> (string \<times> json) list" where
  "final_members result name = dict_update result [(''receipt_complete'', JBool True), (''receipt'', JStr name)]"

lemma result_stage_cases:
  assumes "result_stage C env g n F result = (g', cs, result2)"
  defines "name \<equiv> the (map_of (gws_audit_names g) (audit_key ''result'' n))"
    and "path \<equiv> target_path (gws_audit g) (audit_key ''result'' n)"
  shows "cs = [] \<or> F path = None \<and> (\<exists>k. cs = [(path, take k (ws_json C (JObj (final_members result name)) @ [CHR 0x0A]))])"
    and "obj_get result2 ''receipt_complete'' = Some (JBool True) \<Longrightarrow> result2 = final_members result name
      \<and> cs = [(path, ws_json C (JObj (final_members result name)) @ [CHR 0x0A])]
      \<and> int (length (ws_json C (JObj (final_members result name)) @ [CHR 0x0A])) \<le> wf_max (gws_audit g)
      \<and> gws_failed g' = gws_failed g"
    and "obj_get result2 ''applied'' = obj_get result ''applied''"
    and "g' = g\<lparr>gws_audit := gws_audit g', gws_failed := gws_failed g'\<rparr>" "workspace_ok g \<Longrightarrow> workspace_ok g'"
    and "obj_get result ''output_sha256'' = obj_get result2 ''output_sha256''"
proof -
  let ?f = "final_members result name"
  obtain ok where w: "write_audit C g (audit_key ''result'' n) (JObj ?f) F (se_result env) = (g', cs, ok)"
    and r: "result2 = (if ok then ?f else dict_update ?f [(''reason'', JStr ''result_storage_unavailable''), (''receipt_complete'', JBool False)])"
    using assms(1) by (auto simp: result_stage_def Let_def final_members_def name_def split: prod.splits bool.splits)
  note o = write_audit_cases [OF w, folded path_def]
  show "cs = [] \<or> F path = None \<and> (\<exists>k. cs = [(path, take k (ws_json C (JObj ?f) @ [CHR 0x0A]))])" by (rule o(2))
  have ok: ok if "obj_get result2 ''receipt_complete'' = Some (JBool True)"
    using that r by (auto simp: obj_get_dict_update obj_get_def [of "_ # _"] split: if_splits)
  show "result2 = ?f \<and> cs = [(path, ws_json C (JObj ?f) @ [CHR 0x0A])]
      \<and> int (length (ws_json C (JObj ?f) @ [CHR 0x0A])) \<le> wf_max (gws_audit g) \<and> gws_failed g' = gws_failed g"
    if "obj_get result2 ''receipt_complete'' = Some (JBool True)"
    using o(1,5) ok [OF that] r by simp
  show "obj_get result2 ''applied'' = obj_get result ''applied''" "obj_get result ''output_sha256'' = obj_get result2 ''output_sha256''"
    using r by (auto simp: final_members_def obj_get_dict_update obj_get_def [of "_ # _"])
  show "g' = g\<lparr>gws_audit := gws_audit g', gws_failed := gws_failed g'\<rparr>" "workspace_ok g \<Longrightarrow> workspace_ok g'"
    by (rule o(4), rule o(3))
qed

section \<open>A whole call\<close>

definition intent_members :: "(string \<times> json) list \<Rightarrow> (string \<times> string) option \<Rightarrow> (string \<times> json) list" where
  "intent_members result writable = dict_update result [(''phase'', JStr ''intent''), (''write_authorized'', JBool (writable \<noteq> None))]"

definition next_call :: "guarded_workspace \<Rightarrow> nat" where
  "next_call g = nat (gws_attempts g + 1)"

text \<open>The intent's file holds at most its document; nothing else appears before it is complete.\<close>

lemma audit_target_path:
  assumes "workspace_ok g" "1 \<le> n" "int n \<le> wp_max_proposals (gws_opened_policy g)" "phase = ''intent'' \<or> phase = ''result''"
  shows "target_path (gws_audit g) (audit_key phase n) = audit_path (gws_opened_policy g) (gws_opened_session g) n phase"
    "the (map_of (gws_audit_names g) (audit_key phase n)) = audit_file (gws_opened_session g) n phase"
  using assms audit_targets_lookup [of n "nat (wp_max_proposals (gws_opened_policy g))" phase "gws_opened_session g"]
  by (simp_all add: workspace_ok_def Let_def target_path_def audit_path_def nat_le_iff le_nat_iff)

definition intent_text :: "codec \<Rightarrow> (string \<times> json) list \<Rightarrow> (string \<times> string) option \<Rightarrow> string" where
  "intent_text C result writable = ws_json C (JObj (intent_members result writable)) @ [CHR 0x0A]"

lemma identity_policy: "workspace_ok g \<Longrightarrow> identity_matches C g \<Longrightarrow> gws_policy g = gws_opened_policy g \<and> gws_session g = gws_opened_session g"
  by (simp add: workspace_ok_def identity_matches_def Let_def)

lemma judge_attempts: "judge_proposal C env (g\<lparr>gws_attempts := k\<rparr>) n proposal = judge_proposal C env g n proposal"
proof -
  have keep: "gws_policy (g\<lparr>gws_attempts := k\<rparr>) = gws_policy g" "gws_session (g\<lparr>gws_attempts := k\<rparr>) = gws_session g" by simp_all
  show ?thesis unfolding judge_proposal_def first_result_def keep by (rule refl)
qed

text \<open>What a stage leaves alone.\<close>

lemma stage_keeps:
  "g' = g\<lparr>gws_audit := a, gws_failed := f\<rparr> \<Longrightarrow> gws_opened_policy g' = gws_opened_policy g \<and> gws_files g' = gws_files g
     \<and> gws_opened_session g' = gws_opened_session g \<and> gws_attempts g' = gws_attempts g \<and> gws_audit_names g' = gws_audit_names g"
  "g' = g\<lparr>gws_files := w, gws_failed := f\<rparr> \<Longrightarrow> gws_opened_policy g' = gws_opened_policy g \<and> gws_audit g' = gws_audit g
     \<and> gws_opened_session g' = gws_opened_session g \<and> gws_attempts g' = gws_attempts g \<and> gws_audit_names g' = gws_audit_names g"
  by simp_all

text \<open>
  The shape of a call: refused without a trace; stopped while its intent is stored; or intent, effect and
  result in this order.
\<close>

lemma ws_submit_cases:
  assumes "ws_submit C env g F proposal = (g', cs, r)" "workspace_ok g"
  defines "p \<equiv> gws_opened_policy g" and "session \<equiv> gws_opened_session g" and "n \<equiv> next_call g"
  obtains (refused) reason where "cs = []" "r = refused_result reason" "workspace_ok g'" "gws_opened_policy g' = p"
      "gws_opened_session g' = session" "gws_attempts g' = gws_attempts g"
    | (stopped) result writable where "judge_proposal C env g n proposal = (result, writable)"
      "cs = [] \<or> F (audit_path p session n ''intent'') = None
        \<and> (\<exists>k. cs = [(audit_path p session n ''intent'', take k (intent_text C result writable))])"
      "r = dict_set result ''reason'' (JStr ''intent_storage_unavailable'')" "workspace_ok g'" "gws_opened_policy g' = p"
      "gws_opened_session g' = session" "gws_attempts g' = gws_attempts g + 1" "gws_failed g'"
    | (traced) result writable g1 g2 cs2 cs3 result2 where "judge_proposal C env g n proposal = (result, writable)"
      "cs = (audit_path p session n ''intent'', intent_text C result writable) # cs2 @ cs3"
      "F (audit_path p session n ''intent'') = None" "int (length (intent_text C result writable)) \<le> 16384"
      "effect_stage C env g1 writable (create F (audit_path p session n ''intent'', intent_text C result writable)) result
        = (g2, cs2, result2)"
      "result_stage C env g2 n (create_all F ((audit_path p session n ''intent'', intent_text C result writable) # cs2)) result2
        = (g', cs3, r)"
      "workspace_ok g1" "workspace_ok g2" "workspace_ok g'" "gws_files g1 = gws_files g" "gws_policy g = p" "gws_session g = session"
      "gws_opened_policy g2 = p" "gws_opened_session g2 = session" "gws_opened_policy g' = p" "gws_opened_session g' = session"
      "gws_attempts g' = gws_attempts g + 1" "gws_attempts g < wp_max_proposals p"
proof (cases "gws_closed g \<or> gws_failed g \<or> \<not> identity_matches C g \<or> gws_attempts g \<ge> wp_max_proposals (gws_policy g)")
  case True
  with assms(1,2) have "cs = [] \<and> (\<exists>reason. r = refused_result reason) \<and> workspace_ok g' \<and> gws_opened_policy g' = p
      \<and> gws_opened_session g' = session \<and> gws_attempts g' = gws_attempts g"
    by (auto simp: ws_submit_def workspace_ok_def p_def session_def Let_def split: if_splits)
  with refused show ?thesis by blast
next
  case False
  with assms(2) have id: "gws_policy g = p" "gws_session g = session" using identity_policy by (auto simp: p_def session_def)
  let ?g0 = "g\<lparr>gws_attempts := gws_attempts g + 1\<rparr>"
  have n: "1 \<le> n" "int n \<le> wp_max_proposals p" "0 \<le> gws_attempts g"
    using False assms(2) id by (auto simp: n_def next_call_def workspace_ok_def Let_def)
  have ok0: "workspace_ok ?g0" using assms(2) n False id by (auto simp: workspace_ok_def Let_def p_def)
  obtain result writable where j: "judge_proposal C env g n proposal = (result, writable)"
    by (cases "judge_proposal C env g n proposal") auto
  obtain g1 cs1 ok where w: "write_audit C ?g0 (audit_key ''intent'' n) (JObj (intent_members result writable)) F (se_intent env)
      = (g1, cs1, ok)" by (metis prod_cases3)
  have path: "target_path (gws_audit ?g0) (audit_key ''intent'' n) = audit_path p session n ''intent''"
    using audit_target_path(1) [OF ok0 n(1)] n(2) by (simp add: p_def session_def)
  note o = write_audit_cases [OF w, unfolded path, folded intent_text_def]
  have max: "wf_max (gws_audit ?g0) = 16384" using ok0 by (simp add: workspace_ok_def Let_def)
  have keep: "gws_opened_policy g1 = p" "gws_opened_session g1 = session" "gws_attempts g1 = gws_attempts g + 1"
    "gws_files g1 = gws_files g"
    using stage_keeps(1) [OF o(4)] by (simp_all add: p_def session_def)
  have unfold: "ws_submit C env g F proposal = (case (g1, cs1, ok) of
      (g1, cs1, False) \<Rightarrow> (g1, cs1, dict_set result ''reason'' (JStr ''intent_storage_unavailable''))
    | (g1, cs1, True) \<Rightarrow>
        (case effect_stage C env g1 writable (create_all F cs1) result of
           (g2, cs2, result2) \<Rightarrow>
             (case result_stage C env g2 n (create_all F (cs1 @ cs2)) result2 of (g3, cs3, result3) \<Rightarrow> (g3, cs1 @ cs2 @ cs3, result3))))"
    using False w j judge_attempts [where k = "gws_attempts g + 1"]
    by (simp add: ws_submit_def Let_def intent_members_def n_def next_call_def)
  show ?thesis
  proof (cases ok)
    case False
    with unfold assms(1) have "g' = g1" "cs = cs1" "r = dict_set result ''reason'' (JStr ''intent_storage_unavailable'')" by simp_all
    with stopped [OF j] o(2,3,5) ok0 keep False show ?thesis by simp
  next
    case True
    obtain g2 cs2 result2 where e: "effect_stage C env g1 writable (create_all F cs1) result = (g2, cs2, result2)"
      by (metis prod_cases3)
    with unfold assms(1) True have r: "result_stage C env g2 n (create_all F (cs1 @ cs2)) result2 = (g', drop (length (cs1 @ cs2)) cs, r)"
      and cs: "cs = cs1 @ cs2 @ drop (length (cs1 @ cs2)) cs"
      by (auto split: prod.splits)
    from o(1) True max have cs1: "cs1 = [(audit_path p session n ''intent'', intent_text C result writable)]"
      "F (audit_path p session n ''intent'') = None" "int (length (intent_text C result writable)) \<le> 16384" by simp_all
    have ap: "obj_get result ''applied'' = Some (JBool False)" by (rule judge_proposal_cases(1) [OF j])
    note ec = effect_stage_cases [OF e ap] and rc = result_stage_cases [OF r]
    have ok1: "workspace_ok g1" by (rule o(3) [OF ok0])
    then have ok2: "workspace_ok g2" "workspace_ok g'" using ec(5) rc(5) by auto
    have keep2: "gws_opened_policy g2 = p" "gws_opened_session g2 = session" "gws_attempts g2 = gws_attempts g + 1"
      using stage_keeps(2) [OF ec(4)] keep by simp_all
    have keep3: "gws_opened_policy g' = p" "gws_opened_session g' = session" "gws_attempts g' = gws_attempts g + 1"
      using stage_keeps(1) [OF rc(4)] keep2 by simp_all
    show ?thesis
      by (rule traced [OF j _ cs1(2,3) _ _ ok1 ok2 keep(4) id keep2(1,2) keep3])
        (use cs cs1(1) e r n in \<open>simp_all add: n_def next_call_def\<close>)
  qed
qed

end
