(* ===== verification/Json_Size.thy ===== *)
theory Json_Size
  imports Json_Default "HOL-Library.Multiset"
begin

text \<open>
  Canonical documents as their readers meet them: how a field is found again after the keys have been
  sorted, and an upper bound of the length of a rendering that needs no rendering to compute.
\<close>

section \<open>Fields of sorted documents\<close>

definition sorted_members :: "(string \<times> json) list \<Rightarrow> (string \<times> json) list" where
  "sorted_members kvs = sort_key fst (map (\<lambda>(k, v). (k, sort_keys v)) kvs)"

lemma sort_keys_obj: "sort_keys (JObj kvs) = JObj (sorted_members kvs)"
  by (simp add: sorted_members_def)

lemma sorted_members_keys:
  "distinct (map fst (sorted_members kvs)) \<longleftrightarrow> distinct (map fst kvs)" "obj_keys (sorted_members kvs) = obj_keys kvs"
proof -
  have d: "distinct (map fst (sort_key fst xs)) \<longleftrightarrow> distinct (map fst xs)" for xs :: "(string \<times> json) list"
    by (simp only: distinct_map distinct_sort set_sort)
  show "distinct (map fst (sorted_members kvs)) \<longleftrightarrow> distinct (map fst kvs)"
    unfolding sorted_members_def d map_fst_sort_keys by (rule refl)
  show "obj_keys (sorted_members kvs) = obj_keys kvs"
    by (force simp: sorted_members_def obj_keys_def)
qed

lemma obj_get_sorted:
  assumes "distinct (map fst kvs)"
  shows "obj_get (sorted_members kvs) k = map_option sort_keys (obj_get kvs k)"
proof (cases "obj_get kvs k")
  case None
  then have "k \<notin> obj_keys (sorted_members kvs)"
    unfolding sorted_members_keys(2) by (auto simp: obj_get_def obj_keys_def map_of_eq_None_iff)
  then have "obj_get (sorted_members kvs) k = None"
    unfolding obj_get_def obj_keys_def by (simp only: map_of_eq_None_iff not_False_eq_True)
  then show ?thesis using None by simp
next
  case (Some v)
  then have "(k, v) \<in> set kvs" by (auto simp: obj_get_def dest: map_of_SomeD)
  then have "(k, sort_keys v) \<in> set (sorted_members kvs)" by (force simp: sorted_members_def)
  with assms Some show ?thesis by (simp add: obj_get_def sorted_members_keys)
qed

section \<open>Sizes\<close>

lemma esc_cp_length: "n < 128 \<Longrightarrow> length (esc_cp n) \<le> 6"
  by (auto simp: esc_cp_def u_escape_def split: option.split)

lemma render_ascii_length: "is_ascii s \<Longrightarrow> length (render_str True s) \<le> 6 * length s + 2"
proof -
  assume a: "is_ascii s"
  then have "length (concat (map esc_cp (map ord s))) \<le> 6 * length s"
  proof (induction s)
    case (Cons c s)
    then show ?case using esc_cp_length [of "ord c"] by simp
  qed simp
  with a show ?thesis by (simp add: render_str_def code_points_ascii)
qed

lemma render_str_bound: "str_ok asc s \<Longrightarrow> length (render_str asc s) \<le> 6 * length s + 2"
  using render_ascii_length render_str_length by (cases asc) (simp_all add: str_ok_def)

text \<open>Float-free values with integers of at most 64 bits, whose strings are rendered as they are or are ASCII.\<close>

fun sized_json :: "bool \<Rightarrow> json \<Rightarrow> bool" where
  "sized_json asc (JInt i) \<longleftrightarrow> \<bar>i\<bar> \<le> 2 ^ 63 - 1"
| "sized_json asc (JFloat x) \<longleftrightarrow> False"
| "sized_json asc (JStr s) \<longleftrightarrow> str_ok asc s"
| "sized_json asc (JArr vs) \<longleftrightarrow> list_all (sized_json asc) vs"
| "sized_json asc (JObj kvs) \<longleftrightarrow> list_all (\<lambda>(k, v). str_ok asc k \<and> sized_json asc v) kvs"
| "sized_json asc _ \<longleftrightarrow> True"

text \<open>An upper bound of the length of a rendering that sorting keeps.\<close>

fun json_weight :: "json \<Rightarrow> nat" where
  "json_weight (JInt i) = 21"
| "json_weight (JStr s) = 6 * length s + 2"
| "json_weight (JArr vs) = 2 + sum_list (map (\<lambda>v. json_weight v + 1) vs)"
| "json_weight (JObj kvs) = 2 + sum_list (map (\<lambda>(k, v). 6 * length k + json_weight v + 4) kvs)"
| "json_weight _ = 5"

lemma join_length: "length (join '','' xs) \<le> sum_list (map (\<lambda>x. length x + 1) xs)"
proof (induction xs)
  case (Cons x xs)
  then show ?case by (cases xs) auto
qed simp

lemma sized_render_length: "sized_json asc v \<Longrightarrow> length (render fr asc v) \<le> json_weight v"
proof (induction v)
  case (JArr vs)
  have "sum_list (map (\<lambda>x. length x + 1) (map (render fr asc) vs)) \<le> sum_list (map (\<lambda>v. json_weight v + 1) vs)"
    unfolding map_map by (rule sum_list_mono) (use JArr in \<open>auto simp: list_all_iff\<close>)
  with join_length [of "map (render fr asc) vs"] show ?case by simp
next
  case (JObj kvs)
  let ?t = "\<lambda>(k, v). render_str asc k @ '':'' @ render fr asc v"
  have le: "length (?t kv) + 1 \<le> (case kv of (k, v) \<Rightarrow> 6 * length k + json_weight v + 4)" if "kv \<in> set kvs" for kv
  proof -
    obtain k v where kv: "kv = (k, v)" by (cases kv)
    with that JObj have "length (render fr asc v) \<le> json_weight v" "str_ok asc k" by (auto simp: list_all_iff)
    with render_str_bound [of asc k] show ?thesis by (simp add: kv)
  qed
  have "sum_list (map (\<lambda>x. length x + 1) (map ?t kvs)) \<le> sum_list (map (\<lambda>(k, v). 6 * length k + json_weight v + 4) kvs)"
    unfolding map_map by (rule sum_list_mono) (use le in simp)
  with join_length [of "map ?t kvs"] show ?case by simp
next
  case (JInt i)
  have "length (nat_digits (nat j)) \<le> Suc 19" if "j \<le> 2 ^ 63" for j :: int
    by (rule nat_digits_length) (use that in simp)
  from this [of i] this [of "- i"] JInt show ?case by (auto simp: int_repr_def)
next
  case (JStr s)
  then show ?case using render_str_bound by simp
qed simp_all

lemma json_weight_sort: "json_weight (sort_keys v) = json_weight v"
proof (induction v)
  case (JArr vs)
  have "map (\<lambda>v. json_weight (sort_keys v) + 1) vs = map (\<lambda>v. json_weight v + 1) vs"
    using JArr by (intro map_cong) auto
  then show ?case by (simp only: sort_keys.simps json_weight.simps map_map comp_def)
next
  case (JObj kvs)
  let ?w = "\<lambda>(k, v). 6 * length k + json_weight v + 4" and ?m = "map (\<lambda>(k, v). (k, sort_keys v)) kvs"
  have "sum_list (map ?w (sort_key fst ?m)) = sum_mset (image_mset ?w (mset (sort_key fst ?m)))"
    by (simp only: sum_mset_sum_list [symmetric] mset_map)
  also have "\<dots> = sum_list (map ?w ?m)"
    by (simp only: mset_sort sum_mset_sum_list [symmetric] mset_map)
  also have "\<dots> = sum_list (map ?w kvs)"
    unfolding map_map by (rule arg_cong [where f = sum_list], rule map_cong [OF refl]) (use JObj in auto)
  finally show ?case by simp
qed simp_all

lemma sized_sort: "sized_json asc v \<Longrightarrow> sized_json asc (sort_keys v)"
proof (induction v)
  case (JArr vs)
  then show ?case by (auto simp: list_all_iff)
next
  case (JObj kvs)
  then show ?case by (fastforce simp: list_all_iff)
qed simp_all

lemma sized_dumps_length: "sized_json asc v \<Longrightarrow> length (dumps fr asc v) \<le> json_weight v"
  using sized_render_length [OF sized_sort, of asc v fr] by (simp add: dumps_def json_weight_sort)

end
