(* ===== verification/Wire_Roundtrip.thy ===== *)
theory Wire_Roundtrip
  imports Wire_Json Json_Size
begin

text \<open>
  What the strict reader accepts: the canonical rendering of a shallow, float-free document, with or without
  a line feed behind it, as long as it keeps the byte limit.
\<close>

section \<open>Depth\<close>

fun json_nesting :: "json \<Rightarrow> nat" where
  "json_nesting (JArr vs) = Suc (foldr max (map json_nesting vs) 0)"
| "json_nesting (JObj kvs) = Suc (foldr max (map (\<lambda>(k, v). json_nesting v) kvs) 0)"
| "json_nesting _ = 0"

lemma foldr_max_iff: "foldr max xs (0 :: nat) \<le> n \<longleftrightarrow> (\<forall>x \<in> set xs. x \<le> n)"
  by (induction xs) auto

text \<open>A scan that goes over \<open>s\<close> at any depth up to 12 and comes back to where it was.\<close>

definition passes :: "nat \<Rightarrow> string \<Rightarrow> bool" where
  "passes n s \<longleftrightarrow> (\<forall>d r. d + int n \<le> 12 \<longrightarrow> depth_bounded False False d (s @ r) = depth_bounded False False d r)"

lemma passesD: "passes n s \<Longrightarrow> d + int n \<le> 12 \<Longrightarrow> depth_bounded False False d (s @ r) = depth_bounded False False d r"
  by (simp add: passes_def)

lemma passes_Nil [simp]: "passes n []"
  by (simp add: passes_def)

lemma passes_append: "passes n s \<Longrightarrow> passes n t \<Longrightarrow> passes n (s @ t)"
  by (simp add: passes_def)

lemma passes_mono: "passes m s \<Longrightarrow> m \<le> n \<Longrightarrow> passes n s"
  by (auto simp: passes_def)

definition flat_char :: "char \<Rightarrow> bool" where
  "flat_char c \<longleftrightarrow> ord c \<notin> {34, 91, 93, 123, 125}"

lemma passes_flat: "list_all flat_char s \<Longrightarrow> passes n s"
  by (induction s) (auto simp: passes_def flat_char_def)

lemma quoted_esc:
  "depth_bounded True False d (esc_byte c @ r) = depth_bounded True False d r"
proof (cases "short_escape (ord c)")
  case (Some e)
  then show ?thesis by (simp add: esc_byte_def)
next
  case None
  then have n: "ord c \<noteq> 34" "ord c \<noteq> 92" by (auto simp: short_escape_def)
  have hex: "ord (hex_digit k) \<noteq> 34 \<and> ord (hex_digit k) \<noteq> 92" if "k < 16" for k
    using that by (simp add: hex_digit_def)
  have u: "depth_bounded True False d (u_escape k @ r) = depth_bounded True False d r" for k
    using hex [of "k div 4096 mod 16"] hex [of "k div 256 mod 16"] hex [of "k div 16 mod 16"] hex [of "k mod 16"]
    by (simp add: u_escape_def)
  show ?thesis using None n u by (simp add: esc_byte_def)
qed

lemma quoted_escapes:
  "depth_bounded True False d (concat (map esc_byte s) @ r) = depth_bounded True False d r"
  by (induction s) (simp_all add: quoted_esc)

lemma passes_str: "passes n (render_str False s)"
  unfolding passes_def render_str_def using quoted_escapes by simp

lemma passes_join: "(\<And>x. x \<in> set xs \<Longrightarrow> passes n x) \<Longrightarrow> passes n (join '','' xs)"
proof (induction xs)
  case (Cons x xs)
  have comma: "passes n '',''" by (rule passes_flat) (simp add: flat_char_def)
  show ?case
  proof (cases xs)
    case Nil
    with Cons.prems show ?thesis by simp
  next
    case (Cons y ys)
    have "passes n (x @ '','' @ join '','' xs)"
      by (intro passes_append comma) (use Cons.prems Cons.IH Cons in auto)
    with Cons show ?thesis by simp
  qed
qed simp

lemma passes_bracket:
  assumes "passes n s" "ord a = 91 \<or> ord a = 123" "ord b = 93 \<or> ord b = 125"
  shows "passes (Suc n) (a # s @ [b])"
  unfolding passes_def
proof (intro allI impI)
  fix d r assume d: "d + int (Suc n) \<le> 12"
  then have s: "depth_bounded False False (d + 1) (s @ t) = depth_bounded False False (d + 1) t" for t
    using assms(1) by (intro passesD) auto
  have b: "depth_bounded False False (d + 1) (b # r) = depth_bounded False False d r"
    using assms(3) by (auto simp: Let_def)
  have "depth_bounded False False d (a # s @ b # r) = depth_bounded False False (d + 1) (s @ b # r)"
    using assms(2) d by (auto simp: Let_def)
  with s b show "depth_bounded False False d ((a # s @ [b]) @ r) = depth_bounded False False d r" by simp
qed

lemma int_repr_flat: "list_all flat_char (int_repr i)"
proof -
  have "list_all flat_char (nat_digits n)" for n
    using nat_digits_all_digits [of n] by (auto simp: list_all_iff is_digit_def flat_char_def)
  then show ?thesis by (simp add: int_repr_def flat_char_def)
qed

lemma passes_render: "wire_safe v \<Longrightarrow> json_nesting v \<le> n \<Longrightarrow> passes n (render fr False v)"
proof (induction v arbitrary: n)
  case (JArr vs)
  then obtain m where n: "n = Suc m" by (cases n) auto
  have "passes m (join '','' (map (render fr False) vs))"
  proof (rule passes_join)
    fix x assume "x \<in> set (map (render fr False) vs)"
    then obtain v where v: "v \<in> set vs" "x = render fr False v" by auto
    with JArr.prems n have "wire_safe v" "json_nesting v \<le> m" by (auto simp: list_all_iff foldr_max_iff)
    with JArr.IH v show "passes m x" by blast
  qed
  from passes_bracket [OF this, of "CHR ''[''" "CHR '']''"] show ?case by (simp add: n)
next
  case (JObj kvs)
  then obtain m where n: "n = Suc m" by (cases n) auto
  have "passes m (join '','' (map (\<lambda>(k, v). render_str False k @ '':'' @ render fr False v) kvs))"
  proof (rule passes_join)
    fix x assume "x \<in> set (map (\<lambda>(k, v). render_str False k @ '':'' @ render fr False v) kvs)"
    then obtain k v where v: "(k, v) \<in> set kvs" "x = render_str False k @ '':'' @ render fr False v" by auto
    with JObj.prems n have "wire_safe v" "json_nesting v \<le> m" by (auto simp: list_all_iff foldr_max_iff)
    moreover have "passes m '':''" by (rule passes_flat) (simp add: flat_char_def)
    ultimately show "passes m x" unfolding v(2) using JObj.IH [OF v(1)] v(1)
      by (intro passes_append passes_str) auto
  qed
  from passes_bracket [OF this, of "CHR ''{''" "CHR ''}''"] show ?case by (simp add: n)
next
  case (JInt i)
  show ?case by (simp add: passes_flat int_repr_flat)
next
  case (JBool b)
  show ?case by (simp add: passes_flat flat_char_def)
next
  case JNull
  show ?case by (simp add: passes_flat flat_char_def)
qed (simp_all add: passes_str)

section \<open>Bytes\<close>

text \<open>Escaping keeps well-formed UTF-8 well-formed: it changes ASCII characters into ASCII characters only.\<close>

lemma utf8_next_append: "utf8_next s = Some (cp, r) \<Longrightarrow> utf8_next (s @ t) = Some (cp, r @ t)"
  by (induction s rule: utf8_next.induct) (auto simp: Let_def split: if_splits list.splits)

lemma utf8_decode_append: "utf8_decode s = Some cps \<Longrightarrow> utf8_decode (s @ t) = map_option ((@) cps) (utf8_decode t)"
proof (induction s arbitrary: cps rule: utf8_decode.induct)
  case (1 s)
  show ?case
  proof (cases "s = []")
    case True
    with 1 show ?thesis by (simp add: option.map_ident [unfolded id_def])
  next
    case False
    with "1.prems" obtain cp r ds where n: "utf8_next s = Some (cp, r)" "utf8_decode r = Some ds" "cps = cp # ds"
      by (auto simp: utf8_decode.simps [of s] split: option.splits)
    from "1.IH" [OF False n(1) refl n(2)] n False show ?thesis
      by (simp add: utf8_decode.simps [of "s @ t"] utf8_next_append [OF n(1)] option.map_comp comp_def)
  qed
qed

lemma utf8_valid_append: "utf8_valid s \<Longrightarrow> utf8_valid t \<Longrightarrow> utf8_valid (s @ t)"
  by (auto simp: utf8_valid_def utf8_decode_append split: option.splits)

lemma utf8_valid_encodable: "utf8_valid s \<Longrightarrow> encodable s"
  by (auto simp: utf8_valid_def encodable_def code_points_def split: option.splits)

lemma utf8_next_shape:
  assumes "utf8_next (c # s) = Some (cp, r)" "\<not> ord c < 128"
  shows "\<exists>t. s = t @ r \<and> list_all (\<lambda>b. \<not> ord b < 128) t \<and> utf8_next (c # t) = Some (cp, [])"
proof -
  have high: "\<not> ord b < 128" if "is_cont b" for b using that by (simp add: is_cont_def)
  consider (two) "194 \<le> ord c \<and> ord c < 224" | (three) "224 \<le> ord c \<and> ord c < 240" | (four) "240 \<le> ord c \<and> ord c < 245"
    using assms by (simp split: if_splits)
  then show ?thesis
  proof cases
    case two
    with assms obtain b where b: "s = b # r" "is_cont b" "cp = (ord c - 192) * 64 + (ord b - 128)"
      by (cases s) (auto split: if_splits)
    with two assms(2) high show ?thesis by (intro exI [of _ "[b]"]) simp
  next
    case three
    with assms obtain b d where b: "s = b # d # r" "is_cont b" "is_cont d"
      "cp = (ord c - 224) * 4096 + (ord b - 128) * 64 + (ord d - 128)" "2048 \<le> cp"
      by (cases s rule: utf8_next.cases; cases "tl s"; auto simp: Let_def split: if_splits)
    with three assms(2) high show ?thesis by (intro exI [of _ "[b, d]"]) (simp add: Let_def)
  next
    case four
    with assms obtain b d e where b: "s = b # d # e # r" "is_cont b" "is_cont d" "is_cont e"
      "cp = (ord c - 240) * 262144 + (ord b - 128) * 4096 + (ord d - 128) * 64 + (ord e - 128)" "65536 \<le> cp" "cp < 1114112"
      by (cases s; cases "tl s"; cases "tl (tl s)"; auto simp: Let_def split: if_splits)
    with four assms(2) high show ?thesis by (intro exI [of _ "[b, d, e]"]) (simp add: Let_def)
  qed
qed

lemma esc_byte_ascii: "ord c < 128 \<Longrightarrow> is_ascii (esc_byte c)"
proof -
  assume c: "ord c < 128"
  have e: "ord e < 128" if "short_escape n = Some e" for n e
    using that by (auto simp: short_escape_def split: if_splits)
  have h: "ord (hex_digit k) < 128" if "k < 16" for k
    using that by (simp add: hex_digit_def)
  show ?thesis
    using c e [of "ord c"] h by (auto simp: esc_byte_def is_ascii_def u_escape_def split: option.splits)
qed

lemma esc_byte_high: "\<not> ord c < 128 \<Longrightarrow> esc_byte c = [c]"
  by (simp add: esc_byte_def short_escape_def)

lemma utf8_valid_escapes: "utf8_valid s \<Longrightarrow> utf8_valid (concat (map esc_byte s))"
proof (induction s rule: utf8_decode.induct)
  case (1 s)
  show ?case
  proof (cases s)
    case (Cons c s')
    then have "s \<noteq> []" by simp
    with "1.prems" obtain cp r ds where n: "utf8_next s = Some (cp, r)" "utf8_decode r = Some ds" "\<not> is_surrogate cp"
      "\<not> list_ex is_surrogate ds"
      by (auto simp: utf8_valid_def utf8_decode.simps [of s] split: option.splits)
    then have r: "utf8_valid (concat (map esc_byte r))"
      using "1.IH" [OF _ n(1) refl] Cons by (simp add: utf8_valid_def)
    show ?thesis
    proof (cases "ord c < 128")
      case True
      with n(1) Cons have "r = s'" by simp
      with r Cons utf8_valid_append [OF utf8_valid_ascii [OF esc_byte_ascii [OF True]]] show ?thesis by simp
    next
      case False
      from utf8_next_shape [OF n(1) [unfolded Cons] False] obtain t where t: "s' = t @ r" "list_all (\<lambda>b. \<not> ord b < 128) t"
        "utf8_next (c # t) = Some (cp, [])" by blast
      have "concat (map esc_byte t) = t" using t(2) by (induction t) (auto simp: esc_byte_high)
      moreover have "utf8_valid (c # t)" using t(3) n(3) by (simp add: utf8_valid_def utf8_decode.simps [of "c # t"])
      ultimately show ?thesis using utf8_valid_append [of "c # t", OF _ r] esc_byte_high [OF False] by (simp add: Cons t(1))
    qed
  qed (simp add: utf8_valid_def)
qed

text \<open>Documents whose strings are well-formed; a float-free one renders to well-formed bytes.\<close>

fun json_utf8 :: "json \<Rightarrow> bool" where
  "json_utf8 (JStr s) \<longleftrightarrow> utf8_valid s"
| "json_utf8 (JArr vs) \<longleftrightarrow> list_all json_utf8 vs"
| "json_utf8 (JObj kvs) \<longleftrightarrow> list_all (\<lambda>(k, v). utf8_valid k \<and> json_utf8 v) kvs"
| "json_utf8 (JFloat x) \<longleftrightarrow> False"
| "json_utf8 _ \<longleftrightarrow> True"

lemma utf8_valid_punct [simp]: "ord c < 128 \<Longrightarrow> utf8_valid [c]"
  by (rule utf8_valid_ascii) (simp add: is_ascii_def)

lemma utf8_valid_str: "utf8_valid s \<Longrightarrow> utf8_valid (render_str False s)"
  using utf8_valid_append [of "[CHR 0x22]", OF _ utf8_valid_append [OF utf8_valid_escapes [of s], of "[CHR 0x22]"]]
  by (simp add: render_str_def ord_def)

lemma utf8_valid_join: "(\<And>x. x \<in> set xs \<Longrightarrow> utf8_valid x) \<Longrightarrow> utf8_valid (join '','' xs)"
proof (induction xs)
  case (Cons x xs)
  have "utf8_valid (x @ '','' @ join '','' xs)"
    by (intro utf8_valid_append utf8_valid_punct) (use Cons in \<open>auto simp: ord_def\<close>)
  then show ?case using Cons.prems by (cases xs) auto
qed (simp add: utf8_valid_def)

lemma utf8_valid_render: "json_utf8 v \<Longrightarrow> utf8_valid (render fr False v)"
proof (induction v)
  case (JArr vs)
  have "utf8_valid (''['' @ join '','' (map (render fr False) vs) @ '']'')"
    by (intro utf8_valid_append utf8_valid_join) (use JArr in \<open>auto simp: list_all_iff ord_def\<close>)
  then show ?case by simp
next
  case (JObj kvs)
  have "utf8_valid (''{'' @ join '','' (map (\<lambda>(k, v). render_str False k @ '':'' @ render fr False v) kvs) @ ''}'')"
  proof (intro utf8_valid_append utf8_valid_join)
    fix x assume "x \<in> set (map (\<lambda>(k, v). render_str False k @ '':'' @ render fr False v) kvs)"
    then obtain k v where v: "(k, v) \<in> set kvs" "x = render_str False k @ '':'' @ render fr False v" by auto
    with JObj.prems have "utf8_valid k" "json_utf8 v" by (auto simp: list_all_iff)
    with JObj.IH [OF v(1)] show "utf8_valid x"
      unfolding v(2) by (intro utf8_valid_append utf8_valid_str utf8_valid_punct) (simp_all add: ord_def)
  qed (simp_all add: ord_def)
  then show ?case by simp
next
  case (JInt i)
  then show ?case by (simp add: utf8_valid_ascii int_repr_ascii)
next
  case (JBool b)
  then show ?case by (simp add: utf8_valid_ascii is_ascii_def)
next
  case JNull
  then show ?case by (simp add: utf8_valid_ascii is_ascii_def)
qed (simp_all add: utf8_valid_str)

lemma json_utf8_sort: "json_utf8 v \<Longrightarrow> json_utf8 (sort_keys v)"
proof (induction v)
  case (JObj kvs)
  then show ?case by (fastforce simp: list_all_iff)
qed (auto simp: list_all_iff)

section \<open>The reader accepts\<close>

text \<open>An object is read back whatever follows it.\<close>

lemma scan_object:
  assumes "json_ok h asc (JObj kvs)" "2 * length (render fr asc (JObj kvs) @ r) < n"
  shows "scan_value h n (render fr asc (JObj kvs) @ r) = Inr (JObj kvs, r)"
proof -
  have ok: "\<forall>(k, v) \<in> set kvs. scans h fr asc v \<and> json_ok h asc v \<and> str_ok asc k"
    and p: "h_pairs h kvs = Inr (JObj kvs)"
    using assms(1) scan_render by (fastforce simp: list_all_iff)+
  obtain m where n: "n = Suc m" using assms(2) by (cases n) auto
  show ?thesis
  proof (cases kvs)
    case Nil
    then show ?thesis using p by (simp add: n Let_def skip_ws_punct)
  next
    case (Cons w ws)
    let ?body = "join '','' (map (member_text fr asc) kvs) @ CHR ''}'' # r"
    have "skip_ws ?body = ?body" "\<not> starts_with ?body ''}''"
      using Cons by (cases ws; auto simp: skip_ws_def member_text_def render_str_def)+
    moreover have "scan_members h m ?body = Inr (kvs, r)"
      using ok Cons assms(2) n unfolding render_obj by (intro scan_members_join) auto
    ultimately show ?thesis using p unfolding render_obj by (simp add: n Let_def)
  qed
qed

lemma loads_object:
  assumes "json_ok h asc (JObj kvs)" "skip_ws r = []"
  shows "loads h (render fr asc (JObj kvs) @ r) = Inr (JObj kvs)"
proof -
  have "scan_value h (2 * length (render fr asc (JObj kvs) @ r) + 1) (render fr asc (JObj kvs) @ r) = Inr (JObj kvs, r)"
    by (rule scan_object [OF assms(1)]) simp
  with assms(2) skip_ws_render [OF assms(1), of fr r] show ?thesis by (simp add: loads_def del: scan_value.simps render.simps)
qed

lemma skip_newline: "skip_ws [CHR 0x0A] = []"
  by (simp add: skip_ws_def json_ws_def)

lemma json_nesting_sort: "json_nesting (sort_keys v) = json_nesting v"
proof (induction v)
  case (JObj kvs)
  have f: "foldr max xs (0 :: nat) = foldr max ys 0" if "set xs = set ys" for xs ys
  proof (rule antisym)
    show "foldr max xs 0 \<le> foldr max ys (0 :: nat)" "foldr max ys 0 \<le> foldr max xs (0 :: nat)"
      using that foldr_max_iff by (metis order_refl)+
  qed
  have "foldr max (map (\<lambda>(k, v). json_nesting v) (sort_key fst (map (\<lambda>(k, v). (k, sort_keys v)) kvs))) 0
      = foldr max (map (\<lambda>(k, v). json_nesting v) kvs) 0"
    by (rule f) (use JObj in \<open>force simp: image_iff\<close>)
  then show ?case by simp
qed (auto cong: map_cong simp: comp_def)

text \<open>A document of the kind that the workspace stores, with a line feed or without.\<close>

definition wire_document :: "json \<Rightarrow> bool" where
  "wire_document v \<longleftrightarrow> wire_safe v \<and> json_utf8 v \<and> json_nesting v \<le> 12"

theorem wire_object_accepts:
  assumes "wire_document (JObj kvs)" "r = [] \<or> r = [CHR 0x0A]" "int (length (dumps fr False (JObj kvs) @ r)) \<le> limit"
  shows "wire_object C (dumps fr False (JObj kvs) @ r) limit = Inr (sorted_members kvs)"
proof -
  let ?s = "sorted_members kvs"
  have safe: "wire_safe (JObj ?s)" "json_utf8 (JObj ?s)" "json_nesting (JObj ?s) \<le> 12"
    using assms(1) wire_safe_sort [of "JObj kvs"] json_utf8_sort [of "JObj kvs"] json_nesting_sort [of "JObj kvs"]
    unfolding wire_document_def sort_keys_obj [symmetric] by simp_all
  have bytes: "dumps fr False (JObj kvs) = render fr False (JObj ?s)" by (simp only: dumps_def sort_keys_obj)
  have "depth_bounded False False 0 (render fr False (JObj ?s) @ r) = depth_bounded False False 0 r"
    by (rule passesD [OF passes_render [OF safe(1) safe(3)]]) simp
  then have depth: "depth_bounded False False 0 (render fr False (JObj ?s) @ r)" using assms(2) by (auto simp: ord_def)
  have u: "utf8_valid (render fr False (JObj ?s) @ r)"
    by (rule utf8_valid_append [OF utf8_valid_render [OF safe(2)]]) (use assms(2) in \<open>auto simp: utf8_valid_ascii is_ascii_def ord_def\<close>)
  have sk: "skip_ws r = []" using assms(2) by (elim disjE) (simp add: skip_ws_def, simp only: skip_newline)
  have l: "loads (wire_hooks C) (render fr False (JObj ?s) @ r) = Inr (JObj ?s)"
    by (rule loads_object [OF wire_safe_ok [OF safe(1)] sk])
  have ne: "0 < int (length (render fr False (JObj ?s) @ r))" by simp
  show ?thesis
    using assms(3) depth u l ne wire_safe_values [OF safe(1)]
    unfolding wire_object_def bytes by (simp del: render.simps depth_bounded.simps length_append)
qed

end
