(* ===== verification/Workspace_Receipt.thy ===== *)
theory Workspace_Receipt
  imports Workspace_Submit Wire_Roundtrip
begin

text \<open>
  The receipts that \<open>submit\<close> stores are the ones that \<open>verify_workspace_output\<close> accepts: the documents written
  out, their reading back, and the checks on what has been read.
\<close>

section \<open>A valid policy\<close>

definition policy_valid :: "ws_policy \<Rightarrow> bool" where
  "policy_valid p \<longleftrightarrow> 1 \<le> wp_max_bytes p \<and> wp_max_bytes p \<le> 65536 \<and> 1 \<le> wp_max_proposals p \<and> wp_max_proposals p \<le> 32
     \<and> wp_class p \<in> set ws_data_classes \<and> pair_error (wp_outputs p) = None"

lemma mk_ws_policy_valid: "mk_ws_policy abspath q = Inr p \<Longrightarrow> policy_valid p"
  by (auto simp: mk_ws_policy_def raise_first_Inr_iff policy_valid_def split: if_splits)

lemma pair_error_facts:
  "pair_error outs = None \<Longrightarrow> a \<in> fst ` set outs \<Longrightarrow> \<not> reserved_name (the (map_of outs a))"
  by (induction outs rule: pair_error.induct) (auto split: if_splits)

lemma pair_error_alias: "pair_error outs = None \<Longrightarrow> a \<in> fst ` set outs \<Longrightarrow> alias_text a"
  by (induction outs rule: pair_error.induct) (auto split: if_splits)

lemma join_path_inject [simp]: "join_path d f = join_path d f' \<longleftrightarrow> f = f'"
  by (simp add: join_path_def)

lemma audit_file_reserved: "reserved_name (audit_file s n phase)"
  by (simp add: reserved_name_def audit_file_def lower_def lower_char_def is_upper_alpha_def)

lemma audit_path_distinct:
  assumes "policy_valid p" "a \<in> fst ` set (wp_outputs p)"
  shows "output_path p a \<noteq> audit_path p s n phase" "audit_path p s n ''intent'' \<noteq> audit_path p s n ''result''"
proof -
  have "\<not> reserved_name (the (map_of (wp_outputs p) a))"
    using assms pair_error_facts by (simp add: policy_valid_def)
  then show "output_path p a \<noteq> audit_path p s n phase"
    using audit_file_reserved [of s n phase] by (auto simp: output_path_def audit_path_def)
  show "audit_path p s n ''intent'' \<noteq> audit_path p s n ''result''" by (simp add: audit_path_def audit_file_def)
qed

section \<open>The decision's document\<close>

text \<open>The decision of an allowed action.\<close>

definition allowed_decision :: "codec \<Rightarrow> ws_policy \<Rightarrow> string \<Rightarrow> datetime \<Rightarrow> guard_decision \<Rightarrow> bool" where
  "allowed_decision C p t now d \<longleftrightarrow>
     gd_disposition d = Allow \<and> gd_reasons d = [''policy_satisfied''] \<and> gd_owner_gate d = False
     \<and> (let e = gd_evidence d
        in sha256_text (ev_action_id_hash e) \<and> sha256_text (ev_action_digest e) \<and> ev_content e = ws_sha C t
           \<and> sha256_text (ev_context_digest e) \<and> ev_policy e = ws_policy_sha256 C p \<and> ev_policy_version e = ws_version
           \<and> ev_disposition e = Allow \<and> ev_reasons e = [''policy_satisfied''] \<and> ev_evaluated_at e = now
           \<and> ev_previous_hash e = zero_sha256 \<and> sha256_text (ev_decision_hash e))"

lemma decide_text_allowed:
  assumes "decide_ready C p a call now" "decide_text C p a t call session now = Inr d" "gd_disposition d = Allow"
  shows "allowed_decision C p t now d" "a \<in> set (output_names p)"
proof -
  let ?a = "decided_action C p a t call session now" and ?c = "decided_context C p a t call session now"
  have d: "d = evaluate_action C ?a ?c" using assms(2) decide_text_evaluates [OF assms(1), of t session] by simp
  show a: "a \<in> set (output_names p)"
  proof (rule ccontr)
    assume "a \<notin> set (output_names p)"
    from decide_text_answer [OF assms(1), of t session] this assms(2,3) show False by force
  qed
  have hash: "hash_ok C" using assms(1) by (simp add: decide_ready_def)
  have r: "action_reasons C ?a ?c = []" by (rule decided_reasons_allowed [OF assms(1) a])
  have disp: "choose_disposition ?a [] = Allow"
    using assms(3) unfolding d evaluate_action_def Let_def r by simp
  have gate: "effective_action ?a \<notin> set owner_gate_actions" by (simp add: decided_not_gated owner_gate_actions_def)
  show "allowed_decision C p t now d"
    unfolding allowed_decision_def d evaluate_action_def Let_def r disp
    using hash gate
    by (simp add: issue_receipt_def ordered_reasons_def guard_sha256_text_def sha256_json_def,
        simp add: decided_action_def decide_action_def decided_context_def decide_context_def Let_def)
qed

lemma texts_of_json_map: "texts_of_json (map JStr ss) = Some ss"
  by (induction ss) simp_all

text \<open>Ways to find a field of a document whose keys have been sorted.\<close>

lemma sorted_getters:
  assumes "distinct (map fst kvs)"
  shows "get_str (sorted_members kvs) k = get_str kvs k" "get_sha (sorted_members kvs) k = get_sha kvs k"
    "get_disposition (sorted_members kvs) k = get_disposition kvs k"
    "literal_or_missing (sorted_members kvs) k s \<longleftrightarrow> literal_or_missing kvs k s"
proof -
  have same: "map_option sort_keys x = Some (JStr u) \<longleftrightarrow> x = Some (JStr u)" for x u
  proof (cases x)
    case (Some v)
    then show ?thesis by (cases v) simp_all
  qed simp
  show t: "get_str (sorted_members kvs) k = get_str kvs k"
  proof (cases "obj_get kvs k")
    case (Some v)
    then show ?thesis by (cases v) (simp_all add: get_str_def obj_get_sorted [OF assms])
  qed (simp add: get_str_def obj_get_sorted [OF assms])
  show "get_sha (sorted_members kvs) k = get_sha kvs k" "get_disposition (sorted_members kvs) k = get_disposition kvs k"
    by (simp_all add: get_sha_def get_disposition_def t)
  show "literal_or_missing (sorted_members kvs) k s \<longleftrightarrow> literal_or_missing kvs k s"
    unfolding literal_or_missing_def obj_get_sorted [OF assms] same by simp
qed

definition evidence_members :: "codec \<Rightarrow> evidence_receipt \<Rightarrow> (string \<times> json) list" where
  "evidence_members C e =
     [(''schema_version'', JStr ''runtime-guard-evidence-v0.1''),
      (''action_id_hash'', JStr (ev_action_id_hash e)),
      (''action_digest'', JStr (ev_action_digest e)),
      (''content_sha256'', JStr (ev_content e)),
      (''context_digest'', JStr (ev_context_digest e)),
      (''policy_sha256'', JStr (ev_policy e)),
      (''policy_version'', JStr (ev_policy_version e)),
      (''disposition'', JStr (disposition_text (ev_disposition e))),
      (''reason_codes'', texts_json (ev_reasons e)),
      (''evaluated_at'', JStr (dt_json C (ev_evaluated_at e))),
      (''previous_hash'', JStr (ev_previous_hash e)),
      (''origin_authentication'', JStr ''unverified''),
      (''trusted_time'', JStr ''not_recorded''),
      (''receipt_kind'', JStr ''decision_only''),
      (''decision_hash'', JStr (ev_decision_hash e))]"

lemma decision_members_eq:
  "decision_members C d =
     [(''disposition'', JStr (disposition_text (gd_disposition d))), (''reason_codes'', texts_json (gd_reasons d)),
      (''owner_gate_required'', JBool (gd_owner_gate d)), (''evidence'', JObj (evidence_members C (gd_evidence d)))]"
  by (simp add: decision_members_def evidence_members_def Let_def)

lemma evidence_keys:
  "map fst (evidence_members C e) = evidence_fields" "distinct evidence_fields" "obj_keys (evidence_members C e) = set evidence_fields"
  by (simp_all add: evidence_members_def evidence_fields_def obj_keys_def)

lemma evidence_getters:
  "obj_get (evidence_members C e) ''reason_codes'' = Some (texts_json (ev_reasons e))"
  "obj_get (evidence_members C e) ''evaluated_at'' = Some (JStr (dt_json C (ev_evaluated_at e)))"
  "get_str (evidence_members C e) ''action_id_hash'' = Some (ev_action_id_hash e)"
  "get_str (evidence_members C e) ''action_digest'' = Some (ev_action_digest e)"
  "get_str (evidence_members C e) ''content_sha256'' = Some (ev_content e)"
  "get_str (evidence_members C e) ''context_digest'' = Some (ev_context_digest e)"
  "get_str (evidence_members C e) ''policy_sha256'' = Some (ev_policy e)"
  "get_str (evidence_members C e) ''policy_version'' = Some (ev_policy_version e)"
  "get_str (evidence_members C e) ''disposition'' = Some (disposition_text (ev_disposition e))"
  "get_str (evidence_members C e) ''previous_hash'' = Some (ev_previous_hash e)"
  "get_str (evidence_members C e) ''decision_hash'' = Some (ev_decision_hash e)"
  "literal_or_missing (evidence_members C e) ''schema_version'' ''runtime-guard-evidence-v0.1''"
  "literal_or_missing (evidence_members C e) ''origin_authentication'' ''unverified''"
  "literal_or_missing (evidence_members C e) ''trusted_time'' ''not_recorded''"
  "literal_or_missing (evidence_members C e) ''receipt_kind'' ''decision_only''"
  by (simp_all add: evidence_members_def obj_get_def get_str_def literal_or_missing_def)

lemma disposition_of_text_inverse: "disposition_of_text (disposition_text x) = Some x"
  by (cases x) (simp_all add: disposition_of_text_def)

lemma sort_keys_texts: "sort_keys (texts_json ss) = texts_json ss"
  by (simp add: texts_json_def)

lemma evidence_read:
  assumes "sha256_text (ev_action_id_hash e)" "sha256_text (ev_action_digest e)" "sha256_text (ev_content e)"
    "sha256_text (ev_context_digest e)" "sha256_text (ev_policy e)" "ev_policy_version e \<noteq> []"
    "sha256_text (ev_previous_hash e)" "sha256_text (ev_decision_hash e)"
    and "parse_time (JStr (dt_json C (ev_evaluated_at e))) = Some t"
  shows "evidence_of_json parse_time (JObj (sorted_members (evidence_members C e))) = Some (e\<lparr>ev_evaluated_at := t\<rparr>)"
proof -
  let ?m = "evidence_members C e"
  have dis: "distinct (map fst ?m)" by (simp only: evidence_keys)
  note g = sorted_getters [OF dis] evidence_getters
  have lit: "evidence_literals_ok (sorted_members ?m)"
    unfolding evidence_literals_ok_def sorted_members_keys(2) evidence_keys(3) by (simp only: g simp_thms subset_refl)
  have reasons: "get_texts (sorted_members ?m) ''reason_codes'' = Some (ev_reasons e)"
    by (simp add: get_texts_def obj_get_sorted [OF dis] evidence_getters(1) sort_keys_texts)
       (simp add: texts_json_def texts_of_json_map)
  have time: "obj_get (sorted_members ?m) ''evaluated_at'' = Some (JStr (dt_json C (ev_evaluated_at e)))"
    by (simp add: obj_get_sorted [OF dis] evidence_getters(2))
  have dispo: "get_disposition (sorted_members ?m) ''disposition'' = Some (ev_disposition e)"
    by (simp add: g get_disposition_def disposition_of_text_inverse)
  have shas: "get_sha (sorted_members ?m) ''action_id_hash'' = Some (ev_action_id_hash e)"
    "get_sha (sorted_members ?m) ''action_digest'' = Some (ev_action_digest e)"
    "get_sha (sorted_members ?m) ''content_sha256'' = Some (ev_content e)"
    "get_sha (sorted_members ?m) ''context_digest'' = Some (ev_context_digest e)"
    "get_sha (sorted_members ?m) ''policy_sha256'' = Some (ev_policy e)"
    "get_sha (sorted_members ?m) ''previous_hash'' = Some (ev_previous_hash e)"
    "get_sha (sorted_members ?m) ''decision_hash'' = Some (ev_decision_hash e)"
    using assms by (simp_all add: g get_sha_def)
  have version: "get_str (sorted_members ?m) ''policy_version'' = Some (ev_policy_version e)" by (simp only: g)
  show ?thesis
    unfolding evidence_of_json_def using lit
    by (simp only: json.case if_False not_True_eq_False shas version dispo reasons time Option.bind.bind_lunit assms(6,9)) simp
qed

lemma decision_keys: "distinct (map fst (decision_members C d))"
  by (simp add: decision_members_eq)

lemma decision_read:
  assumes "hash_ok C" "allowed_decision C p t now d" "parse_time (JStr (dt_json C now)) = Some now'"
  shows "decision_of_json parse_time (sort_keys (JObj (decision_members C d)))
    = Some (d\<lparr>gd_evidence := (gd_evidence d)\<lparr>ev_evaluated_at := now'\<rparr>\<rparr>)"
proof -
  let ?e = "gd_evidence d"
  note f = assms(2) [unfolded allowed_decision_def Let_def]
  have ev: "evidence_of_json parse_time (JObj (sorted_members (evidence_members C ?e))) = Some (?e\<lparr>ev_evaluated_at := now'\<rparr>)"
    by (rule evidence_read) (use assms f in \<open>simp_all add: ws_version_def\<close>)
  note dis = decision_keys [of C d]
  have keys: "obj_keys (sorted_members (decision_members C d)) \<subseteq> {''disposition'', ''reason_codes'', ''owner_gate_required'', ''evidence''}"
    unfolding sorted_members_keys(2) by (simp add: decision_members_eq obj_keys_def)
  have gets: "get_disposition (sorted_members (decision_members C d)) ''disposition'' = Some (gd_disposition d)"
    "get_texts (sorted_members (decision_members C d)) ''reason_codes'' = Some (gd_reasons d)"
    "obj_get (sorted_members (decision_members C d)) ''owner_gate_required'' = Some (JBool (gd_owner_gate d))"
    "obj_get (sorted_members (decision_members C d)) ''evidence'' = Some (JObj (sorted_members (evidence_members C ?e)))"
    unfolding get_disposition_def get_texts_def sorted_getters(1) [OF dis] obj_get_sorted [OF dis]
    by (simp_all add: decision_members_eq obj_get_def get_str_def disposition_of_text_inverse sort_keys_texts
        sort_keys_obj del: sort_keys.simps(2)) (simp add: texts_json_def texts_of_json_map)
  show ?thesis
    unfolding sort_keys_obj decision_of_json_def using keys
    by (simp only: json.case if_False not_True_eq_False gets option.case Option.bind.bind_lunit ev) simp
qed

section \<open>The documents of a successful call\<close>

definition common_members :: "codec \<Rightarrow> ws_policy \<Rightarrow> string \<Rightarrow> nat \<Rightarrow> string \<Rightarrow> (string \<times> json) list" where
  "common_members C p session n proposal =
     [(''schema_version'', JStr ws_version), (''session_id'', JStr session), (''call_id'', JStr (call_name session n)),
      (''policy_sha256'', JStr (ws_policy_sha256 C p)), (''proposal_sha256'', JStr (ws_sha C proposal))]"

definition content_members :: "codec \<Rightarrow> string \<Rightarrow> string \<Rightarrow> guard_decision \<Rightarrow> (string \<times> json) list" where
  "content_members C a t d =
     [(''artifact'', JStr a), (''bytes'', JInt (int (length t))), (''content_sha256'', JStr (ws_sha C t)),
      (''decision'', JObj (decision_members C d))]"

definition intent_doc :: "codec \<Rightarrow> ws_policy \<Rightarrow> string \<Rightarrow> nat \<Rightarrow> string \<Rightarrow> string \<Rightarrow> string \<Rightarrow> guard_decision \<Rightarrow> (string \<times> json) list" where
  "intent_doc C p session n proposal a t d =
     common_members C p session n proposal
     @ [(''applied'', JBool False), (''effect'', JStr ''none''), (''reason'', JStr ''guard_rejected''), (''receipt_complete'', JBool False)]
     @ content_members C a t d @ [(''phase'', JStr ''intent''), (''write_authorized'', JBool True)]"

definition receipt_doc :: "codec \<Rightarrow> ws_policy \<Rightarrow> string \<Rightarrow> nat \<Rightarrow> string \<Rightarrow> string \<Rightarrow> string \<Rightarrow> guard_decision \<Rightarrow> (string \<times> json) list" where
  "receipt_doc C p session n proposal a t d =
     common_members C p session n proposal
     @ [(''applied'', JBool True), (''effect'', JStr ''created''), (''reason'', JStr ''write_completed''), (''receipt_complete'', JBool True)]
     @ content_members C a t d
     @ [(''output_sha256'', JStr (ws_sha C t)), (''receipt'', JStr (audit_file session n ''result''))]"

lemma dict_update_simps:
  "dict_update d [] = d"
  "dict_update d ((k, v) # kvs) = dict_update (dict_set d k v) kvs"
  by (simp_all add: dict_update_def)

lemma intent_doc_eq:
  assumes "int (length proposal) \<le> proposal_limit (gws_policy g)"
  shows "intent_members (dict_update (first_result C g n proposal) (judged_members C a t d)) (Some x)
    = intent_doc C (gws_policy g) (gws_session g) n proposal a t d"
  using assms
  by (simp add: intent_members_def first_result_def judged_members_def dict_update_simps intent_doc_def common_members_def
      content_members_def)

lemma receipt_doc_eq:
  assumes "int (length proposal) \<le> proposal_limit (gws_policy g)"
  shows "final_members (dict_update (dict_update (first_result C g n proposal) (judged_members C a t d))
      [(''applied'', JBool True), (''effect'', JStr ''created''), (''reason'', JStr ''write_completed''),
       (''output_sha256'', JStr (sha256_hex C t))]) (audit_file (gws_session g) n ''result'')
    = receipt_doc C (gws_policy g) (gws_session g) n proposal a t d"
  using assms
  by (simp add: final_members_def first_result_def judged_members_def dict_update_simps receipt_doc_def common_members_def
      content_members_def ws_sha_def)

text \<open>Both are documents that the strict reader accepts.\<close>

lemma two_digits_ascii: "is_ascii (two_digits n)"
  using nat_digits_ascii [of n] by (simp add: two_digits_def is_ascii_def ord_def)

lemma ws_names_ascii:
  assumes "is_ascii session"
  shows "is_ascii (call_name session n)" "is_ascii (audit_file session n ''result'')"
  using assms nat_digits_ascii two_digits_ascii by (simp_all add: call_name_def audit_file_def)

lemma decision_document:
  assumes "allowed_decision C p t now d" "hash_ok C" "is_ascii (dt_json C now)"
  shows "wire_safe (JObj (decision_members C d))" "json_utf8 (JObj (decision_members C d))" "json_nesting (JObj (decision_members C d)) = 3"
proof -
  note f = assms(1) [unfolded allowed_decision_def Let_def]
  have shas: "is_ascii (ev_action_id_hash (gd_evidence d))" "is_ascii (ev_action_digest (gd_evidence d))"
    "is_ascii (ev_content (gd_evidence d))" "is_ascii (ev_context_digest (gd_evidence d))" "is_ascii (ev_policy (gd_evidence d))"
    "is_ascii (ev_decision_hash (gd_evidence d))" "is_ascii (ev_previous_hash (gd_evidence d))"
    using f assms(2) by (simp_all add: sha256_text_ascii)
  have lits: "is_ascii ''allow''" "is_ascii ''policy_satisfied''" "is_ascii ws_version" "is_ascii ''runtime-guard-evidence-v0.1''"
    "is_ascii ''unverified''" "is_ascii ''not_recorded''" "is_ascii ''decision_only''"
    by (simp_all add: is_ascii_def ws_version_def)
  have keys: "list_all is_ascii (map fst (decision_members C d))" "list_all is_ascii evidence_fields"
    by (simp_all add: decision_members_eq evidence_fields_def is_ascii_def)
  show "json_nesting (JObj (decision_members C d)) = 3"
    using f by (simp add: decision_members_eq evidence_members_def texts_json_def)
  show "wire_safe (JObj (decision_members C d))"
    using f shas lits keys assms(3)
    by (simp add: decision_members_eq evidence_members_def evidence_fields_def texts_json_def encodable_ascii)
  show "json_utf8 (JObj (decision_members C d))"
    using f shas lits keys assms(3)
    by (simp add: decision_members_eq evidence_members_def evidence_fields_def texts_json_def utf8_valid_ascii)
qed

text \<open>What the fields of the two documents need.\<close>

definition receipt_ready :: "codec \<Rightarrow> ws_policy \<Rightarrow> string \<Rightarrow> string \<Rightarrow> string \<Rightarrow> datetime \<Rightarrow> guard_decision \<Rightarrow> bool" where
  "receipt_ready C p session a t now d \<longleftrightarrow>
     hash_ok C \<and> is_ascii session \<and> alias_text a \<and> int (length t) \<le> 65536 \<and> is_ascii (dt_json C now)
     \<and> allowed_decision C p t now d"

lemma receipt_documents:
  assumes "receipt_ready C p session a t now d"
  shows "wire_document (JObj (intent_doc C p session n proposal a t d))"
    "wire_document (JObj (receipt_doc C p session n proposal a t d))"
proof -
  note r = assms [unfolded receipt_ready_def]
  have d: "wire_safe (JObj (decision_members C d))" "json_utf8 (JObj (decision_members C d))" "json_nesting (JObj (decision_members C d)) = 3"
    using r decision_document by blast+
  have strings: "is_ascii session" "is_ascii (call_name session n)" "is_ascii (audit_file session n ''result'')"
    "is_ascii (ws_policy_sha256 C p)" "is_ascii (ws_sha C proposal)" "is_ascii (ws_sha C t)" "is_ascii a" "is_ascii ws_version"
    using r ws_names_ascii [of session n] by (simp_all add: sha256_text_ascii alias_text_ascii) (simp add: ws_version_def is_ascii_def)
  have lits: "list_all is_ascii [''none'', ''guard_rejected'', ''intent'', ''created'', ''write_completed'']"
    by (simp add: is_ascii_def)
  have keys: "list_all is_ascii (map fst (intent_doc C p session n proposal a t d))"
    "list_all is_ascii (map fst (receipt_doc C p session n proposal a t d))"
    by (simp_all add: intent_doc_def receipt_doc_def common_members_def content_members_def is_ascii_def)
  obtain P where P: "P = (\<lambda>v. wire_safe v \<and> json_utf8 v \<and> json_nesting v \<le> 11)" by blast
  have leaf: "P (JBool b)" "is_ascii s \<Longrightarrow> P (JStr s)" for b s
    by (simp_all add: P encodable_ascii utf8_valid_ascii)
  have deep: "P (JInt (int (length t)))" using r by (simp add: P)
  have dec: "P (JObj (decision_members C d))" using d unfolding P by simp
  have member: "wire_document (JObj kvs)"
    if "list_all is_ascii (map fst kvs)" "distinct (map fst kvs)" "length kvs \<le> 256" "list_all P (map snd kvs)" for kvs
    using that by (fastforce simp: P wire_document_def list_all_iff foldr_max_iff encodable_ascii utf8_valid_ascii)
  have "list_all P (map snd (intent_doc C p session n proposal a t d))" "list_all P (map snd (receipt_doc C p session n proposal a t d))"
    using strings lits deep dec by (simp_all add: intent_doc_def receipt_doc_def common_members_def content_members_def leaf)
  with member keys show "wire_document (JObj (intent_doc C p session n proposal a t d))"
    "wire_document (JObj (receipt_doc C p session n proposal a t d))"
    by (simp_all add: intent_doc_def receipt_doc_def common_members_def content_members_def)
qed

section \<open>Accepting a receipt\<close>

lemma py_eq_refl: "wire_safe v \<Longrightarrow> py_eq v v"
proof (induction v)
  case (JArr vs)
  then have "list_all (\<lambda>(x, y). py_eq x y) (zip vs vs)"
    by (auto simp: list_all_iff zip_same_conv_map)
  then show ?case by (simp add: py_eq.simps [of "JArr vs"])
next
  case (JObj kvs)
  have "case p of (k, x) \<Rightarrow> case obj_get kvs k of None \<Rightarrow> False | Some y \<Rightarrow> py_eq x y" if p: "p \<in> set kvs" for p
  proof -
    obtain k y where y: "p = (k, y)" by (cases p)
    with p JObj.prems have "obj_get kvs k = Some y" "wire_safe y" by (auto simp: obj_get_def list_all_iff)
    with JObj.IH p y show ?thesis by auto
  qed
  then have "list_all (\<lambda>(k, x). case obj_get kvs k of None \<Rightarrow> False | Some y \<Rightarrow> py_eq x y) kvs"
    unfolding list_all_iff by blast
  then show ?case by (simp add: py_eq.simps [of "JObj kvs"])
qed (simp_all add: py_eq.simps)

lemma call_index_name:
  assumes "1 \<le> n" "n \<le> 99"
  shows "call_index session (call_name session n) = Some n"
proof -
  have "hd (nat_digits n) \<noteq> CHR ''0''"
    using nat_digits_hd_zero [of n] assms(1) zero_digit by auto
  moreover have "length (nat_digits n) \<le> 2"
    using nat_digits_length [of n 1] assms(2) by simp
  moreover have "starts_with (call_name session n) (session @ '':'')"
    unfolding call_name_def by (induction session) auto
  moreover have "drop (length session + 1) (call_name session n) = nat_digits n" by (simp add: call_name_def)
  ultimately show ?thesis using nat_digits_all_digits [of n] by (simp add: call_index_def Let_def)
qed

lemma doc_keys:
  "distinct (map fst (intent_doc C p session n proposal a t d))" "distinct (map fst (receipt_doc C p session n proposal a t d))"
  by (simp_all add: intent_doc_def receipt_doc_def common_members_def content_members_def)

lemma receipt_fields:
  fixes C p session n proposal a t d
  defines "r \<equiv> receipt_doc C p session n proposal a t d"
  shows "obj_get r ''schema_version'' = Some (JStr ws_version)" "obj_get r ''session_id'' = Some (JStr session)"
    "obj_get r ''call_id'' = Some (JStr (call_name session n))" "obj_get r ''policy_sha256'' = Some (JStr (ws_policy_sha256 C p))"
    "obj_get r ''applied'' = Some (JBool True)" "obj_get r ''effect'' = Some (JStr ''created'')"
    "obj_get r ''reason'' = Some (JStr ''write_completed'')" "obj_get r ''receipt_complete'' = Some (JBool True)"
    "obj_get r ''artifact'' = Some (JStr a)" "obj_get r ''bytes'' = Some (JInt (int (length t)))"
    "obj_get r ''content_sha256'' = Some (JStr (ws_sha C t))" "obj_get r ''decision'' = Some (JObj (decision_members C d))"
    "obj_get r ''output_sha256'' = Some (JStr (ws_sha C t))" "obj_get r ''receipt'' = Some (JStr (audit_file session n ''result''))"
  by (simp_all add: r_def receipt_doc_def common_members_def content_members_def obj_get_def)

lemma intent_fields:
  fixes C p session n proposal a t d
  defines "i \<equiv> intent_doc C p session n proposal a t d" and "r \<equiv> receipt_doc C p session n proposal a t d"
  shows "obj_get i ''phase'' = Some (JStr ''intent'')" "obj_get i ''write_authorized'' = Some (JBool True)"
    "list_all (\<lambda>k. obj_get r k \<noteq> None \<and> obj_get i k = obj_get r k) receipt_keys"
  by (simp_all add: i_def r_def intent_doc_def receipt_doc_def common_members_def content_members_def obj_get_def receipt_keys_def)

lemma intent_accepted:
  assumes "receipt_ready C p session a t now d"
  shows "intent_matches (sorted_members (intent_doc C p session n proposal a t d)) (sorted_members (receipt_doc C p session n proposal a t d))"
proof -
  let ?i = "intent_doc C p session n proposal a t d" and ?r = "receipt_doc C p session n proposal a t d"
  have safe: "wire_safe (JObj ?r)" using receipt_documents(2) [OF assms] by (simp add: wire_document_def)
  have "case obj_get (sorted_members ?r) k of None \<Rightarrow> False
      | Some y \<Rightarrow> py_eq (case obj_get (sorted_members ?i) k of None \<Rightarrow> JNull | Some x \<Rightarrow> x) y" if k: "k \<in> set receipt_keys" for k
  proof -
    from intent_fields(3) [of C p session n proposal a t d] k obtain v where
      v: "obj_get ?r k = Some v" "obj_get ?i k = Some v" by (auto simp: list_all_iff)
    then have "(k, v) \<in> set ?r" by (auto simp: obj_get_def dest: map_of_SomeD)
    with safe have "wire_safe v" by (auto simp: list_all_iff)
    then have "py_eq (sort_keys v) (sort_keys v)" by (intro py_eq_refl wire_safe_sort)
    with v show ?thesis by (simp add: obj_get_sorted doc_keys)
  qed
  then have "list_all (\<lambda>k. case obj_get (sorted_members ?r) k of None \<Rightarrow> False
      | Some y \<Rightarrow> py_eq (case obj_get (sorted_members ?i) k of None \<Rightarrow> JNull | Some x \<Rightarrow> x) y) receipt_keys"
    by (simp add: list_all_iff)
  moreover have "obj_get (sorted_members ?i) ''phase'' = Some (JStr ''intent'')"
    "obj_get (sorted_members ?i) ''write_authorized'' = Some (JBool True)"
    by (simp_all add: obj_get_sorted doc_keys intent_fields)
  ultimately show ?thesis unfolding intent_matches_def by blast
qed

text \<open>A file system that holds the three files of a successful call.\<close>

definition delivered_files :: "codec \<Rightarrow> ws_policy \<Rightarrow> string \<Rightarrow> nat \<Rightarrow> string \<Rightarrow> string \<Rightarrow> string \<Rightarrow> guard_decision \<Rightarrow> creation list" where
  "delivered_files C p session n proposal a t d =
     [(audit_path p session n ''intent'', ws_json C (JObj (intent_doc C p session n proposal a t d)) @ [CHR 0x0A]),
      (output_path p a, t),
      (audit_path p session n ''result'', ws_json C (JObj (receipt_doc C p session n proposal a t d)) @ [CHR 0x0A])]"

definition audit_fits :: "codec \<Rightarrow> (string \<times> json) list \<Rightarrow> bool" where
  "audit_fits C kvs \<longleftrightarrow> int (length (ws_json C (JObj kvs) @ [CHR 0x0A])) \<le> 16384"

theorem verify_accepts:
  assumes "receipt_ready C p session a t now d" "policy_valid p" "lower_hex32 session" "1 \<le> n" "int n \<le> wp_max_proposals p"
    and "a \<in> set (output_names p)" "int (length t) \<le> wp_max_bytes p" "parse_time (JStr (dt_json C now)) \<noteq> None"
    and "audit_fits C (intent_doc C p session n proposal a t d)" "audit_fits C (receipt_doc C p session n proposal a t d)"
  shows "verify_workspace_output C parse_time True p (create_all F (delivered_files C p session n proposal a t d))
      (audit_path p session n ''result'') = Some (a, int (length t), ws_sha C t)"
proof -
  let ?i = "intent_doc C p session n proposal a t d" and ?r = "receipt_doc C p session n proposal a t d"
  let ?F = "create_all F (delivered_files C p session n proposal a t d)"
  have out: "a \<in> fst ` set (wp_outputs p)" using assms(6) by (simp add: output_names_def)
  note dp = audit_path_distinct [OF assms(2) out, of session n]
  have files: "?F (audit_path p session n ''intent'') = Some (Regular (ws_json C (JObj ?i) @ [CHR 0x0A]))"
    "?F (output_path p a) = Some (Regular t)"
    "?F (audit_path p session n ''result'') = Some (Regular (ws_json C (JObj ?r) @ [CHR 0x0A]))"
    using dp not_sym [OF dp(1)] by (simp_all add: delivered_files_def create_def)
  have wire: "wire_file C ?F (audit_path p session n ''intent'') = Some (sorted_members ?i)"
    "wire_file C ?F (audit_path p session n ''result'') = Some (sorted_members ?r)"
    using wire_object_accepts [OF receipt_documents(1) [OF assms(1)], where r = "[CHR 0x0A]" and fr = "float_repr C" and limit = 16384 and C = C]
      wire_object_accepts [OF receipt_documents(2) [OF assms(1)], where r = "[CHR 0x0A]" and fr = "float_repr C" and limit = 16384 and C = C] assms(9,10)
    by (simp_all add: wire_file_def read_file_def files audit_fits_def ws_json_def)
  have hash: "hash_ok C" and allowed: "allowed_decision C p t now d" using assms(1) by (simp_all add: receipt_ready_def)
  note f = allowed [unfolded allowed_decision_def Let_def]
  have get: "obj_get (sorted_members ?r) k = map_option sort_keys (obj_get ?r k)" for k
    by (rule obj_get_sorted [OF doc_keys(2)])
  obtain now' where now': "parse_time (JStr (dt_json C now)) = Some now'" using assms(8) by blast
  have success: "receipt_success C parse_time p (sorted_members ?r)"
    using decision_read [where parse_time = parse_time and now' = now', OF hash allowed now'] f assms(6)
    by (simp add: receipt_success_def get get_str_def receipt_fields del: sort_keys.simps(2))
  have texts: "get_str (sorted_members ?r) ''artifact'' = Some a" "get_str (sorted_members ?r) ''session_id'' = Some session"
    "get_str (sorted_members ?r) ''call_id'' = Some (call_name session n)"
    by (simp_all add: get_str_def get receipt_fields)
  have n: "n \<le> 99" using assms(2,5) by (simp add: policy_valid_def)
  have matches: "output_matches C p ?F a (sorted_members ?r) = Some (a, int (length t), ws_sha C t)"
    using assms(7) by (simp add: output_matches_def read_file_def files get receipt_fields)
  show ?thesis
    unfolding verify_workspace_output_def wire
    using success intent_accepted [OF assms(1)] matches assms(3,5) call_index_name [OF assms(4) n] wire(1)
    by (simp add: texts get receipt_fields audit_path_def)
qed

section \<open>A successful call\<close>

lemma proposal_content_facts:
  assumes "proposal_content C p proposal = Inr (a, t)"
  shows "int (length proposal) \<le> proposal_limit p" "alias_text a" "t \<noteq> []" "int (length t) \<le> wp_max_bytes p"
proof -
  from assms obtain kvs where k: "wire_object C proposal (proposal_limit p) = Inr kvs"
    and c: "(if obj_keys kvs \<noteq> {''operation'', ''artifact'', ''content''} \<or> obj_get kvs ''operation'' \<noteq> Some (JStr ''write_text'')
      then Inl (WsValue ''proposal shape rejected'')
      else
       (case (obj_get kvs ''artifact'', obj_get kvs ''content'') of
          (Some (JStr a), Some (JStr t)) \<Rightarrow>
            if \<not> alias_text a then Inl (WsValue ''proposal shape rejected'')
            else if \<not> encodable t then Inl (WsValue ''surrogates not allowed'')
            else if t = [] \<or> int (length t) > wp_max_bytes p \<or> CHR 0x00 \<in> set t
            then Inl (WsValue ''text content rejected'')
            else Inr (a, t)
        | _ \<Rightarrow> Inl (WsValue ''proposal shape rejected''))) = Inr (a, t)"
    by (auto simp: proposal_content_def map_err_Inr_iff)
  show "int (length proposal) \<le> proposal_limit p" by (rule wire_object_Inr(2) [OF k])
  show "alias_text a" "t \<noteq> []" "int (length t) \<le> wp_max_bytes p"
    using c by (auto split: if_splits option.splits json.splits)
qed

lemma submit_success:
  assumes "ws_submit C env g F proposal = (g', cs, r)" "workspace_ok g"
    and "obj_get r ''applied'' = Some (JBool True)" "obj_get r ''receipt_complete'' = Some (JBool True)"
  defines "p \<equiv> gws_opened_policy g" and "session \<equiv> gws_opened_session g" and "n \<equiv> next_call g"
  obtains a t d where "proposal_content C p proposal = Inr (a, t)"
    "decide_text C p a t (call_name session n) session (se_now env) = Inr d" "gd_disposition d = Allow"
    "cs = delivered_files C p session n proposal a t d" "r = receipt_doc C p session n proposal a t d"
    "audit_fits C (intent_doc C p session n proposal a t d)" "audit_fits C (receipt_doc C p session n proposal a t d)"
    "1 \<le> n" "int n \<le> wp_max_proposals p"
  using assms(1,2)
proof (cases rule: ws_submit_cases)
  case (refused reason)
  with assms(3) show ?thesis by (simp add: refused_result_def obj_get_def)
next
  case (stopped result writable)
  with assms(3) judge_proposal_cases(1) [OF stopped(1)] show ?thesis by (simp add: obj_get_dict_set)
next
  case (traced result writable g1 g2 cs2 cs3 result2)
  note t = traced [folded p_def session_def n_def]
  have n: "1 \<le> n" "int n \<le> wp_max_proposals p" using t(18) assms(2) by (auto simp: n_def next_call_def workspace_ok_def Let_def)
  note e = effect_stage_cases [OF t(5) judge_proposal_cases(1) [OF t(1)]] and rs = result_stage_cases [OF t(6)]
  from rs(3) assms(3) have ap: "obj_get result2 ''applied'' = Some (JBool True)" by simp
  from e(2) ap obtain a x where w: "writable = Some (a, x)" "cs2 = [(target_path (gws_files g1) a, x)]"
    "result2 = dict_update result [(''applied'', JBool True), (''effect'', JStr ''created''),
          (''reason'', JStr ''write_completed''), (''output_sha256'', JStr (sha256_hex C x))]" by auto
  from judge_proposal_cases(3) [OF t(1) w(1)] t(11,12) obtain d where d: "proposal_content C p proposal = Inr (a, x)"
    "decide_text C p a x (call_name session n) session (se_now env) = Inr d" "gd_disposition d = Allow"
    "result = dict_update (first_result C g n proposal) (judged_members C a x d)" by auto
  have limit: "int (length proposal) \<le> proposal_limit (gws_policy g)" using proposal_content_facts(1) [OF d(1)] t(11) by simp
  have idoc: "intent_members result writable = intent_doc C p session n proposal a x d"
    using intent_doc_eq [OF limit] t(11,12) by (simp add: d(4) w(1))
  have path: "target_path (gws_audit g2) (audit_key ''result'' n) = audit_path p session n ''result''"
    "the (map_of (gws_audit_names g2) (audit_key ''result'' n)) = audit_file session n ''result''"
    using audit_target_path [OF t(8) n(1)] n(2) t(13,14) by auto
  have rdoc: "final_members result2 (audit_file session n ''result'') = receipt_doc C p session n proposal a x d"
    using receipt_doc_eq [OF limit] t(11,12) by (simp add: d(4) w(3))
  have out: "target_path (gws_files g1) a = output_path p a"
    using t(10) assms(2) by (simp add: workspace_ok_def target_path_def output_path_def p_def Let_def)
  have max: "wf_max (gws_audit g2) = 16384" using t(8) by (simp add: workspace_ok_def Let_def)
  from rs(2) [OF assms(4)] have res: "r = receipt_doc C p session n proposal a x d"
    "cs3 = [(audit_path p session n ''result'', ws_json C (JObj (receipt_doc C p session n proposal a x d)) @ [CHR 0x0A])]"
    "audit_fits C (receipt_doc C p session n proposal a x d)"
    unfolding path rdoc max by (simp_all add: audit_fits_def)
  have cs: "cs = delivered_files C p session n proposal a x d"
    using t(2) w(2) res(2) out by (simp add: delivered_files_def intent_text_def idoc)
  have fits: "audit_fits C (intent_doc C p session n proposal a x d)"
    using t(4) by (simp add: audit_fits_def intent_text_def idoc)
  show ?thesis by (rule that [OF d(1-3) cs res(1) fits res(3) n])
qed

end
