(* ===== verification/Workspace_Operation.thy ===== *)
theory Workspace_Operation
  imports Workspace_Writer Sqlite
begin

text \<open>
  \<open>workspace_operation.py\<close>: the durable coordination of one create-only output. The state is a SQLite database
  with one row for the operation and one row per permission, next to the file system. Each of the
  program's transactions is a function that returns the database to be committed and what it answers; an error
  means that the transaction was rolled back. \<open>deliver\<close> is two transactions, and the second one calls the
  guarded workspace. The admission of sources (\<open>workspace_admission.py\<close>) enters as its two answers.
\<close>

section \<open>Bindings\<close>

type_synonym op_error = string

record ws_binding =
  wb_operation :: string
  wb_payload_sha :: string
  wb_payload_length :: int
  wb_root :: string
  wb_device :: int
  wb_inode :: int
  wb_filename :: string
  wb_artifact :: string
  wb_policy :: string
  wb_key :: string
  wb_admission :: "string option"

definition ws_binding_doc :: "ws_binding \<Rightarrow> json" where
  "ws_binding_doc b = JObj
     [(''actor'', JStr ''workspace-agent''),
      (''operation_id'', JStr (wb_operation b)),
      (''action'', JStr ''write_text''),
      (''payload_sha256'', JStr (wb_payload_sha b)),
      (''payload_length'', JInt (wb_payload_length b)),
      (''root_path'', JStr (wb_root b)),
      (''root_device'', JInt (wb_device b)),
      (''root_inode'', JInt (wb_inode b)),
      (''filename'', JStr (wb_filename b)),
      (''artifact'', JStr (wb_artifact b)),
      (''policy_sha256'', JStr (wb_policy b)),
      (''scope'', JStr ''workspace:create''),
      (''key'', JStr (wb_key b)),
      (''admission_sha256'', case wb_admission b of None \<Rightarrow> JNull | Some s \<Rightarrow> JStr s)]"

record ws_operation =
  wo_policy :: ws_policy
  wo_binding :: ws_binding
  wo_content :: string
  wo_max :: int

definition binding_json :: "codec \<Rightarrow> ws_operation \<Rightarrow> string" where
  "binding_json C op = ws_json C (ws_binding_doc (wo_binding op))"

definition binding_sha :: "codec \<Rightarrow> ws_operation \<Rightarrow> string" where
  "binding_sha C op = ws_sha C (binding_json C op)"

text \<open>The library functions of the host, and the answers that one call gets from outside.\<close>

record host =
  hs_codec :: codec
  hs_casefold :: "string \<Rightarrow> string"
  hs_abspath :: "string \<Rightarrow> string"
  hs_time :: "json \<Rightarrow> datetime option"

text \<open>
  \<open>oe_digest\<close> and \<open>oe_admitted\<close> are the answers of the admission, \<open>oe_root\<close> the device and inode of the checked
  output directory, \<open>oe_connect\<close> what opening the database and beginning the transaction raises, \<open>oe_storage\<close> whether SQLite
  executes its statements and the commit; the rest is for the decision and for the writer.
\<close>

record op_env =
  oe_digest :: "op_error + string option"
  oe_admitted :: bool
  oe_root :: "(int \<times> int) option"
  oe_connect :: "op_error option"
  oe_storage :: bool
  oe_now :: datetime
  oe_later :: datetime
  oe_check :: bool
  oe_session :: string
  oe_root1 :: "fs_error option"
  oe_root2 :: "fs_error option"
  oe_submit :: submit_env
  oe_timing :: json

section \<open>The database\<close>

record op_row =
  or_id :: int
  or_binding :: cell
  or_sha :: cell
  or_max :: cell
  or_absent :: cell
  or_generation :: cell
  or_outcome :: cell
  or_receipt :: cell
  or_receipt_sha :: cell

record perm_row =
  pr_ordinal :: int
  pr_nonce :: cell
  pr_generation :: cell
  pr_binding :: cell
  pr_consumed :: cell
  pr_attempted :: cell

text \<open>
  What the program reads of the database: name, type and definition of the objects, the columns of each
  table, the rows (the permissions by ordinal), and whether \<open>quick_check\<close> answers \<open>ok\<close>.
\<close>

record op_db =
  od_objects :: "(string \<times> string \<times> string) list"
  od_columns :: "(string \<times> string list) list"
  od_operation :: "op_row list"
  od_permissions :: "perm_row list"
  od_intact :: bool

fun collapse_space :: "bool \<Rightarrow> string \<Rightarrow> string" where
  "collapse_space seen [] = []"
| "collapse_space seen (c # cs) =
     (if is_space c then (if seen then collapse_space True cs else CHR '' '' # collapse_space True cs)
      else c # collapse_space False cs)"

definition operation_sql :: string where
  "operation_sql =
     ''CREATE TABLE operation ( id INTEGER PRIMARY KEY CHECK (id = 1), binding_json TEXT NOT NULL, '' @
     ''binding_sha256 TEXT NOT NULL, max_attempts INTEGER NOT NULL CHECK (max_attempts BETWEEN 1 AND 32), '' @
     ''initial_absent INTEGER NOT NULL CHECK (initial_absent = 1), '' @
     ''generation INTEGER NOT NULL CHECK (generation BETWEEN 0 AND 32), outcome TEXT, receipt_name TEXT, '' @
     ''receipt_sha256 TEXT )''"

definition permissions_sql :: string where
  "permissions_sql =
     ''CREATE TABLE permissions ( ordinal INTEGER PRIMARY KEY CHECK (ordinal BETWEEN 1 AND 32), '' @
     ''nonce TEXT NOT NULL UNIQUE, generation INTEGER NOT NULL CHECK (generation BETWEEN 0 AND 32), '' @
     ''binding_sha256 TEXT NOT NULL, consumed INTEGER NOT NULL CHECK (consumed = 1), '' @
     ''attempted INTEGER NOT NULL CHECK (attempted IN (0, 1)) )''"

definition table_sql :: "(string \<times> string) list" where
  "table_sql = [(''operation'', operation_sql), (''permissions'', permissions_sql)]"

definition table_columns :: "(string \<times> string list) list" where
  "table_columns =
     [(''operation'', [''id'', ''binding_json'', ''binding_sha256'', ''max_attempts'', ''initial_absent'', ''generation'',
        ''outcome'', ''receipt_name'', ''receipt_sha256'']),
      (''permissions'', [''ordinal'', ''nonce'', ''generation'', ''binding_sha256'', ''consumed'', ''attempted''])]"

definition op_schema_ok :: "op_db \<Rightarrow> bool" where
  "op_schema_ok db \<longleftrightarrow>
     length (od_objects db) = 2 \<and> fst ` set (od_objects db) = {''operation'', ''permissions''}
     \<and> list_all (\<lambda>(name, kind, sql). kind = ''table'' \<and> Some (collapse_space False sql) = map_of table_sql name) (od_objects db)
     \<and> list_all (\<lambda>(table, names). map_of (od_columns db) table = Some names) table_columns"

section \<open>Validation\<close>

datatype op_outcome = Delivered string string | Reconciled

fun outcome_text :: "op_outcome \<Rightarrow> string" where
  "outcome_text (Delivered n s) = ''DELIVERED_RECEIPT''"
| "outcome_text Reconciled = ''RECONCILED_POSTCONDITION''"

text \<open>\<open>.ash-<32 hex>-<2 digits>-result.json\<close>\<close>

definition receipt_name_ok :: "string \<Rightarrow> bool" where
  "receipt_name_ok s \<longleftrightarrow>
     (let session = take 32 (drop 5 s); digits = take 2 (drop 38 s)
      in length s = 52 \<and> s = ''.ash-'' @ session @ ''-'' @ digits @ ''-result.json''
         \<and> list_all is_lower_hex session \<and> list_all is_digit digits)"

definition perm_nonce :: "codec \<Rightarrow> ws_operation \<Rightarrow> int \<Rightarrow> string" where
  "perm_nonce C op n = ws_sha C (binding_sha C op @ '':'' @ int_repr n)"

fun stored_outcome :: "nat \<Rightarrow> cell \<Rightarrow> cell \<Rightarrow> cell \<Rightarrow> op_error + op_outcome option" where
  "stored_outcome spent CNull name sha =
     (if name = CNull \<and> sha = CNull then Inr None else Inl ''state_outcome_invalid'')"
| "stored_outcome spent (CText t) name sha =
     (if t = ''DELIVERED_RECEIPT'' then
        (case (name, sha) of
           (CText n, CText s) \<Rightarrow>
             if spent \<noteq> 0 \<and> receipt_name_ok n \<and> sha256_text s then Inr (Some (Delivered n s))
             else Inl ''state_outcome_invalid''
         | _ \<Rightarrow> Inl ''state_outcome_invalid'')
      else if t = ''RECONCILED_POSTCONDITION'' then
        (if spent \<noteq> 0 \<and> name = CNull \<and> sha = CNull then Inr (Some Reconciled) else Inl ''state_outcome_invalid'')
      else Inl ''state_outcome_invalid'')"
| "stored_outcome spent _ name sha = Inl ''state_outcome_invalid''"

definition op_row_ok :: "codec \<Rightarrow> ws_operation \<Rightarrow> op_row \<Rightarrow> int option" where
  "op_row_ok C op row =
     (if or_id row = 1 \<and> or_binding row = CText (binding_json C op) \<and> or_sha row = CText (binding_sha C op)
         \<and> cell_is_int (or_max row) (wo_max op) \<and> cell_is_int (or_absent row) 1
      then (case or_generation row of CInt g \<Rightarrow> if 0 \<le> g \<and> g \<le> 32 then Some g else None | _ \<Rightarrow> None)
      else None)"

definition perm_row_ok :: "codec \<Rightarrow> ws_operation \<Rightarrow> int \<Rightarrow> int \<Rightarrow> perm_row \<Rightarrow> bool" where
  "perm_row_ok C op generation n row \<longleftrightarrow>
     pr_ordinal row = n \<and> pr_nonce row = CText (perm_nonce C op n) \<and> pr_binding row = CText (binding_sha C op)
     \<and> cell_is_int (pr_consumed row) 1
     \<and> (case pr_generation row of CInt g \<Rightarrow> 0 \<le> g \<and> g \<le> generation | _ \<Rightarrow> False)
     \<and> (cell_is_int (pr_attempted row) 0 \<or> cell_is_int (pr_attempted row) 1)"

fun perm_rows_ok :: "codec \<Rightarrow> ws_operation \<Rightarrow> int \<Rightarrow> int \<Rightarrow> perm_row list \<Rightarrow> bool" where
  "perm_rows_ok C op generation n [] = True"
| "perm_rows_ok C op generation n (row # rows) \<longleftrightarrow>
     perm_row_ok C op generation n row \<and> perm_rows_ok C op generation (n + 1) rows"

text \<open>\<open>_validate\<close>: the number of permissions, the generation and the outcome.\<close>

definition validate_state :: "codec \<Rightarrow> ws_operation \<Rightarrow> op_env \<Rightarrow> op_db \<Rightarrow> op_error + nat \<times> int \<times> op_outcome option" where
  "validate_state C op env db =
     res_bind (oe_digest env) (\<lambda>digest.
     res_bind (ensure (digest = wb_admission (wo_binding op)) ''admission_context_changed'') (\<lambda>_.
     res_bind (ensure (op_schema_ok db) ''state_schema_invalid'') (\<lambda>_.
     case od_operation db of
       [row] \<Rightarrow>
         (case op_row_ok C op row of
            None \<Rightarrow> Inl ''state_binding_invalid''
          | Some generation \<Rightarrow>
              (let perms = od_permissions db; spent = length perms
               in res_bind (ensure (int spent \<le> wo_max op) ''state_budget_invalid'') (\<lambda>_.
                  res_bind (ensure (perm_rows_ok C op generation 1 perms) ''state_permission_invalid'') (\<lambda>_.
                  res_bind (stored_outcome spent (or_outcome row) (or_receipt row) (or_receipt_sha row)) (\<lambda>outcome.
                  res_bind (ensure (od_intact db) ''state_integrity_invalid'') (\<lambda>_.
                  Inr (spent, generation, outcome)))))))
     | _ \<Rightarrow> Inl ''state_binding_invalid'')))"

section \<open>The target file and a stored outcome\<close>

datatype file_state = FileAbsent | FileExact | FileMismatch | FileUnknown

definition bound_path :: "ws_operation \<Rightarrow> string" where
  "bound_path op = join_path (wp_dir (wo_policy op)) (wb_filename (wo_binding op))"

definition file_state_for :: "codec \<Rightarrow> (int \<times> int) option \<Rightarrow> ws_operation \<Rightarrow> file_system \<Rightarrow> file_state" where
  "file_state_for C dir op F =
     (let b = wo_binding op
      in if dir \<noteq> Some (wb_device b, wb_inode b) \<or> wp_dir (wo_policy op) \<noteq> wb_root b then FileUnknown
         else
           (case read_file F (bound_path op) (wp_max_bytes (wo_policy op)) of
              Inl FsNotFound \<Rightarrow> FileAbsent
            | Inl _ \<Rightarrow> FileUnknown
            | Inr raw \<Rightarrow>
                if int (length raw) = wb_payload_length b \<and> ws_sha C raw = wb_payload_sha b then FileExact else FileMismatch))"

definition receipt_bound :: "ws_operation \<Rightarrow> json \<Rightarrow> bool" where
  "receipt_bound op v \<longleftrightarrow>
     (case v of
        JObj r \<Rightarrow>
          obj_get r ''artifact'' = Some (JStr (wb_artifact (wo_binding op)))
          \<and> obj_get r ''content_sha256'' = Some (JStr (wb_payload_sha (wo_binding op)))
          \<and> obj_get r ''bytes'' = Some (JInt (wb_payload_length (wo_binding op)))
          \<and> obj_get r ''policy_sha256'' = Some (JStr (wb_policy (wo_binding op)))
          \<and> obj_get r ''output_sha256'' = Some (JStr (wb_payload_sha (wo_binding op)))
      | _ \<Rightarrow> False)"

definition load_bytes :: "codec \<Rightarrow> string \<Rightarrow> json option" where
  "load_bytes C raw =
     (if utf8_valid raw then (case loads (default_hooks C) raw of Inr v \<Rightarrow> Some v | Inl _ \<Rightarrow> None) else None)"

text \<open>The receipt in the output directory: its bytes, and that \<open>verify_workspace_output\<close> accepts it.\<close>

definition verified_receipt :: "host \<Rightarrow> op_env \<Rightarrow> ws_operation \<Rightarrow> file_system \<Rightarrow> string \<Rightarrow> bool" where
  "verified_receipt H env op F name \<longleftrightarrow>
     verify_workspace_output (hs_codec H) (hs_time H) (oe_check env) (wo_policy op) F (join_path (wp_dir (wo_policy op)) name)
       \<noteq> None"

definition stored_receipt :: "host \<Rightarrow> op_env \<Rightarrow> ws_operation \<Rightarrow> file_system \<Rightarrow> string \<Rightarrow> string \<Rightarrow> op_error + json" where
  "stored_receipt H env op F name sha =
     (case read_file F (join_path (wp_dir (wo_policy op)) name) 16384 of
        Inl _ \<Rightarrow> Inl ''stored_receipt_invalid''
      | Inr raw \<Rightarrow>
          if ws_sha (hs_codec H) raw \<noteq> sha \<or> \<not> verified_receipt H env op F name then Inl ''stored_receipt_invalid''
          else (case load_bytes (hs_codec H) raw of
                  None \<Rightarrow> Inl ''stored_receipt_invalid''
                | Some v \<Rightarrow> if receipt_bound op v then Inr v else Inl ''stored_receipt_invalid''))"

definition verified_outcome :: "host \<Rightarrow> op_env \<Rightarrow> ws_operation \<Rightarrow> file_system \<Rightarrow> op_outcome \<Rightarrow> op_error + json option" where
  "verified_outcome H env op F out =
     res_bind (ensure (file_state_for (hs_codec H) (oe_root env) op F = FileExact) ''stored_outcome_file_mismatch'') (\<lambda>_.
     case out of
       Delivered name sha \<Rightarrow> res_bind (stored_receipt H env op F name sha) (\<lambda>v. Inr (Some v))
     | Reconciled \<Rightarrow> Inr None)"

section \<open>Results and transactions\<close>

record op_result =
  rs_state :: string
  rs_spent :: nat
  rs_generation :: int
  rs_reason :: string
  rs_receipt :: "json option"

definition plain_result :: "string \<Rightarrow> nat \<Rightarrow> int \<Rightarrow> string \<Rightarrow> op_result" where
  "plain_result st spent generation reason =
     \<lparr>rs_state = st, rs_spent = spent, rs_generation = generation, rs_reason = reason, rs_receipt = None\<rparr>"

definition retained_result :: "host \<Rightarrow> op_env \<Rightarrow> ws_operation \<Rightarrow> file_system \<Rightarrow> nat \<Rightarrow> int \<Rightarrow> op_outcome \<Rightarrow> op_error + op_result" where
  "retained_result H env op F spent generation out =
     res_bind (verified_outcome H env op F out) (\<lambda>receipt.
     Inr \<lparr>rs_state = outcome_text out, rs_spent = spent, rs_generation = generation,
          rs_reason = ''verified_retained_outcome'', rs_receipt = receipt\<rparr>)"

text \<open>
  \<open>with self._connection()\<close>: connect, run the body, commit when it returns, roll back when it raises. A
  failing statement or commit is the error \<open>unavailable\<close>.
\<close>

definition transaction :: "op_env \<Rightarrow> op_error \<Rightarrow> op_db \<Rightarrow> (op_db \<Rightarrow> op_error + op_db \<times> 'a) \<Rightarrow> op_db \<times> (op_error + 'a)" where
  "transaction env unavailable db body =
     (case oe_connect env of
        Some e \<Rightarrow> (db, Inl e)
      | None \<Rightarrow>
          if \<not> oe_storage env then (db, Inl unavailable)
          else (case body db of Inl e \<Rightarrow> (db, Inl e) | Inr (db', a) \<Rightarrow> (db', Inr a)))"

definition set_operation :: "(op_row \<Rightarrow> op_row) \<Rightarrow> op_db \<Rightarrow> op_db" where
  "set_operation f db = db\<lparr>od_operation := map (\<lambda>row. if or_id row = 1 then f row else row) (od_operation db)\<rparr>"

definition set_reconciled :: "op_db \<Rightarrow> op_db" where
  "set_reconciled = set_operation (\<lambda>row. row\<lparr>or_outcome := CText ''RECONCILED_POSTCONDITION''\<rparr>)"

definition set_delivered :: "string \<Rightarrow> string \<Rightarrow> op_db \<Rightarrow> op_db" where
  "set_delivered name sha =
     set_operation (\<lambda>row. row\<lparr>or_outcome := CText ''DELIVERED_RECEIPT'', or_receipt := CText name, or_receipt_sha := CText sha\<rparr>)"

definition set_generation :: "int \<Rightarrow> op_db \<Rightarrow> op_db" where
  "set_generation g = set_operation (\<lambda>row. row\<lparr>or_generation := CInt g\<rparr>)"

definition set_attempted :: "int \<Rightarrow> op_db \<Rightarrow> op_db" where
  "set_attempted n db =
     db\<lparr>od_permissions := map (\<lambda>row. if pr_ordinal row = n then row\<lparr>pr_attempted := CInt 1\<rparr> else row) (od_permissions db)\<rparr>"

section \<open>Authorising\<close>

record permission =
  pm_ordinal :: int
  pm_nonce :: string
  pm_generation :: int
  pm_binding :: string

definition operation_session :: "codec \<Rightarrow> ws_operation \<Rightarrow> string" where
  "operation_session C op = take 32 (binding_sha C op)"

text \<open>A fresh decision of the guard, and the expiry of the sources.\<close>

definition fresh_policy_allows :: "codec \<Rightarrow> op_env \<Rightarrow> ws_operation \<Rightarrow> nat \<Rightarrow> bool" where
  "fresh_policy_allows C env op ordinal \<longleftrightarrow>
     (case decide_text C (wo_policy op) (wb_artifact (wo_binding op)) (wo_content op)
             (call_name (operation_session C op) ordinal) (operation_session C op) (oe_now env) of
        Inl _ \<Rightarrow> False
      | Inr d \<Rightarrow> gd_disposition d = Allow \<and> \<not> source_expired (wo_policy op) (oe_later env))"

definition perm_generation_of :: "perm_row \<Rightarrow> int" where
  "perm_generation_of row = (case pr_generation row of CInt g \<Rightarrow> g | _ \<Rightarrow> 0)"

definition fence_needed :: "int \<Rightarrow> perm_row list \<Rightarrow> bool" where
  "fence_needed generation perms \<longleftrightarrow> perms \<noteq> [] \<and> generation \<le> perm_generation_of (last perms)"

definition authorize_body :: "host \<Rightarrow> op_env \<Rightarrow> ws_operation \<Rightarrow> file_system \<Rightarrow> op_db \<Rightarrow> op_error + op_db \<times> permission" where
  "authorize_body H env op F db =
     (let C = hs_codec H
      in res_bind (validate_state C op env db) (\<lambda>(spent, generation, out).
         let ordinal = int spent + 1; nonce = perm_nonce C op ordinal
         in raise_first
              [(out \<noteq> None, ''operation_completed''),
               (int spent \<ge> wo_max op, ''budget_exhausted''),
               (fence_needed generation (od_permissions db), ''fence_required''),
               (file_state_for C (oe_root env) op F \<noteq> FileAbsent, ''target_not_absent''),
               (\<not> oe_admitted env, ''source_or_history_not_admitted''),
               (\<not> fresh_policy_allows C env op (spent + 1), ''fresh_policy_denied''),
               (CText nonce \<in> set (map pr_nonce (od_permissions db)), ''state_storage_unavailable'')]
              (db\<lparr>od_permissions := od_permissions db @
                   [\<lparr>pr_ordinal = ordinal, pr_nonce = CText nonce, pr_generation = CInt generation,
                     pr_binding = CText (binding_sha C op), pr_consumed = CInt 1, pr_attempted = CInt 0\<rparr>]\<rparr>,
               \<lparr>pm_ordinal = ordinal, pm_nonce = nonce, pm_generation = generation, pm_binding = binding_sha C op\<rparr>)))"

definition authorize :: "host \<Rightarrow> op_env \<Rightarrow> ws_operation \<Rightarrow> file_system \<Rightarrow> op_db \<Rightarrow> op_db \<times> (op_error + permission)" where
  "authorize H env op F db = transaction env ''state_storage_unavailable'' db (authorize_body H env op F)"

section \<open>Delivering\<close>

text \<open>\<open>_permission_row\<close>: the generation of the stored permission and whether it was attempted.\<close>

definition permission_typed :: "permission \<Rightarrow> bool" where
  "permission_typed pm \<longleftrightarrow> 1 \<le> pm_ordinal pm \<and> pm_ordinal pm \<le> 32 \<and> 0 \<le> pm_generation pm \<and> pm_generation pm \<le> 32
     \<and> sha256_text (pm_nonce pm) \<and> sha256_text (pm_binding pm)"

definition permission_row :: "codec \<Rightarrow> ws_operation \<Rightarrow> op_db \<Rightarrow> permission \<Rightarrow> op_error + int \<times> bool" where
  "permission_row C op db pm =
     (if \<not> permission_typed pm then Inl ''invalid_permission''
      else
        (case find (\<lambda>row. pr_ordinal row = pm_ordinal pm \<and> pr_nonce row = CText (pm_nonce pm)
                      \<and> pr_binding row = CText (pm_binding pm) \<and> cell_is_int (pr_consumed row) 1) (od_permissions db) of
           None \<Rightarrow> Inl ''permission_not_consumed''
         | Some row \<Rightarrow>
             if \<not> cell_is_int (pr_generation row) (pm_generation pm) \<or> pm_binding pm \<noteq> binding_sha C op
             then Inl ''permission_not_consumed''
             else Inr (pm_generation pm, \<not> cell_is_int (pr_attempted row) 0)))"

text \<open>The first transaction: either the retained outcome, or the durable reservation of the attempt (\<open>None\<close>).\<close>

definition reserve_body :: "host \<Rightarrow> op_env \<Rightarrow> ws_operation \<Rightarrow> permission \<Rightarrow> file_system \<Rightarrow> op_db
    \<Rightarrow> op_error + op_db \<times> op_result option" where
  "reserve_body H env op pm F db =
     (let C = hs_codec H
      in res_bind (validate_state C op env db) (\<lambda>(spent, generation, out).
         res_bind (permission_row C op db pm) (\<lambda>(perm_generation, attempted).
         if perm_generation \<noteq> generation then Inl ''stale_generation''
         else
           (case out of
              Some out' \<Rightarrow> res_bind (retained_result H env op F spent generation out') (\<lambda>r. Inr (db, Some r))
            | None \<Rightarrow>
                if attempted then Inl ''outcome_less_replay''
                else Inr (set_attempted (pm_ordinal pm) db, None)))))"

definition reserve :: "host \<Rightarrow> op_env \<Rightarrow> ws_operation \<Rightarrow> permission \<Rightarrow> file_system \<Rightarrow> op_db
    \<Rightarrow> op_db \<times> (op_error + op_result option)" where
  "reserve H env op pm F db = transaction env ''delivery_unavailable'' db (reserve_body H env op pm F)"

text \<open>The writer's answer: a receipt that is complete, bound, durable and verified, or what makes it uncertain.\<close>

datatype receipt_check = ReceiptOk string string json | ReceiptUncertain string | ReceiptError

definition without_timing :: "(string \<times> json) list \<Rightarrow> (string \<times> json) list" where
  "without_timing r = filter (\<lambda>(k, v). k \<noteq> ''timing_ms'') r"

definition returned_complete :: "ws_operation \<Rightarrow> (string \<times> json) list \<Rightarrow> bool" where
  "returned_complete op r \<longleftrightarrow>
     obj_get r ''applied'' = Some (JBool True) \<and> obj_get r ''reason'' = Some (JStr ''write_completed'')
     \<and> obj_get r ''receipt_complete'' = Some (JBool True)
     \<and> obj_get r ''output_sha256'' = Some (JStr (wb_payload_sha (wo_binding op)))"

definition check_receipt :: "host \<Rightarrow> op_env \<Rightarrow> ws_operation \<Rightarrow> file_system \<Rightarrow> (string \<times> json) list \<Rightarrow> receipt_check" where
  "check_receipt H env op F returned =
     (if file_state_for (hs_codec H) (oe_root env) op F \<noteq> FileExact then ReceiptUncertain ''writer_effect_uncertain''
      else if \<not> returned_complete op returned then ReceiptUncertain ''writer_receipt_uncertain''
      else
        (case get_str returned ''receipt'' of
           None \<Rightarrow> ReceiptUncertain ''writer_receipt_uncertain''
         | Some name \<Rightarrow>
             if \<not> receipt_name_ok name then ReceiptUncertain ''writer_receipt_uncertain''
             else
               (case read_file F (join_path (wp_dir (wo_policy op)) name) 16384 of
                  Inl _ \<Rightarrow> ReceiptError
                | Inr raw \<Rightarrow>
                    let persisted = JObj (without_timing returned)
                    in if obj_get returned ''timing_ms'' = None then ReceiptUncertain ''writer_receipt_uncertain''
                       else (case load_bytes (hs_codec H) raw of
                               None \<Rightarrow> ReceiptError
                             | Some v \<Rightarrow>
                                 if \<not> py_eq v persisted \<or> \<not> receipt_bound op persisted \<or> \<not> verified_receipt H env op F name
                                 then ReceiptUncertain ''writer_receipt_uncertain''
                                 else ReceiptOk name (ws_sha (hs_codec H) raw) persisted))))"

text \<open>The call of the guarded workspace: what it created, and its result, or that it could not be opened.\<close>

definition call_writer :: "host \<Rightarrow> op_env \<Rightarrow> ws_operation \<Rightarrow> file_system \<Rightarrow> creation list \<times> (string \<times> json) list option" where
  "call_writer H env op F =
     (case ws_canonical (hs_codec H) (write_proposal (wb_artifact (wo_binding op)) (wo_content op)) of
        Inl _ \<Rightarrow> ([], None)
      | Inr proposal \<Rightarrow>
          (case open_workspace (hs_codec H) (hs_casefold H) (oe_root1 env) (oe_root2 env) (wo_policy op) (oe_session env) of
             Inl _ \<Rightarrow> ([], None)
           | Inr g \<Rightarrow>
               (case submit_text (hs_codec H) (oe_submit env) (oe_timing env) g F proposal of
                  (g', cs, returned) \<Rightarrow> (cs, Some returned))))"

definition settle :: "host \<Rightarrow> op_env \<Rightarrow> ws_operation \<Rightarrow> file_system \<Rightarrow> op_db \<Rightarrow> nat \<Rightarrow> int \<Rightarrow> (string \<times> json) list option
    \<Rightarrow> op_error + op_db \<times> op_result" where
  "settle H env op F db spent generation returned =
     (case returned of
        None \<Rightarrow> Inl ''delivery_unavailable''
      | Some r \<Rightarrow>
          (case check_receipt H env op F r of
             ReceiptError \<Rightarrow> Inl ''delivery_unavailable''
           | ReceiptUncertain reason \<Rightarrow> Inr (db, plain_result ''UNKNOWN'' spent generation reason)
           | ReceiptOk name sha persisted \<Rightarrow>
               Inr (set_delivered name sha db,
                    (plain_result ''DELIVERED_RECEIPT'' spent generation ''writer_receipt_durable'')\<lparr>rs_receipt := Some persisted\<rparr>)))"

text \<open>
  The second transaction up to the writer: an answer without a call (\<open>Inl\<close>), or the numbers of spent
  permissions and of the generation under which the writer is called.
\<close>

definition reconciled_result :: "nat \<Rightarrow> int \<Rightarrow> op_result" where
  "reconciled_result spent generation =
     plain_result ''RECONCILED_POSTCONDITION'' spent generation ''exact_retained_postcondition_not_original_receipt''"

definition before_write :: "host \<Rightarrow> op_env \<Rightarrow> ws_operation \<Rightarrow> permission \<Rightarrow> file_system \<Rightarrow> op_db
    \<Rightarrow> (op_error + op_db \<times> op_result) + nat \<times> int" where
  "before_write H env op pm F db =
     (let C = hs_codec H
      in case validate_state C op env db of
           Inl e \<Rightarrow> Inl (Inl e)
         | Inr (spent, generation, out) \<Rightarrow>
             (case permission_row C op db pm of
                Inl e \<Rightarrow> Inl (Inl e)
              | Inr _ \<Rightarrow>
                  if pm_generation pm \<noteq> generation then Inl (Inl ''stale_generation'')
                  else
                    (case out of
                       Some out' \<Rightarrow> Inl (res_bind (retained_result H env op F spent generation out') (\<lambda>r. Inr (db, r)))
                     | None \<Rightarrow>
                         (case file_state_for C (oe_root env) op F of
                            FileExact \<Rightarrow> Inl (Inr (set_reconciled db, reconciled_result spent generation))
                          | FileAbsent \<Rightarrow>
                              if oe_admitted env then Inr (spent, generation) else Inl (Inl ''source_or_history_not_admitted'')
                          | _ \<Rightarrow> Inl (Inr (db, plain_result ''UNKNOWN'' spent generation ''target_uncertain''))))))"

text \<open>The second transaction; the files that the writer created stay when it is rolled back.\<close>

definition deliver_reserved :: "host \<Rightarrow> op_env \<Rightarrow> ws_operation \<Rightarrow> permission \<Rightarrow> file_system \<Rightarrow> op_db
    \<Rightarrow> op_db \<times> creation list \<times> (op_error + op_result)" where
  "deliver_reserved H env op pm F db =
     (case oe_connect env of
        Some e \<Rightarrow> (db, [], Inl e)
      | None \<Rightarrow>
          (case before_write H env op pm F db of
             Inl (Inl e) \<Rightarrow> (db, [], Inl e)
           | Inl (Inr (db', r)) \<Rightarrow> if oe_storage env then (db', [], Inr r) else (db, [], Inl ''delivery_unavailable'')
           | Inr (spent, generation) \<Rightarrow>
               (case call_writer H env op F of
                  (cs, returned) \<Rightarrow>
                    (case settle H env op (create_all F cs) db spent generation returned of
                       Inl e \<Rightarrow> (db, cs, Inl e)
                     | Inr (db', r) \<Rightarrow> if oe_storage env then (db', cs, Inr r) else (db, cs, Inl ''delivery_unavailable'')))))"

text \<open>\<open>deliver\<close>: both transactions, each with the answers and the file system it meets.\<close>

definition deliver :: "host \<Rightarrow> op_env \<Rightarrow> op_env \<Rightarrow> ws_operation \<Rightarrow> permission \<Rightarrow> file_system \<Rightarrow> file_system \<Rightarrow> op_db
    \<Rightarrow> op_db \<times> creation list \<times> (op_error + op_result)" where
  "deliver H env1 env2 op pm F1 F2 db =
     (case reserve H env1 op pm F1 db of
        (db1, Inl e) \<Rightarrow> (db1, [], Inl e)
      | (db1, Inr (Some r)) \<Rightarrow> (db1, [], Inr r)
      | (db1, Inr None) \<Rightarrow> deliver_reserved H env2 op pm F2 db1)"

section \<open>Reconciling and fencing\<close>

definition reconcile_body :: "host \<Rightarrow> op_env \<Rightarrow> ws_operation \<Rightarrow> file_system \<Rightarrow> op_db \<Rightarrow> op_error + op_db \<times> op_result" where
  "reconcile_body H env op F db =
     (let C = hs_codec H
      in res_bind (validate_state C op env db) (\<lambda>(spent, generation, out).
         case out of
           Some out' \<Rightarrow> res_bind (retained_result H env op F spent generation out') (\<lambda>r. Inr (db, r))
         | None \<Rightarrow>
             if spent = 0 then Inr (db, plain_result ''UNKNOWN'' spent generation ''no_prior_spend'')
             else if file_state_for C (oe_root env) op F = FileExact
             then Inr (set_reconciled db, reconciled_result spent generation)
             else Inr (db, plain_result ''UNKNOWN'' spent generation ''target_not_exact'')))"

definition reconcile :: "host \<Rightarrow> op_env \<Rightarrow> ws_operation \<Rightarrow> file_system \<Rightarrow> op_db \<Rightarrow> op_db \<times> (op_error + op_result)" where
  "reconcile H env op F db = transaction env ''state_storage_unavailable'' db (reconcile_body H env op F)"

definition fence_body :: "host \<Rightarrow> op_env \<Rightarrow> ws_operation \<Rightarrow> file_system \<Rightarrow> op_db \<Rightarrow> op_error + op_db \<times> op_result" where
  "fence_body H env op F db =
     (let C = hs_codec H
      in res_bind (validate_state C op env db) (\<lambda>(spent, generation, out).
         case out of
           Some out' \<Rightarrow> res_bind (retained_result H env op F spent generation out') (\<lambda>r. Inr (db, r))
         | None \<Rightarrow>
             let st = file_state_for C (oe_root env) op F
             in if st = FileExact \<and> spent \<noteq> 0 then Inr (set_reconciled db, reconciled_result spent generation)
                else if st \<noteq> FileAbsent then Inr (db, plain_result ''UNKNOWN'' spent generation ''target_uncertain'')
                else if spent = 0 then Inr (db, plain_result ''UNKNOWN'' spent generation ''no_prior_spend'')
                else if generation \<ge> 32 then Inr (db, plain_result ''UNKNOWN'' spent generation ''generation_exhausted'')
                else Inr (set_generation (generation + 1) db,
                          plain_result ''FENCED_ABSENT'' spent (generation + 1) ''serialized_absence_fence'')))"

definition fence :: "host \<Rightarrow> op_env \<Rightarrow> ws_operation \<Rightarrow> file_system \<Rightarrow> op_db \<Rightarrow> op_db \<times> (op_error + op_result)" where
  "fence H env op F db = transaction env ''state_storage_unavailable'' db (fence_body H env op F)"

section \<open>Creating and opening\<close>

text \<open>\<open>[A-Za-z0-9][A-Za-z0-9._:-]{0,127}\<close>\<close>

definition operation_id_char :: "char \<Rightarrow> bool" where
  "operation_id_char c \<longleftrightarrow> is_lower_alpha c \<or> is_upper_alpha c \<or> is_digit c \<or> c \<in> set ''._:-''"

fun operation_id_ok :: "string \<Rightarrow> bool" where
  "operation_id_ok [] = False"
| "operation_id_ok (c # cs) \<longleftrightarrow>
     (is_lower_alpha c \<or> is_upper_alpha c \<or> is_digit c) \<and> list_all operation_id_char cs \<and> length cs \<le> 127"

definition path_name :: "string \<Rightarrow> string" where
  "path_name p = rev (takeWhile (\<lambda>c. c \<noteq> CHR ''/'') (rev p))"

definition inside :: "string \<Rightarrow> string \<Rightarrow> bool" where
  "inside dir p \<longleftrightarrow> p = dir \<or> dir = ''/'' \<or> starts_with p (dir @ ''/'')"

record op_request =
  rq_state :: string
  rq_operation :: string
  rq_artifact :: string
  rq_content :: string
  rq_max :: int

text \<open>
  \<open>_inputs\<close>: \<open>check\<close> is whether \<open>policy.check()\<close> returns, \<open>dir\<close> the device and inode of the output directory,
  \<open>parent\<close> whether the directory of the state is a checked one.
\<close>

definition operation_key :: "codec \<Rightarrow> ws_policy \<Rightarrow> op_request \<Rightarrow> string" where
  "operation_key C p rq = ws_sha C (ws_json C (JArr [JStr (rq_operation rq), JStr (wp_dir p), JStr (rq_artifact rq)]))"

definition bind_request :: "codec \<Rightarrow> ws_policy \<Rightarrow> op_request \<Rightarrow> int \<times> int \<Rightarrow> string option \<Rightarrow> ws_binding" where
  "bind_request C p rq dir digest =
     \<lparr>wb_operation = rq_operation rq, wb_payload_sha = ws_sha C (rq_content rq),
      wb_payload_length = int (length (rq_content rq)), wb_root = wp_dir p, wb_device = fst dir, wb_inode = snd dir,
      wb_filename = the (map_of (wp_outputs p) (rq_artifact rq)), wb_artifact = rq_artifact rq,
      wb_policy = ws_policy_sha256 C p, wb_key = operation_key C p rq, wb_admission = digest\<rparr>"

definition op_request_ok :: "(string \<Rightarrow> string) \<Rightarrow> ws_policy \<Rightarrow> op_request \<Rightarrow> bool" where
  "op_request_ok abspath p rq \<longleftrightarrow>
     starts_with (rq_state rq) ''/'' \<and> operation_id_ok (rq_operation rq) \<and> rq_artifact rq \<in> set (output_names p)
     \<and> 1 \<le> rq_max rq \<and> rq_max rq \<le> 32 \<and> filename_ok (path_name (rq_state rq))
     \<and> filename_ok (path_name (abspath (rq_state rq))) \<and> encodable (rq_content rq) \<and> rq_content rq \<noteq> []
     \<and> int (length (rq_content rq)) \<le> wp_max_bytes p \<and> CHR 0x00 \<notin> set (rq_content rq)"

definition operation_inputs :: "host \<Rightarrow> bool \<Rightarrow> (int \<times> int) option \<Rightarrow> bool \<Rightarrow> (op_error + string option) \<Rightarrow> ws_policy \<Rightarrow> op_request
    \<Rightarrow> op_error + ws_operation" where
  "operation_inputs H check dir parent digest p rq =
     res_bind (ensure (op_request_ok (hs_abspath H) p rq) ''invalid_host_input'') (\<lambda>_.
     case dir of
       None \<Rightarrow> Inl ''path_or_policy_unavailable''
     | Some ids \<Rightarrow>
         res_bind (ensure (check \<and> parent) ''path_or_policy_unavailable'') (\<lambda>_.
         res_bind (ensure (\<not> inside (wp_dir p) (hs_abspath H (rq_state rq))) ''state_inside_workspace'') (\<lambda>_.
         res_bind digest (\<lambda>d.
         Inr \<lparr>wo_policy = p, wo_binding = bind_request (hs_codec H) p rq ids d, wo_content = rq_content rq,
              wo_max = rq_max rq\<rparr>))))"

text \<open>The database that \<open>create\<close> commits, and \<open>create\<close> itself for a state path that does or does not exist.\<close>

definition created_db :: "codec \<Rightarrow> ws_operation \<Rightarrow> op_db" where
  "created_db C op =
     \<lparr>od_objects = map (\<lambda>(name, sql). (name, ''table'', sql)) table_sql, od_columns = table_columns,
      od_operation = [\<lparr>or_id = 1, or_binding = CText (binding_json C op), or_sha = CText (binding_sha C op),
        or_max = CInt (wo_max op), or_absent = CInt 1, or_generation = CInt 0, or_outcome = CNull, or_receipt = CNull,
        or_receipt_sha = CNull\<rparr>],
      od_permissions = [], od_intact = True\<rparr>"

definition create_operation :: "host \<Rightarrow> op_env \<Rightarrow> bool \<Rightarrow> bool \<Rightarrow> file_system \<Rightarrow> ws_policy \<Rightarrow> op_request
    \<Rightarrow> op_error + ws_operation \<times> op_db" where
  "create_operation H env parent present F p rq =
     res_bind (operation_inputs H (oe_check env) (oe_root env) parent (oe_digest env) p rq) (\<lambda>op.
     res_bind (ensure (\<not> present) ''state_already_exists'') (\<lambda>_.
     res_bind (ensure (file_state_for (hs_codec H) (oe_root env) op F = FileAbsent) ''new_operation_requires_absence'') (\<lambda>_.
     res_bind (ensure (oe_connect env = None \<and> oe_storage env) ''state_create_unavailable'') (\<lambda>_.
     Inr (op, created_db (hs_codec H) op)))))"

definition open_operation :: "host \<Rightarrow> op_env \<Rightarrow> bool \<Rightarrow> ws_policy \<Rightarrow> op_request \<Rightarrow> op_db \<Rightarrow> op_error + ws_operation" where
  "open_operation H env parent p rq db =
     res_bind (operation_inputs H (oe_check env) (oe_root env) parent (oe_digest env) p rq) (\<lambda>op.
     case oe_connect env of
       Some e \<Rightarrow> Inl e
     | None \<Rightarrow>
         res_bind (ensure (oe_storage env) ''state_open_unavailable'') (\<lambda>_.
         res_bind (validate_state (hs_codec H) op env db) (\<lambda>_. Inr op)))"

end
