(* ===== verification/Workspace_Protocol.thy ===== *)
theory Workspace_Protocol
  imports Workspace_Operation
begin

text \<open>
  The state machine of a workspace operation. A world is the database, the file system, the permissions
  whose first transaction has been committed by a process that has not yet finished, and the ordinals
  for which the writer has been called. A step is one transaction of any process with any answers from outside, the
  end of a process between its transactions or inside the writer, or a change of the files by others.
\<close>

section \<open>Worlds and steps\<close>

record world =
  wd_db :: op_db
  wd_files :: file_system
  wd_reserved :: "permission list"
  wd_calls :: "int list"

definition created_world :: "codec \<Rightarrow> ws_operation \<Rightarrow> file_system \<Rightarrow> world" where
  "created_world C op F = \<lparr>wd_db = created_db C op, wd_files = F, wd_reserved = [], wd_calls = []\<rparr>"

text \<open>What an interrupted writer leaves: some of its creations, the last one perhaps cut short.\<close>

definition interrupted :: "creation list \<Rightarrow> creation list \<Rightarrow> bool" where
  "interrupted cs cs' \<longleftrightarrow>
     (\<exists>k n. cs' = take k cs \<or> (k < length cs \<and> cs' = take k cs @ [(fst (cs ! k), take n (snd (cs ! k)))]))"

text \<open>The second transaction reaches the writer.\<close>

definition writer_called :: "host \<Rightarrow> op_env \<Rightarrow> ws_operation \<Rightarrow> permission \<Rightarrow> file_system \<Rightarrow> op_db \<Rightarrow> bool" where
  "writer_called H env op pm F db \<longleftrightarrow>
     oe_connect env = None \<and> (case before_write H env op pm F db of Inr _ \<Rightarrow> True | Inl _ \<Rightarrow> False)"

inductive op_step :: "host \<Rightarrow> ws_operation \<Rightarrow> world \<Rightarrow> world \<Rightarrow> bool" for H op where
  step_authorize:
    "authorize H env op (wd_files w) (wd_db w) = (db, r) \<Longrightarrow> op_step H op w (w\<lparr>wd_db := db\<rparr>)"
| step_reserve:
    "reserve H env op pm (wd_files w) (wd_db w) = (db, Inr None) \<Longrightarrow>
       op_step H op w (w\<lparr>wd_db := db, wd_reserved := pm # wd_reserved w\<rparr>)"
| step_refused:
    "reserve H env op pm (wd_files w) (wd_db w) = (db, r) \<Longrightarrow> r \<noteq> Inr None \<Longrightarrow> op_step H op w (w\<lparr>wd_db := db\<rparr>)"
| step_deliver:
    "pm \<in> set (wd_reserved w) \<Longrightarrow> deliver_reserved H env op pm (wd_files w) (wd_db w) = (db, cs, r) \<Longrightarrow>
       op_step H op w (w\<lparr>wd_db := db, wd_files := create_all (wd_files w) cs, wd_reserved := remove1 pm (wd_reserved w),
         wd_calls := (if writer_called H env op pm (wd_files w) (wd_db w) then pm_ordinal pm # wd_calls w else wd_calls w)\<rparr>)"
| step_interrupted:
    "pm \<in> set (wd_reserved w) \<Longrightarrow> writer_called H env op pm (wd_files w) (wd_db w) \<Longrightarrow>
     call_writer H env op (wd_files w) = (cs, returned) \<Longrightarrow> interrupted cs cs' \<Longrightarrow>
       op_step H op w (w\<lparr>wd_files := create_all (wd_files w) cs', wd_reserved := remove1 pm (wd_reserved w),
         wd_calls := pm_ordinal pm # wd_calls w\<rparr>)"
| step_lost:
    "pm \<in> set (wd_reserved w) \<Longrightarrow> op_step H op w (w\<lparr>wd_reserved := remove1 pm (wd_reserved w)\<rparr>)"
| step_reconcile:
    "reconcile H env op (wd_files w) (wd_db w) = (db, r) \<Longrightarrow> op_step H op w (w\<lparr>wd_db := db\<rparr>)"
| step_fence:
    "fence H env op (wd_files w) (wd_db w) = (db, r) \<Longrightarrow> op_step H op w (w\<lparr>wd_db := db\<rparr>)"
| step_files:
    "op_step H op w (w\<lparr>wd_files := F\<rparr>)"

inductive op_run :: "host \<Rightarrow> ws_operation \<Rightarrow> world \<Rightarrow> world \<Rightarrow> bool" for H op where
  run_start: "op_run H op w w"
| run_step: "op_run H op w v \<Longrightarrow> op_step H op v u \<Longrightarrow> op_run H op w u"

inductive_cases op_stepE: "op_step H op w v"

section \<open>Valid databases\<close>

text \<open>What \<open>_validate\<close> checks of the database, apart from the answer of the admission.\<close>

definition db_valid :: "codec \<Rightarrow> ws_operation \<Rightarrow> op_db \<Rightarrow> int \<Rightarrow> op_outcome option \<Rightarrow> bool" where
  "db_valid C op db g out \<longleftrightarrow>
     op_schema_ok db \<and> od_intact db \<and> int (length (od_permissions db)) \<le> wo_max op
     \<and> perm_rows_ok C op g 1 (od_permissions db)
     \<and> (\<exists>row. od_operation db = [row] \<and> op_row_ok C op row = Some g
          \<and> stored_outcome (length (od_permissions db)) (or_outcome row) (or_receipt row) (or_receipt_sha row) = Inr out)"

lemma validate_state_iff:
  "validate_state C op env db = Inr (spent, g, out) \<longleftrightarrow>
     oe_digest env = Inr (wb_admission (wo_binding op)) \<and> spent = length (od_permissions db) \<and> db_valid C op db g out"
proof -
  consider "od_operation db = []" | row where "od_operation db = [row]" | r s t where "od_operation db = r # s # t"
    by (cases "od_operation db" rule: list.exhaust; metis list.exhaust)
  then show ?thesis
    by cases (auto simp: validate_state_def db_valid_def Let_def split: option.splits)
qed

lemma created_valid:
  assumes "0 \<le> wo_max op"
  shows "db_valid C op (created_db C op) 0 None"
proof -
  have schema: "op_schema_ok (created_db C op)"
    unfolding op_schema_ok_def created_db_def
    by (simp add: table_sql_def table_columns_def) code_simp
  with assms show ?thesis
    by (simp add: db_valid_def created_db_def op_row_ok_def)
qed

lemma transaction_cases:
  assumes "transaction env u db body = (db', r)"
  shows "db' = db \<and> (\<exists>e. r = Inl e) \<or> (\<exists>a. body db = Inr (db', a) \<and> r = Inr a)"
  using assms by (cases "body db") (auto simp: transaction_def split: option.splits if_splits)

section \<open>How the statements change a valid database\<close>

lemma perm_rows_ok_append:
  "perm_rows_ok C op g n (rows @ rows') \<longleftrightarrow> perm_rows_ok C op g n rows \<and> perm_rows_ok C op g (n + int (length rows)) rows'"
  by (induction rows arbitrary: n) (auto simp: algebra_simps)

lemma perm_rows_ok_mono:
  "perm_rows_ok C op g n rows \<Longrightarrow> g \<le> g' \<Longrightarrow> perm_rows_ok C op g' n rows"
  by (induction rows arbitrary: n) (auto simp: perm_row_ok_def split: cell.splits)

lemma perm_rows_ok_ordinals:
  "perm_rows_ok C op g n rows \<Longrightarrow> row \<in> set rows \<Longrightarrow> n \<le> pr_ordinal row \<and> pr_ordinal row < n + int (length rows)"
proof (induction rows arbitrary: n)
  case (Cons x rows)
  from Cons.prems(1) have x: "pr_ordinal x = n" "perm_rows_ok C op g (n + 1) rows" by (auto simp: perm_row_ok_def)
  from Cons.prems(2) have "row = x \<or> row \<in> set rows" by simp
  with Cons.IH [OF x(2)] x(1) show ?case by fastforce
qed simp

lemma perm_rows_ok_unique:
  assumes "perm_rows_ok C op g n rows" "r \<in> set rows" "s \<in> set rows" "pr_ordinal r = pr_ordinal s"
  shows "r = s"
  using assms
proof (induction rows arbitrary: n)
  case (Cons x rows)
  have x: "pr_ordinal x = n" "perm_rows_ok C op g (n + 1) rows" using Cons.prems(1) by (auto simp: perm_row_ok_def)
  have later: "pr_ordinal y \<noteq> pr_ordinal x" if "y \<in> set rows" for y
    using perm_rows_ok_ordinals [OF x(2) that] x(1) by simp
  have both: "r \<in> set rows \<Longrightarrow> s \<in> set rows \<Longrightarrow> r = s"
    using Cons.IH [OF x(2)] Cons.prems(4) by blast
  from Cons.prems(2,3) have "r = x \<or> r \<in> set rows" "s = x \<or> s \<in> set rows" by auto
  then show ?case
    using both later [of r] later [of s] Cons.prems(4) by (elim disjE) metis+
qed simp

lemma perm_rows_ok_attempt:
  "perm_rows_ok C op g n rows \<Longrightarrow>
     perm_rows_ok C op g n (map (\<lambda>row. if pr_ordinal row = m then row\<lparr>pr_attempted := CInt 1\<rparr> else row) rows)"
  by (induction rows arbitrary: n) (auto simp: perm_row_ok_def)

text \<open>The row of the operation after an update of it.\<close>

lemma set_operation_row:
  assumes "od_operation db = [row]" "or_id row = 1"
  shows "od_operation (set_operation f db) = [f row]" "od_permissions (set_operation f db) = od_permissions db"
    "op_schema_ok (set_operation f db) = op_schema_ok db" "od_intact (set_operation f db) = od_intact db"
  using assms by (simp_all add: set_operation_def op_schema_ok_def)

lemma op_row_ok_iff:
  "op_row_ok C op row = Some g \<longleftrightarrow>
     or_id row = 1 \<and> or_binding row = CText (binding_json C op) \<and> or_sha row = CText (binding_sha C op)
     \<and> cell_is_int (or_max row) (wo_max op) \<and> cell_is_int (or_absent row) 1 \<and> or_generation row = CInt g \<and> 0 \<le> g \<and> g \<le> 32"
  by (cases "or_generation row") (auto simp: op_row_ok_def split: if_splits)

lemma op_row_ok_id: "op_row_ok C op row = Some g \<Longrightarrow> or_id row = 1"
  by (simp add: op_row_ok_iff)

lemma stored_outcome_None:
  assumes "stored_outcome n a b c = Inr None"
  shows "a = CNull" "b = CNull" "c = CNull"
  using assms by (cases a; auto split: if_splits cell.splits)+

lemma db_valid_reconciled:
  assumes "db_valid C op db g None" "od_permissions db \<noteq> []"
  shows "db_valid C op (set_reconciled db) g (Some Reconciled)" "od_permissions (set_reconciled db) = od_permissions db"
proof -
  from assms(1) obtain row where row: "od_operation db = [row]" "op_row_ok C op row = Some g"
    "stored_outcome (length (od_permissions db)) (or_outcome row) (or_receipt row) (or_receipt_sha row) = Inr None"
    by (auto simp: db_valid_def)
  note out = stored_outcome_None [OF row(3)]
  note s = set_operation_row [OF row(1) op_row_ok_id [OF row(2)]]
  have "op_row_ok C op (row\<lparr>or_outcome := CText ''RECONCILED_POSTCONDITION''\<rparr>) = Some g"
    using row(2) by (simp add: op_row_ok_iff)
  with assms out s show "db_valid C op (set_reconciled db) g (Some Reconciled)"
    by (simp add: db_valid_def set_reconciled_def)
  show "od_permissions (set_reconciled db) = od_permissions db" by (simp add: set_reconciled_def s)
qed

lemma db_valid_delivered:
  assumes "db_valid C op db g None" "od_permissions db \<noteq> []" "receipt_name_ok name" "sha256_text sha"
  shows "db_valid C op (set_delivered name sha db) g (Some (Delivered name sha))"
    "od_permissions (set_delivered name sha db) = od_permissions db"
proof -
  from assms(1) obtain row where row: "od_operation db = [row]" "op_row_ok C op row = Some g"
    by (auto simp: db_valid_def)
  note s = set_operation_row [OF row(1) op_row_ok_id [OF row(2)]]
  have "op_row_ok C op (row\<lparr>or_outcome := CText ''DELIVERED_RECEIPT'', or_receipt := CText name, or_receipt_sha := CText sha\<rparr>) = Some g"
    using row(2) by (simp add: op_row_ok_iff)
  with assms s show "db_valid C op (set_delivered name sha db) g (Some (Delivered name sha))"
    by (simp add: db_valid_def set_delivered_def)
  show "od_permissions (set_delivered name sha db) = od_permissions db" by (simp add: set_delivered_def s)
qed

lemma db_valid_fenced:
  assumes "db_valid C op db g None" "g < 32"
  shows "db_valid C op (set_generation (g + 1) db) (g + 1) None"
    "od_permissions (set_generation (g + 1) db) = od_permissions db"
proof -
  from assms(1) obtain row where row: "od_operation db = [row]" "op_row_ok C op row = Some g"
    "stored_outcome (length (od_permissions db)) (or_outcome row) (or_receipt row) (or_receipt_sha row) = Inr None"
    by (auto simp: db_valid_def)
  note s = set_operation_row [OF row(1) op_row_ok_id [OF row(2)]]
  have "op_row_ok C op (row\<lparr>or_generation := CInt (g + 1)\<rparr>) = Some (g + 1)"
    using row(2) assms(2) by (simp add: op_row_ok_iff)
  moreover have "perm_rows_ok C op (g + 1) 1 (od_permissions db)"
    using assms(1) perm_rows_ok_mono [of C op g 1 _ "g + 1"] by (simp add: db_valid_def)
  ultimately show "db_valid C op (set_generation (g + 1) db) (g + 1) None"
    using assms row(3) s by (simp add: db_valid_def set_generation_def)
  show "od_permissions (set_generation (g + 1) db) = od_permissions db" by (simp add: set_generation_def s)
qed

lemma db_valid_authorized:
  assumes "db_valid C op db g None" "perm_row_ok C op g (1 + int (length (od_permissions db))) row"
    "int (length (od_permissions db)) < wo_max op"
  shows "db_valid C op (db\<lparr>od_permissions := od_permissions db @ [row]\<rparr>) g None"
proof -
  from assms(1) obtain orow where row: "od_operation db = [orow]" "op_row_ok C op orow = Some g"
    "stored_outcome (length (od_permissions db)) (or_outcome orow) (or_receipt orow) (or_receipt_sha orow) = Inr None"
    by (auto simp: db_valid_def)
  have out: "stored_outcome n (or_outcome orow) (or_receipt orow) (or_receipt_sha orow) = Inr None" for n
    using stored_outcome_None [OF row(3)] by simp
  have "perm_rows_ok C op g 1 (od_permissions db @ [row])"
    using assms by (simp add: db_valid_def perm_rows_ok_append)
  with assms(1,3) row(1,2) out show ?thesis by (simp add: db_valid_def op_schema_ok_def)
qed

lemma db_valid_attempted:
  assumes "db_valid C op db g out"
  shows "db_valid C op (set_attempted n db) g out"
  using assms perm_rows_ok_attempt [of C op g 1 "od_permissions db" n]
  by (simp add: db_valid_def set_attempted_def op_schema_ok_def)

lemma db_valid_generation: "db_valid C op db g out \<Longrightarrow> 0 \<le> g \<and> g \<le> 32"
  by (auto simp: db_valid_def op_row_ok_iff)

lemma db_valid_unique:
  "db_valid C op db g out \<Longrightarrow> db_valid C op db g' out' \<Longrightarrow> g' = g \<and> out' = out"
  by (auto simp: db_valid_def)

section \<open>The transactions on a valid database\<close>

text \<open>
  Every transaction leaves a valid database: unchanged, with one permission more, with an attempt marked, with
  the next generation, or with an outcome where there was none.
\<close>

definition db_same :: "codec \<Rightarrow> ws_operation \<Rightarrow> op_db \<Rightarrow> op_db \<Rightarrow> bool" where
  "db_same C op db db' \<longleftrightarrow>
     (\<forall>g out. db_valid C op db g out \<longrightarrow> (\<exists>g' out'. db_valid C op db' g' out' \<and> g \<le> g' \<and> (out = None \<or> out' = out)
        \<and> od_permissions db' = od_permissions db))"

lemma db_same_refl [simp]: "db_same C op db db"
  by (auto simp: db_same_def)

lemma db_same_reconciled:
  assumes "db_valid C op db g None" "od_permissions db \<noteq> []"
  shows "db_same C op db (set_reconciled db)"
proof -
  note v = db_valid_reconciled [OF assms]
  show ?thesis
    unfolding db_same_def using v db_valid_unique [OF assms(1)] by fastforce
qed

lemma db_same_delivered:
  assumes "db_valid C op db g None" "od_permissions db \<noteq> []" "receipt_name_ok name" "sha256_text sha"
  shows "db_same C op db (set_delivered name sha db)"
  unfolding db_same_def using db_valid_delivered [OF assms] db_valid_unique [OF assms(1)] by fastforce

lemma db_same_fenced:
  assumes "db_valid C op db g None" "g < 32"
  shows "db_same C op db (set_generation (g + 1) db)"
  unfolding db_same_def using db_valid_fenced [OF assms] db_valid_unique [OF assms(1)] by fastforce

lemma reconcile_same:
  assumes "reconcile H env op F db = (db', r)"
  shows "db_same (hs_codec H) op db db'"
proof -
  from transaction_cases [OF assms [unfolded reconcile_def]] consider "db' = db" | a where "reconcile_body H env op F db = Inr (db', a)"
    by blast
  then show ?thesis
  proof cases
    case 2
    then obtain spent g out where v: "validate_state (hs_codec H) op env db = Inr (spent, g, out)"
      by (auto simp: reconcile_body_def Let_def)
    then have d: "db_valid (hs_codec H) op db g out" "spent = length (od_permissions db)" by (auto simp: validate_state_iff)
    from 2 v d db_same_reconciled show ?thesis
      by (cases out) (auto simp: reconcile_body_def Let_def split: if_splits)
  qed simp
qed

lemma fence_same:
  assumes "fence H env op F db = (db', r)"
  shows "db_same (hs_codec H) op db db'"
proof -
  from transaction_cases [OF assms [unfolded fence_def]] consider "db' = db" | a where "fence_body H env op F db = Inr (db', a)"
    by blast
  then show ?thesis
  proof cases
    case 2
    then obtain spent g out where v: "validate_state (hs_codec H) op env db = Inr (spent, g, out)"
      by (auto simp: fence_body_def Let_def)
    then have d: "db_valid (hs_codec H) op db g out" "spent = length (od_permissions db)" by (auto simp: validate_state_iff)
    show ?thesis
    proof (cases out)
      case None
      with 2 v have "db' = db \<or> spent \<noteq> 0 \<and> db' = set_reconciled db \<or> g < 32 \<and> db' = set_generation (g + 1) db"
        by (auto simp: fence_body_def Let_def split: if_splits)
      with d None db_same_reconciled db_same_fenced show ?thesis by auto
    next
      case (Some x)
      with 2 v show ?thesis by (auto simp: fence_body_def Let_def)
    qed
  qed simp
qed

lemma authorize_cases:
  assumes "authorize H env op F db = (db', r)"
  obtains "db' = db" "\<exists>e. r = Inl e"
  | pm g row where "r = Inr pm" "db_valid (hs_codec H) op db g None" "db_valid (hs_codec H) op db' g None"
      "od_permissions db' = od_permissions db @ [row]" "perm_generation_of row = g" "pr_attempted row = CInt 0"
      "od_permissions db = [] \<or> perm_generation_of (last (od_permissions db)) < g"
      "pm_ordinal pm = int (length (od_permissions db')) " "pm_generation pm = g"
      "file_state_for (hs_codec H) (oe_root env) op F = FileAbsent"
      "fresh_policy_allows (hs_codec H) env op (length (od_permissions db'))"
proof -
  let ?C = "hs_codec H"
  from transaction_cases [OF assms [unfolded authorize_def]]
  consider "db' = db" "\<exists>e. r = Inl e" | pm where "authorize_body H env op F db = Inr (db', pm)" "r = Inr pm"
    by blast
  then show thesis
  proof cases
    case 1
    then show ?thesis by (rule that(1))
  next
    case 2
    then obtain spent g out where v: "validate_state ?C op env db = Inr (spent, g, out)"
      by (auto simp: authorize_body_def Let_def)
    then have d: "db_valid ?C op db g out" and sp: "spent = length (od_permissions db)" by (auto simp: validate_state_iff)
    let ?row = "\<lparr>pr_ordinal = int spent + 1, pr_nonce = CText (perm_nonce ?C op (int spent + 1)), pr_generation = CInt g,
       pr_binding = CText (binding_sha ?C op), pr_consumed = CInt 1, pr_attempted = CInt 0\<rparr>"
    from 2(1) v have f: "out = None" "int spent < wo_max op" "\<not> fence_needed g (od_permissions db)"
      "file_state_for ?C (oe_root env) op F = FileAbsent" "fresh_policy_allows ?C env op (spent + 1)"
      and db': "db' = db\<lparr>od_permissions := od_permissions db @ [?row]\<rparr>"
      and pm: "pm_ordinal pm = int spent + 1" "pm_generation pm = g"
      by (auto simp: authorize_body_def Let_def raise_first_Inr_iff split: if_splits)
    have rowok: "perm_row_ok ?C op g (1 + int (length (od_permissions db))) ?row"
      using db_valid_generation [OF d] sp by (simp add: perm_row_ok_def add.commute)
    have "db_valid ?C op db' g None"
      unfolding db' by (rule db_valid_authorized) (use d f(1,2) rowok sp in simp_all)
    with 2(2) d f db' pm sp show ?thesis
      by (intro that(2) [of pm g ?row]) (auto simp: fence_needed_def perm_generation_of_def add.commute)
  qed
qed

text \<open>A permission that \<open>_permission_row\<close> finds is one of the stored ones.\<close>

lemma permission_row_Inr:
  assumes "permission_row C op db pm = Inr (g, attempted)"
  obtains row where "row \<in> set (od_permissions db)" "pr_ordinal row = pm_ordinal pm" "g = pm_generation pm"
    "cell_is_int (pr_generation row) g" "attempted \<longleftrightarrow> \<not> cell_is_int (pr_attempted row) 0"
proof -
  from assms obtain row where f: "find (\<lambda>row. pr_ordinal row = pm_ordinal pm \<and> pr_nonce row = CText (pm_nonce pm)
      \<and> pr_binding row = CText (pm_binding pm) \<and> cell_is_int (pr_consumed row) 1) (od_permissions db) = Some row"
    and r: "g = pm_generation pm" "cell_is_int (pr_generation row) g" "attempted \<longleftrightarrow> \<not> cell_is_int (pr_attempted row) 0"
    by (auto simp: permission_row_def split: if_splits option.splits)
  from f have "row \<in> set (od_permissions db)" "pr_ordinal row = pm_ordinal pm" by (auto simp: find_Some_iff)
  with r show ?thesis using that by blast
qed

definition attempted :: "op_db \<Rightarrow> int \<Rightarrow> bool" where
  "attempted db n \<longleftrightarrow> (\<exists>row \<in> set (od_permissions db). pr_ordinal row = n \<and> pr_attempted row = CInt 1)"

definition generations :: "op_db \<Rightarrow> int list" where
  "generations db = map perm_generation_of (od_permissions db)"

lemma set_attempted_facts:
  "length (od_permissions (set_attempted n db)) = length (od_permissions db)"
  "generations (set_attempted n db) = generations db"
  "attempted db m \<Longrightarrow> attempted (set_attempted n db) m"
  "row \<in> set (od_permissions db) \<Longrightarrow> pr_ordinal row = n \<Longrightarrow> attempted (set_attempted n db) n"
  by (auto simp: set_attempted_def generations_def attempted_def perm_generation_of_def simp del: if_image_distrib)

lemma reserve_cases:
  assumes "reserve H env op pm F db = (db', r)"
  obtains "db' = db" "r \<noteq> Inr None"
  | g where "r = Inr None" "db_valid (hs_codec H) op db g None" "db' = set_attempted (pm_ordinal pm) db"
      "attempted db' (pm_ordinal pm)" "\<not> attempted db (pm_ordinal pm)" "pm_generation pm = g"
proof -
  let ?C = "hs_codec H"
  from transaction_cases [OF assms [unfolded reserve_def]]
  consider "db' = db" "\<exists>e. r = Inl e" | a where "reserve_body H env op pm F db = Inr (db', a)" "r = Inr a"
    by blast
  then show thesis
  proof cases
    case 1
    then show ?thesis by (intro that(1)) auto
  next
    case 2
    then obtain spent g out pg att where v: "validate_state ?C op env db = Inr (spent, g, out)"
      and pr: "permission_row ?C op db pm = Inr (pg, att)"
      by (auto simp: reserve_body_def Let_def)
    then have d: "db_valid ?C op db g out" by (auto simp: validate_state_iff)
    obtain row where row: "row \<in> set (od_permissions db)" "pr_ordinal row = pm_ordinal pm" "pg = pm_generation pm"
      "att \<longleftrightarrow> \<not> cell_is_int (pr_attempted row) 0"
      by (rule permission_row_Inr [OF pr]) blast
    show ?thesis
    proof (cases out)
      case (Some x)
      with 2 v pr show ?thesis by (intro that(1)) (auto simp: reserve_body_def Let_def split: if_splits)
    next
      case None
      with 2 v pr have e: "pg = g" "\<not> att" "db' = set_attempted (pm_ordinal pm) db" "r = Inr None"
        by (auto simp: reserve_body_def Let_def split: if_splits)
      have rows: "perm_rows_ok ?C op g 1 (od_permissions db)" using d by (simp add: db_valid_def)
      have "\<not> attempted db (pm_ordinal pm)"
      proof
        assume "attempted db (pm_ordinal pm)"
        then obtain s where s: "s \<in> set (od_permissions db)" "pr_ordinal s = pm_ordinal pm" "pr_attempted s = CInt 1"
          by (auto simp: attempted_def)
        with perm_rows_ok_unique [OF rows s(1) row(1)] row(2,4) e(2) show False by simp
      qed
      with e d None row show ?thesis by (intro that(2) [of g]) (auto intro: set_attempted_facts(4))
    qed
  qed
qed

text \<open>The second transaction: it finds a permission, and an outcome ends it before the writer.\<close>

lemma before_write_cases:
  assumes "before_write H env op pm F db = x" "\<And>e. x \<noteq> Inl (Inl e)"
  obtains spent g out where "db_valid (hs_codec H) op db g out" "spent = length (od_permissions db)"
    "od_permissions db \<noteq> []" "pm_generation pm = g"
    "out \<noteq> None \<and> (\<exists>r. x = Inl (Inr (db, r)))
     \<or> out = None \<and> (\<exists>r. x = Inl (Inr (db, r)) \<or> x = Inl (Inr (set_reconciled db, r)))
     \<or> out = None \<and> file_state_for (hs_codec H) (oe_root env) op F = FileAbsent \<and> x = Inr (spent, g)"
proof (cases "validate_state (hs_codec H) op env db")
  case (Inl e)
  with assms show ?thesis by (auto simp: before_write_def Let_def)
next
  case v: (Inr a)
  obtain spent g out where a: "a = (spent, g, out)" by (cases a)
  show ?thesis
  proof (cases "permission_row (hs_codec H) op db pm")
    case (Inl e)
    with v a assms show ?thesis by (auto simp: before_write_def Let_def)
  next
    case (Inr p)
    obtain pg att where "p = (pg, att)" by (cases p)
    with Inr have ne: "od_permissions db \<noteq> []" by (auto elim: permission_row_Inr)
    from assms(1) v a Inr have x: "x = (if pm_generation pm \<noteq> g then Inl (Inl ''stale_generation'')
        else case out of Some out' \<Rightarrow> Inl (res_bind (retained_result H env op F spent g out') (\<lambda>r. Inr (db, r)))
           | None \<Rightarrow> (case file_state_for (hs_codec H) (oe_root env) op F of
                FileExact \<Rightarrow> Inl (Inr (set_reconciled db, reconciled_result spent g))
              | FileAbsent \<Rightarrow> if oe_admitted env then Inr (spent, g) else Inl (Inl ''source_or_history_not_admitted'')
              | _ \<Rightarrow> Inl (Inr (db, plain_result ''UNKNOWN'' spent g ''target_uncertain''))))"
      by (simp add: before_write_def Let_def)
    have "out \<noteq> None \<and> (\<exists>r. x = Inl (Inr (db, r)))
       \<or> out = None \<and> (\<exists>r. x = Inl (Inr (db, r)) \<or> x = Inl (Inr (set_reconciled db, r)))
       \<or> out = None \<and> file_state_for (hs_codec H) (oe_root env) op F = FileAbsent \<and> x = Inr (spent, g)"
    proof (cases out)
      case None
      with x assms(2) show ?thesis
        by (cases "file_state_for (hs_codec H) (oe_root env) op F") (auto split: if_splits)
    next
      case (Some out')
      with x assms(2) show ?thesis by (cases "retained_result H env op F spent g out'") (auto split: if_splits)
    qed
    moreover have "pm_generation pm = g" using x assms(2) by (auto split: if_splits)
    ultimately show ?thesis using v a ne by (intro that [of g out spent]) (auto simp: validate_state_iff)
  qed
qed

lemma before_write_Inr:
  assumes "before_write H env op pm F db = Inr (spent, g)"
  shows "db_valid (hs_codec H) op db g None" "spent = length (od_permissions db)" "od_permissions db \<noteq> []"
    "pm_generation pm = g" "file_state_for (hs_codec H) (oe_root env) op F = FileAbsent"
  by (rule before_write_cases [OF assms]; auto)+

lemma before_write_Inl:
  assumes "before_write H env op pm F db = Inl (Inr (db', r))"
  shows "db_same (hs_codec H) op db db'"
  by (rule before_write_cases [OF assms]) (auto intro: db_same_reconciled)

lemma settle_Inr:
  assumes "settle H env op F db spent g returned = Inr (db', r)"
  shows "db' = db \<or> (\<exists>name raw. db' = set_delivered name (ws_sha (hs_codec H) raw) db \<and> receipt_name_ok name)"
  using assms
  by (auto simp: settle_def check_receipt_def Let_def split: option.splits receipt_check.splits if_splits sum.splits)

lemma deliver_reserved_cases:
  assumes "deliver_reserved H env op pm F db = (db', cs, r)"
  obtains "db' = db"
  | x where "before_write H env op pm F db = Inl (Inr (db', x))" "cs = []" "r = Inr x"
  | spent g returned x where "before_write H env op pm F db = Inr (spent, g)" "call_writer H env op F = (cs, returned)"
      "settle H env op (create_all F cs) db spent g returned = Inr (db', x)" "r = Inr x"
proof (cases "before_write H env op pm F db")
  case (Inl y)
  with assms show ?thesis
    by (cases y) (auto simp: deliver_reserved_def split: option.splits if_splits intro: that)
next
  case (Inr y)
  obtain spent g where y: "y = (spent, g)" by (cases y)
  obtain cs' returned where w: "call_writer H env op F = (cs', returned)" by fastforce
  show ?thesis
  proof (cases "settle H env op (create_all F cs') db spent g returned")
    case (Inl e)
    with assms \<open>before_write H env op pm F db = Inr y\<close> y w show ?thesis
      by (auto simp: deliver_reserved_def split: option.splits intro: that)
  next
    case (Inr z)
    with assms \<open>before_write H env op pm F db = Inr y\<close> y w show ?thesis
      by (cases z) (auto simp: deliver_reserved_def split: option.splits if_splits intro: that)
  qed
qed

lemma deliver_reserved_same:
  assumes "deliver_reserved H env op pm F db = (db', cs, r)" "hash_ok (hs_codec H)"
  shows "db_same (hs_codec H) op db db'"
proof (rule deliver_reserved_cases [OF assms(1)])
  fix spent g returned x
  assume b: "before_write H env op pm F db = Inr (spent, g)"
    and "settle H env op (create_all F cs) db spent g returned = Inr (db', x)"
  with settle_Inr have "db' = db \<or> (\<exists>name raw. db' = set_delivered name (ws_sha (hs_codec H) raw) db \<and> receipt_name_ok name)"
    by blast
  with before_write_Inr [OF b] assms(2) show ?thesis by (auto intro: db_same_delivered simp: ws_sha_def)
qed (auto dest: before_write_Inl)

section \<open>The invariant\<close>

definition in_hand :: "world \<Rightarrow> int list" where
  "in_hand w = map pm_ordinal (wd_reserved w) @ wd_calls w"

definition op_inv :: "codec \<Rightarrow> ws_operation \<Rightarrow> world \<Rightarrow> bool" where
  "op_inv C op w \<longleftrightarrow>
     (\<exists>g out. db_valid C op (wd_db w) g out) \<and> sorted_wrt (<) (generations (wd_db w))
     \<and> distinct (in_hand w) \<and> (\<forall>n \<in> set (in_hand w). attempted (wd_db w) n)"

lemma op_inv_created:
  assumes "0 \<le> wo_max op"
  shows "op_inv C op (created_world C op F)"
  using created_valid [OF assms, of C]
  by (auto simp: op_inv_def created_world_def in_hand_def generations_def created_db_def)

lemma db_same_facts:
  assumes "db_same C op db db'" "\<exists>g out. db_valid C op db g out"
  shows "\<exists>g out. db_valid C op db' g out" "generations db' = generations db" "attempted db' n = attempted db n"
proof -
  from assms obtain g' out' where "db_valid C op db' g' out'" "od_permissions db' = od_permissions db"
    unfolding db_same_def by blast
  then show "\<exists>g out. db_valid C op db' g out" "generations db' = generations db" "attempted db' n = attempted db n"
    by (auto simp: generations_def attempted_def)
qed

lemma op_inv_same:
  assumes "op_inv C op w" "db_same C op (wd_db w) (wd_db v)" "distinct (in_hand v)" "set (in_hand v) \<subseteq> set (in_hand w)"
  shows "op_inv C op v"
proof -
  have ex: "\<exists>g out. db_valid C op (wd_db w) g out" using assms(1) by (simp add: op_inv_def)
  note f = db_same_facts [OF assms(2) ex]
  from assms(1,3,4) f show ?thesis by (auto simp: op_inv_def)
qed

lemma in_hand_finish:
  assumes "pm \<in> set (wd_reserved w)" "distinct (in_hand w)" "wd_reserved v = remove1 pm (wd_reserved w)"
    "wd_calls v = wd_calls w \<or> wd_calls v = pm_ordinal pm # wd_calls w"
  shows "distinct (in_hand v)" "set (in_hand v) \<subseteq> set (in_hand w)"
proof -
  obtain xs ys where r: "wd_reserved w = xs @ pm # ys" "remove1 pm (wd_reserved w) = xs @ ys"
    using assms(1) split_list_first [of pm "wd_reserved w"] by (auto simp: remove1_append)
  have rest: "wd_reserved v = xs @ ys" using assms(3) r(2) by simp
  obtain os where os: "os = map pm_ordinal xs" by simp
  obtain ps where ps: "ps = map pm_ordinal ys" by simp
  have w: "in_hand w = os @ pm_ordinal pm # ps @ wd_calls w" by (simp add: in_hand_def r(1) os ps)
  have v: "in_hand v = os @ ps @ wd_calls w \<or> in_hand v = os @ ps @ pm_ordinal pm # wd_calls w"
    using assms(4) rest by (auto simp: in_hand_def os ps)
  from assms(2) v show "distinct (in_hand v)" unfolding w by auto
  from v show "set (in_hand v) \<subseteq> set (in_hand w)" unfolding w by auto
qed

lemma op_inv_authorize:
  assumes "op_inv (hs_codec H) op w" "authorize H env op F (wd_db w) = (db, r)"
  shows "op_inv (hs_codec H) op (w\<lparr>wd_db := db\<rparr>)"
  using assms(2)
proof (rule authorize_cases)
  assume "db = wd_db w"
  with assms(1) show ?thesis by simp
next
  fix pm g row
  assume v: "db_valid (hs_codec H) op db g None"
    and perms: "od_permissions db = od_permissions (wd_db w) @ [row]" "perm_generation_of row = g"
    and last: "od_permissions (wd_db w) = [] \<or> perm_generation_of (last (od_permissions (wd_db w))) < g"
  have s: "sorted_wrt (<) (generations (wd_db w))" using assms(1) by (simp add: op_inv_def)
  have below: "x < g" if x: "x \<in> set (generations (wd_db w))" for x
  proof -
    from x have ne: "generations (wd_db w) \<noteq> []" by auto
    then obtain xs y where xs: "generations (wd_db w) = xs @ [y]" by (cases "generations (wd_db w)" rule: rev_cases) auto
    with last ne have "y < g" by (auto simp: generations_def last_map [symmetric])
    with s xs x show "x < g" by (auto simp: sorted_wrt_append)
  qed
  have gens: "generations db = generations (wd_db w) @ [g]" using perms by (simp add: generations_def)
  have "attempted db n" if "attempted (wd_db w) n" for n using that perms by (auto simp: attempted_def)
  with assms(1) v s below gens show ?thesis by (auto simp: op_inv_def in_hand_def sorted_wrt_append)
qed

lemma op_inv_reserve:
  assumes "op_inv (hs_codec H) op w" "reserve H env op pm F (wd_db w) = (db, Inr None)"
  shows "op_inv (hs_codec H) op (w\<lparr>wd_db := db, wd_reserved := pm # wd_reserved w\<rparr>)"
  using assms(2)
proof (rule reserve_cases)
  fix g
  assume v: "db_valid (hs_codec H) op (wd_db w) g None" and db: "db = set_attempted (pm_ordinal pm) (wd_db w)"
    and att: "attempted db (pm_ordinal pm)" "\<not> attempted (wd_db w) (pm_ordinal pm)"
  from v have "db_valid (hs_codec H) op db g None" unfolding db by (rule db_valid_attempted)
  moreover have "pm_ordinal pm \<notin> set (in_hand w)" using assms(1) att(2) by (auto simp: op_inv_def)
  moreover have "attempted db n" if "attempted (wd_db w) n" for n unfolding db by (rule set_attempted_facts(3) [OF that])
  ultimately show ?thesis
    using assms(1) att(1) by (auto simp: op_inv_def in_hand_def db set_attempted_facts(2))
qed simp

lemma op_inv_step:
  assumes "op_step H op w v" "op_inv (hs_codec H) op w" "hash_ok (hs_codec H)"
  shows "op_inv (hs_codec H) op v"
  using assms(1)
proof (cases rule: op_step.cases)
  case (step_authorize env db r)
  with op_inv_authorize [OF assms(2)] show ?thesis by blast
next
  case (step_reserve env pm db)
  with op_inv_reserve [OF assms(2)] show ?thesis by blast
next
  case (step_refused env pm db r)
  from step_refused(2,3) have "db = wd_db w" by (auto elim: reserve_cases)
  with assms(2) step_refused(1) show ?thesis by simp
next
  case (step_deliver pm env db cs r)
  from deliver_reserved_same [OF step_deliver(3) assms(3)] have same: "db_same (hs_codec H) op (wd_db w) (wd_db v)"
    by (simp add: step_deliver(1))
  have "distinct (in_hand w)" using assms(2) by (simp add: op_inv_def)
  from op_inv_same [OF assms(2) same in_hand_finish [OF step_deliver(2) this]] step_deliver(1) show ?thesis by simp
next
  case (step_interrupted pm env cs returned cs')
  have "distinct (in_hand w)" using assms(2) by (simp add: op_inv_def)
  from op_inv_same [OF assms(2) _ in_hand_finish [OF step_interrupted(2) this]] step_interrupted(1) show ?thesis by simp
next
  case (step_lost pm)
  have "distinct (in_hand w)" using assms(2) by (simp add: op_inv_def)
  from op_inv_same [OF assms(2) _ in_hand_finish [OF step_lost(2) this]] step_lost(1) show ?thesis by simp
next
  case (step_reconcile env db r)
  from op_inv_same [OF assms(2), of v] reconcile_same [OF step_reconcile(2)] step_reconcile(1) assms(2)
  show ?thesis by (simp add: in_hand_def op_inv_def)
next
  case (step_fence env db r)
  from op_inv_same [OF assms(2), of v] fence_same [OF step_fence(2)] step_fence(1) assms(2)
  show ?thesis by (simp add: in_hand_def op_inv_def)
next
  case (step_files F)
  with assms(2) show ?thesis by (simp add: op_inv_def in_hand_def)
qed

lemma op_inv_run:
  assumes "op_run H op w v" "op_inv (hs_codec H) op w" "hash_ok (hs_codec H)"
  shows "op_inv (hs_codec H) op v"
  using assms by (induction rule: op_run.induct) (auto intro: op_inv_step)

text \<open>Ordinals in hand are those of stored permissions, so there are at most as many.\<close>

lemma op_inv_calls:
  assumes "op_inv C op w"
  shows "length (in_hand w) \<le> length (od_permissions (wd_db w))"
proof -
  from assms obtain g out where v: "db_valid C op (wd_db w) g out" by (auto simp: op_inv_def)
  have "set (in_hand w) \<subseteq> pr_ordinal ` set (od_permissions (wd_db w))"
    using assms by (auto simp: op_inv_def attempted_def)
  then have "card (set (in_hand w)) \<le> card (set (od_permissions (wd_db w)))"
    by (rule surj_card_le [OF finite_set])
  also have "\<dots> \<le> length (od_permissions (wd_db w))" by (rule card_length)
  finally show ?thesis using assms by (simp add: op_inv_def distinct_card)
qed

section \<open>Properties of runs\<close>

text \<open>
  C8: from its creation on, whatever transactions, crashes and changes of files happen, the state of an
  operation passes \<open>_validate\<close>; there are at most \<open>max_attempts\<close> permissions, each of a later generation than the
  one before, so that a successful fence lies between any two; and the writer has been called at most
  once for a permission, never more often than permissions were spent before.
\<close>

theorem workspace_operation_invariant:
  assumes "hash_ok (hs_codec H)" "0 \<le> wo_max op" "op_run H op (created_world (hs_codec H) op F) w"
  shows "(\<exists>g out. \<forall>env. oe_digest env = Inr (wb_admission (wo_binding op)) \<longrightarrow>
        validate_state (hs_codec H) op env (wd_db w) = Inr (length (od_permissions (wd_db w)), g, out))
    \<and> int (length (od_permissions (wd_db w))) \<le> wo_max op \<and> sorted_wrt (<) (generations (wd_db w))
    \<and> distinct (wd_calls w) \<and> length (wd_calls w) + length (wd_reserved w) \<le> length (od_permissions (wd_db w))"
proof -
  have inv: "op_inv (hs_codec H) op w"
    by (rule op_inv_run [OF assms(3) op_inv_created [OF assms(2)] assms(1)])
  then obtain g out where v: "db_valid (hs_codec H) op (wd_db w) g out" by (auto simp: op_inv_def)
  then have "\<forall>env. oe_digest env = Inr (wb_admission (wo_binding op)) \<longrightarrow>
      validate_state (hs_codec H) op env (wd_db w) = Inr (length (od_permissions (wd_db w)), g, out)"
    by (simp add: validate_state_iff)
  moreover have "int (length (od_permissions (wd_db w))) \<le> wo_max op" using v by (simp add: db_valid_def)
  moreover have "length (wd_calls w) + length (wd_reserved w) \<le> length (od_permissions (wd_db w))"
    using op_inv_calls [OF inv] by (simp add: in_hand_def)
  ultimately show ?thesis using inv by (auto simp: op_inv_def in_hand_def)
qed

text \<open>A stored outcome.\<close>

definition has_outcome :: "codec \<Rightarrow> ws_operation \<Rightarrow> op_outcome \<Rightarrow> world \<Rightarrow> bool" where
  "has_outcome C op out w \<longleftrightarrow> (\<exists>g. db_valid C op (wd_db w) g (Some out))"

lemma same_outcome:
  assumes "db_same C op (wd_db w) (wd_db v)" "has_outcome C op out w"
  shows "has_outcome C op out v"
proof -
  from assms(2) obtain g where "db_valid C op (wd_db w) g (Some out)" by (auto simp: has_outcome_def)
  with assms(1) show ?thesis unfolding db_same_def has_outcome_def by blast
qed

lemma outcome_no_writer:
  assumes "has_outcome (hs_codec H) op out w"
  shows "\<not> writer_called H env op pm F (wd_db w)"
proof
  assume "writer_called H env op pm F (wd_db w)"
  then obtain spent g where "before_write H env op pm F (wd_db w) = Inr (spent, g)"
    by (auto simp: writer_called_def split: sum.splits)
  from before_write_Inr(1) [OF this] assms show False by (auto simp: has_outcome_def dest: db_valid_unique)
qed

lemma outcome_step:
  assumes "op_step H op w v" "has_outcome (hs_codec H) op out w" "hash_ok (hs_codec H)"
  shows "has_outcome (hs_codec H) op out v \<and> wd_calls v = wd_calls w"
  using assms(1)
proof (cases rule: op_step.cases)
  case (step_authorize env db r)
  from step_authorize(2) have "db = wd_db w"
    by (rule authorize_cases) (use assms(2) in \<open>auto simp: has_outcome_def dest: db_valid_unique\<close>)
  with step_authorize(1) assms(2) show ?thesis by simp
next
  case (step_reserve env pm db)
  from step_reserve(2) have False
    by (rule reserve_cases) (use assms(2) in \<open>auto simp: has_outcome_def dest: db_valid_unique\<close>)
  then show ?thesis ..
next
  case (step_refused env pm db r)
  from step_refused(2,3) have "db = wd_db w" by (auto elim: reserve_cases)
  with assms(2) step_refused(1) show ?thesis by simp
next
  case (step_deliver pm env db cs r)
  from deliver_reserved_same [OF step_deliver(3) assms(3)] have "db_same (hs_codec H) op (wd_db w) (wd_db v)"
    by (simp add: step_deliver(1))
  from same_outcome [OF this assms(2)] step_deliver(1) outcome_no_writer [OF assms(2)] show ?thesis by simp
next
  case (step_interrupted pm env cs returned cs')
  with outcome_no_writer [OF assms(2)] show ?thesis by blast
next
  case (step_reconcile env db r)
  from reconcile_same [OF step_reconcile(2)] same_outcome [of "hs_codec H" op w v] assms(2) step_reconcile(1) show ?thesis by simp
next
  case (step_fence env db r)
  from fence_same [OF step_fence(2)] same_outcome [of "hs_codec H" op w v] assms(2) step_fence(1) show ?thesis by simp
qed (use assms(2) in \<open>auto simp: has_outcome_def\<close>)

text \<open>
  C11: an outcome is final. Once the state of an operation holds one, every later state holds the same one,
  and the writer is not called again, whatever processes and crashes follow.
\<close>

theorem workspace_outcome_final:
  assumes "hash_ok (hs_codec H)" "op_run H op w v" "has_outcome (hs_codec H) op out w"
  shows "has_outcome (hs_codec H) op out v \<and> wd_calls v = wd_calls w"
  using assms(2,1,3) by (induction rule: op_run.induct) (auto dest: outcome_step)

end
