(* ===== verification/Workspace_Properties.thy ===== *)
theory Workspace_Properties
  imports Workspace_Receipt Workspace_Protocol
begin

text \<open>The properties of the guarded workspace and of the operation on top of it, each with a concrete instance.\<close>

section \<open>The decision\<close>

text \<open>
  \<open>_decide\<close> never fails on what \<open>_submit\<close> hands it, and the guard allows the write exactly when the artifact is
  one of the configured outputs, and blocks it otherwise; the evidence is bound to the text and to the policy.
\<close>

theorem decision_allows_configured_outputs:
  assumes "hash_ok C" "wp_class p \<in> set ws_data_classes" "alias_text a" "is_ascii session" "dt_aware now"
  shows "\<exists>d. decide_text C p a t (call_name session n) session now = Inr d
    \<and> gd_disposition d = (if a \<in> set (output_names p) then Allow else Block)
    \<and> ev_content (gd_evidence d) = ws_sha C t \<and> ev_policy (gd_evidence d) = ws_policy_sha256 C p
    \<and> ev_disposition (gd_evidence d) = gd_disposition d \<and> ev_evaluated_at (gd_evidence d) = now"
proof -
  have "decide_ready C p a (call_name session n) now"
    using assms ws_names_ascii(1) by (simp add: decide_ready_def) (simp add: call_name_def)
  from decide_text_answer [OF this, of t session] show ?thesis by blast
qed

section \<open>One call\<close>

text \<open>Every creation makes a file where none is.\<close>

fun fresh_creations :: "file_system \<Rightarrow> creation list \<Rightarrow> bool" where
  "fresh_creations F [] = True"
| "fresh_creations F (c # cs) \<longleftrightarrow> F (fst c) = None \<and> fresh_creations (create F c) cs"

lemma fresh_creations_append:
  "fresh_creations F (cs @ ds) \<longleftrightarrow> fresh_creations F cs \<and> fresh_creations (create_all F cs) ds"
  by (induction cs arbitrary: F) simp_all

lemma fresh_creations_one: "cs = [] \<or> F (fst c) = None \<and> cs = [c] \<Longrightarrow> fresh_creations F cs"
  by auto

text \<open>The files of a call whose intent has been stored.\<close>

lemma traced_files:
  assumes "judge_proposal C env g n proposal = (result, writable)" "workspace_ok g1" "workspace_ok g2"
    "effect_stage C env g1 writable F result = (g2, cs2, result2)" "result_stage C env g2 n (create_all F cs2) result2 = (g', cs3, r)"
    "1 \<le> n" "int n \<le> wp_max_proposals (gws_opened_policy g2)"
  shows "fresh_creations F (cs2 @ cs3)"
    and "cs2 = [] \<or> (\<exists>a t k. writable = Some (a, t) \<and> a \<in> fst ` set (wf_targets (gws_files g1))
      \<and> cs2 = [(target_path (gws_files g1) a, take k t)])"
    and "c \<in> set cs3 \<Longrightarrow> fst c = audit_path (gws_opened_policy g2) (gws_opened_session g2) n ''result''"
    and "obj_get r ''applied'' = Some (JBool True) \<Longrightarrow> \<exists>a t. writable = Some (a, t) \<and> cs2 = [(target_path (gws_files g1) a, t)]"
proof -
  note e = effect_stage_cases [OF assms(4) judge_proposal_cases(1) [OF assms(1)]] and rs = result_stage_cases [OF assms(5)]
  have path: "target_path (gws_audit g2) (audit_key ''result'' n) = audit_path (gws_opened_policy g2) (gws_opened_session g2) n ''result''"
    by (rule audit_target_path(1)) (use assms in simp_all)
  show "fresh_creations F (cs2 @ cs3)"
    unfolding fresh_creations_append using e(1) rs(1) by auto
  show "cs2 = [] \<or> (\<exists>a t k. writable = Some (a, t) \<and> a \<in> fst ` set (wf_targets (gws_files g1))
      \<and> cs2 = [(target_path (gws_files g1) a, take k t)])"
    using e(1) by blast
  show "fst c = audit_path (gws_opened_policy g2) (gws_opened_session g2) n ''result''" if "c \<in> set cs3"
    using rs(1) that unfolding path by auto
  show "\<exists>a t. writable = Some (a, t) \<and> cs2 = [(target_path (gws_files g1) a, t)]" if "obj_get r ''applied'' = Some (JBool True)"
    using e(2) rs(3) that by auto
qed

text \<open>The text that may be written is the one that the proposal names and the guard allowed, and the intent says so.\<close>

lemma judged_intent:
  assumes "judge_proposal C env g n proposal = (result, Some (a, x))"
  defines "p \<equiv> gws_policy g" and "session \<equiv> gws_session g"
  shows "\<exists>d. proposal_content C p proposal = Inr (a, x)
      \<and> decide_text C p a x (call_name session n) session (se_now env) = Inr d \<and> gd_disposition d = Allow
      \<and> intent_text C result (Some (a, x)) = ws_json C (JObj (intent_doc C p session n proposal a x d)) @ [CHR 0x0A]"
proof -
  from judge_proposal_cases(3) [OF assms(1) refl] obtain d where d: "proposal_content C p proposal = Inr (a, x)"
    "decide_text C p a x (call_name session n) session (se_now env) = Inr d" "gd_disposition d = Allow"
    "result = dict_update (first_result C g n proposal) (judged_members C a x d)" by (auto simp: p_def session_def)
  have "int (length proposal) \<le> proposal_limit (gws_policy g)" using proposal_content_facts(1) [OF d(1)] by (simp add: p_def)
  with d intent_doc_eq [of proposal g C n a x d "(a, x)"] show ?thesis by (auto simp: intent_text_def p_def session_def)
qed

text \<open>
  C9: whatever the proposal, the clock, the faults and the files are, \<open>_submit\<close> creates files only where there were
  none, one call at a time; besides the intent and the result of this call it creates at most the output
  whose alias and text the proposal names, with that text or a prefix of it, only after the guard allowed this
  very text, and only after the complete intent; and a call that reports success has created it with the whole text.
\<close>

theorem submit_effect_after_intent:
  assumes "workspace_ok g" "ws_submit C env g F proposal = (g', cs, r)"
  defines "p \<equiv> gws_opened_policy g" and "session \<equiv> gws_opened_session g" and "n \<equiv> next_call g"
  shows "workspace_ok g' \<and> gws_opened_policy g' = p \<and> fresh_creations F cs
    \<and> (cs \<noteq> [] \<longrightarrow> gws_attempts g' = gws_attempts g + 1) \<and> gws_attempts g' \<le> wp_max_proposals p
    \<and> (\<forall>c \<in> set cs. fst c = audit_path p session n ''intent'' \<or> fst c = audit_path p session n ''result''
        \<or> (\<exists>a t d k. proposal_content C p proposal = Inr (a, t)
             \<and> decide_text C p a t (call_name session n) session (se_now env) = Inr d \<and> gd_disposition d = Allow
             \<and> a \<in> set (output_names p) \<and> c = (output_path p a, take k t)
             \<and> hd cs = (audit_path p session n ''intent'', ws_json C (JObj (intent_doc C p session n proposal a t d)) @ [CHR 0x0A])))
    \<and> (obj_get r ''applied'' = Some (JBool True) \<longrightarrow>
        (\<exists>a t. proposal_content C p proposal = Inr (a, t) \<and> (output_path p a, t) \<in> set cs))"
    (is "_ \<and> _ \<and> _ \<and> _ \<and> _ \<and> Ball _ ?file \<and> _")
  using assms(2,1)
proof (cases rule: ws_submit_cases)
  case (refused reason)
  have "obj_get r ''applied'' \<noteq> Some (JBool True)" by (simp add: refused(2) refused_result_def obj_get_def)
  moreover have "gws_attempts g' \<le> wp_max_proposals p" using refused by (simp add: workspace_ok_def Let_def p_def)
  ultimately show ?thesis using refused by (simp add: p_def)
next
  case (stopped result writable)
  have "obj_get r ''applied'' \<noteq> Some (JBool True)"
    using judge_proposal_cases(1) [OF stopped(1)] by (simp add: stopped(3) obj_get_dict_set)
  moreover have "gws_attempts g' \<le> wp_max_proposals p" using stopped by (simp add: workspace_ok_def Let_def p_def)
  moreover have "fresh_creations F cs" using stopped(2) by auto
  ultimately show ?thesis using stopped by (auto simp: p_def session_def n_def)
next
  case (traced result writable g1 g2 cs2 cs3 result2)
  note t = traced [folded p_def session_def n_def]
  have n: "1 \<le> n" "int n \<le> wp_max_proposals p" using t(18) assms(1) by (auto simp: n_def next_call_def workspace_ok_def Let_def)
  let ?i = "(audit_path p session n ''intent'', intent_text C result writable)"
  have r: "result_stage C env g2 n (create_all (create F ?i) cs2) result2 = (g', cs3, r)" using t(6) by simp
  note tf = traced_files [OF t(1) t(7,8) t(5) r n(1), unfolded t(13,14), OF n(2)]
  have fresh: "fresh_creations F cs" using t(2,3) tf(1) by simp
  have outs: "wf_targets (gws_files g1) = wp_outputs p" "target_path (gws_files g1) a = output_path p a" for a
    using t(10) assms(1) by (simp_all add: workspace_ok_def target_path_def output_path_def p_def Let_def)
  have eff: "\<exists>d. proposal_content C p proposal = Inr (a, x)
      \<and> decide_text C p a x (call_name session n) session (se_now env) = Inr d \<and> gd_disposition d = Allow
      \<and> intent_text C result writable = ws_json C (JObj (intent_doc C p session n proposal a x d)) @ [CHR 0x0A]"
    if w: "writable = Some (a, x)" for a x
    using judged_intent [OF t(1) [unfolded w]] unfolding t(11,12) w .
  have files: "?file c" if c: "c \<in> set cs" for c
  proof -
    from c t(2) consider "c = ?i" | "c \<in> set cs2" | "c \<in> set cs3" by auto
    then show ?thesis
    proof cases
      case 2
      with tf(2) obtain a x k where a: "writable = Some (a, x)" "a \<in> fst ` set (wp_outputs p)" "c = (output_path p a, take k x)"
        unfolding outs by (elim disjE exE conjE) (simp, metis empty_iff empty_set set_ConsD)
      from eff [OF a(1)] a(2,3) show ?thesis by (auto simp: t(2) output_names_def)
    qed (use tf(3) in simp_all)
  qed
  have done': "\<exists>a x. proposal_content C p proposal = Inr (a, x) \<and> (output_path p a, x) \<in> set cs"
    if "obj_get r ''applied'' = Some (JBool True)"
    using tf(4) [OF that] eff unfolding outs t(2) by fastforce
  from t(9,15,17,18) fresh files done' show ?thesis by (simp add: t(2))
qed

section \<open>Receipts\<close>

text \<open>
  C10: round trip: when a call reports that it applied the write and that its receipt is complete, then
  \<open>verify_workspace_output\<close> accepts this receipt on the files as the call left them, and answers the artifact, the
  length and the digest of the text that the proposal named.
\<close>

theorem submitted_output_verifies:
  assumes "workspace_ok g" "ws_submit C env g F proposal = (g', cs, r)"
    and "obj_get r ''applied'' = Some (JBool True)" "obj_get r ''receipt_complete'' = Some (JBool True)"
    and "mk_ws_policy abspath q = Inr (gws_opened_policy g)" "lower_hex32 (gws_opened_session g)" "hash_ok C"
    and "dt_aware (se_now env)" "is_ascii (dt_json C (se_now env))" "parse_time (JStr (dt_json C (se_now env))) \<noteq> None"
  shows "\<exists>a t name. proposal_content C (gws_opened_policy g) proposal = Inr (a, t) \<and> obj_get r ''receipt'' = Some (JStr name)
    \<and> verify_workspace_output C parse_time True (gws_opened_policy g) (create_all F cs) (join_path (wp_dir (gws_opened_policy g)) name)
      = Some (a, int (length t), ws_sha C t)"
  using assms(2,1,3,4)
proof (cases rule: submit_success)
  case (1 a t d)
  let ?p = "gws_opened_policy g" and ?s = "gws_opened_session g"
  have pv: "policy_valid ?p" by (rule mk_ws_policy_valid [OF assms(5)])
  note pc = proposal_content_facts [OF 1(1)]
  have session: "is_ascii ?s"
    using assms(6) by (auto simp: lower_hex32_def is_ascii_def list_all_iff is_lower_hex_def is_digit_def)
  have ready: "decide_ready C ?p a (call_name ?s (next_call g)) (se_now env)"
    using assms(7,8) pv pc(2) ws_names_ascii(1) [OF session]
    by (simp add: decide_ready_def policy_valid_def) (simp add: call_name_def)
  note al = decide_text_allowed [OF ready 1(2,3)]
  have rr: "receipt_ready C ?p ?s a t (se_now env) d"
    using assms(7,9) pv pc session al(1) by (simp add: receipt_ready_def policy_valid_def)
  have "verify_workspace_output C parse_time True ?p (create_all F cs) (audit_path ?p ?s (next_call g) ''result'')
      = Some (a, int (length t), ws_sha C t)"
    unfolding 1(4) by (rule verify_accepts [where parse_time = parse_time, OF rr pv assms(6) 1(8,9) al(2) pc(4) assms(10) 1(6,7)])
  moreover have "obj_get r ''receipt'' = Some (JStr (audit_file ?s (next_call g) ''result''))"
    unfolding 1(5) by (rule receipt_fields)
  ultimately show ?thesis using 1(1) unfolding audit_path_def by blast
qed

end
