(* ===== verification/Workspace_Delivery.thy ===== *)
theory Workspace_Delivery
  imports Workspace_Properties Json_Size
begin

text \<open>
  That the guarded workspace and the operation succeed when nothing goes wrong: the audit documents fit into
  their files, the proposal that the operation composes is read back, the three creations follow, and the
  second transaction of \<open>deliver\<close> stores the outcome.
\<close>

section \<open>Sizes\<close>

lemma wire_safe_sized: "wire_safe v \<Longrightarrow> sized_json False v"
proof (induction v)
  case (JArr vs)
  then show ?case by (auto simp: list_all_iff)
next
  case (JObj kvs)
  then show ?case by (fastforce simp: list_all_iff str_ok_def)
qed (simp_all add: str_ok_def)

lemma dumps_length: "wire_safe v \<Longrightarrow> length (dumps fr False v) \<le> json_weight v"
  by (rule sized_dumps_length [OF wire_safe_sized])

lemma evidence_weight:
  assumes "allowed_decision C p t now d" "hash_ok C" "length (dt_json C now) \<le> 64"
  shows "json_weight (JObj (decision_members C d)) \<le> 7500"
proof -
  note f = assms(1) [unfolded allowed_decision_def Let_def]
  have sha: "sha256_text s \<Longrightarrow> length s = 64" for s by (simp add: sha256_text_def)
  have lens: "length (ev_action_id_hash (gd_evidence d)) = 64" "length (ev_action_digest (gd_evidence d)) = 64"
    "length (ev_content (gd_evidence d)) = 64" "length (ev_context_digest (gd_evidence d)) = 64"
    "length (ev_policy (gd_evidence d)) = 64" "length (ev_previous_hash (gd_evidence d)) = 64"
    "length (ev_decision_hash (gd_evidence d)) = 64" "length (dt_json C (ev_evaluated_at (gd_evidence d))) \<le> 64"
    using f assms(2,3) by (simp_all add: sha)
  show ?thesis
    using f lens by (simp add: decision_members_eq evidence_members_def texts_json_def ws_version_def)
qed

lemma two_digits_length: "n \<le> 99 \<Longrightarrow> length (two_digits n) = 2"
proof -
  assume n: "n \<le> 99"
  have "length (nat_digits n) = 1" if "n < 10"
    using that by (simp add: nat_digits.simps [of n])
  moreover have "length (nat_digits n) = 2" if "\<not> n < 10"
  proof -
    have "n div 10 < 10" using n by simp
    then have "length (nat_digits (n div 10)) = 1" by (simp add: nat_digits.simps [of "n div 10"])
    with that show ?thesis by (simp add: nat_digits.simps [of n])
  qed
  ultimately show ?thesis by (cases "n < 10") (simp_all add: two_digits_def)
qed

lemma documents_fit:
  assumes "receipt_ready C p session a t now d" "length (dt_json C now) \<le> 64" "length session = 32" "n \<le> 99"
  shows "audit_fits C (intent_doc C p session n proposal a t d)" "audit_fits C (receipt_doc C p session n proposal a t d)"
proof -
  note r = assms(1) [unfolded receipt_ready_def]
  have dw: "json_weight (JObj (decision_members C d)) \<le> 7500" using r assms(2) evidence_weight by blast
  have sha: "sha256_text s \<Longrightarrow> length s = 64" for s by (simp add: sha256_text_def)
  have "length (nat_digits n) \<le> 2" using nat_digits_length [of n 1] assms(4) by simp
  then have lens: "length (ws_policy_sha256 C p) = 64" "length (ws_sha C proposal) = 64" "length (ws_sha C t) = 64"
    "length (call_name session n) \<le> 35" "length (audit_file session n ''result'') = 52" "length a \<le> 64"
    "length session = 32"
    using r assms(3) two_digits_length [OF assms(4)]
    by (simp_all add: sha call_name_def audit_file_def) (cases a; simp)
  have "json_weight (JObj (intent_doc C p session n proposal a t d)) \<le> 16000"
    "json_weight (JObj (receipt_doc C p session n proposal a t d)) \<le> 16000"
    using lens dw by (simp_all add: intent_doc_def receipt_doc_def common_members_def content_members_def ws_version_def
      del: json_weight.simps(4) add: json_weight.simps(4) [of "_ # _"])
  moreover have "wire_safe (JObj (intent_doc C p session n proposal a t d))" "wire_safe (JObj (receipt_doc C p session n proposal a t d))"
    using receipt_documents [OF assms(1)] by (simp_all add: wire_document_def)
  ultimately show "audit_fits C (intent_doc C p session n proposal a t d)" "audit_fits C (receipt_doc C p session n proposal a t d)"
    using dumps_length [of "JObj (intent_doc C p session n proposal a t d)" "float_repr C"]
      dumps_length [of "JObj (receipt_doc C p session n proposal a t d)" "float_repr C"]
    by (simp_all add: audit_fits_def ws_json_def)
qed

section \<open>An undisturbed call\<close>

lemma wire_safe_canonical: "wire_safe v \<Longrightarrow> ws_canonical C v = Inr (ws_json C v)"
proof -
  have "wire_safe v \<Longrightarrow> json_finite v \<and> json_encodable v"
  proof (induction v)
    case (JObj kvs)
    then show ?case by (fastforce simp: list_all_iff)
  qed (auto simp: list_all_iff)
  then show "wire_safe v \<Longrightarrow> ws_canonical C v = Inr (ws_json C v)" by (simp add: ws_canonical_def)
qed

lemma write_once_succeeds:
  assumes "a \<in> fst ` set (wf_targets w)" "int (length content) \<le> wf_max w" "\<not> wf_closed w" "\<not> wf_failed w" "a \<notin> set (wf_seen w)"
    "F (target_path w a) = None"
  shows "write_once C w a content F NoFault
    = (w\<lparr>wf_seen := a # wf_seen w, wf_created := a # wf_created w\<rparr>, [(target_path w a, content)],
       Inr (a, int (length content), sha256_hex C content))"
  using assms by (simp add: write_once_def Let_def)

text \<open>A workspace as it is when it has just been opened.\<close>

definition workspace_new :: "codec \<Rightarrow> ws_policy \<Rightarrow> string \<Rightarrow> guarded_workspace \<Rightarrow> bool" where
  "workspace_new C p session g \<longleftrightarrow>
     workspace_ok g \<and> gws_policy g = p \<and> gws_opened_policy g = p \<and> gws_session g = session \<and> gws_opened_session g = session
     \<and> gws_attempts g = 0 \<and> identity_matches C g \<and> \<not> gws_closed g \<and> \<not> gws_failed g
     \<and> wf_seen (gws_files g) = [] \<and> wf_seen (gws_audit g) = [] \<and> \<not> wf_closed (gws_files g) \<and> \<not> wf_failed (gws_files g)
     \<and> \<not> wf_closed (gws_audit g) \<and> \<not> wf_failed (gws_audit g)"

lemma open_workspace_new:
  assumes "open_workspace C casefold root1 root2 p session = Inr g" "0 \<le> wp_max_proposals p"
  shows "workspace_new C p session g"
proof -
  have "\<not> wf_closed (gws_files g) \<and> \<not> wf_failed (gws_files g) \<and> \<not> wf_closed (gws_audit g) \<and> \<not> wf_failed (gws_audit g)"
    using assms(1) by (auto simp: open_workspace_def open_files_def Let_def map_err_Inr_iff split: option.splits)
  with open_workspace_ok [OF assms] show ?thesis by (simp add: workspace_new_def)
qed

text \<open>The answers of an environment in which nothing fails.\<close>

definition submit_calm :: "ws_policy \<Rightarrow> string \<Rightarrow> submit_env \<Rightarrow> bool" where
  "submit_calm p t env \<longleftrightarrow>
     se_intent env = NoFault \<and> se_output env = NoFault \<and> se_result env = NoFault \<and> se_readback env = Some t
     \<and> \<not> source_expired p (se_later env)"

lemma submit_delivers:
  assumes "workspace_new C p session g" "policy_valid p" "submit_calm p t env"
    and "proposal_content C p proposal = Inr (a, t)" "decide_text C p a t (call_name session 1) session (se_now env) = Inr d"
      "gd_disposition d = Allow" "receipt_ready C p session a t (se_now env) d" "a \<in> set (output_names p)"
    and "audit_fits C (intent_doc C p session 1 proposal a t d)" "audit_fits C (receipt_doc C p session 1 proposal a t d)"
    and "F (audit_path p session 1 ''intent'') = None" "F (output_path p a) = None" "F (audit_path p session 1 ''result'') = None"
  shows "\<exists>g'. ws_submit C env g F proposal = (g', delivered_files C p session 1 proposal a t d, receipt_doc C p session 1 proposal a t d)"
proof -
  note g = assms(1) [unfolded workspace_new_def]
  note ok = conjunct1 [OF g, unfolded workspace_ok_def Let_def]
  note calm = assms(3) [unfolded submit_calm_def]
  let ?i = "intent_doc C p session 1 proposal a t d" and ?r = "receipt_doc C p session 1 proposal a t d"
  note docs = receipt_documents [OF assms(7), unfolded wire_document_def]
  note pc = proposal_content_facts [OF assms(4)]
  have out: "a \<in> fst ` set (wp_outputs p)" using assms(8) by (simp add: output_names_def)
  note dp = audit_path_distinct [OF assms(2) out, of session 1]
  have lim: "1 \<le> wp_max_proposals p" using assms(2) by (simp add: policy_valid_def)
  let ?g0 = "g\<lparr>gws_attempts := 1\<rparr>"
  have judge: "judge_proposal C env ?g0 1 proposal = (dict_update (first_result C g 1 proposal) (judged_members C a t d), Some (a, t))"
    unfolding judge_attempts using g assms(4-6) by (simp add: judge_proposal_def Let_def)
  define res where "res = dict_update (first_result C g 1 proposal) (judged_members C a t d)"
  have limit: "int (length proposal) \<le> proposal_limit (gws_policy g)" using pc(1) g by simp
  have idoc: "dict_update res [(''phase'', JStr ''intent''), (''write_authorized'', JBool (Some (a, t) \<noteq> None))] = ?i"
    using intent_doc_eq [OF limit, of C 1 a t d "(a, t)"] g by (simp add: intent_members_def res_def)
  have keys: "map_of (audit_targets session (nat (wp_max_proposals p))) (audit_key phase 1) = Some (audit_file session 1 phase)"
    if "phase = ''intent'' \<or> phase = ''result''" for phase
    by (rule audit_targets_lookup) (use that lim in \<open>auto simp: le_nat_iff\<close>)
  have tgt: "audit_key phase 1 \<in> fst ` set (wf_targets (gws_audit g))" "target_path (gws_audit g) (audit_key phase 1) = audit_path p session 1 phase"
    if "phase = ''intent'' \<or> phase = ''result''" for phase
    using keys [OF that] ok g by (auto simp: target_path_def audit_path_def dest: map_of_SomeD intro: rev_image_eqI)
  let ?wi = "gws_audit g\<lparr>wf_seen := [audit_key ''intent'' 1], wf_created := audit_key ''intent'' 1 # wf_created (gws_audit g)\<rparr>"
  have w1: "write_once C (gws_audit g) (audit_key ''intent'' 1) (ws_json C (JObj ?i) @ [CHR 0x0A]) F NoFault
      = (?wi, [(audit_path p session 1 ''intent'', ws_json C (JObj ?i) @ [CHR 0x0A])],
         Inr (audit_key ''intent'' 1, int (length (ws_json C (JObj ?i) @ [CHR 0x0A])), sha256_hex C (ws_json C (JObj ?i) @ [CHR 0x0A])))"
    using write_once_succeeds [of "audit_key ''intent'' 1" "gws_audit g" "ws_json C (JObj ?i) @ [CHR 0x0A]" F C]
      tgt [of "''intent''"] g ok assms(9,11) by (simp add: audit_fits_def)
  define g1 where "g1 = ?g0\<lparr>gws_audit := ?wi\<rparr>"
  have a1: "write_audit C ?g0 (audit_key ''intent'' 1) (JObj ?i) F (se_intent env)
      = (g1, [(audit_path p session 1 ''intent'', ws_json C (JObj ?i) @ [CHR 0x0A])], True)"
    using docs(1) calm w1 by (simp add: write_audit_def wire_safe_canonical g1_def del: wire_safe.simps)
  let ?F1 = "create F (audit_path p session 1 ''intent'', ws_json C (JObj ?i) @ [CHR 0x0A])"
  let ?wo = "gws_files g\<lparr>wf_seen := [a], wf_created := a # wf_created (gws_files g)\<rparr>"
  have opath: "target_path (gws_files g) a = output_path p a" using ok g by (simp add: target_path_def output_path_def)
  have w2: "write_once C (gws_files g) a t ?F1 NoFault = (?wo, [(output_path p a, t)], Inr (a, int (length t), sha256_hex C t))"
    using write_once_succeeds [of a "gws_files g" t ?F1 C] g ok out pc(4) dp assms(12) opath
    by (simp add: create_def)
  have rb: "readback_sha C ?wo a (Some t) = Inr (a, int (length t), sha256_hex C t)"
    using g ok pc(4) by (simp add: readback_sha_def)
  define g2 where "g2 = g1\<lparr>gws_files := ?wo\<rparr>"
  define res2 where "res2 = dict_update res [(''applied'', JBool True), (''effect'', JStr ''created''), (''reason'', JStr ''write_completed''),
      (''output_sha256'', JStr (sha256_hex C t))]"
  have e: "effect_stage C env g1 (Some (a, t)) ?F1 res = (g2, [(output_path p a, t)], res2)"
    using calm w2 rb g by (simp add: effect_stage_def perform_write_def g1_def g2_def res2_def)
  let ?F2 = "create ?F1 (output_path p a, t)"
  have rdoc: "final_members res2 (audit_file session 1 ''result'') = ?r"
    using receipt_doc_eq [OF limit, of C 1 a t d] g by (simp add: res_def res2_def)
  have name: "the (map_of (gws_audit_names g2) (audit_key ''result'' 1)) = audit_file session 1 ''result''"
    using keys [of "''result''"] ok g by (simp add: g2_def g1_def)
  let ?wr = "?wi\<lparr>wf_seen := [audit_key ''result'' 1, audit_key ''intent'' 1],
      wf_created := audit_key ''result'' 1 # wf_created ?wi\<rparr>"
  have w3: "write_once C ?wi (audit_key ''result'' 1) (ws_json C (JObj ?r) @ [CHR 0x0A]) ?F2 NoFault
      = (?wr, [(audit_path p session 1 ''result'', ws_json C (JObj ?r) @ [CHR 0x0A])],
         Inr (audit_key ''result'' 1, int (length (ws_json C (JObj ?r) @ [CHR 0x0A])), sha256_hex C (ws_json C (JObj ?r) @ [CHR 0x0A])))"
  proof -
    have path: "target_path ?wi (audit_key ''result'' 1) = audit_path p session 1 ''result''"
      using tgt(2) [of "''result''"] by (simp add: target_path_def)
    have free: "?F2 (target_path ?wi (audit_key ''result'' 1)) = None"
      unfolding path using assms(13) dp not_sym [OF dp(1)] by (simp add: create_def)
    show ?thesis
      using write_once_succeeds [of "audit_key ''result'' 1" ?wi "ws_json C (JObj ?r) @ [CHR 0x0A]" ?F2 C] free tgt(1) [of "''result''"] g ok assms(10)
      unfolding path by (simp add: audit_fits_def)
  qed
  have a3: "write_audit C g2 (audit_key ''result'' 1) (JObj ?r) ?F2 (se_result env)
      = (g2\<lparr>gws_audit := ?wr\<rparr>, [(audit_path p session 1 ''result'', ws_json C (JObj ?r) @ [CHR 0x0A])], True)"
    using docs(2) calm w3 by (simp add: write_audit_def wire_safe_canonical g2_def g1_def del: wire_safe.simps)
  have r: "result_stage C env g2 1 ?F2 res2
      = (g2\<lparr>gws_audit := ?wr\<rparr>, [(audit_path p session 1 ''result'', ws_json C (JObj ?r) @ [CHR 0x0A])], ?r)"
    unfolding result_stage_def name final_members_def [symmetric] rdoc Let_def a3 by simp
  have open': "\<not> (gws_closed g \<or> gws_failed g)" "identity_matches C g" "\<not> wp_max_proposals (gws_policy g) \<le> gws_attempts g"
    using g lim by simp_all
  have step: "nat (gws_attempts g + 1) = 1" "g\<lparr>gws_attempts := gws_attempts g + 1\<rparr> = ?g0" using g by simp_all
  show ?thesis
    unfolding ws_submit_def step Let_def judge [folded res_def]
    using open' a1 e r by (simp add: idoc [simplified] delivered_files_def)
qed

end
