(* ===== verification/Workspace_Liveness.thy ===== *)
theory Workspace_Liveness
  imports Workspace_Delivery
begin

text \<open>
  The whole way of an undisturbed operation: created, authorised, delivered through the guarded workspace, with
  the outcome stored and the receipt verified.
\<close>

section \<open>The proposal\<close>

lemma proposal_read:
  assumes "alias_text a" "utf8_valid t" "t \<noteq> []" "int (length t) \<le> wp_max_bytes p" "CHR 0x00 \<notin> set t" "policy_valid p"
  shows "ws_canonical C (write_proposal a t) = Inr (ws_json C (write_proposal a t))"
    "proposal_content C p (ws_json C (write_proposal a t)) = Inr (a, t)"
proof -
  let ?m = "[(''operation'', JStr ''write_text''), (''artifact'', JStr a), (''content'', JStr t)]"
  have asc: "utf8_valid a" "encodable a" using alias_text_ascii [OF assms(1)] by (simp_all add: utf8_valid_ascii encodable_ascii)
  have lits: "utf8_valid s \<and> encodable s" if "s \<in> {''operation'', ''artifact'', ''content'', ''write_text''}" for s
    using that by (auto simp: utf8_valid_ascii encodable_ascii is_ascii_def)
  have doc: "wire_document (JObj ?m)"
    using asc assms(2) utf8_valid_encodable [OF assms(2)] lits by (simp add: wire_document_def)
  show "ws_canonical C (write_proposal a t) = Inr (ws_json C (write_proposal a t))"
    using doc by (simp add: wire_safe_canonical wire_document_def write_proposal_def)
  have "length a \<le> 64" using assms(1) by (cases a) auto
  then have "int (json_weight (JObj ?m)) \<le> proposal_limit p"
    using assms(4) by (simp add: proposal_limit_def)
  then have size: "int (length (dumps (float_repr C) False (JObj ?m) @ [])) \<le> proposal_limit p"
    using dumps_length [of "JObj ?m" "float_repr C"] doc by (simp add: wire_document_def)
  have read: "wire_object C (ws_json C (write_proposal a t)) (proposal_limit p) = Inr (sorted_members ?m)"
    using wire_object_accepts [OF doc _ size] by (simp add: ws_json_def write_proposal_def)
  have dis: "distinct (map fst ?m)" by simp
  have "obj_keys (sorted_members ?m) = {''operation'', ''artifact'', ''content''}"
    unfolding sorted_members_keys(2) by (simp add: obj_keys_def)
  then show "proposal_content C p (ws_json C (write_proposal a t)) = Inr (a, t)"
    using assms(1,3,4,5) utf8_valid_encodable [OF assms(2)]
    by (simp add: proposal_content_def read obj_get_sorted [OF dis]) (simp add: obj_get_def)
qed

section \<open>An undisturbed host\<close>

definition op_calm :: "host \<Rightarrow> ws_operation \<Rightarrow> op_env \<Rightarrow> bool" where
  "op_calm H op env \<longleftrightarrow>
     oe_connect env = None \<and> oe_storage env \<and> oe_admitted env \<and> oe_check env
     \<and> oe_digest env = Inr (wb_admission (wo_binding op))
     \<and> oe_root env = Some (wb_device (wo_binding op), wb_inode (wo_binding op))
     \<and> oe_root1 env = None \<and> oe_root2 env = None \<and> lower_hex32 (oe_session env)
     \<and> \<not> source_expired (wo_policy op) (oe_later env) \<and> dt_aware (oe_now env)
     \<and> submit_calm (wo_policy op) (wo_content op) (oe_submit env) \<and> dt_aware (se_now (oe_submit env))
     \<and> is_ascii (dt_json (hs_codec H) (se_now (oe_submit env))) \<and> length (dt_json (hs_codec H) (se_now (oe_submit env))) \<le> 64
     \<and> hs_time H (JStr (dt_json (hs_codec H) (se_now (oe_submit env)))) \<noteq> None"

text \<open>What \<open>_inputs\<close> establishes of an operation.\<close>

definition op_bound :: "codec \<Rightarrow> ws_operation \<Rightarrow> bool" where
  "op_bound C op \<longleftrightarrow>
     (let p = wo_policy op; b = wo_binding op; t = wo_content op
      in wb_artifact b \<in> set (output_names p) \<and> wb_filename b = the (map_of (wp_outputs p) (wb_artifact b))
         \<and> wb_root b = wp_dir p \<and> wb_policy b = ws_policy_sha256 C p \<and> wb_payload_sha b = ws_sha C t
         \<and> wb_payload_length b = int (length t) \<and> t \<noteq> [] \<and> int (length t) \<le> wp_max_bytes p \<and> CHR 0x00 \<notin> set t
         \<and> 1 \<le> wo_max op \<and> wo_max op \<le> 32)"

lemma operation_inputs_bound:
  assumes "operation_inputs H check dir parent digest p rq = Inr op"
  shows "op_bound (hs_codec H) op" "wo_policy op = p" "wo_content op = rq_content rq" "wb_artifact (wo_binding op) = rq_artifact rq"
  using assms
  by (auto simp: operation_inputs_def op_bound_def bind_request_def op_request_ok_def Let_def split: option.splits)

lemma bound_output_path: "op_bound C op \<Longrightarrow> bound_path op = output_path (wo_policy op) (wb_artifact (wo_binding op))"
  by (simp add: op_bound_def bound_path_def output_path_def Let_def)

section \<open>The writer's answer\<close>

lemma default_reads:
  assumes "wire_safe (JObj kvs)" "json_utf8 (JObj kvs)"
  shows "load_bytes C (ws_json C (JObj kvs) @ [CHR 0x0A]) = Some (JObj (sorted_members kvs))"
proof -
  have ok: "wire_safe v \<Longrightarrow> json_ok (default_hooks C) False v" for v
  proof (induction v)
    case (JInt i)
    then show ?case using int_digits_63 [of i] by (simp add: default_hooks_def)
  next
    case (JArr vs)
    then show ?case by (auto simp: list_all_iff)
  next
    case (JObj kvs)
    then show ?case by (fastforce simp: list_all_iff default_hooks_def str_ok_def dict_of_pairs_distinct)
  qed (simp_all add: str_ok_def)
  have safe: "wire_safe (JObj (sorted_members kvs))" "json_utf8 (JObj (sorted_members kvs))"
    using wire_safe_sort [OF assms(1)] json_utf8_sort [OF assms(2)] unfolding sort_keys_obj by simp_all
  have "utf8_valid (render (float_repr C) False (JObj (sorted_members kvs)) @ [CHR 0x0A])"
    by (rule utf8_valid_append [OF utf8_valid_render [OF safe(2)]]) (simp add: ord_def)
  moreover have "loads (default_hooks C) (render (float_repr C) False (JObj (sorted_members kvs)) @ [CHR 0x0A])
      = Inr (JObj (sorted_members kvs))"
    by (rule loads_object [OF ok [OF safe(1)] skip_newline])
  ultimately show ?thesis unfolding load_bytes_def ws_json_def dumps_def sort_keys_obj by (simp del: render.simps)
qed

lemma audit_name_ok:
  assumes "lower_hex32 session" "n \<le> 99"
  shows "receipt_name_ok (audit_file session n ''result'')"
proof -
  let ?s = "audit_file session n ''result''"
  have two: "length (two_digits n) = 2" by (rule two_digits_length [OF assms(2)])
  have digits: "list_all is_digit (two_digits n)"
    using nat_digits_all_digits [of n] by (simp add: two_digits_def is_digit_def ord_def)
  have len: "length session = 32" "list_all is_lower_hex session" using assms(1) by (simp_all add: lower_hex32_def)
  have parts: "take 32 (drop 5 ?s) = session" "take 2 (drop 38 ?s) = two_digits n" "length ?s = 52"
    using len two by (simp_all add: audit_file_def drop_Cons')
  show ?thesis unfolding receipt_name_ok_def Let_def parts using digits len by (simp add: audit_file_def)
qed

lemma delivered_lookup:
  assumes "policy_valid p" "a \<in> set (output_names p)"
  defines "G \<equiv> \<lambda>F session n proposal t d C. create_all F (delivered_files C p session n proposal a t d)"
  shows "G F session n proposal t d C (output_path p a) = Some (Regular t)"
    "G F session n proposal t d C (audit_path p session n ''result'')
      = Some (Regular (ws_json C (JObj (receipt_doc C p session n proposal a t d)) @ [CHR 0x0A]))"
proof -
  have out: "a \<in> fst ` set (wp_outputs p)" using assms(2) by (simp add: output_names_def)
  note dp = audit_path_distinct [OF assms(1) out, of session n]
  show "G F session n proposal t d C (output_path p a) = Some (Regular t)"
    "G F session n proposal t d C (audit_path p session n ''result'')
      = Some (Regular (ws_json C (JObj (receipt_doc C p session n proposal a t d)) @ [CHR 0x0A]))"
    using dp not_sym [OF dp(1)] by (simp_all add: G_def delivered_files_def create_def)
qed

text \<open>The hypotheses of the following lemmas: a calm host, a bound operation and the files of its one successful call.\<close>

definition op_delivered :: "host \<Rightarrow> op_env \<Rightarrow> ws_operation \<Rightarrow> string \<Rightarrow> guard_decision \<Rightarrow> bool" where
  "op_delivered H env op proposal d \<longleftrightarrow>
     (let C = hs_codec H; p = wo_policy op; a = wb_artifact (wo_binding op); t = wo_content op; s = oe_session env
      in hash_ok C \<and> policy_valid p \<and> op_bound C op \<and> op_calm H op env
         \<and> receipt_ready C p s a t (se_now (oe_submit env)) d
         \<and> audit_fits C (intent_doc C p s 1 proposal a t d) \<and> audit_fits C (receipt_doc C p s 1 proposal a t d))"

definition delivered_state :: "host \<Rightarrow> op_env \<Rightarrow> ws_operation \<Rightarrow> string \<Rightarrow> guard_decision \<Rightarrow> file_system \<Rightarrow> file_system" where
  "delivered_state H env op proposal d F = create_all F
     (delivered_files (hs_codec H) (wo_policy op) (oe_session env) 1 proposal (wb_artifact (wo_binding op)) (wo_content op) d)"

lemma delivered_exact:
  assumes "op_delivered H env op proposal d"
  shows "file_state_for (hs_codec H) (oe_root env) op (delivered_state H env op proposal d F) = FileExact"
    "verified_receipt H env op (delivered_state H env op proposal d F) (audit_file (oe_session env) 1 ''result'')"
    "read_file (delivered_state H env op proposal d F)
        (join_path (wp_dir (wo_policy op)) (audit_file (oe_session env) 1 ''result'')) 16384
      = Inr (ws_json (hs_codec H) (JObj (receipt_doc (hs_codec H) (wo_policy op) (oe_session env) 1 proposal
          (wb_artifact (wo_binding op)) (wo_content op) d)) @ [CHR 0x0A])"
proof -
  note o = assms [unfolded op_delivered_def Let_def]
  note b = conjunct1 [OF conjunct2 [OF conjunct2 [OF o]]]
  note bd = b [unfolded op_bound_def Let_def] and calm = o [unfolded op_calm_def]
  have pv: "policy_valid (wo_policy op)" and a: "wb_artifact (wo_binding op) \<in> set (output_names (wo_policy op))"
    using o bd by simp_all
  note files = delivered_lookup [OF pv a]
  have path: "bound_path op = output_path (wo_policy op) (wb_artifact (wo_binding op))" by (rule bound_output_path [OF b])
  show "file_state_for (hs_codec H) (oe_root env) op (delivered_state H env op proposal d F) = FileExact"
    using calm bd by (simp add: file_state_for_def delivered_state_def path read_file_def files)
  show "read_file (delivered_state H env op proposal d F)
        (join_path (wp_dir (wo_policy op)) (audit_file (oe_session env) 1 ''result'')) 16384
      = Inr (ws_json (hs_codec H) (JObj (receipt_doc (hs_codec H) (wo_policy op) (oe_session env) 1 proposal
          (wb_artifact (wo_binding op)) (wo_content op) d)) @ [CHR 0x0A])"
    using o by (simp add: read_file_Inr delivered_state_def files audit_path_def [symmetric] audit_fits_def)
  have lim: "int 1 \<le> wp_max_proposals (wo_policy op)" using pv by (simp add: policy_valid_def)
  have "verify_workspace_output (hs_codec H) (hs_time H) True (wo_policy op) (delivered_state H env op proposal d F)
      (audit_path (wo_policy op) (oe_session env) 1 ''result'') \<noteq> None"
    unfolding delivered_state_def
    using verify_accepts [where parse_time = "hs_time H" and n = 1 and proposal = proposal and F = F,
        OF _ pv _ _ lim a, of "hs_codec H" "oe_session env" "wo_content op" "se_now (oe_submit env)" d] o calm bd
    by simp
  then show "verified_receipt H env op (delivered_state H env op proposal d F) (audit_file (oe_session env) 1 ''result'')"
    using calm by (simp add: verified_receipt_def audit_path_def)
qed

lemma timing_removed:
  "''timing_ms'' \<notin> fst ` set r \<Longrightarrow> without_timing (dict_set r ''timing_ms'' v) = r"
  by (induction r) (auto simp: without_timing_def)

lemma receipt_bound_doc:
  assumes "op_bound C op"
  shows "receipt_bound op (JObj (receipt_doc C (wo_policy op) s n proposal (wb_artifact (wo_binding op)) (wo_content op) d))"
    "receipt_bound op (JObj (sorted_members (receipt_doc C (wo_policy op) s n proposal (wb_artifact (wo_binding op)) (wo_content op) d)))"
  using assms by (simp_all add: receipt_bound_def receipt_fields obj_get_sorted doc_keys op_bound_def Let_def)

lemma check_receipt_ok:
  assumes "op_delivered H env op proposal d"
  defines "r \<equiv> receipt_doc (hs_codec H) (wo_policy op) (oe_session env) 1 proposal (wb_artifact (wo_binding op)) (wo_content op) d"
  shows "check_receipt H env op (delivered_state H env op proposal d F) (dict_set r ''timing_ms'' timing)
    = ReceiptOk (audit_file (oe_session env) 1 ''result'') (ws_sha (hs_codec H) (ws_json (hs_codec H) (JObj r) @ [CHR 0x0A])) (JObj r)"
proof -
  note o = assms(1) [unfolded op_delivered_def Let_def] and x = delivered_exact [OF assms(1), of F, folded r_def]
  note bd = conjunct1 [OF conjunct2 [OF conjunct2 [OF o]]]
  have safe: "wire_safe (JObj r)" "json_utf8 (JObj r)"
    using receipt_documents(2) [where n = 1 and proposal = proposal] o unfolding r_def wire_document_def by blast+
  have name: "receipt_name_ok (audit_file (oe_session env) 1 ''result'')"
    by (rule audit_name_ok) (use o in \<open>simp_all add: op_calm_def\<close>)
  have fresh: "''timing_ms'' \<notin> fst ` set r" by (simp add: r_def receipt_doc_def common_members_def content_members_def)
  have eq: "py_eq (JObj (sorted_members r)) (JObj r)"
    using py_eq_sort [OF safe(1)] unfolding sort_keys_obj .
  have get: "obj_get (dict_set r ''timing_ms'' timing) k = (if k = ''timing_ms'' then Some timing else obj_get r k)" for k
    by (auto simp: obj_get_dict_set)
  have whole: "returned_complete op (dict_set r ''timing_ms'' timing)"
    using bd unfolding returned_complete_def get unfolding r_def by (simp add: receipt_fields op_bound_def Let_def)
  have named: "get_str (dict_set r ''timing_ms'' timing) ''receipt'' = Some (audit_file (oe_session env) 1 ''result'')"
    unfolding get_str_def get unfolding r_def by (simp add: receipt_fields)
  show ?thesis
    unfolding check_receipt_def x(1,3) named option.case sum.case Let_def default_reads [OF safe] timing_removed [OF fresh]
    using whole name eq receipt_bound_doc(1) [OF bd, of "oe_session env" 1 proposal d, folded r_def] x(2)
    by (simp add: get)
qed

section \<open>The whole operation\<close>

text \<open>The decision for a bound operation, asked for under any call name.\<close>

lemma bound_decision:
  assumes "hash_ok C" "policy_valid p" "a \<in> set (output_names p)" "is_ascii session" "dt_aware now"
  obtains d where "decide_text C p a t (call_name session n) session now = Inr d" "gd_disposition d = Allow"
    "allowed_decision C p t now d" "alias_text a"
proof -
  have al: "alias_text a" using assms(2,3) pair_error_alias by (auto simp: policy_valid_def output_names_def)
  then have ready: "decide_ready C p a (call_name session n) now"
    using assms ws_names_ascii(1) [OF assms(4)] by (simp add: decide_ready_def policy_valid_def) (simp add: call_name_def)
  from decide_text_answer [OF ready, of t session] assms(3) obtain d
    where d: "decide_text C p a t (call_name session n) session now = Inr d" "gd_disposition d = Allow" by auto
  show ?thesis by (rule that [OF d decide_text_allowed(1) [OF ready d] al])
qed

lemma sha_prefix_ascii: "sha256_text s \<Longrightarrow> is_ascii (take k s)"
  using sha256_text_ascii [of s] by (auto simp: is_ascii_def list_all_iff dest: in_set_takeD)

lemma session_ascii: "lower_hex32 session \<Longrightarrow> is_ascii session"
  by (auto simp: lower_hex32_def is_ascii_def list_all_iff is_lower_hex_def is_digit_def)

lemma call_writer_delivers:
  assumes "hash_ok (hs_codec H)" "policy_valid (wo_policy op)" "op_bound (hs_codec H) op" "op_calm H op env"
    and "utf8_valid (wo_content op)"
    and "open_workspace (hs_codec H) (hs_casefold H) None None (wo_policy op) (oe_session env) = Inr g"
    and "F (audit_path (wo_policy op) (oe_session env) 1 ''intent'') = None" "F (bound_path op) = None"
      "F (audit_path (wo_policy op) (oe_session env) 1 ''result'') = None"
  defines "proposal \<equiv> ws_json (hs_codec H) (write_proposal (wb_artifact (wo_binding op)) (wo_content op))"
    and "s \<equiv> oe_session env" and "a \<equiv> wb_artifact (wo_binding op)"
  obtains d where "op_delivered H env op proposal d"
    "call_writer H env op F = (delivered_files (hs_codec H) (wo_policy op) s 1 proposal a (wo_content op) d,
       Some (dict_set (receipt_doc (hs_codec H) (wo_policy op) s 1 proposal a (wo_content op) d) ''timing_ms'' (oe_timing env)))"
proof -
  let ?C = "hs_codec H" and ?p = "wo_policy op" and ?t = "wo_content op" and ?env = "oe_submit env"
  note bd = assms(3) [unfolded op_bound_def Let_def, folded a_def] and calm = assms(4) [unfolded op_calm_def, folded s_def]
  have session: "is_ascii s" "length s = 32" using calm session_ascii by (simp_all add: lower_hex32_def)
  obtain d where d: "decide_text ?C ?p a ?t (call_name s 1) s (se_now ?env) = Inr d" "gd_disposition d = Allow"
    "allowed_decision ?C ?p ?t (se_now ?env) d" "alias_text a"
    by (rule bound_decision [OF assms(1,2) _ session(1), of a "se_now ?env" ?t 1]) (use bd calm in auto)
  have rr: "receipt_ready ?C ?p s a ?t (se_now ?env) d"
    using assms(1,2) session d(3,4) bd calm by (simp add: receipt_ready_def policy_valid_def)
  have fits: "audit_fits ?C (intent_doc ?C ?p s 1 proposal a ?t d)" "audit_fits ?C (receipt_doc ?C ?p s 1 proposal a ?t d)"
    using documents_fit [OF rr _ session(2), of 1 proposal] calm by simp_all
  have new: "workspace_new ?C ?p s g"
    using open_workspace_new [OF assms(6)] assms(2) by (simp add: policy_valid_def s_def)
  have read: "ws_canonical ?C (write_proposal a ?t) = Inr proposal" "proposal_content ?C ?p proposal = Inr (a, ?t)"
    using proposal_read [OF d(4) assms(5), of ?p ?C] bd assms(2) by (simp_all add: proposal_def a_def)
  have path: "F (output_path ?p a) = None" using assms(8) bound_output_path [OF assms(3)] by (simp add: a_def)
  have cs: "submit_calm ?p ?t ?env" and art: "a \<in> set (output_names ?p)" using calm bd by simp_all
  obtain g' where sub: "ws_submit ?C ?env g F proposal = (g', delivered_files ?C ?p s 1 proposal a ?t d, receipt_doc ?C ?p s 1 proposal a ?t d)"
    using submit_delivers [OF new assms(2) cs read(2) d(1,2) rr art fits assms(7) [folded s_def] path assms(9) [folded s_def]] by blast
  have "op_delivered H env op proposal d"
    unfolding op_delivered_def Let_def using assms(1-4) rr fits by (simp add: s_def a_def)
  moreover have "call_writer H env op F = (delivered_files ?C ?p s 1 proposal a ?t d,
       Some (dict_set (receipt_doc ?C ?p s 1 proposal a ?t d) ''timing_ms'' (oe_timing env)))"
    using calm assms(6) read(1) sub by (simp add: call_writer_def submit_text_def s_def a_def)
  ultimately show ?thesis by (rule that)
qed

lemma created_inputs:
  assumes "create_operation H env parent present F p rq = Inr (op, db)"
  shows "op_bound (hs_codec H) op" "wo_policy op = p" "wo_content op = rq_content rq" "wb_artifact (wo_binding op) = rq_artifact rq"
    "db = created_db (hs_codec H) op" "file_state_for (hs_codec H) (oe_root env) op F = FileAbsent"
  using assms operation_inputs_bound by (auto simp: create_operation_def)

lemma file_absent:
  "file_state_for C dir op F = FileAbsent \<Longrightarrow> F (bound_path op) = None"
  by (auto simp: file_state_for_def read_file_def Let_def split: if_splits option.splits fs_entry.splits)

lemma absent_again:
  assumes "op_calm H op env" "op_bound C op" "F (bound_path op) = None"
  shows "file_state_for C (oe_root env) op F = FileAbsent"
  using assms by (simp add: file_state_for_def op_calm_def op_bound_def read_file_def Let_def)

lemma fresh_allows:
  assumes "hash_ok (hs_codec H)" "policy_valid (wo_policy op)" "op_bound (hs_codec H) op" "op_calm H op env"
  shows "fresh_policy_allows (hs_codec H) env op n"
proof -
  have bd: "wb_artifact (wo_binding op) \<in> set (output_names (wo_policy op))" using assms(3) by (simp add: op_bound_def Let_def)
  have session: "is_ascii (operation_session (hs_codec H) op)"
    unfolding operation_session_def by (rule sha_prefix_ascii) (use assms(1) in \<open>simp add: binding_sha_def\<close>)
  have aware: "dt_aware (oe_now env)" using assms(4) by (simp add: op_calm_def)
  show ?thesis
    by (rule bound_decision [OF assms(1,2) bd session aware, of "wo_content op" n])
      (use assms(4) in \<open>simp add: fresh_policy_allows_def op_calm_def\<close>)
qed

lemma authorize_first:
  assumes "hash_ok (hs_codec H)" "policy_valid (wo_policy op)" "op_bound (hs_codec H) op" "op_calm H op env" "F (bound_path op) = None"
  defines "C \<equiv> hs_codec H"
  shows "authorize H env op F (created_db C op)
    = ((created_db C op)\<lparr>od_permissions := [\<lparr>pr_ordinal = 1, pr_nonce = CText (perm_nonce C op 1), pr_generation = CInt 0,
         pr_binding = CText (binding_sha C op), pr_consumed = CInt 1, pr_attempted = CInt 0\<rparr>]\<rparr>,
       Inr \<lparr>pm_ordinal = 1, pm_nonce = perm_nonce C op 1, pm_generation = 0, pm_binding = binding_sha C op\<rparr>)"
proof -
  have max: "1 \<le> wo_max op" using assms(3) by (simp add: op_bound_def Let_def)
  have v: "validate_state C op env (created_db C op) = Inr (0, 0, None)"
    using created_valid [of op C] max assms(4) by (simp add: validate_state_iff op_calm_def created_db_def)
  have perms: "od_permissions (created_db C op) = []" by (simp add: created_db_def)
  have calm: "oe_connect env = None" "oe_storage env" "oe_admitted env" using assms(4) by (simp_all add: op_calm_def)
  have absent: "file_state_for C (oe_root env) op F = FileAbsent"
    by (rule absent_again [where F = F, OF assms(4) assms(3) [folded C_def] assms(5)])
  have "authorize_body H env op F (created_db C op) = Inr
      ((created_db C op)\<lparr>od_permissions := [\<lparr>pr_ordinal = 1, pr_nonce = CText (perm_nonce C op 1), pr_generation = CInt 0,
         pr_binding = CText (binding_sha C op), pr_consumed = CInt 1, pr_attempted = CInt 0\<rparr>]\<rparr>,
       \<lparr>pm_ordinal = 1, pm_nonce = perm_nonce C op 1, pm_generation = 0, pm_binding = binding_sha C op\<rparr>)"
    unfolding authorize_body_def Let_def C_def [symmetric] v
    using max calm absent fresh_allows [OF assms(1-4), of 1] perms
    by (simp add: raise_first_def fence_needed_def C_def)
  with calm show ?thesis by (simp add: authorize_def transaction_def)
qed

text \<open>The database after the first authorisation, and after the reservation of its attempt.\<close>

definition first_row :: "codec \<Rightarrow> ws_operation \<Rightarrow> perm_row" where
  "first_row C op = \<lparr>pr_ordinal = 1, pr_nonce = CText (perm_nonce C op 1), pr_generation = CInt 0,
     pr_binding = CText (binding_sha C op), pr_consumed = CInt 1, pr_attempted = CInt 0\<rparr>"

definition first_permission :: "codec \<Rightarrow> ws_operation \<Rightarrow> permission" where
  "first_permission C op = \<lparr>pm_ordinal = 1, pm_nonce = perm_nonce C op 1, pm_generation = 0, pm_binding = binding_sha C op\<rparr>"

definition authorized_db :: "codec \<Rightarrow> ws_operation \<Rightarrow> op_db" where
  "authorized_db C op = (created_db C op)\<lparr>od_permissions := [first_row C op]\<rparr>"

lemma authorized_valid:
  assumes "1 \<le> wo_max op"
  shows "db_valid C op (authorized_db C op) 0 None" "db_valid C op (set_attempted 1 (authorized_db C op)) 0 None"
proof -
  have "db_valid C op (created_db C op) 0 None" by (rule created_valid) (use assms in simp)
  then show v: "db_valid C op (authorized_db C op) 0 None"
    using assms
    by (auto simp: db_valid_def authorized_db_def first_row_def created_db_def op_schema_ok_def perm_row_ok_def)
  show "db_valid C op (set_attempted 1 (authorized_db C op)) 0 None" by (rule db_valid_attempted [OF v])
qed

lemma first_permission_row:
  assumes "hash_ok C"
  shows "permission_row C op (authorized_db C op) (first_permission C op) = Inr (0, False)"
    "permission_row C op (set_attempted 1 (authorized_db C op)) (first_permission C op) = Inr (0, True)"
proof -
  have t: "permission_typed (first_permission C op)"
    using assms by (simp add: permission_typed_def first_permission_def perm_nonce_def binding_sha_def)
  then show "permission_row C op (authorized_db C op) (first_permission C op) = Inr (0, False)"
    by (simp add: permission_row_def authorized_db_def first_row_def first_permission_def)
  from t show "permission_row C op (set_attempted 1 (authorized_db C op)) (first_permission C op) = Inr (0, True)"
    by (simp add: permission_row_def authorized_db_def first_row_def first_permission_def set_attempted_def)
qed

lemma deliver_first:
  assumes "hash_ok (hs_codec H)" "policy_valid (wo_policy op)" "op_bound (hs_codec H) op" "op_calm H op env"
    and "utf8_valid (wo_content op)"
    and "open_workspace (hs_codec H) (hs_casefold H) None None (wo_policy op) (oe_session env) = Inr g"
    and "F (audit_path (wo_policy op) (oe_session env) 1 ''intent'') = None" "F (bound_path op) = None"
      "F (audit_path (wo_policy op) (oe_session env) 1 ''result'') = None"
  defines "C \<equiv> hs_codec H" and "proposal \<equiv> ws_json (hs_codec H) (write_proposal (wb_artifact (wo_binding op)) (wo_content op))"
  obtains d name sha persisted where "op_delivered H env op proposal d"
    "deliver H env env op (first_permission C op) F F (authorized_db C op)
      = (set_delivered name sha (set_attempted 1 (authorized_db C op)),
         delivered_files C (wo_policy op) (oe_session env) 1 proposal (wb_artifact (wo_binding op)) (wo_content op) d,
         Inr \<lparr>rs_state = ''DELIVERED_RECEIPT'', rs_spent = 1, rs_generation = 0, rs_reason = ''writer_receipt_durable'',
               rs_receipt = Some persisted\<rparr>)"
    "name = audit_file (oe_session env) 1 ''result''"
    "sha = ws_sha C (ws_json C (JObj (receipt_doc C (wo_policy op) (oe_session env) 1 proposal (wb_artifact (wo_binding op)) (wo_content op) d)) @ [CHR 0x0A])"
proof -
  obtain d where d: "op_delivered H env op proposal d"
    "call_writer H env op F = (delivered_files C (wo_policy op) (oe_session env) 1 proposal (wb_artifact (wo_binding op)) (wo_content op) d,
       Some (dict_set (receipt_doc C (wo_policy op) (oe_session env) 1 proposal (wb_artifact (wo_binding op)) (wo_content op) d)
         ''timing_ms'' (oe_timing env)))"
    using call_writer_delivers [OF assms(1-9)] unfolding C_def proposal_def by blast
  let ?db = "authorized_db C op" and ?db2 = "set_attempted 1 (authorized_db C op)" and ?pm = "first_permission C op"
  have calm: "oe_connect env = None" "oe_storage env" "oe_admitted env" "oe_digest env = Inr (wb_admission (wo_binding op))"
    using assms(4) by (simp_all add: op_calm_def)
  have max: "1 \<le> wo_max op" using assms(3) by (simp add: op_bound_def Let_def)
  have len: "length (od_permissions ?db) = 1" "length (od_permissions ?db2) = 1"
    by (simp_all add: set_attempted_facts(1)) (simp_all add: authorized_db_def)
  have v: "validate_state C op env ?db = Inr (1, 0, None)" "validate_state C op env ?db2 = Inr (1, 0, None)"
    using authorized_valid [OF max] calm len by (simp_all add: validate_state_iff)
  have pm: "pm_ordinal ?pm = 1" "pm_generation ?pm = 0" by (simp_all add: first_permission_def)
  have rows: "permission_row C op ?db ?pm = Inr (0, False)" "permission_row C op ?db2 ?pm = Inr (0, True)"
    by (rule first_permission_row; use assms(1) C_def in simp)+
  have reserved: "reserve H env op ?pm F ?db = (?db2, Inr None)"
    using calm by (simp add: reserve_def transaction_def reserve_body_def Let_def C_def [symmetric] v(1) rows(1) pm)
  have absent: "file_state_for C (oe_root env) op F = FileAbsent"
    by (rule absent_again [where F = F, OF assms(4) assms(3) [folded C_def] assms(8)])
  have before: "before_write H env op ?pm F ?db2 = Inr (1, 0)"
    using calm absent by (simp add: before_write_def Let_def C_def [symmetric] v(2) rows(2) pm)
  let ?r = "receipt_doc C (wo_policy op) (oe_session env) 1 proposal (wb_artifact (wo_binding op)) (wo_content op) d"
  let ?name = "audit_file (oe_session env) 1 ''result''" and ?sha = "ws_sha C (ws_json C (JObj ?r) @ [CHR 0x0A])"
  have checked: "check_receipt H env op (create_all F (delivered_files C (wo_policy op) (oe_session env) 1 proposal
        (wb_artifact (wo_binding op)) (wo_content op) d)) (dict_set ?r ''timing_ms'' (oe_timing env))
      = ReceiptOk ?name ?sha (JObj ?r)"
    using check_receipt_ok [OF d(1), of F "oe_timing env"] unfolding delivered_state_def C_def .
  have "deliver H env env op ?pm F F ?db = (set_delivered ?name ?sha ?db2,
      delivered_files C (wo_policy op) (oe_session env) 1 proposal (wb_artifact (wo_binding op)) (wo_content op) d,
      Inr \<lparr>rs_state = ''DELIVERED_RECEIPT'', rs_spent = 1, rs_generation = 0, rs_reason = ''writer_receipt_durable'',
           rs_receipt = Some (JObj ?r)\<rparr>)"
    using calm
    by (simp only: deliver_def reserved prod.case sum.case option.case deliver_reserved_def before d(2) settle_def checked
        receipt_check.case if_True if_False) (simp add: plain_result_def)
  from that [OF d(1) this refl refl] show ?thesis .
qed

text \<open>Asked again with the same permission, the operation answers the stored outcome and writes nothing.\<close>

lemma deliver_again:
  fixes F :: file_system
  assumes "op_delivered H env op proposal d"
  defines "C \<equiv> hs_codec H" and "r \<equiv> receipt_doc (hs_codec H) (wo_policy op) (oe_session env) 1 proposal (wb_artifact (wo_binding op)) (wo_content op) d"
    and "name \<equiv> audit_file (oe_session env) 1 ''result''"
  defines "db \<equiv> set_delivered name (ws_sha C (ws_json C (JObj r) @ [CHR 0x0A])) (set_attempted 1 (authorized_db C op))"
    and "G \<equiv> delivered_state H env op proposal d F"
  shows "deliver H env env op (first_permission C op) G G db = (db, [], Inr
     \<lparr>rs_state = ''DELIVERED_RECEIPT'', rs_spent = 1, rs_generation = 0, rs_reason = ''verified_retained_outcome'',
      rs_receipt = Some (JObj (sorted_members r))\<rparr>)"
proof -
  note o = assms(1) [unfolded op_delivered_def Let_def, folded C_def, folded r_def]
  have bound: "op_bound C op" and calm: "op_calm H op env" and hash: "hash_ok C" using o by simp_all
  let ?sha = "ws_sha C (ws_json C (JObj r) @ [CHR 0x0A])" and ?db2 = "set_attempted 1 (authorized_db C op)"
  have max: "1 \<le> wo_max op" using bound by (simp add: op_bound_def Let_def)
  have rows2: "od_permissions ?db2 \<noteq> []" by (simp add: set_attempted_def authorized_db_def)
  have nm: "receipt_name_ok name" unfolding name_def by (rule audit_name_ok) (use calm in \<open>simp_all add: op_calm_def\<close>)
  have sh: "sha256_text ?sha" using hash by simp
  note dv = db_valid_delivered [OF authorized_valid(2) [OF max] rows2 nm sh, folded db_def]
  have len: "length (od_permissions db) = 1"
    unfolding dv(2) set_attempted_facts(1) by (simp add: authorized_db_def)
  have v: "validate_state C op env db = Inr (1, 0, Some (Delivered name ?sha))"
    using dv(1) len calm by (simp add: validate_state_iff op_calm_def)
  have row: "permission_row C op db (first_permission C op) = Inr (0, True)"
    using first_permission_row(2) [OF hash, of op] unfolding permission_row_def dv(2) .
  note x = delivered_exact [OF assms(1), of F, folded G_def name_def r_def, folded C_def]
  have safe: "wire_safe (JObj r)" "json_utf8 (JObj r)"
    using receipt_documents(2) [where n = 1 and proposal = proposal] o unfolding r_def C_def wire_document_def by blast+
  have rb: "receipt_bound op (JObj (sorted_members r))"
    using receipt_bound_doc(2) [OF bound] unfolding r_def C_def .
  have stored: "stored_receipt H env op G name ?sha = Inr (JObj (sorted_members r))"
    using rb x(2) by (simp add: stored_receipt_def x(3) C_def [symmetric] default_reads [OF safe])
  have kept: "retained_result H env op G 1 0 (Delivered name ?sha) = Inr
     \<lparr>rs_state = ''DELIVERED_RECEIPT'', rs_spent = 1, rs_generation = 0, rs_reason = ''verified_retained_outcome'',
      rs_receipt = Some (JObj (sorted_members r))\<rparr>"
    by (simp add: retained_result_def verified_outcome_def C_def [symmetric] x(1) stored)
  have "reserve H env op (first_permission C op) G db = (db, Inr (Some
     \<lparr>rs_state = ''DELIVERED_RECEIPT'', rs_spent = 1, rs_generation = 0, rs_reason = ''verified_retained_outcome'',
      rs_receipt = Some (JObj (sorted_members r))\<rparr>))"
    using calm kept by (simp add: reserve_def transaction_def reserve_body_def Let_def C_def [symmetric] v row op_calm_def)
  then show ?thesis by (simp add: deliver_def)
qed

text \<open>
  C7: liveness: an operation that \<open>create\<close> admitted can be authorised, delivered and delivered again when the host is
  undisturbed: the writer creates the output with the whole text and a receipt that \<open>verify_workspace_output\<close>
  accepts, the outcome is \<open>DELIVERED_RECEIPT\<close> after one permission, and asking again with the same permission
  answers that outcome from the database without another write.
\<close>

theorem operation_delivers:
  assumes "hash_ok (hs_codec H)" "mk_ws_policy (hs_abspath H) q = Inr p"
    and "create_operation H env0 parent present F p rq = Inr (op, db)" "utf8_valid (rq_content rq)" "op_calm H op env"
    and "open_workspace (hs_codec H) (hs_casefold H) None None p (oe_session env) = Inr g"
    and "F (audit_path p (oe_session env) 1 ''intent'') = None" "F (audit_path p (oe_session env) 1 ''result'') = None"
  shows "\<exists>db1 pm db2 cs r r'. authorize H env op F db = (db1, Inr pm) \<and> deliver H env env op pm F F db1 = (db2, cs, Inr r)
    \<and> rs_state r = ''DELIVERED_RECEIPT'' \<and> rs_spent r = 1
    \<and> create_all F cs (output_path p (rq_artifact rq)) = Some (Regular (rq_content rq))
    \<and> verify_workspace_output (hs_codec H) (hs_time H) True p (create_all F cs)
        (audit_path p (oe_session env) 1 ''result'') \<noteq> None
    \<and> deliver H env env op pm (create_all F cs) (create_all F cs) db2 = (db2, [], Inr r')
    \<and> rs_state r' = ''DELIVERED_RECEIPT'' \<and> rs_receipt r' \<noteq> None"
proof -
  note ci = created_inputs [OF assms(3)]
  have pv: "policy_valid (wo_policy op)" using mk_ws_policy_valid [OF assms(2)] ci(2) by simp
  have free: "F (bound_path op) = None" by (rule file_absent [OF ci(6)])
  have u: "utf8_valid (wo_content op)" using assms(4) ci(3) by simp
  note au = authorize_first [where F = F, OF assms(1) pv ci(1) assms(5) free]
  have au': "authorize H env op F db = (authorized_db (hs_codec H) op, Inr (first_permission (hs_codec H) op))"
    using au ci(5) by (simp add: authorized_db_def first_row_def first_permission_def)
  show ?thesis
  proof (rule deliver_first [OF assms(1) pv ci(1) assms(5) u, unfolded ci(2), OF assms(6,7) free assms(8)])
    fix d name sha persisted
    let ?C = "hs_codec H" and ?a = "rq_artifact rq" and ?t = "rq_content rq" and ?s = "oe_session env"
    let ?raw = "ws_json ?C (write_proposal (wb_artifact (wo_binding op)) (wo_content op))"
    assume d: "op_delivered H env op ?raw d"
      "deliver H env env op (first_permission ?C op) F F (authorized_db ?C op)
        = (set_delivered name sha (set_attempted 1 (authorized_db ?C op)),
           delivered_files ?C p ?s 1 ?raw (wb_artifact (wo_binding op)) (wo_content op) d,
           Inr \<lparr>rs_state = ''DELIVERED_RECEIPT'', rs_spent = 1, rs_generation = 0, rs_reason = ''writer_receipt_durable'',
                 rs_receipt = Some persisted\<rparr>)"
      and nm: "name = audit_file ?s 1 ''result''"
      and sh: "sha = ws_sha ?C (ws_json ?C (JObj (receipt_doc ?C p ?s 1 ?raw (wb_artifact (wo_binding op)) (wo_content op) d)) @ [CHR 0x0A])"
    have art: "?a \<in> set (output_names p)" using ci(1,2,4) by (simp add: op_bound_def Let_def)
    have state: "delivered_state H env op ?raw d F = create_all F (delivered_files ?C p ?s 1 ?raw (wb_artifact (wo_binding op)) (wo_content op) d)"
      by (simp add: delivered_state_def ci(2))
    have out: "create_all F (delivered_files ?C p ?s 1 ?raw (wb_artifact (wo_binding op)) (wo_content op) d) (output_path p ?a)
        = Some (Regular ?t)"
      using delivered_lookup(1) [OF pv [unfolded ci(2)] art] by (simp add: ci(3,4))
    have ver: "verify_workspace_output ?C (hs_time H) True p
        (create_all F (delivered_files ?C p ?s 1 ?raw (wb_artifact (wo_binding op)) (wo_content op) d)) (audit_path p ?s 1 ''result'') \<noteq> None"
      using delivered_exact(2) [OF d(1), of F] assms(5) unfolding verified_receipt_def state ci(2) audit_path_def
      by (simp add: op_calm_def)
    note again = deliver_again [OF d(1), of F, unfolded state, unfolded ci(2), folded nm sh]
    show ?thesis
      by (intro exI conjI) (rule au', rule d(2), simp, simp, rule out, rule ver, rule again, simp, simp)
  qed
qed

end
