(* ===== verification/Workspace_Witnesses.thy ===== *)
theory Workspace_Witnesses
  imports Workspace_Liveness
begin

text \<open>One concrete host, policy, request and environment, at which the properties of the workspace are applied.\<close>

section \<open>The instance\<close>

definition noon :: datetime where
  "noon = \<lparr>dt_instant = 0, dt_offset = Some 0\<rparr>"

definition note_policy :: ws_policy where
  "note_policy = \<lparr>wp_dir = ''/w'', wp_outputs = [(''note'', ''note.txt'')], wp_max_bytes = 64, wp_max_proposals = 1,
     wp_class = ''private'', wp_restrictions = None, wp_expires = None\<rparr>"

definition sample_session :: string where
  "sample_session = ''0123456789abcdef0123456789abcdef''"

definition sample_host :: host where
  "sample_host = \<lparr>hs_codec = sample_codec, hs_casefold = lower, hs_abspath = (\<lambda>s. s), hs_time = (\<lambda>_. Some noon)\<rparr>"

definition note_request :: op_request where
  "note_request = \<lparr>rq_state = ''/s/op.db'', rq_operation = ''op-1'', rq_artifact = ''note'', rq_content = ''hi'', rq_max = 2\<rparr>"

definition sample_submit :: submit_env where
  "sample_submit = \<lparr>se_now = noon, se_intent = NoFault, se_later = noon, se_output = NoFault, se_readback = Some ''hi'',
     se_result = NoFault\<rparr>"

definition note_env :: op_env where
  "note_env = \<lparr>oe_digest = Inr None, oe_admitted = True, oe_root = Some (1, 2), oe_connect = None, oe_storage = True,
     oe_now = noon, oe_later = noon, oe_check = True, oe_session = sample_session, oe_root1 = None, oe_root2 = None,
     oe_submit = sample_submit, oe_timing = JNull\<rparr>"

definition sample_operation :: ws_operation where
  "sample_operation = \<lparr>wo_policy = note_policy,
     wo_binding = bind_request sample_codec note_policy note_request (1, 2) None, wo_content = ''hi'', wo_max = 2\<rparr>"

definition no_files :: file_system where
  "no_files = (\<lambda>_. None)"

lemma sample_policy_made: "mk_ws_policy (\<lambda>s. s) note_policy = Inr note_policy"
  by (simp add: mk_ws_policy_def note_policy_def raise_first_def ws_data_classes_def reserved_name_def lower_def lower_char_def
      is_upper_alpha_def alias_char_def is_lower_alpha_def)

lemma sample_valid: "policy_valid note_policy"
  by (rule mk_ws_policy_valid [OF sample_policy_made])

lemma sample_hex: "lower_hex32 sample_session"
  by (simp add: lower_hex32_def sample_session_def is_lower_hex_def is_digit_def)

lemma sample_dt_json: "dt_json sample_codec noon = ''0''"
  by (simp add: sample_codec_def noon_def int_repr_def nat_digits_zero zero_digit)

lemma one_digits: "nat_digits 1 = ''1''" "two_digits 1 = ''01''"
proof -
  have "digit_char 1 = CHR ''1''" by code_simp
  then show "nat_digits 1 = ''1''" by (subst nat_digits.simps) simp
  then show "two_digits 1 = ''01''" by (simp add: two_digits_def)
qed

lemma sample_audit_names:
  "audit_file sample_session 1 phase = ''.ash-0123456789abcdef0123456789abcdef-01-'' @ phase @ ''.json''"
  unfolding audit_file_def sample_session_def one_digits by simp

lemma filename_ok_ascii:
  assumes "f \<noteq> []" "last f \<noteq> CHR ''.''" "last f \<noteq> CHR '' ''" "list_all (\<lambda>c. c \<notin> set windows_invalid \<and> \<not> ord c < 32 \<and> ord c < 128) f"
    "\<not> windows_device (takeWhile (\<lambda>c. c \<noteq> CHR ''.'') f)" "length f \<le> 255"
  shows "filename_ok f"
proof -
  have "is_ascii f" using assms(4) by (auto simp: is_ascii_def list_all_iff)
  with assms show ?thesis by (auto simp: filename_ok_def encodable_ascii list_all_iff)
qed

lemma sample_names_ok:
  "filename_ok ''note.txt''" "filename_ok (audit_file sample_session 1 ''intent'')" "filename_ok (audit_file sample_session 1 ''result'')"
  "filename_ok ''op.db''"
  unfolding sample_audit_names
  by (rule filename_ok_ascii; simp add: windows_invalid_def windows_device_def device_digits_def lower_def
      lower_char_def is_upper_alpha_def ord_def)+

lemma sample_opened: "\<exists>g. open_workspace sample_codec lower None None note_policy sample_session = Inr g"
proof -
  have targets: "audit_targets sample_session 1 = [(''intent1'', audit_file sample_session 1 ''intent''), (''result1'', audit_file sample_session 1 ''result'')]"
    by (simp add: audit_targets_def audit_key_def one_digits [simplified])
  have distinct: "lower (audit_file sample_session 1 ''intent'') \<noteq> lower (audit_file sample_session 1 ''result'')"
    by (simp add: sample_audit_names [simplified] lower_def lower_char_def is_upper_alpha_def)
  have doc: "json_encodable (ws_policy_doc sample_codec note_policy)"
    by (simp add: ws_policy_doc_def note_policy_def ws_version_def encodable_ascii is_ascii_def)
  have f1: "\<exists>w. open_files lower None ''/w'' [(''note'', ''note.txt'')] 64 = Inr w"
    using sample_names_ok(1) by (simp add: open_files_def validate_filename_def alias_char_def is_lower_alpha_def)
  have f2: "\<exists>w. open_files lower None ''/w'' [(''intent1'', audit_file sample_session 1 ''intent''), (''result1'', audit_file sample_session 1 ''result'')] 16384 = Inr w"
    using sample_names_ok(2,3) distinct
    by (simp add: open_files_def validate_filename_def alias_char_def is_lower_alpha_def is_digit_def lower_def lower_char_def is_upper_alpha_def)
  from f1 f2 doc targets show ?thesis by (auto simp: open_workspace_def note_policy_def Let_def)
qed

lemma sample_created:
  "create_operation sample_host note_env True False no_files note_policy note_request
    = Inr (sample_operation, created_db sample_codec sample_operation)"
proof -
  have ok: "op_request_ok (\<lambda>s. s) note_policy note_request"
  proof -
    have "path_name ''/s/op.db'' = ''op.db''" by (simp add: path_name_def)
    then show ?thesis using sample_names_ok(4)
      by (simp add: op_request_ok_def note_request_def note_policy_def output_names_def encodable_ascii is_ascii_def
          is_lower_alpha_def is_digit_def operation_id_char_def)
  qed
  have inputs: "operation_inputs sample_host True (Some (1, 2)) True (Inr None) note_policy note_request = Inr sample_operation"
    using ok by (simp add: operation_inputs_def sample_host_def sample_operation_def)
      (simp add: note_request_def note_policy_def inside_def)
  have "file_state_for sample_codec (Some (1, 2)) sample_operation no_files = FileAbsent"
    by (simp add: file_state_for_def sample_operation_def bind_request_def read_file_def no_files_def)
  with inputs show ?thesis by (simp add: create_operation_def note_env_def sample_host_def)
qed

lemma sample_calm: "op_calm sample_host sample_operation note_env"
  using sample_hex sample_dt_json
  by (simp add: op_calm_def note_env_def sample_operation_def bind_request_def submit_calm_def sample_submit_def source_expired_def
      note_policy_def sample_host_def is_ascii_def ord_def) (simp add: noon_def dt_aware_def)

section \<open>A call and an operation\<close>

lemma sample_bound: "op_bound sample_codec sample_operation"
  using operation_inputs_bound(1) created_inputs(1) [OF sample_created] by (simp add: sample_host_def)

lemma hi_utf8: "utf8_valid ''hi''"
  by (simp add: utf8_valid_ascii is_ascii_def)

text \<open>A successful call of an opened workspace.\<close>

lemma note_call:
  obtains g g' cs r proposal where "workspace_ok g" "gws_opened_policy g = note_policy" "gws_opened_session g = sample_session"
    "ws_submit sample_codec sample_submit g no_files proposal = (g', cs, r)" "obj_get r ''applied'' = Some (JBool True)"
    "obj_get r ''receipt_complete'' = Some (JBool True)"
proof -
  obtain g where g: "open_workspace sample_codec lower None None note_policy sample_session = Inr g"
    using sample_opened by blast
  have new: "workspace_new sample_codec note_policy sample_session g"
    by (rule open_workspace_new [OF g]) (simp add: note_policy_def)
  have art: "''note'' \<in> set (output_names note_policy)" by (simp add: note_policy_def output_names_def)
  have session: "is_ascii sample_session" "length sample_session = 32"
    using sample_hex session_ascii by (simp_all add: lower_hex32_def)
  have now: "dt_aware (se_now sample_submit)" "se_now sample_submit = noon" by (simp_all add: sample_submit_def noon_def dt_aware_def)
  obtain d where d: "decide_text sample_codec note_policy ''note'' ''hi'' (call_name sample_session 1) sample_session (se_now sample_submit) = Inr d"
    "gd_disposition d = Allow" "allowed_decision sample_codec note_policy ''hi'' (se_now sample_submit) d" "alias_text ''note''"
    by (rule bound_decision [OF sample_hash sample_valid art session(1) now(1), of "''hi''" 1])
  have rr: "receipt_ready sample_codec note_policy sample_session ''note'' ''hi'' (se_now sample_submit) d"
    using session d(3,4) by (simp add: receipt_ready_def now(2) sample_dt_json is_ascii_def ord_def)
  let ?raw = "ws_json sample_codec (write_proposal ''note'' ''hi'')"
  have read: "proposal_content sample_codec note_policy ?raw = Inr (''note'', ''hi'')"
    by (rule proposal_read(2) [OF d(4) hi_utf8 _ _ _ sample_valid]) (simp_all add: note_policy_def)
  have fits: "audit_fits sample_codec (intent_doc sample_codec note_policy sample_session 1 ?raw ''note'' ''hi'' d)"
    "audit_fits sample_codec (receipt_doc sample_codec note_policy sample_session 1 ?raw ''note'' ''hi'' d)"
    by (rule documents_fit [OF rr _ session(2)]; simp add: now(2) sample_dt_json)+
  have calm: "submit_calm note_policy ''hi'' sample_submit"
    by (simp add: submit_calm_def sample_submit_def source_expired_def note_policy_def)
  obtain g' where "ws_submit sample_codec sample_submit g no_files ?raw =
      (g', delivered_files sample_codec note_policy sample_session 1 ?raw ''note'' ''hi'' d,
       receipt_doc sample_codec note_policy sample_session 1 ?raw ''note'' ''hi'' d)"
    using submit_delivers [where F = no_files, OF new sample_valid calm read d(1,2) rr art fits] by (auto simp: no_files_def)
  with new show ?thesis by (intro that) (auto simp: workspace_new_def receipt_fields)
qed

section \<open>Witnesses\<close>

theorem decision_allows_configured_outputs_witness:
  "\<exists>d. decide_text sample_codec note_policy ''note'' ''hi'' (call_name sample_session 1) sample_session noon = Inr d
    \<and> gd_disposition d = Allow \<and> ev_content (gd_evidence d) = ws_sha sample_codec ''hi''"
proof -
  have "wp_class note_policy \<in> set ws_data_classes" "alias_text ''note''" "is_ascii sample_session" "dt_aware noon"
    "''note'' \<in> set (output_names note_policy)"
    using session_ascii [OF sample_hex]
    by (simp_all add: note_policy_def ws_data_classes_def is_lower_alpha_def alias_char_def noon_def dt_aware_def output_names_def)
  with decision_allows_configured_outputs [of sample_codec note_policy "''note''" sample_session noon "''hi''" 1] show ?thesis by auto
qed

theorem submit_effect_after_intent_witness:
  "\<exists>g g' cs r proposal. ws_submit sample_codec sample_submit g no_files proposal = (g', cs, r) \<and> workspace_ok g
    \<and> workspace_ok g' \<and> fresh_creations no_files cs \<and> gws_attempts g' \<le> wp_max_proposals note_policy
    \<and> (\<exists>a t. proposal_content sample_codec note_policy proposal = Inr (a, t) \<and> (output_path note_policy a, t) \<in> set cs)"
proof -
  obtain g g' cs r proposal where g: "workspace_ok g" "gws_opened_policy g = note_policy"
    "ws_submit sample_codec sample_submit g no_files proposal = (g', cs, r)" "obj_get r ''applied'' = Some (JBool True)"
    by (rule note_call)
  note c = submit_effect_after_intent [OF g(1,3), unfolded g(2)]
  have "workspace_ok g'" "fresh_creations no_files cs" "gws_attempts g' \<le> wp_max_proposals note_policy" using c by blast+
  moreover have "\<exists>a t. proposal_content sample_codec note_policy proposal = Inr (a, t) \<and> (output_path note_policy a, t) \<in> set cs"
    using c g(4) by blast
  ultimately show ?thesis using g(1,3) by blast
qed

theorem submitted_output_verifies_witness:
  "\<exists>F name a t. verify_workspace_output sample_codec (\<lambda>_. Some noon) True note_policy F (join_path ''/w'' name)
    = Some (a, int (length t), ws_sha sample_codec t)"
proof -
  obtain g g' cs r proposal where g: "workspace_ok g" "gws_opened_policy g = note_policy" "gws_opened_session g = sample_session"
    "ws_submit sample_codec sample_submit g no_files proposal = (g', cs, r)" "obj_get r ''applied'' = Some (JBool True)"
    "obj_get r ''receipt_complete'' = Some (JBool True)"
    by (rule note_call)
  have now: "dt_aware (se_now sample_submit)" "is_ascii (dt_json sample_codec (se_now sample_submit))"
    by (simp_all add: sample_submit_def sample_dt_json is_ascii_def ord_def) (simp add: noon_def dt_aware_def)
  have dir: "wp_dir note_policy = ''/w''" by (simp add: note_policy_def)
  from submitted_output_verifies [where parse_time = "\<lambda>_. Some noon" and abspath = "\<lambda>s. s" and q = note_policy,
      OF g(1,4,5,6) _ _ sample_hash now] sample_policy_made sample_hex
  show ?thesis unfolding g(2,3) dir by (simp only: option.distinct not_False_eq_True simp_thms) blast
qed

theorem operation_delivers_witness:
  "\<exists>db1 pm db2 cs r. authorize sample_host note_env sample_operation no_files (created_db sample_codec sample_operation) = (db1, Inr pm)
    \<and> deliver sample_host note_env note_env sample_operation pm no_files no_files db1 = (db2, cs, Inr r)
    \<and> rs_state r = ''DELIVERED_RECEIPT'' \<and> create_all no_files cs ''/w/note.txt'' = Some (Regular ''hi'')"
proof -
  obtain g where g: "open_workspace (hs_codec sample_host) (hs_casefold sample_host) None None note_policy (oe_session note_env) = Inr g"
    using sample_opened by (auto simp: sample_host_def note_env_def)
  have h: "hash_ok (hs_codec sample_host)" "mk_ws_policy (hs_abspath sample_host) note_policy = Inr note_policy"
    "utf8_valid (rq_content note_request)"
    using sample_policy_made hi_utf8 by (simp_all add: sample_host_def note_request_def)
  have path: "output_path note_policy (rq_artifact note_request) = ''/w/note.txt''" "rq_content note_request = ''hi''"
    by (simp_all add: output_path_def join_path_def note_policy_def note_request_def)
  from operation_delivers [OF h(1,2) sample_created h(3) sample_calm g] show ?thesis
    unfolding path by (auto simp: no_files_def)
qed

text \<open>Runs of the sample operation: authorised; and reconciled, after which the files change.\<close>

definition sample_start :: world where
  "sample_start = created_world sample_codec sample_operation no_files"

lemma sample_authorized:
  "op_run sample_host sample_operation sample_start (sample_start\<lparr>wd_db := authorized_db sample_codec sample_operation\<rparr>)"
proof (rule op_run.run_step [OF op_run.run_start])
  have h: "hs_codec sample_host = sample_codec" by (simp add: sample_host_def)
  have p: "wo_policy sample_operation = note_policy" by (simp add: sample_operation_def)
  have a: "authorize sample_host note_env sample_operation no_files (created_db sample_codec sample_operation)
      = (authorized_db sample_codec sample_operation, Inr (first_permission sample_codec sample_operation))"
    using authorize_first [where H = sample_host and op = sample_operation and F = no_files and env = note_env]
      sample_bound sample_calm sample_valid
    by (simp add: h p no_files_def authorized_db_def first_row_def first_permission_def)
  show "op_step sample_host sample_operation sample_start (sample_start\<lparr>wd_db := authorized_db sample_codec sample_operation\<rparr>)"
    by (rule op_step.step_authorize [where env = note_env]) (use a in \<open>simp add: sample_start_def created_world_def\<close>)
qed

theorem workspace_operation_invariant_witness:
  "\<exists>w. op_run sample_host sample_operation (created_world sample_codec sample_operation no_files) w
    \<and> length (od_permissions (wd_db w)) = 1 \<and> int (length (od_permissions (wd_db w))) \<le> wo_max sample_operation
    \<and> distinct (wd_calls w)"
proof -
  have h: "hs_codec sample_host = sample_codec" "0 \<le> wo_max sample_operation" by (simp_all add: sample_host_def sample_operation_def)
  let ?w = "sample_start\<lparr>wd_db := authorized_db sample_codec sample_operation\<rparr>"
  have one: "length (od_permissions (wd_db ?w)) = 1" by (simp add: authorized_db_def)
  from workspace_operation_invariant [of sample_host sample_operation no_files ?w] sample_authorized h one show ?thesis
    unfolding sample_start_def by auto
qed

theorem workspace_outcome_final_witness:
  "\<exists>w v. op_run sample_host sample_operation w v \<and> wd_files v \<noteq> wd_files w
    \<and> has_outcome sample_codec sample_operation Reconciled v \<and> wd_calls v = wd_calls w"
proof -
  let ?db = "set_reconciled (authorized_db sample_codec sample_operation)"
  let ?w = "sample_start\<lparr>wd_db := ?db\<rparr>" and ?F = "no_files(''/w/note.txt'' \<mapsto> Regular ''hi'')"
  let ?v = "?w\<lparr>wd_files := ?F\<rparr>"
  have h: "hs_codec sample_host = sample_codec" by (simp add: sample_host_def)
  have "db_valid sample_codec sample_operation (authorized_db sample_codec sample_operation) 0 None"
    by (rule authorized_valid) (simp add: sample_operation_def)
  from db_valid_reconciled(1) [OF this] have out: "has_outcome sample_codec sample_operation Reconciled ?w"
    by (auto simp: has_outcome_def authorized_db_def)
  have run: "op_run sample_host sample_operation ?w ?v"
    by (rule op_run.run_step [OF op_run.run_start op_step.step_files])
  have "wd_files ?v ''/w/note.txt'' \<noteq> wd_files ?w ''/w/note.txt''"
    by (simp add: sample_start_def created_world_def no_files_def)
  then have differ: "wd_files ?v \<noteq> wd_files ?w" by metis
  from workspace_outcome_final [of sample_host sample_operation ?w ?v Reconciled] run out h
  have "has_outcome sample_codec sample_operation Reconciled ?v" "wd_calls ?v = wd_calls ?w" by simp_all
  with run differ show ?thesis by blast
qed

end
