(* ===== verification/Doubles.thy ===== *)
theory Doubles
  imports Prelude
begin

text \<open>
  IEEE double arithmetic over the rationals, as Python's \<open>float\<close> uses it: the correctly rounded
  result of an exact operation (round half to even, with gradual underflow), true division
  of integers, \<open>round(x, 4)\<close> and the format \<open>.2f\<close>.
\<close>

section \<open>Rounding to an integer\<close>

definition round_even :: "rat \<Rightarrow> int" where
  "round_even x =
     (let f = \<lfloor>x\<rfloor>; r = x - of_int f
      in if r < 1 / 2 then f else if r > 1 / 2 then f + 1 else if even f then f else f + 1)"

lemma round_even_le: "x \<le> of_int n \<Longrightarrow> round_even x \<le> n"
proof -
  assume le: "x \<le> of_int n"
  show ?thesis
  proof (cases "x = of_int n")
    case True
    then show ?thesis by (simp add: round_even_def)
  next
    case False
    with le have "\<lfloor>x\<rfloor> < n" by (simp add: floor_less_iff)
    then show ?thesis by (auto simp: round_even_def Let_def)
  qed
qed

lemma round_even_ge: "of_int n \<le> x \<Longrightarrow> n \<le> round_even x"
proof -
  assume "of_int n \<le> x"
  then have "n \<le> \<lfloor>x\<rfloor>" by (simp add: le_floor_iff)
  then show ?thesis by (auto simp: round_even_def Let_def)
qed

section \<open>Rounding to a double\<close>

function log2_floor :: "int \<Rightarrow> nat" where
  "log2_floor n = (if n < 2 then 0 else Suc (log2_floor (n div 2)))"
  by auto
termination by (relation "measure nat") auto

declare log2_floor.simps [simp del]

text \<open>The exponent of the binade that a positive number lies in.\<close>

definition binade :: "rat \<Rightarrow> int" where
  "binade x = (let (p, q) = quotient_of x; e = int (log2_floor p) - int (log2_floor q)
               in if 2 powi e \<le> x then e else e - 1)"

definition double_exponent :: "rat \<Rightarrow> int" where
  "double_exponent x = max (- 1074) (binade \<bar>x\<bar> - 52)"

definition double :: "rat \<Rightarrow> rat" where
  "double x = (if x = 0 then 0
     else of_int (round_even (x / 2 powi double_exponent x)) * 2 powi double_exponent x)"

lemma log2_floor_bounds: "0 < n \<Longrightarrow> 2 ^ log2_floor n \<le> n \<and> n < 2 ^ Suc (log2_floor n)"
proof (induction n rule: log2_floor.induct)
  case (1 n)
  show ?case
  proof (cases "n < 2")
    case True
    with 1(2) show ?thesis by (simp add: log2_floor.simps [of n])
  next
    case False
    with 1(1) have "2 ^ log2_floor (n div 2) \<le> n div 2 \<and> n div 2 < 2 ^ Suc (log2_floor (n div 2))" by simp
    moreover have "n = 2 * (n div 2) + n mod 2" "0 \<le> n mod 2" "n mod 2 < 2" by simp_all
    ultimately have "2 * 2 ^ log2_floor (n div 2) \<le> n \<and> n < 4 * 2 ^ log2_floor (n div 2)"
      unfolding power_Suc by linarith
    then show ?thesis using False by (simp add: log2_floor.simps [of n])
  qed
qed

lemma binade_bounds:
  assumes "0 < x"
  shows "2 powi binade x \<le> x" "x < 2 powi (binade x + 1)"
proof -
  obtain p q where pq: "quotient_of x = (p, q)" by (cases "quotient_of x")
  then have q: "0 < q" by (rule quotient_of_denom_pos)
  have x: "x = of_int p / of_int q" by (rule quotient_of_div [OF pq])
  with assms q have p: "0 < p" by (simp add: zero_less_divide_iff)
  let ?a = "log2_floor p" and ?b = "log2_floor q"
  let ?e = "int ?a - int ?b"
  have "2 ^ ?a \<le> p" "p < 2 ^ Suc ?a" "2 ^ ?b \<le> q" "q < 2 ^ Suc ?b"
    using log2_floor_bounds [OF p] log2_floor_bounds [OF q] by auto
  then have bounds: "(2::rat) ^ ?a \<le> of_int p" "of_int p < (2::rat) ^ Suc ?a" "(2::rat) ^ ?b \<le> of_int q" "of_int q < (2::rat) ^ Suc ?b"
    by (metis of_int_le_iff of_int_less_iff of_int_numeral of_int_power)+
  have lo: "2 powi (?e - 1) < x"
  proof -
    have "2 powi (?e - 1) * of_int q < (2::rat) powi (?e - 1) * 2 ^ Suc ?b"
      using bounds(4) by simp
    also have "\<dots> = 2 ^ ?a" by (simp add: power_int_diff power_int_add field_simps)
    also have "\<dots> \<le> of_int p" by (rule bounds(1))
    finally show ?thesis using q by (simp add: x less_divide_eq)
  qed
  have hi: "x < 2 powi (?e + 1)"
  proof -
    have "of_int p < (2::rat) ^ Suc ?a" by (rule bounds(2))
    also have "\<dots> = 2 powi (?e + 1) * 2 ^ ?b"
      by (simp add: power_int_diff power_int_add field_simps)
    also have "\<dots> \<le> 2 powi (?e + 1) * of_int q" using bounds(3) by simp
    finally show ?thesis using q by (simp add: x divide_less_eq)
  qed
  show "2 powi binade x \<le> x" "x < 2 powi (binade x + 1)"
    using lo hi by (auto simp: binade_def pq Let_def)
qed

lemma double_nonneg: "0 \<le> x \<Longrightarrow> 0 \<le> double x"
  using round_even_ge [of 0] by (simp add: double_def)

lemma double_le_one:
  assumes "0 \<le> x" "x \<le> 1"
  shows "double x \<le> 1"
proof (cases "x = 0")
  case False
  with assms have pos: "0 < x" by simp
  have "binade x \<le> 0"
  proof (rule ccontr)
    assume "\<not> binade x \<le> 0"
    then have "(1::rat) < 2 powi binade x" by (simp add: power_int_def)
    with binade_bounds(1) [OF pos] assms(2) show False by simp
  qed
  then have e: "double_exponent x \<le> 0" using pos by (simp add: double_exponent_def)
  define k where "k = nat (- double_exponent x)"
  have k: "double_exponent x = - int k" using e by (simp add: k_def)
  have p: "(2::rat) powi double_exponent x = 1 / 2 ^ k"
    by (simp only: k power_int_minus_divide power_int_of_nat)
  have "x / 2 powi double_exponent x \<le> of_int (2 ^ k)" using assms(2) by (simp add: p)
  then have "round_even (x / 2 powi double_exponent x) \<le> 2 ^ k" by (rule round_even_le)
  then have "(of_int (round_even (x / 2 powi double_exponent x)) :: rat) \<le> of_int (2 ^ k)" by (rule of_int_le_iff [THEN iffD2])
  with False show ?thesis by (simp add: double_def p divide_le_eq)
qed (simp add: double_def)

section \<open>Operations\<close>

definition dmul :: "rat \<Rightarrow> rat \<Rightarrow> rat" where
  "dmul x y = double (x * y)"

definition dadd :: "rat \<Rightarrow> rat \<Rightarrow> rat" where
  "dadd x y = double (x + y)"

text \<open>\<open>a / b\<close> for integers: correctly rounded, \<open>None\<close> where it raises \<open>OverflowError\<close>.\<close>

definition int_div :: "int \<Rightarrow> int \<Rightarrow> rat option" where
  "int_div a b = (let d = double (of_int a / of_int b) in if \<bar>d\<bar> < 2 powi 1024 then Some d else None)"

text \<open>\<open>round(x, 4)\<close>: the double nearest to the decimal that is nearest to the exact value.\<close>

definition round4 :: "rat \<Rightarrow> rat" where
  "round4 x = double (of_int (round_even (x * 10000)) / 10000)"

lemma round4_unit: "0 \<le> x \<Longrightarrow> x \<le> 1 \<Longrightarrow> 0 \<le> round4 x \<and> round4 x \<le> 1"
proof -
  assume x: "0 \<le> x" "x \<le> 1"
  then have n: "0 \<le> round_even (x * 10000)" "round_even (x * 10000) \<le> 10000"
    by (auto intro: round_even_ge round_even_le)
  then have "(0::rat) \<le> of_int (round_even (x * 10000)) / 10000" "of_int (round_even (x * 10000)) / 10000 \<le> (1::rat)"
    by (simp_all add: divide_le_eq)
  then show ?thesis by (simp add: round4_def double_nonneg double_le_one)
qed

text \<open>The format \<open>.2f\<close> of a number that is not negative.\<close>

definition fixed2 :: "rat \<Rightarrow> string" where
  "fixed2 x = (let n = nat (round_even (x * 100))
     in nat_digits (n div 100) @ ''.'' @ [digit_char (n div 10 mod 10), digit_char (n mod 10)])"

end
