(* ===== verification/Handoff.thy ===== *)
theory Handoff
  imports Guard_Model Doubles
begin

text \<open>
  \<open>handoff_integrity.py\<close>: the envelope of a handoff between agents, its verification against the
  payload and the parent's labels and authority, and the raw entry point. Scores are doubles
  (\<open>Doubles\<close>). Pydantic's conversion of a raw mapping to typed fields is the parameter \<open>coerce\<close>; the
  constraints of the fields are \<open>handoff_fields_ok\<close>. The verdicts are those of \<open>Guard_Model\<close>.
\<close>

section \<open>Data\<close>

datatype payload_type = SummaryPayload | ToolOutputPayload | CapabilityPayload | ApprovalPayload
  | MemoryRecallPayload | DecisionPayload | ErrorPayload

datatype failure_reason = MissingEnvelope | MissingProvenance | IntegrityMismatch | LabelLoss | AuthorityExpansion
  | RecipientViolation | StaleOrReplayed | PolicyMismatch | VerifierError | UnsafeConsumption

definition hard_reason_order :: "failure_reason list" where
  "hard_reason_order = [MissingEnvelope, MissingProvenance, IntegrityMismatch, LabelLoss, AuthorityExpansion,
     RecipientViolation, StaleOrReplayed, PolicyMismatch, VerifierError]"

definition source_label_required :: "payload_type list" where
  "source_label_required = [SummaryPayload, ToolOutputPayload, ApprovalPayload, MemoryRecallPayload]"

fun payload_multiplier :: "payload_type \<Rightarrow> rat" where
  "payload_multiplier CapabilityPayload = double (3 / 2)"
| "payload_multiplier ApprovalPayload = double (13 / 10)"
| "payload_multiplier SummaryPayload = 1"
| "payload_multiplier ToolOutputPayload = double (4 / 5)"
| "payload_multiplier MemoryRecallPayload = double (6 / 5)"
| "payload_multiplier DecisionPayload = 1"
| "payload_multiplier ErrorPayload = 1"

definition payload_type_names :: "(string \<times> payload_type) list" where
  "payload_type_names = [(''capability'', CapabilityPayload), (''approval'', ApprovalPayload), (''summary'', SummaryPayload),
     (''tool_output'', ToolOutputPayload), (''memory_recall'', MemoryRecallPayload), (''decision'', DecisionPayload),
     (''error'', ErrorPayload)]"

datatype verification_status = VerifyPending | VerifyDone | VerifyFailed | VerifySkipped

datatype failure_action = FailBlock | FailReview | FailDowngrade | FailQuarantine

record handoff_envelope =
  he_id :: string
  he_created :: datetime
  he_sender :: string
  he_receiver :: string
  he_task :: "string option"
  he_session :: "string option"
  he_type :: payload_type
  he_hash :: string
  he_canonicalization :: string
  he_ref :: "string option"
  he_labels :: "string list"
  he_chain :: "(string \<times> string) list list"
  he_issuer :: "string option"
  he_scope :: "string list"
  he_purpose :: string
  he_depth :: int
  he_max_depth :: int
  he_can_delegate :: bool
  he_recipients :: "string list"
  he_ttl :: int
  he_expires :: datetime
  he_policy :: string
  he_schema :: string
  he_supported :: "string list"
  he_status :: verification_status
  he_error :: "string option"
  he_action :: failure_action
  he_audit_previous :: "string option"
  he_audit_entry :: "string option"

text \<open>The constraints that the fields declare.\<close>

definition handoff_fields_ok :: "handoff_envelope \<Rightarrow> bool" where
  "handoff_fields_ok e \<longleftrightarrow> he_id e \<noteq> [] \<and> he_sender e \<noteq> [] \<and> he_receiver e \<noteq> [] \<and> py_len (he_hash e) = 64
     \<and> he_canonicalization e = ''json-v1'' \<and> 0 \<le> he_depth e \<and> 0 \<le> he_max_depth e \<and> 0 \<le> he_ttl e \<and> he_policy e \<noteq> []"

text \<open>What the exceptions of a verification are.\<close>

datatype handoff_error = HandoffTypeError | HandoffUnicodeError | HandoffValidationError | HandoffOverflowError

record handoff_verification =
  hv_verdict :: handoff_verdict
  hv_reasons :: "failure_reason list"
  hv_blockers :: "failure_reason list"
  hv_reviews :: "string list"
  hv_structural :: rat
  hv_semantic :: rat
  hv_combined :: rat
  hv_multiplier :: rat
  hv_unsafe :: int
  hv_total :: int
  hv_checked :: datetime

definition mk_handoff_verification :: "handoff_verification \<Rightarrow> handoff_error + handoff_verification" where
  "mk_handoff_verification v =
     (if 0 \<le> hv_structural v \<and> hv_structural v \<le> 1 \<and> 0 \<le> hv_semantic v \<and> hv_semantic v \<le> 1
         \<and> 0 \<le> hv_combined v \<and> hv_combined v \<le> 1 \<and> 0 \<le> hv_multiplier v \<and> 0 \<le> hv_unsafe v \<and> 0 \<le> hv_total v
      then Inr v else Inl HandoffValidationError)"

section \<open>The payload and its hash\<close>

text \<open>A payload is a JSON value, or an object that \<open>json.dumps\<close> refuses.\<close>

datatype handoff_payload = JsonPayload json | OpaquePayload

definition canonical_payload_bytes :: "codec \<Rightarrow> handoff_payload \<Rightarrow> handoff_error + string" where
  "canonical_payload_bytes C payload =
     (case payload of
        OpaquePayload \<Rightarrow> Inl HandoffTypeError
      | JsonPayload v \<Rightarrow> if json_encodable v then Inr (dumps (float_repr C) False v) else Inl HandoffUnicodeError)"

definition payload_sha256 :: "codec \<Rightarrow> handoff_payload \<Rightarrow> handoff_error + string" where
  "payload_sha256 C payload = res_bind (canonical_payload_bytes C payload) (\<lambda>raw. Inr (sha256_hex C raw))"

section \<open>Scores and results\<close>

definition semantic_score :: "int \<Rightarrow> int \<Rightarrow> handoff_error + rat" where
  "semantic_score unsafe consumed =
     (if consumed \<le> 0 then Inr 0
      else case int_div unsafe consumed of None \<Rightarrow> Inl HandoffOverflowError | Some q \<Rightarrow> Inr (max 0 (min 1 q)))"

definition ordered_unique :: "failure_reason list \<Rightarrow> failure_reason list" where
  "ordered_unique reasons = filter (\<lambda>r. r \<in> set reasons) hard_reason_order"

definition combined_score :: "payload_type \<Rightarrow> rat \<Rightarrow> rat \<Rightarrow> rat" where
  "combined_score kind structural semantic =
     (let weighted = min 1 (dmul (payload_multiplier kind) structural)
      in min 1 (dadd (dmul (double (7 / 10)) weighted) (dmul (double (3 / 10)) semantic)))"

definition handoff_result ::
  "payload_type \<Rightarrow> failure_reason list \<Rightarrow> string list \<Rightarrow> rat \<Rightarrow> int \<Rightarrow> int \<Rightarrow> datetime \<Rightarrow> handoff_error + handoff_verification"
where
  "handoff_result kind blockers reviews semantic unsafe consumed checked =
     (let structural = (if blockers \<noteq> [] then 1 else if reviews \<noteq> [] then 1 / 2 else 0);
          verdict = (if blockers \<noteq> [] then HandoffBlocked else if reviews \<noteq> [] then HandoffNeedsReview else HandoffPass)
      in mk_handoff_verification
           \<lparr>hv_verdict = verdict, hv_reasons = blockers, hv_blockers = blockers, hv_reviews = reviews,
            hv_structural = round4 structural, hv_semantic = round4 semantic,
            hv_combined = round4 (combined_score kind structural semantic), hv_multiplier = payload_multiplier kind,
            hv_unsafe = unsafe, hv_total = consumed, hv_checked = checked\<rparr>)"

section \<open>Verification\<close>

text \<open>What the caller knows of the sender: the \<open>parent_..\<close> arguments.\<close>

record handoff_parent =
  hp_labels :: "string list option"
  hp_scope :: "string list option"
  hp_issuer :: "string option"
  hp_purpose :: "string option"
  hp_ttl :: "int option"

definition option_holds :: "'a option \<Rightarrow> ('a \<Rightarrow> bool) \<Rightarrow> bool" where
  "option_holds x P \<longleftrightarrow> (case x of None \<Rightarrow> False | Some a \<Rightarrow> P a)"

text \<open>The hard blockers in the order they are appended; \<open>stale\<close> is the comparison with the clock.\<close>

definition handoff_blockers :: "string \<Rightarrow> handoff_envelope \<Rightarrow> handoff_parent \<Rightarrow> bool \<Rightarrow> failure_reason list" where
  "handoff_blockers digest e p stale =
     (let add = (\<lambda>b r. if b then [r] else [])
      in add (digest \<noteq> he_hash e) IntegrityMismatch
       @ add (he_type e \<in> set source_label_required \<and> he_labels e = []) MissingProvenance
       @ add (option_holds (hp_labels p) (\<lambda>ls. ls \<noteq> [] \<and> \<not> set ls \<subseteq> set (he_labels e))) LabelLoss
       @ add (option_holds (hp_scope p) (\<lambda>sc. \<not> set (he_scope e) \<subseteq> set sc)) AuthorityExpansion
       @ add (option_holds (hp_issuer p) (\<lambda>i. he_issuer e \<noteq> Some i)) AuthorityExpansion
       @ add (option_holds (hp_purpose p) (\<lambda>u. he_purpose e \<noteq> u)) AuthorityExpansion
       @ add (option_holds (hp_ttl p) (\<lambda>t. t < he_ttl e)) AuthorityExpansion
       @ add (he_recipients e \<noteq> [] \<and> he_receiver e \<notin> set (he_recipients e)) RecipientViolation
       @ add stale StaleOrReplayed
       @ add (he_policy e \<notin> set (he_supported e)) PolicyMismatch
       @ add (he_max_depth e < he_depth e) AuthorityExpansion
       @ add (option_holds (he_error e) (\<lambda>m. m \<noteq> [])) VerifierError)"

definition handoff_reviews :: "handoff_envelope \<Rightarrow> failure_reason list \<Rightarrow> string list" where
  "handoff_reviews e blockers =
     flag (he_action e \<noteq> FailBlock \<and> blockers \<noteq> []) ''failure_action_not_fail_closed''
     @ flag (he_audit_entry e = None) ''audit_hash_recommended''"

text \<open>\<open>now > expires_at\<close> raises when one of the two is naive and the other is not.\<close>

definition handoff_stale :: "datetime \<Rightarrow> handoff_envelope \<Rightarrow> handoff_error + bool" where
  "handoff_stale now e =
     (if dt_aware now = dt_aware (he_expires e) then Inr (dt_less (he_expires e) now) else Inl HandoffTypeError)"

definition verify_handoff ::
  "codec \<Rightarrow> handoff_envelope option \<Rightarrow> handoff_payload \<Rightarrow> datetime \<Rightarrow> handoff_parent \<Rightarrow> int \<Rightarrow> int \<Rightarrow> bool
     \<Rightarrow> handoff_error + handoff_verification"
where
  "verify_handoff C envelope payload now p unsafe consumed available =
     res_bind (semantic_score unsafe consumed) (\<lambda>semantic.
       if \<not> available then handoff_result SummaryPayload [VerifierError] [] semantic unsafe consumed now
       else case envelope of
         None \<Rightarrow> handoff_result SummaryPayload [MissingEnvelope] [] semantic unsafe consumed now
       | Some e \<Rightarrow>
           res_bind (payload_sha256 C payload) (\<lambda>digest.
           res_bind (handoff_stale now e) (\<lambda>stale.
             let blockers = handoff_blockers digest e p stale
             in handoff_result (he_type e) (ordered_unique blockers) (handoff_reviews e blockers) semantic unsafe consumed now)))"

text \<open>\<open>payload_type in _PAYLOAD_MULTIPLIERS\<close> raises for an unhashable value.\<close>

definition raw_payload_type :: "(string \<times> json) list \<Rightarrow> handoff_error + payload_type" where
  "raw_payload_type raw =
     (case obj_get raw ''payload_type'' of
        Some (JStr s) \<Rightarrow> Inr (case map_of payload_type_names s of Some k \<Rightarrow> k | None \<Rightarrow> SummaryPayload)
      | Some (JArr _) \<Rightarrow> Inl HandoffTypeError
      | Some (JObj _) \<Rightarrow> Inl HandoffTypeError
      | _ \<Rightarrow> Inr SummaryPayload)"

definition validate_envelope :: "((string \<times> json) list \<Rightarrow> handoff_envelope option) \<Rightarrow> (string \<times> json) list \<Rightarrow> handoff_envelope option"
where
  "validate_envelope coerce raw =
     (case coerce raw of None \<Rightarrow> None | Some e \<Rightarrow> if handoff_fields_ok e then Some e else None)"

definition verify_raw_handoff ::
  "codec \<Rightarrow> ((string \<times> json) list \<Rightarrow> handoff_envelope option) \<Rightarrow> (string \<times> json) list option \<Rightarrow> handoff_payload
     \<Rightarrow> datetime \<Rightarrow> handoff_parent \<Rightarrow> int \<Rightarrow> int \<Rightarrow> bool \<Rightarrow> handoff_error + handoff_verification"
where
  "verify_raw_handoff C coerce raw payload now p unsafe consumed available =
     (case raw of
        None \<Rightarrow> verify_handoff C None payload now p unsafe consumed available
      | Some r \<Rightarrow>
          (case validate_envelope coerce r of
             None \<Rightarrow> res_bind (raw_payload_type r) (\<lambda>kind.
               res_bind (semantic_score unsafe consumed) (\<lambda>semantic.
                 handoff_result kind [VerifierError] [] semantic unsafe consumed now))
           | Some e \<Rightarrow> verify_handoff C (Some e) payload now p unsafe consumed available))"

fun reason_text :: "failure_reason \<Rightarrow> string" where
  "reason_text MissingEnvelope = ''missing_envelope''"
| "reason_text MissingProvenance = ''missing_provenance''"
| "reason_text IntegrityMismatch = ''integrity_mismatch''"
| "reason_text LabelLoss = ''label_loss''"
| "reason_text AuthorityExpansion = ''authority_expansion''"
| "reason_text RecipientViolation = ''recipient_violation''"
| "reason_text StaleOrReplayed = ''stale_or_replayed''"
| "reason_text PolicyMismatch = ''policy_mismatch''"
| "reason_text VerifierError = ''verifier_error''"
| "reason_text UnsafeConsumption = ''unsafe_consumption''"

definition format_verification_summary :: "handoff_verification \<Rightarrow> string" where
  "format_verification_summary v =
     (let reasons = (if hv_reasons v = [] then ''-'' else join '','' (map reason_text (hv_reasons v)));
          reviews = (if hv_reviews v = [] then ''-'' else join '','' (hv_reviews v))
      in ''verdict='' @ verdict_text (hv_verdict v) @ ''; failure_reasons='' @ reasons @ ''; review_reasons='' @ reviews
         @ ''; S_structural='' @ fixed2 (hv_structural v) @ ''; S_semantic='' @ fixed2 (hv_semantic v)
         @ ''; S_combined='' @ fixed2 (hv_combined v))"

section \<open>Scores stay in range\<close>

lemma semantic_score_unit:
  assumes "semantic_score unsafe consumed = Inr s"
  shows "0 \<le> s" "s \<le> 1"
  using assms by (auto simp: semantic_score_def split: if_splits option.splits)

lemma semantic_score_raises: "semantic_score unsafe consumed = Inl err \<longleftrightarrow>
    0 < consumed \<and> int_div unsafe consumed = None \<and> err = HandoffOverflowError"
  by (auto simp: semantic_score_def not_le split: option.splits)

text \<open>A count of unsafe consumptions that is at most the number of consumptions never overflows.\<close>

lemma int_div_unit: "0 \<le> a \<Longrightarrow> a \<le> b \<Longrightarrow> 0 < b \<Longrightarrow> int_div a b \<noteq> None"
proof -
  assume ab: "0 \<le> a" "a \<le> b" "0 < b"
  then have q: "0 \<le> rat_of_int a / rat_of_int b" "rat_of_int a / rat_of_int b \<le> 1" by simp_all
  have "(1::rat) < 2 powi 1024" by (simp add: power_int_def)
  with double_nonneg [OF q(1)] double_le_one [OF q] show ?thesis by (simp add: int_div_def Let_def)
qed

lemma payload_multiplier_nonneg: "0 \<le> payload_multiplier kind"
  by (cases kind) (simp_all add: double_nonneg)

lemma combined_score_unit:
  assumes "0 \<le> structural" "0 \<le> semantic"
  shows "0 \<le> combined_score kind structural semantic \<and> combined_score kind structural semantic \<le> 1"
  using assms payload_multiplier_nonneg [of kind]
  by (simp add: combined_score_def dadd_def dmul_def Let_def double_nonneg)

definition verdict_of :: "failure_reason list \<Rightarrow> string list \<Rightarrow> handoff_verdict" where
  "verdict_of blockers reviews =
     (if blockers \<noteq> [] then HandoffBlocked else if reviews \<noteq> [] then HandoffNeedsReview else HandoffPass)"

lemma handoff_result_raises:
  assumes "0 \<le> semantic" "semantic \<le> 1"
  shows "handoff_result kind blockers reviews semantic unsafe consumed checked = Inl err
    \<longleftrightarrow> (unsafe < 0 \<or> consumed < 0) \<and> err = HandoffValidationError"
proof -
  define structural :: rat where "structural = (if blockers \<noteq> [] then 1 else if reviews \<noteq> [] then 1 / 2 else 0)"
  have st: "0 \<le> structural" "structural \<le> 1" by (simp_all add: structural_def)
  note c = combined_score_unit [OF st(1) assms(1), of kind]
  show ?thesis
    using round4_unit [OF st] round4_unit [OF assms] round4_unit [OF conjunct1 [OF c] conjunct2 [OF c]]
      payload_multiplier_nonneg [of kind]
    by (auto simp: handoff_result_def mk_handoff_verification_def Let_def structural_def [symmetric])
qed

lemma handoff_result_fields:
  assumes "handoff_result kind blockers reviews semantic unsafe consumed checked = Inr v"
  shows "hv_verdict v = verdict_of blockers reviews" "hv_reasons v = blockers" "hv_reviews v = reviews"
  using assms by (auto simp: handoff_result_def mk_handoff_verification_def verdict_of_def Let_def split: if_splits)

section \<open>Which reasons are reported\<close>

text \<open>The meaning of each reason, for an envelope whose payload hashes to \<open>digest\<close>.\<close>

fun reason_holds :: "string \<Rightarrow> datetime \<Rightarrow> handoff_parent \<Rightarrow> handoff_envelope \<Rightarrow> failure_reason \<Rightarrow> bool" where
  "reason_holds digest now p e IntegrityMismatch \<longleftrightarrow> digest \<noteq> he_hash e"
| "reason_holds digest now p e MissingProvenance \<longleftrightarrow> he_labels e = [] \<and> he_type e \<in> set source_label_required"
| "reason_holds digest now p e LabelLoss \<longleftrightarrow> (\<exists>ls l. hp_labels p = Some ls \<and> l \<in> set ls \<and> l \<notin> set (he_labels e))"
| "reason_holds digest now p e AuthorityExpansion \<longleftrightarrow>
     (\<exists>sc a. hp_scope p = Some sc \<and> a \<in> set (he_scope e) \<and> a \<notin> set sc)
     \<or> (\<exists>i. hp_issuer p = Some i \<and> he_issuer e \<noteq> Some i)
     \<or> (\<exists>u. hp_purpose p = Some u \<and> he_purpose e \<noteq> u)
     \<or> (\<exists>t. hp_ttl p = Some t \<and> t < he_ttl e)
     \<or> he_max_depth e < he_depth e"
| "reason_holds digest now p e RecipientViolation \<longleftrightarrow> he_recipients e \<noteq> [] \<and> he_receiver e \<notin> set (he_recipients e)"
| "reason_holds digest now p e StaleOrReplayed \<longleftrightarrow> dt_instant (he_expires e) < dt_instant now"
| "reason_holds digest now p e PolicyMismatch \<longleftrightarrow> he_policy e \<notin> set (he_supported e)"
| "reason_holds digest now p e VerifierError \<longleftrightarrow> (\<exists>m. he_error e = Some m \<and> m \<noteq> [])"
| "reason_holds digest now p e MissingEnvelope \<longleftrightarrow> False"
| "reason_holds digest now p e UnsafeConsumption \<longleftrightarrow> False"

lemma option_holds_iff [simp]: "option_holds x P \<longleftrightarrow> (\<exists>a. x = Some a \<and> P a)"
  by (cases x) (simp_all add: option_holds_def)

lemma in_handoff_blockers:
  "r \<in> set (handoff_blockers digest e p (dt_less (he_expires e) now)) \<longleftrightarrow> reason_holds digest now p e r"
  by (cases r) (auto simp: handoff_blockers_def Let_def dt_less_def)

lemma ordered_unique_blockers:
  "ordered_unique (handoff_blockers digest e p (dt_less (he_expires e) now)) = filter (reason_holds digest now p e) hard_reason_order"
  by (simp add: ordered_unique_def in_handoff_blockers)

lemma hard_reasons_complete: "reason_holds digest now p e r \<Longrightarrow> r \<in> set hard_reason_order"
  by (cases r) (simp_all add: hard_reason_order_def)

lemma handoff_blockers_Nil:
  "handoff_blockers digest e p (dt_less (he_expires e) now) = [] \<longleftrightarrow> (\<nexists>r. reason_holds digest now p e r)"
  using in_handoff_blockers [of _ digest e p now] by (metis list.set_intros(1) empty_iff list.set(1) neq_Nil_conv)

lemma filter_reasons_Nil: "filter (reason_holds digest now p e) hard_reason_order = [] \<longleftrightarrow> (\<nexists>r. reason_holds digest now p e r)"
  using hard_reasons_complete [of digest now p e] by (auto simp: filter_empty_conv)

lemma verify_handoff_available:
  assumes "verify_handoff C (Some e) payload now p unsafe consumed True = Inr v"
  obtains digest where "payload_sha256 C payload = Inr digest" "dt_aware now = dt_aware (he_expires e)"
    "hv_reasons v = filter (reason_holds digest now p e) hard_reason_order"
    "hv_verdict v = verdict_of (hv_reasons v) (hv_reviews v)"
    "hv_reviews v = handoff_reviews e (hv_reasons v)"
proof -
  from assms obtain semantic digest where d: "payload_sha256 C payload = Inr digest" "dt_aware now = dt_aware (he_expires e)"
    and r: "handoff_result (he_type e) (ordered_unique (handoff_blockers digest e p (dt_less (he_expires e) now)))
        (handoff_reviews e (handoff_blockers digest e p (dt_less (he_expires e) now))) semantic unsafe consumed now = Inr v"
    by (auto simp: verify_handoff_def handoff_stale_def Let_def split: if_splits)
  note f = handoff_result_fields [OF r, unfolded ordered_unique_blockers]
  have "hv_reviews v = handoff_reviews e (hv_reasons v)"
    unfolding f(2,3) handoff_reviews_def filter_reasons_Nil handoff_blockers_Nil ..
  with d f show ?thesis by (intro that) simp_all
qed

section \<open>Chains of handoffs\<close>

text \<open>
  What one envelope keeps of another: its labels, no more authority, the same purpose and issuer, no
  longer lifetime.
\<close>

definition narrows :: "handoff_envelope \<Rightarrow> handoff_envelope \<Rightarrow> bool" where
  "narrows c p \<longleftrightarrow> set (he_labels p) \<subseteq> set (he_labels c) \<and> set (he_scope c) \<subseteq> set (he_scope p)
     \<and> he_purpose c = he_purpose p \<and> he_ttl c \<le> he_ttl p
     \<and> (he_issuer p = None \<or> he_issuer c = he_issuer p)"

interpretation handoff_order: restriction_order narrows
  by unfold_locales (auto simp: narrows_def)

text \<open>The receiver of a handoff checks it against the envelope its sender had accepted.\<close>

definition accepted_parent :: "handoff_envelope \<Rightarrow> handoff_parent" where
  "accepted_parent e = \<lparr>hp_labels = Some (he_labels e), hp_scope = Some (he_scope e), hp_issuer = he_issuer e,
     hp_purpose = Some (he_purpose e), hp_ttl = Some (he_ttl e)\<rparr>"

lemma unblocked_narrows:
  assumes "verify_handoff C (Some c) payload now (accepted_parent p) unsafe consumed True = Inr v" "hv_verdict v \<noteq> HandoffBlocked"
  shows "narrows c p"
proof -
  from verify_handoff_available [OF assms(1)] obtain digest
    where r: "hv_reasons v = filter (reason_holds digest now (accepted_parent p) c) hard_reason_order"
      and vd: "hv_verdict v = verdict_of (hv_reasons v) (hv_reviews v)" by metis
  from vd assms(2) have "hv_reasons v = []" by (auto simp: verdict_of_def split: if_splits)
  then have none: "\<not> reason_holds digest now (accepted_parent p) c x" for x
    by (simp add: r filter_reasons_Nil)
  show ?thesis using none [of LabelLoss] none [of AuthorityExpansion]
    by (cases "he_issuer p") (auto simp: narrows_def accepted_parent_def not_less)
qed

section \<open>What a verification reports\<close>

text \<open>
  C37: over a chain of handoffs, each verified by its receiver against the envelope of the handoff
  before and not blocked, the last envelope carries every source label of the first, has no
  authority scope beyond it, the same purpose, no longer lifetime, and its issuer when it named one.
\<close>

theorem handoff_chain_never_widens:
  assumes "successively (\<lambda>p c. \<exists>payload now unsafe consumed v.
      verify_handoff C (Some c) payload now (accepted_parent p) unsafe consumed True = Inr v \<and> hv_verdict v \<noteq> HandoffBlocked) (e # es)"
  defines "l \<equiv> last (e # es)"
  shows "set (he_labels e) \<subseteq> set (he_labels l) \<and> set (he_scope l) \<subseteq> set (he_scope e)
    \<and> he_purpose l = he_purpose e \<and> he_ttl l \<le> he_ttl e \<and> (he_issuer e = None \<or> he_issuer l = he_issuer e)"
proof -
  have "successively (\<lambda>p c. narrows c p) (e # es)"
    using assms(1) by (rule successively_mono) (auto intro: unblocked_narrows)
  then have "narrows l e" unfolding l_def by (rule handoff_order.chain_restricts)
  then show ?thesis by (simp add: narrows_def)
qed

definition scores_ok :: "handoff_verification \<Rightarrow> bool" where
  "scores_ok v \<longleftrightarrow> 0 \<le> hv_structural v \<and> hv_structural v \<le> 1 \<and> 0 \<le> hv_semantic v \<and> hv_semantic v \<le> 1
    \<and> 0 \<le> hv_combined v \<and> hv_combined v \<le> 1"

lemma mk_handoff_verification_scores: "mk_handoff_verification v = Inr w \<Longrightarrow> scores_ok w"
  by (auto simp: mk_handoff_verification_def scores_ok_def split: if_splits)

lemma handoff_result_scores: "handoff_result kind blockers reviews semantic unsafe consumed checked = Inr v \<Longrightarrow> scores_ok v"
  unfolding handoff_result_def Let_def by (rule mk_handoff_verification_scores)

lemma verified_scores: "verify_handoff C envelope payload now p unsafe consumed available = Inr v \<Longrightarrow> scores_ok v"
  unfolding verify_handoff_def Let_def
  by (auto split: if_splits option.splits dest: handoff_result_scores)

lemma handoff_reviews_Nil: "handoff_reviews e [] = [] \<longleftrightarrow> he_audit_entry e \<noteq> None"
  by (simp add: handoff_reviews_def flag_def)

text \<open>
  C39: a verification lists exactly the reasons that hold of the envelope, the payload's hash, the
  parent and the clock, each once and in the fixed order; the handoff is blocked when there is one,
  passes when there is none and the audit hash is present, needs review otherwise; the scores lie
  between 0 and 1.
\<close>

theorem handoff_report_exact:
  assumes "verify_handoff C (Some e) payload now p unsafe consumed True = Inr v"
  shows "\<exists>digest. payload_sha256 C payload = Inr digest
    \<and> hv_reasons v = filter (reason_holds digest now p e) hard_reason_order
    \<and> (hv_verdict v = HandoffBlocked \<longleftrightarrow> (\<exists>r. reason_holds digest now p e r))
    \<and> (hv_verdict v = HandoffPass \<longleftrightarrow> (\<nexists>r. reason_holds digest now p e r) \<and> he_audit_entry e \<noteq> None)
    \<and> (hv_verdict v = HandoffNeedsReview \<longleftrightarrow> (\<nexists>r. reason_holds digest now p e r) \<and> he_audit_entry e = None)
    \<and> 0 \<le> hv_structural v \<and> hv_structural v \<le> 1 \<and> 0 \<le> hv_semantic v \<and> hv_semantic v \<le> 1
    \<and> 0 \<le> hv_combined v \<and> hv_combined v \<le> 1"
proof -
  from verify_handoff_available [OF assms] obtain digest where d: "payload_sha256 C payload = Inr digest"
    and r: "hv_reasons v = filter (reason_holds digest now p e) hard_reason_order"
    and vd: "hv_verdict v = verdict_of (hv_reasons v) (hv_reviews v)" "hv_reviews v = handoff_reviews e (hv_reasons v)"
    by metis
  have none: "hv_reasons v = [] \<longleftrightarrow> (\<nexists>x. reason_holds digest now p e x)" unfolding r by (rule filter_reasons_Nil)
  have "hv_verdict v = HandoffBlocked \<longleftrightarrow> hv_reasons v \<noteq> []"
    "hv_verdict v = HandoffPass \<longleftrightarrow> hv_reasons v = [] \<and> he_audit_entry e \<noteq> None"
    "hv_verdict v = HandoffNeedsReview \<longleftrightarrow> hv_reasons v = [] \<and> he_audit_entry e = None"
    using vd handoff_reviews_Nil [of e] by (auto simp: verdict_of_def)
  with d r none verified_scores [OF assms, unfolded scores_ok_def] show ?thesis by (intro exI [of _ digest]) auto
qed

lemma payload_sha256_raises:
  "(\<exists>err. payload_sha256 C payload = Inl err) \<longleftrightarrow> payload = OpaquePayload \<or> (\<exists>x. payload = JsonPayload x \<and> \<not> json_encodable x)"
  by (cases payload) (simp_all add: payload_sha256_def canonical_payload_bytes_def)

lemma raw_payload_type_raises:
  "(\<exists>err. raw_payload_type raw = Inl err) \<longleftrightarrow> (\<exists>xs. obj_get raw ''payload_type'' = Some (JArr xs)) \<or> (\<exists>kvs. obj_get raw ''payload_type'' = Some (JObj kvs))"
  by (simp add: raw_payload_type_def split: option.split json.split)

lemma handoff_stale_raises: "(\<exists>err. handoff_stale now e = Inl err) \<longleftrightarrow> dt_aware now \<noteq> dt_aware (he_expires e)"
  by (simp add: handoff_stale_def)

lemma raises_bind: "(\<exists>err. res_bind m f = Inl err) \<longleftrightarrow> (\<exists>err. m = Inl err) \<or> (\<exists>a err. m = Inr a \<and> f a = Inl err)"
  by (cases m) auto

lemma semantic_score_cases:
  obtains err where "semantic_score unsafe consumed = Inl err" "0 < consumed" "int_div unsafe consumed = None"
  | s where "semantic_score unsafe consumed = Inr s" "0 \<le> s" "s \<le> 1" "\<not> (0 < consumed \<and> int_div unsafe consumed = None)"
proof (cases "semantic_score unsafe consumed")
  case (Inl err)
  then show ?thesis using that(1) by (simp add: semantic_score_raises)
next
  case (Inr s)
  then have "\<not> (0 < consumed \<and> int_div unsafe consumed = None)" using semantic_score_raises [of unsafe consumed] by auto
  with Inr show ?thesis using that(2) semantic_score_unit [OF Inr] by blast
qed

lemma verify_handoff_raises:
  "(\<exists>err. verify_handoff C envelope payload now p unsafe consumed available = Inl err) \<longleftrightarrow>
     unsafe < 0 \<or> consumed < 0 \<or> 0 < consumed \<and> int_div unsafe consumed = None
     \<or> available \<and> (\<exists>e. envelope = Some e \<and> ((\<exists>err. payload_sha256 C payload = Inl err) \<or> dt_aware now \<noteq> dt_aware (he_expires e)))"
proof (cases rule: semantic_score_cases [of unsafe consumed])
  case (1 err)
  then show ?thesis by (simp add: verify_handoff_def)
next
  case (2 s)
  note r = handoff_result_raises [OF 2(2,3)]
  show ?thesis
  proof (cases "payload_sha256 C payload")
    case (Inl x)
    then show ?thesis using 2 by (auto simp: verify_handoff_def r split: option.splits)
  next
    case (Inr x)
    then show ?thesis using 2
      by (auto simp: verify_handoff_def r handoff_stale_def Let_def split: option.splits)
  qed
qed

text \<open>
  C38: the raw entry point raises exactly on negative counts, on a quotient of counts beyond a double,
  on an envelope that fails its schema with a list or an object as its payload type, and, when the
  verifier is available, on an envelope that fits its schema with a payload that has no JSON text in UTF-8 or with an
  expiry that cannot be compared with the clock. In every other case it returns a verification.
\<close>

theorem raw_handoff_raises_iff:
  "(\<exists>err. verify_raw_handoff C coerce raw payload now p unsafe consumed available = Inl err) \<longleftrightarrow>
     unsafe < 0 \<or> consumed < 0 \<or> 0 < consumed \<and> int_div unsafe consumed = None
     \<or> (\<exists>r. raw = Some r \<and> validate_envelope coerce r = None
          \<and> ((\<exists>xs. obj_get r ''payload_type'' = Some (JArr xs)) \<or> (\<exists>kvs. obj_get r ''payload_type'' = Some (JObj kvs))))
     \<or> available \<and> (\<exists>r e. raw = Some r \<and> validate_envelope coerce r = Some e
          \<and> (payload = OpaquePayload \<or> (\<exists>x. payload = JsonPayload x \<and> \<not> json_encodable x)
             \<or> dt_aware now \<noteq> dt_aware (he_expires e)))"
proof (cases raw)
  case None
  then show ?thesis by (simp add: verify_raw_handoff_def verify_handoff_raises)
next
  case (Some r)
  show ?thesis
  proof (cases "validate_envelope coerce r")
    case None
    show ?thesis
    proof (cases rule: semantic_score_cases [of unsafe consumed])
      case (1 err)
      have "\<exists>x. verify_raw_handoff C coerce raw payload now p unsafe consumed available = Inl x"
        by (cases "raw_payload_type r") (simp_all add: verify_raw_handoff_def Some None 1(1))
      with 1 show ?thesis by blast
    next
      case (2 s)
      with Some None show ?thesis
        by (simp add: verify_raw_handoff_def raises_bind handoff_result_raises [OF 2(2,3)] raw_payload_type_raises [symmetric])
          (cases "raw_payload_type r"; auto)
    qed
  next
    case (Some e)
    with \<open>raw = Some r\<close> show ?thesis
      by (simp add: verify_raw_handoff_def verify_handoff_raises payload_sha256_raises)
  qed
qed

section \<open>Witnesses\<close>

definition sample_instant :: "int option \<Rightarrow> int \<Rightarrow> datetime" where
  "sample_instant offset i = \<lparr>dt_instant = i, dt_offset = offset\<rparr>"

text \<open>A summary of the empty object, delegated by one agent to another with one scope.\<close>

definition sample_handoff :: "string list \<Rightarrow> int \<Rightarrow> handoff_envelope" where
  "sample_handoff labels ttl = \<lparr>he_id = ''e'', he_created = sample_instant (Some 0) 0, he_sender = ''a'', he_receiver = ''b'',
     he_task = None, he_session = None, he_type = SummaryPayload, he_hash = sha256_hex sample_codec ''{}'',
     he_canonicalization = ''json-v1'', he_ref = None, he_labels = labels, he_chain = [], he_issuer = Some ''senior'',
     he_scope = [''read''], he_purpose = ''summarize'', he_depth = 0, he_max_depth = 0, he_can_delegate = False,
     he_recipients = [''b''], he_ttl = ttl, he_expires = sample_instant (Some 0) 60, he_policy = ''v1'',
     he_schema = ''handoff-envelope-v0.1'', he_supported = [''v1''], he_status = VerifyDone, he_error = None,
     he_action = FailBlock, he_audit_previous = None, he_audit_entry = Some ''h''\<rparr>"

lemma sample_handoff_runs:
  "\<exists>v. verify_handoff sample_codec (Some (sample_handoff labels ttl)) (JsonPayload (JObj [])) (sample_instant (Some 0) 1) p 0 1 True = Inr v"
  (is "\<exists>v. ?r = Inr v")
proof (cases ?r)
  case (Inl err)
  have "int_div 0 1 \<noteq> None" by (rule int_div_unit) simp_all
  moreover have "payload_sha256 sample_codec (JsonPayload (JObj [])) = Inr (sha256_hex sample_codec ''{}'')"
    by (simp add: payload_sha256_def canonical_payload_bytes_def dumps_def)
  moreover from Inl have "\<exists>err. ?r = Inl err" by blast
  ultimately show ?thesis unfolding verify_handoff_raises by (simp add: sample_handoff_def sample_instant_def dt_aware_def)
qed simp

lemma sample_handoff_reasons:
  assumes "labels \<noteq> []" "set (he_labels e) \<subseteq> set labels" "ttl \<le> he_ttl e" "he_issuer e = Some ''senior''"
    "he_scope e = [''read'']" "he_purpose e = ''summarize''"
  shows "\<not> reason_holds (sha256_hex sample_codec ''{}'') (sample_instant (Some 0) 1) (accepted_parent e) (sample_handoff labels ttl) r"
  using assms by (cases r) (auto simp: sample_handoff_def accepted_parent_def sample_instant_def)

lemma sample_handoff_passes:
  assumes "labels \<noteq> []" "set (he_labels e) \<subseteq> set labels" "ttl \<le> he_ttl e" "he_issuer e = Some ''senior''"
    "he_scope e = [''read'']" "he_purpose e = ''summarize''"
  shows "\<exists>v. verify_handoff sample_codec (Some (sample_handoff labels ttl)) (JsonPayload (JObj [])) (sample_instant (Some 0) 1)
      (accepted_parent e) 0 1 True = Inr v \<and> hv_verdict v \<noteq> HandoffBlocked"
proof -
  obtain v where v: "verify_handoff sample_codec (Some (sample_handoff labels ttl)) (JsonPayload (JObj [])) (sample_instant (Some 0) 1)
      (accepted_parent e) 0 1 True = Inr v" using sample_handoff_runs by blast
  from verify_handoff_available [OF v] obtain digest where d: "payload_sha256 sample_codec (JsonPayload (JObj [])) = Inr digest"
    and r: "hv_reasons v = filter (reason_holds digest (sample_instant (Some 0) 1) (accepted_parent e) (sample_handoff labels ttl)) hard_reason_order"
    and vd: "hv_verdict v = verdict_of (hv_reasons v) (hv_reviews v)" by metis
  from d have "digest = sha256_hex sample_codec ''{}''"
    by (simp add: payload_sha256_def canonical_payload_bytes_def dumps_def)
  with r sample_handoff_reasons [OF assms] have "hv_reasons v = []" by simp
  with vd have "hv_verdict v \<noteq> HandoffBlocked" by (simp add: verdict_of_def)
  with v show ?thesis by blast
qed

theorem handoff_chain_never_widens_witness:
  "set [''doc''] \<subseteq> set (he_labels (sample_handoff [''doc'', ''tool''] 30)) \<and> he_ttl (sample_handoff [''doc'', ''tool''] 30) \<le> 60"
proof -
  have "successively (\<lambda>p c. \<exists>payload now unsafe consumed v.
      verify_handoff sample_codec (Some c) payload now (accepted_parent p) unsafe consumed True = Inr v \<and> hv_verdict v \<noteq> HandoffBlocked)
    [sample_handoff [''doc''] 60, sample_handoff [''doc'', ''tool''] 30]"
    using sample_handoff_passes [of "[''doc'', ''tool'']" "sample_handoff [''doc''] 60" 30]
    by (simp add: sample_handoff_def) blast
  from handoff_chain_never_widens [OF this] show ?thesis by (simp add: sample_handoff_def)
qed

theorem handoff_report_exact_witness:
  "\<exists>v. verify_handoff sample_codec (Some (sample_handoff [] 60)) (JsonPayload (JObj [])) (sample_instant (Some 0) 1)
      (accepted_parent (sample_handoff [] 60)) 0 1 True = Inr v \<and> hv_verdict v = HandoffBlocked"
proof -
  obtain v where v: "verify_handoff sample_codec (Some (sample_handoff [] 60)) (JsonPayload (JObj [])) (sample_instant (Some 0) 1)
      (accepted_parent (sample_handoff [] 60)) 0 1 True = Inr v" using sample_handoff_runs by blast
  have "reason_holds digest (sample_instant (Some 0) 1) (accepted_parent (sample_handoff [] 60)) (sample_handoff [] 60) MissingProvenance" for digest
    by (simp add: sample_handoff_def source_label_required_def)
  with handoff_report_exact [OF v] v show ?thesis by blast
qed

theorem raw_handoff_raises_iff_witness:
  "\<exists>err. verify_raw_handoff sample_codec (\<lambda>_. Some (sample_handoff [''doc''] 60)) (Some []) (JsonPayload (JObj []))
     (sample_instant None 1) (accepted_parent (sample_handoff [''doc''] 60)) 0 1 True = Inl err"
proof -
  have "sha256_text (he_hash (sample_handoff [''doc''] 60))" by (simp add: sample_handoff_def sample_sha256_text)
  then have "py_len (he_hash (sample_handoff [''doc''] 60)) = 64"
    using bare_ascii [OF sha256_text_bare] by (simp add: py_len_ascii sha256_text_def)
  then have "validate_envelope (\<lambda>_. Some (sample_handoff [''doc''] 60)) [] = Some (sample_handoff [''doc''] 60)"
    by (simp add: validate_envelope_def handoff_fields_ok_def) (simp add: sample_handoff_def)
  moreover have "dt_aware (sample_instant None 1) \<noteq> dt_aware (he_expires (sample_handoff [''doc''] 60))"
    by (simp add: sample_handoff_def sample_instant_def dt_aware_def)
  ultimately show ?thesis unfolding raw_handoff_raises_iff by blast
qed

end
