(* ===== verification/Trajectory.thy ===== *)
theory Trajectory
  imports Json_Default "HOL-Library.Product_Lexorder"
begin

text \<open>
  The trajectory accounting of \<open>companion_contracts.py\<close>: the observations of the events of one logical
  operation, the facts that are recomputed from them (duplicates, unresolved parents, edges, roots, leaves,
  a cycle verdict by Kahn's algorithm), the record that states those facts, with its
  validator, and its builder.
\<close>

section \<open>Errors and digests\<close>

text \<open>
  \<open>CompanionContractError\<close>, pydantic's \<open>ValidationError\<close> with the message of the validator, and the error of
  \<open>.encode("utf-8")\<close> for a lone surrogate.
\<close>

datatype companion_error = ContractError string | ModelInvalid string | SurrogateError

fun as_invalid :: "companion_error \<Rightarrow> companion_error" where
  "as_invalid (ContractError m) = ModelInvalid m"
| "as_invalid (ModelInvalid m) = ModelInvalid m"
| "as_invalid SurrogateError = ModelInvalid ''surrogates not allowed''"

definition companion_json :: "codec \<Rightarrow> json \<Rightarrow> string" where
  "companion_json C v = dumps (float_repr C) False v"

definition domain_digest :: "codec \<Rightarrow> string \<Rightarrow> json \<Rightarrow> string" where
  "domain_digest C domain v = sha256_hex C (domain @ [CHR 0x00] @ companion_json C v)"

definition max_trajectory_events :: nat where
  "max_trajectory_events = 4096"

text \<open>\<open>tuple(sorted(set(xs)))\<close>\<close>

definition sorted_set :: "'a::linorder list \<Rightarrow> 'a list" where
  "sorted_set xs = sort (remdups xs)"

section \<open>Observations\<close>

definition retry_causes :: "string list" where
  "retry_causes = [''initial'', ''bounded_retry'', ''policy_retry'', ''transport_retry'', ''unknown'']"

definition route_transition_reasons :: "string list" where
  "route_transition_reasons = [''initial'', ''declared_failover'', ''policy_transition'', ''unknown'']"

definition constraint_kinds :: "string list" where
  "constraint_kinds = [''budget_boundary'', ''route_not_permitted'', ''time_boundary'', ''tool_boundary'', ''unknown'']"

record observation =
  ob_event :: string
  ob_at :: datetime
  ob_commitment :: string
  ob_operation :: string
  ob_attempt :: string
  ob_ordinal :: int
  ob_idempotency :: string
  ob_cause :: string
  ob_route :: string
  ob_transition :: string
  ob_routes :: string
  ob_permitted :: bool
  ob_constraints :: "string list"
  ob_parents :: "string list"

definition observation_fields_ok :: "observation \<Rightarrow> bool" where
  "observation_fields_ok ev \<longleftrightarrow>
     list_all sha256_text [ob_event ev, ob_commitment ev, ob_operation ev, ob_attempt ev, ob_idempotency ev, ob_route ev, ob_routes ev]
     \<and> 1 \<le> ob_ordinal ev \<and> ob_ordinal ev \<le> int max_trajectory_events
     \<and> ob_cause ev \<in> set retry_causes \<and> ob_transition ev \<in> set route_transition_reasons
     \<and> list_all (\<lambda>c. c \<in> set constraint_kinds) (ob_constraints ev) \<and> length (ob_constraints ev) \<le> 16
     \<and> list_all sha256_text (ob_parents ev) \<and> length (ob_parents ev) \<le> 64"

definition mk_observation :: "observation \<Rightarrow> companion_error + observation" where
  "mk_observation ev = raise_first
     [(\<not> observation_fields_ok ev, ModelInvalid ''field''),
      (dt_offset (ob_at ev) = None, ModelInvalid ''trajectory event time must be timezone-aware''),
      (dt_offset (ob_at ev) \<noteq> Some 0, ModelInvalid ''trajectory event time must use canonical UTC representation''),
      (ob_event ev \<in> set (ob_parents ev), ModelInvalid ''an event cannot be its own parent''),
      (\<not> distinct (ob_parents ev), ModelInvalid ''parent event ids must be unique''),
      (sorted_set (ob_constraints ev) \<noteq> ob_constraints ev, ModelInvalid ''constraint encounters must be sorted and unique''),
      ((''route_not_permitted'' \<in> set (ob_constraints ev)) \<noteq> (\<not> ob_permitted ev),
       ModelInvalid ''route verdict and constraint accounting disagree''),
      (ob_ordinal ev = 1 \<and> ob_cause ev \<noteq> ''initial'', ModelInvalid ''first attempt must use the initial cause''),
      (ob_ordinal ev > 1 \<and> ob_cause ev = ''initial'', ModelInvalid ''retry attempt cannot use the initial cause''),
      (ob_ordinal ev = 1 \<and> ob_transition ev \<noteq> ''initial'', ModelInvalid ''first attempt must use the initial route transition''),
      (ob_ordinal ev > 1 \<and> ob_transition ev = ''initial'', ModelInvalid ''retry attempt cannot use the initial route transition'')] ev"

definition utc :: "datetime \<Rightarrow> datetime" where
  "utc t = \<lparr>dt_instant = dt_instant t, dt_offset = Some 0\<rparr>"

definition canonical_key :: "observation \<Rightarrow> string \<times> int \<times> string \<times> string" where
  "canonical_key ev = (ob_event ev, ob_ordinal ev, ob_attempt ev, ob_commitment ev)"

definition canonical_observation :: "observation \<Rightarrow> companion_error + observation" where
  "canonical_observation ev =
     (if dt_offset (ob_at ev) = None then Inl (ContractError ''trajectory event time is not timezone-aware'')
      else mk_observation (ev\<lparr>ob_at := utc (ob_at ev)\<rparr>))"

definition canonical_observations :: "observation list \<Rightarrow> companion_error + observation list" where
  "canonical_observations os = res_bind (map_res canonical_observation os) (\<lambda>vs. Inr (sort_key canonical_key vs))"

section \<open>The graph of the observed events\<close>

text \<open>\<open>{item.event_id: item for item in observations}\<close>: the last observation of each event.\<close>

fun by_id :: "observation list \<Rightarrow> observation list" where
  "by_id [] = []"
| "by_id (ev # os) = (if ob_event ev \<in> ob_event ` set os then by_id os else ev # by_id os)"

definition known_events :: "observation list \<Rightarrow> string list" where
  "known_events os = map ob_event (by_id os)"

definition item_of :: "observation list \<Rightarrow> string \<Rightarrow> observation option" where
  "item_of os e = find (\<lambda>ev. ob_event ev = e) (by_id os)"

definition known_parents :: "observation list \<Rightarrow> observation \<Rightarrow> string list" where
  "known_parents os ev = filter (\<lambda>p. p \<in> set (known_events os)) (ob_parents ev)"

text \<open>\<open>sorted(children[parent])\<close> and \<open>indegree\<close>\<close>

definition children_of :: "observation list \<Rightarrow> string \<Rightarrow> string list" where
  "children_of os p = sorted_set (map ob_event (filter (\<lambda>ev. p \<in> set (known_parents os ev)) (by_id os)))"

definition indegrees :: "observation list \<Rightarrow> (string \<times> int) list" where
  "indegrees os = map (\<lambda>ev. (ob_event ev, int (length (known_parents os ev)))) (by_id os)"

definition repeated :: "'a list \<Rightarrow> 'a list" where
  "repeated xs = filter (\<lambda>x. 1 < count_list xs x) xs"

section \<open>Kahn's algorithm\<close>

text \<open>The inner loop over the children of a popped event.\<close>

definition decrement :: "string \<Rightarrow> (string \<times> int) list \<Rightarrow> (string \<times> int) list" where
  "decrement c deg = map (\<lambda>(k, d). (k, if k = c then d - 1 else d)) deg"

fun relax :: "(string \<times> int) list \<Rightarrow> string list \<Rightarrow> string list \<Rightarrow> (string \<times> int) list \<times> string list" where
  "relax deg queue [] = (deg, queue)"
| "relax deg queue (c # cs) =
     (let deg' = decrement c deg
      in relax deg' (if map_of deg' c = Some 0 then queue @ [c] else queue) cs)"

definition pending :: "(string \<times> int) list \<Rightarrow> nat" where
  "pending deg = length (filter (\<lambda>(k, d). 0 < d) deg)"

lemma pending_decrement: "pending (decrement c deg) \<le> pending deg"
  by (induction deg) (auto simp: pending_def decrement_def split: if_splits)

lemma pending_decrement_less: "map_of (decrement c deg) c = Some 0 \<Longrightarrow> pending (decrement c deg) < pending deg"
proof (induction deg)
  case (Cons kd deg)
  obtain k d where kd: "kd = (k, d)" by (cases kd)
  show ?case
  proof (cases "k = c")
    case True
    with Cons.prems have "d = 1" by (simp add: kd decrement_def)
    with True pending_decrement [of c deg] show ?thesis by (simp add: kd pending_def decrement_def)
  next
    case False
    with Cons show ?thesis by (auto simp: kd pending_def decrement_def)
  qed
qed (simp add: decrement_def)

lemma relax_measure: "relax deg queue cs = (deg', queue') \<Longrightarrow> length queue' + pending deg' \<le> length queue + pending deg"
proof (induction deg queue cs rule: relax.induct)
  case (2 deg queue c cs)
  let ?d = "decrement c deg"
  have "length queue' + pending deg' \<le> length (if map_of ?d c = Some 0 then queue @ [c] else queue) + pending ?d"
    using 2 by (simp add: Let_def)
  also have "\<dots> \<le> length queue + pending deg"
    using pending_decrement [of c deg] pending_decrement_less [of c deg] by (auto simp: Suc_le_eq)
  finally show ?case .
qed simp

function kahn :: "(string \<Rightarrow> string list) \<Rightarrow> (string \<times> int) list \<Rightarrow> string list \<Rightarrow> nat \<Rightarrow> nat" where
  "kahn children deg [] visited = visited"
| "kahn children deg (e # queue) visited =
     (case relax deg queue (children e) of (deg', queue') \<Rightarrow> kahn children deg' queue' (Suc visited))"
  by pat_completeness auto
termination
  by (relation "measure (\<lambda>(children, deg, queue, visited). length queue + pending deg)")
    (auto dest: relax_measure [OF sym])

definition visited_events :: "observation list \<Rightarrow> nat" where
  "visited_events os = kahn (children_of os) (indegrees os)
     (sort (map fst (filter (\<lambda>(k, d). d = 0) (indegrees os)))) 0"

definition cycle_verdict :: "observation list \<Rightarrow> string" where
  "cycle_verdict os = (if visited_events os = length (known_events os) then ''acyclic'' else ''cycle_detected'')"

section \<open>The facts\<close>

record trajectory_facts =
  tf_operation :: string
  tf_observed :: int
  tf_commitments :: "(string \<times> string) list"
  tf_edges :: "(string \<times> string) list"
  tf_attempts :: "string list"
  tf_idempotency :: "string list"
  tf_violations :: "string list"
  tf_roots :: "string list"
  tf_leaves :: "string list"
  tf_unresolved :: "string list"
  tf_repeated_events :: "string list"
  tf_repeated_commitments :: "string list"
  tf_cycle :: string
  tf_completeness :: string

definition unresolved_parents :: "observation list \<Rightarrow> string list" where
  "unresolved_parents os = filter (\<lambda>p. p \<notin> set (known_events os)) (concat (map ob_parents os))"

definition completeness_of :: "observation list \<Rightarrow> int \<Rightarrow> string \<Rightarrow> string" where
  "completeness_of os expected censoring =
     (let invalid = cycle_verdict os = ''cycle_detected'' \<or> repeated (map ob_event os) \<noteq> [] \<or> repeated (map ob_commitment os) \<noteq> [];
          incomplete = unresolved_parents os \<noteq> [] \<or> expected \<noteq> int (length os) \<or> censoring \<noteq> ''complete''
            \<or> list_ex (\<lambda>ev. ob_cause ev = ''unknown'' \<or> ob_transition ev = ''unknown'' \<or> ''unknown'' \<in> set (ob_constraints ev)) os
      in if invalid then ''invalid'' else if incomplete then ''incomplete'' else ''complete'')"

definition facts_of :: "observation list \<Rightarrow> int \<Rightarrow> string \<Rightarrow> trajectory_facts" where
  "facts_of os expected censoring =
     \<lparr>tf_operation = ob_operation (hd os), tf_observed = int (length os),
      tf_commitments = sort (map (\<lambda>ev. (ob_event ev, ob_commitment ev)) (by_id os)),
      tf_edges = sort (concat (map (\<lambda>ev. map (\<lambda>p. (p, ob_event ev)) (ob_parents ev)) (by_id os))),
      tf_attempts = sorted_set (map ob_attempt os), tf_idempotency = sorted_set (map ob_idempotency os),
      tf_violations = sort (map ob_event (filter (\<lambda>ev. \<not> ob_permitted ev) os)),
      tf_roots = sorted_set (map ob_event (filter (\<lambda>ev. ob_parents ev = []) (by_id os))),
      tf_leaves = sorted_set (filter (\<lambda>e. children_of os e = []) (known_events os)),
      tf_unresolved = sorted_set (unresolved_parents os),
      tf_repeated_events = sorted_set (repeated (map ob_event os)),
      tf_repeated_commitments = sorted_set (repeated (map ob_commitment os)),
      tf_cycle = cycle_verdict os, tf_completeness = completeness_of os expected censoring\<rparr>"

definition max_ordinal :: "observation list \<Rightarrow> int" where
  "max_ordinal os = Max (set (map ob_ordinal os))"

definition earliest :: "observation list \<Rightarrow> int \<Rightarrow> int" where
  "earliest os k = Min (set (map (\<lambda>ev. dt_instant (ob_at ev)) (filter (\<lambda>ev. ob_ordinal ev = k) os)))"

text \<open>Some known parent of the event satisfies a condition.\<close>

definition parent_with :: "observation list \<Rightarrow> observation \<Rightarrow> (observation \<Rightarrow> bool) \<Rightarrow> bool" where
  "parent_with os ev P = list_ex (\<lambda>p. case item_of os p of None \<Rightarrow> False | Some i \<Rightarrow> P i) (ob_parents ev)"

definition operation_conflict :: "observation list \<Rightarrow> bool" where
  "operation_conflict os \<longleftrightarrow> length (remdups (map ob_operation os)) \<noteq> 1"

definition fact_errors :: "observation list \<Rightarrow> (bool \<times> companion_error) list" where
  "fact_errors os =
     [(operation_conflict os, ContractError ''trajectory must contain one logical operation''),
      (list_ex (\<lambda>a. list_ex (\<lambda>b. ob_attempt a = ob_attempt b \<and> (ob_ordinal a, ob_cause a) \<noteq> (ob_ordinal b, ob_cause b)) os) os,
       ContractError ''attempt id has conflicting ordinal or cause''),
      (list_ex (\<lambda>a. list_ex (\<lambda>b. ob_ordinal a = ob_ordinal b \<and> ob_attempt a \<noteq> ob_attempt b) os) os,
       ContractError ''attempt ordinal maps to multiple attempt ids''),
      (sorted_set (map ob_ordinal os) \<noteq> [1..max_ordinal os], ContractError ''attempt ordinals must be contiguous from one''),
      (list_ex (\<lambda>ev. 1 < ob_ordinal ev \<and> \<not> parent_with os ev (\<lambda>i. ob_ordinal i < ob_ordinal ev)) (by_id os),
       ContractError ''retry event lacks resolved ancestry from a prior attempt''),
      (list_ex (\<lambda>k. earliest os k < earliest os (k - 1)) [2..max_ordinal os],
       ContractError ''retry attempt time precedes a prior attempt''),
      (list_ex (\<lambda>ev. parent_with os ev (\<lambda>i. dt_less (ob_at ev) (ob_at i))) (by_id os),
       ContractError ''child event precedes its parent in time''),
      (cycle_verdict os = ''acyclic'' \<and> list_ex (\<lambda>ev. parent_with os ev (\<lambda>i. ob_ordinal ev < ob_ordinal i)) (by_id os),
       ContractError ''child precedes its parent attempt'')]"

definition expected_trajectory_facts :: "observation list \<Rightarrow> int \<Rightarrow> string \<Rightarrow> companion_error + trajectory_facts" where
  "expected_trajectory_facts os expected censoring = raise_first (fact_errors os) (facts_of os expected censoring)"

section \<open>The accounting record\<close>

record trajectory_accounting = trajectory_facts +
  ta_id :: string
  ta_expected :: int
  ta_started :: datetime
  ta_ended :: datetime
  ta_censoring :: string
  ta_observations :: "observation list"

definition observation_doc :: "(datetime \<Rightarrow> string) \<Rightarrow> observation \<Rightarrow> json" where
  "observation_doc show_time ev = JObj
     [(''event_id'', JStr (ob_event ev)), (''occurred_at'', JStr (show_time (ob_at ev))),
      (''observation_commitment_sha256'', JStr (ob_commitment ev)), (''logical_operation_id'', JStr (ob_operation ev)),
      (''attempt_id'', JStr (ob_attempt ev)), (''attempt_ordinal'', JInt (ob_ordinal ev)),
      (''idempotency_identity'', JStr (ob_idempotency ev)), (''retry_cause'', JStr (ob_cause ev)),
      (''route_id_hash'', JStr (ob_route ev)), (''route_transition_reason'', JStr (ob_transition ev)),
      (''permitted_route_set_sha256'', JStr (ob_routes ev)), (''route_permitted'', JBool (ob_permitted ev)),
      (''constraint_encounters'', JArr (map JStr (ob_constraints ev))), (''parent_event_ids'', JArr (map JStr (ob_parents ev)))]"

definition trajectory_unit_doc :: "codec \<Rightarrow> observation list \<Rightarrow> int \<Rightarrow> datetime \<Rightarrow> datetime \<Rightarrow> string \<Rightarrow> json" where
  "trajectory_unit_doc C os expected started ended censoring = JObj
     [(''observations'', JArr (map (observation_doc (\<lambda>t. iso_utc C (utc t))) os)), (''expected_event_count'', JInt expected),
      (''observation_horizon_started_at'', JStr (iso_utc C (utc started))),
      (''observation_horizon_ended_at'', JStr (iso_utc C (utc ended))), (''censoring_state'', JStr censoring)]"

definition trajectory_identity ::
  "codec \<Rightarrow> observation list \<Rightarrow> int \<Rightarrow> datetime \<Rightarrow> datetime \<Rightarrow> string \<Rightarrow> companion_error + string" where
  "trajectory_identity C os expected started ended censoring =
     res_bind (canonical_observations os) (\<lambda>canonical.
       Inr (domain_digest C ''agentic-security-portfolio/trajectory-unit/v1.0''
              (trajectory_unit_doc C canonical expected started ended censoring)))"

definition id_list_ok :: "nat \<Rightarrow> string list \<Rightarrow> bool" where
  "id_list_ok bound xs \<longleftrightarrow> list_all sha256_text xs \<and> length xs \<le> bound"

definition pair_list_ok :: "nat \<Rightarrow> (string \<times> string) list \<Rightarrow> bool" where
  "pair_list_ok bound xs \<longleftrightarrow> list_all (\<lambda>(a, b). sha256_text a \<and> sha256_text b) xs \<and> length xs \<le> bound"

definition censoring_states :: "string list" where
  "censoring_states = [''complete'', ''left_censored'', ''right_censored'']"

definition accounting_fields_ok :: "trajectory_accounting \<Rightarrow> bool" where
  "accounting_fields_ok a \<longleftrightarrow>
     sha256_text (ta_id a) \<and> sha256_text (tf_operation a) \<and> 1 \<le> ta_expected a \<and> ta_expected a \<le> int max_trajectory_events
     \<and> 0 \<le> tf_observed a \<and> tf_observed a \<le> int max_trajectory_events \<and> ta_censoring a \<in> set censoring_states
     \<and> ta_observations a \<noteq> [] \<and> length (ta_observations a) \<le> max_trajectory_events
     \<and> pair_list_ok max_trajectory_events (tf_commitments a) \<and> pair_list_ok (max_trajectory_events * 64) (tf_edges a)
     \<and> list_all (id_list_ok max_trajectory_events) [tf_attempts a, tf_idempotency a, tf_violations a, tf_roots a, tf_leaves a,
          tf_repeated_events a, tf_repeated_commitments a]
     \<and> id_list_ok (max_trajectory_events * 64) (tf_unresolved a)
     \<and> tf_cycle a \<in> {''acyclic'', ''cycle_detected''} \<and> tf_completeness a \<in> {''complete'', ''incomplete'', ''invalid''}"

definition ordered_fields :: "trajectory_accounting \<Rightarrow> string list list" where
  "ordered_fields a = [tf_attempts a, tf_idempotency a, tf_violations a, tf_roots a, tf_leaves a, tf_unresolved a,
     tf_repeated_events a, tf_repeated_commitments a]"

text \<open>The checks up to the horizon, the checks of the horizon against the events, the comparison of the facts.\<close>

definition accounting_shape_errors :: "trajectory_accounting \<Rightarrow> (bool \<times> companion_error) list" where
  "accounting_shape_errors a =
     [(\<not> accounting_fields_ok a, ModelInvalid ''field''),
      (list_ex (\<lambda>xs. sort xs \<noteq> xs) (ordered_fields a), ModelInvalid ''trajectory accounting sets must be sorted''),
      (list_ex (\<lambda>xs. \<not> distinct xs) (ordered_fields a), ModelInvalid ''trajectory accounting sets must be unique''),
      (sort (tf_commitments a) \<noteq> tf_commitments a, ModelInvalid ''event commitments must be sorted''),
      (sort (tf_edges a) \<noteq> tf_edges a, ModelInvalid ''trajectory edges must be sorted''),
      (\<not> distinct (tf_edges a), ModelInvalid ''trajectory edges must be unique''),
      (\<not> (dt_aware (ta_started a) \<and> dt_aware (ta_ended a)) \<or> dt_less (ta_ended a) (ta_started a),
       ModelInvalid ''observation horizon must be a valid aware interval''),
      (dt_offset (ta_started a) \<noteq> Some 0 \<or> dt_offset (ta_ended a) \<noteq> Some 0,
       ModelInvalid ''observation horizon must use canonical UTC representation'')]"

definition first_time :: "observation list \<Rightarrow> int" where
  "first_time os = Min (set (map (\<lambda>ev. dt_instant (ob_at ev)) os))"

definition last_time :: "observation list \<Rightarrow> int" where
  "last_time os = Max (set (map (\<lambda>ev. dt_instant (ob_at ev)) os))"

definition horizon_errors :: "trajectory_accounting \<Rightarrow> observation list \<Rightarrow> (bool \<times> companion_error) list" where
  "horizon_errors a os =
     (let s = dt_instant (ta_started a); e = dt_instant (ta_ended a); lo = first_time os; hi = last_time os
      in [(ta_observations a \<noteq> os, ModelInvalid ''trajectory observations must use canonical order''),
          (ta_censoring a = ''complete'' \<and> (s \<noteq> lo \<or> e \<noteq> hi), ModelInvalid ''complete trajectory horizon must equal observed event span''),
          (ta_censoring a = ''left_censored'' \<and> (lo < s \<or> e \<noteq> hi), ModelInvalid ''left-censored horizon is inconsistent with event times''),
          (ta_censoring a = ''right_censored'' \<and> (s \<noteq> lo \<or> e < hi), ModelInvalid ''right-censored horizon is inconsistent with event times'')])"

definition mk_accounting :: "codec \<Rightarrow> trajectory_accounting \<Rightarrow> companion_error + trajectory_accounting" where
  "mk_accounting C a =
     res_bind (raise_first (accounting_shape_errors a) ()) (\<lambda>_.
     res_bind (map_err as_invalid (canonical_observations (ta_observations a))) (\<lambda>os.
     res_bind (raise_first (horizon_errors a os) ()) (\<lambda>_.
     res_bind (map_err as_invalid (expected_trajectory_facts os (ta_expected a) (ta_censoring a))) (\<lambda>facts.
     res_bind (ensure (trajectory_facts.truncate a = facts) (ModelInvalid ''trajectory field does not match observation evidence'')) (\<lambda>_.
     res_bind (map_err as_invalid (trajectory_identity C os (ta_expected a) (ta_started a) (ta_ended a) (ta_censoring a))) (\<lambda>expected_id.
       if ta_id a \<noteq> expected_id then Inl (ModelInvalid ''trajectory id does not bind the full observation unit'') else Inr a))))))"

definition build_trajectory_accounting ::
  "codec \<Rightarrow> int \<Rightarrow> observation list \<Rightarrow> string \<Rightarrow> companion_error + trajectory_accounting" where
  "build_trajectory_accounting C expected observations censoring =
     (if max_trajectory_events < length observations then Inl (ContractError ''trajectory exceeds the event bound'')
      else if observations = [] then Inl (ContractError ''trajectory requires at least one observation'')
      else res_bind (canonical_observations observations) (\<lambda>os.
        if operation_conflict os then Inl (ContractError ''trajectory must contain one logical operation'')
        else let started = \<lparr>dt_instant = first_time os, dt_offset = Some 0\<rparr>;
                 ended = \<lparr>dt_instant = last_time os, dt_offset = Some 0\<rparr>
             in res_bind (trajectory_identity C os expected started ended censoring) (\<lambda>i.
                  mk_accounting C (trajectory_facts.extend (facts_of os expected censoring)
                    \<lparr>ta_id = i, ta_expected = expected, ta_started = started, ta_ended = ended, ta_censoring = censoring,
                     ta_observations = os\<rparr>))))"

end
