(* ===== verification/Trajectory_Graph.thy ===== *)
theory Trajectory_Graph
  imports Trajectory
begin

text \<open>
  Kahn's algorithm on the graph of the observed events: it visits every event exactly when the
  relation between known parents and children has no cycle. The locale \<open>kahn_graph\<close> states what
  the algorithm needs of its graph; the observations provide it.
\<close>

section \<open>One round\<close>

lemma decrement_map: "decrement c (map (\<lambda>k. (k, f k)) nodes) = map (\<lambda>k. (k, (f(c := f c - 1)) k)) nodes"
  by (simp add: decrement_def)

lemma map_of_nodes: "map_of (map (\<lambda>k. (k, f k)) nodes) c = (if c \<in> set nodes then Some (f c) else None)"
  by (induction nodes) auto

lemma relax_nodes:
  assumes "distinct cs"
  shows "relax (map (\<lambda>k. (k, f k)) nodes) queue cs
    = (map (\<lambda>k. (k, if k \<in> set cs then f k - 1 else f k)) nodes, queue @ filter (\<lambda>c. c \<in> set nodes \<and> f c = 1) cs)"
  using assms
proof (induction cs arbitrary: f queue)
  case (Cons c cs)
  let ?f = "f(c := f c - 1)"
  have c: "c \<notin> set cs" "distinct cs" using Cons.prems by simp_all
  have "filter (\<lambda>x. x \<in> set nodes \<and> ?f x = 1) cs = filter (\<lambda>x. x \<in> set nodes \<and> f x = 1) cs"
    by (rule filter_cong) (use c in auto)
  moreover have "map (\<lambda>k. (k, if k \<in> set cs then ?f k - 1 else ?f k)) nodes
      = map (\<lambda>k. (k, if k \<in> set (c # cs) then f k - 1 else f k)) nodes"
    using c by simp
  ultimately show ?case
    using Cons.IH [OF c(2), of ?f] by (simp add: Let_def decrement_map map_of_nodes)
qed simp

section \<open>The algorithm\<close>

locale kahn_graph =
  fixes nodes :: "string list" and preds :: "string \<Rightarrow> string set" and children :: "string \<Rightarrow> string list"
  assumes nodes: "distinct nodes"
    and preds: "preds c \<subseteq> set nodes"
    and children: "distinct (children p)" "set (children p) = {c \<in> set nodes. p \<in> preds c}"
begin

definition edges :: "(string \<times> string) set" where
  "edges = {(p, c). c \<in> set nodes \<and> p \<in> preds c}"

definition degrees :: "string set \<Rightarrow> (string \<times> int) list" where
  "degrees D = map (\<lambda>c. (c, int (card (preds c - D)))) nodes"

text \<open>The visited events, the last one first: each one after its predecessors.\<close>

fun topological :: "string list \<Rightarrow> bool" where
  "topological [] = True"
| "topological (e # ds) = (e \<in> set nodes \<and> e \<notin> set ds \<and> preds e \<subseteq> set ds \<and> topological ds)"

lemma finite_preds: "finite (preds c)"
  using preds finite_subset by blast

lemma topological_closed: "topological ds \<Longrightarrow> c \<in> set ds \<Longrightarrow> preds c \<subseteq> set ds"
  by (induction ds) auto

lemma topological_nodes: "topological ds \<Longrightarrow> distinct ds \<and> set ds \<subseteq> set nodes"
  by (induction ds) auto

definition rank :: "string list \<Rightarrow> string \<Rightarrow> nat" where
  "rank ds x = length (dropWhile (\<lambda>y. y \<noteq> x) ds)"

lemma rank_le: "rank ds x \<le> length ds"
  by (simp add: rank_def length_dropWhile_le)

lemma topological_rank: "topological ds \<Longrightarrow> c \<in> set ds \<Longrightarrow> p \<in> preds c \<Longrightarrow> rank ds p < rank ds c"
proof (induction ds)
  case (Cons e ds)
  from Cons.prems have t: "topological ds" "e \<notin> set ds" "preds e \<subseteq> set ds" by auto
  show ?case
  proof (cases "c = e")
    case True
    with Cons.prems t have "p \<noteq> e" by auto
    with True show ?thesis using rank_le [of ds p] by (simp add: rank_def)
  next
    case False
    with Cons.prems have c: "c \<in> set ds" by simp
    with topological_closed [OF t(1)] Cons.prems have "p \<in> set ds" by auto
    with t have "p \<noteq> e" by auto
    with False Cons.IH [OF t(1) c Cons.prems(3)] show ?thesis by (simp add: rank_def)
  qed
qed simp

lemma topological_acyclic:
  assumes "topological ds" "set ds = set nodes"
  shows "acyclic edges"
proof -
  have "edges \<subseteq> measure (rank ds)"
    using assms topological_rank by (auto simp: edges_def)
  then show ?thesis by (meson acyclic_subset wf_acyclic wf_measure)
qed

text \<open>The invariant of the outer loop.\<close>

definition walk :: "(string \<times> int) list \<Rightarrow> string list \<Rightarrow> string list \<Rightarrow> bool" where
  "walk deg queue ds \<longleftrightarrow> deg = degrees (set ds) \<and> distinct queue \<and> set queue \<subseteq> set nodes - set ds \<and> topological ds
     \<and> (\<forall>c \<in> set nodes - set ds. c \<in> set queue \<longleftrightarrow> preds c \<subseteq> set ds)"

lemma card_preds_step:
  assumes "e \<notin> D"
  shows "int (card (preds k - insert e D)) = (if e \<in> preds k then int (card (preds k - D)) - 1 else int (card (preds k - D)))"
proof (cases "e \<in> preds k")
  case True
  have "preds k - insert e D = (preds k - D) - {e}" by auto
  moreover have "e \<in> preds k - D" using True assms by simp
  then have "0 < card (preds k - D)" using finite_preds by (auto simp: card_gt_0_iff)
  ultimately show ?thesis using True assms by simp
next
  case False
  then have "preds k - insert e D = preds k - D" by auto
  with False show ?thesis by simp
qed

lemma walk_step:
  assumes "walk deg (e # queue) ds" "relax deg (e_queue) (children e) = (deg', queue')" "e_queue = queue"
  shows "walk deg' queue' (e # ds)"
proof -
  let ?D = "set ds"
  from assms(1) have w: "deg = degrees ?D" "distinct queue" "e \<notin> set queue" "e \<in> set nodes" "e \<notin> ?D"
    "set queue \<subseteq> set nodes - ?D" "topological ds"
    and q: "\<And>c. c \<in> set nodes \<Longrightarrow> c \<notin> ?D \<Longrightarrow> c = e \<or> c \<in> set queue \<longleftrightarrow> preds c \<subseteq> ?D"
    by (auto simp: walk_def)
  have r: "deg' = map (\<lambda>k. (k, if k \<in> set (children e) then int (card (preds k - ?D)) - 1 else int (card (preds k - ?D)))) nodes"
    "queue' = queue @ filter (\<lambda>c. c \<in> set nodes \<and> int (card (preds c - ?D)) = 1) (children e)"
    using assms(2,3) relax_nodes [OF children(1) [of e], of "\<lambda>c. int (card (preds c - ?D))" nodes queue]
    by (simp_all add: w(1) degrees_def)
  have deg: "deg' = degrees (set (e # ds))"
    using card_preds_step [OF w(5)] by (auto simp: r(1) degrees_def children(2))
  have new: "c \<in> set (filter (\<lambda>c. c \<in> set nodes \<and> int (card (preds c - ?D)) = 1) (children e))
      \<longleftrightarrow> c \<in> set nodes \<and> e \<in> preds c \<and> preds c - ?D = {e}" for c
  proof -
    have "int (card X) = 1 \<longleftrightarrow> X = {e}" if "e \<in> X" for X :: "string set"
    proof
      assume "int (card X) = 1"
      then have "card X = 1" by simp
      then obtain x where "X = {x}" by (rule card_1_singletonE)
      with that show "X = {e}" by simp
    qed simp
    from this [of "preds c - ?D"] w(5) show ?thesis by (auto simp: children(2))
  qed
  have pe: "preds e \<subseteq> ?D" using q [OF w(4,5)] by simp
  have fresh: "c \<notin> set queue \<and> c \<notin> ?D \<and> c \<noteq> e" if "c \<in> set nodes" "e \<in> preds c" for c
    using that w(4,5,6) q [of c] pe topological_closed [OF w(7), of c] by blast
  have dist: "distinct queue'"
    using w(2) children(1) [of e] new fresh by (auto simp: r(2))
  have sub: "set queue' \<subseteq> set nodes - set (e # ds)"
    using w(3,6) new fresh by (auto simp: r(2))
  have mem: "c \<in> set queue' \<longleftrightarrow> preds c \<subseteq> set (e # ds)" if "c \<in> set nodes - set (e # ds)" for c
  proof -
    have "c \<in> set queue' \<longleftrightarrow> c \<in> set queue \<or> e \<in> preds c \<and> preds c - ?D = {e}"
      using that new [of c] by (auto simp: r(2))
    also have "\<dots> \<longleftrightarrow> preds c \<subseteq> ?D \<or> e \<in> preds c \<and> preds c - ?D = {e}"
      using that q [of c] by auto
    also have "\<dots> \<longleftrightarrow> preds c \<subseteq> set (e # ds)" using w(5) by auto
    finally show ?thesis .
  qed
  have "topological (e # ds)" using w(4,5,7) pe by simp
  with deg dist sub mem show ?thesis by (simp add: walk_def)
qed

lemma topological_length: "topological ds \<Longrightarrow> length ds \<le> length nodes"
  using topological_nodes [of ds] nodes by (metis card_mono distinct_card List.finite_set)

lemma kahn_walk:
  "walk deg queue ds \<Longrightarrow> \<exists>ds'. kahn children deg queue n = n + (length ds' - length ds) \<and> length ds \<le> length ds'
      \<and> walk (degrees (set ds')) [] ds'"
proof (induction "length nodes - length ds" arbitrary: deg queue ds n rule: less_induct)
  case less
  show ?case
  proof (cases queue)
    case Nil
    with less.prems have "walk (degrees (set ds)) [] ds" by (simp add: walk_def)
    with Nil show ?thesis by (intro exI [of _ ds]) simp
  next
    case (Cons e q)
    obtain deg' queue' where r: "relax deg q (children e) = (deg', queue')" by fastforce
    from less.prems Cons have "walk deg' queue' (e # ds)" by (intro walk_step [OF _ r]) simp_all
    moreover from this have "length (e # ds) \<le> length nodes"
      by (intro topological_length) (simp only: walk_def)
    ultimately obtain ds' where "kahn children deg' queue' (Suc n) = Suc n + (length ds' - length (e # ds))"
      "length (e # ds) \<le> length ds'" "walk (degrees (set ds')) [] ds'"
      using less.hyps [of "e # ds" deg' queue' "Suc n"] by fastforce
    then show ?thesis by (intro exI [of _ ds']) (simp add: Cons r)
  qed
qed

lemma walk_end:
  assumes "walk deg [] ds"
  shows "length ds = length nodes \<longleftrightarrow> acyclic edges"
proof
  assume "length ds = length nodes"
  with assms have "set ds = set nodes"
    using topological_nodes [of ds] nodes by (simp add: walk_def card_subset_eq distinct_card)
  with assms show "acyclic edges" by (auto simp: walk_def intro: topological_acyclic)
next
  assume acyclic: "acyclic edges"
  have t: "topological ds" using assms by (simp add: walk_def)
  have "edges \<subseteq> set nodes \<times> set nodes" using preds by (auto simp: edges_def)
  then have "finite edges" by (rule finite_subset) simp
  with acyclic have wf: "wf edges" by (simp add: finite_acyclic_wf)
  have "set nodes - set ds = {}"
  proof (rule ccontr)
    assume "set nodes - set ds \<noteq> {}"
    with wf obtain c where c: "c \<in> set nodes - set ds" and least: "\<And>p. (p, c) \<in> edges \<Longrightarrow> p \<notin> set nodes - set ds"
      by (metis wfE_min ex_in_conv)
    from assms c have "\<not> preds c \<subseteq> set ds" by (simp add: walk_def)
    then obtain p where p: "p \<in> preds c" "p \<notin> set ds" by blast
    with c preds [of c] least [of p] show False by (auto simp: edges_def)
  qed
  with topological_nodes [OF t] have "set ds = set nodes" "distinct ds" by auto
  with nodes show "length ds = length nodes" by (metis distinct_card)
qed

lemma walk_start:
  assumes "distinct queue" "set queue = {c \<in> set nodes. preds c = {}}"
  shows "walk (degrees {}) queue []"
  using assms by (auto simp: walk_def)

theorem kahn_acyclic:
  assumes "distinct queue" "set queue = {c \<in> set nodes. preds c = {}}"
  shows "kahn children (degrees {}) queue 0 = length nodes \<longleftrightarrow> acyclic edges"
proof -
  obtain ds where "kahn children (degrees {}) queue 0 = length ds" "walk (degrees (set ds)) [] ds"
    using kahn_walk [OF walk_start [OF assms], of 0] by auto
  then show ?thesis using walk_end by simp
qed

end

section \<open>The observed events\<close>

lemma by_id_events [simp]: "ob_event ` set (by_id os) = ob_event ` set os"
  by (induction os) (auto simp: image_iff)

lemma by_id_subset: "set (by_id os) \<subseteq> set os"
  by (induction os) auto

lemma known_events_set: "set (known_events os) = ob_event ` set os"
  by (simp add: known_events_def)

lemma known_events_distinct: "distinct (known_events os)"
  by (induction os) (simp_all add: known_events_def)

lemma find_key: "distinct (map f xs) \<Longrightarrow> x \<in> set xs \<Longrightarrow> find (\<lambda>y. f y = f x) xs = Some x"
  by (induction xs) (auto simp: image_iff)

lemma item_of_unique: "ev \<in> set (by_id os) \<Longrightarrow> item_of os (ob_event ev) = Some ev"
  using known_events_distinct [of os] by (simp add: item_of_def known_events_def find_key)

lemma item_of_Some: "item_of os e = Some ev \<longleftrightarrow> ev \<in> set (by_id os) \<and> ob_event ev = e"
proof
  assume "item_of os e = Some ev"
  then show "ev \<in> set (by_id os) \<and> ob_event ev = e" by (auto simp: item_of_def find_Some_iff)
qed (use item_of_unique in blast)

text \<open>The known parents of an event; the children of an event as the code computes them.\<close>

definition parents_of :: "observation list \<Rightarrow> string \<Rightarrow> string set" where
  "parents_of os c = (case item_of os c of None \<Rightarrow> {} | Some ev \<Rightarrow> set (known_parents os ev))"

lemma in_parents_of: "p \<in> parents_of os c \<longleftrightarrow> (\<exists>ev \<in> set (by_id os). ob_event ev = c \<and> p \<in> set (ob_parents ev) \<and> p \<in> ob_event ` set os)"
proof (cases "item_of os c")
  case None
  then have "ev \<in> set (by_id os) \<Longrightarrow> ob_event ev \<noteq> c" for ev using item_of_unique by force
  with None show ?thesis by (auto simp: parents_of_def)
next
  case (Some ev)
  then have uni: "x \<in> set (by_id os) \<and> ob_event x = c \<longleftrightarrow> x = ev" for x
    using item_of_Some [of os c x] by auto
  have "(\<exists>x \<in> set (by_id os). ob_event x = c \<and> P x) \<longleftrightarrow> P ev" for P by (metis uni)
  then show ?thesis by (simp add: Some parents_of_def known_parents_def known_events_set)
qed

lemma sorted_set_props [simp]: "set (sorted_set xs) = set xs" "distinct (sorted_set xs)" "sorted (sorted_set xs)"
  by (simp_all add: sorted_set_def)

interpretation trajectory: kahn_graph "known_events os" "parents_of os" "children_of os" for os
proof unfold_locales
  show "distinct (known_events os)" by (rule known_events_distinct)
  show "parents_of os c \<subseteq> set (known_events os)" for c
    by (auto simp: in_parents_of known_events_set)
  show "distinct (children_of os p)" for p by (simp add: children_of_def)
  show "set (children_of os p) = {c \<in> set (known_events os). p \<in> parents_of os c}" for p
  proof (rule set_eqI)
    fix c
    have "c \<in> ob_event ` set os" if "ev \<in> set (by_id os)" "ob_event ev = c" for ev
      using that by (auto simp: by_id_events [of os, symmetric] simp del: by_id_events)
    then show "c \<in> set (children_of os p) \<longleftrightarrow> c \<in> {c \<in> set (known_events os). p \<in> parents_of os c}"
      by (auto simp: children_of_def in_parents_of known_parents_def known_events_set image_iff)
  qed
qed

text \<open>The relation between the observed events that the observations declare.\<close>

definition parent_relation :: "observation list \<Rightarrow> (string \<times> string) set" where
  "parent_relation os = {(p, c). p \<in> ob_event ` set os \<and> (\<exists>ev \<in> set (by_id os). ob_event ev = c \<and> p \<in> set (ob_parents ev))}"

lemma trajectory_edges: "trajectory.edges os = parent_relation os"
  by (auto simp: trajectory.edges_def parent_relation_def in_parents_of known_events_set by_id_events [of os, symmetric]
      simp del: by_id_events)

lemma indegrees_degrees:
  assumes "\<forall>ev \<in> set os. distinct (ob_parents ev)"
  shows "indegrees os = trajectory.degrees os {}"
proof -
  have "int (length (known_parents os ev)) = int (card (parents_of os (ob_event ev)))" if ev: "ev \<in> set (by_id os)" for ev
  proof -
    have "ev \<in> set os" using ev by_id_subset by blast
    with assms have "distinct (known_parents os ev)" by (simp add: known_parents_def)
    with item_of_unique [OF ev] show ?thesis by (simp add: parents_of_def distinct_card)
  qed
  then show ?thesis by (simp add: indegrees_def trajectory.degrees_def) (simp add: known_events_def)
qed

lemma cycle_verdict_acyclic:
  assumes "\<forall>ev \<in> set os. distinct (ob_parents ev)"
  shows "cycle_verdict os = ''acyclic'' \<longleftrightarrow> acyclic (parent_relation os)"
proof -
  let ?roots = "sort (map fst (filter (\<lambda>(k, d). d = 0) (indegrees os)))"
  have roots: "map fst (filter (\<lambda>(k, d). d = 0) (indegrees os)) = filter (\<lambda>c. card (parents_of os c) = 0) (known_events os)"
    by (simp add: indegrees_degrees [OF assms] trajectory.degrees_def filter_map o_def)
  have "distinct ?roots" unfolding roots by (simp add: known_events_distinct)
  moreover have "set ?roots = {c \<in> set (known_events os). parents_of os c = {}}"
    unfolding roots using trajectory.finite_preds by (auto simp: card_eq_0_iff)
  ultimately have "kahn (children_of os) (trajectory.degrees os {}) ?roots 0 = length (known_events os) \<longleftrightarrow> acyclic (trajectory.edges os)"
    by (rule trajectory.kahn_acyclic)
  then show ?thesis
    by (simp add: cycle_verdict_def visited_events_def indegrees_degrees [OF assms] trajectory_edges)
qed

end
