(* ===== verification/Trajectory_Properties.thy ===== *)
theory Trajectory_Properties
  imports Trajectory_Graph "HOL-Library.Multiset"
begin

text \<open>
  The builder of a trajectory accounting returns a record for exactly the consistent histories, and its validator
  accepts it; the cycle verdict and the completeness say what they mean, and the order in which observations arrive does not matter.
\<close>

section \<open>Canonical observations\<close>

definition observation_ok :: "observation \<Rightarrow> bool" where
  "observation_ok ev \<longleftrightarrow> mk_observation ev = Inr ev"

lemma mk_observation_Inr: "mk_observation ev = Inr x \<longleftrightarrow> x = ev \<and> observation_ok ev"
  by (auto simp: observation_ok_def mk_observation_def raise_first_Inr_iff)

lemma observation_okD:
  assumes "observation_ok ev"
  shows "observation_fields_ok ev" "dt_offset (ob_at ev) = Some 0" "distinct (ob_parents ev)" "ob_event ev \<notin> set (ob_parents ev)"
  using assms by (auto simp: observation_ok_def mk_observation_def raise_first_Inr_iff split: if_splits)

lemma utc_id: "dt_offset t = Some 0 \<Longrightarrow> utc t = t"
  by (simp add: utc_def)

lemma canonical_observation_Inr:
  "canonical_observation ev = Inr x \<longleftrightarrow> dt_offset (ob_at ev) \<noteq> None \<and> x = ev\<lparr>ob_at := utc (ob_at ev)\<rparr> \<and> observation_ok x"
  by (auto simp: canonical_observation_def mk_observation_Inr)

lemma canonical_observation_id: "observation_ok ev \<Longrightarrow> canonical_observation ev = Inr ev"
  using observation_okD(2) [of ev] by (simp add: canonical_observation_Inr utc_id)

lemma canonical_observations_Inr:
  "canonical_observations obs = Inr os \<longleftrightarrow>
     (\<forall>ev \<in> set obs. dt_offset (ob_at ev) \<noteq> None \<and> observation_ok (ev\<lparr>ob_at := utc (ob_at ev)\<rparr>))
     \<and> os = sort_key canonical_key (map (\<lambda>ev. ev\<lparr>ob_at := utc (ob_at ev)\<rparr>) obs)"
proof -
  have "map_res canonical_observation obs = Inr vs \<longleftrightarrow>
      (\<forall>ev \<in> set obs. dt_offset (ob_at ev) \<noteq> None \<and> observation_ok (ev\<lparr>ob_at := utc (ob_at ev)\<rparr>))
      \<and> vs = map (\<lambda>ev. ev\<lparr>ob_at := utc (ob_at ev)\<rparr>) obs" for vs
    by (induction obs arbitrary: vs) (auto simp: canonical_observation_Inr)
  then show ?thesis by (auto simp: canonical_observations_def)
qed

lemma canonical_observations_ok:
  assumes "canonical_observations obs = Inr os"
  shows "\<forall>ev \<in> set os. observation_ok ev" "sorted (map canonical_key os)" "length os = length obs"
  using assms by (auto simp: canonical_observations_Inr)

lemma canonical_observations_id:
  assumes "\<forall>ev \<in> set os. observation_ok ev" "sorted (map canonical_key os)"
  shows "canonical_observations os = Inr os"
proof -
  have "map_res canonical_observation os = Inr os"
    using assms(1) map_res_Inr_all [of os canonical_observation "\<lambda>ev. ev"] by (simp add: canonical_observation_id)
  with assms(2) show ?thesis by (simp add: canonical_observations_def sort_key_id_if_sorted)
qed

section \<open>The facts are well formed\<close>

lemma length_by_id: "length (by_id os) \<le> length os"
  by (induction os) auto

lemma length_sorted_set: "length (sorted_set xs) \<le> length xs"
  by (simp add: sorted_set_def length_remdups_leq)

lemma id_list_sorted_set: "list_all sha256_text xs \<Longrightarrow> length xs \<le> n \<Longrightarrow> id_list_ok n (sorted_set xs)"
  using length_sorted_set [of xs] by (auto simp: id_list_ok_def list_all_iff)

lemma sort_sorted_set [simp]: "sort (sorted_set xs) = sorted_set xs"
  by (rule sorted_sort_id) simp

lemma length_concat_bounded: "\<forall>x \<in> set xs. length (f x) \<le> k \<Longrightarrow> length (concat (map f xs)) \<le> length xs * k"
  by (induction xs) auto

lemma distinct_concat_pairs:
  assumes "distinct (map g xs)" "\<forall>x \<in> set xs. distinct (f x)"
  shows "distinct (concat (map (\<lambda>x. map (\<lambda>p. (p, g x)) (f x)) xs))"
  using assms by (induction xs) (auto simp: distinct_map inj_on_def image_iff)

lemma observation_ids:
  assumes "\<forall>ev \<in> set os. observation_ok ev" "ev \<in> set os"
  shows "sha256_text (ob_event ev)" "sha256_text (ob_commitment ev)" "sha256_text (ob_operation ev)" "sha256_text (ob_attempt ev)"
    "sha256_text (ob_idempotency ev)" "list_all sha256_text (ob_parents ev)" "length (ob_parents ev) \<le> 64"
  using observation_okD(1) [of ev] assms by (auto simp: observation_fields_ok_def)

lemma facts_fields_ok:
  assumes ok: "\<forall>ev \<in> set os. observation_ok ev" and n: "length os \<le> max_trajectory_events" "os \<noteq> []"
    and f: "f = facts_of os expected censoring"
  shows "sha256_text (tf_operation f)" "0 \<le> tf_observed f" "tf_observed f \<le> int max_trajectory_events"
    "pair_list_ok max_trajectory_events (tf_commitments f)" "pair_list_ok (max_trajectory_events * 64) (tf_edges f)"
    "id_list_ok max_trajectory_events (tf_attempts f)" "id_list_ok max_trajectory_events (tf_idempotency f)"
    "id_list_ok max_trajectory_events (tf_violations f)" "id_list_ok max_trajectory_events (tf_roots f)"
    "id_list_ok max_trajectory_events (tf_leaves f)" "id_list_ok max_trajectory_events (tf_repeated_events f)"
    "id_list_ok max_trajectory_events (tf_repeated_commitments f)" "id_list_ok (max_trajectory_events * 64) (tf_unresolved f)"
proof -
  note ids = observation_ids [OF ok]
  have sub: "ev \<in> set os" if "ev \<in> set (by_id os)" for ev using that by_id_subset by blast
  have b: "length (by_id os) \<le> max_trajectory_events" using length_by_id [of os] n(1) by linarith
  have filt: "length (filter P xs) \<le> max_trajectory_events" if "length xs \<le> max_trajectory_events" for P and xs :: "'b list"
    using length_filter_le [of P xs] that by linarith
  show "sha256_text (tf_operation f)" using ids(3) [of "hd os"] n(2) by (simp add: f facts_of_def)
  show "0 \<le> tf_observed f" "tf_observed f \<le> int max_trajectory_events" using n(1) by (simp_all add: f facts_of_def)
  show "pair_list_ok max_trajectory_events (tf_commitments f)"
    using ids(1,2) sub b by (auto simp: f facts_of_def pair_list_ok_def list_all_iff)
  have "length (concat (map (\<lambda>ev. map (\<lambda>p. (p, ob_event ev)) (ob_parents ev)) (by_id os))) \<le> length (by_id os) * 64"
    by (rule length_concat_bounded) (use ids(7) sub in auto)
  then show "pair_list_ok (max_trajectory_events * 64) (tf_edges f)"
    using ids(1,6) sub b by (fastforce simp: f facts_of_def pair_list_ok_def list_all_iff)
  show "id_list_ok max_trajectory_events (tf_attempts f)" "id_list_ok max_trajectory_events (tf_idempotency f)"
    using ids(4,5) n(1) by (auto simp: f facts_of_def list_all_iff intro!: id_list_sorted_set)
  show "id_list_ok max_trajectory_events (tf_violations f)"
    using ids(1) filt [OF n(1)] by (auto simp: f facts_of_def id_list_ok_def list_all_iff)
  show "id_list_ok max_trajectory_events (tf_roots f)" "id_list_ok max_trajectory_events (tf_leaves f)"
    using ids(1) sub filt b by (auto simp: f facts_of_def list_all_iff known_events_def intro!: id_list_sorted_set)
  show "id_list_ok max_trajectory_events (tf_repeated_events f)" "id_list_ok max_trajectory_events (tf_repeated_commitments f)"
    using ids(1,2) filt n(1) by (auto simp: f facts_of_def list_all_iff repeated_def intro!: id_list_sorted_set)
  have "length (concat (map ob_parents os)) \<le> length os * 64"
    by (rule length_concat_bounded) (use ids(7) in auto)
  then have "length (unresolved_parents os) \<le> max_trajectory_events * 64"
    using n(1) length_filter_le [of _ "concat (map ob_parents os)"] unfolding unresolved_parents_def
    by (meson le_trans mult_le_mono1)
  then show "id_list_ok (max_trajectory_events * 64) (tf_unresolved f)"
    using ids(6) by (auto simp: f facts_of_def list_all_iff unresolved_parents_def intro!: id_list_sorted_set)
qed

section \<open>The builder\<close>

definition accounting_of ::
  "codec \<Rightarrow> observation list \<Rightarrow> int \<Rightarrow> string \<Rightarrow> trajectory_accounting" where
  "accounting_of C os expected censoring =
     (let started = \<lparr>dt_instant = first_time os, dt_offset = Some 0\<rparr>;
          ended = \<lparr>dt_instant = last_time os, dt_offset = Some 0\<rparr>
      in trajectory_facts.extend (facts_of os expected censoring)
           \<lparr>ta_id = domain_digest C ''agentic-security-portfolio/trajectory-unit/v1.0''
              (trajectory_unit_doc C os expected started ended censoring),
            ta_expected = expected, ta_started = started, ta_ended = ended, ta_censoring = censoring, ta_observations = os\<rparr>)"

lemma accounting_of_fields:
  "trajectory_facts.truncate (accounting_of C os expected censoring) = facts_of os expected censoring"
  "ta_expected (accounting_of C os expected censoring) = expected"
  "ta_censoring (accounting_of C os expected censoring) = censoring"
  "ta_observations (accounting_of C os expected censoring) = os"
  "dt_instant (ta_started (accounting_of C os expected censoring)) = first_time os"
  "dt_instant (ta_ended (accounting_of C os expected censoring)) = last_time os"
  "dt_offset (ta_started (accounting_of C os expected censoring)) = Some 0"
  "dt_offset (ta_ended (accounting_of C os expected censoring)) = Some 0"
  by (simp_all add: accounting_of_def trajectory_facts.defs Let_def)

lemma accounting_of_facts:
  "tf_operation (accounting_of C os expected censoring) = tf_operation (facts_of os expected censoring)"
  "tf_observed (accounting_of C os expected censoring) = tf_observed (facts_of os expected censoring)"
  "tf_commitments (accounting_of C os expected censoring) = tf_commitments (facts_of os expected censoring)"
  "tf_edges (accounting_of C os expected censoring) = tf_edges (facts_of os expected censoring)"
  "tf_attempts (accounting_of C os expected censoring) = tf_attempts (facts_of os expected censoring)"
  "tf_idempotency (accounting_of C os expected censoring) = tf_idempotency (facts_of os expected censoring)"
  "tf_violations (accounting_of C os expected censoring) = tf_violations (facts_of os expected censoring)"
  "tf_roots (accounting_of C os expected censoring) = tf_roots (facts_of os expected censoring)"
  "tf_leaves (accounting_of C os expected censoring) = tf_leaves (facts_of os expected censoring)"
  "tf_unresolved (accounting_of C os expected censoring) = tf_unresolved (facts_of os expected censoring)"
  "tf_repeated_events (accounting_of C os expected censoring) = tf_repeated_events (facts_of os expected censoring)"
  "tf_repeated_commitments (accounting_of C os expected censoring) = tf_repeated_commitments (facts_of os expected censoring)"
  "tf_cycle (accounting_of C os expected censoring) = tf_cycle (facts_of os expected censoring)"
  "tf_completeness (accounting_of C os expected censoring) = tf_completeness (facts_of os expected censoring)"
  by (simp_all add: accounting_of_def trajectory_facts.defs Let_def)

lemma trajectory_identity_ok:
  assumes "\<forall>ev \<in> set os. observation_ok ev" "sorted (map canonical_key os)"
  shows "trajectory_identity C os expected started ended censoring
    = Inr (domain_digest C ''agentic-security-portfolio/trajectory-unit/v1.0'' (trajectory_unit_doc C os expected started ended censoring))"
  by (simp add: trajectory_identity_def canonical_observations_id [OF assms])

lemma sort_sort [simp]: "sort (sort xs) = sort xs"
  by (simp add: sorted_sort_id)

lemma facts_ordered:
  "list_ex (\<lambda>xs. sort xs \<noteq> xs) (ordered_fields (accounting_of C os expected censoring)) = False"
  "list_ex (\<lambda>xs. \<not> distinct xs) (ordered_fields (accounting_of C os expected censoring))
    \<longleftrightarrow> \<not> distinct (tf_violations (facts_of os expected censoring))"
  by (simp_all add: ordered_fields_def accounting_of_facts facts_of_def)

lemma first_le_last: "os \<noteq> [] \<Longrightarrow> first_time os \<le> last_time os"
  by (simp add: first_time_def last_time_def)

lemma accounting_shape_ok:
  assumes ok: "\<forall>ev \<in> set os. observation_ok ev" and n: "length os \<le> max_trajectory_events" "os \<noteq> []" and hash: "hash_ok C"
  shows "first_error (accounting_shape_errors (accounting_of C os expected censoring)) = None \<longleftrightarrow>
    1 \<le> expected \<and> expected \<le> int max_trajectory_events \<and> censoring \<in> set censoring_states
    \<and> distinct (tf_violations (facts_of os expected censoring))"
proof -
  let ?a = "accounting_of C os expected censoring"
  have fields: "accounting_fields_ok ?a \<longleftrightarrow> 1 \<le> expected \<and> expected \<le> int max_trajectory_events \<and> censoring \<in> set censoring_states"
  proof -
    have "sha256_text (ta_id ?a)"
      using hash by (simp add: accounting_of_def trajectory_facts.defs Let_def domain_digest_def)
    moreover have "tf_cycle (facts_of os expected censoring) \<in> {''acyclic'', ''cycle_detected''}"
      by (simp add: facts_of_def cycle_verdict_def)
    moreover have "tf_completeness (facts_of os expected censoring) \<in> {''complete'', ''incomplete'', ''invalid''}"
      by (simp add: facts_of_def completeness_of_def Let_def)
    ultimately show ?thesis
      using facts_fields_ok [OF ok n refl, of expected censoring] n
      unfolding accounting_fields_ok_def accounting_of_facts accounting_of_fields by simp
  qed
  have edges: "distinct (tf_edges (facts_of os expected censoring))"
  proof -
    have "\<forall>ev \<in> set (by_id os). distinct (ob_parents ev)" using ok observation_okD(3) by_id_subset by blast
    moreover have "distinct (map ob_event (by_id os))" using known_events_distinct by (simp add: known_events_def)
    ultimately show ?thesis by (simp add: facts_of_def distinct_concat_pairs)
  qed
  have sorted: "sort (tf_commitments (facts_of os expected censoring)) = tf_commitments (facts_of os expected censoring)"
    "sort (tf_edges (facts_of os expected censoring)) = tf_edges (facts_of os expected censoring)"
    by (simp_all add: facts_of_def)
  have aware: "dt_aware (ta_started ?a)" "dt_aware (ta_ended ?a)" "\<not> dt_less (ta_ended ?a) (ta_started ?a)"
    using first_le_last [OF n(2)] by (simp_all add: dt_aware_def dt_less_def accounting_of_fields not_less)
  show ?thesis
    unfolding accounting_shape_errors_def first_error_None_iff
    by (auto simp: fields facts_ordered accounting_of_facts sorted edges aware accounting_of_fields)
qed

lemma accounting_horizon_ok: "first_error (horizon_errors (accounting_of C os expected censoring) os) = None"
  by (simp add: horizon_errors_def accounting_of_fields Let_def)

lemma mk_accounting_of:
  assumes ok: "\<forall>ev \<in> set os. observation_ok ev" "sorted (map canonical_key os)"
    and n: "length os \<le> max_trajectory_events" "os \<noteq> []" and hash: "hash_ok C"
  shows "mk_accounting C (accounting_of C os expected censoring) = Inr a \<longleftrightarrow>
    a = accounting_of C os expected censoring \<and> 1 \<le> expected \<and> expected \<le> int max_trajectory_events
    \<and> censoring \<in> set censoring_states \<and> distinct (tf_violations (facts_of os expected censoring))
    \<and> first_error (fact_errors os) = None"
proof -
  let ?a = "accounting_of C os expected censoring"
  have i: "trajectory_identity C os expected (ta_started ?a) (ta_ended ?a) censoring = Inr (ta_id ?a)"
    by (simp add: trajectory_identity_ok [OF ok]) (simp add: accounting_of_def trajectory_facts.defs Let_def)
  show ?thesis
    unfolding mk_accounting_def accounting_of_fields canonical_observations_id [OF ok] i expected_trajectory_facts_def
    by (auto simp: raise_first_Inr_iff accounting_shape_ok [OF ok(1) n hash] accounting_horizon_ok i)
qed

lemma build_accounting_iff:
  assumes "hash_ok C"
  shows "build_trajectory_accounting C expected observations censoring = Inr a \<longleftrightarrow>
    (\<exists>os. observations \<noteq> [] \<and> length observations \<le> max_trajectory_events \<and> canonical_observations observations = Inr os
      \<and> expected_trajectory_facts os expected censoring = Inr (trajectory_facts.truncate a)
      \<and> 1 \<le> expected \<and> expected \<le> int max_trajectory_events \<and> censoring \<in> set censoring_states
      \<and> distinct (tf_violations a) \<and> a = accounting_of C os expected censoring \<and> mk_accounting C a = Inr a)"
proof (cases "canonical_observations observations")
  case (Inl err)
  then show ?thesis by (auto simp: build_trajectory_accounting_def)
next
  case (Inr os)
  note ok = canonical_observations_ok [OF Inr]
  show ?thesis
  proof (cases "observations \<noteq> [] \<and> length observations \<le> max_trajectory_events \<and> \<not> operation_conflict os")
    case True
    with ok have n: "length os \<le> max_trajectory_events" "os \<noteq> []" by auto
    have built: "build_trajectory_accounting C expected observations censoring = mk_accounting C (accounting_of C os expected censoring)"
      using True Inr
      by (simp add: build_trajectory_accounting_def trajectory_identity_ok [OF ok(1,2)] accounting_of_def Let_def not_less)
    show ?thesis
      unfolding built using mk_accounting_of [OF ok(1,2) n assms] True Inr
      by (auto simp: expected_trajectory_facts_def raise_first_Inr_iff accounting_of_fields accounting_of_facts)
  next
    case False
    then show ?thesis using Inr
      by (auto simp: build_trajectory_accounting_def expected_trajectory_facts_def raise_first_Inr_iff fact_errors_def)
  qed
qed

section \<open>The exact inputs of the builder\<close>

lemma first_error_Cons: "first_error ((c, e) # rest) = None \<longleftrightarrow> \<not> c \<and> first_error rest = None"
  by simp

text \<open>A valid observation, apart from the representation of its time.\<close>

definition valid_observation :: "observation \<Rightarrow> bool" where
  "valid_observation ev \<longleftrightarrow>
     (\<forall>s \<in> {ob_event ev, ob_commitment ev, ob_operation ev, ob_attempt ev, ob_idempotency ev, ob_route ev, ob_routes ev}
        \<union> set (ob_parents ev). sha256_text s)
     \<and> 1 \<le> ob_ordinal ev \<and> ob_ordinal ev \<le> 4096
     \<and> ob_cause ev \<in> {''initial'', ''bounded_retry'', ''policy_retry'', ''transport_retry'', ''unknown''}
     \<and> ob_transition ev \<in> {''initial'', ''declared_failover'', ''policy_transition'', ''unknown''}
     \<and> (ob_ordinal ev = 1 \<longleftrightarrow> ob_cause ev = ''initial'') \<and> (ob_ordinal ev = 1 \<longleftrightarrow> ob_transition ev = ''initial'')
     \<and> set (ob_constraints ev) \<subseteq> {''budget_boundary'', ''route_not_permitted'', ''time_boundary'', ''tool_boundary'', ''unknown''}
     \<and> sorted (ob_constraints ev) \<and> distinct (ob_constraints ev)
     \<and> (''route_not_permitted'' \<in> set (ob_constraints ev) \<longleftrightarrow> \<not> ob_permitted ev)
     \<and> distinct (ob_parents ev) \<and> length (ob_parents ev) \<le> 64 \<and> ob_event ev \<notin> set (ob_parents ev)"

lemma sorted_set_id: "sorted_set xs = xs \<longleftrightarrow> sorted xs \<and> distinct xs"
  by (metis sorted_set_props(2,3) sorted_set_def distinct_remdups_id sort_key_id_if_sorted map_ident)

lemma sorted_set_upto: "sorted_set xs = [1..m] \<longleftrightarrow> set xs = {1..m}" for xs :: "int list"
proof
  assume "set xs = {1..m}"
  moreover have "sorted [1..m]" "distinct [1..m]" by simp_all
  ultimately show "sorted_set xs = [1..m]"
    by (intro sorted_distinct_set_unique) simp_all
qed (metis sorted_set_props(1) set_upto)

lemma observation_ok_valid: "observation_ok (ev\<lparr>ob_at := utc (ob_at ev)\<rparr>) \<longleftrightarrow> valid_observation ev"
proof -
  have small: "distinct xs \<Longrightarrow> set xs \<subseteq> set constraint_kinds \<Longrightarrow> length xs \<le> 16" for xs
    using card_mono [of "set constraint_kinds" "set xs"] by (simp add: distinct_card constraint_kinds_def)
  have sets: "{''initial'', ''bounded_retry'', ''policy_retry'', ''transport_retry'', ''unknown''} = set retry_causes"
    "{''initial'', ''declared_failover'', ''policy_transition'', ''unknown''} = set route_transition_reasons"
    "{''budget_boundary'', ''route_not_permitted'', ''time_boundary'', ''tool_boundary'', ''unknown''} = set constraint_kinds"
    by (simp_all add: retry_causes_def route_transition_reasons_def constraint_kinds_def)
  have fields: "observation_fields_ok (ev\<lparr>ob_at := utc (ob_at ev)\<rparr>) \<longleftrightarrow>
      (\<forall>s \<in> {ob_event ev, ob_commitment ev, ob_operation ev, ob_attempt ev, ob_idempotency ev, ob_route ev, ob_routes ev}
        \<union> set (ob_parents ev). sha256_text s)
      \<and> 1 \<le> ob_ordinal ev \<and> ob_ordinal ev \<le> 4096 \<and> ob_cause ev \<in> set retry_causes
      \<and> ob_transition ev \<in> set route_transition_reasons \<and> set (ob_constraints ev) \<subseteq> set constraint_kinds
      \<and> length (ob_constraints ev) \<le> 16 \<and> length (ob_parents ev) \<le> 64"
    by (simp add: observation_fields_ok_def max_trajectory_events_def list_all_iff ball_Un subset_iff) blast
  show ?thesis
    unfolding observation_ok_def mk_observation_def raise_first_Inr_iff first_error_Cons valid_observation_def sorted_set_id fields sets
    using small [of "ob_constraints ev"] by (cases "ob_ordinal ev = 1") (auto simp: utc_def)
qed

text \<open>
  One logical operation, attempts that are numbered from one without a gap and begin one after the other, retries
  that descend from an earlier attempt, and no event before a known parent.
\<close>

definition consistent_attempts :: "observation list \<Rightarrow> bool" where
  "consistent_attempts os \<longleftrightarrow>
     (\<forall>x \<in> set os. \<forall>y \<in> set os. ob_operation x = ob_operation y \<and> (ob_attempt x = ob_attempt y \<longleftrightarrow> ob_ordinal x = ob_ordinal y)
        \<and> (ob_attempt x = ob_attempt y \<longrightarrow> ob_cause x = ob_cause y))
     \<and> (\<forall>y \<in> set os. 1 < ob_ordinal y \<longrightarrow>
          (\<exists>x \<in> set os. ob_ordinal x = ob_ordinal y - 1 \<and> dt_instant (ob_at x) \<le> dt_instant (ob_at y)))
     \<and> (\<forall>y \<in> set (by_id os). 1 < ob_ordinal y \<longrightarrow>
          (\<exists>x \<in> set (by_id os). ob_event x \<in> set (ob_parents y) \<and> ob_ordinal x < ob_ordinal y))
     \<and> (\<forall>y \<in> set (by_id os). \<forall>x \<in> set (by_id os). ob_event x \<in> set (ob_parents y) \<longrightarrow>
          dt_instant (ob_at x) \<le> dt_instant (ob_at y) \<and> (acyclic (parent_relation os) \<longrightarrow> ob_ordinal x \<le> ob_ordinal y))"

lemma parent_with_iff:
  "parent_with os ev P \<longleftrightarrow> (\<exists>i \<in> set (by_id os). ob_event i \<in> set (ob_parents ev) \<and> P i)"
proof -
  have "(case item_of os p of None \<Rightarrow> False | Some i \<Rightarrow> P i) \<longleftrightarrow> (\<exists>i. item_of os p = Some i \<and> P i)" for p
    by (simp split: option.split)
  then show ?thesis by (auto simp: parent_with_def list_ex_iff item_of_Some)
qed

lemma operation_conflict_iff:
  "os \<noteq> [] \<Longrightarrow> \<not> operation_conflict os \<longleftrightarrow> (\<forall>x \<in> set os. \<forall>y \<in> set os. ob_operation x = ob_operation y)"
proof -
  assume "os \<noteq> []"
  then obtain z where z: "z \<in> set os" by (cases os) auto
  have "\<not> operation_conflict os \<longleftrightarrow> card (ob_operation ` set os) = 1"
    by (simp add: operation_conflict_def length_remdups_card_conv)
  also have "\<dots> \<longleftrightarrow> (\<forall>x \<in> set os. \<forall>y \<in> set os. ob_operation x = ob_operation y)"
  proof
    assume "\<forall>x \<in> set os. \<forall>y \<in> set os. ob_operation x = ob_operation y"
    then have "ob_operation ` set os = {ob_operation z}" using z by blast
    then show "card (ob_operation ` set os) = 1" by simp
  next
    assume "card (ob_operation ` set os) = 1"
    then obtain c where "ob_operation ` set os = {c}" by (auto simp: card_1_singleton_iff)
    then show "\<forall>x \<in> set os. \<forall>y \<in> set os. ob_operation x = ob_operation y" by (metis imageI singletonD)
  qed
  finally show ?thesis .
qed

text \<open>The ordinals of a history in which every retry has a predecessor.\<close>

lemma ordinals_iff:
  assumes "os \<noteq> []" "\<forall>ev \<in> set os. 1 \<le> ob_ordinal ev"
  shows "ob_ordinal ` set os = {1..max_ordinal os} \<longleftrightarrow>
    (\<forall>y \<in> set os. 1 < ob_ordinal y \<longrightarrow> (\<exists>x \<in> set os. ob_ordinal x = ob_ordinal y - 1))"
proof
  assume eq: "ob_ordinal ` set os = {1..max_ordinal os}"
  show "\<forall>y \<in> set os. 1 < ob_ordinal y \<longrightarrow> (\<exists>x \<in> set os. ob_ordinal x = ob_ordinal y - 1)"
  proof (intro ballI impI)
    fix y assume y: "y \<in> set os" "1 < ob_ordinal y"
    then have "ob_ordinal y \<in> {1..max_ordinal os}" unfolding eq [symmetric] by simp
    with y have "ob_ordinal y - 1 \<in> ob_ordinal ` set os" unfolding eq by simp
    then show "\<exists>x \<in> set os. ob_ordinal x = ob_ordinal y - 1" by force
  qed
next
  assume step: "\<forall>y \<in> set os. 1 < ob_ordinal y \<longrightarrow> (\<exists>x \<in> set os. ob_ordinal x = ob_ordinal y - 1)"
  have fin: "finite (ob_ordinal ` set os)" "ob_ordinal ` set os \<noteq> {}" using assms(1) by simp_all
  have down: "max_ordinal os - int n \<in> ob_ordinal ` set os" if "1 \<le> max_ordinal os - int n" for n
    using that
  proof (induction n)
    case 0
    show ?case using Max_in [OF fin] by (simp add: max_ordinal_def)
  next
    case (Suc n)
    then obtain y where y: "y \<in> set os" "ob_ordinal y = max_ordinal os - int n" by force
    with Suc.prems step obtain x where "x \<in> set os" "ob_ordinal x = ob_ordinal y - 1" by force
    with y have "max_ordinal os - int (Suc n) = ob_ordinal x" by simp
    with \<open>x \<in> set os\<close> show ?case by blast
  qed
  show "ob_ordinal ` set os = {1..max_ordinal os}"
  proof (intro equalityI subsetI)
    fix k assume "k \<in> {1..max_ordinal os}"
    then show "k \<in> ob_ordinal ` set os" using down [of "nat (max_ordinal os - k)"] by simp
  next
    fix k assume "k \<in> ob_ordinal ` set os"
    then show "k \<in> {1..max_ordinal os}" using assms(2) fin by (auto simp: max_ordinal_def)
  qed
qed

lemma earliest_le:
  assumes "y \<in> set os" "ob_ordinal y = k" "x \<in> set os" "ob_ordinal x = j"
  shows "earliest os j \<le> earliest os k \<longleftrightarrow>
    (\<forall>y \<in> set os. ob_ordinal y = k \<longrightarrow> (\<exists>x \<in> set os. ob_ordinal x = j \<and> dt_instant (ob_at x) \<le> dt_instant (ob_at y)))"
proof -
  let ?T = "\<lambda>k. (\<lambda>ev. dt_instant (ob_at ev)) ` {ev \<in> set os. ob_ordinal ev = k}"
  have e: "earliest os k = Min (?T k)" for k by (simp add: earliest_def)
  have n: "finite (?T j)" "?T j \<noteq> {}" "finite (?T k)" "?T k \<noteq> {}" using assms by auto
  have "Min (?T j) \<le> Min (?T k) \<longleftrightarrow> (\<forall>t \<in> ?T k. \<exists>s \<in> ?T j. s \<le> t)"
    using Min_ge_iff [OF n(3,4)] Min_le_iff [OF n(1,2)] by blast
  then show ?thesis unfolding e by blast
qed

lemma fact_errors_None:
  assumes "os \<noteq> []" "\<forall>ev \<in> set os. 1 \<le> ob_ordinal ev" "\<forall>ev \<in> set os. distinct (ob_parents ev)"
  shows "first_error (fact_errors os) = None \<longleftrightarrow> consistent_attempts os"
proof -
  let ?gap = "\<lambda>t. \<forall>y \<in> set os. 1 < ob_ordinal y \<longrightarrow> (\<exists>x \<in> set os. ob_ordinal x = ob_ordinal y - 1 \<and> t x y)"
  let ?later = "\<lambda>x y. dt_instant (ob_at x) \<le> dt_instant (ob_at y)"
  have time: "\<not> list_ex (\<lambda>k. earliest os k < earliest os (k - 1)) [2..max_ordinal os] \<longleftrightarrow> ?gap ?later"
    if c: "ob_ordinal ` set os = {1..max_ordinal os}"
  proof -
    have "earliest os (k - 1) \<le> earliest os k \<longleftrightarrow>
        (\<forall>y \<in> set os. ob_ordinal y = k \<longrightarrow> (\<exists>x \<in> set os. ob_ordinal x = k - 1 \<and> ?later x y))" if "k \<in> {2..max_ordinal os}" for k
    proof -
      from that have "k \<in> {1..max_ordinal os}" "k - 1 \<in> {1..max_ordinal os}" by simp_all
      then obtain x y where "x \<in> set os" "y \<in> set os" "ob_ordinal y = k" "ob_ordinal x = k - 1"
        unfolding c [symmetric] by (metis imageE)
      then show ?thesis by (intro earliest_le) simp_all
    qed
    then have "\<not> list_ex (\<lambda>k. earliest os k < earliest os (k - 1)) [2..max_ordinal os] \<longleftrightarrow>
        (\<forall>k \<in> {2..max_ordinal os}. \<forall>y \<in> set os. ob_ordinal y = k \<longrightarrow> (\<exists>x \<in> set os. ob_ordinal x = k - 1 \<and> ?later x y))"
      by (simp add: list_ex_iff not_less)
    moreover have "ob_ordinal y \<le> max_ordinal os" if "y \<in> set os" for y using that by (simp add: max_ordinal_def)
    ultimately show ?thesis by force
  qed
  have "first_error (fact_errors os) = None \<longleftrightarrow>
      \<not> operation_conflict os
      \<and> (\<forall>x \<in> set os. \<forall>y \<in> set os. ob_attempt x = ob_attempt y \<longrightarrow> ob_ordinal x = ob_ordinal y \<and> ob_cause x = ob_cause y)
      \<and> (\<forall>x \<in> set os. \<forall>y \<in> set os. ob_ordinal x = ob_ordinal y \<longrightarrow> ob_attempt x = ob_attempt y)
      \<and> ob_ordinal ` set os = {1..max_ordinal os}
      \<and> (\<forall>y \<in> set (by_id os). 1 < ob_ordinal y \<longrightarrow> parent_with os y (\<lambda>i. ob_ordinal i < ob_ordinal y))
      \<and> \<not> list_ex (\<lambda>k. earliest os k < earliest os (k - 1)) [2..max_ordinal os]
      \<and> (\<forall>y \<in> set (by_id os). \<not> parent_with os y (\<lambda>i. dt_less (ob_at y) (ob_at i)))
      \<and> (cycle_verdict os = ''acyclic'' \<longrightarrow> (\<forall>y \<in> set (by_id os). \<not> parent_with os y (\<lambda>i. ob_ordinal y < ob_ordinal i)))"
    unfolding fact_errors_def first_error_Cons sorted_set_upto by (auto simp: list_ex_iff)
  also have "\<dots> \<longleftrightarrow> consistent_attempts os"
  proof -
    have g: "ob_ordinal ` set os = {1..max_ordinal os} \<and> P \<and> \<not> list_ex (\<lambda>k. earliest os k < earliest os (k - 1)) [2..max_ordinal os] \<and> Q
        \<longleftrightarrow> ?gap ?later \<and> P \<and> Q" for P Q
      using time ordinals_iff [OF assms(1,2)] by blast
    have attempts: "(\<forall>x \<in> set os. \<forall>y \<in> set os. ob_operation x = ob_operation y)
        \<and> (\<forall>x \<in> set os. \<forall>y \<in> set os. ob_attempt x = ob_attempt y \<longrightarrow> ob_ordinal x = ob_ordinal y \<and> ob_cause x = ob_cause y)
        \<and> (\<forall>x \<in> set os. \<forall>y \<in> set os. ob_ordinal x = ob_ordinal y \<longrightarrow> ob_attempt x = ob_attempt y) \<and> P
      \<longleftrightarrow> (\<forall>x \<in> set os. \<forall>y \<in> set os. ob_operation x = ob_operation y
            \<and> (ob_attempt x = ob_attempt y \<longleftrightarrow> ob_ordinal x = ob_ordinal y) \<and> (ob_attempt x = ob_attempt y \<longrightarrow> ob_cause x = ob_cause y)) \<and> P" for P
      by blast
    show ?thesis
      unfolding operation_conflict_iff [OF assms(1)] g attempts consistent_attempts_def parent_with_iff cycle_verdict_acyclic [OF assms(3)]
        dt_less_def
      by (simp only: not_less bex_simps ball_conj_distrib de_Morgan_conj) (meson not_less)
  qed
  finally show ?thesis .
qed

lemma build_accounting_exact:
  assumes "hash_ok C"
  shows "build_trajectory_accounting C expected observations censoring = Inr a \<longleftrightarrow>
    (\<exists>os. observations \<noteq> [] \<and> length observations \<le> max_trajectory_events \<and> canonical_observations observations = Inr os
      \<and> first_error (fact_errors os) = None \<and> 1 \<le> expected \<and> expected \<le> int max_trajectory_events
      \<and> censoring \<in> set censoring_states \<and> distinct (tf_violations (facts_of os expected censoring))
      \<and> a = accounting_of C os expected censoring)"
proof -
  have "mk_accounting C (accounting_of C os expected censoring) = Inr (accounting_of C os expected censoring)
      \<longleftrightarrow> 1 \<le> expected \<and> expected \<le> int max_trajectory_events \<and> censoring \<in> set censoring_states
          \<and> distinct (tf_violations (facts_of os expected censoring)) \<and> first_error (fact_errors os) = None"
    if "canonical_observations observations = Inr os" "observations \<noteq> []" "length observations \<le> max_trajectory_events" for os
  proof -
    note ok = canonical_observations_ok [OF that(1)]
    have "length os \<le> max_trajectory_events" "os \<noteq> []" using ok(3) that(2,3) by auto
    from mk_accounting_of [OF ok(1,2) this assms] show ?thesis by blast
  qed
  then show ?thesis
    unfolding build_accounting_iff [OF assms] expected_trajectory_facts_def raise_first_Inr_iff
    by (auto simp: accounting_of_fields accounting_of_facts)
qed

text \<open>
  C23: the exact inputs of the builder. It returns a record exactly for between 1 and 4096 observations with an aware time and
  valid fields, an expected count between 1 and 4096 and a known censoring state, when the observations in UTC and in canonical
  order form one logical operation whose attempts are numbered from one without a gap and begin one after the
  other, every retry descends from an earlier attempt, no event precedes a known parent, and no event violates its route
  twice; the record is then the one of the recomputed facts with the identity of the whole unit.
\<close>

theorem trajectory_builds_iff:
  assumes "hash_ok C"
  shows "build_trajectory_accounting C expected observations censoring = Inr a \<longleftrightarrow>
    observations \<noteq> [] \<and> length observations \<le> 4096 \<and> 1 \<le> expected \<and> expected \<le> 4096
    \<and> censoring \<in> {''complete'', ''left_censored'', ''right_censored''}
    \<and> (\<forall>ev \<in> set observations. dt_aware (ob_at ev) \<and> valid_observation ev)
    \<and> (let os = sort_key canonical_key (map (\<lambda>ev. ev\<lparr>ob_at := utc (ob_at ev)\<rparr>) observations)
       in consistent_attempts os \<and> distinct (map ob_event (filter (\<lambda>ev. \<not> ob_permitted ev) os))
          \<and> a = accounting_of C os expected censoring)"
proof -
  have eq: "build_trajectory_accounting C expected observations censoring = Inr a \<longleftrightarrow>
    (\<exists>os. observations \<noteq> [] \<and> length observations \<le> max_trajectory_events \<and> canonical_observations observations = Inr os
      \<and> first_error (fact_errors os) = None \<and> 1 \<le> expected \<and> expected \<le> int max_trajectory_events
      \<and> censoring \<in> set censoring_states \<and> distinct (tf_violations (facts_of os expected censoring))
      \<and> a = accounting_of C os expected censoring)"
    by (rule build_accounting_exact [OF assms])
  have facts: "first_error (fact_errors os) = None \<longleftrightarrow> consistent_attempts os"
    if "observations \<noteq> []" "canonical_observations observations = Inr os" for os
  proof (rule fact_errors_None)
    note ok = canonical_observations_ok [OF that(2)]
    show "os \<noteq> []" using ok(3) that(1) by auto
    show "\<forall>ev \<in> set os. 1 \<le> ob_ordinal ev" using ok(1) observation_okD(1) by (auto simp: observation_fields_ok_def)
    show "\<forall>ev \<in> set os. distinct (ob_parents ev)" using ok(1) observation_okD(3) by blast
  qed
  have v: "distinct (tf_violations (facts_of os expected censoring)) \<longleftrightarrow> distinct (map ob_event (filter (\<lambda>ev. \<not> ob_permitted ev) os))" for os
    by (simp add: facts_of_def)
  show ?thesis
    unfolding eq v Let_def using facts
    by (auto simp: canonical_observations_Inr observation_ok_valid dt_aware_def max_trajectory_events_def censoring_states_def)
qed

section \<open>What a validated record says\<close>

lemma repeated_Nil: "repeated xs = [] \<longleftrightarrow> distinct xs"
proof -
  have "(\<forall>x \<in> set xs. \<not> 1 < count_list xs x) \<longleftrightarrow> distinct xs"
  proof (induction xs)
    case (Cons y ys)
    have "(\<forall>x \<in> set (y # ys). \<not> 1 < count_list (y # ys) x) \<longleftrightarrow> y \<notin> set ys \<and> (\<forall>x \<in> set ys. \<not> 1 < count_list ys x)"
      by (auto simp: count_list_0_iff)
    with Cons.IH show ?case by simp
  qed simp
  then show ?thesis by (auto simp: repeated_def filter_empty_conv)
qed

lemma unresolved_Nil: "unresolved_parents os = [] \<longleftrightarrow> (\<forall>ev \<in> set os. set (ob_parents ev) \<subseteq> ob_event ` set os)"
  by (auto simp: unresolved_parents_def known_events_set filter_empty_conv)

lemma horizon_observations: "first_error (horizon_errors a os) = None \<Longrightarrow> ta_observations a = os"
  by (simp add: horizon_errors_def Let_def split: if_splits)

lemma mk_accounting_Inr:
  assumes "mk_accounting C a = Inr b"
  shows "b = a" "\<forall>ev \<in> set (ta_observations a). observation_ok ev" "sorted (map canonical_key (ta_observations a))"
    "trajectory_facts.truncate a = facts_of (ta_observations a) (ta_expected a) (ta_censoring a)"
    "first_error (fact_errors (ta_observations a)) = None" "1 \<le> ta_expected a" "ta_observations a \<noteq> []"
proof -
  from assms obtain os where os: "canonical_observations (ta_observations a) = Inr os" and h: "first_error (horizon_errors a os) = None"
    and r: "b = a" "trajectory_facts.truncate a = facts_of os (ta_expected a) (ta_censoring a)" "first_error (fact_errors os) = None"
    and shape: "first_error (accounting_shape_errors a) = None"
    by (auto simp: mk_accounting_def expected_trajectory_facts_def raise_first_Inr_iff split: if_splits)
  note eq = horizon_observations [OF h]
  from shape [unfolded accounting_shape_errors_def first_error_Cons] have "\<not> \<not> accounting_fields_ok a" by (rule conjunct1)
  then have "accounting_fields_ok a" by (rule notnotD)
  then show "1 \<le> ta_expected a" "ta_observations a \<noteq> []" by (simp_all add: accounting_fields_ok_def)
  show "b = a" "trajectory_facts.truncate a = facts_of (ta_observations a) (ta_expected a) (ta_censoring a)"
    "first_error (fact_errors (ta_observations a)) = None" using r by (simp_all only: eq)
  show "\<forall>ev \<in> set (ta_observations a). observation_ok ev" "sorted (map canonical_key (ta_observations a))"
    using canonical_observations_ok [OF os] by (simp_all only: eq)
qed

lemma truncate_cycle: "tf_cycle (trajectory_facts.truncate a) = tf_cycle a" "tf_completeness (trajectory_facts.truncate a) = tf_completeness a"
  by (simp_all add: trajectory_facts.defs)

lemma parent_with_known:
  assumes "ev \<in> set (by_id os)" "i \<in> set (by_id os)" "ob_event i \<in> set (ob_parents ev)" "\<not> parent_with os ev P"
  shows "\<not> P i"
  using assms item_of_unique [OF assms(2)] by (auto simp: parent_with_def list_ex_iff split: option.splits)

lemma mk_accounting_verdicts:
  assumes "mk_accounting C a = Inr b"
  defines "os \<equiv> ta_observations a"
  shows "tf_cycle a = ''acyclic'' \<longleftrightarrow> acyclic (parent_relation os)"
    and "tf_completeness a = ''complete'' \<longleftrightarrow> acyclic (parent_relation os)
         \<and> distinct (map ob_event os) \<and> distinct (map ob_commitment os)
         \<and> (\<forall>ev \<in> set os. set (ob_parents ev) \<subseteq> ob_event ` set os)
         \<and> ta_expected a = int (length os) \<and> ta_censoring a = ''complete''
         \<and> (\<forall>ev \<in> set os. ob_cause ev \<noteq> ''unknown'' \<and> ob_transition ev \<noteq> ''unknown'' \<and> ''unknown'' \<notin> set (ob_constraints ev))"
    and "ev \<in> set (by_id os) \<Longrightarrow> i \<in> set (by_id os) \<Longrightarrow> ob_event i \<in> set (ob_parents ev)
         \<Longrightarrow> dt_instant (ob_at i) \<le> dt_instant (ob_at ev)"
proof -
  note m = mk_accounting_Inr [OF assms(1)]
  have cyc: "cycle_verdict os = ''acyclic'' \<longleftrightarrow> acyclic (parent_relation os)"
    by (rule cycle_verdict_acyclic) (use m(2) observation_okD(3) in \<open>auto simp: os_def\<close>)
  have verdict: "tf_cycle a = cycle_verdict os" "tf_completeness a = completeness_of os (ta_expected a) (ta_censoring a)"
    using truncate_cycle [of a] m(4) by (simp_all add: os_def facts_of_def)
  show "tf_cycle a = ''acyclic'' \<longleftrightarrow> acyclic (parent_relation os)" by (simp only: verdict(1) cyc)
  have "tf_completeness a = ''complete'' \<longleftrightarrow> cycle_verdict os = ''acyclic''
       \<and> distinct (map ob_event os) \<and> distinct (map ob_commitment os) \<and> unresolved_parents os = []
       \<and> ta_expected a = int (length os) \<and> ta_censoring a = ''complete''
       \<and> (\<forall>ev \<in> set os. ob_cause ev \<noteq> ''unknown'' \<and> ob_transition ev \<noteq> ''unknown'' \<and> ''unknown'' \<notin> set (ob_constraints ev))"
    by (auto simp: verdict completeness_of_def Let_def repeated_Nil list_ex_iff cycle_verdict_def split: if_splits)
  then show "tf_completeness a = ''complete'' \<longleftrightarrow> acyclic (parent_relation os)
         \<and> distinct (map ob_event os) \<and> distinct (map ob_commitment os)
         \<and> (\<forall>ev \<in> set os. set (ob_parents ev) \<subseteq> ob_event ` set os)
         \<and> ta_expected a = int (length os) \<and> ta_censoring a = ''complete''
         \<and> (\<forall>ev \<in> set os. ob_cause ev \<noteq> ''unknown'' \<and> ob_transition ev \<noteq> ''unknown'' \<and> ''unknown'' \<notin> set (ob_constraints ev))"
    by (simp only: cyc unresolved_Nil)
  assume e: "ev \<in> set (by_id os)" "i \<in> set (by_id os)" "ob_event i \<in> set (ob_parents ev)"
  have "\<not> list_ex (\<lambda>ev. parent_with os ev (\<lambda>i. dt_less (ob_at ev) (ob_at i))) (by_id os)"
    using m(5) unfolding os_def [symmetric] fact_errors_def first_error_Cons by blast
  then have "\<not> parent_with os ev (\<lambda>i. dt_less (ob_at ev) (ob_at i))" using e(1) by (simp add: list_ex_iff)
  from parent_with_known [OF e this] show "dt_instant (ob_at i) \<le> dt_instant (ob_at ev)" by (simp add: dt_less_def)
qed

text \<open>
  C22: in a record that validates, the cycle verdict is right: it is acyclic exactly when the declared
  parents among the observed events form no cycle; the record is complete exactly when there is no
  cycle, no repeated event or commitment, no unknown parent, no missing event, no censoring and no unknown cause;
  and no event is earlier than a known parent.
\<close>

theorem validated_trajectory_verdicts:
  assumes "mk_accounting C a = Inr b"
  defines "os \<equiv> ta_observations b"
  shows "(tf_cycle b = ''acyclic'' \<longleftrightarrow> acyclic (parent_relation os))
    \<and> (tf_completeness b = ''complete'' \<longleftrightarrow> acyclic (parent_relation os)
         \<and> distinct (map ob_event os) \<and> distinct (map ob_commitment os)
         \<and> (\<forall>ev \<in> set os. set (ob_parents ev) \<subseteq> ob_event ` set os)
         \<and> ta_expected b = int (length os) \<and> ta_censoring b = ''complete''
         \<and> (\<forall>ev \<in> set os. ob_cause ev \<noteq> ''unknown'' \<and> ob_transition ev \<noteq> ''unknown'' \<and> ''unknown'' \<notin> set (ob_constraints ev)))
    \<and> (\<forall>ev \<in> set (by_id os). \<forall>i \<in> set (by_id os).
         ob_event i \<in> set (ob_parents ev) \<longrightarrow> dt_instant (ob_at i) \<le> dt_instant (ob_at ev))"
  using mk_accounting_verdicts [OF assms(1)] unfolding os_def mk_accounting_Inr(1) [OF assms(1)] by blast

section \<open>The order of the observations\<close>

lemma sort_key_mset:
  assumes "mset xs = mset ys" "distinct (map k xs)"
  shows "sort_key k xs = sort_key k ys"
proof -
  have "inj_on k (set xs)" using assms(2) by (simp add: distinct_map)
  with assms(1) show ?thesis by (intro sort_key_inj_key_eq) simp_all
qed

lemma canonical_key_utc [simp]: "canonical_key (ev\<lparr>ob_at := t\<rparr>) = canonical_key ev"
  by (simp add: canonical_key_def)

lemma canonical_observations_mset:
  assumes "mset obs = mset obs'" "distinct (map canonical_key obs)" "canonical_observations obs = Inr os"
  shows "canonical_observations obs' = Inr os"
proof -
  let ?u = "\<lambda>ev. ev\<lparr>ob_at := utc (ob_at ev)\<rparr>"
  have "set obs = set obs'" using assms(1) by (rule mset_eq_setD)
  moreover have "sort_key canonical_key (map ?u obs) = sort_key canonical_key (map ?u obs')"
    by (rule sort_key_mset) (use assms(1,2) in \<open>simp_all add: o_def\<close>)
  ultimately show ?thesis using assms(3) by (simp add: canonical_observations_Inr)
qed

text \<open>
  The order in which observations arrive does not matter. Two lists with the same observations,
  of which no two share event, attempt and commitment, build the same record, or both build none.
\<close>

theorem trajectory_order_irrelevant:
  assumes "mset obs = mset obs'" "distinct (map canonical_key obs)" "hash_ok C"
  shows "build_trajectory_accounting C expected obs censoring = Inr a
    \<longleftrightarrow> build_trajectory_accounting C expected obs' censoring = Inr a"
proof -
  have "distinct (map canonical_key obs')"
    using assms(1,2) by (metis distinct_map mset_eq_imp_distinct_iff mset_eq_setD)
  then have "canonical_observations obs = Inr os \<longleftrightarrow> canonical_observations obs' = Inr os" for os
    using canonical_observations_mset [OF assms(1,2)] canonical_observations_mset [OF assms(1) [symmetric]] by blast
  moreover have "length obs = length obs'" "obs = [] \<longleftrightarrow> obs' = []"
    using assms(1) by (metis size_mset, metis mset_zero_iff)
  ultimately show ?thesis by (simp add: build_accounting_iff [OF assms(3)])
qed

section \<open>Witnesses\<close>

text \<open>The first attempt of an event without parents.\<close>

definition sample_observation :: "char \<Rightarrow> observation" where
  "sample_observation c = \<lparr>ob_event = replicate 64 c, ob_at = \<lparr>dt_instant = 0, dt_offset = Some 0\<rparr>, ob_commitment = replicate 64 c,
     ob_operation = zero_sha256, ob_attempt = zero_sha256, ob_ordinal = 1, ob_idempotency = zero_sha256, ob_cause = ''initial'',
     ob_route = zero_sha256, ob_transition = ''initial'', ob_routes = zero_sha256, ob_permitted = True, ob_constraints = [],
     ob_parents = []\<rparr>"

lemma sample_observation_ok: "is_lower_hex c \<Longrightarrow> observation_ok (sample_observation c)"
proof -
  assume "is_lower_hex c"
  then have "sha256_text (replicate 64 c)" by (simp add: sha256_text_def list_all_iff)
  then show ?thesis
    by (simp add: observation_ok_def mk_observation_def raise_first_def observation_fields_ok_def sample_observation_def
      retry_causes_def route_transition_reasons_def max_trajectory_events_def sorted_set_def)
qed

lemma sample_observation_facts: "first_error (fact_errors [sample_observation c]) = None"
  by (simp add: fact_errors_def operation_conflict_def sample_observation_def sorted_set_def max_ordinal_def parent_with_def)

lemma sample_accounting:
  "mk_accounting sample_codec (accounting_of sample_codec [sample_observation CHR ''0''] 1 ''complete'')
    = Inr (accounting_of sample_codec [sample_observation CHR ''0''] 1 ''complete'')"
proof -
  have "is_lower_hex CHR ''0''" by (simp add: is_lower_hex_def is_digit_def)
  then have "\<forall>ev \<in> set [sample_observation CHR ''0'']. observation_ok ev" by (simp add: sample_observation_ok)
  moreover have "tf_violations (facts_of [sample_observation CHR ''0''] 1 ''complete'') = []"
    by (simp add: facts_of_def sample_observation_def)
  ultimately show ?thesis
    by (subst mk_accounting_of) (simp_all add: max_trajectory_events_def censoring_states_def sample_observation_facts)
qed

theorem trajectory_builds_iff_witness:
  "build_trajectory_accounting sample_codec 1 [sample_observation CHR ''0''] ''complete''
    = Inr (accounting_of sample_codec [sample_observation CHR ''0''] 1 ''complete'')"
proof -
  let ?ev = "sample_observation CHR ''0''"
  have time: "?ev\<lparr>ob_at := utc (ob_at ?ev)\<rparr> = ?ev" "dt_aware (ob_at ?ev)" "ob_permitted ?ev"
    by (simp_all add: sample_observation_def utc_def dt_aware_def)
  have "valid_observation ?ev"
    using sample_observation_ok [of "CHR ''0''"] observation_ok_valid [of ?ev] by (simp add: time is_lower_hex_def is_digit_def)
  moreover have "consistent_attempts [?ev]"
    by (simp add: consistent_attempts_def) (simp add: sample_observation_def)
  ultimately show ?thesis
    unfolding trajectory_builds_iff [OF sample_hash] by (simp add: Let_def time)
qed

theorem validated_trajectory_verdicts_witness:
  "tf_cycle (accounting_of sample_codec [sample_observation CHR ''0''] 1 ''complete'') = ''acyclic''"
proof -
  have "parent_relation [sample_observation CHR ''0''] = {}" by (simp add: parent_relation_def sample_observation_def)
  then have "acyclic (parent_relation [sample_observation CHR ''0''])" by (simp add: acyclic_def)
  with validated_trajectory_verdicts [OF sample_accounting] show ?thesis by (simp only: accounting_of_fields)
qed

theorem trajectory_order_irrelevant_witness:
  "build_trajectory_accounting sample_codec 2 [sample_observation CHR ''1'', sample_observation CHR ''0''] ''complete''
      = Inr (accounting_of sample_codec [sample_observation CHR ''0'', sample_observation CHR ''1''] 2 ''complete'')
    \<longleftrightarrow> build_trajectory_accounting sample_codec 2 [sample_observation CHR ''0'', sample_observation CHR ''1''] ''complete''
      = Inr (accounting_of sample_codec [sample_observation CHR ''0'', sample_observation CHR ''1''] 2 ''complete'')"
  by (rule trajectory_order_irrelevant) (simp_all add: canonical_key_def sample_observation_def numeral_eq_Suc)

end
