(* ===== verification/Companion.thy ===== *)
theory Companion
  imports Trajectory_Properties
begin

text \<open>
  The companion records of \<open>companion_contracts.py\<close> (coverage expectations, telemetry manifests, outcomes,
  structural receipts) with their validators and builders, the adapter audit of
  \<open>portfolio_contract.py\<close> they embed, and their canonical encoding, digest and decoding.
\<close>

section \<open>Identifier patterns\<close>

text \<open>\<open>^[a-z][a-z0-9_.-]{0,127}$\<close>, \<open>^[a-z0-9][a-z0-9-]{0,127}$\<close>, \<open>^[A-Za-z0-9_.-]+/[A-Za-z0-9_.-]+$\<close>\<close>

definition token_char :: "char \<Rightarrow> bool" where
  "token_char c \<longleftrightarrow> is_lower_alpha c \<or> is_digit c \<or> c \<in> {CHR ''_'', CHR ''.'', CHR ''-''}"

fun canonical_token :: "string \<Rightarrow> bool" where
  "canonical_token [] = False"
| "canonical_token (c # cs) = (is_lower_alpha c \<and> list_all token_char cs \<and> length cs \<le> 127)"

fun project_id_text :: "string \<Rightarrow> bool" where
  "project_id_text [] = False"
| "project_id_text (c # cs) = ((is_lower_alpha c \<or> is_digit c)
     \<and> list_all (\<lambda>c. is_lower_alpha c \<or> is_digit c \<or> c = CHR ''-'') cs \<and> length cs \<le> 127)"

definition repository_char :: "char \<Rightarrow> bool" where
  "repository_char c \<longleftrightarrow> is_lower_alpha c \<or> is_upper_alpha c \<or> is_digit c \<or> c \<in> {CHR ''_'', CHR ''.'', CHR ''-''}"

definition repository_id_text :: "string \<Rightarrow> bool" where
  "repository_id_text s \<longleftrightarrow> (case split_on (CHR ''/'') s of
     [owner, name] \<Rightarrow> owner \<noteq> [] \<and> name \<noteq> [] \<and> list_all repository_char owner \<and> list_all repository_char name
   | _ \<Rightarrow> False)"

definition git_object_text :: "string \<Rightarrow> bool" where
  "git_object_text s \<longleftrightarrow> list_all is_lower_hex s \<and> (length s = 40 \<or> length s = 64)"

definition strings :: "string list \<Rightarrow> json" where
  "strings xs = JArr (map JStr xs)"

section \<open>The adapter audit\<close>

record field_mapping =
  fm_sources :: "string list"
  fm_targets :: "string list"
  fm_transformation :: string
  fm_effect :: string

definition mk_field_mapping :: "field_mapping \<Rightarrow> companion_error + field_mapping" where
  "mk_field_mapping m = raise_first
     [(fm_sources m = [] \<or> 128 < length (fm_sources m) \<or> fm_targets m = [] \<or> 128 < length (fm_targets m)
         \<or> fm_transformation m \<notin> {''identity'', ''derived''} \<or> fm_effect m \<notin> {''none'', ''downgrade''}, ModelInvalid ''field''),
      (\<not> (distinct (fm_sources m) \<and> distinct (fm_targets m)), ModelInvalid ''mapping fields must be unique''),
      (\<not> (list_all canonical_token (fm_sources m) \<and> list_all canonical_token (fm_targets m)),
       ModelInvalid ''mapping fields must be canonical tokens''),
      (fm_transformation m = ''identity'' \<and> (length (fm_sources m) \<noteq> 1 \<or> fm_sources m \<noteq> fm_targets m),
       ModelInvalid ''identity mapping requires one identical field'')] m"

record adapter_audit =
  aa_source_model :: string
  aa_completeness :: string
  aa_sources :: "string list"
  aa_targets :: "string list"
  aa_mappings :: "field_mapping list"
  aa_dropped :: "string list"
  aa_context :: "string list"
  aa_constant :: "string list"
  aa_downgrade :: bool
  aa_reasons :: "string list"

definition source_models :: "string list" where
  "source_models = [''harness.runtime_guard_foundation'', ''harness.workspace_source_capture'', ''handoff.metadata_sidecar'',
     ''runtime_guard.observation_event'', ''transfer_verifier.transfer_envelope'']"

text \<open>\<open>CanonicalObservationEventV1.model_fields\<close>\<close>

definition observation_event_fields :: "string list" where
  "observation_event_fields = [''schema_version'', ''event_id'', ''project_id'', ''repository_id'', ''repository_sha'',
     ''occurred_at'', ''producer_id_hash'', ''producer_attestation'', ''source_surface'', ''activity'', ''entity_refs'',
     ''parent_event_ids'', ''data_envelope_ref'', ''authority_envelope_ref'', ''telemetry_state'', ''operational_authority'']"

definition audit_fields_ok :: "adapter_audit \<Rightarrow> bool" where
  "audit_fields_ok a \<longleftrightarrow> aa_source_model a \<in> set source_models \<and> aa_completeness a \<in> {''complete'', ''partial'', ''rejected''}
     \<and> aa_sources a \<noteq> [] \<and> aa_targets a \<noteq> []
     \<and> list_all (\<lambda>g. length g \<le> 128) [aa_sources a, aa_targets a, aa_dropped a, aa_context a, aa_constant a]
     \<and> length (aa_mappings a) \<le> 128 \<and> length (aa_reasons a) \<le> 64
     \<and> list_all (\<lambda>m. mk_field_mapping m = Inr m) (aa_mappings a)"

definition audit_groups :: "adapter_audit \<Rightarrow> string list list" where
  "audit_groups a = [aa_sources a, aa_targets a, aa_dropped a, aa_context a, aa_constant a, aa_reasons a]"

definition classified_sources :: "adapter_audit \<Rightarrow> string list" where
  "classified_sources a = concat (map fm_sources (aa_mappings a)) @ aa_dropped a"

definition classified_targets :: "adapter_audit \<Rightarrow> string list" where
  "classified_targets a = concat (map fm_targets (aa_mappings a)) @ aa_context a @ aa_constant a"

definition downgrade_required :: "adapter_audit \<Rightarrow> bool" where
  "downgrade_required a \<longleftrightarrow> aa_dropped a \<noteq> [] \<or> aa_context a \<noteq> [] \<or> aa_constant a \<noteq> []
     \<or> list_ex (\<lambda>m. fm_transformation m = ''derived'' \<or> fm_effect m = ''downgrade'') (aa_mappings a)"

definition mk_adapter_audit :: "adapter_audit \<Rightarrow> companion_error + adapter_audit" where
  "mk_adapter_audit a = raise_first
     [(\<not> audit_fields_ok a, ModelInvalid ''field''),
      (set (aa_targets a) \<noteq> set observation_event_fields,
       ModelInvalid ''target_fields must equal the CanonicalObservationEventV1 field universe''),
      (''operational_authority'' \<notin> set (aa_constant a), ModelInvalid ''operational_authority must be a constant target field''),
      (''authority_envelope_ref'' \<notin> set (aa_constant a), ModelInvalid ''authority_envelope_ref must be a constant target field''),
      (list_ex (\<lambda>g. \<not> distinct g) (audit_groups a), ModelInvalid ''adapter audit field lists must be unique''),
      (list_ex (\<lambda>g. \<not> list_all canonical_token g) (audit_groups a),
       ModelInvalid ''adapter audit fields and reasons must be canonical tokens''),
      (\<not> distinct (classified_sources a), ModelInvalid ''source field classifications must be disjoint''),
      (\<not> distinct (classified_targets a), ModelInvalid ''target field classifications must be disjoint''),
      (set (classified_sources a) \<noteq> set (aa_sources a), ModelInvalid ''source field accounting must be exhaustive''),
      (set (classified_targets a) \<noteq> set (aa_targets a), ModelInvalid ''target field accounting must be exhaustive''),
      (downgrade_required a \<and> \<not> aa_downgrade a, ModelInvalid ''non-identity projection requires an authority downgrade''),
      (aa_completeness a = ''complete'' \<and> aa_dropped a \<noteq> [], ModelInvalid ''complete projection cannot drop source fields''),
      (aa_completeness a \<noteq> ''complete'' \<and> aa_reasons a = [], ModelInvalid ''non-complete adapters require reason codes'')] a"

definition mapping_doc :: "field_mapping \<Rightarrow> json" where
  "mapping_doc m = JObj [(''source_fields'', strings (fm_sources m)), (''target_fields'', strings (fm_targets m)),
     (''transformation'', JStr (fm_transformation m)), (''authority_effect'', JStr (fm_effect m))]"

definition adapter_audit_doc :: "adapter_audit \<Rightarrow> json" where
  "adapter_audit_doc a = JObj
     [(''schema_version'', JStr ''portfolio-adapter-audit-v1.0''), (''source_model'', JStr (aa_source_model a)),
      (''target_model'', JStr ''portfolio-observation-v1.0''), (''completeness'', JStr (aa_completeness a)),
      (''source_fields'', strings (aa_sources a)), (''target_fields'', strings (aa_targets a)),
      (''mappings'', JArr (map mapping_doc (aa_mappings a))), (''dropped_source_fields'', strings (aa_dropped a)),
      (''context_target_fields'', strings (aa_context a)), (''constant_target_fields'', strings (aa_constant a)),
      (''authority_downgrade'', JBool (aa_downgrade a)), (''reason_codes'', strings (aa_reasons a)),
      (''operational_authority'', JStr ''none'')]"

definition audit_digest :: "codec \<Rightarrow> adapter_audit \<Rightarrow> string" where
  "audit_digest C a = domain_digest C ''agentic-security-portfolio/adapter-audit-evidence/v1.0'' (adapter_audit_doc a)"

section \<open>Coverage expectations\<close>

record coverage_profile =
  cf_id :: string
  cf_project :: string
  cf_repository :: string
  cf_sha :: string
  cf_channels :: "string list"
  cf_expected :: int
  cf_source :: string

definition profile_payload :: "coverage_profile \<Rightarrow> (string \<times> json) list" where
  "profile_payload p =
     [(''schema_version'', JStr ''portfolio-coverage-expectation-v1.0''), (''project_id'', JStr (cf_project p)),
      (''repository_id'', JStr (cf_repository p)), (''repository_sha'', JStr (cf_sha p)),
      (''expected_channels'', strings (cf_channels p)), (''expected_event_count'', JInt (cf_expected p)),
      (''expectation_source_sha256'', JStr (cf_source p)), (''producer_attestation'', JStr ''unattested''),
      (''operational_authority'', JStr ''none'')]"

definition coverage_profile_doc :: "coverage_profile \<Rightarrow> json" where
  "coverage_profile_doc p = JObj ((''profile_id'', JStr (cf_id p)) # profile_payload p)"

definition profile_identity :: "codec \<Rightarrow> coverage_profile \<Rightarrow> string" where
  "profile_identity C p = domain_digest C ''agentic-security-portfolio/coverage-expectation/v1.0'' (JObj (profile_payload p))"

definition profile_fields_ok :: "coverage_profile \<Rightarrow> bool" where
  "profile_fields_ok p \<longleftrightarrow> sha256_text (cf_id p) \<and> project_id_text (cf_project p) \<and> repository_id_text (cf_repository p)
     \<and> git_object_text (cf_sha p) \<and> cf_channels p \<noteq> [] \<and> length (cf_channels p) \<le> 64
     \<and> 1 \<le> cf_expected p \<and> cf_expected p \<le> int max_trajectory_events \<and> sha256_text (cf_source p)"

definition mk_coverage_profile :: "codec \<Rightarrow> coverage_profile \<Rightarrow> companion_error + coverage_profile" where
  "mk_coverage_profile C p = raise_first
     [(\<not> profile_fields_ok p, ModelInvalid ''field''),
      (sorted_set (cf_channels p) \<noteq> cf_channels p, ModelInvalid ''expected channels must be sorted and unique''),
      (\<not> list_all canonical_token (cf_channels p), ModelInvalid ''expected channels must be canonical tokens''),
      (cf_id p \<noteq> profile_identity C p, ModelInvalid ''profile id does not bind coverage expectations'')] p"

text \<open>A digest over values that are not validated yet.\<close>

definition checked_digest :: "codec \<Rightarrow> string \<Rightarrow> json \<Rightarrow> companion_error + string" where
  "checked_digest C domain v = (if json_encodable v then Inr (domain_digest C domain v) else Inl SurrogateError)"

text \<open>\<open>build_coverage_expectation_profile_v1\<close>: the id is computed over the given values.\<close>

definition build_profile :: "codec \<Rightarrow> coverage_profile \<Rightarrow> companion_error + coverage_profile" where
  "build_profile C p =
     (let q = p\<lparr>cf_channels := sorted_set (cf_channels p)\<rparr>
      in res_bind (checked_digest C ''agentic-security-portfolio/coverage-expectation/v1.0'' (JObj (profile_payload q))) (\<lambda>i.
           mk_coverage_profile C (q\<lparr>cf_id := i\<rparr>)))"

section \<open>Outcomes\<close>

record portfolio_outcome =
  po_id :: string
  po_commitment :: string
  po_layer :: string
  po_value :: string
  po_visibility :: string

definition outcome_values :: "(string \<times> string list) list" where
  "outcome_values =
     [(''advisory'', [''observe'', ''challenge'', ''escalate'', ''abstain'', ''inconclusive'']),
      (''policy_decision'', [''allow'', ''block'', ''ask_user'', ''sandbox_only'', ''log_only'']),
      (''verification'', [''pass'', ''warn'', ''fail'']),
      (''execution'', [''succeeded'', ''failed'', ''rejected'']),
      (''shadow_sink'', [''accepted_no_effect'', ''rejected_invalid'', ''incomplete''])]"

definition layer_visibility :: "string \<Rightarrow> string" where
  "layer_visibility layer = (if layer = ''advisory'' then ''visible'' else ''evaluator_only'')"

definition outcome_payload :: "portfolio_outcome \<Rightarrow> (string \<times> json) list" where
  "outcome_payload p =
     [(''schema_version'', JStr ''portfolio-outcome-v1.0''), (''observation_commitment_sha256'', JStr (po_commitment p)),
      (''producer_attestation'', JStr ''unattested''), (''evidence_only'', JBool True), (''executable'', JBool False),
      (''operational_authority'', JStr ''none''), (''layer'', JStr (po_layer p)), (''reported_value'', JStr (po_value p)),
      (''candidate_visibility'', JStr (po_visibility p))]"

definition outcome_doc :: "portfolio_outcome \<Rightarrow> json" where
  "outcome_doc p = JObj ((''record_id'', JStr (po_id p)) # outcome_payload p)"

definition portfolio_outcome_identity :: "codec \<Rightarrow> portfolio_outcome \<Rightarrow> string" where
  "portfolio_outcome_identity C p = domain_digest C ''agentic-security-portfolio/outcome-record/v1.0'' (JObj (outcome_payload p))"

definition outcome_fields_ok :: "portfolio_outcome \<Rightarrow> bool" where
  "outcome_fields_ok p \<longleftrightarrow> sha256_text (po_id p) \<and> sha256_text (po_commitment p)
     \<and> (case map_of outcome_values (po_layer p) of None \<Rightarrow> False
        | Some vs \<Rightarrow> po_value p \<in> set vs \<and> po_visibility p = layer_visibility (po_layer p))"

definition mk_outcome :: "codec \<Rightarrow> portfolio_outcome \<Rightarrow> companion_error + portfolio_outcome" where
  "mk_outcome C p = raise_first
     [(\<not> outcome_fields_ok p, ModelInvalid ''field''),
      (po_id p \<noteq> portfolio_outcome_identity C p, ModelInvalid ''record id does not bind the outcome content'')] p"

definition build_outcome :: "codec \<Rightarrow> string \<Rightarrow> string \<Rightarrow> string \<Rightarrow> companion_error + portfolio_outcome" where
  "build_outcome C layer v commitment =
     (let p = \<lparr>po_id = [], po_commitment = commitment, po_layer = layer, po_value = v, po_visibility = layer_visibility layer\<rparr>
      in res_bind (checked_digest C ''agentic-security-portfolio/outcome-record/v1.0'' (JObj (outcome_payload p))) (\<lambda>i.
           mk_outcome C (p\<lparr>po_id := i\<rparr>)))"

text \<open>Only advisory outcomes are visible to a candidate.\<close>

definition project_outcome :: "codec \<Rightarrow> portfolio_outcome \<Rightarrow> companion_error + portfolio_outcome option" where
  "project_outcome C p =
     res_bind (mk_outcome C p) (\<lambda>q.
       if po_visibility q = ''evaluator_only'' then Inr None
       else if po_layer q = ''advisory'' then Inr (Some q)
       else Inl (ContractError ''unknown candidate-visible outcome layer''))"

section \<open>Structural receipts\<close>

record mcp_receipt =
  rc_top :: string
  rc_visited :: int
  rc_objects :: int
  rc_arrays :: int
  rc_scalars :: int
  rc_blocks :: int
  rc_embedded :: int
  rc_unknown :: int
  rc_truncated :: int
  rc_dropped :: "string list"
  rc_state :: string

definition max_mcp_nodes :: int where
  "max_mcp_nodes = 4096"

definition dropped_classes :: "string list" where
  "dropped_classes = [''credential'', ''locator'', ''raw_argument'', ''raw_error'', ''raw_output'', ''embedded_resource'', ''raw_scalar'']"

definition receipt_fields_ok :: "mcp_receipt \<Rightarrow> bool" where
  "receipt_fields_ok r \<longleftrightarrow> rc_top r \<in> {''object'', ''array'', ''scalar''}
     \<and> list_all (\<lambda>n. 0 \<le> n \<and> n \<le> max_mcp_nodes) [rc_visited r, rc_objects r, rc_arrays r, rc_scalars r, rc_blocks r,
          rc_embedded r, rc_unknown r, rc_truncated r]
     \<and> list_all (\<lambda>c. c \<in> set dropped_classes) (rc_dropped r) \<and> rc_state r \<in> {''complete'', ''incomplete'', ''rejected''}"

definition root_count :: "mcp_receipt \<Rightarrow> int" where
  "root_count r = (if rc_top r = ''object'' then rc_objects r else if rc_top r = ''array'' then rc_arrays r else rc_scalars r)"

definition mk_receipt :: "mcp_receipt \<Rightarrow> companion_error + mcp_receipt" where
  "mk_receipt r = raise_first
     [(\<not> receipt_fields_ok r, ModelInvalid ''field''),
      (\<not> distinct (rc_dropped r), ModelInvalid ''dropped field classes must be unique''),
      (sort (rc_dropped r) \<noteq> rc_dropped r, ModelInvalid ''dropped field classes must be sorted''),
      (rc_state r = ''complete'' \<and> (rc_unknown r \<noteq> 0 \<or> rc_truncated r \<noteq> 0),
       ModelInvalid ''complete telemetry cannot contain unknown or truncated nodes''),
      (rc_visited r \<noteq> rc_objects r + rc_arrays r + rc_scalars r,
       ModelInvalid ''visited count does not equal structural node counts''),
      (rc_objects r < rc_blocks r, ModelInvalid ''content block count exceeds object count''),
      (rc_blocks r < rc_embedded r, ModelInvalid ''embedded resource count exceeds content blocks''),
      ((''raw_scalar'' \<in> set (rc_dropped r)) \<noteq> (0 < rc_scalars r),
       ModelInvalid ''scalar loss accounting does not match scalar count''),
      (0 < rc_embedded r \<and> ''embedded_resource'' \<notin> set (rc_dropped r),
       ModelInvalid ''embedded-resource loss accounting does not match count''),
      (root_count r = 0, ModelInvalid ''top-level type is inconsistent with structural counts''),
      (rc_top r = ''scalar'' \<and> rc_state r \<noteq> ''rejected'',
       ModelInvalid ''a scalar top-level MCP payload must be rejected'')] r"

definition mcp_receipt_doc :: "mcp_receipt \<Rightarrow> json" where
  "mcp_receipt_doc r = JObj
     [(''schema_version'', JStr ''mcp-redaction-receipt-v1.0''), (''source_surface'', JStr ''mcp''),
      (''redaction_profile'', JStr ''portfolio-mcp-structural-v1''), (''top_level_type'', JStr (rc_top r)),
      (''visited_node_count'', JInt (rc_visited r)), (''object_count'', JInt (rc_objects r)), (''array_count'', JInt (rc_arrays r)),
      (''scalar_count'', JInt (rc_scalars r)), (''content_block_count'', JInt (rc_blocks r)),
      (''embedded_resource_count'', JInt (rc_embedded r)), (''unknown_content_type_count'', JInt (rc_unknown r)),
      (''truncated_count'', JInt (rc_truncated r)), (''dropped_field_classes'', strings (rc_dropped r)),
      (''telemetry_state'', JStr (rc_state r)), (''operational_authority'', JStr ''none'')]"

section \<open>Telemetry manifests\<close>

record telemetry_manifest =
  tm_project :: string
  tm_repository :: string
  tm_sha :: string
  tm_profile :: coverage_profile
  tm_profile_id :: string
  tm_started :: datetime
  tm_ended :: datetime
  tm_expected :: "string list"
  tm_observed :: "string list"
  tm_dropped :: int
  tm_rejected :: int
  tm_audit :: adapter_audit
  tm_trajectory :: trajectory_accounting
  tm_audit_sha :: string
  tm_trajectory_sha :: string
  tm_completeness :: string
  tm_state :: string
  tm_reason :: string

definition pair_docs :: "string \<Rightarrow> string \<Rightarrow> (string \<times> string) list \<Rightarrow> json" where
  "pair_docs k1 k2 ps = JArr (map (\<lambda>(a, b). JObj [(k1, JStr a), (k2, JStr b)]) ps)"

definition accounting_doc :: "codec \<Rightarrow> trajectory_accounting \<Rightarrow> json" where
  "accounting_doc C a = JObj
     [(''schema_version'', JStr ''portfolio-trajectory-accounting-v1.0''), (''trajectory_id'', JStr (ta_id a)),
      (''candidate_visibility'', JStr ''evaluator_only''), (''logical_operation_id'', JStr (tf_operation a)),
      (''expected_event_count'', JInt (ta_expected a)), (''observed_event_count'', JInt (tf_observed a)),
      (''observation_horizon_started_at'', JStr (dt_json C (ta_started a))),
      (''observation_horizon_ended_at'', JStr (dt_json C (ta_ended a))), (''censoring_state'', JStr (ta_censoring a)),
      (''observations'', JArr (map (observation_doc (dt_json C)) (ta_observations a))),
      (''event_commitments'', pair_docs ''event_id'' ''observation_commitment_sha256'' (tf_commitments a)),
      (''edges'', pair_docs ''parent_event_id'' ''child_event_id'' (tf_edges a)), (''attempt_ids'', strings (tf_attempts a)),
      (''idempotency_identities'', strings (tf_idempotency a)), (''route_violation_event_ids'', strings (tf_violations a)),
      (''root_event_ids'', strings (tf_roots a)), (''leaf_event_ids'', strings (tf_leaves a)),
      (''unresolved_parent_event_ids'', strings (tf_unresolved a)), (''duplicate_event_ids'', strings (tf_repeated_events a)),
      (''duplicate_observation_commitments'', strings (tf_repeated_commitments a)), (''cycle_verdict'', JStr (tf_cycle a)),
      (''completeness'', JStr (tf_completeness a)), (''operational_authority'', JStr ''none'')]"

definition max_companion_bytes :: nat where
  "max_companion_bytes = 262144"

text \<open>The canonical bytes of a document, and its digest under the domain of its schema version.\<close>

definition encode_document :: "codec \<Rightarrow> json \<Rightarrow> companion_error + string" where
  "encode_document C v =
     (let raw = companion_json C v @ [CHR 0x0A]
      in if max_companion_bytes < length raw then Inl (ContractError ''companion record exceeds the wire byte bound'') else Inr raw)"

definition companion_digest_of :: "codec \<Rightarrow> string \<Rightarrow> json \<Rightarrow> companion_error + string" where
  "companion_digest_of C version v =
     res_bind (encode_document C v) (\<lambda>raw.
       Inr (sha256_hex C (''agentic-security-portfolio/companion-record/v1.0'' @ [CHR 0x00] @ version @ [CHR 0x00] @ raw)))"

definition accounting_digest :: "codec \<Rightarrow> trajectory_accounting \<Rightarrow> companion_error + string" where
  "accounting_digest C a =
     res_bind (mk_accounting C a) (\<lambda>b. companion_digest_of C ''portfolio-trajectory-accounting-v1.0'' (accounting_doc C b))"

definition incomplete_reasons :: "string list" where
  "incomplete_reasons = [''none'', ''missing_channel'', ''dropped_or_rejected_records'', ''trajectory_not_complete'', ''invalid_window'']"

definition manifest_fields_ok :: "telemetry_manifest \<Rightarrow> bool" where
  "manifest_fields_ok m \<longleftrightarrow> project_id_text (tm_project m) \<and> repository_id_text (tm_repository m) \<and> git_object_text (tm_sha m)
     \<and> sha256_text (tm_profile_id m) \<and> tm_expected m \<noteq> [] \<and> length (tm_expected m) \<le> 64 \<and> length (tm_observed m) \<le> 64
     \<and> 0 \<le> tm_dropped m \<and> 0 \<le> tm_rejected m \<and> sha256_text (tm_audit_sha m) \<and> sha256_text (tm_trajectory_sha m)
     \<and> tm_completeness m \<in> {''complete'', ''incomplete'', ''invalid''}
     \<and> tm_state m \<in> {''complete'', ''incomplete'', ''rejected''} \<and> tm_reason m \<in> set incomplete_reasons"

definition utc_aware :: "datetime \<Rightarrow> bool" where
  "utc_aware t \<longleftrightarrow> dt_offset t = Some 0"

definition valid_window :: "datetime \<Rightarrow> datetime \<Rightarrow> trajectory_accounting \<Rightarrow> bool" where
  "valid_window s e a \<longleftrightarrow> utc_aware s \<and> utc_aware e \<and> dt_le s e \<and> dt_le s (ta_started a) \<and> dt_le (ta_ended a) e"

text \<open>The state and the reason that the evidence of a manifest calls for.\<close>

definition telemetry_verdict :: "bool \<Rightarrow> string \<Rightarrow> int \<Rightarrow> int \<Rightarrow> string list \<Rightarrow> string list \<Rightarrow> string \<times> string" where
  "telemetry_verdict window completeness dropped rejected expected observed =
     (if \<not> window then (''rejected'', ''invalid_window'')
      else if completeness = ''invalid'' then (''rejected'', ''trajectory_not_complete'')
      else if completeness \<noteq> ''complete'' then (''incomplete'', ''trajectory_not_complete'')
      else if dropped \<noteq> 0 \<or> rejected \<noteq> 0 then (''incomplete'', ''dropped_or_rejected_records'')
      else if \<not> set expected \<subseteq> set observed then (''incomplete'', ''missing_channel'')
      else (''complete'', ''none''))"

definition manifest_errors :: "codec \<Rightarrow> telemetry_manifest \<Rightarrow> string \<Rightarrow> (bool \<times> companion_error) list" where
  "manifest_errors C m trajectory_sha =
     (let p = tm_profile m; a = tm_trajectory m in
     [(tm_profile_id m \<noteq> cf_id p \<or> tm_project m \<noteq> cf_project p \<or> tm_repository m \<noteq> cf_repository p \<or> tm_sha m \<noteq> cf_sha p
         \<or> tm_expected m \<noteq> cf_channels p, ModelInvalid ''telemetry manifest does not match its embedded profile''),
      (tm_audit_sha m \<noteq> audit_digest C (tm_audit m), ModelInvalid ''telemetry manifest does not match its adapter audit''),
      (tm_trajectory_sha m \<noteq> trajectory_sha, ModelInvalid ''telemetry manifest does not match its trajectory evidence''),
      (tm_completeness m \<noteq> tf_completeness a \<or> ta_expected a \<noteq> cf_expected p \<or> cf_expected p < tf_observed a,
       ModelInvalid ''telemetry manifest trajectory accounting is inconsistent''),
      (\<not> list_all canonical_token (tm_expected m @ tm_observed m), ModelInvalid ''telemetry channel must be a canonical token''),
      (sorted_set (tm_expected m) \<noteq> tm_expected m, ModelInvalid ''expected channels must be sorted and unique''),
      (sorted_set (tm_observed m) \<noteq> tm_observed m, ModelInvalid ''observed channels must be sorted and unique''),
      ((tm_state m, tm_reason m) \<noteq> telemetry_verdict (valid_window (tm_started m) (tm_ended m) a) (tm_completeness m)
          (tm_dropped m) (tm_rejected m) (tm_expected m) (tm_observed m),
       ModelInvalid ''telemetry verdict does not match manifest evidence'')])"

definition mk_manifest :: "codec \<Rightarrow> telemetry_manifest \<Rightarrow> companion_error + telemetry_manifest" where
  "mk_manifest C m =
     res_bind (ensure (manifest_fields_ok m) (ModelInvalid ''field'')) (\<lambda>_.
     res_bind (mk_coverage_profile C (tm_profile m)) (\<lambda>_.
     res_bind (mk_adapter_audit (tm_audit m)) (\<lambda>_.
     res_bind (mk_accounting C (tm_trajectory m)) (\<lambda>_.
     res_bind (map_err as_invalid (accounting_digest C (tm_trajectory m))) (\<lambda>trajectory_sha.
     raise_first (manifest_errors C m trajectory_sha) m)))))"

definition normalize_window :: "datetime \<Rightarrow> datetime" where
  "normalize_window t = (if dt_aware t then utc t else t)"

definition build_telemetry_manifest ::
  "codec \<Rightarrow> coverage_profile \<Rightarrow> string list \<Rightarrow> int \<Rightarrow> int \<Rightarrow> adapter_audit \<Rightarrow> trajectory_accounting \<Rightarrow> datetime \<Rightarrow> datetime
     \<Rightarrow> companion_error + telemetry_manifest"
where
  "build_telemetry_manifest C profile0 channels dropped rejected audit0 trajectory0 started0 ended0 =
     res_bind (mk_coverage_profile C profile0) (\<lambda>p.
     res_bind (mk_adapter_audit audit0) (\<lambda>audit.
     res_bind (mk_accounting C trajectory0) (\<lambda>a.
     if ta_expected a \<noteq> cf_expected p then Inl (ContractError ''trajectory does not match the expectation profile'')
     else if cf_expected p < tf_observed a then Inl (ContractError ''trajectory exceeds the expectation profile'')
     else let started = normalize_window started0; ended = normalize_window ended0; aware = (dt_aware started \<and> dt_aware ended)
          in if aware \<and> (dt_less (ta_started a) started \<or> dt_less ended (ta_ended a))
             then Inl (ContractError ''telemetry window does not contain trajectory horizon'')
             else let observed = sorted_set channels;
                      verdict = telemetry_verdict (aware \<and> dt_le started ended) (tf_completeness a) dropped rejected
                        (cf_channels p) observed
                  in res_bind (accounting_digest C a) (\<lambda>trajectory_sha.
                       mk_manifest C
                         \<lparr>tm_project = cf_project p, tm_repository = cf_repository p, tm_sha = cf_sha p, tm_profile = p,
                          tm_profile_id = cf_id p, tm_started = started, tm_ended = ended, tm_expected = cf_channels p,
                          tm_observed = observed, tm_dropped = dropped, tm_rejected = rejected, tm_audit = audit,
                          tm_trajectory = a, tm_audit_sha = audit_digest C audit, tm_trajectory_sha = trajectory_sha,
                          tm_completeness = tf_completeness a, tm_state = fst verdict, tm_reason = snd verdict\<rparr>))))"

definition manifest_doc :: "codec \<Rightarrow> telemetry_manifest \<Rightarrow> json" where
  "manifest_doc C m = JObj
     [(''schema_version'', JStr ''portfolio-telemetry-manifest-v1.0''), (''candidate_visibility'', JStr ''evaluator_only''),
      (''project_id'', JStr (tm_project m)), (''repository_id'', JStr (tm_repository m)), (''repository_sha'', JStr (tm_sha m)),
      (''coverage_expectation_profile'', coverage_profile_doc (tm_profile m)), (''coverage_expectation_profile_id'', JStr (tm_profile_id m)),
      (''window_started_at'', JStr (dt_json C (tm_started m))), (''window_ended_at'', JStr (dt_json C (tm_ended m))),
      (''expected_channels'', strings (tm_expected m)), (''observed_channels'', strings (tm_observed m)),
      (''dropped_record_count'', JInt (tm_dropped m)), (''rejected_record_count'', JInt (tm_rejected m)),
      (''adapter_audit'', adapter_audit_doc (tm_audit m)), (''trajectory_accounting'', accounting_doc C (tm_trajectory m)),
      (''adapter_audit_sha256'', JStr (tm_audit_sha m)), (''trajectory_accounting_sha256'', JStr (tm_trajectory_sha m)),
      (''trajectory_completeness'', JStr (tm_completeness m)), (''telemetry_state'', JStr (tm_state m)),
      (''incomplete_reason'', JStr (tm_reason m)), (''operational_authority'', JStr ''none'')]"

section \<open>The companion union\<close>

datatype companion =
    OutcomeRecord portfolio_outcome
  | ReceiptRecord mcp_receipt
  | AccountingRecord trajectory_accounting
  | ProfileRecord coverage_profile
  | ManifestRecord telemetry_manifest

fun companion_version :: "companion \<Rightarrow> string" where
  "companion_version (OutcomeRecord _) = ''portfolio-outcome-v1.0''"
| "companion_version (ReceiptRecord _) = ''mcp-redaction-receipt-v1.0''"
| "companion_version (AccountingRecord _) = ''portfolio-trajectory-accounting-v1.0''"
| "companion_version (ProfileRecord _) = ''portfolio-coverage-expectation-v1.0''"
| "companion_version (ManifestRecord _) = ''portfolio-telemetry-manifest-v1.0''"

fun revalidate :: "codec \<Rightarrow> companion \<Rightarrow> companion_error + companion" where
  "revalidate C (OutcomeRecord p) = res_bind (mk_outcome C p) (\<lambda>q. Inr (OutcomeRecord q))"
| "revalidate C (ReceiptRecord r) = res_bind (mk_receipt r) (\<lambda>q. Inr (ReceiptRecord q))"
| "revalidate C (AccountingRecord a) = res_bind (mk_accounting C a) (\<lambda>q. Inr (AccountingRecord q))"
| "revalidate C (ProfileRecord p) = res_bind (mk_coverage_profile C p) (\<lambda>q. Inr (ProfileRecord q))"
| "revalidate C (ManifestRecord m) = res_bind (mk_manifest C m) (\<lambda>q. Inr (ManifestRecord q))"

fun companion_doc :: "codec \<Rightarrow> companion \<Rightarrow> json" where
  "companion_doc C (OutcomeRecord p) = outcome_doc p"
| "companion_doc C (ReceiptRecord r) = mcp_receipt_doc r"
| "companion_doc C (AccountingRecord a) = accounting_doc C a"
| "companion_doc C (ProfileRecord p) = coverage_profile_doc p"
| "companion_doc C (ManifestRecord m) = manifest_doc C m"

definition encode_companion :: "codec \<Rightarrow> companion \<Rightarrow> companion_error + string" where
  "encode_companion C r = res_bind (revalidate C r) (\<lambda>q. encode_document C (companion_doc C q))"

definition companion_digest :: "codec \<Rightarrow> companion \<Rightarrow> companion_error + string" where
  "companion_digest C r =
     res_bind (revalidate C r) (\<lambda>q. companion_digest_of C (companion_version q) (companion_doc C q))"

definition project_companion :: "codec \<Rightarrow> companion \<Rightarrow> companion_error + portfolio_outcome option" where
  "project_companion C r =
     res_bind (revalidate C r) (\<lambda>q. Inr (case q of OutcomeRecord p \<Rightarrow> if po_layer p = ''advisory'' then Some p else None | _ \<Rightarrow> None))"

end
