(* ===== verification/Trajectory_Admission.thy ===== *)
theory Trajectory_Admission
  imports Companion Ancestry_Store
begin

text \<open>
  \<open>trajectory_admission.py\<close>: telemetry retained in an ancestry store, one root record for the expected
  profile and one record per event, and its assessment against the host's checkpoint, profile,
  operation, policy and manifest digest. Pydantic's reading of the observation in an event's payload is the
  parameter \<open>coerce\<close>; its constraints and validator are \<open>mk_observation\<close>.
\<close>

section \<open>Records\<close>

datatype admission_error = HostValueError string | CompanionError companion_error | RecordError anc_error

definition retained_json :: "codec \<Rightarrow> json \<Rightarrow> string" where
  "retained_json C v = dumps (float_repr C) True v"

definition max_composed_events :: int where
  "max_composed_events = 4095"

definition host_fields :: "string \<Rightarrow> string \<Rightarrow> admission_error + unit" where
  "host_fields operation policy = raise_first
     [(\<not> sha256_text operation, HostValueError ''logical operation must be a lowercase SHA-256 identity''),
      (\<not> sha256_text policy, HostValueError ''policy must be a lowercase SHA-256 digest'')] ()"

definition root_doc :: "coverage_profile \<Rightarrow> string \<Rightarrow> string \<Rightarrow> json" where
  "root_doc p operation policy = JObj
     [(''schema_version'', JStr ''ash-retained-telemetry-root-v1''), (''profile'', coverage_profile_doc p),
      (''logical_operation_id'', JStr operation), (''policy_sha256'', JStr policy)]"

definition build_coverage_root_record ::
  "codec \<Rightarrow> string \<Rightarrow> coverage_profile \<Rightarrow> string \<Rightarrow> string \<Rightarrow> admission_error + ancestry_record" where
  "build_coverage_root_record C ctx expected operation policy =
     res_bind (map_err CompanionError (mk_coverage_profile C expected)) (\<lambda>p.
     res_bind (host_fields operation policy) (\<lambda>_.
     if max_composed_events < cf_expected p then Inl (HostValueError ''profile exceeds root-plus-events store capacity'')
     else map_err RecordError (mk_record
       \<lparr>ar_id = ''root'', ar_context = ctx, ar_payload = retained_json C (root_doc p operation policy), ar_parents = [],
        ar_scope = [''retained-telemetry'']\<rparr>)))"

text \<open>\<open>f"event-{sequence:04d}"\<close>\<close>

definition event_name :: "nat \<Rightarrow> string" where
  "event_name n = (let d = nat_digits n in ''event-'' @ replicate (4 - length d) (CHR ''0'') @ d)"

definition event_doc :: "codec \<Rightarrow> nat \<Rightarrow> string \<Rightarrow> observation \<Rightarrow> json" where
  "event_doc C n channel ev = JObj
     [(''schema_version'', JStr ''ash-retained-telemetry-event-v1''), (''sequence'', JInt (int n)), (''channel'', JStr channel),
      (''observation'', observation_doc (dt_json C) ev)]"

definition build_coverage_event_record ::
  "codec \<Rightarrow> string \<Rightarrow> nat \<Rightarrow> observation \<Rightarrow> string \<Rightarrow> admission_error + ancestry_record" where
  "build_coverage_event_record C ctx n ev channel =
     (if \<not> (1 \<le> n \<and> int n \<le> max_composed_events) then Inl (HostValueError ''event sequence must be between 1 and 4095'')
      else if \<not> canonical_token channel then Inl (HostValueError ''channel must be a canonical token'')
      else res_bind (map_err CompanionError (mk_observation ev)) (\<lambda>ref.
        map_err RecordError (mk_record
          \<lparr>ar_id = event_name n, ar_context = ctx, ar_payload = retained_json C (event_doc C n channel ref),
           ar_parents = [if n = 1 then ''root'' else event_name (n - 1)], ar_scope = [''retained-telemetry'']\<rparr>)))"

section \<open>Reading an event back\<close>

datatype read_error = ReadError

definition event_hooks :: "codec \<Rightarrow> read_error hooks" where
  "event_hooks C =
     \<lparr>h_pairs = (\<lambda>kvs. if distinct (map fst kvs) then Inr (JObj kvs) else Inl ReadError),
      h_const = (\<lambda>t. Inr (JFloat (if t = ''NaN'' then PyNaN else PyInf (t = ''-Infinity'')))),
      h_int = (\<lambda>t. if int_digit_limit < digit_count t then Inl ReadError else Inr (JInt (int_of_text t))),
      h_float = (\<lambda>t. Inr (JFloat (float_of_text C t))),
      h_syntax = ReadError\<rparr>"

definition event_keys :: "string set" where
  "event_keys = {''schema_version'', ''sequence'', ''channel'', ''observation''}"

text \<open>One round of the loop over the events: the observation and its channel, \<open>None\<close> where the code rejects.\<close>

definition read_retained_event ::
  "codec \<Rightarrow> ((string \<times> json) list \<Rightarrow> observation option) \<Rightarrow> string \<Rightarrow> string \<Rightarrow> nat \<Rightarrow> ancestry_record \<Rightarrow> (observation \<times> string) option"
where
  "read_retained_event C coerce ctx operation n r =
     (if \<not> is_ascii (ar_payload r) then None
      else case loads (event_hooks C) (ar_payload r) of
        Inr (JObj kvs) \<Rightarrow>
          if obj_keys kvs \<noteq> event_keys then None
          else (case (obj_get kvs ''schema_version'', obj_get kvs ''sequence'', obj_get kvs ''observation'', obj_get kvs ''channel'') of
            (Some (JStr version), Some (JInt _), Some (JObj members), Some (JStr channel)) \<Rightarrow>
              if version \<noteq> ''ash-retained-telemetry-event-v1'' then None
              else (case coerce members of
                None \<Rightarrow> None
              | Some ev \<Rightarrow>
                  (case mk_observation ev of
                     Inl _ \<Rightarrow> None
                   | Inr ref \<Rightarrow>
                       if build_coverage_event_record C ctx n ref channel = Inr r \<and> ob_operation ref = operation
                       then Some (ref, channel) else None))
          | _ \<Rightarrow> None)
      | _ \<Rightarrow> None)"

fun read_retained_events ::
  "codec \<Rightarrow> ((string \<times> json) list \<Rightarrow> observation option) \<Rightarrow> string \<Rightarrow> string \<Rightarrow> nat \<Rightarrow> ancestry_record list \<Rightarrow> (observation \<times> string) list option"
where
  "read_retained_events C coerce ctx operation n [] = Some []"
| "read_retained_events C coerce ctx operation n (r # rs) =
     (case read_retained_event C coerce ctx operation n r of
        None \<Rightarrow> None
      | Some e \<Rightarrow> (case read_retained_events C coerce ctx operation (Suc n) rs of None \<Rightarrow> None | Some es \<Rightarrow> Some (e # es)))"

section \<open>The assessment\<close>

record telemetry_admission =
  ad_binding :: string
  ad_coverage :: string
  ad_completion :: string
  ad_reason :: string
  ad_count :: nat

definition reject :: "string \<Rightarrow> nat \<Rightarrow> telemetry_admission" where
  "reject reason n = \<lparr>ad_binding = ''rejected'', ad_coverage = ''rejected'', ad_completion = ''rejected'', ad_reason = reason, ad_count = n\<rparr>"

record host_inputs =
  hi_checkpoint :: checkpoint
  hi_profile :: coverage_profile
  hi_operation :: string
  hi_policy :: string
  hi_manifest_sha :: string
  hi_phase :: string

definition host_inputs_ok :: "codec \<Rightarrow> host_inputs \<Rightarrow> bool" where
  "host_inputs_ok C h \<longleftrightarrow> mk_coverage_profile C (hi_profile h) = Inr (hi_profile h) \<and> sha256_text (hi_operation h) \<and> sha256_text (hi_policy h)
     \<and> sha256_text (hi_manifest_sha h) \<and> hi_phase h \<in> {''pending'', ''sealed''} \<and> cf_expected (hi_profile h) \<le> max_composed_events"

definition assess_events ::
  "codec \<Rightarrow> ((string \<times> json) list \<Rightarrow> observation option) \<Rightarrow> host_inputs \<Rightarrow> telemetry_manifest \<Rightarrow> snapshot \<Rightarrow> telemetry_admission"
where
  "assess_events C coerce h m sn =
     (case build_coverage_root_record C (cp_context (sn_checkpoint sn)) (hi_profile h) (hi_operation h) (hi_policy h) of
        Inl _ \<Rightarrow> reject ''invalid_host_input'' 0
      | Inr expected_root \<Rightarrow>
          (case sn_records sn of
             [] \<Rightarrow> reject ''root_binding_mismatch'' 0
           | r # events \<Rightarrow>
               if r \<noteq> expected_root then reject ''root_binding_mismatch'' 0
               else if events = [] \<or> cf_expected (hi_profile h) < int (length events)
               then reject ''event_count_out_of_bounds'' (length events)
               else (case read_retained_events C coerce (cp_context (sn_checkpoint sn)) (hi_operation h) 1 events of
                  None \<Rightarrow> reject ''event_binding_mismatch'' (length events)
                | Some observed \<Rightarrow>
                    (case build_trajectory_accounting C (cf_expected (hi_profile h)) (map fst observed) (ta_censoring (tm_trajectory m)) of
                       Inl _ \<Rightarrow> reject ''trajectory_reconstruction_failed'' (length events)
                     | Inr rebuilt \<Rightarrow>
                         if tm_profile m \<noteq> hi_profile h \<or> tf_operation (tm_trajectory m) \<noteq> hi_operation h
                           \<or> tm_trajectory m \<noteq> rebuilt \<or> tm_observed m \<noteq> sorted_set (map snd observed)
                         then \<lparr>ad_binding = ''matched'', ad_coverage = ''rejected'', ad_completion = ''rejected'',
                               ad_reason = ''manifest_retained_mismatch'', ad_count = length events\<rparr>
                         else \<lparr>ad_binding = ''matched'', ad_coverage = tm_state m,
                               ad_completion = (if tm_state m = ''rejected'' then ''rejected'' else if hi_phase h = ''pending'' then ''pending'' else tm_state m),
                               ad_reason = ''retained_evidence_matched'', ad_count = length events\<rparr>))))"

definition assess_retained_telemetry ::
  "codec \<Rightarrow> ((string \<times> json) list \<Rightarrow> observation option) \<Rightarrow> store \<Rightarrow> host_inputs \<Rightarrow> telemetry_manifest \<Rightarrow> disk
     \<Rightarrow> effect list \<times> (anc_error + telemetry_admission)"
where
  "assess_retained_telemetry C coerce st h m dk =
     (if \<not> host_inputs_ok C h then ([], Inr (reject ''invalid_host_input'' 0))
      else case companion_digest C (ManifestRecord m) of
        Inl _ \<Rightarrow> ([], Inr (reject ''invalid_manifest'' 0))
      | Inr d \<Rightarrow>
          if d \<noteq> hi_manifest_sha h then ([], Inr (reject ''manifest_anchor_mismatch'' 0))
          else (case take_snapshot C st (hi_checkpoint h) dk of
            (es, Inl e) \<Rightarrow> (es, Inl e)
          | (es, Inr sn) \<Rightarrow> (es, Inr (assess_events C coerce h m sn))))"

section \<open>What a matched assessment binds\<close>

lemma read_retained_event_Some:
  "read_retained_event C coerce ctx operation n r = Some (ev, channel) \<Longrightarrow>
    build_coverage_event_record C ctx n ev channel = Inr r \<and> ob_operation ev = operation \<and> mk_observation ev = Inr ev"
  by (auto simp: read_retained_event_def mk_observation_Inr split: if_splits sum.splits json.splits option.splits)

lemma read_retained_events_Some:
  "read_retained_events C coerce ctx operation n rs = Some es \<Longrightarrow>
    length es = length rs
    \<and> (\<forall>i < length es. build_coverage_event_record C ctx (n + i) (fst (es ! i)) (snd (es ! i)) = Inr (rs ! i)
         \<and> ob_operation (fst (es ! i)) = operation \<and> mk_observation (fst (es ! i)) = Inr (fst (es ! i)))"
proof (induction rs arbitrary: n es)
  case (Cons r rs)
  from Cons.prems obtain ev channel es' where e: "read_retained_event C coerce ctx operation n r = Some (ev, channel)"
    and es: "es = (ev, channel) # es'" "read_retained_events C coerce ctx operation (Suc n) rs = Some es'"
    by (auto split: option.splits)
  show ?case
    using read_retained_event_Some [OF e] Cons.IH [OF es(2)] by (auto simp: es(1) nth_Cons split: nat.splits)
qed simp

end
