(* ===== verification/Admission_Properties.thy ===== *)
theory Admission_Properties
  imports Trajectory_Admission Json_Size Ancestry_Session
begin

text \<open>
  What an assessment of retained telemetry shows: a complete one binds the store, the manifest and the
  host's expectations together, and honestly recorded telemetry is assessed as its manifest states.
\<close>

section \<open>Manifests\<close>

lemma mk_coverage_profile_Inr: "mk_coverage_profile C p = Inr q \<Longrightarrow> q = p"
  by (simp add: mk_coverage_profile_def raise_first_Inr_iff)

lemma mk_adapter_audit_Inr: "mk_adapter_audit a = Inr b \<Longrightarrow> b = a"
  by (simp add: mk_adapter_audit_def raise_first_Inr_iff)

lemma mk_manifest_Inr:
  assumes "mk_manifest C m = Inr n"
  shows "n = m" "mk_coverage_profile C (tm_profile m) = Inr (tm_profile m)" "mk_accounting C (tm_trajectory m) = Inr (tm_trajectory m)"
    "tm_completeness m = tf_completeness (tm_trajectory m)" "ta_expected (tm_trajectory m) = cf_expected (tm_profile m)"
    "(tm_state m, tm_reason m) = telemetry_verdict (valid_window (tm_started m) (tm_ended m) (tm_trajectory m))
       (tm_completeness m) (tm_dropped m) (tm_rejected m) (tm_expected m) (tm_observed m)"
    "tm_expected m = cf_channels (tm_profile m)"
proof -
  from assms obtain p a sha where p: "mk_coverage_profile C (tm_profile m) = Inr p" and a: "mk_accounting C (tm_trajectory m) = Inr a"
    and e: "raise_first (manifest_errors C m sha) m = Inr n"
    by (auto simp: mk_manifest_def)
  from e have e': "first_error (manifest_errors C m sha) = None" and "n = m" by (simp_all add: raise_first_Inr_iff)
  then show "n = m" by simp
  show "mk_coverage_profile C (tm_profile m) = Inr (tm_profile m)" "mk_accounting C (tm_trajectory m) = Inr (tm_trajectory m)"
    using p a mk_coverage_profile_Inr [OF p] mk_accounting_Inr(1) [OF a] by simp_all
  note e'' = e' [unfolded manifest_errors_def Let_def first_error_Cons]
  show "tm_completeness m = tf_completeness (tm_trajectory m)" "ta_expected (tm_trajectory m) = cf_expected (tm_profile m)"
    "(tm_state m, tm_reason m) = telemetry_verdict (valid_window (tm_started m) (tm_ended m) (tm_trajectory m))
       (tm_completeness m) (tm_dropped m) (tm_rejected m) (tm_expected m) (tm_observed m)"
    "tm_expected m = cf_channels (tm_profile m)"
    using e'' by blast+
qed

lemma telemetry_verdict_complete:
  "telemetry_verdict window completeness dropped rejected expected observed = (''complete'', reason) \<Longrightarrow>
    window \<and> completeness = ''complete'' \<and> dropped = 0 \<and> rejected = 0 \<and> set expected \<subseteq> set observed"
  by (auto simp: telemetry_verdict_def split: if_splits)

lemma complete_manifest:
  assumes "mk_manifest C m = Inr n" "tm_state m = ''complete''"
  shows "valid_window (tm_started m) (tm_ended m) (tm_trajectory m)" "tf_completeness (tm_trajectory m) = ''complete''"
    "tm_dropped m = 0" "tm_rejected m = 0" "set (cf_channels (tm_profile m)) \<subseteq> set (tm_observed m)"
proof -
  note m = mk_manifest_Inr [OF assms(1)]
  have v: "telemetry_verdict (valid_window (tm_started m) (tm_ended m) (tm_trajectory m))
       (tm_completeness m) (tm_dropped m) (tm_rejected m) (tm_expected m) (tm_observed m) = (''complete'', tm_reason m)"
    using m(6) assms(2) by simp
  show "valid_window (tm_started m) (tm_ended m) (tm_trajectory m)" "tf_completeness (tm_trajectory m) = ''complete''"
    "tm_dropped m = 0" "tm_rejected m = 0" "set (cf_channels (tm_profile m)) \<subseteq> set (tm_observed m)"
    using telemetry_verdict_complete [OF v] m(4,7) by simp_all
qed

section \<open>A complete assessment\<close>

lemma companion_digest_manifest: "companion_digest C (ManifestRecord m) = Inr d \<Longrightarrow> mk_manifest C m = Inr m"
  using mk_manifest_Inr(1) by (auto simp: companion_digest_def)

lemma assess_events_matched:
  assumes "assess_events C coerce h m sn = r" "ad_reason r = ''retained_evidence_matched''"
  obtains rt events observed where
    "build_coverage_root_record C (cp_context (sn_checkpoint sn)) (hi_profile h) (hi_operation h) (hi_policy h) = Inr rt"
    "sn_records sn = rt # events"
    "read_retained_events C coerce (cp_context (sn_checkpoint sn)) (hi_operation h) 1 events = Some observed"
    "build_trajectory_accounting C (cf_expected (hi_profile h)) (map fst observed) (ta_censoring (tm_trajectory m)) = Inr (tm_trajectory m)"
    "tm_profile m = hi_profile h" "tm_observed m = sorted_set (map snd observed)"
    "ad_completion r = (if tm_state m = ''rejected'' then ''rejected'' else if hi_phase h = ''pending'' then ''pending'' else tm_state m)"
  using assms by (auto simp: assess_events_def reject_def split: sum.splits list.splits option.splits if_splits)

lemma assess_complete:
  assumes "assess_retained_telemetry C coerce st h m dk = (es, Inr r)" "ad_completion r = ''complete''"
  obtains sn where "host_inputs_ok C h" "companion_digest C (ManifestRecord m) = Inr (hi_manifest_sha h)"
    "take_snapshot C st (hi_checkpoint h) dk = (es, Inr sn)" "assess_events C coerce h m sn = r"
    "ad_reason r = ''retained_evidence_matched''"
proof -
  from assms obtain sn where s: "host_inputs_ok C h" "companion_digest C (ManifestRecord m) = Inr (hi_manifest_sha h)"
    "take_snapshot C st (hi_checkpoint h) dk = (es, Inr sn)" "assess_events C coerce h m sn = r"
    by (auto simp: assess_retained_telemetry_def reject_def split: if_splits sum.splits prod.splits)
  moreover have "ad_reason r = ''retained_evidence_matched''"
    using s(4) assms(2) by (auto simp: assess_events_def reject_def split: sum.splits list.splits option.splits if_splits)
  ultimately show ?thesis by (rule that)
qed

lemma built_observations:
  assumes "build_trajectory_accounting C expected obs censoring = Inr a" "\<forall>ev \<in> set obs. mk_observation ev = Inr ev" "hash_ok C"
  shows "mset (ta_observations a) = mset obs" "mk_accounting C a = Inr a"
proof -
  from assms(1) obtain os where os: "canonical_observations obs = Inr os" "a = accounting_of C os expected censoring"
    and "mk_accounting C a = Inr a"
    unfolding build_accounting_iff [OF assms(3)] by blast
  then show "mk_accounting C a = Inr a" by simp
  have "map (\<lambda>ev. ev\<lparr>ob_at := utc (ob_at ev)\<rparr>) obs = obs"
  proof (rule map_idI)
    fix ev assume "ev \<in> set obs"
    with assms(2) have "observation_ok ev" by (simp add: observation_ok_def)
    then show "ev\<lparr>ob_at := utc (ob_at ev)\<rparr> = ev" using observation_okD(2) [of ev] by (simp add: utc_id)
  qed
  with os show "mset (ta_observations a) = mset obs"
    by (simp add: canonical_observations_Inr accounting_of_fields)
qed

lemma by_id_distinct: "distinct (map ob_event os) \<Longrightarrow> by_id os = os"
  by (induction os) (auto simp: image_iff)

text \<open>
  C16: telemetry is assessed as complete only when the host sealed it, the manifest has the digest that the
  host holds, the store is at the host's checkpoint, and its records are exactly the root for the host's profile,
  operation and policy followed by the canonical records of as many events of that operation as were expected;
  these events have no cycle and no repeated event, every parent is among them, every expected channel was seen, and
  nothing was dropped or rejected.
\<close>

theorem complete_telemetry_sound:
  assumes "hash_ok C" "assess_retained_telemetry C coerce st h m dk = (es, Inr r)" "ad_completion r = ''complete''"
  shows "\<exists>sn rt events.
      hi_phase h = ''sealed'' \<and> companion_digest C (ManifestRecord m) = Inr (hi_manifest_sha h)
      \<and> take_snapshot C st (hi_checkpoint h) dk = (es, Inr sn) \<and> length (sn_records sn) = Suc (length events)
      \<and> build_coverage_root_record C (cp_context (sn_checkpoint sn)) (hi_profile h) (hi_operation h) (hi_policy h) = Inr rt
      \<and> sn_records sn ! 0 = rt \<and> int (length events) = cf_expected (hi_profile h)
      \<and> (\<forall>i < length events. ob_operation (fst (events ! i)) = hi_operation h
           \<and> build_coverage_event_record C (cp_context (sn_checkpoint sn)) (Suc i) (fst (events ! i)) (snd (events ! i))
               = Inr (sn_records sn ! Suc i))
      \<and> distinct (map (ob_event \<circ> fst) events)
      \<and> acyclic {(p, c). \<exists>ev \<in> fst ` set events. ob_event ev = c \<and> p \<in> set (ob_parents ev)}
      \<and> (\<forall>ev \<in> fst ` set events. set (ob_parents ev) \<subseteq> ob_event ` fst ` set events)
      \<and> set (cf_channels (hi_profile h)) \<subseteq> snd ` set events \<and> tm_dropped m = 0 \<and> tm_rejected m = 0"
proof -
  obtain sn where s: "host_inputs_ok C h" "companion_digest C (ManifestRecord m) = Inr (hi_manifest_sha h)"
    "take_snapshot C st (hi_checkpoint h) dk = (es, Inr sn)" "assess_events C coerce h m sn = r"
    "ad_reason r = ''retained_evidence_matched''"
    by (rule assess_complete [OF assms(2,3)])
  let ?ctx = "cp_context (sn_checkpoint sn)"
  obtain rt records events where root: "build_coverage_root_record C ?ctx (hi_profile h) (hi_operation h) (hi_policy h) = Inr rt"
    and recs: "sn_records sn = rt # records"
    and rd: "read_retained_events C coerce ?ctx (hi_operation h) 1 records = Some events"
    and tr: "build_trajectory_accounting C (cf_expected (hi_profile h)) (map fst events) (ta_censoring (tm_trajectory m)) = Inr (tm_trajectory m)"
    and p: "tm_profile m = hi_profile h" "tm_observed m = sorted_set (map snd events)"
    and comp: "ad_completion r = (if tm_state m = ''rejected'' then ''rejected'' else if hi_phase h = ''pending'' then ''pending'' else tm_state m)"
    by (rule assess_events_matched [OF s(4,5)])
  note ev = read_retained_events_Some [OF rd]
  from comp assms(3) have state: "tm_state m = ''complete''" and phase: "hi_phase h \<noteq> ''pending''" by (auto split: if_splits)
  with s(1) have sealed: "hi_phase h = ''sealed''" by (auto simp: host_inputs_ok_def)
  have mk: "mk_manifest C m = Inr m" by (rule companion_digest_manifest [OF s(2)])
  note mm = complete_manifest [OF mk state]
  have "list_all (\<lambda>e. mk_observation (fst e) = Inr (fst e)) events" using ev by (simp add: list_all_length)
  then have "\<forall>x \<in> set (map fst events). mk_observation x = Inr x" by (auto simp: list_all_iff)
  note bo = built_observations [OF tr this assms(1)]
  let ?os = "ta_observations (tm_trajectory m)"
  have sets: "set ?os = fst ` set events" using mset_eq_setD [OF bo(1)] by simp
  have full: "acyclic (parent_relation ?os)" "distinct (map ob_event ?os)" "\<forall>e \<in> set ?os. set (ob_parents e) \<subseteq> ob_event ` set ?os"
    "ta_expected (tm_trajectory m) = int (length ?os)"
    using mk_accounting_verdicts(2) [OF bo(2)] mm(2) by blast+
  have "distinct (map ob_event (map fst events))"
    using full(2) bo(1) by (metis mset_eq_imp_distinct_iff mset_map)
  moreover have "by_id ?os = ?os" by (rule by_id_distinct [OF full(2)])
  then have "parent_relation ?os = {(p, c). \<exists>ev \<in> fst ` set events. ob_event ev = c \<and> p \<in> set (ob_parents ev)}"
    using full(3) sets by (auto simp: parent_relation_def)
  moreover have "int (length events) = cf_expected (hi_profile h)"
    using full(4) mset_eq_length [OF bo(1)] mk_manifest_Inr(5) [OF mk] p(1) by simp
  moreover have "set (cf_channels (hi_profile h)) \<subseteq> snd ` set events" using mm(5) p by simp
  ultimately show ?thesis
    using s(2,3) sealed root recs ev full(1,3) sets mm(3,4)
    by (intro exI [of _ sn] exI [of _ rt] exI [of _ events]) simp
qed

section \<open>Honest records are read back\<close>

lemma event_hooks_ok: "load_ok asc v \<Longrightarrow> json_ok (event_hooks C) asc v"
proof (induction v)
  case (JArr vs)
  then show ?case by (auto simp: list_all_iff)
next
  case (JObj kvs)
  then show ?case by (fastforce simp: list_all_iff event_hooks_def)
qed (simp_all add: event_hooks_def)

lemma loads_retained: "load_ok True v \<Longrightarrow> loads (event_hooks C) (retained_json C v) = Inr (sort_keys v)"
  by (simp add: retained_json_def dumps_def loads_render event_hooks_ok load_ok_sort_keys)

lemma small_int_loads: "0 \<le> i \<Longrightarrow> i \<le> 4096 \<Longrightarrow> load_ok True (JInt i)"
  using int_repr_length [of i 3] digit_count_le [of "int_repr i"] by (simp add: int_digit_limit_def)

lemma token_ascii: "canonical_token s \<Longrightarrow> is_ascii s"
  by (cases s) (auto simp: is_ascii_def list_all_iff token_char_def is_lower_alpha_def is_digit_def)

lemma listed_ascii: "list_all is_ascii xs \<Longrightarrow> x \<in> set xs \<Longrightarrow> is_ascii x"
  by (simp add: list_all_iff)

lemma vocabularies_ascii: "list_all is_ascii retry_causes" "list_all is_ascii route_transition_reasons" "list_all is_ascii constraint_kinds"
  by (simp_all add: retry_causes_def route_transition_reasons_def constraint_kinds_def)

lemma observation_doc_loads:
  assumes "mk_observation ev = Inr ev" "is_ascii (dt_json C (ob_at ev))"
  shows "load_ok True (observation_doc (dt_json C) ev)"
proof -
  have f: "observation_fields_ok ev" using assms(1) by (intro observation_okD) (simp add: observation_ok_def)
  have "is_ascii s" if "s \<in> {ob_event ev, ob_commitment ev, ob_operation ev, ob_attempt ev, ob_idempotency ev, ob_route ev, ob_routes ev}" for s
    using f that sha256_text_ascii by (auto simp: observation_fields_ok_def)
  moreover have "list_all is_ascii (ob_parents ev)"
    using f sha256_text_ascii by (auto simp: observation_fields_ok_def list_all_iff)
  moreover have "is_ascii (ob_cause ev)" "is_ascii (ob_transition ev)" "list_all is_ascii (ob_constraints ev)"
    using f listed_ascii [OF vocabularies_ascii(1)] listed_ascii [OF vocabularies_ascii(2)] listed_ascii [OF vocabularies_ascii(3)]
    by (auto simp: observation_fields_ok_def list_all_iff)
  moreover have "load_ok True (JInt (ob_ordinal ev))"
    by (rule small_int_loads) (use f in \<open>auto simp: observation_fields_ok_def max_trajectory_events_def\<close>)
  ultimately show ?thesis
    using assms(2) by (simp add: observation_doc_def str_ok_def list_all_iff)
qed

text \<open>Pydantic reads an observation back from its dumped fields, in whatever order the keys come.\<close>

definition reads_back :: "codec \<Rightarrow> ((string \<times> json) list \<Rightarrow> observation option) \<Rightarrow> observation \<Rightarrow> bool" where
  "reads_back C coerce ev \<longleftrightarrow> (case sort_keys (observation_doc (dt_json C) ev) of JObj kvs \<Rightarrow> coerce kvs = Some ev | _ \<Rightarrow> False)"

lemma build_event_record_cases:
  assumes "build_coverage_event_record C ctx n ev channel = Inr r"
  shows "1 \<le> n" "int n \<le> 4095" "canonical_token channel" "mk_observation ev = Inr ev" "ar_payload r = retained_json C (event_doc C n channel ev)"
  using assms
  by (auto simp: build_coverage_event_record_def max_composed_events_def mk_observation_Inr mk_record_def split: if_splits)

lemma read_event_built:
  assumes b: "build_coverage_event_record C ctx n ev channel = Inr r" and op: "ob_operation ev = operation"
    and t: "is_ascii (dt_json C (ob_at ev))" and rb: "reads_back C coerce ev"
  shows "read_retained_event C coerce ctx operation n r = Some (ev, channel)"
proof -
  note e = build_event_record_cases [OF b]
  obtain members where m: "sort_keys (observation_doc (dt_json C) ev) = JObj members" by (simp add: observation_doc_def)
  have members: "coerce members = Some ev" using rb by (simp add: reads_back_def m)
  let ?kvs = "[(''schema_version'', JStr ''ash-retained-telemetry-event-v1''), (''sequence'', JInt (int n)), (''channel'', JStr channel),
      (''observation'', observation_doc (dt_json C) ev)]"
  have doc: "event_doc C n channel ev = JObj ?kvs" by (simp add: event_doc_def)
  have "load_ok True (JInt (int n))" using e(2) by (intro small_int_loads) simp_all
  then have ok: "load_ok True (JObj ?kvs)"
    using observation_doc_loads [OF e(4) t] token_ascii [OF e(3)] by (simp add: str_ok_def)
  have keys: "distinct (map fst ?kvs)" by simp
  have l: "loads (event_hooks C) (ar_payload r) = Inr (JObj (sorted_members ?kvs))"
    unfolding e(5) doc loads_retained [OF ok] sort_keys_obj ..
  have ascii: "is_ascii (ar_payload r)"
    unfolding e(5) doc retained_json_def dumps_def
    by (rule render_ascii) (simp only: plain_json_sort_keys load_ok_plain [OF ok])
  have g: "obj_keys (sorted_members ?kvs) = event_keys"
    "obj_get (sorted_members ?kvs) ''schema_version'' = Some (JStr ''ash-retained-telemetry-event-v1'')"
    "obj_get (sorted_members ?kvs) ''sequence'' = Some (JInt (int n))"
    "obj_get (sorted_members ?kvs) ''observation'' = Some (JObj members)"
    "obj_get (sorted_members ?kvs) ''channel'' = Some (JStr channel)"
    unfolding obj_get_sorted [OF keys] sorted_members_keys(2)
    by (simp_all add: obj_get_def obj_keys_def event_keys_def m insert_commute)
  show ?thesis
    unfolding read_retained_event_def l using ascii b op e(4) by (simp add: g members)
qed

lemma read_events_built:
  assumes "length records = length events"
    and "\<And>i. i < length events \<Longrightarrow> build_coverage_event_record C ctx (n + i) (fst (events ! i)) (snd (events ! i)) = Inr (records ! i)"
    and "\<And>e. e \<in> set events \<Longrightarrow> ob_operation (fst e) = operation \<and> is_ascii (dt_json C (ob_at (fst e))) \<and> reads_back C coerce (fst e)"
  shows "read_retained_events C coerce ctx operation n records = Some events"
  using assms
proof (induction events arbitrary: n records)
  case (Cons e es)
  then obtain r rs where r: "records = r # rs" "length rs = length es" by (cases records) auto
  have "build_coverage_event_record C ctx n (fst e) (snd e) = Inr r" using Cons.prems(2) [of 0] by (simp add: r(1))
  then have "read_retained_event C coerce ctx operation n r = Some (fst e, snd e)"
    by (rule read_event_built) (use Cons.prems(3) [of e] in simp_all)
  moreover have "read_retained_events C coerce ctx operation (Suc n) rs = Some es"
  proof (rule Cons.IH [OF r(2)])
    show "build_coverage_event_record C ctx (Suc n + i) (fst (es ! i)) (snd (es ! i)) = Inr (rs ! i)" if "i < length es" for i
      using Cons.prems(2) [of "Suc i"] that by (simp add: r(1))
  qed (use Cons.prems(3) in auto)
  ultimately show ?case by (simp add: r(1))
qed simp

text \<open>What the builder of a manifest puts into it.\<close>

lemma built_manifest:
  assumes "build_telemetry_manifest C p channels dropped rejected audit a started ended = Inr m"
  shows "tm_profile m = p" "tm_trajectory m = a" "tm_observed m = sorted_set channels" "mk_manifest C m = Inr m"
proof -
  have "tm_profile m = p \<and> tm_trajectory m = a \<and> tm_observed m = sorted_set channels"
    using assms
    by (auto simp: build_telemetry_manifest_def Let_def split: if_splits
        dest!: mk_coverage_profile_Inr mk_accounting_Inr(1) mk_manifest_Inr(1))
  then show "tm_profile m = p" "tm_trajectory m = a" "tm_observed m = sorted_set channels" by simp_all
  obtain n where "mk_manifest C n = Inr m"
    using assms by (auto simp: build_telemetry_manifest_def Let_def split: if_splits)
  then show "mk_manifest C m = Inr m" using mk_manifest_Inr(1) by blast
qed

text \<open>A recording: what the host wrote into the store, and the manifest it made of it.\<close>

definition recorded ::
  "codec \<Rightarrow> ((string \<times> json) list \<Rightarrow> observation option) \<Rightarrow> host_inputs \<Rightarrow> (observation \<times> string) list \<Rightarrow> string
     \<Rightarrow> ancestry_record list \<Rightarrow> telemetry_manifest \<Rightarrow> bool" where
  "recorded C coerce h events ctx entries m \<longleftrightarrow>
     (\<exists>rt records. entries = rt # records \<and> length records = length events
        \<and> build_coverage_root_record C ctx (hi_profile h) (hi_operation h) (hi_policy h) = Inr rt
        \<and> (\<forall>i < length events. build_coverage_event_record C ctx (Suc i) (fst (events ! i)) (snd (events ! i)) = Inr (records ! i)))
     \<and> (\<forall>e \<in> set events. ob_operation (fst e) = hi_operation h \<and> is_ascii (dt_json C (ob_at (fst e))) \<and> reads_back C coerce (fst e))
     \<and> (\<exists>a dropped rejected audit started ended.
          build_trajectory_accounting C (cf_expected (hi_profile h)) (map fst events) (ta_censoring a) = Inr a
          \<and> build_telemetry_manifest C (hi_profile h) (map snd events) dropped rejected audit a started ended = Inr m)
     \<and> events \<noteq> [] \<and> int (length events) \<le> cf_expected (hi_profile h)"

lemma built_operation:
  assumes "build_trajectory_accounting C expected obs censoring = Inr a" "hash_ok C" "\<forall>ev \<in> set obs. ob_operation ev = operation" "obs \<noteq> []"
  shows "tf_operation a = operation"
proof -
  from assms(1) obtain os where os: "canonical_observations obs = Inr os" "a = accounting_of C os expected censoring"
    unfolding build_accounting_iff [OF assms(2)] by blast
  from os(1) assms(3) have "\<forall>ev \<in> set os. ob_operation ev = operation" by (auto simp: canonical_observations_Inr)
  moreover have "os \<noteq> []" using canonical_observations_ok(3) [OF os(1)] assms(4) by auto
  ultimately show ?thesis by (simp add: os(2) accounting_of_facts facts_of_def)
qed

definition admission_of :: "host_inputs \<Rightarrow> telemetry_manifest \<Rightarrow> nat \<Rightarrow> telemetry_admission" where
  "admission_of h m n = \<lparr>ad_binding = ''matched'', ad_coverage = tm_state m,
     ad_completion = (if tm_state m = ''rejected'' then ''rejected'' else if hi_phase h = ''pending'' then ''pending'' else tm_state m),
     ad_reason = ''retained_evidence_matched'', ad_count = n\<rparr>"

lemma assess_recorded:
  assumes "hash_ok C" "recorded C coerce h events (cp_context (sn_checkpoint sn)) (sn_records sn) m"
  shows "assess_events C coerce h m sn = admission_of h m (length events)"
proof -
  let ?ctx = "cp_context (sn_checkpoint sn)"
  from assms(2) obtain rt records a dropped rejected audit started ended where
    recs: "sn_records sn = rt # records" "length records = length events"
    and root: "build_coverage_root_record C ?ctx (hi_profile h) (hi_operation h) (hi_policy h) = Inr rt"
    and ev: "\<And>i. i < length events \<Longrightarrow> build_coverage_event_record C ?ctx (Suc i) (fst (events ! i)) (snd (events ! i)) = Inr (records ! i)"
    and op: "\<And>e. e \<in> set events \<Longrightarrow> ob_operation (fst e) = hi_operation h \<and> is_ascii (dt_json C (ob_at (fst e))) \<and> reads_back C coerce (fst e)"
    and tr: "build_trajectory_accounting C (cf_expected (hi_profile h)) (map fst events) (ta_censoring a) = Inr a"
    and man: "build_telemetry_manifest C (hi_profile h) (map snd events) dropped rejected audit a started ended = Inr m"
    and n: "events \<noteq> []" "int (length events) \<le> cf_expected (hi_profile h)"
    unfolding recorded_def by blast
  have rd: "read_retained_events C coerce ?ctx (hi_operation h) 1 records = Some events"
    by (rule read_events_built [OF recs(2)]) (use ev op in auto)
  have "tf_operation a = hi_operation h" by (rule built_operation [OF tr assms(1)]) (use op n(1) in auto)
  with built_manifest [OF man] tr rd n recs root show ?thesis
    by (auto simp: assess_events_def admission_of_def)
qed

lemma recorded_log_admitted:
  assumes "hash_ok C" "host_inputs_ok C h" "recoverable C st entries dk" "hi_checkpoint h = checkpoint_of C st entries"
    and "recorded C coerce h events (st_context st) entries m" "companion_digest C (ManifestRecord m) = Inr (hi_manifest_sha h)"
  shows "\<exists>es. assess_retained_telemetry C coerce st h m dk = (es, Inr (admission_of h m (length events)))
    \<and> settled C st entries (apply_effects dk es)"
proof -
  obtain es where s: "state C st dk = (es, Inr (checkpoint_of C st entries, entries))" "settled C st entries (apply_effects dk es)"
    by (rule state_recovers [OF assms(1,3)]) blast
  let ?sn = "\<lparr>sn_checkpoint = checkpoint_of C st entries, sn_records = entries\<rparr>"
  have "take_snapshot C st (hi_checkpoint h) dk = (es, Inr ?sn)" by (simp add: take_snapshot_def s(1) assms(4))
  moreover have "assess_events C coerce h m ?sn = admission_of h m (length events)"
    by (rule assess_recorded [OF assms(1)]) (use assms(5) in \<open>simp add: checkpoint_of_def\<close>)
  ultimately have "assess_retained_telemetry C coerce st h m dk = (es, Inr (admission_of h m (length events)))"
    by (simp add: assess_retained_telemetry_def assms(2,6))
  with s(2) show ?thesis by blast
qed

text \<open>
  C17: telemetry that was recorded with the builders is admitted, also after a crash of the store. When the log of a
  recoverable store is the root and the event records of the host's operation and the host holds its checkpoint and
  the digest of a manifest built from the same events, and when the reader of payloads gives back what was
  dumped, the assessment matches: it reports the state of the manifest, pending until the host seals it, and
  leaves the store settled with the same log.
\<close>

theorem recorded_telemetry_admitted:
  assumes "hash_ok C" "host_inputs_ok C h" "recoverable C st entries dk" "hi_checkpoint h = checkpoint_of C st entries"
    and "recorded C coerce h events (st_context st) entries m" "companion_digest C (ManifestRecord m) = Inr (hi_manifest_sha h)"
  shows "\<exists>es. assess_retained_telemetry C coerce st h m dk = (es, Inr (admission_of h m (length events)))
    \<and> settled C st entries (apply_effects dk es)"
  by (rule recorded_log_admitted [OF assms])

end
