(* ===== verification/Admission_Witnesses.thy ===== *)
theory Admission_Witnesses
  imports Admission_Properties
begin

text \<open>
  When the builder of a manifest succeeds, and a telemetry that was recorded, retained and assessed: the
  witnesses of the properties of the admission.
\<close>

section \<open>Manifests that build\<close>

lemma sorted_set_idem [simp]: "sorted_set (sorted_set xs) = sorted_set xs"
  by (simp add: sorted_set_def distinct_remdups_id sorted_sort_id)

text \<open>What the builder returns where it succeeds.\<close>

definition manifest_of ::
  "codec \<Rightarrow> coverage_profile \<Rightarrow> string list \<Rightarrow> int \<Rightarrow> int \<Rightarrow> adapter_audit \<Rightarrow> trajectory_accounting \<Rightarrow> datetime \<Rightarrow> datetime
     \<Rightarrow> string \<Rightarrow> telemetry_manifest" where
  "manifest_of C p channels dropped rejected audit a s e sha =
     (let v = telemetry_verdict True (tf_completeness a) dropped rejected (cf_channels p) (sorted_set channels)
      in \<lparr>tm_project = cf_project p, tm_repository = cf_repository p, tm_sha = cf_sha p, tm_profile = p,
          tm_profile_id = cf_id p, tm_started = s, tm_ended = e, tm_expected = cf_channels p,
          tm_observed = sorted_set channels, tm_dropped = dropped, tm_rejected = rejected, tm_audit = audit,
          tm_trajectory = a, tm_audit_sha = audit_digest C audit, tm_trajectory_sha = sha,
          tm_completeness = tf_completeness a, tm_state = fst v, tm_reason = snd v\<rparr>)"

lemma manifest_of_fields_ok:
  assumes "mk_coverage_profile C p = Inr p" "mk_accounting C a = Inr a" "length (sorted_set channels) \<le> 64"
    and "0 \<le> dropped" "0 \<le> rejected" "hash_ok C" "sha256_text sha"
  shows "manifest_fields_ok (manifest_of C p channels dropped rejected audit a s e sha)"
proof -
  have "profile_fields_ok p" using assms(1) by (simp add: mk_coverage_profile_def raise_first_def split: if_splits)
  moreover have "tf_completeness a \<in> {''complete'', ''incomplete'', ''invalid''}"
  proof -
    have "tf_completeness (facts_of os x c) \<in> {''complete'', ''incomplete'', ''invalid''}" for os x c
      by (simp add: facts_of_def completeness_of_def Let_def)
    then show ?thesis by (simp only: truncate_cycle(2) [of a, symmetric] mk_accounting_Inr(4) [OF assms(2)])
  qed
  moreover have "fst (telemetry_verdict w c d r x y) \<in> {''complete'', ''incomplete'', ''rejected''}"
    "snd (telemetry_verdict w c d r x y) \<in> set incomplete_reasons" for w c d r x y
    by (simp_all add: telemetry_verdict_def incomplete_reasons_def)
  ultimately show ?thesis
    using assms(3-7)
    by (simp add: manifest_of_def Let_def manifest_fields_ok_def profile_fields_ok_def audit_digest_def domain_digest_def)
qed

lemma manifest_builds:
  assumes p: "mk_coverage_profile C p = Inr p" and au: "mk_adapter_audit audit = Inr audit" and a: "mk_accounting C a = Inr a"
    and fit: "ta_expected a = cf_expected p" "tf_observed a \<le> cf_expected p" "accounting_digest C a = Inr sha"
    and chan: "list_all canonical_token channels" "length (sorted_set channels) \<le> 64" "0 \<le> dropped" "0 \<le> rejected" "hash_ok C"
    and w: "valid_window s e a"
  defines "m \<equiv> manifest_of C p channels dropped rejected audit a s e sha"
  shows "build_telemetry_manifest C p channels dropped rejected audit a s e = Inr m" "mk_manifest C m = Inr m"
proof -
  have sha: "sha256_text sha" using fit(3) chan(5) by (auto simp: accounting_digest_def a companion_digest_of_def)
  have prof: "sorted_set (cf_channels p) = cf_channels p" "list_all canonical_token (cf_channels p)"
    using p by (auto simp: mk_coverage_profile_def raise_first_def split: if_splits)
  have tok: "list_all canonical_token (cf_channels p @ sorted_set channels)"
    using prof(2) chan(1) by (auto simp: list_all_iff sorted_set_def)
  have "first_error (manifest_errors C m sha) = None"
    unfolding manifest_errors_def Let_def first_error_Cons using fit(1,2) prof tok w
    by (simp add: m_def manifest_of_def Let_def)
  moreover have "manifest_fields_ok m" unfolding m_def by (rule manifest_of_fields_ok [OF p a chan(2-5) sha])
  ultimately show mk: "mk_manifest C m = Inr m"
    by (simp add: mk_manifest_def raise_first_def) (simp add: m_def manifest_of_def Let_def p au a fit(3))
  from w have t: "normalize_window s = s" "normalize_window e = e" "dt_aware s" "dt_aware e" "dt_le s e"
    "\<not> dt_less (ta_started a) s" "\<not> dt_less e (ta_ended a)"
    by (auto simp: valid_window_def utc_aware_def normalize_window_def dt_aware_def dt_le_def dt_less_def utc_id)
  have "build_telemetry_manifest C p channels dropped rejected audit a s e = mk_manifest C m"
    using fit(1,2) by (simp add: build_telemetry_manifest_def p au a t fit(3) m_def manifest_of_def Let_def)
  with mk show "build_telemetry_manifest C p channels dropped rejected audit a s e = Inr m" by simp
qed

section \<open>A recorded telemetry\<close>

definition sample_coverage :: coverage_profile where
  "sample_coverage =
     (let p = \<lparr>cf_id = [], cf_project = ''p'', cf_repository = ''o/r'', cf_sha = replicate 40 CHR ''0'', cf_channels = [''log''],
               cf_expected = 1, cf_source = zero_sha256\<rparr>
      in p\<lparr>cf_id := profile_identity sample_codec p\<rparr>)"

definition sample_audit :: adapter_audit where
  "sample_audit = \<lparr>aa_source_model = ''handoff.metadata_sidecar'', aa_completeness = ''partial'', aa_sources = [''x''],
     aa_targets = observation_event_fields, aa_mappings = [], aa_dropped = [''x''], aa_context = [],
     aa_constant = observation_event_fields, aa_downgrade = True, aa_reasons = [''dropped'']\<rparr>"

abbreviation sample_ref :: observation where
  "sample_ref \<equiv> sample_observation CHR ''0''"

definition sample_trajectory :: trajectory_accounting where
  "sample_trajectory = accounting_of sample_codec [sample_ref] 1 ''complete''"

lemma sample_coverage_id: "cf_id sample_coverage = profile_identity sample_codec sample_coverage"
  by (simp add: sample_coverage_def Let_def profile_identity_def profile_payload_def)

lemma sample_coverage_fields [simp]:
  "cf_project sample_coverage = ''p''" "cf_repository sample_coverage = ''o/r''" "cf_sha sample_coverage = replicate 40 CHR ''0''"
  "cf_channels sample_coverage = [''log'']" "cf_expected sample_coverage = 1" "cf_source sample_coverage = zero_sha256"
  by (simp_all add: sample_coverage_def Let_def)

lemma token_simps [simp]: "token_char c \<longleftrightarrow> is_lower_alpha c \<or> is_digit c \<or> c \<in> {CHR ''_'', CHR ''.'', CHR ''-''}"
  by (simp add: token_char_def)

lemma sample_coverage_ok [simp]: "mk_coverage_profile sample_codec sample_coverage = Inr sample_coverage"
proof -
  have "git_object_text (replicate 40 CHR ''0'')" by (simp add: git_object_text_def list_all_iff is_lower_hex_def is_digit_def)
  moreover have "sha256_text (profile_identity sample_codec sample_coverage)" by (simp add: profile_identity_def domain_digest_def)
  moreover have "repository_id_text ''o/r''" by (simp add: repository_id_text_def repository_char_def is_lower_alpha_def)
  ultimately have "profile_fields_ok sample_coverage"
    by (simp add: profile_fields_ok_def sample_coverage_id max_trajectory_events_def is_lower_alpha_def)
  then show ?thesis
    by (simp add: mk_coverage_profile_def raise_first_def sample_coverage_id sorted_set_def is_lower_alpha_def)
qed

lemma sample_audit_ok [simp]: "mk_adapter_audit sample_audit = Inr sample_audit"
proof -
  have "list_all canonical_token observation_event_fields" "distinct observation_event_fields"
    by (simp_all add: observation_event_fields_def is_lower_alpha_def is_digit_def)
  then have "\<not> list_ex (\<lambda>g. \<not> distinct g) (audit_groups sample_audit)"
    "\<not> list_ex (\<lambda>g. \<not> list_all canonical_token g) (audit_groups sample_audit)"
    by (simp_all add: audit_groups_def sample_audit_def is_lower_alpha_def)
  moreover have "audit_fields_ok sample_audit"
    by (simp add: audit_fields_ok_def sample_audit_def source_models_def observation_event_fields_def)
  moreover have "''operational_authority'' \<in> set (aa_constant sample_audit)" "''authority_envelope_ref'' \<in> set (aa_constant sample_audit)"
    by (simp_all add: sample_audit_def observation_event_fields_def)
  moreover have "distinct (classified_sources sample_audit)" "set (classified_sources sample_audit) = set (aa_sources sample_audit)"
    by (simp_all add: classified_sources_def sample_audit_def)
  moreover have "distinct (classified_targets sample_audit)" "set (classified_targets sample_audit) = set (aa_targets sample_audit)"
    using \<open>distinct observation_event_fields\<close> by (simp_all add: classified_targets_def sample_audit_def)
  moreover have "set (aa_targets sample_audit) = set observation_event_fields" "aa_downgrade sample_audit" "aa_completeness sample_audit \<noteq> ''complete''"
    "aa_reasons sample_audit \<noteq> []" by (simp_all add: sample_audit_def)
  ultimately show ?thesis by (simp add: mk_adapter_audit_def raise_first_def)
qed

lemma sample_trajectory_ok [simp]: "mk_accounting sample_codec sample_trajectory = Inr sample_trajectory"
  unfolding sample_trajectory_def by (rule sample_accounting)

section \<open>The sizes of its documents\<close>

lemma zero_sha256_ascii [simp]: "is_ascii zero_sha256" "length zero_sha256 = 64"
  using sha256_text_ascii sha256_text_length by simp_all

lemma zeros_ascii [simp]: "is_ascii (replicate n CHR ''0'')"
  by (simp add: is_ascii_def list_all_iff)

lemma sample_digit [simp]: "nat_digits 0 = ''0''"
  by code_simp

lemma sample_coverage_sized: "sized_json asc (coverage_profile_doc sample_coverage)" "json_weight (coverage_profile_doc sample_coverage) \<le> 4096"
proof -
  have "sha256_text (cf_id sample_coverage)" by (simp add: sample_coverage_id profile_identity_def domain_digest_def)
  then have "is_ascii (cf_id sample_coverage)" "length (cf_id sample_coverage) = 64" by (simp_all add: sha256_text_ascii sha256_text_length)
  then show "sized_json asc (coverage_profile_doc sample_coverage)" "json_weight (coverage_profile_doc sample_coverage) \<le> 4096"
    by (simp_all add: coverage_profile_doc_def profile_payload_def strings_def str_ok_def list_all_iff)
qed

definition tel_root :: ancestry_record where
  "tel_root = \<lparr>ar_id = ''root'', ar_context = ''ctx'',
     ar_payload = retained_json sample_codec (root_doc sample_coverage zero_sha256 zero_sha256), ar_parents = [],
     ar_scope = [''retained-telemetry'']\<rparr>"

definition tel_event :: ancestry_record where
  "tel_event = \<lparr>ar_id = ''event-0001'', ar_context = ''ctx'',
     ar_payload = retained_json sample_codec (event_doc sample_codec 1 ''log'' sample_ref), ar_parents = [''root''],
     ar_scope = [''retained-telemetry'']\<rparr>"

lemma retained_length: "sized_json True v \<Longrightarrow> json_weight v \<le> n \<Longrightarrow> length (retained_json C v) \<le> n"
  using sized_dumps_length [of True v "float_repr C"] by (simp add: retained_json_def)

lemma tel_records [simp]: "record_ok tel_root" "record_ok tel_event"
proof -
  have "length (retained_json sample_codec (root_doc sample_coverage zero_sha256 zero_sha256)) \<le> 65536"
    using sample_coverage_sized by (intro retained_length) (simp_all add: root_doc_def str_ok_def)
  then show "record_ok tel_root"
    by (simp add: record_ok_def tel_root_def labels_ok_def is_lower_alpha_def label_char_def max_payload_def max_parents_def max_scope_def)
  have "length (retained_json sample_codec (event_doc sample_codec 1 ''log'' sample_ref)) \<le> 65536"
    by (intro retained_length)
      (simp_all add: event_doc_def observation_doc_def str_ok_def sample_observation_def sample_codec_def int_repr_def list_all_iff)
  then show "record_ok tel_event"
    by (simp add: record_ok_def tel_event_def labels_ok_def is_lower_alpha_def is_digit_def label_char_def max_payload_def max_parents_def max_scope_def)
qed

lemma event_name_1: "event_name (Suc 0) = ''event-0001''"
  by code_simp

lemma sample_ref_ok [simp]: "mk_observation sample_ref = Inr sample_ref"
  using sample_observation_ok [of "CHR ''0''"] by (simp add: observation_ok_def is_lower_hex_def is_digit_def)

lemma tel_built:
  "build_coverage_root_record sample_codec ''ctx'' sample_coverage zero_sha256 zero_sha256 = Inr tel_root"
  "build_coverage_event_record sample_codec ''ctx'' 1 sample_ref ''log'' = Inr tel_event"
proof -
  have r: "mk_record tel_root = Inr tel_root" "mk_record tel_event = Inr tel_event" by (simp_all add: mk_record_Inr)
  then show "build_coverage_root_record sample_codec ''ctx'' sample_coverage zero_sha256 zero_sha256 = Inr tel_root"
    by (simp add: build_coverage_root_record_def host_fields_def raise_first_def max_composed_events_def) (simp add: tel_root_def)
  from r show "build_coverage_event_record sample_codec ''ctx'' 1 sample_ref ''log'' = Inr tel_event"
    by (simp add: build_coverage_event_record_def max_composed_events_def is_lower_alpha_def event_name_1) (simp add: tel_event_def)
qed

definition tel_store :: store where
  "tel_store = \<lparr>st_context = ''ctx'', st_root = record_digest sample_codec tel_root\<rparr>"

lemma tel_settled: "\<exists>dk. settled sample_codec tel_store [tel_root, tel_event] dk"
proof -
  have r: "ar_context tel_root = ''ctx''" "ar_parents tel_root = []" by (simp_all add: tel_root_def)
  let ?dk = "\<lparr>dk_db = None, dk_witness = None, dk_lock = None\<rparr>"
  have "\<exists>es. create_store sample_codec ''ctx'' tel_root ?dk = (es, Inr tel_store)
      \<and> settled sample_codec tel_store [tel_root] (apply_effects ?dk es)"
    unfolding tel_store_def by (rule create_settles) (simp_all add: r is_lower_alpha_def label_char_def)
  then obtain dk where "settled sample_codec tel_store [tel_root] dk" by blast
  moreover have "entry_ok sample_codec tel_store [tel_root] tel_event"
    using tel_records(2)
    by (simp add: entry_ok_def tel_store_def) (simp add: parent_ok_def find_record_def tel_root_def tel_event_def)
  ultimately show ?thesis by (rule append_settled [OF sample_hash]) (auto simp: max_records_def)
qed

section \<open>Its manifest\<close>

lemma sample_trajectory_fields:
  "ta_expected sample_trajectory = 1" "tf_observed sample_trajectory = 1" "tf_completeness sample_trajectory = ''complete''"
  "ta_observations sample_trajectory = [sample_ref]" "ta_censoring sample_trajectory = ''complete''"
  "tf_operation sample_trajectory = zero_sha256" "tf_cycle sample_trajectory = ''acyclic''"
  "dt_instant (ta_started sample_trajectory) = 0" "dt_instant (ta_ended sample_trajectory) = 0"
proof -
  have r: "parent_relation [sample_ref] = {}" by (simp add: parent_relation_def sample_observation_def)
  show "ta_expected sample_trajectory = 1" "ta_observations sample_trajectory = [sample_ref]" "ta_censoring sample_trajectory = ''complete''"
    "tf_operation sample_trajectory = zero_sha256" "tf_observed sample_trajectory = 1"
    "dt_instant (ta_started sample_trajectory) = 0" "dt_instant (ta_ended sample_trajectory) = 0"
    by (simp_all add: sample_trajectory_def accounting_of_fields accounting_of_facts facts_of_def first_time_def last_time_def sample_observation_def)
  then show "tf_cycle sample_trajectory = ''acyclic''" "tf_completeness sample_trajectory = ''complete''"
    using mk_accounting_verdicts(1,2) [OF sample_trajectory_ok] r by (simp_all add: acyclic_def) (simp_all add: sample_observation_def)
qed

lemma sample_trajectory_sized:
  "sized_json asc (accounting_doc sample_codec sample_trajectory)" "json_weight (accounting_doc sample_codec sample_trajectory) \<le> 65536"
proof -
  have t: "tf_commitments sample_trajectory = [(zero_sha256, zero_sha256)]" "tf_edges sample_trajectory = []"
    "tf_attempts sample_trajectory = [zero_sha256]" "tf_idempotency sample_trajectory = [zero_sha256]"
    "tf_violations sample_trajectory = []" "tf_roots sample_trajectory = [zero_sha256]" "tf_leaves sample_trajectory = [zero_sha256]"
    "tf_unresolved sample_trajectory = []" "tf_repeated_events sample_trajectory = []" "tf_repeated_commitments sample_trajectory = []"
    unfolding sample_trajectory_def accounting_of_facts
    by (simp_all add: facts_of_def sample_observation_def zero_sha256_def sorted_set_def unresolved_parents_def repeated_def
        known_events_def children_of_def known_parents_def)
  have "sha256_text (ta_id sample_trajectory)" using sample_trajectory_ok
    by (simp add: sample_trajectory_def accounting_of_def trajectory_facts.defs Let_def domain_digest_def)
  then have "is_ascii (ta_id sample_trajectory)" "length (ta_id sample_trajectory) = 64" by (simp_all add: sha256_text_ascii)
  moreover have "dt_json sample_codec t = ''0''" if "dt_instant t = 0" for t
    using that by (simp add: sample_codec_def int_repr_def)
  ultimately show "sized_json asc (accounting_doc sample_codec sample_trajectory)" "json_weight (accounting_doc sample_codec sample_trajectory) \<le> 65536"
    by (simp_all add: accounting_doc_def pair_docs_def strings_def t sample_trajectory_fields observation_doc_def)
      (simp_all add: str_ok_def sample_observation_def)
qed

lemma sample_audit_sized: "sized_json asc (adapter_audit_doc sample_audit)" "json_weight (adapter_audit_doc sample_audit) \<le> 8192"
  by (simp_all add: adapter_audit_doc_def sample_audit_def observation_event_fields_def strings_def str_ok_def)

lemma encode_sized: "sized_json False v \<Longrightarrow> json_weight v < max_companion_bytes \<Longrightarrow> \<exists>raw. encode_document C v = Inr raw"
  using sized_dumps_length [of False v "float_repr C"] by (simp add: encode_document_def companion_json_def Let_def)

lemma sample_manifest:
  obtains m d where "build_telemetry_manifest sample_codec sample_coverage [''log''] 0 0 sample_audit sample_trajectory
      \<lparr>dt_instant = 0, dt_offset = Some 0\<rparr> \<lparr>dt_instant = 0, dt_offset = Some 0\<rparr> = Inr m"
    and "tm_state m = ''complete''" "companion_digest sample_codec (ManifestRecord m) = Inr d" "sha256_text d"
proof -
  let ?t = "\<lparr>dt_instant = 0, dt_offset = Some 0\<rparr> :: datetime"
  obtain raw where "encode_document sample_codec (accounting_doc sample_codec sample_trajectory) = Inr raw"
    using encode_sized [where v = "accounting_doc sample_codec sample_trajectory"] sample_trajectory_sized
    by (auto simp: max_companion_bytes_def)
  then obtain sha where sha: "accounting_digest sample_codec sample_trajectory = Inr sha" and hex: "sha256_text sha"
    by (simp add: accounting_digest_def companion_digest_of_def)
  define m where "m = manifest_of sample_codec sample_coverage [''log''] 0 0 sample_audit sample_trajectory ?t ?t sha"
  have w: "valid_window ?t ?t sample_trajectory"
    by (simp add: valid_window_def utc_aware_def dt_le_def sample_trajectory_fields)
  have b: "build_telemetry_manifest sample_codec sample_coverage [''log''] 0 0 sample_audit sample_trajectory ?t ?t = Inr m"
    "mk_manifest sample_codec m = Inr m"
    unfolding m_def
    by (rule manifest_builds [OF sample_coverage_ok sample_audit_ok sample_trajectory_ok _ _ sha _ _ _ _ sample_hash w];
        simp add: sample_trajectory_fields sorted_set_def is_lower_alpha_def)+
  have state: "tm_state m = ''complete''"
    by (simp add: m_def manifest_of_def Let_def telemetry_verdict_def sample_trajectory_fields sorted_set_def)
  have "sized_json False (manifest_doc sample_codec m)" "json_weight (manifest_doc sample_codec m) < max_companion_bytes"
  proof -
    have i: "cf_id sample_coverage = cf_id sample_coverage" "sha256_text (cf_id sample_coverage)" "sha256_text (audit_digest sample_codec sample_audit)"
      by (simp_all add: sample_coverage_id profile_identity_def audit_digest_def domain_digest_def)
    have t: "dt_json sample_codec ?t = ''0''" by (simp add: sample_codec_def int_repr_def)
    show "sized_json False (manifest_doc sample_codec m)" "json_weight (manifest_doc sample_codec m) < max_companion_bytes"
      using sample_coverage_sized sample_audit_sized sample_trajectory_sized i hex
      by (simp_all add: manifest_doc_def m_def manifest_of_def Let_def t strings_def str_ok_def telemetry_verdict_def
          sample_trajectory_fields sorted_set_def max_companion_bytes_def)
  qed
  then obtain raw where "encode_document sample_codec (manifest_doc sample_codec m) = Inr raw" using encode_sized by blast
  then have "\<exists>d. companion_digest sample_codec (ManifestRecord m) = Inr d \<and> sha256_text d"
    by (simp add: companion_digest_def b(2) companion_digest_of_def)
  with b(1) state show ?thesis using that by blast
qed

section \<open>Its assessment\<close>

definition tel_host :: "string \<Rightarrow> host_inputs" where
  "tel_host d = \<lparr>hi_checkpoint = checkpoint_of sample_codec tel_store [tel_root, tel_event], hi_profile = sample_coverage,
     hi_operation = zero_sha256, hi_policy = zero_sha256, hi_manifest_sha = d, hi_phase = ''sealed''\<rparr>"

lemma tel_host_ok: "sha256_text d \<Longrightarrow> host_inputs_ok sample_codec (tel_host d)"
  by (simp add: host_inputs_ok_def tel_host_def max_composed_events_def)

lemma tel_recorded:
  assumes "build_telemetry_manifest sample_codec sample_coverage [''log''] 0 0 sample_audit sample_trajectory s e = Inr m"
  shows "recorded sample_codec (\<lambda>_. Some sample_ref) (tel_host d) [(sample_ref, ''log'')] (st_context tel_store) [tel_root, tel_event] m"
proof -
  have t: "build_trajectory_accounting sample_codec 1 [sample_ref] (ta_censoring sample_trajectory) = Inr sample_trajectory"
  proof -
    have "canonical_observations [sample_ref] = Inr [sample_ref]"
      by (rule canonical_observations_id) (simp_all add: observation_ok_def)
    moreover have "expected_trajectory_facts [sample_ref] 1 ''complete'' = Inr (trajectory_facts.truncate sample_trajectory)"
      by (simp add: expected_trajectory_facts_def raise_first_def sample_observation_facts sample_trajectory_def accounting_of_fields)
    moreover have "distinct (tf_violations sample_trajectory)"
      by (simp add: sample_trajectory_def accounting_of_facts facts_of_def sample_observation_def)
    ultimately show ?thesis
      by (subst build_accounting_iff [OF sample_hash])
        (simp add: sample_trajectory_fields max_trajectory_events_def censoring_states_def, simp add: sample_trajectory_def)
  qed
  have "\<exists>kvs. sort_keys (observation_doc (dt_json sample_codec) sample_ref) = JObj kvs" by (simp add: observation_doc_def)
  then have "reads_back sample_codec (\<lambda>_. Some sample_ref) sample_ref" by (auto simp: reads_back_def)
  moreover have "is_ascii (dt_json sample_codec (ob_at sample_ref))" "ob_operation sample_ref = zero_sha256"
    by (simp_all add: sample_codec_def sample_observation_def int_repr_def)
  moreover have "st_context tel_store = ''ctx''" by (simp add: tel_store_def)
  ultimately show ?thesis
    unfolding recorded_def using assms t tel_built
    by (auto simp: tel_host_def intro!: exI [of _ sample_trajectory] exI [of _ "0::int"] exI [of _ sample_audit])
qed

text \<open>A sealed, complete telemetry: what the host assesses, and the verdict.\<close>

lemma tel_admitted:
  obtains m d dk es where "recoverable sample_codec tel_store [tel_root, tel_event] dk" "sha256_text d"
    "recorded sample_codec (\<lambda>_. Some sample_ref) (tel_host d) [(sample_ref, ''log'')] (st_context tel_store) [tel_root, tel_event] m"
    "companion_digest sample_codec (ManifestRecord m) = Inr d"
    "assess_retained_telemetry sample_codec (\<lambda>_. Some sample_ref) tel_store (tel_host d) m dk = (es, Inr (admission_of (tel_host d) m 1))"
    "ad_completion (admission_of (tel_host d) m 1) = ''complete''"
proof -
  obtain m d where m: "build_telemetry_manifest sample_codec sample_coverage [''log''] 0 0 sample_audit sample_trajectory
      \<lparr>dt_instant = 0, dt_offset = Some 0\<rparr> \<lparr>dt_instant = 0, dt_offset = Some 0\<rparr> = Inr m"
    and c: "tm_state m = ''complete''" "companion_digest sample_codec (ManifestRecord m) = Inr d" "sha256_text d"
    by (rule sample_manifest)
  obtain dk where "settled sample_codec tel_store [tel_root, tel_event] dk" using tel_settled by blast
  then have rec: "recoverable sample_codec tel_store [tel_root, tel_event] dk" by (rule recoverable_settled)
  have cp: "hi_checkpoint (tel_host d) = checkpoint_of sample_codec tel_store [tel_root, tel_event]"
    "companion_digest sample_codec (ManifestRecord m) = Inr (hi_manifest_sha (tel_host d))" using c by (simp_all add: tel_host_def)
  note r = tel_recorded [OF m, of d]
  obtain es where "assess_retained_telemetry sample_codec (\<lambda>_. Some sample_ref) tel_store (tel_host d) m dk
      = (es, Inr (admission_of (tel_host d) m (length [(sample_ref, ''log'')])))"
    using recorded_log_admitted [OF sample_hash tel_host_ok [OF c(3)] rec cp(1) r cp(2)] by blast
  moreover have "ad_completion (admission_of (tel_host d) m 1) = ''complete''"
    using c(1) by (simp add: admission_of_def tel_host_def)
  ultimately show ?thesis using rec c(2,3) r that by simp
qed

theorem complete_telemetry_sound_witness:
  "\<exists>(sn :: snapshot) rt (events :: (observation \<times> string) list) d m. hi_phase (tel_host d) = ''sealed'' \<and> companion_digest sample_codec (ManifestRecord m) = Inr d
    \<and> length (sn_records sn) = Suc (length events) \<and> sn_records sn ! 0 = rt
    \<and> build_coverage_root_record sample_codec (cp_context (sn_checkpoint sn)) sample_coverage zero_sha256 zero_sha256 = Inr rt
    \<and> int (length events) = cf_expected sample_coverage \<and> distinct (map (ob_event \<circ> fst) events)"
proof -
  obtain m d dk es where a: "companion_digest sample_codec (ManifestRecord m) = Inr d"
    "assess_retained_telemetry sample_codec (\<lambda>_. Some sample_ref) tel_store (tel_host d) m dk = (es, Inr (admission_of (tel_host d) m 1))"
    "ad_completion (admission_of (tel_host d) m 1) = ''complete''"
    by (rule tel_admitted)
  have h: "hi_profile (tel_host d) = sample_coverage" "hi_operation (tel_host d) = zero_sha256" "hi_policy (tel_host d) = zero_sha256"
    by (simp_all add: tel_host_def)
  from complete_telemetry_sound [OF sample_hash a(2,3)] show ?thesis
    unfolding h by (elim exE conjE) (rule exI conjI a(1) | assumption)+
qed

theorem recorded_telemetry_admitted_witness:
  "\<exists>m d dk es. companion_digest sample_codec (ManifestRecord m) = Inr d
    \<and> assess_retained_telemetry sample_codec (\<lambda>_. Some sample_ref) tel_store (tel_host d) m dk
       = (es, Inr (admission_of (tel_host d) m (length [(sample_ref, ''log'')])))
    \<and> settled sample_codec tel_store [tel_root, tel_event] (apply_effects dk es)"
proof -
  obtain m d dk and es :: "effect list" where a: "recoverable sample_codec tel_store [tel_root, tel_event] dk" "sha256_text d"
    "recorded sample_codec (\<lambda>_. Some sample_ref) (tel_host d) [(sample_ref, ''log'')] (st_context tel_store) [tel_root, tel_event] m"
    "companion_digest sample_codec (ManifestRecord m) = Inr d"
    by (rule tel_admitted)
  have "hi_checkpoint (tel_host d) = checkpoint_of sample_codec tel_store [tel_root, tel_event]"
    "companion_digest sample_codec (ManifestRecord m) = Inr (hi_manifest_sha (tel_host d))"
    using a(4) by (simp_all add: tel_host_def)
  from recorded_telemetry_admitted [OF sample_hash tel_host_ok [OF a(2)] a(1) this(1) a(3) this(2)] a(4)
  show ?thesis by blast
qed

end
