(* ===== verification/Mcp_Receipt.thy ===== *)
theory Mcp_Receipt
  imports Companion
begin

text \<open>
  \<open>summarize_mcp_payload_v1\<close> of \<open>companion_contracts.py\<close>: strict JSON bytes are decoded and walked breadth first
  within a node and a depth bound; only counts and classes of dropped fields are kept. The recursion limit
  of the JSON parser is the parameter \<open>deep\<close>.
\<close>

section \<open>Keys\<close>

text \<open>
  The patterns of \<open>_MCP_FIELD_CLASSES\<close> as lists of literals (\<open>api[_-]?key\<close> stands for three). Under
  \<open>(?i)\<close> a code point matches a lowercase letter if it lowers to it; three letters have further forms
  (U+0130 and U+0131, U+017F, U+212A).
\<close>

definition mcp_field_classes :: "(string list \<times> string) list" where
  "mcp_field_classes =
     [([''credential'', ''secret'', ''password'', ''authorization'', ''apikey'', ''api_key'', ''api-key'', ''token''], ''credential''),
      ([''url'', ''uri'', ''endpoint'', ''host'', ''locator''], ''locator''),
      ([''argument'', ''arguments'', ''params'', ''parameters''], ''raw_argument''),
      ([''error'', ''exception'', ''traceback'', ''stack''], ''raw_error''),
      ([''output'', ''result'', ''text'', ''data'', ''blob'', ''content''], ''raw_output''),
      ([''resource'', ''embedded''], ''embedded_resource'')]"

definition fold_cp :: "nat \<Rightarrow> nat" where
  "fold_cp n = (if 65 \<le> n \<and> n \<le> 90 then n + 32 else if n = 0x130 \<or> n = 0x131 then 105
     else if n = 0x17F then 115 else if n = 0x212A then 107 else n)"

fun prefix_of :: "nat list \<Rightarrow> nat list \<Rightarrow> bool" where
  "prefix_of [] ys = True"
| "prefix_of (x # xs) [] = False"
| "prefix_of (x # xs) (y # ys) = (x = y \<and> prefix_of xs ys)"

fun occurs_in :: "nat list \<Rightarrow> nat list \<Rightarrow> bool" where
  "occurs_in xs [] = (xs = [])"
| "occurs_in xs (y # ys) = (prefix_of xs (y # ys) \<or> occurs_in xs ys)"

definition key_classes :: "string \<Rightarrow> string list" where
  "key_classes k = map snd (filter (\<lambda>(ws, c). list_ex (\<lambda>w. occurs_in (map ord w) (map fold_cp (code_points k))) ws) mcp_field_classes)"

definition max_mcp_key :: nat where "max_mcp_key = 128"
definition max_mcp_depth :: int where "max_mcp_depth = 32"
definition max_mcp_input :: nat where "max_mcp_input = 65536"

section \<open>The scan\<close>

record mcp_scan =
  sc_visited :: int
  sc_objects :: int
  sc_arrays :: int
  sc_scalars :: int
  sc_blocks :: int
  sc_embedded :: int
  sc_unknown :: int
  sc_truncated :: int
  sc_dropped :: "string list"

definition empty_scan :: mcp_scan where
  "empty_scan = \<lparr>sc_visited = 0, sc_objects = 0, sc_arrays = 0, sc_scalars = 0, sc_blocks = 0, sc_embedded = 0,
     sc_unknown = 0, sc_truncated = 0, sc_dropped = []\<rparr>"

type_synonym mcp_queue = "(json \<times> int) list"

definition record_truncation :: "int \<Rightarrow> mcp_scan \<Rightarrow> mcp_scan" where
  "record_truncation n s = s\<lparr>sc_truncated := min max_mcp_nodes (sc_truncated s + max 0 n)\<rparr>"

definition count_unknown :: "mcp_scan \<Rightarrow> mcp_scan" where
  "count_unknown s = s\<lparr>sc_unknown := sc_unknown s + 1\<rparr>"

definition known_blocks :: "string list" where
  "known_blocks = [''audio'', ''call_tool_result'', ''image'', ''resource'', ''resource_link'', ''text'', ''tool_result'']"

definition block_type :: "(string \<times> json) list \<Rightarrow> string option" where
  "block_type kvs = (case obj_get kvs ''type'' of Some (JStr t) \<Rightarrow> Some t | _ \<Rightarrow> None)"

definition scan_block :: "(string \<times> json) list \<Rightarrow> mcp_scan \<Rightarrow> mcp_scan" where
  "scan_block kvs s =
     (case block_type kvs of
        None \<Rightarrow> s
      | Some t \<Rightarrow>
          let s1 = s\<lparr>sc_blocks := sc_blocks s + 1\<rparr>;
              s2 = (if t \<in> set known_blocks then s1 else count_unknown s1)
          in if t \<in> {''resource'', ''resource_link''}
             then s2\<lparr>sc_embedded := sc_embedded s2 + 1, sc_dropped := List.insert ''embedded_resource'' (sc_dropped s2)\<rparr>
             else s2)"

definition drop_classes :: "string \<Rightarrow> mcp_scan \<Rightarrow> mcp_scan" where
  "drop_classes k s = s\<lparr>sc_dropped := List.union (key_classes k) (sc_dropped s)\<rparr>"

text \<open>The loop over \<open>enumerate(value.items())\<close>; \<open>n\<close> is \<open>len(value)\<close>.\<close>

fun scan_members :: "int \<Rightarrow> int \<Rightarrow> int \<Rightarrow> int \<Rightarrow> (string \<times> json) list \<Rightarrow> mcp_scan \<Rightarrow> mcp_queue \<Rightarrow> mcp_scan \<times> mcp_queue" where
  "scan_members available depth n index [] s q = (s, q)"
| "scan_members available depth n index ((k, v) # kvs) s q =
     (if available \<le> index then (record_truncation (n - index) s, q)
      else if k \<noteq> [] \<and> max_mcp_key < py_len k
      then scan_members available depth n (index + 1) kvs (record_truncation 1 (count_unknown s)) q
      else scan_members available depth n (index + 1) kvs (drop_classes k (if k = [] then count_unknown s else s)) (q @ [(v, depth + 1)]))"

definition available_nodes :: "int \<Rightarrow> mcp_scan \<Rightarrow> mcp_queue \<Rightarrow> int" where
  "available_nodes max_nodes s q = max 0 (max_nodes - sc_visited s - int (length q))"

text \<open>A visited value: its counts and the children it adds to the queue.\<close>

definition scan_node :: "int \<Rightarrow> json \<Rightarrow> int \<Rightarrow> mcp_scan \<Rightarrow> mcp_queue \<Rightarrow> mcp_scan \<times> mcp_queue" where
  "scan_node max_nodes v depth s q =
     (case v of
        JObj kvs \<Rightarrow>
          let s' = scan_block kvs (s\<lparr>sc_objects := sc_objects s + 1\<rparr>)
          in scan_members (available_nodes max_nodes s' q) depth (int (length kvs)) 0 kvs s' q
      | JArr vs \<Rightarrow>
          let s' = s\<lparr>sc_arrays := sc_arrays s + 1\<rparr>;
              accepted = min (int (length vs)) (available_nodes max_nodes s' q)
          in (record_truncation (int (length vs) - accepted) s', q @ map (\<lambda>c. (c, depth + 1)) (take (nat accepted) vs))
      | _ \<Rightarrow> (s\<lparr>sc_scalars := sc_scalars s + 1, sc_dropped := List.insert ''raw_scalar'' (sc_dropped s)\<rparr>, q))"

definition visit :: "mcp_scan \<Rightarrow> mcp_scan" where
  "visit s = s\<lparr>sc_visited := sc_visited s + 1\<rparr>"

section \<open>Termination\<close>

fun json_nodes :: "json \<Rightarrow> nat" where
  "json_nodes (JArr vs) = Suc (sum_list (map json_nodes vs))"
| "json_nodes (JObj kvs) = Suc (sum_list (map (\<lambda>(k, v). json_nodes v) kvs))"
| "json_nodes _ = 1"

definition queue_nodes :: "mcp_queue \<Rightarrow> nat" where
  "queue_nodes q = sum_list (map (\<lambda>(v, d). json_nodes v) q)"

lemma queue_nodes_simps [simp]:
  "queue_nodes [] = 0" "queue_nodes ((v, d) # q) = json_nodes v + queue_nodes q" "queue_nodes (q @ q') = queue_nodes q + queue_nodes q'"
  by (simp_all add: queue_nodes_def)

lemma json_nodes_pos: "0 < json_nodes v"
  by (cases v) auto

lemma scan_members_nodes:
  "scan_members a depth n i kvs s q = (s', q') \<Longrightarrow> queue_nodes q' \<le> queue_nodes q + sum_list (map (\<lambda>(k, v). json_nodes v) kvs)"
proof (induction a depth n i kvs s q rule: scan_members.induct)
  case (2 a depth n i k v kvs s q)
  then show ?case by (fastforce split: if_splits)
qed simp

lemma scan_node_nodes:
  assumes "scan_node max_nodes v depth s q = (s', q')"
  shows "queue_nodes q' < json_nodes v + queue_nodes q"
proof (cases v)
  case (JArr vs)
  have "queue_nodes (map (\<lambda>c. (c, depth + 1)) (take k vs)) \<le> sum_list (map json_nodes vs)" for k
  proof -
    have "sum_list (map json_nodes (take k vs)) + sum_list (map json_nodes (drop k vs)) = sum_list (map json_nodes vs)"
      by (simp only: append_take_drop_id flip: sum_list_append map_append)
    then show ?thesis by (simp add: queue_nodes_def comp_def)
  qed
  with assms JArr show ?thesis by (auto simp: scan_node_def Let_def less_Suc_eq_le add.commute)
next
  case (JObj kvs)
  with assms show ?thesis by (auto simp: scan_node_def Let_def dest!: scan_members_nodes)
qed (use assms in \<open>auto simp: scan_node_def\<close>)

section \<open>The walk\<close>

function mcp_walk :: "int \<Rightarrow> int \<Rightarrow> mcp_queue \<Rightarrow> mcp_scan \<Rightarrow> mcp_scan" where
  "mcp_walk max_nodes max_depth [] s = s"
| "mcp_walk max_nodes max_depth ((v, depth) # q) s =
     (if max_nodes \<le> sc_visited s \<or> max_depth < depth then mcp_walk max_nodes max_depth q (record_truncation 1 s)
      else case scan_node max_nodes v depth (visit s) q of (s', q') \<Rightarrow> mcp_walk max_nodes max_depth q' s')"
  by pat_completeness auto
termination
  by (relation "measure (\<lambda>(max_nodes, max_depth, q, s). queue_nodes q)") (auto simp: json_nodes_pos dest: scan_node_nodes [OF sym])

definition mcp_scan_of :: "int \<Rightarrow> int \<Rightarrow> json \<Rightarrow> mcp_scan" where
  "mcp_scan_of max_nodes max_depth v = mcp_walk max_nodes max_depth [(v, 0)] empty_scan"

section \<open>The summary\<close>

definition top_level_type :: "json \<Rightarrow> string" where
  "top_level_type v = (case v of JObj _ \<Rightarrow> ''object'' | JArr _ \<Rightarrow> ''array'' | _ \<Rightarrow> ''scalar'')"

definition mcp_state :: "json \<Rightarrow> mcp_scan \<Rightarrow> string" where
  "mcp_state v s = (if top_level_type v = ''scalar'' then ''rejected''
     else if sc_unknown s \<noteq> 0 \<or> sc_truncated s \<noteq> 0 then ''incomplete'' else ''complete'')"

definition receipt_of :: "json \<Rightarrow> mcp_scan \<Rightarrow> mcp_receipt" where
  "receipt_of v s = \<lparr>rc_top = top_level_type v, rc_visited = sc_visited s, rc_objects = sc_objects s, rc_arrays = sc_arrays s,
     rc_scalars = sc_scalars s, rc_blocks = sc_blocks s, rc_embedded = sc_embedded s, rc_unknown = sc_unknown s,
     rc_truncated = sc_truncated s, rc_dropped = sort (sc_dropped s), rc_state = mcp_state v s\<rparr>"

text \<open>The \<open>ValueError\<close> of an integer literal of more than 4300 digits is not translated.\<close>

datatype summary_error = McpError companion_error | McpIntegerDigits

definition mcp_hooks :: "codec \<Rightarrow> summary_error hooks" where
  "mcp_hooks C =
     \<lparr>h_pairs = (\<lambda>kvs. if distinct (map fst kvs) then Inr (JObj kvs) else Inl (McpError (ContractError ''duplicate JSON field''))),
      h_const = (\<lambda>t. Inl (McpError (ContractError ''non-finite JSON value''))),
      h_int = (\<lambda>t. if int_digit_limit < digit_count t then Inl McpIntegerDigits else Inr (JInt (int_of_text t))),
      h_float = (\<lambda>t. Inr (JFloat (float_of_text C t))),
      h_syntax = McpError (ContractError ''MCP payload is not strict UTF-8 JSON'')\<rparr>"

definition decode_mcp :: "codec \<Rightarrow> (string \<Rightarrow> bool) \<Rightarrow> string \<Rightarrow> summary_error + json" where
  "decode_mcp C deep payload =
     (if \<not> utf8_valid payload \<or> deep payload then Inl (McpError (ContractError ''MCP payload is not strict UTF-8 JSON''))
      else loads (mcp_hooks C) payload)"

definition summarize_mcp_payload :: "codec \<Rightarrow> (string \<Rightarrow> bool) \<Rightarrow> string \<Rightarrow> int \<Rightarrow> int \<Rightarrow> summary_error + mcp_receipt" where
  "summarize_mcp_payload C deep payload max_nodes max_depth =
     res_bind (map_err McpError (raise_first
       [(\<not> (1 \<le> max_nodes \<and> max_nodes \<le> max_mcp_nodes), ContractError ''max_nodes is outside the bounded range''),
        (\<not> (1 \<le> max_depth \<and> max_depth \<le> max_mcp_depth), ContractError ''max_depth is outside the bounded range''),
        (\<not> (1 \<le> length payload \<and> length payload \<le> max_mcp_input), ContractError ''MCP payload is outside the byte bound'')] ())) (\<lambda>_.
     res_bind (decode_mcp C deep payload) (\<lambda>v.
     map_err McpError (mk_receipt (receipt_of v (mcp_scan_of max_nodes max_depth v)))))"

end
