(* ===== verification/Mcp_Properties.thy ===== *)
theory Mcp_Properties
  imports Mcp_Receipt
begin

text \<open>
  What the walk of an MCP payload keeps, when its receipt validates, and what a complete receipt accounts for.
\<close>

section \<open>The invariant of the counts\<close>

definition scan_ok :: "int \<Rightarrow> mcp_scan \<Rightarrow> bool" where
  "scan_ok max_nodes s \<longleftrightarrow> sc_visited s = sc_objects s + sc_arrays s + sc_scalars s \<and> sc_visited s \<le> max_nodes
     \<and> 0 \<le> sc_objects s \<and> 0 \<le> sc_arrays s \<and> 0 \<le> sc_scalars s \<and> 0 \<le> sc_embedded s \<and> sc_embedded s \<le> sc_blocks s
     \<and> sc_blocks s \<le> sc_objects s \<and> 0 \<le> sc_unknown s \<and> 0 \<le> sc_truncated s \<and> sc_truncated s \<le> max_mcp_nodes
     \<and> (''raw_scalar'' \<in> set (sc_dropped s) \<longleftrightarrow> 0 < sc_scalars s)
     \<and> (0 < sc_embedded s \<longrightarrow> ''embedded_resource'' \<in> set (sc_dropped s))
     \<and> set (sc_dropped s) \<subseteq> set dropped_classes \<and> distinct (sc_dropped s)"

lemma key_classes_known: "set (key_classes k) \<subseteq> set dropped_classes - {''raw_scalar''}"
proof -
  have "set (key_classes k) \<subseteq> snd ` set mcp_field_classes" by (auto simp: key_classes_def)
  also have "\<dots> \<subseteq> set dropped_classes - {''raw_scalar''}" by (simp add: mcp_field_classes_def dropped_classes_def)
  finally show ?thesis .
qed

text \<open>The loop over the members changes three fields only, and these only grow.\<close>

definition grows :: "mcp_scan \<Rightarrow> mcp_scan \<Rightarrow> bool" where
  "grows s s' \<longleftrightarrow> sc_visited s' = sc_visited s \<and> sc_objects s' = sc_objects s \<and> sc_arrays s' = sc_arrays s
     \<and> sc_scalars s' = sc_scalars s \<and> sc_blocks s' = sc_blocks s \<and> sc_embedded s' = sc_embedded s \<and> sc_unknown s \<le> sc_unknown s'
     \<and> (sc_truncated s \<le> max_mcp_nodes \<longrightarrow> sc_truncated s \<le> sc_truncated s' \<and> sc_truncated s' \<le> max_mcp_nodes)
     \<and> set (sc_dropped s) \<subseteq> set (sc_dropped s') \<and> set (sc_dropped s') - set (sc_dropped s) \<subseteq> set dropped_classes - {''raw_scalar''}
     \<and> (distinct (sc_dropped s) \<longrightarrow> distinct (sc_dropped s'))"

lemma grows_refl [simp]: "grows s s"
  by (simp add: grows_def)

lemma grows_trans: "grows s t \<Longrightarrow> grows t u \<Longrightarrow> grows s u"
  unfolding grows_def by (elim conjE, intro conjI) (auto simp del: set_simps)

lemma grows_steps: "grows s (record_truncation n s)" "grows s (count_unknown s)" "grows s (drop_classes k s)"
  using key_classes_known [of k]
  by (auto simp: grows_def record_truncation_def count_unknown_def drop_classes_def)

lemma scan_members_grows: "scan_members a depth n i kvs s q = (s', q') \<Longrightarrow> grows s s'"
proof (induction a depth n i kvs s q rule: scan_members.induct)
  case (2 a depth n i k v kvs s q)
  have long: "grows s (record_truncation 1 (count_unknown s))" by (rule grows_trans [OF grows_steps(2) grows_steps(1)])
  have short: "grows s (drop_classes k (if k = [] then count_unknown s else s))"
    using grows_trans [OF grows_steps(2) grows_steps(3)] grows_steps(3) by simp
  consider (stop) "a \<le> i" | (long) "\<not> a \<le> i" "k \<noteq> [] \<and> max_mcp_key < py_len k" | (short) "\<not> a \<le> i" "\<not> (k \<noteq> [] \<and> max_mcp_key < py_len k)"
    by blast
  then show ?case
  proof cases
    case stop
    with 2(3) grows_steps(1) show ?thesis by auto
  next
    case long
    with 2(3) have "scan_members a depth n (i + 1) kvs (record_truncation 1 (count_unknown s)) q = (s', q')" by simp
    from grows_trans [OF \<open>grows s (record_truncation 1 (count_unknown s))\<close> 2(1) [OF long this]] show ?thesis .
  next
    case short
    with 2(3) have "scan_members a depth n (i + 1) kvs (drop_classes k (if k = [] then count_unknown s else s)) (q @ [(v, depth + 1)]) = (s', q')"
      by simp
    from grows_trans [OF \<open>grows s (drop_classes k (if k = [] then count_unknown s else s))\<close> 2(2) [OF short this]] show ?thesis .
  qed
qed simp

lemma scan_ok_grows: "scan_ok max_nodes s \<Longrightarrow> grows s s' \<Longrightarrow> scan_ok max_nodes s'"
  by (auto simp: scan_ok_def grows_def)

lemma scan_block_ok:
  assumes "scan_ok max_nodes s" "sc_visited s < max_nodes"
  shows "scan_ok max_nodes (scan_block kvs ((visit s)\<lparr>sc_objects := sc_objects s + 1\<rparr>))"
  using assms
  by (auto simp: scan_block_def scan_ok_def visit_def count_unknown_def dropped_classes_def known_blocks_def Let_def split: option.split)

lemma scan_block_counts [simp]:
  "sc_visited (scan_block kvs s) = sc_visited s" "sc_objects (scan_block kvs s) = sc_objects s" "sc_arrays (scan_block kvs s) = sc_arrays s"
  "sc_scalars (scan_block kvs s) = sc_scalars s" "sc_truncated (scan_block kvs s) = sc_truncated s"
  by (auto simp: scan_block_def count_unknown_def Let_def split: option.split)

lemma scan_scalar_ok:
  assumes "scan_ok max_nodes s" "sc_visited s < max_nodes"
  shows "scan_ok max_nodes ((visit s)\<lparr>sc_scalars := sc_scalars s + 1, sc_dropped := List.insert ''raw_scalar'' (sc_dropped s)\<rparr>)"
  using assms unfolding scan_ok_def visit_def by (elim conjE, intro conjI) (simp_all add: dropped_classes_def)

lemma scan_node_ok:
  assumes "scan_node max_nodes v depth (visit s) q = (s', q')" "scan_ok max_nodes s" "sc_visited s < max_nodes"
  shows "scan_ok max_nodes s'"
proof (cases v)
  case (JObj kvs)
  have "grows (scan_block kvs ((visit s)\<lparr>sc_objects := sc_objects (visit s) + 1\<rparr>)) s'"
    using assms(1) JObj by (auto simp: scan_node_def Let_def dest!: scan_members_grows)
  moreover have "sc_objects (visit s) = sc_objects s" by (simp add: visit_def)
  ultimately show ?thesis using scan_ok_grows [OF scan_block_ok [OF assms(2,3)]] by simp
next
  case (JArr vs)
  have "grows ((visit s)\<lparr>sc_arrays := sc_arrays s + 1\<rparr>) s'"
    using assms(1) JArr by (auto simp: scan_node_def Let_def visit_def intro: grows_steps)
  moreover have "scan_ok max_nodes ((visit s)\<lparr>sc_arrays := sc_arrays s + 1\<rparr>)"
    using assms(2,3) by (auto simp: scan_ok_def visit_def)
  ultimately show ?thesis by (rule scan_ok_grows [rotated])
qed (use assms(1) scan_scalar_ok [OF assms(2,3)] in \<open>auto simp: scan_node_def visit_def\<close>)

lemma mcp_walk_ok: "scan_ok max_nodes s \<Longrightarrow> scan_ok max_nodes (mcp_walk max_nodes max_depth q s)"
proof (induction max_nodes max_depth q s rule: mcp_walk.induct)
  case (2 max_nodes max_depth v depth q s)
  show ?case
  proof (cases "max_nodes \<le> sc_visited s \<or> max_depth < depth")
    case True
    with 2 scan_ok_grows [OF 2(3) grows_steps(1)] show ?thesis by simp
  next
    case False
    obtain s' q' where n: "scan_node max_nodes v depth (visit s) q = (s', q')" by fastforce
    from False have "sc_visited s < max_nodes" by simp
    with 2(2) [OF False n [symmetric]] scan_node_ok [OF n 2(3)] False n show ?thesis by simp
  qed
qed simp

section \<open>When a receipt validates\<close>

definition top_count :: "json \<Rightarrow> mcp_scan \<Rightarrow> int" where
  "top_count v s = (case v of JObj _ \<Rightarrow> sc_objects s | JArr _ \<Rightarrow> sc_arrays s | _ \<Rightarrow> sc_scalars s)"

lemma scan_node_top: "scan_node max_nodes v depth s q = (s', q') \<Longrightarrow> top_count w s \<le> top_count w s' \<and> top_count v s < top_count v s'"
proof -
  assume n: "scan_node max_nodes v depth s q = (s', q')"
  have g: "grows t t' \<Longrightarrow> top_count w t' = top_count w t" for w t t' by (simp add: grows_def top_count_def split: json.split)
  have b: "top_count w (scan_block kvs t) = top_count w t" for w kvs t by (simp add: top_count_def split: json.split)
  show ?thesis
  proof (cases v)
    case (JObj kvs)
    then have "grows (scan_block kvs (s\<lparr>sc_objects := sc_objects s + 1\<rparr>)) s'"
      using n by (auto simp: scan_node_def Let_def dest!: scan_members_grows)
    from g [OF this, of w] g [OF this, of v] show ?thesis unfolding b using JObj by (simp add: top_count_def split: json.split)
  next
    case (JArr vs)
    then have "grows (s\<lparr>sc_arrays := sc_arrays s + 1\<rparr>) s'"
      using n by (auto simp: scan_node_def Let_def intro: grows_steps)
    from g [OF this, of w] g [OF this, of v] show ?thesis using JArr by (simp add: top_count_def split: json.split)
  qed (use n in \<open>auto simp: scan_node_def top_count_def split: json.split\<close>)
qed

lemma mcp_walk_top: "top_count w s \<le> top_count w (mcp_walk max_nodes max_depth q s)"
proof (induction max_nodes max_depth q s rule: mcp_walk.induct)
  case (2 max_nodes max_depth v depth q s)
  show ?case
  proof (cases "max_nodes \<le> sc_visited s \<or> max_depth < depth")
    case True
    have "top_count w (record_truncation 1 s) = top_count w s" by (simp add: record_truncation_def top_count_def split: json.split)
    with True 2(1) show ?thesis by simp
  next
    case False
    obtain s' q' where n: "scan_node max_nodes v depth (visit s) q = (s', q')" by fastforce
    have "top_count w (visit s) = top_count w s" by (simp add: visit_def top_count_def split: json.split)
    with scan_node_top [OF n, of w] 2(2) [OF False n [symmetric]] False n show ?thesis by simp
  qed
qed simp

lemma mcp_scan_of_ok:
  assumes "1 \<le> max_nodes" "0 \<le> max_depth"
  shows "scan_ok max_nodes (mcp_scan_of max_nodes max_depth v)" "0 < top_count v (mcp_scan_of max_nodes max_depth v)"
proof -
  show "scan_ok max_nodes (mcp_scan_of max_nodes max_depth v)"
    unfolding mcp_scan_of_def using assms(1) by (intro mcp_walk_ok) (simp add: scan_ok_def empty_scan_def max_mcp_nodes_def)
  obtain s' q' where n: "scan_node max_nodes v 0 (visit empty_scan) [] = (s', q')" by fastforce
  have "0 \<le> top_count v (visit empty_scan)" by (simp add: top_count_def visit_def empty_scan_def split: json.split)
  with scan_node_top [OF n] have "0 < top_count v s'" by force
  moreover have "mcp_scan_of max_nodes max_depth v = mcp_walk max_nodes max_depth q' s'"
    using assms n by (simp add: mcp_scan_of_def) (simp add: empty_scan_def)
  ultimately show "0 < top_count v (mcp_scan_of max_nodes max_depth v)"
    using mcp_walk_top [of v s' max_nodes max_depth q'] by simp
qed

lemma top_root_count: "root_count (receipt_of v s) = top_count v s"
  by (simp add: root_count_def receipt_of_def top_level_type_def top_count_def split: json.split)

lemma receipt_valid_iff:
  assumes "scan_ok max_nodes s" "0 < top_count v s" "max_nodes \<le> max_mcp_nodes"
  shows "mk_receipt (receipt_of v s) = Inr r \<longleftrightarrow> r = receipt_of v s \<and> sc_unknown s \<le> max_mcp_nodes"
proof -
  let ?r = "receipt_of v s"
  have top: "rc_top ?r \<in> {''object'', ''array'', ''scalar''}" "rc_state ?r \<in> {''complete'', ''incomplete'', ''rejected''}"
    by (simp_all add: receipt_of_def top_level_type_def mcp_state_def split: json.split)
  have f: "receipt_fields_ok ?r \<longleftrightarrow> sc_unknown s \<le> max_mcp_nodes"
    unfolding receipt_fields_ok_def using top assms(1,3)
    by (auto simp: receipt_of_def scan_ok_def list_all_iff)
  have rest: "distinct (rc_dropped ?r)" "sort (rc_dropped ?r) = rc_dropped ?r" "rc_visited ?r = rc_objects ?r + rc_arrays ?r + rc_scalars ?r"
    "\<not> rc_objects ?r < rc_blocks ?r" "\<not> rc_blocks ?r < rc_embedded ?r" "(''raw_scalar'' \<in> set (rc_dropped ?r)) = (0 < rc_scalars ?r)"
    "\<not> (0 < rc_embedded ?r \<and> ''embedded_resource'' \<notin> set (rc_dropped ?r))"
    using assms(1) by (auto simp: receipt_of_def scan_ok_def)
  have state: "\<not> (rc_state ?r = ''complete'' \<and> (rc_unknown ?r \<noteq> 0 \<or> rc_truncated ?r \<noteq> 0))"
    "\<not> (rc_top ?r = ''scalar'' \<and> rc_state ?r \<noteq> ''rejected'')" "root_count ?r \<noteq> 0"
    using assms(2) by (auto simp: top_root_count) (auto simp: receipt_of_def mcp_state_def split: if_splits)
  show ?thesis
    unfolding mk_receipt_def raise_first_Inr_iff first_error_Cons using f rest state by auto
qed

section \<open>What a complete receipt accounts for\<close>

fun json_height :: "json \<Rightarrow> nat" where
  "json_height (JArr vs) = foldr max (map (\<lambda>v. Suc (json_height v)) vs) 0"
| "json_height (JObj kvs) = foldr max (map (\<lambda>(k, v). Suc (json_height v)) kvs) 0"
| "json_height _ = 0"

fun child_values :: "json \<Rightarrow> json list" where
  "child_values (JArr vs) = vs"
| "child_values (JObj kvs) = map snd kvs"
| "child_values _ = []"

fun short_keys :: "json \<Rightarrow> bool" where
  "short_keys (JArr vs) = list_all short_keys vs"
| "short_keys (JObj kvs) = list_all (\<lambda>(k, v). py_len k \<le> max_mcp_key \<and> short_keys v) kvs"
| "short_keys _ = True"

text \<open>The unknown items of a value: content blocks of an unknown type and empty keys.\<close>

definition unknown_block :: "(string \<times> json) list \<Rightarrow> int" where
  "unknown_block kvs = (case block_type kvs of Some t \<Rightarrow> if t \<in> set known_blocks then 0 else 1 | None \<Rightarrow> 0)"

definition own_unknown :: "json \<Rightarrow> int" where
  "own_unknown v = (case v of JObj kvs \<Rightarrow> unknown_block kvs + int (length (filter (\<lambda>(k, v). k = []) kvs)) | _ \<Rightarrow> 0)"

fun plain_content :: "json \<Rightarrow> bool" where
  "plain_content (JArr vs) = list_all plain_content vs"
| "plain_content (JObj kvs) = (unknown_block kvs = 0 \<and> list_all (\<lambda>(k, v). k \<noteq> [] \<and> plain_content v) kvs)"
| "plain_content _ = True"

definition own_short :: "json \<Rightarrow> bool" where
  "own_short v = (case v of JObj kvs \<Rightarrow> list_all (\<lambda>(k, v). py_len k \<le> max_mcp_key) kvs | _ \<Rightarrow> True)"

lemma children_facts:
  "queue_nodes (map (\<lambda>c. (c, d)) (child_values v)) + 1 = json_nodes v"
  "short_keys v \<longleftrightarrow> own_short v \<and> list_all short_keys (child_values v)"
  "plain_content v \<longleftrightarrow> own_unknown v = 0 \<and> list_all plain_content (child_values v)"
  "json_height v \<le> n \<longleftrightarrow> list_all (\<lambda>c. Suc (json_height c) \<le> n) (child_values v)"
proof -
  have foldr: "foldr max xs (0 :: nat) \<le> n \<longleftrightarrow> list_all (\<lambda>x. x \<le> n) xs" for xs by (induction xs) auto
  show "json_height v \<le> n \<longleftrightarrow> list_all (\<lambda>c. Suc (json_height c) \<le> n) (child_values v)"
    by (cases v) (simp_all add: foldr list.pred_map comp_def split_def)
  show "queue_nodes (map (\<lambda>c. (c, d)) (child_values v)) + 1 = json_nodes v"
    by (cases v) (simp_all add: queue_nodes_def comp_def split_def)
  show "short_keys v \<longleftrightarrow> own_short v \<and> list_all short_keys (child_values v)"
    by (cases v) (auto simp: own_short_def list_all_iff)
  have "0 \<le> unknown_block kvs" for kvs by (simp add: unknown_block_def split: option.split)
  then have "unknown_block kvs + int (length (filter (\<lambda>(k, v). k = []) kvs)) = 0
      \<longleftrightarrow> unknown_block kvs = 0 \<and> list_all (\<lambda>(k, v). k \<noteq> []) kvs" for kvs :: "(string \<times> json) list"
    by (smt (verit) add_nonneg_eq_0_iff filter_empty_conv length_0_conv list_all_iff of_nat_0_le_iff of_nat_eq_0_iff split_def)
  then show "plain_content v \<longleftrightarrow> own_unknown v = 0 \<and> list_all plain_content (child_values v)"
    by (cases v) (auto simp: own_unknown_def list_all_iff)
qed

lemma scan_members_fits:
  "int (length kvs) + i \<le> a \<or> kvs = [] \<Longrightarrow> list_all (\<lambda>(k, v). py_len k \<le> max_mcp_key) kvs
    \<Longrightarrow> scan_members a d n i kvs s q = (s', q')
    \<Longrightarrow> sc_truncated s' = sc_truncated s \<and> q' = q @ map (\<lambda>c. (c, d + 1)) (map snd kvs)
      \<and> sc_unknown s' = sc_unknown s + int (length (filter (\<lambda>(k, v). k = []) kvs))"
proof (induction a d n i kvs s q rule: scan_members.induct)
  case (2 a d n i k v kvs s q)
  then show ?case by (auto simp: drop_classes_def count_unknown_def)
qed simp

lemma scan_members_cut:
  assumes "\<not> ((n \<le> a \<or> kvs = []) \<and> list_all (\<lambda>(k, v). py_len k \<le> max_mcp_key) kvs)" "n = i + int (length kvs)"
    and "scan_members a d n i kvs s q = (s', q')" "0 \<le> sc_truncated s" "sc_truncated s \<le> max_mcp_nodes"
  shows "0 < sc_truncated s'"
  using assms
proof (induction a d n i kvs s q rule: scan_members.induct)
  case (2 a d n i k v kvs s q)
  have pos: "0 < sc_truncated (record_truncation j t)" if "0 < j" "0 \<le> sc_truncated t" for j t
    using that by (simp add: record_truncation_def max_mcp_nodes_def)
  consider (stop) "a \<le> i" | (long) "\<not> a \<le> i" "k \<noteq> [] \<and> max_mcp_key < py_len k" | (short) "\<not> a \<le> i" "\<not> (k \<noteq> [] \<and> max_mcp_key < py_len k)"
    by blast
  then show ?case
  proof cases
    case stop
    with 2(4,5,6) pos [of "n - i" s] show ?thesis by auto
  next
    case long
    with 2(5) have r: "scan_members a d n (i + 1) kvs (record_truncation 1 (count_unknown s)) q = (s', q')" by simp
    have "0 < sc_truncated (record_truncation 1 (count_unknown s))" using pos [of 1] 2(6) by (simp add: count_unknown_def)
    moreover have "sc_truncated (record_truncation 1 (count_unknown s)) \<le> max_mcp_nodes" by (simp add: record_truncation_def)
    ultimately show ?thesis using scan_members_grows [OF r] by (simp add: grows_def)
  next
    case short
    have "py_len k \<le> max_mcp_key" using short(2) by (cases "k = []") (simp_all add: py_len_def code_points_def max_mcp_key_def)
    with short 2(3) 2(4) have "\<not> ((n \<le> a \<or> kvs = []) \<and> list_all (\<lambda>(k, v). py_len k \<le> max_mcp_key) kvs)" by auto
    with 2(2) [OF short] 2(4,5,6,7) short show ?thesis by (simp add: drop_classes_def count_unknown_def)
  qed
qed simp

definition node_fits :: "int \<Rightarrow> json \<Rightarrow> mcp_scan \<Rightarrow> mcp_queue \<Rightarrow> bool" where
  "node_fits max_nodes v s q \<longleftrightarrow> (child_values v = [] \<or> sc_visited s + int (length q) + int (length (child_values v)) \<le> max_nodes) \<and> own_short v"

lemma scan_block_unknown: "sc_unknown (scan_block kvs s) = sc_unknown s + unknown_block kvs"
  by (auto simp: scan_block_def unknown_block_def count_unknown_def Let_def split: option.split)

lemma scan_node_truncated:
  assumes "scan_node max_nodes v d s q = (s', q')" "sc_truncated s \<le> max_mcp_nodes"
  shows "sc_truncated s \<le> sc_truncated s' \<and> sc_truncated s' \<le> max_mcp_nodes"
proof (cases v)
  case (JObj kvs)
  then have "grows (scan_block kvs (s\<lparr>sc_objects := sc_objects s + 1\<rparr>)) s'"
    using assms(1) by (auto simp: scan_node_def Let_def dest!: scan_members_grows)
  with assms(2) show ?thesis by (simp add: grows_def)
qed (use assms in \<open>auto simp: scan_node_def Let_def record_truncation_def\<close>)

lemma scan_node_fits:
  assumes "scan_node max_nodes v d s q = (s', q')" "node_fits max_nodes v s q" "0 \<le> sc_truncated s" "sc_truncated s \<le> max_mcp_nodes"
  shows "sc_truncated s' = sc_truncated s \<and> q' = q @ map (\<lambda>c. (c, d + 1)) (child_values v)
    \<and> sc_unknown s' = sc_unknown s + own_unknown v \<and> sc_visited s' = sc_visited s"
proof (cases v)
  case (JObj kvs)
  let ?s = "scan_block kvs (s\<lparr>sc_objects := sc_objects s + 1\<rparr>)"
  have m: "scan_members (available_nodes max_nodes ?s q) d (int (length kvs)) 0 kvs ?s q = (s', q')"
    using assms(1) JObj by (simp add: scan_node_def Let_def)
  have "int (length kvs) + 0 \<le> available_nodes max_nodes ?s q \<or> kvs = []" "list_all (\<lambda>(k, v). py_len k \<le> max_mcp_key) kvs"
    using assms(2) JObj by (auto simp: node_fits_def own_short_def available_nodes_def)
  from scan_members_fits [OF this m] scan_members_grows [OF m] show ?thesis
    using JObj by (simp add: scan_block_unknown own_unknown_def grows_def)
next
  case (JArr vs)
  have "min (int (length vs)) (available_nodes max_nodes (s\<lparr>sc_arrays := sc_arrays s + 1\<rparr>) q) = int (length vs)"
    using assms(2) JArr by (auto simp: node_fits_def available_nodes_def)
  then show ?thesis using assms(1,3,4) JArr by (auto simp: scan_node_def Let_def record_truncation_def own_unknown_def)
qed (use assms in \<open>auto simp: scan_node_def own_unknown_def\<close>)

lemma scan_node_cut:
  assumes "scan_node max_nodes v d s q = (s', q')" "\<not> node_fits max_nodes v s q" "0 \<le> sc_truncated s" "sc_truncated s \<le> max_mcp_nodes"
  shows "0 < sc_truncated s'"
proof (cases v)
  case (JObj kvs)
  let ?s = "scan_block kvs (s\<lparr>sc_objects := sc_objects s + 1\<rparr>)"
  have m: "scan_members (available_nodes max_nodes ?s q) d (int (length kvs)) 0 kvs ?s q = (s', q')"
    using assms(1) JObj by (simp add: scan_node_def Let_def)
  have "\<not> ((int (length kvs) \<le> available_nodes max_nodes ?s q \<or> kvs = []) \<and> list_all (\<lambda>(k, v). py_len k \<le> max_mcp_key) kvs)"
    using assms(2) JObj by (cases kvs) (auto simp: node_fits_def own_short_def available_nodes_def)
  from scan_members_cut [OF this _ m] assms(3,4) show ?thesis by simp
next
  case (JArr vs)
  have "min (int (length vs)) (available_nodes max_nodes (s\<lparr>sc_arrays := sc_arrays s + 1\<rparr>) q) < int (length vs)"
    using assms(2) JArr by (auto simp: node_fits_def available_nodes_def own_short_def)
  then show ?thesis using assms(1,3) JArr by (auto simp: scan_node_def Let_def record_truncation_def max_mcp_nodes_def)
qed (use assms in \<open>auto simp: node_fits_def own_short_def\<close>)

definition walk_fits :: "int \<Rightarrow> int \<Rightarrow> mcp_queue \<Rightarrow> mcp_scan \<Rightarrow> bool" where
  "walk_fits max_nodes max_depth q s \<longleftrightarrow> sc_visited s + int (queue_nodes q) \<le> max_nodes
     \<and> (\<forall>(v, d) \<in> set q. d + int (json_height v) \<le> max_depth \<and> short_keys v)"

lemma queue_length: "length q \<le> queue_nodes q"
proof (induction q)
  case (Cons vd q)
  then show ?case using json_nodes_pos [of "fst vd"] by (cases vd) simp
qed simp

lemma walk_fits_step:
  assumes "s'' = s\<lparr>sc_visited := sc_visited s + 1\<rparr>" "sc_visited s' = sc_visited s''"
  shows "walk_fits max_nodes max_depth ((v, d) # q) s \<longleftrightarrow> d \<le> max_depth \<and> sc_visited s < max_nodes
    \<and> node_fits max_nodes v s'' q \<and> walk_fits max_nodes max_depth (q @ map (\<lambda>c. (c, d + 1)) (child_values v)) s'"
proof -
  have len: "length (child_values v) \<le> queue_nodes (map (\<lambda>c. (c, d + 1)) (child_values v))"
    using queue_length [of "map (\<lambda>c. (c, d + 1)) (child_values v)"] by simp
  have depth: "d + int (json_height v) \<le> max_depth
      \<longleftrightarrow> d \<le> max_depth \<and> (\<forall>c \<in> set (child_values v). d + 1 + int (json_height c) \<le> max_depth)"
  proof (cases "d \<le> max_depth")
    case True
    then have "d + int (json_height v) \<le> max_depth \<longleftrightarrow> json_height v \<le> nat (max_depth - d)" by linarith
    also have "\<dots> \<longleftrightarrow> (\<forall>c \<in> set (child_values v). d + 1 + int (json_height c) \<le> max_depth)"
      unfolding children_facts(4) list_all_iff using True by (intro ball_cong refl) linarith
    finally show ?thesis using True by simp
  qed auto
  show ?thesis
    using children_facts(1) [of "d + 1" v] children_facts(2) [of v] len queue_length [of q] assms depth
    by (auto simp: walk_fits_def node_fits_def list_all_iff)
qed

lemma walk_truncated:
  assumes "0 \<le> sc_truncated s" "sc_truncated s \<le> max_mcp_nodes"
  shows "sc_truncated s \<le> sc_truncated (mcp_walk max_nodes max_depth q s)"
  using assms
proof (induction max_nodes max_depth q s rule: mcp_walk.induct)
  case (2 max_nodes max_depth v depth q s)
  show ?case
  proof (cases "max_nodes \<le> sc_visited s \<or> max_depth < depth")
    case True
    with 2(1,3,4) show ?thesis by (fastforce simp: record_truncation_def max_mcp_nodes_def)
  next
    case False
    obtain s' q' where n: "scan_node max_nodes v depth (visit s) q = (s', q')" by fastforce
    have "sc_truncated s \<le> sc_truncated s' \<and> sc_truncated s' \<le> max_mcp_nodes"
      using scan_node_truncated [OF n] 2(3,4) by (simp add: visit_def)
    with 2(2) [OF False n [symmetric]] 2(3) False n show ?thesis by simp
  qed
qed simp

lemma own_unknown_nonneg: "0 \<le> own_unknown v"
  by (cases v) (simp_all add: own_unknown_def unknown_block_def split: option.split)

lemma walk_exact:
  assumes "walk_fits max_nodes max_depth q s" "0 \<le> sc_truncated s" "sc_truncated s \<le> max_mcp_nodes"
  defines "w \<equiv> mcp_walk max_nodes max_depth q s"
  shows "sc_truncated w = sc_truncated s \<and> sc_visited w = sc_visited s + int (queue_nodes q) \<and> sc_unknown s \<le> sc_unknown w
    \<and> (sc_unknown w = sc_unknown s \<longleftrightarrow> (\<forall>(v, d) \<in> set q. plain_content v))"
  using assms(1-3) unfolding w_def
proof (induction max_nodes max_depth q s rule: mcp_walk.induct)
  case (2 max_nodes max_depth v depth q s)
  obtain s' q' where n: "scan_node max_nodes v depth (visit s) q = (s', q')" by fastforce
  have pre: "depth \<le> max_depth" "sc_visited s < max_nodes" "node_fits max_nodes v (visit s) q"
    using 2(3) walk_fits_step [of "visit s" s "visit s"] by (simp_all add: visit_def)
  have t: "0 \<le> sc_truncated (visit s)" "sc_truncated (visit s) \<le> max_mcp_nodes" using 2(4,5) by (simp_all add: visit_def)
  note f = scan_node_fits [OF n pre(3) t]
  have fits: "walk_fits max_nodes max_depth q' s'"
    using 2(3) f walk_fits_step [of "visit s" s s'] by (simp add: visit_def)
  from pre have go: "\<not> (max_nodes \<le> sc_visited s \<or> max_depth < depth)" by simp
  note IH = 2(2) [OF go n [symmetric] fits]
  have nodes: "int (queue_nodes q') + 1 = int (queue_nodes ((v, depth) # q))"
    using f children_facts(1) [of "depth + 1" v] by simp
  have plain: "(\<forall>(v, d) \<in> set ((v, depth) # q). plain_content v) \<longleftrightarrow> own_unknown v = 0 \<and> (\<forall>(v, d) \<in> set q'. plain_content v)"
    using f children_facts(3) [of v] by (auto simp: list_all_iff)
  show ?case
    using IH f t nodes plain own_unknown_nonneg [of v] go n by (auto simp: visit_def)
qed simp

lemma walk_cut:
  assumes "\<not> walk_fits max_nodes max_depth q s" "scan_ok max_nodes s"
  shows "0 < sc_truncated (mcp_walk max_nodes max_depth q s)"
  using assms
proof (induction max_nodes max_depth q s rule: mcp_walk.induct)
  case (1 max_nodes max_depth s)
  then show ?case by (simp add: walk_fits_def scan_ok_def)
next
  case (2 max_nodes max_depth v depth q s)
  have t: "0 \<le> sc_truncated (visit s)" "sc_truncated (visit s) \<le> max_mcp_nodes" using 2(4) by (simp_all add: visit_def scan_ok_def)
  show ?case
  proof (cases "max_nodes \<le> sc_visited s \<or> max_depth < depth")
    case True
    have "0 < sc_truncated (record_truncation 1 s)" "sc_truncated (record_truncation 1 s) \<le> max_mcp_nodes"
      using t by (simp_all add: record_truncation_def visit_def max_mcp_nodes_def)
    with walk_truncated [of "record_truncation 1 s" max_nodes max_depth q] True show ?thesis by simp
  next
    case False
    obtain s' q' where n: "scan_node max_nodes v depth (visit s) q = (s', q')" by fastforce
    have walk: "mcp_walk max_nodes max_depth ((v, depth) # q) s = mcp_walk max_nodes max_depth q' s'" using False n by simp
    show ?thesis
    proof (cases "node_fits max_nodes v (visit s) q")
      case True
      note f = scan_node_fits [OF n True t]
      have "\<not> walk_fits max_nodes max_depth q' s'"
        using 2(3) f True False walk_fits_step [of "visit s" s s'] by (simp add: visit_def)
      moreover have "scan_ok max_nodes s'" using scan_node_ok [OF n 2(4)] False by simp
      ultimately show ?thesis using 2(2) [OF False n [symmetric]] walk by simp
    next
      case no: False
      note p = scan_node_cut [OF n no t] scan_node_truncated [OF n t(2)]
      with walk_truncated [of s' max_nodes max_depth q'] walk show ?thesis by simp
    qed
  qed
qed

lemma mcp_scan_complete:
  fixes v :: json
  assumes "1 \<le> max_nodes" "0 \<le> max_depth"
  defines "w \<equiv> mcp_scan_of max_nodes max_depth v"
  shows "sc_truncated w = 0 \<and> sc_unknown w = 0 \<longleftrightarrow>
      int (json_nodes v) \<le> max_nodes \<and> int (json_height v) \<le> max_depth \<and> short_keys v \<and> plain_content v"
    "sc_truncated w = 0 \<Longrightarrow> sc_visited w = int (json_nodes v)"
proof -
  have fits: "walk_fits max_nodes max_depth [(v, 0)] empty_scan
      \<longleftrightarrow> int (json_nodes v) \<le> max_nodes \<and> int (json_height v) \<le> max_depth \<and> short_keys v"
    by (auto simp: walk_fits_def empty_scan_def)
  have zero: "sc_truncated empty_scan = 0" "sc_unknown empty_scan = 0" "sc_visited empty_scan = 0" by (simp_all add: empty_scan_def)
  have ok: "scan_ok max_nodes empty_scan" using assms(1) by (simp add: scan_ok_def empty_scan_def max_mcp_nodes_def)
  note yes = walk_exact [of max_nodes max_depth "[(v, 0)]" empty_scan] and no = walk_cut [OF _ ok, of max_depth "[(v, 0)]"]
  show "sc_truncated w = 0 \<and> sc_unknown w = 0 \<longleftrightarrow>
      int (json_nodes v) \<le> max_nodes \<and> int (json_height v) \<le> max_depth \<and> short_keys v \<and> plain_content v"
    "sc_truncated w = 0 \<Longrightarrow> sc_visited w = int (json_nodes v)"
    using yes no fits zero
    by (cases "walk_fits max_nodes max_depth [(v, 0)] empty_scan"; auto simp: w_def mcp_scan_of_def max_mcp_nodes_def)+
qed

section \<open>Properties\<close>

lemma mcp_summary_exact:
  "summarize_mcp_payload C deep payload max_nodes max_depth = Inr r \<longleftrightarrow>
    1 \<le> max_nodes \<and> max_nodes \<le> max_mcp_nodes \<and> 1 \<le> max_depth \<and> max_depth \<le> max_mcp_depth
    \<and> 1 \<le> length payload \<and> length payload \<le> max_mcp_input
    \<and> (\<exists>v. decode_mcp C deep payload = Inr v \<and> r = receipt_of v (mcp_scan_of max_nodes max_depth v)
         \<and> sc_unknown (mcp_scan_of max_nodes max_depth v) \<le> max_mcp_nodes)"
proof -
  have "mk_receipt (receipt_of v (mcp_scan_of max_nodes max_depth v)) = Inr r
      \<longleftrightarrow> r = receipt_of v (mcp_scan_of max_nodes max_depth v) \<and> sc_unknown (mcp_scan_of max_nodes max_depth v) \<le> max_mcp_nodes"
    if "1 \<le> max_nodes" "max_nodes \<le> max_mcp_nodes" "1 \<le> max_depth" for v
    using that by (intro receipt_valid_iff [OF mcp_scan_of_ok]) simp_all
  then show ?thesis by (auto simp: summarize_mcp_payload_def raise_first_Inr_iff)
qed

text \<open>
  C25: exactly which payloads are summarised. A receipt is returned for limits in their range and for a
  payload of at most 65536 bytes that is strict JSON without repeated keys, if its walk meets at most 4096
  unknown items; it is the receipt of the walk, and the validator never objects to anything else.
\<close>

theorem mcp_summary_iff:
  "summarize_mcp_payload C deep payload max_nodes max_depth = Inr r \<longleftrightarrow>
    1 \<le> max_nodes \<and> max_nodes \<le> max_mcp_nodes \<and> 1 \<le> max_depth \<and> max_depth \<le> max_mcp_depth
    \<and> 1 \<le> length payload \<and> length payload \<le> max_mcp_input
    \<and> (\<exists>v. decode_mcp C deep payload = Inr v \<and> r = receipt_of v (mcp_scan_of max_nodes max_depth v)
         \<and> sc_unknown (mcp_scan_of max_nodes max_depth v) \<le> max_mcp_nodes)"
  by (rule mcp_summary_exact)

text \<open>
  C24: what a receipt of complete telemetry accounts for. A receipt is complete exactly when its payload is an object
  or an array whose nodes and depth lie within the limits, whose keys have between 1 and 128 characters and whose
  content blocks have known types; then every node of the payload has been counted.
\<close>

theorem complete_receipt_iff:
  assumes "summarize_mcp_payload C deep payload max_nodes max_depth = Inr r"
  shows "\<exists>v. decode_mcp C deep payload = Inr v \<and> rc_visited r \<le> max_nodes
    \<and> (rc_state r = ''complete'' \<longleftrightarrow> top_level_type v \<noteq> ''scalar'' \<and> int (json_nodes v) \<le> max_nodes
        \<and> int (json_height v) \<le> max_depth \<and> short_keys v \<and> plain_content v)
    \<and> (rc_state r = ''complete'' \<longrightarrow> rc_visited r = int (json_nodes v))"
proof -
  from assms obtain v where v: "decode_mcp C deep payload = Inr v" "r = receipt_of v (mcp_scan_of max_nodes max_depth v)"
    and lim: "1 \<le> max_nodes" "1 \<le> max_depth" unfolding mcp_summary_exact by blast
  then have ok: "scan_ok max_nodes (mcp_scan_of max_nodes max_depth v)" by (intro mcp_scan_of_ok) simp_all
  have state: "rc_state r = ''complete'' \<longleftrightarrow> top_level_type v \<noteq> ''scalar''
      \<and> sc_truncated (mcp_scan_of max_nodes max_depth v) = 0 \<and> sc_unknown (mcp_scan_of max_nodes max_depth v) = 0"
    by (auto simp: v(2) receipt_of_def mcp_state_def)
  with v ok mcp_scan_complete [of max_nodes max_depth v] lim show ?thesis
    by (intro exI [of _ v]) (auto simp: receipt_of_def scan_ok_def)
qed

section \<open>A witness\<close>

lemma sample_decoded: "decode_mcp C (\<lambda>_. False) ''[true]'' = Inr (JArr [JBool True])"
proof -
  have "loads (mcp_hooks C) (render (float_repr C) False (JArr [JBool True])) = Inr (JArr [JBool True])"
    by (rule loads_render) simp
  moreover have "utf8_valid ''[true]''" by (rule utf8_valid_ascii) simp
  ultimately show ?thesis by (simp add: decode_mcp_def)
qed

lemma sample_summary:
  "summarize_mcp_payload C (\<lambda>_. False) ''[true]'' 256 8 = Inr
     \<lparr>rc_top = ''array'', rc_visited = 2, rc_objects = 0, rc_arrays = 1, rc_scalars = 1, rc_blocks = 0, rc_embedded = 0,
      rc_unknown = 0, rc_truncated = 0, rc_dropped = [''raw_scalar''], rc_state = ''complete''\<rparr>"
  unfolding mcp_summary_exact sample_decoded
  by (simp add: max_mcp_nodes_def max_mcp_depth_def max_mcp_input_def mcp_scan_of_def scan_node_def visit_def Let_def
      available_nodes_def record_truncation_def empty_scan_def receipt_of_def top_level_type_def mcp_state_def)

theorem complete_receipt_iff_witness:
  "\<exists>v. decode_mcp sample_codec (\<lambda>_. False) ''[true]'' = Inr v \<and> json_nodes v = 2 \<and> int (json_height v) \<le> 8 \<and> plain_content v"
  using complete_receipt_iff [OF sample_summary, of sample_codec] by auto

end
