(* ===== verification/Portfolio.thy ===== *)
theory Portfolio
  imports Companion
begin

text \<open>
  The rest of \<open>portfolio_contract.py\<close>: observation events of both versions, the canonical bytes of a V1 event
  with their decoding and commitment, advisory assessments, the first adapter audit, and the shadow decision.
  Pydantic's reading of an event from its JSON members is the parameter \<open>coerce\<close>; events are those that a
  constructor has accepted.
\<close>

datatype portfolio_error = ObservationContract string | PortfolioInvalid string | PortfolioValue string

section \<open>Timestamps\<close>

text \<open>\<open>isoformat(timespec="microseconds")\<close> of a UTC datetime from 1970 on, with a final \<open>Z\<close>.\<close>

definition leap_year :: "nat \<Rightarrow> bool" where
  "leap_year y \<longleftrightarrow> y mod 4 = 0 \<and> (y mod 100 \<noteq> 0 \<or> y mod 400 = 0)"

definition year_days :: "nat \<Rightarrow> nat" where
  "year_days y = (if leap_year y then 366 else 365)"

definition month_days :: "nat \<Rightarrow> nat list" where
  "month_days y = [31, if leap_year y then 29 else 28, 31, 30, 31, 30, 31, 31, 30, 31, 30, 31]"

function split_years :: "nat \<Rightarrow> nat \<Rightarrow> nat \<times> nat" where
  "split_years y d = (if d < year_days y then (y, d) else split_years (Suc y) (d - year_days y))"
  by pat_completeness auto
termination
  by (relation "measure snd") (auto simp: year_days_def)

declare split_years.simps [simp del]

fun split_months :: "nat list \<Rightarrow> nat \<Rightarrow> nat \<Rightarrow> nat \<times> nat" where
  "split_months [] m d = (m, d)"
| "split_months (l # ls) m d = (if d < l then (m, d) else split_months ls (Suc m) (d - l))"

fun digits_fixed :: "nat \<Rightarrow> nat \<Rightarrow> string" where
  "digits_fixed 0 n = []"
| "digits_fixed (Suc k) n = digits_fixed k (n div 10) @ [digit_char (n mod 10)]"

definition utc_stamp :: "datetime \<Rightarrow> string" where
  "utc_stamp t =
     (let n = nat (dt_instant t); secs = n div 1000000; s = secs mod 86400;
          (y, r) = split_years 1970 (secs div 86400); (m, d) = split_months (month_days y) 1 r
      in digits_fixed 4 y @ ''-'' @ digits_fixed 2 m @ ''-'' @ digits_fixed 2 (d + 1) @ ''T''
         @ digits_fixed 2 (s div 3600) @ '':'' @ digits_fixed 2 (s div 60 mod 60) @ '':'' @ digits_fixed 2 (s mod 60)
         @ ''.'' @ digits_fixed 6 (n mod 1000000) @ ''Z'')"

text \<open>2100-01-01 in microseconds since the epoch.\<close>

definition max_supported_time :: int where
  "max_supported_time = 4102444800000000"

definition time_supported :: "datetime \<Rightarrow> bool" where
  "time_supported t \<longleftrightarrow> 0 \<le> dt_instant t \<and> dt_instant t \<le> max_supported_time"

section \<open>Events\<close>

record evidence_pointer =
  pt_kind :: string
  pt_digest :: string
  pt_locator :: string

definition pointer_ok :: "evidence_pointer \<Rightarrow> bool" where
  "pointer_ok p \<longleftrightarrow> pt_kind p \<in> {''artifact'', ''event'', ''policy'', ''trace'', ''report''} \<and> sha256_text (pt_digest p)
     \<and> sha256_text (pt_locator p)"

definition telemetry_states :: "string list" where
  "telemetry_states = [''complete'', ''incomplete'', ''malformed'', ''unattested'', ''conflicting'']"

definition source_surfaces :: "string list" where
  "source_surfaces = [''user'', ''agent'', ''model'', ''tool'', ''mcp'', ''retrieval'', ''memory'', ''document'', ''app'',
     ''sensor'', ''environment'', ''provider'', ''audit'']"

text \<open>The fields of both versions.\<close>

record portfolio_event =
  pe_id :: string
  pe_project :: string
  pe_repository :: string
  pe_sha :: string
  pe_at :: datetime
  pe_producer :: string
  pe_surface :: string
  pe_activity :: string
  pe_entities :: "evidence_pointer list"
  pe_parents :: "string list"
  pe_data :: string
  pe_authority :: "string option"
  pe_state :: string

definition event_fields_ok :: "portfolio_event \<Rightarrow> bool" where
  "event_fields_ok ev \<longleftrightarrow> sha256_text (pe_id ev) \<and> project_id_text (pe_project ev) \<and> repository_id_text (pe_repository ev)
     \<and> git_object_text (pe_sha ev) \<and> sha256_text (pe_producer ev) \<and> pe_surface ev \<in> set source_surfaces
     \<and> list_all pointer_ok (pe_entities ev) \<and> sha256_text (pe_data ev) \<and> pred_option sha256_text (pe_authority ev)
     \<and> pe_state ev \<in> set telemetry_states"

text \<open>\<open>CanonicalObservationEvent\<close> and \<open>CanonicalObservationEventV1\<close>\<close>

definition mk_event_v0 :: "portfolio_event \<Rightarrow> portfolio_error + portfolio_event" where
  "mk_event_v0 ev = raise_first
     [(\<not> (event_fields_ok ev \<and> 1 \<le> py_len (pe_activity ev) \<and> py_len (pe_activity ev) \<le> 128), PortfolioInvalid ''field''),
      (\<not> dt_aware (pe_at ev), PortfolioInvalid ''occurred_at must be timezone-aware''),
      (\<not> time_supported (pe_at ev), PortfolioInvalid ''occurred_at is outside the supported range''),
      (\<not> canonical_token (pe_activity ev), PortfolioInvalid ''activity must be a canonical token''),
      (\<not> distinct (pe_parents ev), PortfolioInvalid ''parent event ids must be unique''),
      (\<not> list_all sha256_text (pe_parents ev), PortfolioInvalid ''parent event ids must be lowercase SHA-256''),
      (pe_id ev \<in> set (pe_parents ev), PortfolioInvalid ''an event cannot be its own parent'')] ev"

definition mk_event_v1 :: "portfolio_event \<Rightarrow> portfolio_error + portfolio_event" where
  "mk_event_v1 ev = raise_first
     [(\<not> (event_fields_ok ev \<and> canonical_token (pe_activity ev) \<and> length (pe_entities ev) \<le> 64
          \<and> list_all sha256_text (pe_parents ev) \<and> length (pe_parents ev) \<le> 64), PortfolioInvalid ''field''),
      (\<not> dt_aware (pe_at ev), PortfolioInvalid ''occurred_at must be timezone-aware''),
      (\<not> time_supported (pe_at ev), PortfolioInvalid ''occurred_at is outside the supported range''),
      (\<not> distinct (pe_parents ev), PortfolioInvalid ''parent event ids must be unique''),
      (pe_id ev \<in> set (pe_parents ev), PortfolioInvalid ''an event cannot be its own parent'')] ev"

section \<open>Canonical bytes\<close>

definition pointer_doc :: "evidence_pointer \<Rightarrow> json" where
  "pointer_doc p = JObj [(''kind'', JStr (pt_kind p)), (''digest'', JStr (pt_digest p)), (''locator_id'', JStr (pt_locator p))]"

definition event_members :: "portfolio_event \<Rightarrow> (string \<times> json) list" where
  "event_members ev =
     [(''schema_version'', JStr ''portfolio-observation-v1.0''), (''event_id'', JStr (pe_id ev)), (''project_id'', JStr (pe_project ev)),
      (''repository_id'', JStr (pe_repository ev)), (''repository_sha'', JStr (pe_sha ev)), (''occurred_at'', JStr (utc_stamp (pe_at ev))),
      (''producer_id_hash'', JStr (pe_producer ev)), (''producer_attestation'', JStr ''unattested''),
      (''source_surface'', JStr (pe_surface ev)), (''activity'', JStr (pe_activity ev)),
      (''entity_refs'', JArr (map pointer_doc (pe_entities ev))), (''parent_event_ids'', strings (pe_parents ev)),
      (''data_envelope_ref'', JStr (pe_data ev)),
      (''authority_envelope_ref'', case pe_authority ev of None \<Rightarrow> JNull | Some a \<Rightarrow> JStr a),
      (''telemetry_state'', JStr (pe_state ev)), (''operational_authority'', JStr ''none'')]"

definition max_observation_bytes :: nat where
  "max_observation_bytes = 4096"

definition encode_observation :: "codec \<Rightarrow> portfolio_event \<Rightarrow> portfolio_error + string" where
  "encode_observation C ev =
     (if \<not> json_encodable (JObj (event_members ev)) then Inl (ObservationContract ''observation cannot be encoded as canonical JSON'')
      else let raw = companion_json C (JObj (event_members ev)) @ [CHR 0x0A]
           in if max_observation_bytes < length raw then Inl (ObservationContract ''observation exceeds the V1 byte limit'') else Inr raw)"

definition observation_hooks :: "codec \<Rightarrow> portfolio_error hooks" where
  "observation_hooks C =
     \<lparr>h_pairs = (\<lambda>kvs. if distinct (map fst kvs) then Inr (JObj kvs) else Inl (ObservationContract ''duplicate JSON field'')),
      h_const = (\<lambda>t. Inr (JFloat (if t = ''NaN'' then PyNaN else PyInf (t = ''-Infinity'')))),
      h_int = (\<lambda>t. if int_digit_limit < digit_count t then Inl (PortfolioValue ''integer digits'') else Inr (JInt (int_of_text t))),
      h_float = (\<lambda>t. Inr (JFloat (float_of_text C t))),
      h_syntax = ObservationContract ''observation is not valid UTF-8 JSON''\<rparr>"

definition decode_observation ::
  "codec \<Rightarrow> (string \<Rightarrow> bool) \<Rightarrow> ((string \<times> json) list \<Rightarrow> portfolio_event option) \<Rightarrow> string \<Rightarrow> portfolio_error + portfolio_event" where
  "decode_observation C deep coerce payload =
     (if max_observation_bytes < length payload then Inl (ObservationContract ''observation exceeds the V1 byte limit'')
      else if \<not> utf8_valid payload \<or> deep payload then Inl (ObservationContract ''observation is not valid UTF-8 JSON'')
      else res_bind (loads (observation_hooks C) payload) (\<lambda>v.
        case v of
          JObj kvs \<Rightarrow>
            if obj_keys kvs \<noteq> set observation_event_fields then Inl (ObservationContract ''observation fields do not match V1'')
            else if obj_get kvs ''schema_version'' \<noteq> Some (JStr ''portfolio-observation-v1.0'')
            then Inl (ObservationContract ''unsupported observation schema version'')
            else (case coerce kvs of
              None \<Rightarrow> Inl (ObservationContract ''observation values violate V1'')
            | Some ev \<Rightarrow>
                (case mk_event_v1 ev of
                   Inl _ \<Rightarrow> Inl (ObservationContract ''observation values violate V1'')
                 | Inr ev' \<Rightarrow>
                     res_bind (encode_observation C ev') (\<lambda>raw.
                       if raw \<noteq> payload then Inl (ObservationContract ''observation JSON is not canonical V1'') else Inr ev')))
        | _ \<Rightarrow> Inl (ObservationContract ''observation must be a JSON object'')))"

section \<open>Commitments\<close>

record observation_commitment =
  cm_content :: string
  cm_commitment :: string

definition commitment_text :: "string \<Rightarrow> string" where
  "commitment_text content =
     ''agentic-security-portfolio/observation/v1.0'' @ [CHR 0x00] @ ''portfolio-observation-v1.0'' @ [CHR 0x00] @ content"

definition commitment_digest :: "codec \<Rightarrow> string \<Rightarrow> string" where
  "commitment_digest C content = sha256_hex C (commitment_text content)"

definition mk_commitment :: "codec \<Rightarrow> observation_commitment \<Rightarrow> portfolio_error + observation_commitment" where
  "mk_commitment C c = raise_first
     [(\<not> (sha256_text (cm_content c) \<and> sha256_text (cm_commitment c)), PortfolioInvalid ''field''),
      (cm_commitment c \<noteq> commitment_digest C (cm_content c), PortfolioInvalid ''commitment does not bind domain, schema, and content'')] c"

definition commit_observation :: "codec \<Rightarrow> portfolio_event \<Rightarrow> portfolio_error + observation_commitment" where
  "commit_observation C ev =
     res_bind (encode_observation C ev) (\<lambda>raw.
       let content = sha256_hex C raw in mk_commitment C \<lparr>cm_content = content, cm_commitment = commitment_digest C content\<rparr>)"

section \<open>Assessments and the shadow decision\<close>

fun family_text :: "string \<Rightarrow> bool" where
  "family_text [t, a, b] = (t = CHR ''T'' \<and> is_digit b
     \<and> (a = CHR ''0'' \<and> b \<noteq> CHR ''0'' \<or> a = CHR ''1'' \<or> a = CHR ''2'' \<and> ord b \<le> ord (CHR ''6'')))"
| "family_text _ = False"

record advisory_assessment =
  av_id :: string
  av_event :: string
  av_families :: "string list"
  av_disposition :: string
  av_reasons :: "string list"
  av_evidence :: "evidence_pointer list"
  av_detector :: string
  av_policy :: string

definition bounded_text :: "string \<Rightarrow> bool" where
  "bounded_text s \<longleftrightarrow> 1 \<le> py_len s \<and> py_len s \<le> 128"

definition mk_assessment :: "advisory_assessment \<Rightarrow> portfolio_error + advisory_assessment" where
  "mk_assessment a = raise_first
     [(\<not> (sha256_text (av_id a) \<and> sha256_text (av_event a) \<and> av_families a \<noteq> [] \<and> av_reasons a \<noteq> [] \<and> list_all pointer_ok (av_evidence a)
          \<and> av_disposition a \<in> {''observe'', ''challenge'', ''escalate'', ''abstain'', ''inconclusive''}
          \<and> bounded_text (av_detector a) \<and> bounded_text (av_policy a)), PortfolioInvalid ''field''),
      (\<not> distinct (av_families a), PortfolioInvalid ''family ids must be unique''),
      (\<not> list_all family_text (av_families a), PortfolioInvalid ''family id is outside the ontology''),
      (\<not> distinct (av_reasons a), PortfolioInvalid ''reason codes must be unique''),
      (\<not> list_all canonical_token (av_reasons a), PortfolioInvalid ''reason codes must be canonical tokens'')] a"

record simple_audit =
  sa_source_model :: string
  sa_completeness :: string
  sa_mapped :: "string list"
  sa_dropped :: "string list"
  sa_synthesized :: "string list"
  sa_downgrade :: bool
  sa_reasons :: "string list"

definition simple_groups :: "simple_audit \<Rightarrow> string list list" where
  "simple_groups a = [sa_mapped a, sa_dropped a, sa_synthesized a]"

definition mk_simple_audit :: "simple_audit \<Rightarrow> portfolio_error + simple_audit" where
  "mk_simple_audit a = raise_first
     [(sa_source_model a \<notin> {''harness.runtime_guard_foundation'', ''runtime_guard.observation_event'', ''transfer_verifier.transfer_envelope''}
        \<or> sa_completeness a \<notin> {''complete'', ''partial'', ''rejected''}, PortfolioInvalid ''field''),
      (list_ex (\<lambda>g. \<not> distinct g) (simple_groups a), PortfolioInvalid ''adapter field lists must be unique''),
      (set (sa_mapped a) \<inter> set (sa_dropped a) \<noteq> {} \<or> set (sa_mapped a) \<inter> set (sa_synthesized a) \<noteq> {}
        \<or> set (sa_dropped a) \<inter> set (sa_synthesized a) \<noteq> {}, PortfolioInvalid ''adapter field classifications must be disjoint''),
      (list_ex (\<lambda>g. \<not> list_all canonical_token g) (simple_groups a), PortfolioInvalid ''adapter field names must be canonical tokens''),
      (\<not> list_all canonical_token (sa_reasons a), PortfolioInvalid ''adapter reason codes must be canonical tokens''),
      (sa_synthesized a \<noteq> [] \<and> \<not> sa_downgrade a, PortfolioInvalid ''synthesized fields require an authority downgrade''),
      (sa_completeness a \<noteq> ''complete'' \<and> sa_reasons a = [], PortfolioInvalid ''non-complete adapters require reason codes'')] a"

record shadow_decision =
  sd_event :: string
  sd_disposition :: string
  sd_reasons :: "string list"
  sd_assessments :: "string list"
  sd_at :: datetime

definition mk_shadow_decision :: "shadow_decision \<Rightarrow> portfolio_error + shadow_decision" where
  "mk_shadow_decision d = raise_first
     [(\<not> (sha256_text (sd_event d) \<and> sd_disposition d \<in> {''observe'', ''challenge'', ''escalate'', ''abstain''}), PortfolioInvalid ''field''),
      (\<not> dt_aware (sd_at d), PortfolioInvalid ''decided_at must be timezone-aware''),
      (\<not> distinct (sd_assessments d), PortfolioInvalid ''assessment ids must be unique''),
      (\<not> list_all sha256_text (sd_assessments d), PortfolioInvalid ''assessment ids must be lowercase SHA-256''),
      (\<not> distinct (sd_reasons d), PortfolioInvalid ''reason codes must be unique''),
      (\<not> list_all canonical_token (sd_reasons d), PortfolioInvalid ''reason codes must be canonical tokens'')] d"

definition shadow_verdict :: "string \<Rightarrow> string list \<Rightarrow> string \<times> string" where
  "shadow_verdict state dispositions =
     (if state \<noteq> ''complete'' then (''abstain'', ''telemetry.'' @ state)
      else if dispositions = [] then (''abstain'', ''advisory.missing'')
      else if list_ex (\<lambda>d. d \<in> {''abstain'', ''inconclusive''}) dispositions then (''abstain'', ''advisory.incomplete'')
      else if list_ex (\<lambda>d. d = ''escalate'') dispositions then (''escalate'', ''advisory.escalation'')
      else if list_ex (\<lambda>d. d = ''challenge'') dispositions then (''challenge'', ''advisory.challenge'')
      else (''observe'', ''advisory.observe_only''))"

definition evaluate_shadow_event ::
  "portfolio_event \<Rightarrow> advisory_assessment list \<Rightarrow> datetime \<Rightarrow> portfolio_error + shadow_decision" where
  "evaluate_shadow_event ev as decided =
     (if \<not> dt_aware decided then Inl (PortfolioValue ''decided_at must be timezone-aware'')
      else if dt_less decided (pe_at ev) then Inl (PortfolioValue ''decided_at cannot precede the observed event'')
      else if list_ex (\<lambda>a. av_event a \<noteq> pe_id ev) as then Inl (PortfolioValue ''every assessment must bind the exact event'')
      else let v = shadow_verdict (pe_state ev) (map av_disposition as)
           in mk_shadow_decision \<lparr>sd_event = pe_id ev, sd_disposition = fst v, sd_reasons = [snd v],
                sd_assessments = map av_id as, sd_at = decided\<rparr>)"

end
