(* ===== verification/Portfolio_Properties.thy ===== *)
theory Portfolio_Properties
  imports Portfolio Json_Size Gateway_Chain Wire_Roundtrip
begin

text \<open>
  The canonical bytes of an observation determine it, its commitment binds them, decoding inverts encoding, and
  what a shadow decision says.
\<close>

section \<open>Stamps\<close>

lemma digits_fixed_length [simp]: "length (digits_fixed k n) = k"
  by (induction k arbitrary: n) auto

lemma digits_fixed_inject: "digits_fixed k m = digits_fixed k n \<Longrightarrow> m < 10 ^ k \<Longrightarrow> n < 10 ^ k \<Longrightarrow> m = n"
proof (induction k arbitrary: m n)
  case (Suc k)
  from Suc.prems(1) have "digits_fixed k (m div 10) = digits_fixed k (n div 10)" and c: "digit_char (m mod 10) = digit_char (n mod 10)"
    by simp_all
  moreover have "m div 10 < 10 ^ k" "n div 10 < 10 ^ k" using Suc.prems(2,3) by (simp_all add: less_mult_imp_div_less)
  ultimately have d: "m div 10 = n div 10" by (intro Suc.IH)
  have "of_char (digit_char (m mod 10)) = (of_char (digit_char (n mod 10)) :: nat)" using c by simp
  then have "m mod 10 = n mod 10" by (simp add: digit_char_def)
  with d show ?case by (metis div_mult_mod_eq)
qed simp

lemma digits_fixed_ascii [simp]: "is_ascii (digits_fixed k n)"
proof (induction k arbitrary: n)
  case (Suc k)
  have "ord (digit_char (n mod 10)) < 128" by (simp add: digit_char_def ord_def)
  with Suc show ?case by (simp add: is_ascii_def)
qed (simp add: is_ascii_def)

lemma split_years_ge: "split_years y d = (y', r) \<Longrightarrow> y \<le> y' \<and> r < year_days y' \<and> 365 * (y' - y) \<le> d"
proof (induction y d arbitrary: y' r rule: split_years.induct)
  case (1 y d)
  show ?case
  proof (cases "d < year_days y")
    case True
    with 1(2) show ?thesis by (simp add: split_years.simps)
  next
    case False
    with 1(2) have "split_years (Suc y) (d - year_days y) = (y', r)" by (simp add: split_years.simps [of y d])
    from 1(1) [OF False this] False have "Suc y \<le> y'" "r < year_days y'" "365 * (y' - Suc y) \<le> d - year_days y" by blast+
    moreover have "365 \<le> year_days y" by (simp add: year_days_def)
    ultimately show ?thesis using False by (auto simp: Suc_diff_le diff_mult_distrib2)
  qed
qed

lemma split_years_inject: "split_years y d = split_years y d' \<Longrightarrow> d = d'"
proof (induction y d arbitrary: d' rule: split_years.induct)
  case (1 y d)
  have later: "split_years (Suc y) e \<noteq> (y, e')" for e e' using split_years_ge [of "Suc y" e y e'] by auto
  show ?case
  proof (cases "d < year_days y")
    case True
    with 1(2) later show ?thesis
      by (cases "d' < year_days y") (simp_all add: split_years.simps [of y], metis)
  next
    case no: False
    show ?thesis
    proof (cases "d' < year_days y")
      case True
      with 1(2) no later show ?thesis by (simp add: split_years.simps [of y])
    next
      case False
      with 1(2) no have "split_years (Suc y) (d - year_days y) = split_years (Suc y) (d' - year_days y)"
        by (simp add: split_years.simps [of y])
      from 1(1) [OF no this] no False show ?thesis by simp
    qed
  qed
qed

lemma split_months_bounds:
  "split_months ls m d = (m', r) \<Longrightarrow> d < sum_list ls \<Longrightarrow> list_all (\<lambda>l. l \<le> 31) ls \<Longrightarrow> m \<le> m' \<and> m' < m + length ls \<and> r < 31"
proof (induction ls m d arbitrary: m' r rule: split_months.induct)
  case (2 l ls m d)
  show ?case
  proof (cases "d < l")
    case False
    with 2(3) have "d - l < sum_list ls" by simp
    with 2(1) [OF False, of m' r] 2(2,4) False show ?thesis by simp
  qed (use 2 in auto)
qed simp

lemma split_months_inject:
  "split_months ls m d = split_months ls m d' \<Longrightarrow> d < sum_list ls \<Longrightarrow> d' < sum_list ls \<Longrightarrow> list_all (\<lambda>l. l \<le> 31) ls \<Longrightarrow> d = d'"
proof (induction ls m d arbitrary: d' rule: split_months.induct)
  case (2 l ls m d)
  have later: "split_months ls (Suc m) e \<noteq> (m, e')" if "e < sum_list ls" for e e'
    using split_months_bounds [of ls "Suc m" e m e'] that 2(5) by auto
  show ?case
  proof (cases "d < l")
    case True
    show ?thesis
    proof (cases "d' < l")
      case False
      with 2(4) have "d' - l < sum_list ls" by simp
      with 2(2) True False later [of "d' - l" d] show ?thesis by simp
    qed (use True 2(2) in simp)
  next
    case no: False
    show ?thesis
    proof (cases "d' < l")
      case True
      from no 2(3) have "d - l < sum_list ls" by simp
      with 2(2) True no later [of "d - l" d'] show ?thesis by simp
    next
      case False
      from no False 2(3,4) have "d - l < sum_list ls" "d' - l < sum_list ls" by simp_all
      with 2(2,5) no False 2(1) [OF no, of "d' - l"] show ?thesis by simp
    qed
  qed
qed simp

lemma month_days_sum: "sum_list (month_days y) = year_days y" "list_all (\<lambda>l. l \<le> 31) (month_days y)" "length (month_days y) = 12"
  by (simp_all add: month_days_def year_days_def)

lemma utc_stamp_ascii: "is_ascii (utc_stamp t)"
  by (simp add: utc_stamp_def Let_def split_def)

lemma fixed_append: "length xs = length ys \<Longrightarrow> xs @ us = ys @ vs \<longleftrightarrow> xs = ys \<and> us = vs"
  by simp

text \<open>The date of a day, and the time of a second of the day.\<close>

definition day_fields :: "nat \<Rightarrow> nat \<times> nat \<times> nat" where
  "day_fields n = (let (y, r) = split_years 1970 n; (m, d) = split_months (month_days y) 1 r in (y, m, d))"

lemma day_fields_bounds:
  assumes "day_fields n = (y, m, d)" "n \<le> 47482"
  shows "y < 10 ^ 4" "m < 10 ^ 2" "d + 1 < 10 ^ 2"
proof -
  obtain r where y: "split_years 1970 n = (y, r)" "split_months (month_days y) 1 r = (m, d)"
    using assms(1) by (auto simp: day_fields_def split: prod.splits)
  from split_years_ge [OF y(1)] have "1970 \<le> y" "r < year_days y" "365 * (y - 1970) \<le> n" by blast+
  then show "y < 10 ^ 4" using assms(2) by simp
  from split_months_bounds [OF y(2)] \<open>r < year_days y\<close> show "m < 10 ^ 2" "d + 1 < 10 ^ 2" by (simp_all add: month_days_sum)
qed

lemma day_fields_inject: "day_fields n = day_fields n' \<Longrightarrow> n = n'"
proof -
  assume eq: "day_fields n = day_fields n'"
  obtain y r y' r' where s: "split_years 1970 n = (y, r)" "split_years 1970 n' = (y', r')" by fastforce
  with eq have "y = y'" "split_months (month_days y) 1 r = split_months (month_days y) 1 r'"
    by (auto simp: day_fields_def split: prod.splits)
  moreover have "r < year_days y" "r' < year_days y'" using split_years_ge s by blast+
  ultimately have "r = r'" by (intro split_months_inject [of "month_days y" 1 r r']) (simp_all add: month_days_sum)
  with s \<open>y = y'\<close> show "n = n'" by (intro split_years_inject [of 1970]) simp
qed

lemma day_seconds:
  fixes s t :: nat
  assumes "s div 3600 = t div 3600" "s div 60 mod 60 = t div 60 mod 60" "s mod 60 = t mod 60"
  shows "s = t"
proof -
  have "n div 60 div 60 = n div 3600" for n :: nat by (simp add: div_mult2_eq [symmetric])
  with assms(1,2) have "s div 60 = t div 60" by (metis div_mult_mod_eq)
  with assms(3) show ?thesis by (metis div_mult_mod_eq)
qed

lemma utc_stamp_inject:
  assumes "utc_stamp s = utc_stamp t" "time_supported s" "time_supported t"
  shows "dt_instant s = dt_instant t"
proof -
  let ?m = "nat (dt_instant s)" and ?n = "nat (dt_instant t)"
  let ?u = "?m div 1000000" and ?v = "?n div 1000000"
  obtain y m d where f: "day_fields (?u div 86400) = (y, m, d)" by (cases "day_fields (?u div 86400)")
  obtain y' m' d' where f': "day_fields (?v div 86400) = (y', m', d')" by (cases "day_fields (?v div 86400)")
  have days: "?u div 86400 \<le> 47482" "?v div 86400 \<le> 47482"
  proof -
    have "nat i div 1000000 div 86400 \<le> 47482" if "i \<le> max_supported_time" for i
    proof -
      have "nat i div 86400000000 \<le> 4102444800000000 div 86400000000"
        using that by (intro div_le_mono) (simp add: max_supported_time_def nat_le_iff)
      then show ?thesis by (simp add: div_mult2_eq [symmetric])
    qed
    with assms(2,3) show "?u div 86400 \<le> 47482" "?v div 86400 \<le> 47482" by (simp_all add: time_supported_def)
  qed
  have stamp: "utc_stamp x = digits_fixed 4 a @ ''-'' @ digits_fixed 2 b @ ''-'' @ digits_fixed 2 (c + 1) @ ''T''
         @ digits_fixed 2 (nat (dt_instant x) div 1000000 mod 86400 div 3600) @ '':''
         @ digits_fixed 2 (nat (dt_instant x) div 1000000 mod 86400 div 60 mod 60) @ '':''
         @ digits_fixed 2 (nat (dt_instant x) div 1000000 mod 86400 mod 60)
         @ ''.'' @ digits_fixed 6 (nat (dt_instant x) mod 1000000) @ ''Z''"
    if "day_fields (nat (dt_instant x) div 1000000 div 86400) = (a, b, c)" for x a b c
    using that by (auto simp: utc_stamp_def day_fields_def Let_def split: prod.splits)
  note eq = assms(1) [unfolded stamp [OF f] stamp [OF f'], simplified fixed_append digits_fixed_length append_Cons append_Nil list.inject]
  have "digits_fixed 4 y = digits_fixed 4 y'" "digits_fixed 2 m = digits_fixed 2 m'" "digits_fixed 2 (d + 1) = digits_fixed 2 (d' + 1)"
    "digits_fixed 2 (?u mod 86400 div 3600) = digits_fixed 2 (?v mod 86400 div 3600)"
    "digits_fixed 2 (?u mod 86400 div 60 mod 60) = digits_fixed 2 (?v mod 86400 div 60 mod 60)"
    "digits_fixed 2 (?u mod 86400 mod 60) = digits_fixed 2 (?v mod 86400 mod 60)"
    "digits_fixed 6 (?m mod 1000000) = digits_fixed 6 (?n mod 1000000)"
    using eq by simp_all
  note parts = this [THEN digits_fixed_inject]
  have bounds: "k mod 86400 div 3600 < 10 ^ 2" "k mod 86400 div 60 mod 60 < 10 ^ 2" "k mod 86400 mod 60 < 10 ^ 2" for k :: nat
    by (simp_all add: less_mult_imp_div_less trans_less_add1 less_trans [OF mod_less_divisor])
  have "y = y'" "m = m'" "d = d'"
    using parts(1-3) day_fields_bounds [OF f days(1)] day_fields_bounds [OF f' days(2)] by simp_all
  then have day: "?u div 86400 = ?v div 86400" using f f' by (intro day_fields_inject) simp
  have "?u mod 86400 = ?v mod 86400"
    by (rule day_seconds) (use parts(4-6) bounds in blast)+
  with day have "?u = ?v" by (metis div_mult_mod_eq)
  moreover have "?m mod 1000000 = ?n mod 1000000" by (rule parts(7)) simp_all
  ultimately have "?m = ?n" by (metis div_mult_mod_eq)
  with assms(2,3) show ?thesis by (simp add: time_supported_def eq_nat_nat_iff)
qed

section \<open>Canonical bytes\<close>

definition portfolio_event_ok :: "portfolio_event \<Rightarrow> bool" where
  "portfolio_event_ok ev \<longleftrightarrow> mk_event_v1 ev = Inr ev"

lemma mk_event_v1_Inr: "mk_event_v1 ev = Inr x \<longleftrightarrow> x = ev \<and> portfolio_event_ok ev"
  by (auto simp: portfolio_event_ok_def mk_event_v1_def raise_first_Inr_iff)

lemma portfolio_event_ok_iff:
  "portfolio_event_ok ev \<longleftrightarrow> event_fields_ok ev \<and> canonical_token (pe_activity ev) \<and> length (pe_entities ev) \<le> 64
     \<and> list_all sha256_text (pe_parents ev) \<and> length (pe_parents ev) \<le> 64 \<and> dt_aware (pe_at ev) \<and> time_supported (pe_at ev)
     \<and> distinct (pe_parents ev) \<and> pe_id ev \<notin> set (pe_parents ev)"
  unfolding portfolio_event_ok_def mk_event_v1_def raise_first_Inr_iff first_error_Cons by auto

lemma portfolio_event_okD:
  assumes "portfolio_event_ok ev"
  shows "event_fields_ok ev" "canonical_token (pe_activity ev)" "list_all sha256_text (pe_parents ev)" "time_supported (pe_at ev)" "dt_aware (pe_at ev)"
  using assms by (simp_all add: portfolio_event_ok_iff)

lemma canonical_token_ascii: "canonical_token s \<Longrightarrow> is_ascii s"
  by (cases s) (auto simp: is_ascii_def list_all_iff token_char_def is_lower_alpha_def is_digit_def)

lemma project_id_ascii: "project_id_text s \<Longrightarrow> is_ascii s"
  by (cases s) (auto simp: is_ascii_def list_all_iff is_lower_alpha_def is_digit_def)

lemma repository_id_ascii: "repository_id_text s \<Longrightarrow> is_ascii s"
proof -
  assume "repository_id_text s"
  then obtain a b where s: "split_on (CHR ''/'') s = [a, b]" "list_all repository_char a" "list_all repository_char b"
    by (auto simp: repository_id_text_def split: list.splits)
  have "set s \<subseteq> insert d (\<Union> (set ` set (split_on d s)))" for d
  proof (induction s)
    case (Cons c s)
    then show ?case by (cases "split_on d s") auto
  qed simp
  from this [of "CHR ''/''"] s(1) have "set s \<subseteq> insert (CHR ''/'') (set a \<union> set b)" by simp
  moreover have "ord c < 128" if "repository_char c" for c
    using that by (auto simp: repository_char_def is_lower_alpha_def is_upper_alpha_def is_digit_def)
  ultimately show ?thesis using s(2,3) by (fastforce simp: is_ascii_def list_all_iff)
qed

lemma git_object_ascii: "git_object_text s \<Longrightarrow> is_ascii s"
  by (auto simp: git_object_text_def is_ascii_def list_all_iff is_lower_hex_def is_digit_def)

lemma vocabulary_ascii: "list_all is_ascii source_surfaces" "list_all is_ascii telemetry_states"
  by (simp_all add: source_surfaces_def telemetry_states_def)

lemma event_members_ok:
  assumes "portfolio_event_ok ev"
  shows "load_ok True (JObj (event_members ev))"
proof -
  note d = portfolio_event_okD [OF assms]
  have p: "load_ok True (pointer_doc p)" if "pointer_ok p" for p
    using that sha256_text_ascii by (auto simp: pointer_ok_def pointer_doc_def str_ok_def)
  have "is_ascii (pe_surface ev)" "is_ascii (pe_state ev)"
    using d(1) vocabulary_ascii by (auto simp: event_fields_ok_def list_all_iff)
  moreover have "load_ok True (JArr (map pointer_doc (pe_entities ev)))" "load_ok True (strings (pe_parents ev))"
    using d p sha256_text_ascii by (auto simp: event_fields_ok_def strings_def list_all_iff str_ok_def)
  ultimately show ?thesis
    using d sha256_text_ascii project_id_ascii repository_id_ascii git_object_ascii canonical_token_ascii utc_stamp_ascii
    by (auto simp: event_members_def event_fields_ok_def str_ok_def split: option.split)
qed

lemma event_keys_distinct: "distinct (map fst (event_members ev))"
  by (simp add: event_members_def)

lemma event_encodable: "load_ok True v \<Longrightarrow> json_encodable v"
proof (induction v)
  case (JArr vs)
  then show ?case by (auto simp: list_all_iff)
next
  case (JObj kvs)
  then show ?case by (fastforce simp: list_all_iff str_ok_def encodable_ascii)
qed (simp_all add: str_ok_def encodable_ascii)

lemma load_ok_weaken: "load_ok True v \<Longrightarrow> load_ok False v"
proof (induction v)
  case (JArr vs)
  then show ?case by (auto simp: list_all_iff)
next
  case (JObj kvs)
  then show ?case by (fastforce simp: list_all_iff str_ok_def)
qed (simp_all add: str_ok_def)

lemma observation_hooks_ok: "load_ok asc v \<Longrightarrow> json_ok (observation_hooks C) asc v"
proof (induction v)
  case (JArr vs)
  then show ?case by (auto simp: list_all_iff)
next
  case (JObj kvs)
  then show ?case by (fastforce simp: list_all_iff observation_hooks_def)
qed (simp_all add: observation_hooks_def)

lemma encode_observation_Inr:
  assumes "portfolio_event_ok ev"
  shows "encode_observation C ev = Inr raw \<longleftrightarrow>
    raw = render (float_repr C) False (JObj (sorted_members (event_members ev))) @ [CHR 0x0A] \<and> length raw \<le> max_observation_bytes"
  using event_encodable [OF event_members_ok [OF assms]]
  by (auto simp: encode_observation_def Let_def companion_json_def dumps_def sort_keys_obj simp del: render.simps sort_keys.simps json_encodable.simps)

lemma sorted_event_ok:
  assumes "portfolio_event_ok ev"
  shows "load_ok True (JObj (sorted_members (event_members ev)))"
  using load_ok_sort_keys [OF event_members_ok [OF assms]] by (simp only: sort_keys_obj)

lemma event_lookup:
  "obj_get (event_members ev) ''schema_version'' = Some (JStr ''portfolio-observation-v1.0'')"
  "obj_get (event_members ev) ''event_id'' = Some (JStr (pe_id ev))" "obj_get (event_members ev) ''project_id'' = Some (JStr (pe_project ev))"
  "obj_get (event_members ev) ''repository_id'' = Some (JStr (pe_repository ev))" "obj_get (event_members ev) ''repository_sha'' = Some (JStr (pe_sha ev))"
  "obj_get (event_members ev) ''occurred_at'' = Some (JStr (utc_stamp (pe_at ev)))"
  "obj_get (event_members ev) ''producer_id_hash'' = Some (JStr (pe_producer ev))" "obj_get (event_members ev) ''source_surface'' = Some (JStr (pe_surface ev))"
  "obj_get (event_members ev) ''activity'' = Some (JStr (pe_activity ev))"
  "obj_get (event_members ev) ''entity_refs'' = Some (JArr (map pointer_doc (pe_entities ev)))"
  "obj_get (event_members ev) ''parent_event_ids'' = Some (strings (pe_parents ev))" "obj_get (event_members ev) ''data_envelope_ref'' = Some (JStr (pe_data ev))"
  "obj_get (event_members ev) ''authority_envelope_ref'' = Some (case pe_authority ev of None \<Rightarrow> JNull | Some a \<Rightarrow> JStr a)"
  "obj_get (event_members ev) ''telemetry_state'' = Some (JStr (pe_state ev))"
  by (simp_all add: event_members_def obj_get_def)

lemma pointer_doc_inject: "sort_keys (pointer_doc p) = sort_keys (pointer_doc q) \<Longrightarrow> p = q"
proof -
  let ?m = "\<lambda>p. [(''kind'', JStr (pt_kind p)), (''digest'', JStr (pt_digest p)), (''locator_id'', JStr (pt_locator p))]"
  assume "sort_keys (pointer_doc p) = sort_keys (pointer_doc q)"
  then have m: "sorted_members (?m p) = sorted_members (?m q)" by (simp only: pointer_doc_def sort_keys_obj json.inject)
  have g: "obj_get (sorted_members (?m p)) k = map_option sort_keys (obj_get (?m p) k)" for p k
    by (rule obj_get_sorted) simp
  have "map_option sort_keys (obj_get (?m p) k) = map_option sort_keys (obj_get (?m q) k)" for k
    using m g [of p k] g [of q k] by simp
  from this [of "''kind''"] this [of "''digest''"] this [of "''locator_id''"] show "p = q" by (simp add: obj_get_def)
qed

text \<open>The canonical bytes determine the event, up to the offset in which its time was written.\<close>

lemma encode_observation_inject:
  assumes "portfolio_event_ok a" "portfolio_event_ok b" "encode_observation C a = Inr raw" "encode_observation C b = Inr raw"
  shows "a\<lparr>pe_at := utc (pe_at a)\<rparr> = b\<lparr>pe_at := utc (pe_at b)\<rparr>"
proof -
  have l: "loads (observation_hooks C) (render (float_repr C) False (JObj (sorted_members (event_members ev))))
      = Inr (JObj (sorted_members (event_members ev)))" if "portfolio_event_ok ev" for ev
    by (rule loads_render [OF observation_hooks_ok [OF load_ok_weaken [OF sorted_event_ok [OF that]]]])
  have xy: "render (float_repr C) False (JObj (sorted_members (event_members a))) = render (float_repr C) False (JObj (sorted_members (event_members b)))"
    (is "?x = ?y")
  proof -
    have "raw = ?x @ [CHR 0x0A]" "raw = ?y @ [CHR 0x0A]"
      using assms(3,4) unfolding encode_observation_Inr [OF assms(1)] encode_observation_Inr [OF assms(2)] by blast+
    then have "?x @ [CHR 0x0A] = ?y @ [CHR 0x0A]" by (rule subst)
    then show ?thesis unfolding append_same_eq .
  qed
  have m: "sorted_members (event_members a) = sorted_members (event_members b)"
    using l [OF assms(2)] unfolding xy [symmetric] l [OF assms(1)] sum.inject json.inject .
  have f: "map_option sort_keys (obj_get (event_members a) k) = map_option sort_keys (obj_get (event_members b) k)" for k
    using m obj_get_sorted [OF event_keys_distinct, of a k] obj_get_sorted [OF event_keys_distinct, of b k] by simp
  have "dt_instant (pe_at a) = dt_instant (pe_at b)"
    using f [of "''occurred_at''"] portfolio_event_okD(4) assms(1,2) by (intro utc_stamp_inject) (simp_all add: event_lookup)
  moreover have "map (sort_keys \<circ> pointer_doc) (pe_entities a) = map (sort_keys \<circ> pointer_doc) (pe_entities b)"
    using f [of "''entity_refs''"] by (simp add: event_lookup)
  then have "pe_entities a = pe_entities b"
    by (rule map_injective) (simp add: inj_def pointer_doc_inject)
  moreover have "pe_parents a = pe_parents b"
  proof -
    have "map JStr (pe_parents a) = map JStr (pe_parents b)" using f [of "''parent_event_ids''"] by (simp add: event_lookup strings_def comp_def)
    then show ?thesis by (rule map_injective) (simp add: inj_def)
  qed
  moreover have "pe_authority a = pe_authority b"
    using f [of "''authority_envelope_ref''"] by (auto simp: event_lookup split: option.splits)
  moreover have "pe_id a = pe_id b" "pe_project a = pe_project b" "pe_repository a = pe_repository b" "pe_sha a = pe_sha b"
    "pe_producer a = pe_producer b" "pe_surface a = pe_surface b" "pe_activity a = pe_activity b" "pe_data a = pe_data b" "pe_state a = pe_state b"
    using f [of "''event_id''"] f [of "''project_id''"] f [of "''repository_id''"] f [of "''repository_sha''"] f [of "''producer_id_hash''"]
      f [of "''source_surface''"] f [of "''activity''"] f [of "''data_envelope_ref''"] f [of "''telemetry_state''"]
    by (simp_all add: event_lookup)
  ultimately show ?thesis by (simp add: utc_def)
qed

lemma commit_observation_Inr:
  assumes "hash_ok C"
  shows "commit_observation C ev = Inr c \<longleftrightarrow>
    (\<exists>raw. encode_observation C ev = Inr raw \<and> c = \<lparr>cm_content = sha256_hex C raw, cm_commitment = commitment_digest C (sha256_hex C raw)\<rparr>)"
  using assms
  by (auto simp: commit_observation_def mk_commitment_def raise_first_Inr_iff commitment_digest_def Let_def)

lemma event_members_utc: "event_members (ev\<lparr>pe_at := utc (pe_at ev)\<rparr>) = event_members ev"
  by (simp add: event_members_def utc_stamp_def utc_def)

lemma encode_observation_utc:
  assumes "a\<lparr>pe_at := utc (pe_at a)\<rparr> = b\<lparr>pe_at := utc (pe_at b)\<rparr>"
  shows "encode_observation C a = encode_observation C b"
proof -
  have "event_members a = event_members b"
    using event_members_utc [of a] event_members_utc [of b] unfolding assms by (rule trans [OF sym])
  then show ?thesis by (simp only: encode_observation_def)
qed

lemma encode_observation_codec: "float_repr C = float_repr D \<Longrightarrow> encode_observation C ev = encode_observation D ev"
  by (simp only: encode_observation_def companion_json_def)

lemma commitment_text_inject: "commitment_text s = commitment_text t \<longleftrightarrow> s = t"
  unfolding commitment_text_def by (simp only: append.assoc [symmetric] same_append_eq)

text \<open>
  C26: a commitment binds its observation. Two valid V1 events have the same commitment digest exactly when they are the
  same event (the offset of the time apart), provided that the hash tells apart the canonical bytes of these two events
  and the two texts that are committed to; and the commitments that are made validate.
\<close>

theorem observation_commitment_binds:
  assumes "portfolio_event_ok a" "portfolio_event_ok b"
    and "encode_observation C a = Inr r" "encode_observation C b = Inr s"
    and "commit_observation C a = Inr c" "commit_observation C b = Inr d"
    and "inj_on (sha256_hex C) {r, s}"
    and "inj_on (sha256_hex C) {commitment_text (sha256_hex C r), commitment_text (sha256_hex C s)}"
  shows "(cm_commitment c = cm_commitment d \<longleftrightarrow> a\<lparr>pe_at := utc (pe_at a)\<rparr> = b\<lparr>pe_at := utc (pe_at b)\<rparr>)
    \<and> mk_commitment C c = Inr c \<and> mk_commitment C d = Inr d"
proof -
  have c: "c = \<lparr>cm_content = sha256_hex C r, cm_commitment = commitment_digest C (sha256_hex C r)\<rparr>" "mk_commitment C c = Inr c"
    and d: "d = \<lparr>cm_content = sha256_hex C s, cm_commitment = commitment_digest C (sha256_hex C s)\<rparr>" "mk_commitment C d = Inr d"
    using assms(3-6) by (auto simp: commit_observation_def mk_commitment_def raise_first_Inr_iff Let_def)
  have "r = s" if "cm_commitment c = cm_commitment d"
  proof -
    have "sha256_hex C (commitment_text (sha256_hex C r)) = sha256_hex C (commitment_text (sha256_hex C s))"
      using that by (simp add: c(1) d(1) commitment_digest_def)
    from inj_onD [OF assms(8) this] have "sha256_hex C r = sha256_hex C s" by (simp add: commitment_text_inject)
    from inj_onD [OF assms(7) this] show ?thesis by simp
  qed
  moreover have "r = s \<longleftrightarrow> a\<lparr>pe_at := utc (pe_at a)\<rparr> = b\<lparr>pe_at := utc (pe_at b)\<rparr>"
  proof
    assume "r = s"
    with assms(4) have "encode_observation C b = Inr r" by (simp only:)
    then show "a\<lparr>pe_at := utc (pe_at a)\<rparr> = b\<lparr>pe_at := utc (pe_at b)\<rparr>" by (rule encode_observation_inject [OF assms(1,2,3)])
  next
    assume "a\<lparr>pe_at := utc (pe_at a)\<rparr> = b\<lparr>pe_at := utc (pe_at b)\<rparr>"
    from encode_observation_utc [OF this, of C] show "r = s" unfolding assms(3,4) by (simp only: sum.inject)
  qed
  ultimately show ?thesis using c d by auto
qed

section \<open>Decoding\<close>

text \<open>Pydantic reads an event back from its dumped fields, with its time in UTC.\<close>

definition event_reads_back :: "((string \<times> json) list \<Rightarrow> portfolio_event option) \<Rightarrow> portfolio_event \<Rightarrow> bool" where
  "event_reads_back coerce ev \<longleftrightarrow> coerce (sorted_members (event_members ev)) = Some (ev\<lparr>pe_at := utc (pe_at ev)\<rparr>)"

lemma portfolio_event_ok_utc: "portfolio_event_ok ev \<Longrightarrow> portfolio_event_ok (ev\<lparr>pe_at := utc (pe_at ev)\<rparr>)"
  by (simp add: portfolio_event_ok_iff event_fields_ok_def utc_def time_supported_def dt_aware_def)

lemma decode_observation_Inr:
  assumes "decode_observation C deep coerce payload = Inr ev"
  shows "portfolio_event_ok ev" "encode_observation C ev = Inr payload"
proof -
  have "portfolio_event_ok ev \<and> encode_observation C ev = Inr payload"
  proof (cases "loads (observation_hooks C) payload")
    case (Inr v)
    with assms obtain kvs where "v = JObj kvs" by (cases v) (auto simp: decode_observation_def split: if_splits)
    with Inr assms show ?thesis
      by (auto simp: decode_observation_def mk_event_v1_Inr split: if_splits option.splits sum.splits)
  qed (use assms in \<open>auto simp: decode_observation_def split: if_splits\<close>)
  then show "portfolio_event_ok ev" "encode_observation C ev = Inr payload" by blast+
qed

lemma decode_encoded:
  assumes "portfolio_event_ok ev" "encode_observation C ev = Inr raw" "event_reads_back coerce ev" "\<not> deep raw"
  shows "decode_observation C deep coerce raw = Inr (ev\<lparr>pe_at := utc (pe_at ev)\<rparr>)"
proof -
  let ?s = "sorted_members (event_members ev)" and ?e = "ev\<lparr>pe_at := utc (pe_at ev)\<rparr>"
  have raw: "raw = render (float_repr C) False (JObj ?s) @ [CHR 0x0A]" "length raw \<le> max_observation_bytes"
    using assms(2) unfolding encode_observation_Inr [OF assms(1)] by blast+
  note ok = sorted_event_ok [OF assms(1)]
  have l: "loads (observation_hooks C) raw = Inr (JObj ?s)" unfolding raw(1)
    by (rule loads_object [OF observation_hooks_ok [OF load_ok_weaken [OF ok]] skip_newline])
  have "is_ascii raw" unfolding raw(1) is_ascii_append
    using render_False_ascii [OF load_ok_plain [OF ok]] by (simp add: is_ascii_def ord_def)
  then have u: "utf8_valid raw" by (rule utf8_valid_ascii)
  have g: "obj_keys ?s = set observation_event_fields" "obj_get ?s ''schema_version'' = Some (JStr ''portfolio-observation-v1.0'')"
    unfolding obj_get_sorted [OF event_keys_distinct] sorted_members_keys(2) event_lookup
    by (simp_all add: obj_keys_def event_members_def observation_event_fields_def)
  have e: "encode_observation C ?e = Inr raw"
    using assms(2) unfolding encode_observation_def event_members_utc .
  have m: "mk_event_v1 ?e = Inr ?e" using portfolio_event_ok_utc [OF assms(1)] by (simp only: portfolio_event_ok_def)
  have c: "coerce ?s = Some ?e" using assms(3) by (simp only: event_reads_back_def)
  from raw(2) assms(4) u show ?thesis unfolding decode_observation_def l by (simp add: g c m e)
qed

text \<open>
  C27: decoding inverts encoding, and only canonical bytes decode. The canonical bytes of a valid event decode to that event with its
  time in UTC, if the reader of the members gives back what was dumped and the text is not too deep; and bytes
  that decode to an event are the canonical bytes of that event, so that no event has two encodings.
\<close>

theorem observation_round_trip:
  assumes "portfolio_event_ok ev" "encode_observation C ev = Inr raw" "event_reads_back coerce ev" "\<not> deep raw"
  shows "decode_observation C deep coerce raw = Inr (ev\<lparr>pe_at := utc (pe_at ev)\<rparr>)
    \<and> (\<forall>payload. decode_observation C deep coerce payload = Inr (ev\<lparr>pe_at := utc (pe_at ev)\<rparr>) \<longrightarrow> payload = raw)"
proof -
  let ?e = "ev\<lparr>pe_at := utc (pe_at ev)\<rparr>"
  have e: "encode_observation C ?e = Inr raw"
    using assms(2) unfolding encode_observation_def event_members_utc .
  have "payload = raw" if "decode_observation C deep coerce payload = Inr ?e" for payload
    using decode_observation_Inr(2) [OF that] unfolding e sum.inject by (rule sym)
  with decode_encoded [where deep = deep and coerce = coerce and raw = raw, OF assms(1,2,3,4)] show ?thesis by blast
qed

section \<open>Shadow decisions\<close>

lemma shadow_reason_token: "state \<in> set telemetry_states \<Longrightarrow> canonical_token (snd (shadow_verdict state ds))"
  by (auto simp: shadow_verdict_def telemetry_states_def token_char_def is_lower_alpha_def)

lemma shadow_disposition_range: "fst (shadow_verdict state ds) \<in> {''observe'', ''challenge'', ''escalate'', ''abstain''}"
  by (simp add: shadow_verdict_def)

text \<open>
  When a shadow decision is made, and what it says. For a valid event it is made exactly when the time of the decision is aware and
  not before the event, every assessment names the event, and their ids are distinct digests. It then lists the
  assessments in order; it observes only when the telemetry is complete and every assessment observes, and it abstains exactly when
  the telemetry is not complete, nothing was assessed or some assessment is inconclusive.
\<close>

theorem shadow_decision_exact:
  assumes "mk_event_v0 ev = Inr ev"
  shows "evaluate_shadow_event ev as decided = Inr d \<longleftrightarrow>
    dt_aware decided \<and> dt_le (pe_at ev) decided \<and> (\<forall>a \<in> set as. av_event a = pe_id ev) \<and> distinct (map av_id as)
    \<and> list_all sha256_text (map av_id as)
    \<and> sd_event d = pe_id ev \<and> sd_assessments d = map av_id as \<and> sd_at d = decided
    \<and> (sd_disposition d, sd_reasons d) = (let v = shadow_verdict (pe_state ev) (map av_disposition as) in (fst v, [snd v]))
    \<and> (sd_disposition d = ''abstain'' \<longleftrightarrow> pe_state ev \<noteq> ''complete'' \<or> as = [] \<or> (\<exists>a \<in> set as. av_disposition a \<in> {''abstain'', ''inconclusive''}))
    \<and> (sd_disposition d = ''observe'' \<longrightarrow> pe_state ev = ''complete''
         \<and> (\<forall>a \<in> set as. av_disposition a \<notin> {''abstain'', ''inconclusive'', ''escalate'', ''challenge''}))"
proof -
  let ?v = "shadow_verdict (pe_state ev) (map av_disposition as)"
  let ?d = "\<lparr>sd_event = pe_id ev, sd_disposition = fst ?v, sd_reasons = [snd ?v], sd_assessments = map av_id as, sd_at = decided\<rparr>"
  have "first_error [(\<not> (event_fields_ok ev \<and> 1 \<le> py_len (pe_activity ev) \<and> py_len (pe_activity ev) \<le> 128), PortfolioInvalid ''field'')] = None"
    using assms unfolding mk_event_v0_def raise_first_Inr_iff first_error_Cons by simp
  then have ev: "sha256_text (pe_id ev)" "pe_state ev \<in> set telemetry_states" by (simp_all add: event_fields_ok_def split: if_splits)
  have mk: "mk_shadow_decision ?d = Inr d \<longleftrightarrow> d = ?d \<and> dt_aware decided \<and> distinct (map av_id as) \<and> list_all sha256_text (map av_id as)"
    unfolding mk_shadow_decision_def raise_first_Inr_iff first_error_Cons
    using ev(1) shadow_disposition_range [of "pe_state ev" "map av_disposition as"] shadow_reason_token [OF ev(2), of "map av_disposition as"]
    by auto
  have eq: "d = ?d \<longleftrightarrow> sd_event d = pe_id ev \<and> sd_assessments d = map av_id as \<and> sd_at d = decided \<and> sd_disposition d = fst ?v \<and> sd_reasons d = [snd ?v]"
    by (cases d) auto
  have abstain: "fst ?v = ''abstain'' \<longleftrightarrow> pe_state ev \<noteq> ''complete'' \<or> as = [] \<or> (\<exists>a \<in> set as. av_disposition a \<in> {''abstain'', ''inconclusive''})"
    by (auto simp: shadow_verdict_def list_ex_iff)
  have observe: "fst ?v = ''observe'' \<Longrightarrow> pe_state ev = ''complete''
         \<and> (\<forall>a \<in> set as. av_disposition a \<notin> {''abstain'', ''inconclusive'', ''escalate'', ''challenge''})"
    by (auto simp: shadow_verdict_def list_ex_iff image_iff split: if_splits)
  have "evaluate_shadow_event ev as decided = Inr d \<longleftrightarrow>
      dt_aware decided \<and> dt_le (pe_at ev) decided \<and> (\<forall>a \<in> set as. av_event a = pe_id ev) \<and> mk_shadow_decision ?d = Inr d"
    by (auto simp: evaluate_shadow_event_def Let_def dt_less_def dt_le_def list_ex_iff not_less)
  then show ?thesis unfolding mk eq Let_def using abstain observe by auto
qed

section \<open>Witnesses\<close>

definition sample_observed :: "char \<Rightarrow> portfolio_event" where
  "sample_observed c = \<lparr>pe_id = zero_sha256, pe_project = ''p'', pe_repository = ''o/r'', pe_sha = replicate 40 CHR ''0'',
     pe_at = \<lparr>dt_instant = 0, dt_offset = Some 3600\<rparr>, pe_producer = zero_sha256, pe_surface = ''user'', pe_activity = [c], pe_entities = [],
     pe_parents = [], pe_data = zero_sha256, pe_authority = None, pe_state = ''complete''\<rparr>"

lemma sample_observed_fields: "event_fields_ok (sample_observed c)"
  by (simp add: event_fields_ok_def sample_observed_def git_object_text_def repository_id_text_def repository_char_def
      source_surfaces_def telemetry_states_def list_all_iff is_lower_hex_def is_digit_def is_lower_alpha_def)

lemma sample_observed_valid:
  assumes "is_lower_alpha c"
  shows "portfolio_event_ok (sample_observed c)" "mk_event_v0 (sample_observed c) = Inr (sample_observed c)"
proof -
  let ?ev = "sample_observed c"
  have ascii: "is_ascii [c]" using assms by (simp add: is_ascii_def is_lower_alpha_def)
  have t: "canonical_token (pe_activity ?ev)" "pe_parents ?ev = []" "pe_entities ?ev = []"
    "dt_aware (pe_at ?ev)" "time_supported (pe_at ?ev)" "py_len (pe_activity ?ev) = 1"
    using assms py_len_ascii [OF ascii]
    by (simp_all add: sample_observed_def token_char_def dt_aware_def time_supported_def max_supported_time_def)
  with sample_observed_fields [of c] show "portfolio_event_ok ?ev" by (simp add: portfolio_event_ok_iff)
  show "mk_event_v0 ?ev = Inr ?ev"
    unfolding mk_event_v0_def raise_first_Inr_iff first_error_Cons using sample_observed_fields [of c] t by simp
qed

lemmas sample_observed_ok = sample_observed_valid [of "CHR ''a''", simplified is_lower_alpha_def, simplified]
  sample_observed_valid [of "CHR ''b''", simplified is_lower_alpha_def, simplified]

lemma sample_observed_encodes: "is_lower_alpha c \<Longrightarrow> \<exists>raw. encode_observation C (sample_observed c) = Inr raw"
proof -
  assume c: "is_lower_alpha c"
  then have ascii: "is_ascii [c]" by (simp add: is_ascii_def is_lower_alpha_def)
  have stamp: "length (utc_stamp t) = 27" for t by (simp add: utc_stamp_def Let_def split_def)
  have z: "is_ascii zero_sha256" "length zero_sha256 = 64"
    using sha256_text_ascii [OF zero_sha256_text] by (simp, simp add: zero_sha256_def)
  let ?v = "JObj (event_members (sample_observed c))"
  have "sized_json False ?v" using z ascii by (simp add: event_members_def sample_observed_def strings_def str_ok_def)
  moreover have "json_weight ?v < max_observation_bytes"
    using z(2) by (simp add: event_members_def sample_observed_def strings_def stamp max_observation_bytes_def)
  ultimately have "length (dumps (float_repr C) False ?v) < max_observation_bytes"
    using sized_dumps_length [of False ?v "float_repr C"] by linarith
  then show ?thesis
    using event_encodable [OF event_members_ok [OF sample_observed_valid(1) [OF c]]]
    unfolding encode_observation_def companion_json_def Let_def by simp
qed

text \<open>
  Two events, their canonical bytes, and a hash that tells apart the texts that their commitments are made of.
\<close>

theorem observation_commitment_binds_witness:
  "\<exists>C c d. commit_observation C (sample_observed CHR ''a'') = Inr c \<and> commit_observation C (sample_observed CHR ''b'') = Inr d
    \<and> cm_commitment c \<noteq> cm_commitment d"
proof -
  let ?a = "sample_observed CHR ''a''" and ?b = "sample_observed CHR ''b''"
  obtain r s where e: "encode_observation sample_codec ?a = Inr r" "encode_observation sample_codec ?b = Inr s"
    using sample_observed_encodes [of "CHR ''a''" sample_codec] sample_observed_encodes [of "CHR ''b''" sample_codec]
    by (auto simp: is_lower_alpha_def)
  have neq: "?a\<lparr>pe_at := utc (pe_at ?a)\<rparr> \<noteq> ?b\<lparr>pe_at := utc (pe_at ?b)\<rparr>" by (simp add: sample_observed_def)
  then have rs: "r \<noteq> s" using encode_observation_inject [OF sample_observed_ok(1,3) e(1)] e(2) by blast
  let ?t = "commitment_text zero_sha256" and ?u = "commitment_text (replicate 64 CHR ''1'')"
  have brace: "hd r = CHR ''{''" "hd s = CHR ''{''" "hd ?t \<noteq> CHR ''{''" "hd ?u \<noteq> CHR ''{''"
    using e unfolding encode_observation_Inr [OF sample_observed_ok(1)] encode_observation_Inr [OF sample_observed_ok(3)]
    by (simp_all add: commitment_text_def)
  have ones: "replicate 64 CHR ''1'' \<noteq> zero_sha256" "sha256_text (replicate 64 CHR ''1'')"
    by (simp_all add: zero_sha256_def sha256_text_def list_all_iff is_lower_hex_def is_digit_def)
  define C where "C = sample_codec\<lparr>sha256_hex := \<lambda>x. if x = r \<or> x = ?t then zero_sha256 else replicate 64 CHR ''1''\<rparr>"
  have h: "sha256_hex C r = zero_sha256" "sha256_hex C ?t = zero_sha256" "sha256_hex C s = replicate 64 CHR ''1''"
    "sha256_hex C ?u = replicate 64 CHR ''1''"
    using rs brace ones(1) by (auto simp: C_def commitment_text_inject)
  have hash: "hash_ok C" using ones(2) by (simp add: hash_ok_def C_def)
  have e': "encode_observation C ?a = Inr r" "encode_observation C ?b = Inr s"
    using e encode_observation_codec [of C sample_codec] by (simp_all add: C_def)
  obtain c d where m: "commit_observation C ?a = Inr c" "commit_observation C ?b = Inr d"
    using e' unfolding commit_observation_Inr [OF hash] by blast
  have "inj_on (sha256_hex C) {r, s}" "inj_on (sha256_hex C) {commitment_text (sha256_hex C r), commitment_text (sha256_hex C s)}"
    using h ones(1) ones(1) [symmetric] by (auto simp: inj_on_def)
  from observation_commitment_binds [OF sample_observed_ok(1,3) e' m this] neq m show ?thesis by blast
qed

theorem observation_round_trip_witness:
  "\<exists>raw. encode_observation sample_codec (sample_observed CHR ''a'') = Inr raw
    \<and> decode_observation sample_codec (\<lambda>_. False)
        (\<lambda>_. Some (sample_observed CHR ''a''\<lparr>pe_at := utc (pe_at (sample_observed CHR ''a''))\<rparr>)) raw
       = Inr (sample_observed CHR ''a''\<lparr>pe_at := utc (pe_at (sample_observed CHR ''a''))\<rparr>)"
proof -
  let ?ev = "sample_observed CHR ''a''"
  obtain raw where r: "encode_observation sample_codec ?ev = Inr raw"
    using sample_observed_encodes [of "CHR ''a''"] by (auto simp: is_lower_alpha_def)
  have "event_reads_back (\<lambda>_. Some (?ev\<lparr>pe_at := utc (pe_at ?ev)\<rparr>)) ?ev" by (simp add: event_reads_back_def)
  from observation_round_trip [OF sample_observed_ok(1) r this, of "\<lambda>_. False"] r show ?thesis by blast
qed

theorem shadow_decision_exact_witness:
  "evaluate_shadow_event (sample_observed CHR ''a'') [] (pe_at (sample_observed CHR ''a'')) = Inr
     \<lparr>sd_event = zero_sha256, sd_disposition = ''abstain'', sd_reasons = [''advisory.missing''], sd_assessments = [], sd_at = pe_at (sample_observed CHR ''a'')\<rparr>"
  unfolding shadow_decision_exact [OF sample_observed_ok(2)]
  by (simp add: sample_observed_def dt_aware_def dt_le_def shadow_verdict_def)

end
