(* ===== verification/Spec2Isabelle.thy ===== *)
theory Spec2Isabelle
  imports Ancestry_Properties Guard_Properties Gateway_Witnesses Gateway_Files Covering Attestation Quarantine_Witnesses
    Workspace_Witnesses Handoff Admission_Witnesses Mcp_Properties Portfolio_Properties
begin

text \<open>
  The deterministic core of the agentic security harness (\<open>src/agentic_security_harness/\<close>): the parts that decide
  whether an action of an agent may happen, and the parts that keep the evidence for it.

  \<^bold>\<open>The program.\<close>  The harness puts policy between an untrusted agent and its effects. A request is checked
  against data envelopes (\<open>envelope_policy.py\<close>) and by the runtime guard
  (\<open>runtime_guard_foundation.py\<close>); governed memory is read through \<open>memory_governance.py\<close>. The gateway
  (\<open>runtime_gateway.py\<close>) is an HTTP server that evaluates tool calls under one closed policy and appends a record
  to a hash-chained audit file before it executes. The quarantine connector (\<open>quarantine_connector.py\<close>) turns
  untrusted provider bytes into a bounded envelope, and \<open>quarantine_gateway_composition.py\<close> hands admitted requests
  to the gateway's policy. The ancestry store (\<open>ancestry_store.py\<close>) keeps records with lineage in SQLite next to a
  witness file; \<open>trajectory_admission.py\<close> retains telemetry in it and assesses it later against the accounting
  records of \<open>companion_contracts.py\<close>. The guarded workspace (\<open>workspace_writer.py\<close>,
  \<open>_workspace_files.py\<close>) creates configured output files after asking the guard, and
  \<open>workspace_operation.py\<close> coordinates one such output through a database, so that a crash at any point leaves an
  outcome that can be told. \<open>handoff_integrity.py\<close> checks what an agent hands to another,
  \<open>portfolio_contract.py\<close> commits to observations, \<open>covering_array.py\<close> designs the test scenarios and
  \<open>attestation_policy.py\<close> decides on a release.

  \<^bold>\<open>Conventions.\<close>  A Python \<open>str\<close> or \<open>bytes\<close> is its list of bytes
  (\<open>Pytext\<close>: UTF-8, a lone surrogate in its three-byte form). A function that may raise returns \<open>error +
  value\<close>; a chain of \<open>if ..: raise\<close> is \<open>raise_first\<close>. A pydantic model or dataclass is a record
  with a constructor function \<open>mk_..\<close> that makes the checks of its fields and validators; other operations take
  constructed records. A dict is an association list where its order or duplicates are visible. Hash functions, the text of a
  double and the texts of timestamps are the fields of the record \<open>codec\<close>, a parameter: what is proved about
  digests says "equal, unless two different texts have the same hash".

  \<^bold>\<open>Theories.\<close>

  \<^item> \<open>Prelude\<close>, \<open>Pytext\<close>: results, guards, text, decimal numerals; \<open>max\<close> with a
    key, with the locale \<open>key_order\<close> of the comparisons for which it picks a greatest element.
  \<^item> \<open>Json\<close>, \<open>Json_Roundtrip\<close>, \<open>Json_Default\<close>, \<open>Json_Hooks\<close>,
    \<open>Codec\<close>: \<open>json.dumps\<close> with sorted keys and compact separators, \<open>json.loads\<close> with its
    hooks. Rendering is inverted by parsing and is injective up to key order. The scanner runs on fuel; \<open>2 * length +
    1\<close> steps are always enough, and parsing is proved never to run out. Locale \<open>hook_invariant\<close>: what the
    hooks establish on each value they build holds of the parsed document. Locale \<open>json_digest\<close>: a digest of a
    rendered document binds the document. \<open>Json_Size\<close>: fields of sorted documents, and a bound of the length of a
    rendering. \<open>Doubles\<close>: Python's float arithmetic over the rationals.
  \<^item> \<open>Envelope\<close>: \<open>DataEnvelope\<close> of \<open>models.py\<close>, every function of
    \<open>envelope_policy.py\<close> and \<open>memory_governance.py\<close>. Locale \<open>restriction_order\<close>: a chain
    of accepted hops never weakens the origin.
  \<^item> \<open>Uri\<close>, \<open>Guard_Model\<close>, \<open>Guard_Eval\<close>, \<open>Guard_Properties\<close>:
    \<open>urlsplit\<close> and \<open>fnmatchcase\<close>, the records and validators of the runtime guard,
    \<open>evaluate_action\<close> with its capability, consent, provider and budget checks and the evidence receipt. The lemmas
    say what a decision to proceed has passed, bound the budget, show the fail-closed and owner-gated cases, and give
    for each code the check whose failure it reports. The decision hash binds the receipt.
  \<^item> \<open>Ancestry_Store\<close>, \<open>Ancestry_Codec\<close>, \<open>Ancestry_Log\<close>,
    \<open>Ancestry_Recovery\<close>, \<open>Ancestry_Session\<close>, \<open>Ancestry_Properties\<close>: the store over a
    state \<open>disk\<close> (committed database, witness bytes, lock file). An operation returns its result and its durable
    effects in order, so that a crash is a prefix of them. The abstract specification is a list of records with lineage;
    \<open>Ancestry_Log\<close> proves the full scan accepts exactly the stored forms of such lists,
    \<open>Ancestry_Recovery\<close> what every interrupted operation leaves, \<open>Ancestry_Session\<close> runs of any
    operations and crashes (an inductive relation). \<open>closure_loop\<close> ends because each round moves a known record out
    of those not yet seen.
  \<^item> \<open>Gateway_Model\<close>, \<open>Gateway_Ledger\<close>, \<open>Gateway_Chain\<close>,
    \<open>Gateway_Http\<close>, \<open>Gateway_Mcp\<close>, \<open>Gateway_Properties\<close>,
    \<open>Gateway_Witnesses\<close>: contracts and policy, the audit ledger as the bytes of its file, the engine and both HTTP
    methods with every early return. The abstract specification of the ledger is an append-only list of records, which
    \<open>append\<close> refines. \<open>Gateway_Files\<close>: the link, identity and size checks as functions of the answers
    of the file system.
  \<^item> \<open>Quarantine_Model\<close>, \<open>Quarantine\<close>, \<open>Quarantine_Properties\<close>,
    \<open>Quarantine_Roundtrip\<close>, \<open>Quarantine_Witnesses\<close>: profiles and their registry, the decoding of
    candidate bytes, the verdict, the bridge to a gateway call and the composition with the gateway's policy.
  \<^item> \<open>Wire_Json\<close>, \<open>Wire_Roundtrip\<close>: the strict reader \<open>_json\<close> of
    \<open>ollama_quarantine_adapter.py\<close>, by which the guarded workspace reads proposals, and that it reads what is
    rendered canonically.
  \<^item> \<open>Workspace_Files\<close>, \<open>Workspace_Policy\<close>, \<open>Workspace_Writer\<close>: create-only files
    over a state of the file system, with what the system may answer as arguments, the host's policy and \<open>_decide\<close>,
    and \<open>GuardedWorkspace\<close> with \<open>verify_workspace_output\<close>. \<open>Workspace_Decide\<close> proves what
    the guard says to the action that is built, \<open>Workspace_Submit\<close> what each stage of \<open>submit\<close> does to
    the files, \<open>Workspace_Receipt\<close> that the receipts it stores are those the verifier accepts.
  \<^item> \<open>Workspace_Operation\<close>: each transaction of \<open>workspace_operation.py\<close> over its SQLite row
    (\<open>Sqlite\<close>: column values). \<open>Workspace_Protocol\<close> is the step relation of many processes and
    crashes, with its invariant by rule induction: one effect at most, outcomes are final. \<open>Workspace_Delivery\<close> and
    \<open>Workspace_Liveness\<close> prove that an undisturbed operation ends with its file written and its receipt verified;
    \<open>Workspace_Properties\<close> and \<open>Workspace_Witnesses\<close> state and apply the properties.
  \<^item> \<open>Handoff\<close>: envelopes between agents, their verification against the expected one and the raw reader. A
    chain of accepted hops never widens the first.
  \<^item> \<open>Trajectory\<close>, \<open>Trajectory_Graph\<close>, \<open>Trajectory_Properties\<close>: the facts
    recomputed from the observations of an operation, the accounting record, its validator and builder. Locale
    \<open>kahn_graph\<close>: the queue of Kahn's algorithm visits every event exactly when the relation has no cycle; the loop
    ends because the queue shrinks with the events still to be released. The builder returns a record
    for exactly the consistent histories, and the validator accepts it.
  \<^item> \<open>Companion\<close>: coverage profiles, telemetry manifests, outcomes, structural receipts, the adapter audit,
    their encoding and digest. \<open>Mcp_Receipt\<close>, \<open>Mcp_Properties\<close>: the breadth-first summary of an MCP
    payload. It ends because each step removes nodes of the payload from the queue; an invariant of the walk gives the exact
    payloads whose receipt validates.
  \<^item> \<open>Trajectory_Admission\<close>, \<open>Admission_Properties\<close>, \<open>Admission_Witnesses\<close>:
    \<open>trajectory_admission.py\<close> over the ancestry store. A complete assessment binds the store, the manifest and the
    host's expectations; telemetry that was recorded is admitted.
  \<^item> \<open>Portfolio\<close>, \<open>Portfolio_Properties\<close>: the rest of \<open>portfolio_contract.py\<close>:
    events, their canonical bytes, decoder and commitment, assessments and the shadow decision. The UTC stamp of a time
    determines the time, so the bytes determine the event.
  \<^item> \<open>Covering\<close>: the greedy pairwise design; its loop ends because every round removes a candidate, and it
    never reaches its \<open>RuntimeError\<close>.
  \<^item> \<open>Attestation\<close>: the issues of an attestation entry and the verdict over all of them.

  \<^bold>\<open>Interfaces.\<close>  \<open>json_digest\<close> is interpreted for the ancestry store (\<open>anc\<close>), the
  guard (\<open>guard\<close>) and the gateway with each of its hash domains (\<open>gate\<close>);
  \<open>hook_invariant\<close> for the default hooks, the gateway's strict hooks, the quarantine's and the workspace's
  (\<open>wire_parse\<close>); \<open>restriction_order\<close> for \<open>envelope_violations\<close> and for the handoffs
  (\<open>handoff_order\<close>); \<open>kahn_graph\<close> for the events of a trajectory (\<open>trajectory\<close>);
  \<open>key_order\<close> for the ranking of memory records and for the gain of a scenario row.

  \<^bold>\<open>Environment.\<close>  The following are outside the model, and the definitions say where they enter: operating
  system locks, sockets and threads (each operation runs under the lock the code holds); the clock and random keys (arguments);
  the recursion limit of the JSON parser (\<open>qe_deep\<close> in the quarantine); the UTF-16 and UTF-32 detection of
  \<open>json.loads(bytes)\<close>; Unicode case folding (\<open>qe_normal\<close>) and \<open>str(value).lower()\<close> in the
  attestation policy; SQLite's \<open>LENGTH\<close> on texts with a zero byte; the digit limit of \<open>int\<close> in
  \<open>dumps\<close>; rounding of \<open>total_seconds\<close>; the coercions of pydantic in lax mode and which of several
  failing fields it names; \<open>urlsplit\<close> beyond printable ASCII; TOML and command lines. What
  \<open>workspace_admission.py\<close> answers, opening the database, absolute and case-folded paths, the parsed and rendered
  times and the elapsed milliseconds are fields of the environment of the workspace; the file system may refuse a creation or a
  read, but closing a descriptor does not fail. The readers by which pydantic builds an observation or an event from its JSON
  members are the parameters \<open>coerce\<close>, the recursion limit is the parameter \<open>deep\<close>; a conversion to
  UTC that leaves the range of \<open>datetime\<close> is left out, and so is the sign of a zero among the scores of a
  handoff (JSON numbers keep it).

  \<^bold>\<open>Bounds.\<close>  An audit document of the workspace has at most 16384 bytes and a proposal at most twelve
  levels; a companion record has at most 262144 bytes, a portfolio observation 4096, an MCP payload 65536 and 4096 nodes. These
  are the code's bounds; that honest documents keep them follows from \<open>json_weight\<close>, which bounds a rendering
  without computing it.

  \<^bold>\<open>Not modelled.\<close>  The campaigns and stands (\<open>*_campaign.py\<close>, \<open>local_swarm*.py\<close>,
  \<open>trading_bot_stand.py\<close>, \<open>validation.py\<close>) drive the core with fixed scenarios and format their
  findings; the command line (\<open>cli.py\<close>, \<open>document_cli.py\<close>, \<open>workspace_cli.py\<close>), reports
  and storage of runs are input and output; the adapters call services; extensions, receipt auditors and corpora are tables of
  data with pydantic schemas. Of the modules that are modelled, \<open>decode_companion_record_v1\<close> and the functions that
  return JSON schemas are left out. The manifest lists each of them.
\<close>

end
